(* ===== verification/Prelude.thy ===== *)
theory Prelude
  imports Complex_Main "HOL-Library.Sublist"
begin

text \<open>
  Shared vocabulary of the development: the Python string operations the sources use, programs
  with effects and exceptions (a program maps a state to a result and the state left behind, so
  the effects made before a raise stay), the frame interface that says which part of the state
  a program leaves alone, and the fact collections the component theories fill.

  Text is a \<^typ>\<open>string\<close>, one character per code point, so the model covers text of code
  points below 256; slices and lengths count code points, as Python's do.
\<close>

named_theorems prog_simps \<open>unfolding of the program combinators\<close>
named_theorems frame_intros \<open>which programs respect which frames\<close>

section \<open>Strings\<close>

definition lower_char :: "char \<Rightarrow> char" where
  "lower_char c =
     (let n = (of_char c :: nat)
      in if (65 \<le> n \<and> n \<le> 90) \<or> (192 \<le> n \<and> n \<le> 222 \<and> n \<noteq> 215) then char_of (n + 32) else c)"

definition py_lower :: "string \<Rightarrow> string" where
  "py_lower = map lower_char"

definition is_space :: "char \<Rightarrow> bool" where
  "is_space c =
     (let n = (of_char c :: nat)
      in (9 \<le> n \<and> n \<le> 13) \<or> (28 \<le> n \<and> n \<le> 32) \<or> n = 133 \<or> n = 160)"

definition py_strip :: "string \<Rightarrow> string" where
  "py_strip s = rev (dropWhile is_space (rev (dropWhile is_space s)))"

definition starts_with :: "string \<Rightarrow> string \<Rightarrow> bool" where
  "starts_with p s \<longleftrightarrow> take (length p) s = p"

definition ends_with :: "string \<Rightarrow> string \<Rightarrow> bool" where
  "ends_with p s \<longleftrightarrow> starts_with (rev p) (rev s)"

fun contains_text :: "string \<Rightarrow> string \<Rightarrow> bool" where
  "contains_text p [] = (p = [])"
| "contains_text p (c # cs) = (starts_with p (c # cs) \<or> contains_text p cs)"

definition replace_char :: "char \<Rightarrow> char \<Rightarrow> string \<Rightarrow> string" where
  "replace_char a b = map (\<lambda>c. if c = a then b else c)"

text \<open>\<open>s.split()\<close>: the maximal runs of non-blank characters.\<close>

fun split_from :: "string \<Rightarrow> string \<Rightarrow> string list" where
  "split_from w [] = (if w = [] then [] else [rev w])"
| "split_from w (c # cs) =
     (if is_space c then (if w = [] then split_from [] cs else rev w # split_from [] cs)
      else split_from (c # w) cs)"

definition py_split :: "string \<Rightarrow> string list" where
  "py_split = split_from []"

fun join_with :: "string \<Rightarrow> string list \<Rightarrow> string" where
  "join_with sep [] = []"
| "join_with sep [x] = x"
| "join_with sep (x # y # zs) = x @ sep @ join_with sep (y # zs)"

definition digit_char :: "nat \<Rightarrow> char" where
  "digit_char n = char_of (48 + n)"

fun nat_text :: "nat \<Rightarrow> string" where
  "nat_text n = (if n < 10 then [digit_char n] else nat_text (n div 10) @ [digit_char (n mod 10)])"

declare nat_text.simps [simp del]

definition int_text :: "int \<Rightarrow> string" where
  "int_text i = (if i < 0 then CHR ''-'' # nat_text (nat (- i)) else nat_text (nat i))"

lemma starts_with_prefix: "starts_with p s \<longleftrightarrow> prefix p s"
proof
  assume "starts_with p s"
  then have "s = p @ drop (length p) s"
    unfolding starts_with_def by (metis append_take_drop_id)
  then show "prefix p s" by (metis prefixI)
next
  assume "prefix p s"
  then show "starts_with p s" by (auto simp: starts_with_def prefix_def)
qed

lemma contains_text_sublist: "contains_text p s \<longleftrightarrow> sublist p s"
  by (induction s) (auto simp: starts_with_prefix sublist_Cons_right)

lemma starts_with_append [simp]: "starts_with p (p @ s)"
  by (simp add: starts_with_def)

lemma length_py_lower [simp]: "length (py_lower s) = length s"
  by (simp add: py_lower_def)

section \<open>Option and list helpers\<close>

definition get_or :: "'a \<Rightarrow> 'a option \<Rightarrow> 'a" where
  "get_or d x = (case x of None \<Rightarrow> d | Some v \<Rightarrow> v)"

lemma get_or_simps [simp]: "get_or d None = d" "get_or d (Some v) = v"
  by (simp_all add: get_or_def)

text \<open>Python's \<open>if s:\<close> on an optional string: neither None nor the empty string.\<close>

definition truthy :: "string option \<Rightarrow> bool" where
  "truthy x = (case x of None \<Rightarrow> False | Some s \<Rightarrow> s \<noteq> [])"

lemma truthy_simps [simp]: "truthy None = False" "truthy (Some s) = (s \<noteq> [])"
  by (simp_all add: truthy_def)

text \<open>A dict literal or comprehension keeps the last value given for a key.\<close>

definition dict_of :: "('k \<times> 'v) list \<Rightarrow> 'k \<Rightarrow> 'v option" where
  "dict_of kvs = map_of (rev kvs)"

lemma dict_of_Nil [simp]: "dict_of [] k = None"
  by (simp add: dict_of_def)

lemma dict_of_Cons:
  "dict_of ((k, v) # kvs) x = (case dict_of kvs x of Some w \<Rightarrow> Some w | None \<Rightarrow> if x = k then Some v else None)"
  by (auto simp: dict_of_def map_add_def split: option.splits)

lemma dict_of_SomeD: "dict_of kvs k = Some v \<Longrightarrow> (k, v) \<in> set kvs"
  by (auto simp: dict_of_def dest: map_of_SomeD)

lemma dict_of_None_iff: "dict_of kvs k = None \<longleftrightarrow> k \<notin> fst ` set kvs"
  by (auto simp: dict_of_def map_of_eq_None_iff)

lemma dict_of_append:
  "dict_of (xs @ ys) k = (case dict_of ys k of Some v \<Rightarrow> Some v | None \<Rightarrow> dict_of xs k)"
  by (auto simp: dict_of_def map_add_def split: option.splits)

text \<open>Order-preserving removal of duplicates, the first occurrence kept.\<close>

fun dedupe_from :: "'a list \<Rightarrow> 'a list \<Rightarrow> 'a list" where
  "dedupe_from seen [] = []"
| "dedupe_from seen (x # xs) =
     (if x \<in> set seen then dedupe_from seen xs else x # dedupe_from (x # seen) xs)"

lemma set_dedupe_from: "set (dedupe_from seen xs) = set xs - set seen"
  by (induction seen xs rule: dedupe_from.induct) auto

lemma distinct_dedupe_from: "distinct (dedupe_from seen xs)"
  by (induction seen xs rule: dedupe_from.induct) (auto simp: set_dedupe_from)

section \<open>Tables\<close>

text \<open>
  The interface of a table of items under keys: what a lookup returns after an item is written.
  Every store of the program that writes whole items relies on these laws only.
\<close>

locale keyed_table =
  fixes look :: "'s \<Rightarrow> 'k \<Rightarrow> 'v option"
    and store :: "'k \<Rightarrow> 'v \<Rightarrow> 's \<Rightarrow> 's"
  assumes look_store_same: "look (store k v s) k = Some v"
    and look_store_other: "k \<noteq> k' \<Longrightarrow> look (store k v s) k' = look s k'"
begin

lemma look_store: "look (store k v s) k' = (if k' = k then Some v else look s k')"
  using look_store_same look_store_other by auto

text \<open>Items written one after the other: the last one under a key is found.\<close>

lemma look_store_all:
  "look (foldl (\<lambda>t (k, v). store k v t) s kvs) k = (case dict_of kvs k of Some v \<Rightarrow> Some v | None \<Rightarrow> look s k)"
proof (induction kvs arbitrary: s)
  case Nil
  then show ?case by simp
next
  case (Cons kv kvs)
  obtain k' v' where "kv = (k', v')" by (cases kv)
  with Cons show ?case by (auto simp: dict_of_Cons look_store split: option.splits)
qed

end

section \<open>Programs with effects and exceptions\<close>

text \<open>
  The exceptions the sources raise and catch by class; \<open>Raised\<close> carries the class name and the
  message of those that are never told apart.
\<close>

datatype pyexn =
    KeyError string
  | ValueError string
  | TypeError string
  | AttributeError string
  | RuntimeError string
  | ClientError string
  | ConditionalCheckFailed
  | ExternalError string
  | ToolDeniedError string string
  | ApprovalRequiredError string
  | AgentNotFoundError string string
  | AgentVersionNotFoundError string "int option"
  | ConfigIntegrityError string string string
  | UnknownAgentError string
  | VersionNotFoundError string int
  | VersionAlreadyExistsError string int
  | InvalidRollbackError string
  | CircularDependencyError string
  | NoApiKeyProvisionedError string
  | ValidationError string
  | HttpError int string
  | Raised string string

type_synonym ('s, 'a) prog = "'s \<Rightarrow> (pyexn + 'a) \<times> 's"

definition ret :: "'a \<Rightarrow> ('s, 'a) prog" where
  "ret x s = (Inr x, s)"

definition raising :: "pyexn \<Rightarrow> ('s, 'a) prog" where
  "raising e s = (Inl e, s)"

definition andthen :: "('s, 'a) prog \<Rightarrow> ('a \<Rightarrow> ('s, 'b) prog) \<Rightarrow> ('s, 'b) prog" where
  "andthen m f s = (case m s of (Inl e, s') \<Rightarrow> (Inl e, s') | (Inr x, s') \<Rightarrow> f x s')"

definition catching :: "('s, 'a) prog \<Rightarrow> (pyexn \<Rightarrow> ('s, 'a) prog) \<Rightarrow> ('s, 'a) prog" where
  "catching m h s = (case m s of (Inl e, s') \<Rightarrow> h e s' | (Inr x, s') \<Rightarrow> (Inr x, s'))"

definition reads :: "('s \<Rightarrow> 'a) \<Rightarrow> ('s, 'a) prog" where
  "reads f s = (Inr (f s), s)"

definition modifies :: "('s \<Rightarrow> 's) \<Rightarrow> ('s, unit) prog" where
  "modifies f s = (Inr (), f s)"

declare ret_def [prog_simps] raising_def [prog_simps] andthen_def [prog_simps]
  catching_def [prog_simps] reads_def [prog_simps] modifies_def [prog_simps]

lemma andthen_ret [simp]: "andthen (ret x) f = f x"
  by (rule ext) (simp add: prog_simps)

lemma andthen_raising [simp]: "andthen (raising e) f = raising e"
  by (rule ext) (simp add: prog_simps)

lemma andthen_Inr: "m s = (Inr x, s') \<Longrightarrow> andthen m f s = f x s'"
  by (simp add: andthen_def)

lemma andthen_Inl: "m s = (Inl e, s') \<Longrightarrow> andthen m f s = (Inl e, s')"
  by (simp add: andthen_def)

lemma andthen_assoc: "andthen (andthen m f) g = andthen m (\<lambda>x. andthen (f x) g)"
  by (rule ext) (simp add: andthen_def split: prod.splits sum.splits)

lemma andthen_InrE:
  assumes "andthen m f s = (Inr y, t)"
  obtains x u where "m s = (Inr x, u)" and "f x u = (Inr y, t)"
  using assms by (auto simp: andthen_def split: prod.splits sum.splits)

lemma snd_catching_quiet: "snd (catching m (\<lambda>_. ret x) s) = snd (m s)"
  by (simp add: catching_def ret_def split: prod.splits sum.splits)

section \<open>Frames: what a program leaves related\<close>

text \<open>
  A frame is a preorder on states. A program is within the frame when the state it leaves,
  normally or by an exception, is related to the state it started in. The interface promises
  that a frame is closed under the program combinators, so that a component proves it once per
  external call and the composed handlers inherit it.
\<close>

definition stays_in :: "('s \<Rightarrow> 's \<Rightarrow> bool) \<Rightarrow> ('s, 'a) prog \<Rightarrow> bool" where
  "stays_in R m \<longleftrightarrow> (\<forall>s. R s (snd (m s)))"

lemma stays_inD: "stays_in R m \<Longrightarrow> m s = (r, t) \<Longrightarrow> R s t"
  unfolding stays_in_def by (metis snd_conv)

lemma stays_inI: "(\<And>s r t. m s = (r, t) \<Longrightarrow> R s t) \<Longrightarrow> stays_in R m"
  unfolding stays_in_def by (metis prod.collapse)

locale frame =
  fixes R :: "'s \<Rightarrow> 's \<Rightarrow> bool"
  assumes frame_refl: "R s s"
    and frame_trans: "R s t \<Longrightarrow> R t u \<Longrightarrow> R s u"
begin

lemma stays_ret [frame_intros]: "stays_in R (ret x)"
  by (simp add: stays_in_def ret_def frame_refl)

lemma stays_raising [frame_intros]: "stays_in R (raising e)"
  by (simp add: stays_in_def raising_def frame_refl)

lemma stays_reads [frame_intros]: "stays_in R (reads f)"
  by (simp add: stays_in_def reads_def frame_refl)

lemma stays_andthen [frame_intros]:
  "stays_in R m \<Longrightarrow> (\<And>x. stays_in R (f x)) \<Longrightarrow> stays_in R (andthen m f)"
  unfolding stays_in_def andthen_def
  by (auto split: prod.splits sum.splits) (metis frame_trans snd_conv)+

lemma stays_catching [frame_intros]:
  "stays_in R m \<Longrightarrow> (\<And>e. stays_in R (h e)) \<Longrightarrow> stays_in R (catching m h)"
  unfolding stays_in_def catching_def
  by (auto split: prod.splits sum.splits) (metis frame_trans snd_conv)+

lemma stays_if [frame_intros]: "stays_in R m \<Longrightarrow> stays_in R n \<Longrightarrow> stays_in R (if b then m else n)"
  by simp

lemma stays_option [frame_intros]:
  "stays_in R m \<Longrightarrow> (\<And>x. stays_in R (f x)) \<Longrightarrow> stays_in R (case v of None \<Rightarrow> m | Some x \<Rightarrow> f x)"
  by (simp split: option.splits)

lemma stays_sum [frame_intros]:
  "(\<And>x. stays_in R (f x)) \<Longrightarrow> (\<And>y. stays_in R (g y)) \<Longrightarrow> stays_in R (case v of Inl x \<Rightarrow> f x | Inr y \<Rightarrow> g y)"
  by (simp split: sum.splits)

lemma stays_prod [frame_intros]:
  "(\<And>x y. stays_in R (f x y)) \<Longrightarrow> stays_in R (case v of (x, y) \<Rightarrow> f x y)"
  by (simp split: prod.splits)

lemma stays_list [frame_intros]:
  "stays_in R m \<Longrightarrow> (\<And>x xs. stays_in R (f x xs)) \<Longrightarrow> stays_in R (case v of [] \<Rightarrow> m | x # xs \<Rightarrow> f x xs)"
  by (simp split: list.splits)

text \<open>A sequence leaves the frame only in its second half, when the first half stays inside.\<close>

lemma leaves_after:
  assumes "\<not> R s (snd (andthen m f s))" and "stays_in R m"
  obtains x u where "m s = (Inr x, u)" and "\<not> R u (snd (f x u))"
proof (cases "m s")
  case (Pair r u)
  have "R s u" by (rule stays_inD [OF assms(2) Pair])
  with assms(1) Pair that show ?thesis
    by (cases r) (auto simp: andthen_def intro: frame_trans)
qed

end

text \<open>The frame of an observation that a program must not change.\<close>

definition same :: "('s \<Rightarrow> 'a) \<Rightarrow> 's \<Rightarrow> 's \<Rightarrow> bool" where
  "same obs s t \<longleftrightarrow> obs s = obs t"

interpretation same_frame: frame "same obs" for obs
  by unfold_locales (simp_all add: same_def)

lemma same_outcome: "stays_in (same obs) m \<Longrightarrow> m s = (r, t) \<Longrightarrow> obs t = obs s"
  by (metis same_def stays_inD)

lemma andthen_cases:
  assumes "andthen m f s = (r, t)"
  obtains (stop) e where "m s = (Inl e, t)" and "r = Inl e"
    | (step) x u where "m s = (Inr x, u)" and "f x u = (r, t)"
  using assms by (auto simp: andthen_def split: prod.splits sum.splits)

text \<open>The frame of a log that a program may only extend.\<close>

definition grows :: "('s \<Rightarrow> 'a list) \<Rightarrow> 's \<Rightarrow> 's \<Rightarrow> bool" where
  "grows obs s t \<longleftrightarrow> prefix (obs s) (obs t)"

interpretation grows_frame: frame "grows obs" for obs
  by unfold_locales (auto simp: grows_def)

text \<open>The frame of a log that a program may only extend, and only by entries of one kind.\<close>

definition adds :: "('s \<Rightarrow> 'a list) \<Rightarrow> ('a \<Rightarrow> bool) \<Rightarrow> 's \<Rightarrow> 's \<Rightarrow> bool" where
  "adds obs P s t \<longleftrightarrow> (\<exists>xs. obs t = obs s @ xs \<and> list_all P xs)"

interpretation adds_frame: frame "adds obs P" for obs P
  by unfold_locales (auto simp: adds_def intro: exI [of _ "[]"])

lemma adds_same: "stays_in (same obs) m \<Longrightarrow> stays_in (adds obs P) m"
  by (auto simp: stays_in_def same_def adds_def intro: exI [of _ "[]"])

lemma adds_weaken:
  assumes "stays_in (adds obs P) m" and "\<And>x. P x \<Longrightarrow> Q x"
  shows "stays_in (adds obs Q) m"
  using assms unfolding stays_in_def adds_def by (metis (mono_tags, lifting) list_all_iff)

lemmas adds_intros = adds_frame.stays_ret adds_frame.stays_raising adds_frame.stays_reads
  adds_frame.stays_andthen adds_frame.stays_catching adds_frame.stays_if adds_frame.stays_option
  adds_frame.stays_sum adds_frame.stays_prod adds_frame.stays_list

lemma adds_outcome: "stays_in (adds obs P) m \<Longrightarrow> m s = (r, t) \<Longrightarrow> \<exists>xs. obs t = obs s @ xs \<and> list_all P xs"
  by (metis adds_def stays_inD)

end
