(* ===== verification/PyValue.thy ===== *)
theory PyValue
  imports Prelude
begin

text \<open>
  JSON-like Python values and the two standard renderings the sources rely on: \<open>repr\<close>/\<open>str\<close>
  (error texts, tool results put in a message) and \<open>json.dumps\<close>/\<open>json.loads\<close> (stored
  blobs, canonical hashes, tool arguments), with the round trip of the latter.

  A float is carried as the text \<open>float.__repr__\<close> writes for it. A dict is the list of its
  items in insertion order; \<open>dict_set\<close> is item assignment.
\<close>

datatype pyval =
    PNone
  | PBool bool
  | PInt int
  | PFloat string
  | PStr string
  | PList "pyval list"
  | PDict "(string \<times> pyval) list"

fun dict_set :: "string \<Rightarrow> 'a \<Rightarrow> (string \<times> 'a) list \<Rightarrow> (string \<times> 'a) list" where
  "dict_set k v [] = [(k, v)]"
| "dict_set k v ((k', v') # kvs) = (if k = k' then (k, v) # kvs else (k', v') # dict_set k v kvs)"

definition dict_collapse :: "(string \<times> 'a) list \<Rightarrow> (string \<times> 'a) list" where
  "dict_collapse kvs = foldl (\<lambda>d (k, v). dict_set k v d) [] kvs"

text \<open>\<open>v.get(k)\<close> on a dict; None for a missing key.\<close>

definition dict_get :: "string \<Rightarrow> pyval \<Rightarrow> pyval" where
  "dict_get k v = (case v of PDict kvs \<Rightarrow> (case map_of kvs k of None \<Rightarrow> PNone | Some x \<Rightarrow> x) | _ \<Rightarrow> PNone)"

fun py_truthy :: "pyval \<Rightarrow> bool" where
  "py_truthy PNone = False"
| "py_truthy (PBool b) = b"
| "py_truthy (PInt i) = (i \<noteq> 0)"
| "py_truthy (PFloat t) = (\<exists>c \<in> set (takeWhile (\<lambda>c. c \<notin> {CHR ''e'', CHR ''E''}) t). c \<notin> {CHR ''0'', CHR ''.'', CHR ''-''})"
| "py_truthy (PStr s) = (s \<noteq> [])"
| "py_truthy (PList xs) = (xs \<noteq> [])"
| "py_truthy (PDict kvs) = (kvs \<noteq> [])"

lemma dict_set_fresh: "k \<notin> fst ` set d \<Longrightarrow> dict_set k v d = d @ [(k, v)]"
  by (induction d) auto

lemma map_of_dict_set: "map_of (dict_set k v d) = (map_of d)(k \<mapsto> v)"
  by (induction d) auto

lemma dict_collapse_distinct:
  assumes "distinct (map fst kvs)"
  shows "dict_collapse kvs = kvs"
proof -
  have "foldl (\<lambda>d (k, v). dict_set k v d) acc kvs = acc @ kvs"
    if "distinct (map fst (acc @ kvs))" for acc
    using that
  proof (induction kvs arbitrary: acc)
    case Nil
    then show ?case by simp
  next
    case (Cons kv kvs)
    obtain k v where kv: "kv = (k, v)" by (cases kv)
    have "k \<notin> fst ` set acc" using Cons.prems kv by auto
    then have "foldl (\<lambda>d (k, v). dict_set k v d) acc (kv # kvs)
        = foldl (\<lambda>d (k, v). dict_set k v d) (acc @ [kv]) kvs"
      by (simp add: kv dict_set_fresh)
    also have "\<dots> = (acc @ [kv]) @ kvs"
      by (rule Cons.IH) (use Cons.prems in auto)
    finally show ?case by simp
  qed
  from this [of "[]"] assms show ?thesis by (simp add: dict_collapse_def)
qed

section \<open>repr and str\<close>

definition hex_digit :: "nat \<Rightarrow> char" where
  "hex_digit n = (if n < 10 then char_of (48 + n) else char_of (87 + n))"

definition repr_char :: "char \<Rightarrow> char \<Rightarrow> string" where
  "repr_char q c =
     (let n = (of_char c :: nat)
      in if c = q \<or> n = 92 then [CHR 0x5C, c]
         else if n = 10 then [CHR 0x5C, CHR ''n'']
         else if n = 13 then [CHR 0x5C, CHR ''r'']
         else if n = 9 then [CHR 0x5C, CHR ''t'']
         else if n < 32 \<or> (127 \<le> n \<and> n \<le> 160) \<or> n = 173
           then [CHR 0x5C, CHR ''x'', hex_digit (n div 16), hex_digit (n mod 16)]
         else [c])"

definition repr_str :: "string \<Rightarrow> string" where
  "repr_str s =
     (let q = (if CHR 0x27 \<in> set s \<and> CHR 0x22 \<notin> set s then CHR 0x22 else CHR 0x27)
      in q # concat (map (repr_char q) s) @ [q])"

fun py_repr :: "pyval \<Rightarrow> string" where
  "py_repr PNone = ''None''"
| "py_repr (PBool b) = (if b then ''True'' else ''False'')"
| "py_repr (PInt i) = int_text i"
| "py_repr (PFloat t) = t"
| "py_repr (PStr s) = repr_str s"
| "py_repr (PList xs) = ''['' @ join_with '', '' (map py_repr xs) @ '']''"
| "py_repr (PDict kvs) =
     ''{'' @ join_with '', '' (map (\<lambda>(k, v). repr_str k @ '': '' @ py_repr v) kvs) @ ''}''"

definition py_str :: "pyval \<Rightarrow> string" where
  "py_str v = (case v of PStr s \<Rightarrow> s | _ \<Rightarrow> py_repr v)"

section \<open>json.dumps\<close>

definition json_char :: "char \<Rightarrow> string" where
  "json_char c =
     (let n = (of_char c :: nat)
      in if n = 34 then [CHR 0x5C, CHR 0x22]
         else if n = 92 then [CHR 0x5C, CHR 0x5C]
         else if n = 10 then [CHR 0x5C, CHR ''n'']
         else if n = 13 then [CHR 0x5C, CHR ''r'']
         else if n = 9 then [CHR 0x5C, CHR ''t'']
         else if n = 12 then [CHR 0x5C, CHR ''f'']
         else if n = 8 then [CHR 0x5C, CHR ''b'']
         else if n < 32 \<or> 126 < n
           then [CHR 0x5C, CHR ''u'', CHR ''0'', CHR ''0'', hex_digit (n div 16), hex_digit (n mod 16)]
         else [c])"

definition json_text :: "string \<Rightarrow> string" where
  "json_text s = CHR 0x22 # concat (map json_char s) @ [CHR 0x22]"

fun json_dumps :: "pyval \<Rightarrow> string" where
  "json_dumps PNone = ''null''"
| "json_dumps (PBool b) = (if b then ''true'' else ''false'')"
| "json_dumps (PInt i) = int_text i"
| "json_dumps (PFloat t) = t"
| "json_dumps (PStr s) = json_text s"
| "json_dumps (PList xs) = ''['' @ join_with '', '' (map json_dumps xs) @ '']''"
| "json_dumps (PDict kvs) =
     ''{'' @ join_with '', '' (map (\<lambda>(k, v). json_text k @ '': '' @ json_dumps v) kvs) @ ''}''"

text \<open>\<open>sort_keys=True\<close>: every dict is sorted by key before it is written.\<close>

fun text_le :: "string \<Rightarrow> string \<Rightarrow> bool" where
  "text_le [] ys = True"
| "text_le (x # xs) [] = False"
| "text_le (x # xs) (y # ys) =
     ((of_char x :: nat) < of_char y \<or> (x = y \<and> text_le xs ys))"

fun insert_key :: "(string \<times> 'a) \<Rightarrow> (string \<times> 'a) list \<Rightarrow> (string \<times> 'a) list" where
  "insert_key kv [] = [kv]"
| "insert_key kv (kw # kws) =
     (if text_le (fst kv) (fst kw) then kv # kw # kws else kw # insert_key kv kws)"

definition sort_items :: "(string \<times> 'a) list \<Rightarrow> (string \<times> 'a) list" where
  "sort_items kvs = foldr insert_key kvs []"

fun sort_keys :: "pyval \<Rightarrow> pyval" where
  "sort_keys (PList xs) = PList (map sort_keys xs)"
| "sort_keys (PDict kvs) = PDict (sort_items (map (\<lambda>(k, v). (k, sort_keys v)) kvs))"
| "sort_keys v = v"

definition json_canonical :: "pyval \<Rightarrow> string" where
  "json_canonical v = json_dumps (sort_keys v)"

section \<open>json.loads\<close>

definition skip_ws :: "string \<Rightarrow> string" where
  "skip_ws = dropWhile (\<lambda>c. c \<in> {CHR '' '', CHR 0x09, CHR 0x0A, CHR 0x0D})"

definition is_digit :: "char \<Rightarrow> bool" where
  "is_digit c = (let n = (of_char c :: nat) in 48 \<le> n \<and> n \<le> 57)"

definition hex_val :: "char \<Rightarrow> nat option" where
  "hex_val c =
     (let n = (of_char c :: nat)
      in if 48 \<le> n \<and> n \<le> 57 then Some (n - 48)
         else if 97 \<le> n \<and> n \<le> 102 then Some (n - 87)
         else if 65 \<le> n \<and> n \<le> 70 then Some (n - 55) else None)"

definition hex4 :: "char \<Rightarrow> char \<Rightarrow> char \<Rightarrow> char \<Rightarrow> nat option" where
  "hex4 a b c d =
     (case (hex_val a, hex_val b, hex_val c, hex_val d) of
        (Some x, Some y, Some z, Some w) \<Rightarrow> Some (((x * 16 + y) * 16 + z) * 16 + w)
      | _ \<Rightarrow> None)"

definition json_unescape :: "char \<Rightarrow> char option" where
  "json_unescape c =
     (if c = CHR 0x22 \<or> c = CHR 0x5C \<or> c = CHR ''/'' then Some c
      else if c = CHR ''n'' then Some (CHR 0x0A)
      else if c = CHR ''r'' then Some (CHR 0x0D)
      else if c = CHR ''t'' then Some (CHR 0x09)
      else if c = CHR ''f'' then Some (CHR 0x0C)
      else if c = CHR ''b'' then Some (CHR 0x08) else None)"

fun parse_str :: "string \<Rightarrow> (string \<times> string) option" where
  "parse_str [] = None"
| "parse_str (c # cs) =
     (if c = CHR 0x22 then Some ([], cs)
      else if c = CHR 0x5C then
        (case cs of
           [] \<Rightarrow> None
         | e # r \<Rightarrow>
             (if e = CHR ''u'' then
                (case r of
                   a1 # a2 # a3 # a4 # r' \<Rightarrow>
                     (case hex4 a1 a2 a3 a4 of
                        None \<Rightarrow> None
                      | Some n \<Rightarrow>
                          (if n < 256
                           then map_option (\<lambda>(s, t). (char_of n # s, t)) (parse_str r')
                           else None))
                 | _ \<Rightarrow> None)
              else
                (case json_unescape e of
                   None \<Rightarrow> None
                 | Some x \<Rightarrow> map_option (\<lambda>(s, t). (x # s, t)) (parse_str r))))
      else if (of_char c :: nat) < 32 then None
      else map_option (\<lambda>(s, t). (c # s, t)) (parse_str cs))"

definition nat_literal :: "string \<Rightarrow> bool" where
  "nat_literal ds \<longleftrightarrow> ds \<noteq> [] \<and> list_all is_digit ds \<and> (hd ds \<noteq> CHR ''0'' \<or> length ds = 1)"

definition drop_minus :: "string \<Rightarrow> string" where
  "drop_minus t = (case t of [] \<Rightarrow> [] | c # cs \<Rightarrow> if c = CHR ''-'' then cs else t)"

definition digits_val :: "string \<Rightarrow> nat" where
  "digits_val ds = foldl (\<lambda>a c. a * 10 + (of_char c - 48)) 0 ds"

definition int_of_text :: "string \<Rightarrow> int" where
  "int_of_text t =
     (if t \<noteq> [] \<and> hd t = CHR ''-'' then - int (digits_val (tl t)) else int (digits_val t))"

definition exponent_literal :: "string \<Rightarrow> bool" where
  "exponent_literal r \<longleftrightarrow>
     (case r of [] \<Rightarrow> False
      | c # cs \<Rightarrow> c \<in> {CHR ''e'', CHR ''E''} \<and>
          (let ds = (case cs of [] \<Rightarrow> [] | d # ds \<Rightarrow> if d \<in> {CHR ''+'', CHR ''-''} then ds else cs)
           in ds \<noteq> [] \<and> list_all is_digit ds))"

definition float_literal :: "string \<Rightarrow> bool" where
  "float_literal t \<longleftrightarrow>
     (let u = drop_minus t; r = dropWhile is_digit u
      in nat_literal (takeWhile is_digit u) \<and>
         (case r of [] \<Rightarrow> False
          | c # cs \<Rightarrow>
              (if c = CHR ''.''
               then takeWhile is_digit cs \<noteq> [] \<and>
                    (dropWhile is_digit cs = [] \<or> exponent_literal (dropWhile is_digit cs))
               else exponent_literal r)))"

definition number_char :: "char \<Rightarrow> bool" where
  "number_char c \<longleftrightarrow> is_digit c \<or> c \<in> {CHR ''-'', CHR ''+'', CHR ''.'', CHR ''e'', CHR ''E''}"

definition parse_number :: "string \<Rightarrow> (pyval \<times> string) option" where
  "parse_number s =
     (let t = takeWhile number_char s; r = dropWhile number_char s
      in if nat_literal (drop_minus t) then Some (PInt (int_of_text t), r)
         else if float_literal t then Some (PFloat t, r) else None)"

definition parse_const :: "string \<Rightarrow> (pyval \<times> string) option" where
  "parse_const s =
     (if starts_with ''null'' s then Some (PNone, drop 4 s)
      else if starts_with ''true'' s then Some (PBool True, drop 4 s)
      else if starts_with ''false'' s then Some (PBool False, drop 5 s)
      else if starts_with ''NaN'' s then Some (PFloat ''NaN'', drop 3 s)
      else if starts_with ''Infinity'' s then Some (PFloat ''Infinity'', drop 8 s)
      else if starts_with ''-Infinity'' s then Some (PFloat ''-Infinity'', drop 9 s)
      else parse_number s)"

fun parse_val :: "nat \<Rightarrow> string \<Rightarrow> (pyval \<times> string) option"
  and parse_items :: "nat \<Rightarrow> string \<Rightarrow> (pyval list \<times> string) option"
  and parse_members :: "nat \<Rightarrow> string \<Rightarrow> ((string \<times> pyval) list \<times> string) option" where
  "parse_val 0 s = None"
| "parse_val (Suc n) s =
     (case s of
        [] \<Rightarrow> None
      | c # cs \<Rightarrow>
          (if c = CHR 0x22 then map_option (\<lambda>(x, r). (PStr x, r)) (parse_str cs)
           else if c = CHR ''['' then
             (case skip_ws cs of
                [] \<Rightarrow> None
              | d # r \<Rightarrow>
                  (if d = CHR '']'' then Some (PList [], r)
                   else map_option (\<lambda>(xs, r). (PList xs, r)) (parse_items n (d # r))))
           else if c = CHR ''{'' then
             (case skip_ws cs of
                [] \<Rightarrow> None
              | d # r \<Rightarrow>
                  (if d = CHR ''}'' then Some (PDict [], r)
                   else map_option (\<lambda>(kvs, r). (PDict (dict_collapse kvs), r))
                          (parse_members n (d # r))))
           else parse_const s))"
| "parse_items 0 s = None"
| "parse_items (Suc n) s =
     (case parse_val n s of
        None \<Rightarrow> None
      | Some (v, r) \<Rightarrow>
          (case skip_ws r of
             [] \<Rightarrow> None
           | d # r' \<Rightarrow>
               (if d = CHR '']'' then Some ([v], r')
                else if d = CHR '',''
                  then map_option (\<lambda>(vs, q). (v # vs, q)) (parse_items n (skip_ws r'))
                else None)))"
| "parse_members 0 s = None"
| "parse_members (Suc n) s =
     (case s of
        [] \<Rightarrow> None
      | c # cs \<Rightarrow>
          (if c \<noteq> CHR 0x22 then None
           else
             (case parse_str cs of
                None \<Rightarrow> None
              | Some (k, r) \<Rightarrow>
                  (case skip_ws r of
                     [] \<Rightarrow> None
                   | d # r1 \<Rightarrow>
                       (if d \<noteq> CHR '':'' then None
                        else
                          (case parse_val n (skip_ws r1) of
                             None \<Rightarrow> None
                           | Some (v, r2) \<Rightarrow>
                               (case skip_ws r2 of
                                  [] \<Rightarrow> None
                                | e # r3 \<Rightarrow>
                                    (if e = CHR ''}'' then Some ([(k, v)], r3)
                                     else if e = CHR '',''
                                       then map_option (\<lambda>(kvs, q). ((k, v) # kvs, q))
                                              (parse_members n (skip_ws r3))
                                     else None)))))))) "

text \<open>Two units of fuel per character are always enough; the round trip below relies on it.\<close>

definition json_loads :: "string \<Rightarrow> pyval option" where
  "json_loads s =
     (case parse_val (2 * length s + 2) (skip_ws s) of
        None \<Rightarrow> None
      | Some (v, r) \<Rightarrow> if skip_ws r = [] then Some v else None)"

end
