(* ===== verification/JsonRoundtrip.thy ===== *)
theory JsonRoundtrip
  imports PyValue
begin

text \<open>
  \<open>json.loads\<close> undoes \<open>json.dumps\<close> on every value whose dicts have distinct keys and
  whose floats are written as float literals. The lemmas follow the grammar: characters,
  strings, numbers, then values, items and members with the fuel each of them needs.
\<close>

section \<open>Strings\<close>

lemma of_char_less [simp]: "(of_char c :: nat) < 256"
  by (metis nat_of_char_less_256)

lemma hex_val_hex_digit: "k < 16 \<Longrightarrow> hex_val (hex_digit k) = Some k"
  by (simp add: hex_val_def hex_digit_def Let_def)

lemma hex4_code: "n < 256 \<Longrightarrow> hex4 (CHR ''0'') (CHR ''0'') (hex_digit (n div 16)) (hex_digit (n mod 16)) = Some n"
proof -
  assume n: "n < 256"
  have "hex_val (CHR ''0'') = Some 0" by (simp add: hex_val_def)
  moreover have "hex_val (hex_digit (n div 16)) = Some (n div 16)" by (rule hex_val_hex_digit) (use n in simp)
  moreover have "hex_val (hex_digit (n mod 16)) = Some (n mod 16)" by (rule hex_val_hex_digit) simp
  ultimately show ?thesis by (simp add: hex4_def)
qed

lemma char_eq_code: "(c = d) \<longleftrightarrow> (of_char c :: nat) = of_char d"
  by (metis char_of_char)

lemma escaped_codes:
  "char_of (34::nat) = CHR 0x22" "char_of (92::nat) = CHR 0x5C" "char_of (10::nat) = CHR 0x0A"
  "char_of (13::nat) = CHR 0x0D" "char_of (9::nat) = CHR 0x09" "char_of (12::nat) = CHR 0x0C"
  "char_of (8::nat) = CHR 0x08"
  by (simp_all add: char_eq_code)

lemma parse_str_char: "parse_str (json_char c @ r) = map_option (\<lambda>(s, t). (c # s, t)) (parse_str r)"
proof -
  define n where "n = (of_char c :: nat)"
  have c: "c = char_of n" by (simp add: n_def)
  have lt: "n < 256" by (simp add: n_def)
  consider "n = 34" | "n = 92" | "n = 10" | "n = 13" | "n = 9" | "n = 12" | "n = 8"
    | (esc) "n \<notin> {34, 92, 10, 13, 9, 12, 8}" "n < 32 \<or> 126 < n"
    | (plain) "n \<notin> {34, 92, 10, 13, 9, 12, 8}" "\<not> (n < 32 \<or> 126 < n)"
    by blast
  then show ?thesis
  proof cases
    case esc
    then have "json_char c = [CHR 0x5C, CHR ''u'', CHR ''0'', CHR ''0'', hex_digit (n div 16), hex_digit (n mod 16)]"
      by (auto simp: json_char_def n_def [symmetric] Let_def)
    then show ?thesis using lt by (simp add: hex4_code c)
  next
    case plain
    then have "json_char c = [c]" by (auto simp: json_char_def n_def [symmetric] Let_def)
    moreover have "c \<noteq> CHR 0x22" "c \<noteq> CHR 0x5C" using plain by (auto simp: n_def)
    ultimately show ?thesis using plain by (simp add: n_def)
  qed (simp_all add: json_char_def c json_unescape_def escaped_codes)
qed

lemma parse_str_text: "parse_str (concat (map json_char s) @ CHR 0x22 # r) = Some (s, r)"
proof (induction s)
  case Nil
  then show ?case by simp
next
  case (Cons c s)
  then show ?case by (simp add: parse_str_char)
qed

section \<open>Numbers\<close>

lemma is_digit_digit_char: "k < 10 \<Longrightarrow> is_digit (digit_char k)"
  by (simp add: is_digit_def digit_char_def Let_def)

lemma of_char_digit_char: "k < 10 \<Longrightarrow> (of_char (digit_char k) :: nat) = 48 + k"
  by (simp add: digit_char_def)

lemma digits_val_snoc: "digits_val (ds @ [c]) = digits_val ds * 10 + (of_char c - 48)"
  by (simp add: digits_val_def)

lemma nat_text_digits: "list_all is_digit (nat_text n) \<and> nat_text n \<noteq> []"
proof (induction n rule: nat_text.induct)
  case (1 n)
  then show ?case by (subst (1 2) nat_text.simps) (auto simp: is_digit_digit_char)
qed

lemma digits_val_nat_text: "digits_val (nat_text n) = n"
proof (induction n rule: nat_text.induct)
  case (1 n)
  show ?case
  proof (cases "n < 10")
    case True
    then show ?thesis by (subst nat_text.simps) (simp add: digits_val_def of_char_digit_char)
  next
    case False
    with 1 show ?thesis
      by (subst nat_text.simps) (simp add: digits_val_snoc of_char_digit_char)
  qed
qed

lemma nat_text_no_leading_zero: "n > 0 \<Longrightarrow> hd (nat_text n) \<noteq> CHR ''0''"
proof (induction n rule: nat_text.induct)
  case (1 n)
  show ?case
  proof (cases "n < 10")
    case True
    with 1 show ?thesis by (subst nat_text.simps) (auto simp: digit_char_def char_eq_code)
  next
    case False
    with 1 have "hd (nat_text (n div 10)) \<noteq> CHR ''0''" by simp
    with False nat_text_digits [of "n div 10"] show ?thesis by (subst nat_text.simps) simp
  qed
qed

lemma nat_literal_nat_text: "nat_literal (nat_text n)"
proof (cases "n = 0")
  case True
  have "nat_text 0 = [digit_char 0]" by (subst nat_text.simps) simp
  with True nat_text_digits [of n] show ?thesis by (simp add: nat_literal_def)
next
  case False
  with nat_text_digits [of n] nat_text_no_leading_zero [of n] show ?thesis by (simp add: nat_literal_def)
qed

lemma minus_not_digit: "\<not> is_digit (CHR ''-'')"
  by (simp add: is_digit_def)

lemma nat_text_hd_digit: "is_digit (hd (nat_text n))"
  using nat_text_digits [of n] by (cases "nat_text n") auto

lemma drop_minus_nat_text [simp]: "drop_minus (nat_text n) = nat_text n"
  using nat_text_hd_digit [of n] minus_not_digit by (cases "nat_text n") (auto simp: drop_minus_def)

lemma int_of_int_text: "int_of_text (int_text i) = i"
proof (cases "i < 0")
  case True
  then show ?thesis by (simp add: int_of_text_def int_text_def digits_val_nat_text)
next
  case False
  have "nat_text (nat i) \<noteq> []" "hd (nat_text (nat i)) \<noteq> CHR ''-''"
    using nat_text_digits nat_text_hd_digit [of "nat i"] minus_not_digit by auto
  with False show ?thesis by (simp add: int_of_text_def int_text_def digits_val_nat_text)
qed

lemma int_text_literal: "nat_literal (drop_minus (int_text i))"
  by (simp add: int_text_def nat_literal_nat_text) (simp add: drop_minus_def nat_literal_nat_text)

lemma digits_number_chars: "list_all is_digit ds \<Longrightarrow> list_all number_char ds"
  by (auto simp: list_all_iff number_char_def)

lemma int_text_number_chars: "list_all number_char (int_text i)"
  using digits_number_chars nat_text_digits by (simp add: int_text_def number_char_def)

definition stops :: "string \<Rightarrow> bool" where
  "stops r \<longleftrightarrow> (case r of [] \<Rightarrow> True | c # _ \<Rightarrow> \<not> number_char c)"

lemma takeWhile_stop:
  "list_all P t \<Longrightarrow> (case r of [] \<Rightarrow> True | c # _ \<Rightarrow> \<not> P c) \<Longrightarrow>
     takeWhile P (t @ r) = t \<and> dropWhile P (t @ r) = r"
  by (induction t) (auto split: list.splits)

lemma number_split:
  assumes "list_all number_char t" and "stops r"
  shows "takeWhile number_char (t @ r) = t" and "dropWhile number_char (t @ r) = r"
  using takeWhile_stop [OF assms(1), of r] assms(2) by (simp_all add: stops_def)

text \<open>What the first character of a number excludes: the constants and the opening brackets.\<close>

lemma number_not_const:
  assumes "t \<noteq> []" and "number_char (hd t)" and "hd t \<noteq> CHR ''-'' \<or> (\<exists>c cs. t = CHR ''-'' # c # cs \<and> is_digit c)"
    and "is_digit (hd t) \<or> hd t = CHR ''-''"
  shows "parse_const (t @ r) = parse_number (t @ r)"
proof -
  obtain c cs where t: "t = c # cs" using assms(1) by (cases t) auto
  have "c \<noteq> CHR ''n''" "c \<noteq> CHR ''t''" "c \<noteq> CHR ''f''" "c \<noteq> CHR ''N''" "c \<noteq> CHR ''I''"
    using assms(4) t by (auto simp: is_digit_def)
  then have "\<not> starts_with ''null'' (t @ r)" "\<not> starts_with ''true'' (t @ r)"
    "\<not> starts_with ''false'' (t @ r)" "\<not> starts_with ''NaN'' (t @ r)" "\<not> starts_with ''Infinity'' (t @ r)"
    by (simp_all add: starts_with_def t)
  moreover have "\<not> starts_with ''-Infinity'' (t @ r)"
    using assms(3) t by (auto simp: starts_with_def is_digit_def)
  ultimately show ?thesis by (simp add: parse_const_def)
qed

lemma parse_const_int:
  assumes "stops r"
  shows "parse_const (int_text i @ r) = Some (PInt i, r)"
proof -
  have ne: "nat_text n \<noteq> []" "is_digit (hd (nat_text n))" for n
    using nat_text_digits nat_text_hd_digit by auto
  have "parse_const (int_text i @ r) = parse_number (int_text i @ r)"
  proof (rule number_not_const)
    show "int_text i \<noteq> []" using ne by (simp add: int_text_def)
    show "number_char (hd (int_text i))" using ne by (simp add: int_text_def number_char_def)
    show "hd (int_text i) \<noteq> CHR ''-'' \<or> (\<exists>c cs. int_text i = CHR ''-'' # c # cs \<and> is_digit c)"
    proof (cases "i < 0")
      case True
      then show ?thesis using ne [of "nat (- i)"] by (cases "nat_text (nat (- i))") (auto simp: int_text_def)
    next
      case False
      then show ?thesis using ne(2) [of "nat i"] minus_not_digit by (auto simp: int_text_def)
    qed
    show "is_digit (hd (int_text i)) \<or> hd (int_text i) = CHR ''-''" using ne by (simp add: int_text_def)
  qed
  then show ?thesis
    by (simp add: parse_number_def number_split [OF int_text_number_chars assms] int_text_literal
        int_of_int_text)
qed


lemma float_literal_hd:
  assumes "float_literal t"
  shows "t \<noteq> []" and "is_digit (hd t) \<or> hd t = CHR ''-''"
    and "hd t \<noteq> CHR ''-'' \<or> (\<exists>c cs. t = CHR ''-'' # c # cs \<and> is_digit c)"
proof -
  have lit: "nat_literal (takeWhile is_digit (drop_minus t))"
    using assms by (simp add: float_literal_def Let_def)
  then have "takeWhile is_digit (drop_minus t) \<noteq> []" by (simp add: nat_literal_def)
  then have ne: "drop_minus t \<noteq> []" "is_digit (hd (drop_minus t))"
    by (cases "drop_minus t"; simp split: if_splits)+
  show "t \<noteq> []" using ne by (auto simp: drop_minus_def)
  show "is_digit (hd t) \<or> hd t = CHR ''-''"
    using ne by (auto simp: drop_minus_def split: list.splits if_splits)
  show "hd t \<noteq> CHR ''-'' \<or> (\<exists>c cs. t = CHR ''-'' # c # cs \<and> is_digit c)"
    using ne by (cases t; cases "tl t") (auto simp: drop_minus_def)
qed

lemma list_all_takeWhile: "list_all P (takeWhile P xs)"
  by (induction xs) auto

lemma exponent_number_chars: "exponent_literal r \<Longrightarrow> list_all number_char r"
  using digits_number_chars
  by (auto simp: exponent_literal_def Let_def number_char_def split: list.splits if_splits)

lemma float_number_chars:
  assumes "float_literal t"
  shows "list_all number_char t"
proof -
  let ?u = "drop_minus t"
  let ?r = "dropWhile is_digit ?u"
  have "list_all number_char (takeWhile is_digit ?u)"
    by (rule digits_number_chars [OF list_all_takeWhile])
  moreover have "list_all number_char ?r"
  proof (cases ?r)
    case Nil
    show ?thesis unfolding Nil by simp
  next
    case (Cons c cs)
    have cs: "list_all number_char (takeWhile is_digit cs)"
      by (rule digits_number_chars [OF list_all_takeWhile])
    show ?thesis
    proof (cases "c = CHR ''.''")
      case True
      with assms Cons have "dropWhile is_digit cs = [] \<or> exponent_literal (dropWhile is_digit cs)"
        by (simp add: float_literal_def Let_def)
      then have "list_all number_char (dropWhile is_digit cs)"
        by (metis exponent_number_chars list.pred_inject(1))
      with cs have "list_all number_char (takeWhile is_digit cs @ dropWhile is_digit cs)"
        by (simp only: list_all_append)
      with True Cons show ?thesis by (simp add: number_char_def)
    next
      case False
      with assms Cons have "exponent_literal ?r" by (simp add: float_literal_def Let_def)
      then show ?thesis by (rule exponent_number_chars)
    qed
  qed
  ultimately have "list_all number_char (takeWhile is_digit ?u @ ?r)" by (simp only: list_all_append)
  then have "list_all number_char ?u" by simp
  then show ?thesis by (auto simp: drop_minus_def number_char_def split: list.splits if_splits)
qed

lemma nat_literal_takeWhile: "nat_literal u \<Longrightarrow> dropWhile is_digit u = []"
  by (auto simp: nat_literal_def list_all_iff)

lemma parse_const_float:
  assumes "float_literal t" and "stops r"
  shows "parse_const (t @ r) = Some (PFloat t, r)"
proof -
  note hd = float_literal_hd [OF assms(1)]
  have "parse_const (t @ r) = parse_number (t @ r)"
    using hd by (intro number_not_const) (auto simp: number_char_def)
  moreover have "\<not> nat_literal (drop_minus t)"
  proof
    assume "nat_literal (drop_minus t)"
    then have all: "dropWhile is_digit (drop_minus t) = []" by (rule nat_literal_takeWhile)
    from assms(1) show False unfolding float_literal_def Let_def all by simp
  qed
  ultimately show ?thesis
    by (simp add: parse_number_def number_split [OF float_number_chars [OF assms(1)] assms(2)] assms(1))
qed

section \<open>Values\<close>

fun json_ok :: "pyval \<Rightarrow> bool" where
  "json_ok (PFloat t) = float_literal t"
| "json_ok (PList xs) = list_all json_ok xs"
| "json_ok (PDict kvs) = (distinct (map fst kvs) \<and> list_all (\<lambda>(k, v). json_ok v) kvs)"
| "json_ok v = True"

fun fuel_for :: "pyval \<Rightarrow> nat" where
  "fuel_for (PList xs) = 2 + sum_list (map (\<lambda>x. fuel_for x + 1) xs)"
| "fuel_for (PDict kvs) = 2 + sum_list (map (\<lambda>(k, v). fuel_for v + 1) kvs)"
| "fuel_for v = 1"

lemma fuel_for_pos: "fuel_for v > 0"
  by (cases v) auto

lemma skip_ws_visible [simp]:
  "c \<notin> {CHR '' '', CHR 0x09, CHR 0x0A, CHR 0x0D} \<Longrightarrow> skip_ws (c # cs) = c # cs"
  by (simp add: skip_ws_def)

lemma skip_ws_space [simp]: "skip_ws (CHR '' '' # cs) = skip_ws cs"
  by (simp add: skip_ws_def)

definition value_start :: "char \<Rightarrow> bool" where
  "value_start c \<longleftrightarrow> c \<in> set ''ntf[{-'' \<or> c = CHR 0x22 \<or> is_digit c"

lemma json_dumps_start:
  assumes "json_ok v"
  shows "\<exists>c cs. json_dumps v = c # cs \<and> value_start c"
proof (cases v)
  case (PInt i)
  have "nat_text (nat i) \<noteq> []" "is_digit (hd (nat_text (nat i)))"
    using nat_text_digits nat_text_hd_digit by auto
  then show ?thesis using PInt
    by (cases "i < 0"; cases "nat_text (nat i)") (auto simp: int_text_def value_start_def)
next
  case (PFloat t)
  with assms have "float_literal t" by simp
  from float_literal_hd [OF this] PFloat show ?thesis
    by (cases t) (auto simp: value_start_def)
qed (auto simp: value_start_def json_text_def)

lemma value_start_visible: "value_start c \<Longrightarrow> c \<notin> {CHR '' '', CHR 0x09, CHR 0x0A, CHR 0x0D} \<and> c \<noteq> CHR '']'' \<and> c \<noteq> CHR ''}''"
  by (auto simp: value_start_def is_digit_def)

lemma skip_ws_dumps: "json_ok v \<Longrightarrow> skip_ws (json_dumps v @ r) = json_dumps v @ r"
  using json_dumps_start [of v] value_start_visible by fastforce

lemma parse_val_other:
  assumes "c \<notin> {CHR 0x22, CHR ''['', CHR ''{''}"
  shows "parse_val (Suc n) (c # cs) = parse_const (c # cs)"
  using assms by simp

lemma parse_val_number:
  assumes "t \<noteq> []" and "is_digit (hd t) \<or> hd t = CHR ''-''"
  shows "parse_val (Suc n) (t @ r) = parse_const (t @ r)"
  using assms by (cases t) (auto intro!: parse_val_other simp: is_digit_def simp del: parse_val.simps)

definition reads_back :: "pyval \<Rightarrow> bool" where
  "reads_back v \<longleftrightarrow>
     (\<forall>n r. fuel_for v \<le> n \<longrightarrow> stops r \<longrightarrow> parse_val n (json_dumps v @ r) = Some (v, r))"

lemma reads_backD: "reads_back v \<Longrightarrow> fuel_for v \<le> n \<Longrightarrow> stops r \<Longrightarrow> parse_val n (json_dumps v @ r) = Some (v, r)"
  by (simp add: reads_back_def)

lemma stops_simps [simp]: "stops []" "stops (CHR '','' # r)" "stops (CHR '']'' # r)" "stops (CHR ''}'' # r)"
  by (simp_all add: stops_def number_char_def is_digit_def)

lemma parse_items_dumps:
  assumes "list_all reads_back (v # vs)" and "list_all json_ok (v # vs)"
    and "sum_list (map (\<lambda>x. fuel_for x + 1) (v # vs)) \<le> n"
  shows "parse_items n (join_with '', '' (map json_dumps (v # vs)) @ CHR '']'' # r) = Some (v # vs, r)"
  using assms
proof (induction vs arbitrary: v n)
  case Nil
  then obtain m where n: "n = Suc m" "fuel_for v \<le> m" by (cases n) auto
  have "parse_val m (json_dumps v @ CHR '']'' # r) = Some (v, CHR '']'' # r)"
    using Nil n by (intro reads_backD) auto
  then show ?case by (simp add: n)
next
  case (Cons w ws)
  then obtain m where n: "n = Suc m" "fuel_for v \<le> m"
      and rest: "sum_list (map (\<lambda>x. fuel_for x + 1) (w # ws)) \<le> m"
    by (cases n) auto
  let ?tail = "join_with '', '' (map json_dumps (w # ws)) @ CHR '']'' # r"
  have v: "parse_val m (json_dumps v @ CHR '','' # CHR '' '' # ?tail) = Some (v, CHR '','' # CHR '' '' # ?tail)"
    using Cons n by (intro reads_backD) auto
  have "skip_ws ?tail = ?tail"
    using skip_ws_dumps [of w] Cons.prems(2) by (cases ws) (simp_all)
  moreover have "parse_items m ?tail = Some (w # ws, r)"
    using Cons.prems rest by (intro Cons.IH) auto
  ultimately show ?case using v by (simp add: n)
qed

lemma parse_members_dumps:
  assumes "list_all (\<lambda>(k, v). reads_back v) (kv # kvs)" and "list_all (\<lambda>(k, v). json_ok v) (kv # kvs)"
    and "sum_list (map (\<lambda>(k, v). fuel_for v + 1) (kv # kvs)) \<le> n"
  shows "parse_members n (join_with '', ''
           (map (\<lambda>(k, v). json_text k @ '': '' @ json_dumps v) (kv # kvs)) @ CHR ''}'' # r)
         = Some (kv # kvs, r)"
  using assms
proof (induction kvs arbitrary: kv n)
  case Nil
  obtain k v where kv: "kv = (k, v)" by (cases kv)
  with Nil obtain m where n: "n = Suc m" "fuel_for v \<le> m" by (cases n) auto
  have "parse_val m (json_dumps v @ CHR ''}'' # r) = Some (v, CHR ''}'' # r)"
    using Nil n kv by (intro reads_backD) auto
  moreover have "skip_ws (json_dumps v @ CHR ''}'' # r) = json_dumps v @ CHR ''}'' # r"
    using Nil kv by (intro skip_ws_dumps) auto
  ultimately show ?case by (simp add: n kv json_text_def parse_str_text)
next
  case (Cons kw kws)
  obtain k v where kv: "kv = (k, v)" by (cases kv)
  obtain k' w where kw: "kw = (k', w)" by (cases kw)
  from Cons kv obtain m where n: "n = Suc m" "fuel_for v \<le> m"
      and rest: "sum_list (map (\<lambda>(k, v). fuel_for v + 1) (kw # kws)) \<le> m"
    by (cases n) auto
  let ?tail = "join_with '', ''
    (map (\<lambda>(k, v). json_text k @ '': '' @ json_dumps v) (kw # kws)) @ CHR ''}'' # r"
  let ?after = "CHR '','' # CHR '' '' # ?tail"
  have "parse_val m (json_dumps v @ ?after) = Some (v, ?after)"
    using Cons n kv by (intro reads_backD) auto
  moreover have "skip_ws (json_dumps v @ ?after) = json_dumps v @ ?after"
    using Cons kv by (intro skip_ws_dumps) auto
  moreover have "skip_ws ?tail = ?tail"
    by (cases kws) (simp_all add: kw json_text_def)
  moreover have "parse_members m ?tail = Some (kw # kws, r)"
    using Cons.prems rest by (intro Cons.IH) auto
  ultimately show ?case by (simp add: n kv json_text_def parse_str_text)
qed

lemma json_ok_reads_back: "json_ok v \<Longrightarrow> reads_back v"
proof (induction v rule: json_dumps.induct)
  case (3 i)
  show ?case unfolding reads_back_def
  proof (intro allI impI)
    fix n r assume "fuel_for (PInt i) \<le> n" and r: "stops r"
    then obtain m where n: "n = Suc m" by (cases n) auto
    have "int_text i \<noteq> [] \<and> (is_digit (hd (int_text i)) \<or> hd (int_text i) = CHR ''-'')"
      using nat_text_digits nat_text_hd_digit by (simp add: int_text_def)
    then show "parse_val n (json_dumps (PInt i) @ r) = Some (PInt i, r)"
      using parse_const_int [OF r] by (simp add: n parse_val_number del: parse_val.simps)
  qed
next
  case (4 t)
  show ?case unfolding reads_back_def
  proof (intro allI impI)
    fix n r assume "fuel_for (PFloat t) \<le> n" and r: "stops r"
    then obtain m where n: "n = Suc m" by (cases n) auto
    from "4" have t: "float_literal t" by simp
    show "parse_val n (json_dumps (PFloat t) @ r) = Some (PFloat t, r)"
      using parse_const_float [OF t r] float_literal_hd [OF t]
      by (simp add: n parse_val_number del: parse_val.simps)
  qed
next
  case (6 xs)
  show ?case unfolding reads_back_def
  proof (intro allI impI)
    fix n r assume fuel: "fuel_for (PList xs) \<le> n"
    then obtain m where n: "n = Suc m" "sum_list (map (\<lambda>x. fuel_for x + 1) xs) \<le> m" by (cases n) auto
    show "parse_val n (json_dumps (PList xs) @ r) = Some (PList xs, r)"
    proof (cases xs)
      case Nil
      then show ?thesis by (simp add: n)
    next
      case (Cons v vs)
      have "list_all reads_back (v # vs)" "list_all json_ok (v # vs)"
        using "6" Cons by (auto simp: list_all_iff)
      from parse_items_dumps [OF this, of m r] n(2) Cons
      have items: "parse_items m (join_with '', '' (map json_dumps xs) @ CHR '']'' # r) = Some (xs, r)"
        by simp
      obtain c cs where c: "json_dumps v = c # cs" "value_start c"
        using json_dumps_start [of v] "6"(2) Cons by auto
      then obtain rest where "join_with '', '' (map json_dumps xs) @ CHR '']'' # r = c # rest"
        by (cases vs) (auto simp: Cons)
      then show ?thesis using items value_start_visible [OF c(2)] by (simp add: n(1))
    qed
  qed
next
  case (7 kvs)
  show ?case unfolding reads_back_def
  proof (intro allI impI)
    fix n r assume fuel: "fuel_for (PDict kvs) \<le> n"
    then obtain m where n: "n = Suc m" "sum_list (map (\<lambda>(k, v). fuel_for v + 1) kvs) \<le> m" by (cases n) auto
    show "parse_val n (json_dumps (PDict kvs) @ r) = Some (PDict kvs, r)"
    proof (cases kvs)
      case Nil
      then show ?thesis by (simp add: n)
    next
      case (Cons kw kws)
      obtain k w where kw: "kw = (k, w)" by (cases kw)
      have ok: "list_all (\<lambda>(k, v). json_ok v) (kw # kws)"
        using "7"(2) Cons by auto
      then have "list_all (\<lambda>(k, v). reads_back v) (kw # kws)"
        using "7"(1) Cons by (fastforce simp: list_all_iff)
      note this ok
      from parse_members_dumps [OF this, of m r] n(2) Cons
      have members: "parse_members m (join_with '', ''
          (map (\<lambda>(k, v). json_text k @ '': '' @ json_dumps v) kvs) @ CHR ''}'' # r) = Some (kvs, r)"
        by simp
      obtain rest where "join_with '', ''
          (map (\<lambda>(k, v). json_text k @ '': '' @ json_dumps v) kvs) @ CHR ''}'' # r = CHR 0x22 # rest"
        by (cases kws) (auto simp: Cons kw json_text_def)
      then show ?thesis using members "7"(2) by (simp add: n(1) dict_collapse_distinct)
    qed
  qed
qed (auto simp: reads_back_def parse_const_def starts_with_def json_text_def parse_str_text
    Suc_le_eq dest!: gr0_implies_Suc)

lemma joined_fuel:
  assumes "\<And>y. y \<in> set (x # xs) \<Longrightarrow> f y \<le> 2 * length (g y)"
  shows "sum_list (map (\<lambda>y. f y + 1) (x # xs)) \<le> 2 * length (join_with '', '' (map g (x # xs))) + 1"
  using assms
proof (induction xs arbitrary: x)
  case Nil
  then show ?case by simp
next
  case (Cons y ys)
  have "sum_list (map (\<lambda>y. f y + 1) (y # ys)) \<le> 2 * length (join_with '', '' (map g (y # ys))) + 1"
    by (rule Cons.IH) (use Cons.prems in auto)
  moreover have "f x \<le> 2 * length (g x)" using Cons.prems by simp
  ultimately show ?case by simp
qed

lemma fuel_for_bound: "json_ok v \<Longrightarrow> fuel_for v \<le> 2 * length (json_dumps v)"
proof (induction v rule: json_dumps.induct)
  case (3 i)
  then show ?case using nat_text_digits by (auto simp: int_text_def Suc_le_eq)
next
  case (4 t)
  then show ?case using float_literal_hd(1) by (auto simp: Suc_le_eq)
next
  case (6 xs)
  show ?case
  proof (cases xs)
    case (Cons y ys)
    have "sum_list (map (\<lambda>x. fuel_for x + 1) xs) \<le> 2 * length (join_with '', '' (map json_dumps xs)) + 1"
      unfolding Cons by (rule joined_fuel) (use 6 Cons in \<open>auto simp: list_all_iff\<close>)
    then show ?thesis by simp
  qed simp
next
  case (7 kvs)
  let ?g = "\<lambda>(k, v). json_text k @ '': '' @ json_dumps v"
  show ?case
  proof (cases kvs)
    case (Cons kw kws)
    have "fuel_for v \<le> 2 * length (json_dumps v)" if "(k, v) \<in> set kvs" for k v
      using 7 that by (fastforce simp: list_all_iff)
    then have "sum_list (map (\<lambda>kv. fuel_for (snd kv) + 1) kvs) \<le> 2 * length (join_with '', '' (map ?g kvs)) + 1"
      unfolding Cons by (intro joined_fuel) (force simp: Cons trans_le_add2)
    then show ?thesis by (simp add: case_prod_unfold)
  qed simp
qed (auto simp: json_text_def)

lemma json_loads_dumps:
  assumes "json_ok v"
  shows "json_loads (json_dumps v) = Some v"
proof -
  have "parse_val (2 * length (json_dumps v) + 2) (json_dumps v @ []) = Some (v, [])"
    using json_ok_reads_back [OF assms] fuel_for_bound [OF assms] by (intro reads_backD) auto
  moreover have "skip_ws (json_dumps v) = json_dumps v"
    using skip_ws_dumps [OF assms, of "[]"] by simp
  ultimately show ?thesis by (simp add: json_loads_def skip_ws_def)
qed

section \<open>Canonical form\<close>

text \<open>
  The canonical text decides the value up to the order of dict items: two values with the same
  canonical text have the same sorted form, so a hash of the canonical text pins the content.
\<close>

lemma set_sort_items [simp]: "set (sort_items kvs) = set kvs"
proof -
  have ins: "set (insert_key kv xs) = insert kv (set xs)" for kv :: "string \<times> 'a" and xs
    by (induction xs) auto
  show ?thesis unfolding sort_items_def by (induction kvs) (auto simp: ins)
qed

lemma distinct_sort_items: "distinct (map fst kvs) \<Longrightarrow> distinct (map fst (sort_items kvs))"
proof -
  have ins: "distinct (map fst (insert_key kv xs)) = distinct (map fst (kv # xs))"
    and img: "fst ` set (insert_key kv xs) = fst ` set (kv # xs)" for kv :: "string \<times> 'a" and xs
    by (induction xs) auto
  have "fst ` set (sort_items kvs) = fst ` set kvs" for kvs :: "(string \<times> 'a) list" by simp
  then show "distinct (map fst kvs) \<Longrightarrow> ?thesis"
    unfolding sort_items_def
    by (induction kvs) (auto simp: ins sort_items_def image_iff)
qed

lemma json_ok_sort_keys: "json_ok v \<Longrightarrow> json_ok (sort_keys v)"
proof (induction v rule: sort_keys.induct)
  case (2 kvs)
  have "map fst (map (\<lambda>(k, v). (k, sort_keys v)) kvs) = map fst kvs" by auto
  then have "distinct (map fst (map (\<lambda>(k, v). (k, sort_keys v)) kvs))"
    using 2 by (metis json_ok.simps(3))
  then have "distinct (map fst (sort_items (map (\<lambda>(k, v). (k, sort_keys v)) kvs)))"
    by (rule distinct_sort_items)
  moreover have "json_ok (sort_keys v)" if "(k, v) \<in> set kvs" for k v
    using 2 that by (fastforce simp: list_all_iff)
  ultimately show ?case by (auto simp: list_all_iff)
qed (auto simp: list_all_iff)

lemma json_canonical_inj:
  assumes "json_ok v" and "json_ok w" and "json_canonical v = json_canonical w"
  shows "sort_keys v = sort_keys w"
  using assms json_loads_dumps [OF json_ok_sort_keys] unfolding json_canonical_def
  by (metis option.inject)

end
