(* ===== verification/RuntimeState.thy ===== *)
theory RuntimeState
  imports PyValue
begin

text \<open>
  The state one agent container works on (services/agent-runtime) and the interface to the
  services it calls. The DynamoDB tables are maps from their keys to items; the Lambda, LLM and
  SNS requests that leave the container, and the audit events it writes, are logs in the order
  they are sent. Everything behind those services is a parameter: a record of functions that
  take the world and return an answer and the world after it.
\<close>

section \<open>Data\<close>

text \<open>
  A time is a number of microseconds since the epoch. An ISO 8601 text in a table stands for
  the instant it denotes; a text \<open>datetime.fromisoformat\<close> refuses is \<open>Unreadable\<close>.
\<close>

datatype stamp = At int | Unreadable string

record tool_call =
  tc_id :: "string option"
  tc_name :: string
  tc_arguments :: "string option"

record tool_spec =
  tool_id :: string
  tool_name :: "string option"
  input_schema :: "pyval option"

record tool_policy =
  tp_tool :: string
  tp_allowed :: "bool option"
  tp_risk :: "string option"

record llm_request =
  rq_model :: string
  rq_messages :: "pyval list"
  rq_max_tokens :: pyval
  rq_temperature :: pyval
  rq_tools :: "pyval option"
  rq_fallbacks :: "pyval option"

record llm_reply =
  rp_content :: "string option"
  rp_tool_calls :: "tool_call list"
  rp_cost :: "rat option"
  rp_input_tokens :: "int option"
  rp_output_tokens :: "int option"

record guardrail_reply =
  gr_action :: string
  gr_outputs :: "string option list"

record audit_event =
  ev_tenant :: string
  ev_type :: string
  ev_agent :: string
  ev_principal :: string
  ev_action :: string
  ev_resource :: string
  ev_result :: string
  ev_request_id :: string
  ev_source_ip :: string
  ev_timestamp :: stamp
  ev_expires_at :: int
  ev_extra :: "(string \<times> pyval) list"

text \<open>
  A row of panasa-hitl-reviews. An optional field is \<open>None\<close> when the attribute is missing. The
  one attribute the code tests for absence and for the NULL type, \<open>resumed_at\<close>, has both:
  \<open>None\<close> is no attribute, \<open>Some None\<close> is NULL.
\<close>

record review =
  rv_tenant :: string
  rv_id :: string
  rv_agent :: string
  rv_project :: "string option"
  rv_trigger :: string
  rv_summary :: string
  rv_status :: "string option"
  rv_timeout_hours :: "rat option"
  rv_requested_by :: string
  rv_requested_at :: "stamp option"
  rv_reviewed_by :: "string option"
  rv_reviewed_at :: "stamp option"
  rv_reason :: "string option"
  rv_kind :: "string option"
  rv_tool :: "string option"
  rv_context :: "string option"
  rv_resumed_at :: "stamp option option"

record memory_item =
  mm_content :: string
  mm_user :: string
  mm_source_session :: string
  mm_expires_at :: int
  mm_created_at :: stamp

text \<open>A row of panasa-agents, as AgentRecord (app/modules/registry/models.py) defines it.\<close>

record agent_record =
  ag_tenant :: string
  ag_id :: string
  ag_name :: string
  ag_description :: string
  ag_purpose :: string
  ag_type :: string
  ag_current_version :: int
  ag_live_version :: "int option"
  ag_status :: string
  ag_platform_version :: string
  ag_runtime_version :: string
  ag_created_by :: string
  ag_created_at :: stamp
  ag_updated_by :: string
  ag_updated_at :: stamp
  ag_tags :: "(string \<times> string) list"
  ag_project :: "string option"
  ag_lifecycle :: "string option"
  ag_owner_email :: "string option"
  ag_key_arn :: "string option"
  ag_prev_key_arn :: "string option"
  ag_prev_key_expires :: "int option"
  ag_rotated_at :: "stamp option"
  ag_key_revoked :: bool
  ag_jwt_issuer :: "string option"
  ag_jwt_audience :: "string option"
  ag_jwt_jwks_url :: "string option"
  ag_jwt_tenant_claim :: "string option"
  ag_spend :: rat
  ag_spend_period :: "string option"

text \<open>
  A row of the agents table is a whole record, or the row an \<open>update_item\<close> of the spend
  attributes leaves when the agent's record is not (or no longer) there.
\<close>

datatype agent_row = Whole agent_record | SpendOnly rat string

text \<open>How a reader that uses \<open>item.get(...)\<close> sees a row: a missing attribute is None.\<close>

definition blank_record :: "string \<times> string \<Rightarrow> agent_record" where
  "blank_record k =
     \<lparr>ag_tenant = fst k, ag_id = snd k, ag_name = [], ag_description = [], ag_purpose = [], ag_type = [],
      ag_current_version = 0, ag_live_version = None, ag_status = [], ag_platform_version = [],
      ag_runtime_version = [], ag_created_by = [], ag_created_at = Unreadable [], ag_updated_by = [],
      ag_updated_at = Unreadable [], ag_tags = [], ag_project = None, ag_lifecycle = None,
      ag_owner_email = None, ag_key_arn = None, ag_prev_key_arn = None, ag_prev_key_expires = None,
      ag_rotated_at = None, ag_key_revoked = False, ag_jwt_issuer = None, ag_jwt_audience = None,
      ag_jwt_jwks_url = None, ag_jwt_tenant_claim = None, ag_spend = 0, ag_spend_period = None\<rparr>"

definition row_view :: "string \<times> string \<Rightarrow> agent_row \<Rightarrow> agent_record" where
  "row_view k row =
     (case row of
        Whole r \<Rightarrow> r
      | SpendOnly c p \<Rightarrow> (blank_record k)\<lparr>ag_spend := c, ag_spend_period := Some p\<rparr>)"

text \<open>
  A DynamoDB attribute as boto3 hands it out: numbers are Decimals, here rationals, where a
  JSON value has native numbers.
\<close>

datatype attr =
    ANull
  | ABool bool
  | ANum rat
  | AStr string
  | AList "attr list"
  | AMap "(string \<times> attr) list"

section \<open>Services and state\<close>

text \<open>
  A failing service answers \<open>Inl\<close> with the name of the exception it raises. \<open>db_call\<close>
  says whether a request to a named table, cache or topic is answered at all.
\<close>

record 'w services =
  sv_clock :: "'w \<Rightarrow> int"
  sv_perf :: "'w \<Rightarrow> int"
  sv_uuid :: "'w \<Rightarrow> string \<times> 'w"
  sv_db :: "string \<Rightarrow> 'w \<Rightarrow> bool \<times> 'w"
  sv_lambda :: "string \<Rightarrow> string \<Rightarrow> 'w \<Rightarrow> (string + bool \<times> pyval) \<times> 'w"
  sv_guardrail :: "string \<Rightarrow> string \<Rightarrow> string \<Rightarrow> string \<Rightarrow> 'w \<Rightarrow> (string + guardrail_reply) \<times> 'w"
  sv_retrieve :: "string \<Rightarrow> string \<Rightarrow> int \<Rightarrow> 'w \<Rightarrow> (string + string option list) \<times> 'w"
  sv_llm :: "llm_request \<Rightarrow> 'w \<Rightarrow> (string + llm_reply) \<times> 'w"
  sv_secret :: "string \<Rightarrow> 'w \<Rightarrow> (string + string) \<times> 'w"
  sv_jwks :: "string \<Rightarrow> 'w \<Rightarrow> (string + pyval) \<times> 'w"
  sv_jwt_header :: "string \<Rightarrow> pyval option"
  sv_jwt_decode :: "string \<Rightarrow> pyval \<Rightarrow> string \<Rightarrow> string option \<Rightarrow> 'w \<Rightarrow> pyval option"
  sv_sha1 :: "string \<Rightarrow> string"
  sv_sha256 :: "string \<Rightarrow> string"
  sv_json_error :: "string \<Rightarrow> string"
  sv_float_text :: "rat \<Rightarrow> string"
  sv_float_value :: "string \<Rightarrow> rat"

record 'w runtime =
  rt_world :: 'w
  rt_audit :: "audit_event list"
  rt_invocations :: "(string \<times> string) list"
  rt_llm_calls :: "llm_request list"
  rt_published :: "(string \<times> string \<times> string) list"
  rt_reviews :: "string \<times> string \<Rightarrow> review option"
  rt_agents :: "string \<times> string \<Rightarrow> agent_row option"
  rt_versions :: "string \<times> int \<Rightarrow> attr option option"
  rt_memory :: "string \<times> string \<Rightarrow> memory_item option"
  rt_sessions :: "string \<Rightarrow> (string \<times> string) list option"
  rt_guardrail_rows :: "string \<times> string \<Rightarrow> (string option \<times> string option) option"
  rt_kb_rows :: "string \<times> string \<Rightarrow> string option option"
  rt_guardrail_cache :: "(string \<times> string) option option"
  rt_kb_cache :: "string option option"
  rt_counters :: "string \<Rightarrow> (int \<times> int option) option"
  rt_keys :: "string \<Rightarrow> (string \<times> int) option"
  rt_jwks_cache :: "string \<Rightarrow> (pyval \<times> int) option"

type_synonym ('w, 'a) action = "('w runtime, 'a) prog"

section \<open>Primitive actions\<close>

definition now_us :: "'w services \<Rightarrow> ('w, int) action" where
  "now_us sv = reads (\<lambda>s. sv_clock sv (rt_world s))"

text \<open>\<open>uuid4().hex\<close> and \<open>str(uuid4())\<close>.\<close>

definition uuid_hex :: "'w services \<Rightarrow> ('w, string) action" where
  "uuid_hex sv s = (let (x, w) = sv_uuid sv (rt_world s) in (Inr x, s\<lparr>rt_world := w\<rparr>))"

definition uuid_text :: "string \<Rightarrow> string" where
  "uuid_text h =
     join_with ''-'' [take 8 h, take 4 (drop 8 h), take 4 (drop 12 h), take 4 (drop 16 h), drop 20 h]"

definition new_uuid :: "'w services \<Rightarrow> ('w, string) action" where
  "new_uuid sv = andthen (uuid_hex sv) (\<lambda>h. ret (uuid_text h))"

definition upper_char :: "char \<Rightarrow> char" where
  "upper_char c = (let n = (of_char c :: nat) in if 97 \<le> n \<and> n \<le> 122 then char_of (n - 32) else c)"

definition upper :: "string \<Rightarrow> string" where "upper = map upper_char"

text \<open>A request to a table that is answered runs its action; one that is not raises.\<close>

definition on_table :: "'w services \<Rightarrow> string \<Rightarrow> ('w, 'a) action \<Rightarrow> ('w, 'a) action" where
  "on_table sv t m s =
     (let (ok, w) = sv_db sv t (rt_world s)
      in if ok then m (s\<lparr>rt_world := w\<rparr>) else (Inl (ClientError t), s\<lparr>rt_world := w\<rparr>))"

definition external :: "('w \<Rightarrow> (string + 'a) \<times> 'w) \<Rightarrow> ('w, 'a) action" where
  "external f s =
     (case f (rt_world s) of
        (Inl e, w) \<Rightarrow> (Inl (ExternalError e), s\<lparr>rt_world := w\<rparr>)
      | (Inr x, w) \<Rightarrow> (Inr x, s\<lparr>rt_world := w\<rparr>))"

definition publish :: "'w services \<Rightarrow> string \<Rightarrow> string \<Rightarrow> string \<Rightarrow> ('w, unit) action" where
  "publish sv topic subject body =
     on_table sv topic (modifies (\<lambda>s. s\<lparr>rt_published := rt_published s @ [(topic, subject, body)]\<rparr>))"

section \<open>Audit events (audit.py)\<close>

definition audit_ttl_days :: int where "audit_ttl_days = 90"

definition write_audit_event ::
  "'w services \<Rightarrow> string \<Rightarrow> string \<Rightarrow> string \<Rightarrow> string \<Rightarrow> string \<Rightarrow> string \<Rightarrow> string \<Rightarrow> string
     \<Rightarrow> (string \<times> pyval) list \<Rightarrow> ('w, unit) action" where
  "write_audit_event sv tenant etype agent who act res result source_ip extra =
     andthen (now_us sv) (\<lambda>now.
     andthen (uuid_hex sv) (\<lambda>_.
       let ev = \<lparr>ev_tenant = tenant, ev_type = etype, ev_agent = agent, ev_principal = who,
                 ev_action = act, ev_resource = res, ev_result = result, ev_request_id = [],
                 ev_source_ip = source_ip, ev_timestamp = At now,
                 ev_expires_at = now div 1000000 + audit_ttl_days * 86400, ev_extra = extra\<rparr>
       in catching (on_table sv ''audit-log'' (modifies (\<lambda>s. s\<lparr>rt_audit := rt_audit s @ [ev]\<rparr>)))
            (\<lambda>_. ret ())))"

lemma write_audit_event_never_raises: "\<exists>t. write_audit_event sv a b c d e f g h i s = (Inr (), t)"
  by (simp add: write_audit_event_def new_uuid_def uuid_hex_def now_us_def prog_simps on_table_def
      Let_def split: prod.splits)

lemma write_audit_event_not_Inl [simp]:
  "write_audit_event sv a b c d e f g h i s = (Inl ex, t) \<longleftrightarrow> False"
  using write_audit_event_never_raises [of sv a b c d e f g h i s] by auto

section \<open>Frames of the primitive actions\<close>

text \<open>
  What the primitives leave alone, for the frames the properties use: the Lambda log, the LLM
  log, the reviews table, the agents table, and the audit log that only grows.
\<close>

definition world_free :: "('w runtime \<Rightarrow> 'b) \<Rightarrow> bool" where
  "world_free obs \<longleftrightarrow> (\<forall>s w. obs (s\<lparr>rt_world := w\<rparr>) = obs s)"

lemma world_free_fields [simp]:
  "world_free rt_audit" "world_free rt_invocations" "world_free rt_llm_calls" "world_free rt_reviews"
  "world_free rt_agents" "world_free rt_memory" "world_free rt_sessions" "world_free rt_counters"
  "world_free rt_published" "world_free rt_guardrail_cache" "world_free rt_kb_cache" "world_free rt_keys"
  "world_free rt_versions"
  by (simp_all add: world_free_def)

lemma same_now_us [frame_intros]: "stays_in (same obs) (now_us sv)"
  unfolding now_us_def by (rule same_frame.stays_reads)

lemma same_uuid_hex [frame_intros]: "world_free obs \<Longrightarrow> stays_in (same obs) (uuid_hex sv)"
  by (simp add: stays_in_def same_def uuid_hex_def world_free_def split: prod.splits)

lemma same_new_uuid [frame_intros]: "world_free obs \<Longrightarrow> stays_in (same obs) (new_uuid sv)"
  unfolding new_uuid_def by (intro frame_intros) simp_all

lemma same_on_table [frame_intros]:
  "world_free obs \<Longrightarrow> stays_in (same obs) m \<Longrightarrow> stays_in (same obs) (on_table sv t m)"
  by (auto simp: stays_in_def same_def on_table_def world_free_def Let_def split: prod.splits)

lemma same_external [frame_intros]: "world_free obs \<Longrightarrow> stays_in (same obs) (external f)"
  by (simp add: stays_in_def same_def external_def world_free_def split: prod.splits sum.splits)

lemma same_modifies [frame_intros]: "(\<And>s. obs (f s) = obs s) \<Longrightarrow> stays_in (same obs) (modifies f)"
  by (simp add: stays_in_def same_def modifies_def)

lemma same_publish [frame_intros]:
  "world_free obs \<Longrightarrow> (\<And>s x. obs (s\<lparr>rt_published := x\<rparr>) = obs s) \<Longrightarrow>
     stays_in (same obs) (publish sv t x y)"
  unfolding publish_def by (intro frame_intros) simp_all

lemma same_write_audit_event [frame_intros]:
  "world_free obs \<Longrightarrow> (\<And>s x. obs (s\<lparr>rt_audit := x\<rparr>) = obs s) \<Longrightarrow>
     stays_in (same obs) (write_audit_event sv a b c d e f g h i)"
  unfolding write_audit_event_def Let_def by (intro frame_intros) simp_all

end
