(* ===== verification/ConfigLoader.thy ===== *)
theory ConfigLoader
  imports JsonRoundtrip Prompting
begin

text \<open>
  services/agent-runtime/config_loader.py and config_hash.py: how a container finds its own
  agent's configuration at startup, which version it takes, and the integrity check against the
  hash its task definition pins. The Factory's copy of the hash (app/shared/config_hash.py) is
  the second definition; the two are proved to be one function.
\<close>

section \<open>Hashing a configuration\<close>

text \<open>
  \<open>json.dumps(configuration, sort_keys=True, default=str)\<close>, hashed. The runtime's copy is given the
  dict it read; the Factory's copy is given the model and dumps it first, with Pydantic's
  \<open>model_dump(mode="json")\<close> as the parameter \<open>dump\<close> (the identity where this library already
  carries a configuration as its dump).
\<close>

definition compute_config_hash :: "(string \<Rightarrow> string) \<Rightarrow> pyval \<Rightarrow> string" where
  "compute_config_hash sha256 configuration = sha256 (json_canonical configuration)"

definition compute_config_hash_factory :: "(string \<Rightarrow> string) \<Rightarrow> ('m \<Rightarrow> pyval) \<Rightarrow> 'm \<Rightarrow> string" where
  "compute_config_hash_factory sha256 dump configuration =
     (let canonical = json_dumps (sort_keys (dump configuration)) in sha256 canonical)"

lemma config_hash_copies: "compute_config_hash_factory sha256 dump m = compute_config_hash sha256 (dump m)"
  by (simp add: compute_config_hash_factory_def compute_config_hash_def json_canonical_def)

section \<open>Decimals\<close>

fun decimal_to_native :: "(rat \<Rightarrow> string) \<Rightarrow> attr \<Rightarrow> pyval" where
  "decimal_to_native ft ANull = PNone"
| "decimal_to_native ft (ABool b) = PBool b"
| "decimal_to_native ft (ANum r) = (if r = of_int \<lfloor>r\<rfloor> then PInt \<lfloor>r\<rfloor> else PFloat (ft r))"
| "decimal_to_native ft (AStr s) = PStr s"
| "decimal_to_native ft (AList xs) = PList (map (decimal_to_native ft) xs)"
| "decimal_to_native ft (AMap kvs) = PDict (map (\<lambda>(k, v). (k, decimal_to_native ft v)) kvs)"

section \<open>Loading\<close>

record environment =
  env_agent :: "string option"
  env_tenant :: "string option"
  env_config_hash :: "string option"

definition env_item :: "string \<Rightarrow> string option \<Rightarrow> ('w, string) action" where
  "env_item name v = (case v of None \<Rightarrow> raising (KeyError name) | Some x \<Rightarrow> ret x)"

definition verify_config_hash ::
  "'w services \<Rightarrow> environment \<Rightarrow> pyval \<Rightarrow> string \<Rightarrow> string \<Rightarrow> ('w, unit) action" where
  "verify_config_hash sv env configuration tenant agent =
     (if \<not> truthy (env_config_hash env) then ret ()
      else
        (let expected = get_or [] (env_config_hash env);
             actual = compute_config_hash (sv_sha256 sv) configuration
         in if actual = expected then ret ()
            else
              andthen (write_audit_event sv tenant ''agent.config_integrity_failed'' agent ''agent-runtime''
                         ''startup_config_verification'' agent ''denied'' []
                         [(''expected_hash'', PStr expected), (''actual_hash'', PStr actual)])
                (\<lambda>_. raising (ConfigIntegrityError agent expected actual))))"

text \<open>\<open>agent_item.get("live_version") or agent_item.get("current_version")\<close>\<close>

definition version_to_load :: "agent_row \<Rightarrow> int option" where
  "version_to_load row =
     (case row of
        SpendOnly _ _ \<Rightarrow> None
      | Whole r \<Rightarrow>
          (case ag_live_version r of
             Some v \<Rightarrow> if v \<noteq> 0 then Some v else Some (ag_current_version r)
           | None \<Rightarrow> Some (ag_current_version r)))"

definition name_of_row :: "string \<Rightarrow> agent_row \<Rightarrow> string" where
  "name_of_row agent row = (case row of Whole r \<Rightarrow> ag_name r | SpendOnly _ _ \<Rightarrow> agent)"

text \<open>
  The stored configuration: a JSON text is parsed, a native map is taken with its numbers made
  native, and anything that is not a dict then is no version.
\<close>

definition stored_configuration ::
  "'w services \<Rightarrow> string \<Rightarrow> int \<Rightarrow> attr option \<Rightarrow> ('w, (string \<times> pyval) list) action" where
  "stored_configuration sv agent version cfg =
     andthen
       (case cfg of
          Some (AStr text) \<Rightarrow>
            (case json_loads text of
               None \<Rightarrow> raising (ValueError (sv_json_error sv text))
             | Some v \<Rightarrow> ret v)
        | Some a \<Rightarrow> ret (decimal_to_native (sv_float_text sv) a)
        | None \<Rightarrow> ret PNone)
       (\<lambda>v. case v of
              PDict kvs \<Rightarrow> ret kvs
            | _ \<Rightarrow> raising (AgentVersionNotFoundError agent (Some version)))"

text \<open>The dict with the four identifying keys first, which the configuration's own keys override.\<close>

definition merged_config :: "string \<Rightarrow> string \<Rightarrow> string \<Rightarrow> int \<Rightarrow> (string \<times> pyval) list \<Rightarrow> pyval" where
  "merged_config agent tenant name version kvs =
     PDict (dict_collapse
       ([(''agent_id'', PStr agent), (''tenant_id'', PStr tenant), (''name'', PStr name),
         (''version'', PInt version)] @ kvs))"

definition load_agent_config :: "'w services \<Rightarrow> environment \<Rightarrow> ('w, pyval) action" where
  "load_agent_config sv env =
     andthen (env_item ''AGENT_ID'' (env_agent env)) (\<lambda>agent.
     andthen (env_item ''TENANT_ID'' (env_tenant env)) (\<lambda>tenant.
     andthen (on_table sv ''agents'' (reads (\<lambda>s. rt_agents s (tenant, agent)))) (\<lambda>item.
       case item of
         None \<Rightarrow> raising (AgentNotFoundError tenant agent)
       | Some row \<Rightarrow>
           (case version_to_load row of
              None \<Rightarrow> raising (AgentVersionNotFoundError agent None)
            | Some version \<Rightarrow>
                andthen (on_table sv ''agent-versions'' (reads (\<lambda>s. rt_versions s (agent, version)))) (\<lambda>vitem.
                  case vitem of
                    None \<Rightarrow> raising (AgentVersionNotFoundError agent (Some version))
                  | Some cfg \<Rightarrow>
                      andthen (stored_configuration sv agent version cfg) (\<lambda>kvs.
                      andthen (verify_config_hash sv env (PDict kvs) tenant agent) (\<lambda>_.
                        ret (merged_config agent tenant (name_of_row agent row) version kvs))))))))"

definition get_current_agent_record :: "'w services \<Rightarrow> environment \<Rightarrow> ('w, agent_record) action" where
  "get_current_agent_record sv env =
     andthen (env_item ''AGENT_ID'' (env_agent env)) (\<lambda>agent.
     andthen (env_item ''TENANT_ID'' (env_tenant env)) (\<lambda>tenant.
     andthen (on_table sv ''agents'' (reads (\<lambda>s. rt_agents s (tenant, agent)))) (\<lambda>item.
       case item of
         None \<Rightarrow> raising (AgentNotFoundError tenant agent)
       | Some row \<Rightarrow> ret (row_view (tenant, agent) row))))"

section \<open>A container starts only on the pinned configuration\<close>

lemma verify_config_hash_pass:
  "verify_config_hash sv env cfg tenant agent s = (Inr u, t) \<Longrightarrow>
     t = s \<and> (truthy (env_config_hash env) \<longrightarrow> env_config_hash env = Some (compute_config_hash (sv_sha256 sv) cfg))"
  by (auto simp: verify_config_hash_def Let_def ret_def raising_def truthy_def get_or_def
      elim!: andthen_InrE split: if_splits option.splits)

lemma env_item_Inr [simp]: "env_item n v s = (Inr x, t) \<longleftrightarrow> v = Some x \<and> t = s"
  by (auto simp: env_item_def ret_def raising_def split: option.splits)

lemma on_table_reads_Inr: "on_table sv tn (reads f) s = (Inr x, t) \<Longrightarrow> \<exists>w. t = s\<lparr>rt_world := w\<rparr> \<and> x = f (s\<lparr>rt_world := w\<rparr>)"
  by (auto simp: on_table_def reads_def Let_def split: prod.splits if_splits)

lemma stored_configuration_Inr:
  "stored_configuration sv agent v cfg s = (Inr kvs, t) \<Longrightarrow>
     t = s \<and> ((\<exists>text. cfg = Some (AStr text) \<and> json_loads text = Some (PDict kvs))
           \<or> (\<exists>a. cfg = Some a \<and> PDict kvs = decimal_to_native (sv_float_text sv) a))"
  by (auto simp: stored_configuration_def ret_def raising_def andthen_def
      split: option.splits attr.splits pyval.splits if_splits)

text \<open>
  What a successful start has seen: the agent's row, the version item of the live version (or of
  the current one before the first deployment), and the pinned hash.
\<close>

lemma load_agent_config_trace:
  assumes "load_agent_config sv env s = (Inr c, t)"
  obtains agent tenant row v cfg kvs where
    "env_agent env = Some agent" "env_tenant env = Some tenant"
    "rt_agents s (tenant, agent) = Some row" "version_to_load row = Some v"
    "rt_versions s (agent, v) = Some cfg"
    "(\<exists>text. cfg = Some (AStr text) \<and> json_loads text = Some (PDict kvs))
           \<or> (\<exists>a. cfg = Some a \<and> PDict kvs = decimal_to_native (sv_float_text sv) a)"
    "truthy (env_config_hash env) \<longrightarrow>
        env_config_hash env = Some (compute_config_hash (sv_sha256 sv) (PDict kvs))"
    "c = merged_config agent tenant (name_of_row agent row) v kvs"
proof -
  obtain agent tenant where e: "env_agent env = Some agent" "env_tenant env = Some tenant"
    using assms by (auto simp: load_agent_config_def elim!: andthen_InrE)
  from assms e show ?thesis
    by (auto simp: load_agent_config_def raising_def ret_def elim!: andthen_InrE dest!: on_table_reads_Inr
        split: option.splits)
      (rule that; (assumption | simp)?; use stored_configuration_Inr verify_config_hash_pass in blast)
qed

end
