(* ===== verification/ToolPolicy.thy ===== *)
theory ToolPolicy
  imports RuntimeState
begin

text \<open>
  services/agent-runtime/tool_policy.py: the default-deny decision on a tool call and its
  enforcement. \<open>check_policy\<close> is the pure decision, \<open>enforce\<close> writes the audit event
  and raises. The interface \<open>policy_gate_laws\<close> is what the tool executor relies on.
\<close>

datatype risk_level = LOW | MEDIUM | HIGH | DESTRUCTIVE

definition risk_value :: "risk_level \<Rightarrow> string" where
  "risk_value r = (case r of LOW \<Rightarrow> ''LOW'' | MEDIUM \<Rightarrow> ''MEDIUM'' | HIGH \<Rightarrow> ''HIGH'' | DESTRUCTIVE \<Rightarrow> ''DESTRUCTIVE'')"

text \<open>\<open>RiskLevel(text)\<close> raises ValueError on a text that is no member's value.\<close>

definition risk_of :: "string \<Rightarrow> risk_level option" where
  "risk_of t =
     (if t = ''LOW'' then Some LOW else if t = ''MEDIUM'' then Some MEDIUM
      else if t = ''HIGH'' then Some HIGH else if t = ''DESTRUCTIVE'' then Some DESTRUCTIVE else None)"

definition requires_approval_levels :: "risk_level list" where
  "requires_approval_levels = [HIGH, DESTRUCTIVE]"

record policy_decision =
  pd_allowed :: bool
  pd_requires_approval :: bool
  pd_reason :: string

definition policy_index :: "tool_policy list \<Rightarrow> string \<Rightarrow> tool_policy option" where
  "policy_index ps = dict_of (map (\<lambda>p. (tp_tool p, p)) ps)"

definition check_policy :: "tool_policy list \<Rightarrow> string \<Rightarrow> pyexn + policy_decision" where
  "check_policy ps tool =
     (case policy_index ps tool of
        None \<Rightarrow> Inr \<lparr>pd_allowed = False, pd_requires_approval = False,
                 pd_reason = ''Tool '' @ repr_str tool @ '' not in agent tool policy -- default deny''\<rparr>
      | Some p \<Rightarrow>
          (if \<not> get_or False (tp_allowed p)
           then Inr \<lparr>pd_allowed = False, pd_requires_approval = False,
                  pd_reason = ''Tool '' @ repr_str tool @ '' is disabled in policy''\<rparr>
           else
             (case risk_of (get_or ''LOW'' (tp_risk p)) of
                None \<Rightarrow> Inl (ValueError (get_or ''LOW'' (tp_risk p)))
              | Some r \<Rightarrow>
                  (if r \<in> set requires_approval_levels
                   then Inr \<lparr>pd_allowed = True, pd_requires_approval = True,
                          pd_reason = ''Risk level '' @ risk_value r @ '' requires human approval''\<rparr>
                   else Inr \<lparr>pd_allowed = True, pd_requires_approval = False, pd_reason = ''ok''\<rparr>))))"

definition enforce ::
  "'w services \<Rightarrow> tool_policy list \<Rightarrow> string \<Rightarrow> string \<Rightarrow> string \<Rightarrow> string \<Rightarrow> ('w, unit) action" where
  "enforce sv ps tool tenant agent who =
     (case check_policy ps tool of
        Inl e \<Rightarrow> raising e
      | Inr d \<Rightarrow>
          (if \<not> pd_allowed d
           then andthen (write_audit_event sv tenant ''tool.denied'' agent who (''invoke:'' @ tool) tool
                           ''denied'' [] [(''reason'', PStr (pd_reason d))])
                  (\<lambda>_. raising (ToolDeniedError tool (pd_reason d)))
           else if pd_requires_approval d
           then andthen (write_audit_event sv tenant ''human.approval.requested'' agent who
                           (''invoke:'' @ tool) tool ''pending'' [] [(''reason'', PStr (pd_reason d))])
                  (\<lambda>_. raising (ApprovalRequiredError tool))
           else ret ()))"

section \<open>What the decision means\<close>

text \<open>A tool may run without a human exactly when its own (last) entry allows it at a low risk.\<close>

definition runs_freely :: "tool_policy list \<Rightarrow> string \<Rightarrow> bool" where
  "runs_freely ps tool \<longleftrightarrow>
     (\<exists>p. policy_index ps tool = Some p \<and> tp_allowed p = Some True \<and>
          (tp_risk p = None \<or> tp_risk p = Some ''LOW'' \<or> tp_risk p = Some ''MEDIUM''))"

definition needs_human :: "tool_policy list \<Rightarrow> string \<Rightarrow> bool" where
  "needs_human ps tool \<longleftrightarrow>
     (\<exists>p. policy_index ps tool = Some p \<and> tp_allowed p = Some True \<and>
          (tp_risk p = Some ''HIGH'' \<or> tp_risk p = Some ''DESTRUCTIVE''))"

lemma allowed_flag: "get_or False x = (x = Some True)"
  by (cases x) auto

lemma risk_of_Some: "risk_of t = Some r \<longleftrightarrow> t = risk_value r"
  by (cases r) (auto simp: risk_of_def risk_value_def)

lemma check_policy_free:
  "check_policy ps tool = Inr d \<and> pd_allowed d \<and> \<not> pd_requires_approval d \<Longrightarrow> runs_freely ps tool"
  by (auto simp: check_policy_def runs_freely_def allowed_flag requires_approval_levels_def risk_of_def
      get_or_def split: option.splits if_splits)

lemma check_policy_human:
  "check_policy ps tool = Inr d \<and> pd_allowed d \<and> pd_requires_approval d \<Longrightarrow> needs_human ps tool"
  by (auto simp: check_policy_def needs_human_def allowed_flag requires_approval_levels_def risk_of_def
      get_or_def split: option.splits if_splits)

lemma check_policy_error: "check_policy ps tool = Inl e \<Longrightarrow> \<exists>t. e = ValueError t"
  by (auto simp: check_policy_def split: option.splits if_splits)

lemma free_not_human: "runs_freely ps tool \<Longrightarrow> \<not> needs_human ps tool"
  by (auto simp: runs_freely_def needs_human_def)

lemma absent_not_free: "tool \<notin> tp_tool ` set ps \<Longrightarrow> \<not> runs_freely ps tool"
  using dict_of_None_iff [of "map (\<lambda>p. (tp_tool p, p)) ps" tool]
  by (force simp: runs_freely_def policy_index_def)

section \<open>The interface of the gate\<close>

text \<open>
  What a caller of the gate relies on: passing it means the tool runs freely, being stopped for
  approval means it needs a human, and the gate itself starts no Lambda and no LLM call.
\<close>

locale policy_gate_laws =
  fixes gate :: "string \<Rightarrow> ('w, unit) action"
    and free :: "string \<Rightarrow> bool"
    and human :: "string \<Rightarrow> bool"
  assumes gate_pass: "gate tool s = (Inr (), t) \<Longrightarrow> free tool"
    and gate_approval: "gate tool s = (Inl (ApprovalRequiredError u), t) \<Longrightarrow> u = tool \<and> human tool"
    and gate_quiet: "stays_in (same rt_invocations) (gate tool)"
begin

lemma gate_outcome:
  assumes "gate tool s = (r, t)"
  shows "rt_invocations t = rt_invocations s"
  using stays_inD [OF gate_quiet assms] by (simp add: same_def)

lemma unfree_stopped:
  assumes "\<not> free tool"
  obtains e t where "gate tool s = (Inl e, t)"
proof (cases "gate tool s")
  case (Pair r t)
  show ?thesis
  proof (cases r)
    case (Inl e)
    with Pair that show ?thesis by blast
  next
    case (Inr x)
    with Pair gate_pass assms show ?thesis by auto
  qed
qed

end

lemma enforce_pass: "enforce sv ps tool tn ag who s = (Inr (), t) \<Longrightarrow> runs_freely ps tool"
  using check_policy_free [of ps tool]
  by (auto simp: enforce_def prog_simps split: sum.splits if_splits prod.splits)

lemma enforce_approval:
  "enforce sv ps tool tn ag who s = (Inl (ApprovalRequiredError u), t) \<Longrightarrow> u = tool \<and> needs_human ps tool"
  using check_policy_human [of ps tool] check_policy_error [of ps tool]
  by (auto simp: enforce_def prog_simps split: sum.splits if_splits prod.splits)

lemma enforce_quiet: "stays_in (same rt_invocations) (enforce sv ps tool tn ag who)"
  unfolding enforce_def by (intro frame_intros) simp_all

interpretation policy_engine: policy_gate_laws
  "\<lambda>tool. enforce sv ps tool tn ag who" "runs_freely ps" "needs_human ps" for sv ps tn ag who
  by unfold_locales (auto intro: enforce_pass enforce_quiet dest: enforce_approval)

end
