(* ===== verification/Naming.thy ===== *)
theory Naming
  imports Prelude
begin

text \<open>
  app/modules/iac_generator/naming.py, and the copy of \<open>tool_lambda_name\<close> that
  services/agent-runtime/tool_executor.py keeps. \<open>hashlib.sha1\<close> is a parameter: a function
  from a text to its hexadecimal digest.
\<close>

definition id_hash_len :: int where "id_hash_len = 6"

text \<open>Python's \<open>xs[:b]\<close>, which counts a negative \<open>b\<close> from the end.\<close>

definition slice_to :: "int \<Rightarrow> 'a list \<Rightarrow> 'a list" where
  "slice_to b xs = (if b < 0 then take (nat (int (length xs) + b)) xs else take (nat b) xs)"

definition truncated_name :: "(string \<Rightarrow> string) \<Rightarrow> string \<Rightarrow> string \<Rightarrow> string \<Rightarrow> int \<Rightarrow> string" where
  "truncated_name sha1 pre ident suff max_length =
     (let full = pre @ ident @ suff
      in if int (length full) \<le> max_length then full
         else
           (let budget = max_length - int (length pre) - 1 - id_hash_len - int (length suff);
                truncated = slice_to budget ident;
                id_hash = slice_to id_hash_len (sha1 ident)
            in pre @ truncated @ ''-'' @ id_hash @ suff))"

definition bedrock_guardrail_name :: "(string \<Rightarrow> string) \<Rightarrow> string \<Rightarrow> string" where
  "bedrock_guardrail_name sha1 agent = truncated_name sha1 ''panasa-'' agent ''-guardrail'' 50"

definition alb_name :: "(string \<Rightarrow> string) \<Rightarrow> string \<Rightarrow> string" where
  "alb_name sha1 agent = truncated_name sha1 ''panasa-'' agent ''-alb'' 32"

definition target_group_name :: "(string \<Rightarrow> string) \<Rightarrow> string \<Rightarrow> string" where
  "target_group_name sha1 agent = truncated_name sha1 ''panasa-'' agent ''-tg'' 32"

definition opensearch_collection_name :: "(string \<Rightarrow> string) \<Rightarrow> string \<Rightarrow> string" where
  "opensearch_collection_name sha1 agent = truncated_name sha1 ''panasa-'' agent ''-kb'' 32"

definition tool_identifier :: "string \<Rightarrow> string \<Rightarrow> string" where
  "tool_identifier agent tool = agent @ ''-tool-'' @ tool"

definition tool_lambda_name :: "(string \<Rightarrow> string) \<Rightarrow> string \<Rightarrow> string \<Rightarrow> string" where
  "tool_lambda_name sha1 agent tool = truncated_name sha1 ''panasa-'' (tool_identifier agent tool) '''' 64"

definition tool_role_name :: "(string \<Rightarrow> string) \<Rightarrow> string \<Rightarrow> string \<Rightarrow> string" where
  "tool_role_name sha1 agent tool = truncated_name sha1 ''panasa-'' (tool_identifier agent tool) ''-role'' 64"

text \<open>The agent runtime's own copy (tool_executor.py).\<close>

definition lambda_name_max :: int where "lambda_name_max = 64"

definition runtime_tool_lambda_name :: "(string \<Rightarrow> string) \<Rightarrow> string \<Rightarrow> string \<Rightarrow> string" where
  "runtime_tool_lambda_name sha1 agent tool =
     (let identifier = agent @ ''-tool-'' @ tool;
          full = ''panasa-'' @ identifier
      in if int (length full) \<le> lambda_name_max then full
         else
           (let budget = lambda_name_max - int (length ''panasa-'') - 1 - id_hash_len;
                truncated = slice_to budget identifier;
                id_hash = slice_to id_hash_len (sha1 identifier)
            in ''panasa-'' @ truncated @ ''-'' @ id_hash))"

section \<open>Bounds and collisions\<close>

lemma length_slice_to: "0 \<le> b \<Longrightarrow> length (slice_to b xs) = min (nat b) (length xs)"
  by (simp add: slice_to_def)

lemma length_truncated_name:
  assumes "int (length pre) + 1 + id_hash_len + int (length suff) \<le> max_length"
  shows "int (length (truncated_name sha1 pre ident suff max_length)) \<le> max_length"
  using assms by (auto simp: truncated_name_def Let_def length_slice_to id_hash_len_def)

lemma truncated_name_eqD:
  assumes room: "int (length pre) + 1 + id_hash_len + int (length suff) \<le> max_length"
    and eq: "truncated_name sha1 pre x suff max_length = truncated_name sha1 pre y suff max_length"
    and long: "int (length (pre @ x @ suff)) > max_length" "int (length (pre @ y @ suff)) > max_length"
  shows "slice_to (max_length - int (length pre) - 1 - id_hash_len - int (length suff)) x
           = slice_to (max_length - int (length pre) - 1 - id_hash_len - int (length suff)) y
         \<and> slice_to id_hash_len (sha1 x) = slice_to id_hash_len (sha1 y)"
proof -
  let ?b = "max_length - int (length pre) - 1 - id_hash_len - int (length suff)"
  have b: "0 \<le> ?b" using room by simp
  have "length (slice_to ?b x) = nat ?b" "length (slice_to ?b y) = nat ?b"
    using long b by (simp_all add: length_slice_to id_hash_len_def)
  moreover have "slice_to ?b x @ ''-'' @ slice_to id_hash_len (sha1 x) @ suff
      = slice_to ?b y @ ''-'' @ slice_to id_hash_len (sha1 y) @ suff"
    using eq long by (simp add: truncated_name_def Let_def)
  ultimately show ?thesis by simp
qed

end
