(* ===== verification/ToolExecutor.thy ===== *)
theory ToolExecutor
  imports ToolPolicy Naming JsonRoundtrip
begin

text \<open>
  services/agent-runtime/tool_executor.py: the tool definitions offered to the model and the
  execution of a batch of tool calls. The batch runs inside the interface of the policy gate
  (ToolPolicy), so what it promises about Lambda invocations holds for any gate that keeps the
  laws; the definitions below use the engine of tool_policy.py.
\<close>

record executor =
  ex_agent :: string
  ex_tenant :: string
  ex_tools :: "tool_spec list"
  ex_policies :: "tool_policy list"

definition tool_index :: "executor \<Rightarrow> string \<Rightarrow> tool_spec option" where
  "tool_index ex = dict_of (map (\<lambda>t. (tool_id t, t)) (ex_tools ex))"

text \<open>The values of the dict \<open>self._tools\<close>, in insertion order.\<close>

definition tool_values :: "executor \<Rightarrow> tool_spec list" where
  "tool_values ex = map snd (dict_collapse (map (\<lambda>t. (tool_id t, t)) (ex_tools ex)))"

definition empty_schema :: pyval where
  "empty_schema = PDict [(''type'', PStr ''object''), (''properties'', PDict [])]"

definition tool_definition :: "tool_spec \<Rightarrow> pyval" where
  "tool_definition t =
     PDict [(''type'', PStr ''function''),
            (''function'', PDict
               [(''name'', PStr (tool_id t)),
                (''description'', PStr (get_or (tool_id t) (tool_name t))),
                (''parameters'',
                   (case input_schema t of
                      None \<Rightarrow> empty_schema
                    | Some v \<Rightarrow> if py_truthy v then v else empty_schema))])]"

definition get_definitions :: "executor \<Rightarrow> pyval list" where
  "get_definitions ex = map tool_definition (tool_values ex)"

definition tool_error :: "string \<Rightarrow> pyval \<Rightarrow> pyval" where
  "tool_error tool e = PDict [(''tool_id'', PStr tool), (''error'', e)]"

definition tool_result :: "string \<Rightarrow> pyval \<Rightarrow> pyval" where
  "tool_result tool r = PDict [(''tool_id'', PStr tool), (''result'', r)]"

text \<open>\<open>json.loads(call["arguments"]) if call.get("arguments") else {}\<close>; None is a decode error.\<close>

definition call_arguments :: "tool_call \<Rightarrow> pyval option" where
  "call_arguments c =
     (if truthy (tc_arguments c) then json_loads (get_or [] (tc_arguments c)) else Some (PDict []))"

text \<open>Sending the request to Lambda is recorded before the answer is known.\<close>

definition invoke_lambda :: "'w services \<Rightarrow> string \<Rightarrow> string \<Rightarrow> ('w, bool \<times> pyval) action" where
  "invoke_lambda sv fn payload =
     andthen (modifies (\<lambda>s. s\<lparr>rt_invocations := rt_invocations s @ [(fn, payload)]\<rparr>))
       (\<lambda>_. external (sv_lambda sv fn payload))"

text \<open>One round of the loop for a known tool whose arguments parse.\<close>

definition run_call :: "'w services \<Rightarrow> executor \<Rightarrow> string option \<Rightarrow> tool_call \<Rightarrow> pyval \<Rightarrow> ('w, pyval) action" where
  "run_call sv ex pre c args =
     andthen (if tc_id c \<noteq> pre
              then enforce sv (ex_policies ex) (tc_name c) (ex_tenant ex) (ex_agent ex) ''agent-runtime''
              else ret ())
       (\<lambda>_. andthen (invoke_lambda sv (runtime_tool_lambda_name (sv_sha1 sv) (ex_agent ex) (tc_name c))
                                      (json_dumps args))
       (\<lambda>(failed, payload).
          andthen (write_audit_event sv (ex_tenant ex) ''tool.invoked'' (ex_agent ex) ''agent-runtime''
                     (''invoke:'' @ tc_name c) (tc_name c) (if failed then ''error'' else ''success'') [] [])
          (\<lambda>_. andthen (if failed
                        then write_audit_event sv (ex_tenant ex) ''tool.failed'' (ex_agent ex)
                               ''agent-runtime'' (''invoke:'' @ tc_name c) (tc_name c) ''error'' [] []
                        else ret ())
          (\<lambda>_. ret (if failed then tool_error (tc_name c) payload else tool_result (tc_name c) payload)))))"

fun execute :: "'w services \<Rightarrow> executor \<Rightarrow> string option \<Rightarrow> tool_call list \<Rightarrow> ('w, pyval list) action" where
  "execute sv ex pre [] = ret []"
| "execute sv ex pre (c # cs) =
     andthen
       (if tool_index ex (tc_name c) = None
        then ret (tool_error (tc_name c) (PStr ''unknown tool''))
        else
          (case call_arguments c of
             None \<Rightarrow> ret (tool_error (tc_name c)
                      (PStr (''invalid arguments: '' @ sv_json_error sv (get_or [] (tc_arguments c)))))
           | Some args \<Rightarrow> run_call sv ex pre c args))
       (\<lambda>r. andthen (execute sv ex pre cs) (\<lambda>rs. ret (r # rs)))"

section \<open>What a batch may send to Lambda\<close>

text \<open>
  A call is cleared when its tool is configured and its arguments parse, and either the policy
  lets the tool run freely or the call carries the id the caller passed as approved.
\<close>

definition cleared :: "executor \<Rightarrow> string option \<Rightarrow> tool_call \<Rightarrow> bool" where
  "cleared ex pre c \<longleftrightarrow>
     tool_index ex (tc_name c) \<noteq> None \<and> call_arguments c \<noteq> None \<and>
     (tc_id c = pre \<or> runs_freely (ex_policies ex) (tc_name c))"

definition invocation_of :: "'w services \<Rightarrow> executor \<Rightarrow> tool_call \<Rightarrow> string \<times> string" where
  "invocation_of sv ex c =
     (runtime_tool_lambda_name (sv_sha1 sv) (ex_agent ex) (tc_name c),
      json_dumps (get_or PNone (call_arguments c)))"

lemma invoke_lambda_log:
  "invoke_lambda sv fn p s = (r, t) \<Longrightarrow> rt_invocations t = rt_invocations s @ [(fn, p)]"
  by (auto simp: invoke_lambda_def external_def prog_simps split: sum.splits prod.splits)

lemma write_audit_event_log:
  "write_audit_event sv a b c d e f g h i s = (r, t) \<Longrightarrow> rt_invocations t = rt_invocations s"
  by (erule same_outcome [rotated]) (intro frame_intros, simp_all)

lemma run_call_log:
  assumes "run_call sv ex pre c args s = (r, t)"
  shows "rt_invocations t = rt_invocations s \<or>
         (rt_invocations t = rt_invocations s @
            [(runtime_tool_lambda_name (sv_sha1 sv) (ex_agent ex) (tc_name c), json_dumps args)] \<and>
          (tc_id c = pre \<or> runs_freely (ex_policies ex) (tc_name c)))"
proof -
  let ?gate = "if tc_id c \<noteq> pre
      then enforce sv (ex_policies ex) (tc_name c) (ex_tenant ex) (ex_agent ex) ''agent-runtime''
      else ret ()"
  obtain g u where g: "?gate s = (g, u)" by (cases "?gate s")
  have quiet: "rt_invocations u = rt_invocations s"
    using g policy_engine.gate_outcome by (auto simp: ret_def split: if_splits)
  have pass: "g = Inr () \<Longrightarrow> tc_id c = pre \<or> runs_freely (ex_policies ex) (tc_name c)"
    using g policy_engine.gate_pass by (auto split: if_splits)
  let ?fn = "runtime_tool_lambda_name (sv_sha1 sv) (ex_agent ex) (tc_name c)"
  show ?thesis
  proof (cases g)
    case (Inl e)
    with g assms quiet show ?thesis by (simp add: run_call_def andthen_Inl)
  next
    case (Inr x)
    with g assms have rest: "andthen (invoke_lambda sv ?fn (json_dumps args))
       (\<lambda>(failed, payload). andthen (write_audit_event sv (ex_tenant ex) ''tool.invoked'' (ex_agent ex) ''agent-runtime''
                     (''invoke:'' @ tc_name c) (tc_name c) (if failed then ''error'' else ''success'') [] [])
          (\<lambda>_. andthen (if failed
                        then write_audit_event sv (ex_tenant ex) ''tool.failed'' (ex_agent ex)
                               ''agent-runtime'' (''invoke:'' @ tc_name c) (tc_name c) ''error'' [] []
                        else ret ())
          (\<lambda>_. ret (if failed then tool_error (tc_name c) payload else tool_result (tc_name c) payload)))) u = (r, t)"
      by (simp add: run_call_def andthen_Inr)
    have "rt_invocations t = rt_invocations u @ [(?fn, json_dumps args)]"
      using rest
    proof (cases rule: andthen_cases)
      case (stop e)
      then show ?thesis using invoke_lambda_log by blast
    next
      case (step fp v)
      obtain failed payload where fp: "fp = (failed, payload)" by (cases fp)
      from step(2) have "rt_invocations t = rt_invocations v"
        unfolding fp prod.case by (rule same_outcome [rotated]) (intro frame_intros, simp_all)
      with step(1) invoke_lambda_log show ?thesis by metis
    qed
    with quiet pass Inr show ?thesis by simp
  qed
qed

lemma execute_log:
  "execute sv ex pre cs s = (r, t) \<Longrightarrow>
     \<exists>ds. rt_invocations t = rt_invocations s @ map (invocation_of sv ex) ds \<and>
          subseq ds cs \<and> (\<forall>c \<in> set ds. cleared ex pre c)"
proof (induction cs arbitrary: s r t)
  case Nil
  then show ?case by (auto simp: ret_def intro: exI [of _ "[]"])
next
  case (Cons c cs)
  let ?head = "if tool_index ex (tc_name c) = None
        then ret (tool_error (tc_name c) (PStr ''unknown tool''))
        else
          (case call_arguments c of
             None \<Rightarrow> ret (tool_error (tc_name c)
                      (PStr (''invalid arguments: '' @ sv_json_error sv (get_or [] (tc_arguments c)))))
           | Some args \<Rightarrow> run_call sv ex pre c args)"
  obtain h u where h: "?head s = (h, u)" by (cases "?head s")
  have head: "\<exists>ds. rt_invocations u = rt_invocations s @ map (invocation_of sv ex) ds \<and>
                   subseq ds [c] \<and> (\<forall>c \<in> set ds. cleared ex pre c)"
  proof (cases "rt_invocations u = rt_invocations s")
    case True
    then show ?thesis by (intro exI [of _ "[]"]) simp
  next
    case False
    then obtain args where "tool_index ex (tc_name c) \<noteq> None" "call_arguments c = Some args"
        "run_call sv ex pre c args s = (h, u)"
      using h by (auto simp: ret_def split: if_splits option.splits)
    with False run_call_log [OF this(3)] show ?thesis
      by (intro exI [of _ "[c]"]) (auto simp: cleared_def invocation_of_def)
  qed
  then obtain ds where ds: "rt_invocations u = rt_invocations s @ map (invocation_of sv ex) ds"
      "subseq ds [c]" "\<forall>c \<in> set ds. cleared ex pre c" by blast
  show ?case
  proof (cases h)
    case (Inl e)
    with Cons.prems h have "t = u" by (simp add: andthen_Inl)
    moreover have "subseq ds (c # cs)"
      using list_emb_append_mono [OF ds(2), of "[]" cs] by simp
    ultimately show ?thesis using ds by blast
  next
    case (Inr x)
    obtain q v where q: "execute sv ex pre cs u = (q, v)" by (cases "execute sv ex pre cs u")
    with Cons.prems h Inr have "t = v"
      by (auto simp: andthen_Inr andthen_def ret_def split: sum.splits prod.splits)
    moreover from Cons.IH [OF q] obtain es where
      "rt_invocations v = rt_invocations u @ map (invocation_of sv ex) es"
      "subseq es cs" "\<forall>c \<in> set es. cleared ex pre c" by blast
    moreover from this ds have "subseq (ds @ es) ([c] @ cs)" by (intro list_emb_append_mono)
    ultimately show ?thesis using ds by (intro exI [of _ "ds @ es"]) auto
  qed
qed

end
