(* ===== verification/HitlReviews.thy ===== *)
theory HitlReviews
  imports RuntimeState
begin

text \<open>
  The human-in-the-loop review queue, from both sides of the shared table panasa-hitl-reviews:
  the Factory's store (app/modules/hitl/store.py: create, list, decide) and the agent runtime's
  managers (services/agent-runtime/hitl.py and tool_approval.py: pause a turn, ask for approval,
  read the decision, claim a resume).
\<close>

section \<open>The Factory's store\<close>

datatype hitl_error = ReviewNotFound string | ReviewAlreadyDecided string string | ReviewInvalid string

type_synonym review_table = "string \<times> string \<Rightarrow> review option"

definition review_statuses :: "string list" where
  "review_statuses = [''pending'', ''approved'', ''rejected'', ''info_requested'']"

definition review_kinds :: "string list" where
  "review_kinds = [''pre_llm_pause'', ''tool_approval'']"

text \<open>
  \<open>HitlReviewRecord(**item)\<close>: a row with a missing or foreign status, kind, timeout or time
  does not validate; a missing optional attribute becomes None, which is written back as NULL.
\<close>

definition parse_review :: "review \<Rightarrow> review option" where
  "parse_review r =
     (if (\<exists>s \<in> set review_statuses. rv_status r = Some s)
         \<and> get_or ''pre_llm_pause'' (rv_kind r) \<in> set review_kinds
         \<and> (case rv_timeout_hours r of None \<Rightarrow> False | Some h \<Rightarrow> h = of_int \<lfloor>h\<rfloor>)
         \<and> rv_requested_at r \<noteq> None
      then Some (r\<lparr>rv_kind := Some (get_or ''pre_llm_pause'' (rv_kind r)),
                   rv_resumed_at := Some (get_or None (rv_resumed_at r))\<rparr>)
      else None)"

definition hitl_create ::
  "string \<Rightarrow> stamp \<Rightarrow> string \<Rightarrow> string \<Rightarrow> string option \<Rightarrow> string \<Rightarrow> string \<Rightarrow> int \<Rightarrow> string
     \<Rightarrow> review_table \<Rightarrow> review \<times> review_table" where
  "hitl_create hex now tenant agent project trigger summary timeout by tab =
     (let r = \<lparr>rv_tenant = tenant, rv_id = ''REV-'' @ take 10 hex, rv_agent = agent, rv_project = project,
              rv_trigger = trigger, rv_summary = summary, rv_status = Some ''pending'',
              rv_timeout_hours = Some (of_int timeout), rv_requested_by = by, rv_requested_at = Some now,
              rv_reviewed_by = None, rv_reviewed_at = None, rv_reason = None,
              rv_kind = Some ''pre_llm_pause'', rv_tool = None, rv_context = None,
              rv_resumed_at = Some None\<rparr>
      in (r, tab((tenant, rv_id r) \<mapsto> r)))"

definition hitl_get :: "string \<Rightarrow> string \<Rightarrow> review_table \<Rightarrow> hitl_error + review option" where
  "hitl_get tenant rid tab =
     (case tab (tenant, rid) of
        None \<Rightarrow> Inr None
      | Some item \<Rightarrow> (case parse_review item of None \<Rightarrow> Inl (ReviewInvalid rid) | Some r \<Rightarrow> Inr (Some r)))"

text \<open>The rows a query of the tenant's partition returns, in the order the table gives them.\<close>

fun parse_reviews :: "review list \<Rightarrow> hitl_error + review list" where
  "parse_reviews [] = Inr []"
| "parse_reviews (i # is) =
     (case parse_review i of
        None \<Rightarrow> Inl (ReviewInvalid (rv_id i))
      | Some r \<Rightarrow> (case parse_reviews is of Inl e \<Rightarrow> Inl e | Inr rs \<Rightarrow> Inr (r # rs)))"

definition hitl_list :: "review list \<Rightarrow> string option \<Rightarrow> hitl_error + review list" where
  "hitl_list rows status =
     (case parse_reviews rows of
        Inl e \<Rightarrow> Inl e
      | Inr rs \<Rightarrow> Inr (case status of None \<Rightarrow> rs | Some s \<Rightarrow> filter (\<lambda>r. rv_status r = Some s) rs))"

definition require_pending :: "string \<Rightarrow> string \<Rightarrow> review_table \<Rightarrow> hitl_error + review" where
  "require_pending tenant rid tab =
     (case hitl_get tenant rid tab of
        Inl e \<Rightarrow> Inl e
      | Inr None \<Rightarrow> Inl (ReviewNotFound rid)
      | Inr (Some r) \<Rightarrow>
          (if rv_status r \<noteq> Some ''pending''
           then Inl (ReviewAlreadyDecided rid (get_or [] (rv_status r))) else Inr r))"

text \<open>The record a decision writes, from the record it read.\<close>

definition decided :: "stamp \<Rightarrow> string \<Rightarrow> string \<Rightarrow> string option \<Rightarrow> review \<Rightarrow> review" where
  "decided now new_status by reason r =
     r\<lparr>rv_status := Some new_status, rv_reviewed_by := Some by, rv_reviewed_at := Some now,
       rv_reason := reason\<rparr>"

definition hitl_decide ::
  "stamp \<Rightarrow> string \<Rightarrow> string \<Rightarrow> string \<Rightarrow> string \<Rightarrow> string option
     \<Rightarrow> review_table \<Rightarrow> (hitl_error + review) \<times> review_table" where
  "hitl_decide now tenant rid new_status by reason tab =
     (case require_pending tenant rid tab of
        Inl e \<Rightarrow> (Inl e, tab)
      | Inr r \<Rightarrow>
          (let r' = decided now new_status by reason r in (Inr r', tab((tenant, rid) \<mapsto> r'))))"

definition hitl_approve where "hitl_approve now tenant rid = hitl_decide now tenant rid ''approved''"
definition hitl_reject where "hitl_reject now tenant rid = hitl_decide now tenant rid ''rejected''"
definition hitl_request_info where
  "hitl_request_info now tenant rid = hitl_decide now tenant rid ''info_requested''"

section \<open>Pausing a turn before the model (hitl.py)\<close>

record hitl_manager =
  hm_agent :: string
  hm_tenant :: string
  hm_enabled :: bool
  hm_triggers :: "string list"
  hm_timeout_hours :: rat
  hm_topic :: "string option"

fun first_trigger :: "string \<Rightarrow> string list \<Rightarrow> string option" where
  "first_trigger lowered [] = None"
| "first_trigger lowered (c # cs) =
     (if contains_text (py_lower (replace_char (CHR ''_'') (CHR '' '') c)) lowered
      then Some c else first_trigger lowered cs)"

text \<open>\<open>pre_check\<close>: None is \<open>{"pause": False}\<close>, Some c pauses with that trigger condition.\<close>

definition pre_check :: "hitl_manager \<Rightarrow> string \<Rightarrow> string option" where
  "pre_check hm message =
     (if \<not> hm_enabled hm \<or> hm_triggers hm = [] then None
      else first_trigger (py_lower message) (hm_triggers hm))"

definition put_review :: "'w services \<Rightarrow> review \<Rightarrow> ('w, unit) action" where
  "put_review sv r =
     on_table sv ''hitl-reviews''
       (modifies (\<lambda>s. s\<lparr>rt_reviews := (rt_reviews s)((rv_tenant r, rv_id r) \<mapsto> r)\<rparr>))"

definition notify :: "'w services \<Rightarrow> string option \<Rightarrow> string \<Rightarrow> string \<Rightarrow> ('w, unit) action" where
  "notify sv topic subject body =
     (if truthy topic then publish sv (get_or [] topic) subject body else ret ())"

definition create_review ::
  "'w services \<Rightarrow> hitl_manager \<Rightarrow> string \<Rightarrow> string \<Rightarrow> string \<Rightarrow> string \<Rightarrow> string \<Rightarrow> ('w, string) action" where
  "create_review sv hm run_id agent message session trigger =
     andthen (uuid_hex sv) (\<lambda>h.
     andthen (now_us sv) (\<lambda>now.
       let rid = ''HITL-'' @ upper (take 8 h);
           r = \<lparr>rv_tenant = hm_tenant hm, rv_id = rid, rv_agent = agent, rv_project = None,
                rv_trigger = trigger,
                rv_summary = take 2000 (''run_id='' @ run_id @ '' session_id='' @ session @ [CHR 0x0A] @ message),
                rv_status = Some ''pending'', rv_timeout_hours = Some (hm_timeout_hours hm),
                rv_requested_by = ''agent-runtime:'' @ agent,
                rv_requested_at = Some (At (now div 1000000 * 1000000)),
                rv_reviewed_by = None, rv_reviewed_at = None, rv_reason = None, rv_kind = None,
                rv_tool = None, rv_context = None, rv_resumed_at = None\<rparr>
       in andthen (put_review sv r) (\<lambda>_.
          andthen (notify sv (hm_topic hm) (''Human review requested -- '' @ agent)
                     (''Review '' @ rid @ '' ('' @ trigger @ '') is pending for agent '' @ agent @ ''.''))
            (\<lambda>_. ret rid))))"

section \<open>Asking for a tool approval and resuming (tool_approval.py)\<close>

record approval_manager =
  am_agent :: string
  am_tenant :: string
  am_topic :: "string option"
  am_timeout_hours :: rat

record approval_decision =
  ad_status :: string
  ad_review :: string
  ad_context :: "string option"

definition request_approval ::
  "'w services \<Rightarrow> approval_manager \<Rightarrow> string \<Rightarrow> string \<Rightarrow> string \<Rightarrow> string \<Rightarrow> ('w, string) action" where
  "request_approval sv am tool run_id session context =
     andthen (uuid_hex sv) (\<lambda>h.
     andthen (now_us sv) (\<lambda>now.
       let rid = ''TAPR-'' @ upper (take 8 h);
           r = \<lparr>rv_tenant = am_tenant am, rv_id = rid, rv_agent = am_agent am, rv_project = None,
                rv_trigger = ''tool_risk:'' @ tool,
                rv_summary = ''run_id='' @ run_id @ '' session_id='' @ session @ '' tool='' @ tool,
                rv_status = Some ''pending'', rv_timeout_hours = Some (am_timeout_hours am),
                rv_requested_by = ''agent-runtime:'' @ am_agent am, rv_requested_at = Some (At now),
                rv_reviewed_by = None, rv_reviewed_at = None, rv_reason = None,
                rv_kind = Some ''tool_approval'', rv_tool = Some tool, rv_context = Some context,
                rv_resumed_at = None\<rparr>
       in andthen (put_review sv r) (\<lambda>_.
          andthen (notify sv (am_topic am) (''Tool approval requested -- '' @ am_agent am)
                     (''Review '' @ rid @ '': tool '' @ repr_str tool @ '' requires approval for agent ''
                      @ am_agent am @ '' (session '' @ session @ '').''))
            (\<lambda>_. ret rid))))"

text \<open>The condition of the update: no attribute, or an attribute of type NULL.\<close>

definition claimable :: "review option \<Rightarrow> bool" where
  "claimable x =
     (case x of None \<Rightarrow> True
      | Some r \<Rightarrow> (case rv_resumed_at r of None \<Rightarrow> True | Some None \<Rightarrow> True | Some (Some _) \<Rightarrow> False))"

text \<open>\<open>update_item\<close> on a missing row creates a row with the key and the attribute it sets.\<close>

definition bare_review :: "string \<Rightarrow> string \<Rightarrow> review" where
  "bare_review tenant rid =
     \<lparr>rv_tenant = tenant, rv_id = rid, rv_agent = [], rv_project = None, rv_trigger = [], rv_summary = [],
      rv_status = None, rv_timeout_hours = None, rv_requested_by = [], rv_requested_at = None,
      rv_reviewed_by = None, rv_reviewed_at = None, rv_reason = None, rv_kind = None, rv_tool = None,
      rv_context = None, rv_resumed_at = None\<rparr>"

definition claim_row :: "stamp \<Rightarrow> string \<Rightarrow> string \<Rightarrow> review_table \<Rightarrow> bool \<times> review_table" where
  "claim_row now tenant rid tab =
     (if claimable (tab (tenant, rid))
      then (True, tab((tenant, rid) \<mapsto>
              (get_or (bare_review tenant rid) (tab (tenant, rid)))\<lparr>rv_resumed_at := Some (Some now)\<rparr>))
      else (False, tab))"

definition try_claim_resume :: "'w services \<Rightarrow> approval_manager \<Rightarrow> string \<Rightarrow> ('w, bool) action" where
  "try_claim_resume sv am rid =
     andthen (now_us sv) (\<lambda>now.
       on_table sv ''hitl-reviews''
         (\<lambda>s. let (ok, tab) = claim_row (At now) (am_tenant am) rid (rt_reviews s)
              in (Inr ok, s\<lparr>rt_reviews := tab\<rparr>)))"

definition is_expired :: "int \<Rightarrow> stamp \<Rightarrow> rat \<Rightarrow> bool" where
  "is_expired now requested_at timeout_hours =
     (case requested_at of
        Unreadable _ \<Rightarrow> False
      | At t \<Rightarrow> of_int now > of_int t + timeout_hours * 3600000000)"

definition decision_of :: "int \<Rightarrow> rat \<Rightarrow> string \<Rightarrow> review option \<Rightarrow> approval_decision" where
  "decision_of now default_timeout rid item =
     (case item of
        None \<Rightarrow> \<lparr>ad_status = ''not_found'', ad_review = rid, ad_context = None\<rparr>
      | Some r \<Rightarrow>
          (let status = get_or ''pending'' (rv_status r);
               expired = (case rv_requested_at r of
                            None \<Rightarrow> False
                          | Some t \<Rightarrow> is_expired now t (get_or default_timeout (rv_timeout_hours r)))
           in \<lparr>ad_status = (if status = ''pending'' \<and> expired then ''timeout'' else status),
               ad_review = rid, ad_context = rv_context r\<rparr>))"

definition get_decision :: "'w services \<Rightarrow> approval_manager \<Rightarrow> string \<Rightarrow> ('w, approval_decision) action" where
  "get_decision sv am rid =
     andthen (on_table sv ''hitl-reviews'' (reads (\<lambda>s. rt_reviews s (am_tenant am, rid)))) (\<lambda>item.
     andthen (now_us sv) (\<lambda>now.
       ret (decision_of now (am_timeout_hours am) rid item)))"

section \<open>Laws\<close>

definition look_review :: "'w runtime \<Rightarrow> string \<times> string \<Rightarrow> review option" where
  "look_review s = rt_reviews s"

definition store_review :: "string \<times> string \<Rightarrow> review \<Rightarrow> 'w runtime \<Rightarrow> 'w runtime" where
  "store_review k r s = s\<lparr>rt_reviews := (rt_reviews s)(k \<mapsto> r)\<rparr>"

interpretation reviews: keyed_table look_review store_review
  by unfold_locales (simp_all add: look_review_def store_review_def)

text \<open>A decision is taken once: it is written only over a pending record, and keeps the claim.\<close>

lemma hitl_decide_row:
  "hitl_decide now tenant rid st by reason tab = (Inr r', tab') \<Longrightarrow>
     \<exists>r. tab (tenant, rid) = Some r \<and> rv_status r = Some ''pending''
         \<and> tab' = tab((tenant, rid) \<mapsto> r') \<and> rv_status r' = Some st
         \<and> get_or None (rv_resumed_at r') = get_or None (rv_resumed_at r)
         \<and> rv_context r' = rv_context r"
  by (auto simp: hitl_decide_def require_pending_def hitl_get_def parse_review_def decided_def Let_def
      split: sum.splits option.splits if_splits)

lemma hitl_decide_final:
  assumes "tab (tenant, rid) = Some r" and "rv_status r \<noteq> Some ''pending''"
  shows "\<exists>e. hitl_decide now tenant rid st by reason tab = (Inl e, tab)"
  using assms
  by (auto simp: hitl_decide_def require_pending_def hitl_get_def parse_review_def
      split: sum.splits option.splits if_splits)

lemma claim_row_claims: "claim_row now tenant rid tab = (True, tab') \<Longrightarrow> \<not> claimable (tab' (tenant, rid))"
  by (auto simp: claim_row_def claimable_def split: if_splits)

lemma claim_row_once: "claim_row now tenant rid tab = (ok, tab') \<Longrightarrow> fst (claim_row now' tenant rid tab') = False"
  by (auto simp: claim_row_def claimable_def split: if_splits)

end
