(* ===== verification/Guardrail.thy ===== *)
theory Guardrail
  imports RuntimeState
begin

text \<open>
  services/agent-runtime/guardrail.py: the check of a text against the Bedrock guardrail its
  policy row names. It fails closed: a policy that cannot be resolved or a call that fails
  blocks. The resolved guardrail is cached in the container's state.
\<close>

definition blocked_message :: string where
  "blocked_message = ''This request cannot be processed.''"

definition blocked_response_text :: string where
  "blocked_response_text = blocked_message"

record guardrail_result =
  gd_blocked :: bool
  gd_sanitised :: "string option"
  gd_reason :: "string option"

record guardrail_checker =
  gc_tenant :: string
  gc_policy :: "string option"

definition guardrail_enabled :: "guardrail_checker \<Rightarrow> bool" where
  "guardrail_enabled gc = truthy (gc_policy gc)"

text \<open>
  \<open>_resolve\<close>: the cache holds None before the first resolution, \<open>Some None\<close> after one that
  found nothing, \<open>Some (Some (id, version))\<close> after one that found a guardrail.
\<close>

definition resolve_guardrail ::
  "'w services \<Rightarrow> guardrail_checker \<Rightarrow> ('w, (string \<times> string) option) action" where
  "resolve_guardrail sv gc =
     andthen (reads rt_guardrail_cache) (\<lambda>cache.
       case cache of
         Some known \<Rightarrow> ret known
       | None \<Rightarrow>
           andthen (modifies (\<lambda>s. s\<lparr>rt_guardrail_cache := Some None\<rparr>)) (\<lambda>_.
             if \<not> truthy (gc_policy gc) then ret None
             else
               andthen (on_table sv ''guardrail-policies''
                          (reads (\<lambda>s. rt_guardrail_rows s (gc_tenant gc, get_or [] (gc_policy gc)))))
                 (\<lambda>row.
                   case row of
                     None \<Rightarrow> ret None
                   | Some (gid, ver) \<Rightarrow>
                       (if \<not> truthy gid then ret None
                        else
                          (let known = (get_or [] gid, if truthy ver then get_or [] ver else ''DRAFT'')
                           in andthen (modifies (\<lambda>s. s\<lparr>rt_guardrail_cache := Some (Some known)\<rparr>))
                                (\<lambda>_. ret (Some known)))))))"

text \<open>The cached pair counts only when both texts are non-empty.\<close>

definition usable :: "(string \<times> string) option \<Rightarrow> (string \<times> string) option" where
  "usable known = (case known of None \<Rightarrow> None | Some (g, v) \<Rightarrow> if g \<noteq> [] \<and> v \<noteq> [] then known else None)"

definition blocked_because :: "string \<Rightarrow> guardrail_result" where
  "blocked_because reason = \<lparr>gd_blocked = True, gd_sanitised = None, gd_reason = Some reason\<rparr>"

definition not_blocked :: "string option \<Rightarrow> guardrail_result" where
  "not_blocked text = \<lparr>gd_blocked = False, gd_sanitised = text, gd_reason = None\<rparr>"

definition judge_reply :: "guardrail_reply \<Rightarrow> guardrail_result" where
  "judge_reply reply =
     (if gr_action reply = ''GUARDRAIL_INTERVENED''
      then (case (case gr_outputs reply of [] \<Rightarrow> None | t # _ \<Rightarrow> t) of
              Some t \<Rightarrow> not_blocked (Some t)
            | None \<Rightarrow> blocked_because ''guardrail_intervened'')
      else not_blocked None)"

definition check_guardrail ::
  "'w services \<Rightarrow> guardrail_checker \<Rightarrow> string \<Rightarrow> string \<Rightarrow> ('w, guardrail_result) action" where
  "check_guardrail sv gc text source =
     (if \<not> guardrail_enabled gc then ret (not_blocked None)
      else
        andthen (resolve_guardrail sv gc) (\<lambda>known.
          case usable known of
            None \<Rightarrow> ret (blocked_because ''guardrail_not_resolved'')
          | Some (gid, ver) \<Rightarrow>
              catching
                (andthen (external (sv_guardrail sv gid ver source text)) (\<lambda>reply. ret (judge_reply reply)))
                (\<lambda>_. ret (blocked_because ''guardrail_call_failed''))))"

section \<open>Fail closed\<close>

text \<open>
  With a policy configured, a text passes only when Bedrock was asked about exactly this text
  and either did not intervene or gave a replacement.
\<close>

lemma check_guardrail_enabled_pass:
  assumes "guardrail_enabled gc" and "check_guardrail sv gc text source s = (Inr r, t)"
    and "\<not> gd_blocked r"
  shows "\<exists>gid ver w reply w'. sv_guardrail sv gid ver source text w = (Inr reply, w')
           \<and> r = judge_reply reply"
proof -
  obtain known u where
    "(case usable known of
            None \<Rightarrow> ret (blocked_because ''guardrail_not_resolved'')
          | Some (gid, ver) \<Rightarrow>
              catching
                (andthen (external (sv_guardrail sv gid ver source text)) (\<lambda>reply. ret (judge_reply reply)))
                (\<lambda>_. ret (blocked_because ''guardrail_call_failed''))) u = (Inr r, t)"
    using assms(1,2) by (auto simp: check_guardrail_def elim: andthen_InrE)
  with assms(3) show ?thesis
    by (auto simp: ret_def catching_def andthen_def external_def blocked_because_def
        split: option.splits prod.splits sum.splits) metis
qed

lemma check_guardrail_frames [frame_intros]:
  "stays_in (same rt_invocations) (check_guardrail sv gc text source)"
  "stays_in (same rt_llm_calls) (check_guardrail sv gc text source)"
  "stays_in (same rt_reviews) (check_guardrail sv gc text source)"
  "stays_in (same rt_agents) (check_guardrail sv gc text source)"
  unfolding check_guardrail_def resolve_guardrail_def Let_def
  by (intro frame_intros; simp)+

end
