(* ===== verification/Memory.thy ===== *)
theory Memory
  imports RuntimeState
begin

text \<open>
  services/agent-runtime/memory.py: what an agent remembers. Session memory is a list of turns
  per session in the container; persistent memory is one new item per turn in panasa-memory,
  under a fresh uuid, read back through a limited descending query on that uuid.
\<close>

definition max_persistent_memories :: nat where "max_persistent_memories = 20"

record memory_manager =
  me_agent :: string
  me_type :: string
  me_ttl_days :: int
  me_max_turns :: int

definition newline :: string where "newline = [CHR 0x0A]"

definition render_turn :: "string \<times> string \<Rightarrow> string" where
  "render_turn mr = ''User: '' @ fst mr @ newline @ ''Assistant: '' @ snd mr"

definition load_session :: "string \<Rightarrow> (string \<Rightarrow> (string \<times> string) list option) \<Rightarrow> string" where
  "load_session session sessions = join_with newline (map render_turn (get_or [] (sessions session)))"

text \<open>
  \<open>del turns[: -m]\<close>: the slice ends \<open>m\<close> before the end; for \<open>m = 0\<close> it is \<open>turns[:0]\<close>, the
  empty slice, and for a negative \<open>m\<close> the first \<open>-m\<close> turns.
\<close>

definition delete_upto :: "int \<Rightarrow> 'a list \<Rightarrow> 'a list" where
  "delete_upto e xs =
     (if e < 0 then drop (nat (int (length xs) + e)) xs else drop (nat e) xs)"

definition save_turn :: "int \<Rightarrow> string \<times> string \<Rightarrow> (string \<times> string) list \<Rightarrow> (string \<times> string) list" where
  "save_turn max_turns turn turns =
     (let turns' = turns @ [turn]
      in if int (length turns') > max_turns then delete_upto (- max_turns) turns' else turns')"

definition save_session ::
  "int \<Rightarrow> string \<Rightarrow> string \<Rightarrow> string \<Rightarrow> (string \<Rightarrow> (string \<times> string) list option)
     \<Rightarrow> string \<Rightarrow> (string \<times> string) list option" where
  "save_session max_turns session message response sessions =
     sessions(session \<mapsto> save_turn max_turns (message, response) (get_or [] (sessions session)))"

text \<open>
  The items of one partition are the table restricted to a first key; the query returns them
  by descending sort key, \<open>max_persistent_memories\<close> at most. The ids of a partition are given
  to the model as the list the table holds.
\<close>

definition memory_key :: "string \<Rightarrow> string \<Rightarrow> string" where
  "memory_key agent user = agent @ ''#'' @ user"

definition recent_memories ::
  "string \<Rightarrow> string list \<Rightarrow> (string \<times> string \<Rightarrow> memory_item option) \<Rightarrow> memory_item list" where
  "recent_memories pk ids tab =
     take max_persistent_memories
       (rev (map snd (sort_items [(i, the (tab (pk, i))). i \<leftarrow> ids, tab (pk, i) \<noteq> None])))"

definition render_memories :: "memory_item list \<Rightarrow> string" where
  "render_memories items =
     join_with newline [''- '' @ mm_content i. i \<leftarrow> items, mm_content i \<noteq> []]"

definition load_memory ::
  "'w services \<Rightarrow> memory_manager \<Rightarrow> (string \<Rightarrow> string list) \<Rightarrow> string \<Rightarrow> string option \<Rightarrow> ('w, string) action" where
  "load_memory sv me ids session user =
     (if me_type me = ''session'' then reads (\<lambda>s. load_session session (rt_sessions s))
      else if me_type me = ''persistent'' \<and> truthy user
      then on_table sv ''memory''
             (reads (\<lambda>s. let pk = memory_key (me_agent me) (get_or [] user)
                         in render_memories (recent_memories pk (ids pk) (rt_memory s))))
      else ret [])"

definition save_memory ::
  "'w services \<Rightarrow> memory_manager \<Rightarrow> string \<Rightarrow> string option \<Rightarrow> string \<Rightarrow> string \<Rightarrow> ('w, unit) action" where
  "save_memory sv me session user message response =
     (if me_type me = ''session''
      then modifies (\<lambda>s. s\<lparr>rt_sessions := save_session (me_max_turns me) session message response (rt_sessions s)\<rparr>)
      else if me_type me = ''persistent'' \<and> truthy user
      then
        andthen (now_us sv) (\<lambda>now.
        andthen (new_uuid sv) (\<lambda>mid.
          let secs = now div 1000000;
              item = \<lparr>mm_content = take 2000 (''User asked: '' @ message @ newline @ ''Assistant replied: '' @ response),
                      mm_user = get_or [] user, mm_source_session = session,
                      mm_expires_at = secs + me_ttl_days me * 86400,
                      mm_created_at = At (secs * 1000000)\<rparr>
          in on_table sv ''memory''
               (modifies (\<lambda>s. s\<lparr>rt_memory := (rt_memory s)
                  ((memory_key (me_agent me) (get_or [] user), mid) \<mapsto> item)\<rparr>))))
      else ret ())"

section \<open>Bounds\<close>

text \<open>With a positive limit a session never holds more turns than the limit, and keeps the last ones.\<close>

lemma save_turn_bounded:
  assumes "0 < m"
  shows "int (length (save_turn m x xs)) \<le> max m (int (length xs))
       \<and> (int (length xs) \<le> m \<longrightarrow> int (length (save_turn m x xs)) \<le> m)"
  using assms by (auto simp: save_turn_def delete_upto_def Let_def)

lemma save_turn_last:
  assumes "0 < m"
  shows "save_turn m x xs = drop (length xs + 1 - nat m) (xs @ [x])"
  using assms by (auto simp: save_turn_def delete_upto_def Let_def nat_diff_distrib nat_add_distrib
      intro!: arg_cong2 [of _ _ _ _ drop])

text \<open>Turn after turn, the session holds exactly the last \<open>max_turns\<close> turns.\<close>

lemma save_turns_last:
  assumes "0 < m"
  shows "foldl (\<lambda>xs x. save_turn m x xs) [] turns = drop (length turns - nat m) turns"
proof (induction turns rule: rev_induct)
  case Nil
  then show ?case by simp
next
  case (snoc x turns)
  have "save_turn m x (drop (length turns - nat m) turns) = drop (length turns + 1 - nat m) (turns @ [x])"
    using assms by (cases "nat m \<le> length turns") (auto simp: save_turn_last Suc_diff_le)
  with snoc show ?case by simp
qed

lemma save_turn_zero: "save_turn 0 x xs = xs @ [x]"
  by (simp add: save_turn_def delete_upto_def)

lemma load_memory_frames [frame_intros]:
  "stays_in (same rt_invocations) (load_memory sv me ids session user)"
  "stays_in (same rt_llm_calls) (load_memory sv me ids session user)"
  "stays_in (same rt_reviews) (load_memory sv me ids session user)"
  "stays_in (same rt_agents) (load_memory sv me ids session user)"
  unfolding load_memory_def by (intro frame_intros; simp)+

lemma save_memory_frames [frame_intros]:
  "stays_in (same rt_invocations) (save_memory sv me session user message response)"
  "stays_in (same rt_llm_calls) (save_memory sv me session user message response)"
  "stays_in (same rt_reviews) (save_memory sv me session user message response)"
  "stays_in (same rt_agents) (save_memory sv me session user message response)"
  unfolding save_memory_def Let_def by (intro frame_intros; simp)+

end
