(* ===== verification/Quota.thy ===== *)
theory Quota
  imports RuntimeState
begin

text \<open>
  services/agent-runtime/quota.py: request limits per minute and per day counted in Redis
  (fail open) and the monthly cost budget kept on the agent's row (checked before a request,
  recorded after each model call). \<open>rate_decision\<close> is no part of the code: it is the value that the
  Redis calls of \<open>check_rate_limit\<close> are proved to compute when they are answered, on which the
  limits are then counted.
\<close>

section \<open>Periods\<close>

text \<open>Year and month of a day counted from the epoch, in the proleptic Gregorian calendar.\<close>

definition civil_month :: "int \<Rightarrow> int \<times> int" where
  "civil_month days =
     (let z = days + 719468;
          era = z div 146097;
          doe = z - era * 146097;
          yoe = (doe - doe div 1460 + doe div 36524 - doe div 146096) div 365;
          doy = doe - (365 * yoe + yoe div 4 - yoe div 100);
          mp = (5 * doy + 2) div 153;
          m = (if mp < 10 then mp + 3 else mp - 9);
          y = yoe + era * 400
      in (if m \<le> 2 then y + 1 else y, m))"

definition two_digits :: "int \<Rightarrow> string" where
  "two_digits m = (if m < 10 then CHR ''0'' # int_text m else int_text m)"

definition current_period :: "int \<Rightarrow> string" where
  "current_period now =
     (let (y, m) = civil_month (now div 86400000000) in int_text y @ ''-'' @ two_digits m)"

section \<open>Requests per minute and per day\<close>

definition rpm_window_ttl :: int where "rpm_window_ttl = 61"
definition rpd_window_ttl :: int where "rpd_window_ttl = 90000"

type_synonym counters = "string \<Rightarrow> (int \<times> int option) option"

text \<open>The value of a counter that has not expired (times and expiries in microseconds).\<close>

definition counter_value :: "int \<Rightarrow> counters \<Rightarrow> string \<Rightarrow> int" where
  "counter_value now cs key =
     (case cs key of
        None \<Rightarrow> 0
      | Some (n, e) \<Rightarrow> (case e of None \<Rightarrow> n | Some d \<Rightarrow> if d \<le> now then 0 else n))"

definition counter_expiry :: "int \<Rightarrow> counters \<Rightarrow> string \<Rightarrow> int option" where
  "counter_expiry now cs key =
     (case cs key of
        None \<Rightarrow> None
      | Some (n, e) \<Rightarrow> (case e of None \<Rightarrow> None | Some d \<Rightarrow> if d \<le> now then None else Some d))"

definition redis_incr :: "int \<Rightarrow> string \<Rightarrow> counters \<Rightarrow> int \<times> counters" where
  "redis_incr now key cs =
     (let n = counter_value now cs key + 1 in (n, cs(key \<mapsto> (n, counter_expiry now cs key))))"

definition redis_expire :: "int \<Rightarrow> string \<Rightarrow> int \<Rightarrow> counters \<Rightarrow> counters" where
  "redis_expire now key ttl cs =
     cs(key := map_option (\<lambda>(n, _). (n, Some (now + ttl * 1000000))) (cs key))"

definition rate_key :: "string \<Rightarrow> string \<Rightarrow> string \<Rightarrow> int \<Rightarrow> string" where
  "rate_key label tenant agent window =
     ''ratelimit:'' @ label @ '':'' @ tenant @ '':'' @ agent @ '':'' @ int_text window"

definition rate_checks ::
  "int \<Rightarrow> string \<Rightarrow> string \<Rightarrow> int option \<Rightarrow> int option \<Rightarrow> (int option \<times> string \<times> int \<times> string) list" where
  "rate_checks now tenant agent rpm rpd =
     [(rpm, rate_key ''rpm'' tenant agent (now div 60000000), rpm_window_ttl, ''rpm''),
      (rpd, rate_key ''rpd'' tenant agent (now div 86400000000), rpd_window_ttl, ''rpd'')]"

definition redis :: "'w services \<Rightarrow> (counters \<Rightarrow> 'a \<times> counters) \<Rightarrow> ('w, 'a) action" where
  "redis sv f =
     on_table sv ''redis'' (\<lambda>s. let (x, cs) = f (rt_counters s) in (Inr x, s\<lparr>rt_counters := cs\<rparr>))"

fun check_windows ::
  "'w services \<Rightarrow> int \<Rightarrow> (int option \<times> string \<times> int \<times> string) list \<Rightarrow> ('w, bool \<times> string option) action" where
  "check_windows sv now [] = ret (True, None)"
| "check_windows sv now ((limit, key, ttl, label) # rest) =
     (case limit of
        None \<Rightarrow> check_windows sv now rest
      | Some l \<Rightarrow>
          andthen (redis sv (redis_incr now key)) (\<lambda>count.
          andthen (if count = 1 then redis sv (\<lambda>cs. ((), redis_expire now key ttl cs)) else ret ()) (\<lambda>_.
            if count > l then ret (False, Some (label @ ''_exceeded''))
            else check_windows sv now rest)))"

definition check_rate_limit ::
  "'w services \<Rightarrow> string \<Rightarrow> string \<Rightarrow> int option \<Rightarrow> int option \<Rightarrow> ('w, bool \<times> string option) action" where
  "check_rate_limit sv tenant agent rpm rpd =
     andthen (now_us sv) (\<lambda>now.
       catching (check_windows sv now (rate_checks now tenant agent rpm rpd)) (\<lambda>_. ret (True, None)))"

section \<open>The monthly budget\<close>

definition check_monthly_budget :: "int \<Rightarrow> agent_record \<Rightarrow> rat option \<Rightarrow> bool" where
  "check_monthly_budget now rec budget =
     (case budget of
        None \<Rightarrow> True
      | Some b \<Rightarrow> (if ag_spend_period rec \<noteq> Some (current_period now) then True else ag_spend rec \<le> b))"

text \<open>The first update adds under the condition that the period matches; the second resets.\<close>

definition add_spend :: "string \<Rightarrow> rat \<Rightarrow> agent_row option \<Rightarrow> agent_row option" where
  "add_spend period cost row =
     (case row of
        None \<Rightarrow> None
      | Some (Whole r) \<Rightarrow>
          (if ag_spend_period r = Some period then Some (Whole (r\<lparr>ag_spend := ag_spend r + cost\<rparr>)) else None)
      | Some (SpendOnly c p) \<Rightarrow> (if p = period then Some (SpendOnly (c + cost) p) else None))"

definition reset_spend :: "string \<Rightarrow> rat \<Rightarrow> agent_row option \<Rightarrow> agent_row" where
  "reset_spend period cost row =
     (case row of
        Some (Whole r) \<Rightarrow> Whole (r\<lparr>ag_spend := cost, ag_spend_period := Some period\<rparr>)
      | _ \<Rightarrow> SpendOnly cost period)"

definition record_llm_cost :: "'w services \<Rightarrow> string \<Rightarrow> string \<Rightarrow> rat option \<Rightarrow> ('w, unit) action" where
  "record_llm_cost sv tenant agent cost =
     (case cost of
        None \<Rightarrow> ret ()
      | Some c \<Rightarrow>
          (if c \<le> 0 then ret ()
           else
             andthen (now_us sv) (\<lambda>now.
               let period = current_period now; k = (tenant, agent)
               in catching
                    (catching
                       (on_table sv ''agents'' (\<lambda>s.
                          case add_spend period c (rt_agents s k) of
                            None \<Rightarrow> (Inl ConditionalCheckFailed, s)
                          | Some row \<Rightarrow> (Inr (), s\<lparr>rt_agents := (rt_agents s)(k \<mapsto> row)\<rparr>)))
                       (\<lambda>e. if e \<noteq> ConditionalCheckFailed then raising e
                            else on_table sv ''agents'' (modifies (\<lambda>s.
                                   s\<lparr>rt_agents := (rt_agents s)(k \<mapsto> reset_spend period c (rt_agents s k))\<rparr>))))
                    (\<lambda>_. ret ()))))"

lemma record_llm_cost_frames [frame_intros]:
  "stays_in (same rt_invocations) (record_llm_cost sv tenant agent cost)"
  "stays_in (same rt_llm_calls) (record_llm_cost sv tenant agent cost)"
  "stays_in (same rt_reviews) (record_llm_cost sv tenant agent cost)"
proof -
  have upd: "stays_in (same obs) (\<lambda>s. case f s of None \<Rightarrow> (Inl e, s) | Some row \<Rightarrow> (Inr (), g row s))"
    if "\<And>row s. obs (g row s) = obs s"
    for obs :: "'w runtime \<Rightarrow> 'b" and f :: "'w runtime \<Rightarrow> agent_row option" and g e
    using that by (auto simp: stays_in_def same_def split: option.splits)
  show "stays_in (same rt_invocations) (record_llm_cost sv tenant agent cost)"
    and "stays_in (same rt_llm_calls) (record_llm_cost sv tenant agent cost)"
    and "stays_in (same rt_reviews) (record_llm_cost sv tenant agent cost)"
    unfolding record_llm_cost_def Let_def by (intro frame_intros upd; simp)+
qed

text \<open>What one recorded cost does to a whole record.\<close>

definition spent :: "string \<Rightarrow> rat \<Rightarrow> agent_record \<Rightarrow> agent_record" where
  "spent period cost r =
     r\<lparr>ag_spend := (if ag_spend_period r = Some period then ag_spend r else 0) + cost,
       ag_spend_period := Some period\<rparr>"

lemma spent_cases:
  "ag_spend_period r = Some p \<Longrightarrow> spent p c r = r\<lparr>ag_spend := ag_spend r + c\<rparr>"
  "ag_spend_period r \<noteq> Some p \<Longrightarrow> spent p c r = r\<lparr>ag_spend := c, ag_spend_period := Some p\<rparr>"
  by (cases r; simp add: spent_def)+

lemma record_llm_cost_effect:
  assumes "\<forall>w. fst (sv_db sv ''agents'' w)" and "0 < c"
    and "rt_agents s (tenant, agent) = Some (Whole r)"
  shows "\<exists>w. record_llm_cost sv tenant agent (Some c) s =
    (Inr (), s\<lparr>rt_world := w, rt_agents := (rt_agents s)((tenant, agent) \<mapsto>
       Whole (spent (current_period (sv_clock sv (rt_world s))) c r))\<rparr>)"
proof -
  have up: "fst (sv_db sv ''agents'' w)" for w using assms(1) by simp
  obtain w where w: "sv_db sv ''agents'' (rt_world s) = (True, w)"
    using up by (metis prod.collapse)
  obtain w' where w': "sv_db sv ''agents'' w = (True, w')"
    using up by (metis prod.collapse)
  show ?thesis
    using assms(2,3) w w'
    by (cases "ag_spend_period r = Some (current_period (sv_clock sv (rt_world s)))")
      (auto simp: record_llm_cost_def now_us_def on_table_def add_spend_def reset_spend_def spent_cases
        prog_simps Let_def)
qed

lemma redis_down:
  assumes "\<forall>w. \<not> fst (sv_db sv ''redis'' w)"
  shows "fst (check_rate_limit sv tenant agent rpm rpd s) = Inr (True, None)"
proof -
  obtain w where "sv_db sv ''redis'' (rt_world s) = (False, w)"
    using assms by (metis prod.collapse)
  then show ?thesis
    by (cases rpm; cases rpd)
      (simp_all add: check_rate_limit_def rate_checks_def now_us_def redis_def on_table_def prog_simps Let_def)
qed

section \<open>Counting requests\<close>

definition rate_decision ::
  "int \<Rightarrow> (int option \<times> string \<times> int \<times> string) list \<Rightarrow> counters \<Rightarrow> (bool \<times> string option) \<times> counters" where
  "rate_decision now checks cs =
     foldr (\<lambda>(limit, key, ttl, label) k cs.
        case limit of
          None \<Rightarrow> k cs
        | Some l \<Rightarrow>
            (let (count, cs') = redis_incr now key cs;
                 cs'' = (if count = 1 then redis_expire now key ttl cs' else cs')
             in if count > l then ((False, Some (label @ ''_exceeded'')), cs'') else k cs''))
       checks (\<lambda>cs. ((True, None), cs)) cs"

text \<open>Redis answers every call.\<close>

definition redis_up :: "'w services \<Rightarrow> bool" where
  "redis_up sv \<longleftrightarrow> (\<forall>w. fst (sv_db sv ''redis'' w))"

lemma redis_answered:
  assumes "redis_up sv"
  obtains w where "redis sv f s =
    (Inr (fst (f (rt_counters s))), s\<lparr>rt_world := w, rt_counters := snd (f (rt_counters s))\<rparr>)"
proof -
  obtain ok w where w: "sv_db sv ''redis'' (rt_world s) = (ok, w)" by fastforce
  with assms have "ok" unfolding redis_up_def by (metis fst_conv)
  with w have "redis sv f s =
    (Inr (fst (f (rt_counters s))), s\<lparr>rt_world := w, rt_counters := snd (f (rt_counters s))\<rparr>)"
    by (cases "f (rt_counters s)") (simp add: redis_def on_table_def)
  then show ?thesis by (rule that)
qed

text \<open>With Redis up, the calls compute the pure decision, and only the world and the counters move.\<close>

lemma check_windows_pure:
  assumes "redis_up sv"
  shows "\<exists>w. check_windows sv now checks s =
    (Inr (fst (rate_decision now checks (rt_counters s))),
     s\<lparr>rt_world := w, rt_counters := snd (rate_decision now checks (rt_counters s))\<rparr>)"
proof (induction checks arbitrary: s)
  case Nil
  show ?case by (intro exI [of _ "rt_world s"]) (simp add: ret_def rate_decision_def)
next
  case (Cons c rest)
  obtain limit key ttl label where c: "c = (limit, key, ttl, label)" by (cases c)
  show ?case
  proof (cases limit)
    case None
    then show ?thesis using Cons [of s] by (simp add: c rate_decision_def)
  next
    case (Some l)
    let ?n = "fst (redis_incr now key (rt_counters s))"
    let ?cs = "snd (redis_incr now key (rt_counters s))"
    obtain w1 where w1: "redis sv (redis_incr now key) s = (Inr ?n, s\<lparr>rt_world := w1, rt_counters := ?cs\<rparr>)"
      by (rule redis_answered [OF assms])
    let ?s1 = "s\<lparr>rt_world := w1, rt_counters := ?cs\<rparr>"
    let ?cs2 = "if ?n = 1 then redis_expire now key ttl ?cs else ?cs"
    obtain w2 where w2: "(if ?n = 1 then redis sv (\<lambda>cs. ((), redis_expire now key ttl cs)) else ret ()) ?s1
        = (Inr (), s\<lparr>rt_world := w2, rt_counters := ?cs2\<rparr>)"
      by (cases "?n = 1") (auto simp: ret_def intro: redis_answered [OF assms, of "\<lambda>cs. ((), redis_expire now key ttl cs)" ?s1])
    obtain w3 where w3: "check_windows sv now rest (s\<lparr>rt_world := w2, rt_counters := ?cs2\<rparr>) =
        (Inr (fst (rate_decision now rest ?cs2)), s\<lparr>rt_world := w3, rt_counters := snd (rate_decision now rest ?cs2)\<rparr>)"
      using Cons [of "s\<lparr>rt_world := w2, rt_counters := ?cs2\<rparr>"] by auto
    have dec: "rate_decision now (c # rest) (rt_counters s) =
        (if ?n > l then ((False, Some (label @ ''_exceeded'')), ?cs2) else rate_decision now rest ?cs2)"
      by (simp add: rate_decision_def c Some Let_def case_prod_unfold)
    show ?thesis
    proof (cases "?n > l")
      case True
      then show ?thesis using w1 w2 dec
        by (intro exI [of _ w2]) (simp add: c Some andthen_Inr ret_def)
    next
      case False
      then show ?thesis using w1 w2 w3 dec
        by (intro exI [of _ w3]) (simp add: c Some andthen_Inr)
    qed
  qed
qed

lemma check_rate_limit_pure:
  assumes "redis_up sv"
  shows "\<exists>w. check_rate_limit sv tenant agent rpm rpd s =
    (let now = sv_clock sv (rt_world s); d = rate_decision now (rate_checks now tenant agent rpm rpd) (rt_counters s)
     in (Inr (fst d), s\<lparr>rt_world := w, rt_counters := snd d\<rparr>))"
  using check_windows_pure [OF assms, of "sv_clock sv (rt_world s)"
      "rate_checks (sv_clock sv (rt_world s)) tenant agent rpm rpd" s]
  by (auto simp: check_rate_limit_def now_us_def prog_simps Let_def)

section \<open>The limits hold in every window\<close>

fun rate_run ::
  "(int \<Rightarrow> counters \<Rightarrow> (bool \<times> string option) \<times> counters) \<Rightarrow> counters \<Rightarrow> int list \<Rightarrow> bool list" where
  "rate_run step cs [] = []"
| "rate_run step cs (t # ts) = fst (fst (step t cs)) # rate_run step (snd (step t cs)) ts"

definition rate_step ::
  "string \<Rightarrow> string \<Rightarrow> int option \<Rightarrow> int option \<Rightarrow> int \<Rightarrow> counters \<Rightarrow> (bool \<times> string option) \<times> counters" where
  "rate_step tenant agent rpm rpd now = rate_decision now (rate_checks now tenant agent rpm rpd)"

text \<open>
  The counter of one window: it holds the number of requests counted so far and does not expire
  before the window ends; an allowed request was counted and did not exceed the limit.
\<close>

definition counts :: "int \<Rightarrow> int \<Rightarrow> (int \<times> int option) option \<Rightarrow> bool" where
  "counts ending n c \<longleftrightarrow> (n = 0 \<and> c = None) \<or> (\<exists>d. c = Some (n, Some d) \<and> ending \<le> d)"

locale window_limit =
  fixes step :: "int \<Rightarrow> counters \<Rightarrow> (bool \<times> string option) \<times> counters"
    and key :: string and limit :: int and begins :: int and ends :: int
  assumes step_counts: "begins \<le> now \<Longrightarrow> now < ends \<Longrightarrow> 0 \<le> n \<Longrightarrow> counts ends n (cs key) \<Longrightarrow>
      counts ends n (snd (step now cs) key) \<and> \<not> fst (fst (step now cs)) \<or>
      counts ends (n + 1) (snd (step now cs) key) \<and> (fst (fst (step now cs)) \<longrightarrow> n + 1 \<le> limit)"
begin

lemma allowed_at_most:
  assumes "\<forall>t \<in> set ts. begins \<le> t \<and> t < ends" and "0 \<le> n" and "counts ends n (cs key)"
  shows "count_list (rate_run step cs ts) True \<le> nat (limit - n)"
  using assms
proof (induction ts arbitrary: cs n)
  case Nil
  then show ?case by simp
next
  case (Cons t ts)
  let ?cs = "snd (step t cs)"
  from Cons.prems step_counts [of t n cs]
  consider (denied) "counts ends n (?cs key)" "\<not> fst (fst (step t cs))"
    | (counted) "counts ends (n + 1) (?cs key)" "fst (fst (step t cs)) \<longrightarrow> n + 1 \<le> limit"
    by auto
  then show ?case
  proof cases
    case denied
    then show ?thesis using Cons.IH [of n ?cs] Cons.prems by simp
  next
    case counted
    have "count_list (rate_run step ?cs ts) True \<le> nat (limit - (n + 1))"
      using Cons.IH [of "n + 1" ?cs] Cons.prems counted by simp
    with counted(2) Cons.prems(2) show ?thesis by auto
  qed
qed

end

lemma counts_incr:
  assumes "counts ending n (cs key)" and "now < ending" and "ending \<le> now + ttl * 1000000" and "0 \<le> n"
  shows "fst (redis_incr now key cs) = n + 1"
    and "counts ending (n + 1) ((if n + 1 = 1 then redis_expire now key ttl (snd (redis_incr now key cs))
            else snd (redis_incr now key cs)) key)"
  using assms
  by (auto simp: counts_def redis_incr_def redis_expire_def counter_value_def counter_expiry_def Let_def)

lemma incr_other: "k \<noteq> key \<Longrightarrow> snd (redis_incr now k cs) key = cs key"
  by (simp add: redis_incr_def Let_def)

lemma expire_other: "k \<noteq> key \<Longrightarrow> redis_expire now k ttl cs key = cs key"
  by (simp add: redis_expire_def)

lemma rate_decision_simps:
  "rate_decision now [] cs = ((True, None), cs)"
  "rate_decision now ((None, key, ttl, label) # rest) cs = rate_decision now rest cs"
  "rate_decision now ((Some l, key, ttl, label) # rest) cs =
     (let cs' = snd (redis_incr now key cs);
          cs'' = (if fst (redis_incr now key cs) = 1 then redis_expire now key ttl cs' else cs')
      in if fst (redis_incr now key cs) > l then ((False, Some (label @ ''_exceeded'')), cs'')
         else rate_decision now rest cs'')"
  by (simp_all add: rate_decision_def Let_def case_prod_unfold)

lemma rate_decision_other:
  "\<forall>c \<in> set checks. fst (snd c) \<noteq> key \<Longrightarrow> snd (rate_decision now checks cs) key = cs key"
proof (induction checks arbitrary: cs)
  case Nil
  then show ?case by (simp add: rate_decision_simps)
next
  case (Cons c rest)
  obtain limit k ttl label where c: "c = (limit, k, ttl, label)" by (cases c)
  show ?case
  proof (cases limit)
    case None
    then show ?thesis using Cons c by (simp add: rate_decision_simps)
  next
    case (Some l)
    have "snd (rate_decision now rest ds) key = ds key" for ds
      by (rule Cons.IH) (use Cons.prems in auto)
    then show ?thesis using Cons.prems c Some
      by (simp add: rate_decision_simps Let_def incr_other expire_other)
  qed
qed

text \<open>One check in front: it counts, and the checks after it do not touch its counter.\<close>

lemma rate_decision_counts:
  assumes "counts ending n (cs key)" and "now < ending" and "ending \<le> now + ttl * 1000000" and "0 \<le> n"
    and "\<forall>c \<in> set rest. fst (snd c) \<noteq> key"
  shows "counts ending (n + 1) (snd (rate_decision now ((Some l, key, ttl, label) # rest) cs) key) \<and>
         (fst (fst (rate_decision now ((Some l, key, ttl, label) # rest) cs)) \<longrightarrow> n + 1 \<le> l)"
  using counts_incr [of ending n cs key now ttl] assms(1-4) rate_decision_other [OF assms(5)]
  by (simp add: rate_decision_simps Let_def)

lemma rate_keys_differ: "rate_key ''rpm'' t a w \<noteq> rate_key ''rpd'' t a w'"
  by (simp add: rate_key_def)

lemma window_of:
  assumes "w * k \<le> now" "now < w * (k + 1)" "0 < w"
  shows "now div w = (k :: int)"
proof -
  have "now = w * k + (now - w * k)" by simp
  moreover have "0 \<le> now - w * k" "now - w * k < w" using assms by (simp_all add: distrib_left)
  ultimately show ?thesis
    by (metis add.commute add.right_neutral assms(3) div_mult_self2 div_pos_pos_trivial less_irrefl)
qed

interpretation rpm_limit: window_limit
  "rate_step tenant agent (Some l) rpd" "rate_key ''rpm'' tenant agent k" l "60000000 * k" "60000000 * (k + 1)"
  for tenant agent l rpd k
proof unfold_locales
  fix now n :: int and cs :: counters
  let ?key = "rate_key ''rpm'' tenant agent k"
  let ?ends = "60000000 * (k + 1)"
  let ?d = "rate_step tenant agent (Some l) rpd now cs"
  assume window: "60000000 * k \<le> now" "now < ?ends" and n: "0 \<le> n" and c: "counts ?ends n (cs ?key)"
  have k: "now div 60000000 = k" by (rule window_of) (use window in auto)
  have "counts ?ends (n + 1) (snd ?d ?key) \<and> (fst (fst ?d) \<longrightarrow> n + 1 \<le> l)"
    unfolding rate_step_def rate_checks_def k
    by (rule rate_decision_counts)
       (use c n window rate_keys_differ [of tenant agent k] in \<open>auto simp: rpm_window_ttl_def dest: sym\<close>)
  then show "counts ?ends n (snd ?d ?key) \<and> \<not> fst (fst ?d) \<or>
        counts ?ends (n + 1) (snd ?d ?key) \<and> (fst (fst ?d) \<longrightarrow> n + 1 \<le> l)" by blast
qed

interpretation rpd_limit: window_limit
  "rate_step tenant agent rpm (Some l)" "rate_key ''rpd'' tenant agent k" l "86400000000 * k" "86400000000 * (k + 1)"
  for tenant agent l rpm k
proof unfold_locales
  fix now n :: int and cs :: counters
  let ?key = "rate_key ''rpd'' tenant agent k"
  let ?mkey = "rate_key ''rpm'' tenant agent (now div 60000000)"
  let ?ends = "86400000000 * (k + 1)"
  let ?d = "rate_step tenant agent rpm (Some l) now cs"
  let ?day = "[(Some l, ?key, rpd_window_ttl, ''rpd'')]"
  assume window: "86400000000 * k \<le> now" "now < ?ends" and n: "0 \<le> n" and c: "counts ?ends n (cs ?key)"
  have k: "now div 86400000000 = k" by (rule window_of) (use window in auto)
  have differ: "?mkey \<noteq> ?key" by (rule rate_keys_differ)
  have day: "counts ?ends (n + 1) (snd (rate_decision now ?day ds) ?key) \<and>
             (fst (fst (rate_decision now ?day ds)) \<longrightarrow> n + 1 \<le> l)" if "ds ?key = cs ?key" for ds
    by (rule rate_decision_counts) (use that c window n in \<open>auto simp: rpd_window_ttl_def\<close>)
  show "counts ?ends n (snd ?d ?key) \<and> \<not> fst (fst ?d) \<or>
        counts ?ends (n + 1) (snd ?d ?key) \<and> (fst (fst ?d) \<longrightarrow> n + 1 \<le> l)"
  proof (cases rpm)
    case None
    then have "?d = rate_decision now ?day cs"
      by (simp add: rate_step_def rate_checks_def k rate_decision_simps)
    then show ?thesis using day by simp
  next
    case (Some m)
    let ?cs = "snd (redis_incr now ?mkey cs)"
    let ?cs2 = "if fst (redis_incr now ?mkey cs) = 1 then redis_expire now ?mkey rpm_window_ttl ?cs else ?cs"
    have same: "?cs2 ?key = cs ?key" using differ by (simp add: incr_other expire_other)
    have "?d = (if fst (redis_incr now ?mkey cs) > m then ((False, Some (''rpm'' @ ''_exceeded'')), ?cs2)
                else rate_decision now ?day ?cs2)"
      by (simp add: rate_step_def rate_checks_def k Some rate_decision_simps(3) [of now m] Let_def)
    then show ?thesis using day [of ?cs2] same c by (simp split: if_splits)
  qed
qed

text \<open>
  A sequence of checks: each starts from a state of its own, whatever the world and the rest of
  the container have become meanwhile, on the counters the one before left.
\<close>

fun limit_run ::
  "('w runtime \<Rightarrow> (pyexn + bool \<times> string option) \<times> 'w runtime) \<Rightarrow> counters \<Rightarrow> 'w runtime list \<Rightarrow> bool list" where
  "limit_run check cs [] = []"
| "limit_run check cs (u # us) =
     (case check (u\<lparr>rt_counters := cs\<rparr>) of
        (r, t) \<Rightarrow> (case r of Inr (allowed, _) \<Rightarrow> allowed | Inl _ \<Rightarrow> False) # limit_run check (rt_counters t) us)"

lemma limit_run_decisions:
  assumes "redis_up sv"
  shows "limit_run (check_rate_limit sv tenant agent rpm rpd) cs us =
    rate_run (rate_step tenant agent rpm rpd) cs (map (\<lambda>u. sv_clock sv (rt_world u)) us)"
proof (induction us arbitrary: cs)
  case Nil
  then show ?case by simp
next
  case (Cons u us)
  obtain w where w: "check_rate_limit sv tenant agent rpm rpd (u\<lparr>rt_counters := cs\<rparr>) =
    (let now = sv_clock sv (rt_world (u\<lparr>rt_counters := cs\<rparr>)); d = rate_decision now (rate_checks now tenant agent rpm rpd) cs
     in (Inr (fst d), u\<lparr>rt_counters := cs, rt_world := w, rt_counters := snd d\<rparr>))"
    using check_rate_limit_pure [OF assms, of tenant agent rpm rpd "u\<lparr>rt_counters := cs\<rparr>"] by auto
  then show ?case
    by (simp add: Cons Let_def rate_step_def case_prod_unfold)
qed

end
