(* ===== verification/Orchestrator.thy ===== *)
theory Orchestrator
  imports ConfigLoader ToolExecutor HitlReviews Guardrail Memory Quota
begin

text \<open>
  services/agent-runtime/orchestrator.py: one turn of the agent. The constructor reads the loaded
  configuration into the components; \<open>run\<close> is a turn, \<open>request_tool_approval\<close> persists a turn
  that a tool call paused, \<open>resume_after_approval\<close> continues it, \<open>finalize\<close> is their common end.
  A configuration value with another type than AgentConfiguration declares is a TypeError here.
\<close>

section \<open>Reading the configuration\<close>

definition need :: "(string \<times> pyval) list \<Rightarrow> string \<Rightarrow> ('s, pyval) prog" where
  "need d k = (case map_of d k of None \<Rightarrow> raising (KeyError k) | Some v \<Rightarrow> ret v)"

definition want :: "(string \<times> pyval) list \<Rightarrow> string \<Rightarrow> pyval \<Rightarrow> pyval" where
  "want d k dflt = (case map_of d k of None \<Rightarrow> dflt | Some v \<Rightarrow> v)"

definition bad_type :: "('s, 'a) prog" where "bad_type = raising (TypeError ''unexpected type'')"

definition as_text :: "pyval \<Rightarrow> ('s, string) prog" where
  "as_text v = (case v of PStr s \<Rightarrow> ret s | _ \<Rightarrow> bad_type)"

definition as_opt_text :: "pyval \<Rightarrow> ('s, string option) prog" where
  "as_opt_text v = (case v of PStr s \<Rightarrow> ret (Some s) | PNone \<Rightarrow> ret None | _ \<Rightarrow> bad_type)"

definition as_int :: "pyval \<Rightarrow> ('s, int) prog" where
  "as_int v = (case v of PInt i \<Rightarrow> ret i | _ \<Rightarrow> bad_type)"

definition as_opt_bool :: "pyval \<Rightarrow> ('s, bool option) prog" where
  "as_opt_bool v = (case v of PBool b \<Rightarrow> ret (Some b) | PNone \<Rightarrow> ret None | _ \<Rightarrow> bad_type)"

definition as_list :: "pyval \<Rightarrow> ('s, pyval list) prog" where
  "as_list v = (case v of PList xs \<Rightarrow> ret xs | _ \<Rightarrow> if py_truthy v then bad_type else ret [])"

definition as_dict :: "pyval \<Rightarrow> ('s, (string \<times> pyval) list) prog" where
  "as_dict v = (case v of PDict d \<Rightarrow> ret d | _ \<Rightarrow> bad_type)"

text \<open>\<open>config.get(k) or {}\<close>\<close>

definition sub_dict :: "(string \<times> pyval) list \<Rightarrow> string \<Rightarrow> ('s, (string \<times> pyval) list) prog" where
  "sub_dict d k = (let v = want d k PNone in if py_truthy v then as_dict v else ret [])"

fun each :: "('a \<Rightarrow> ('s, 'b) prog) \<Rightarrow> 'a list \<Rightarrow> ('s, 'b list) prog" where
  "each f [] = ret []"
| "each f (x # xs) = andthen (f x) (\<lambda>y. andthen (each f xs) (\<lambda>ys. ret (y # ys)))"

definition read_tool :: "pyval \<Rightarrow> ('s, tool_spec) prog" where
  "read_tool v =
     andthen (as_dict v) (\<lambda>d.
     andthen (andthen (need d ''tool_id'') as_text) (\<lambda>i.
     andthen (as_opt_text (want d ''tool_name'' PNone)) (\<lambda>n.
       ret \<lparr>tool_id = i, tool_name = n, input_schema = map_of d ''input_schema''\<rparr>)))"

definition read_policy :: "pyval \<Rightarrow> ('s, tool_policy) prog" where
  "read_policy v =
     andthen (as_dict v) (\<lambda>d.
     andthen (andthen (need d ''tool'') as_text) (\<lambda>t.
     andthen (as_opt_bool (want d ''allowed'' PNone)) (\<lambda>a.
     andthen (as_opt_text (want d ''risk'' PNone)) (\<lambda>r.
       ret \<lparr>tp_tool = t, tp_allowed = a, tp_risk = r\<rparr>))))"

record orchestrator =
  oc_agent :: string
  oc_tenant :: string
  oc_system_prompt :: string
  oc_llm :: llm_client
  oc_rag :: rag_client
  oc_tools :: executor
  oc_memory :: memory_manager
  oc_guardrail :: guardrail_checker
  oc_hitl :: hitl_manager
  oc_approval :: approval_manager

text \<open>\<open>AgentOrchestrator.__init__\<close>, component by component in the order of the code.\<close>

definition read_llm :: "(string \<times> pyval) list \<Rightarrow> ('s, llm_client) prog" where
  "read_llm d =
     andthen (andthen (need d ''model_id'') as_text) (\<lambda>model.
     andthen (andthen (need d ''model_provider'') as_text) (\<lambda>provider.
     andthen (andthen (need d ''system_prompt'') as_text) (\<lambda>prompt.
     andthen (as_opt_text (want d ''fallback_model_string'' PNone)) (\<lambda>fallback.
       case make_llm_client model provider prompt (want d ''temperature'' (PFloat ''0.3''))
              (want d ''max_tokens'' (PInt 2048)) fallback of
         Inl e \<Rightarrow> raising e
       | Inr lc \<Rightarrow> ret lc))))"

definition read_rag :: "string \<Rightarrow> (string \<times> pyval) list \<Rightarrow> ('s, rag_client) prog" where
  "read_rag tenant d =
     andthen (sub_dict d ''knowledge_base'') (\<lambda>kb.
     andthen (let v = want kb ''top_k'' PNone in if py_truthy v then as_int v else ret 5) (\<lambda>k.
     andthen (as_opt_text (want kb ''kb_id'' PNone)) (\<lambda>i.
       ret \<lparr>ra_tenant = tenant, ra_enabled_flag = py_truthy (want kb ''enabled'' PNone),
            ra_kb_id = i, ra_top_k = k\<rparr>)))"

definition read_executor :: "string \<Rightarrow> string \<Rightarrow> (string \<times> pyval) list \<Rightarrow> ('s, executor) prog" where
  "read_executor agent tenant d =
     andthen (andthen (as_list (want d ''tools'' PNone)) (each read_tool)) (\<lambda>tools.
     andthen (andthen (as_list (want d ''tool_policies'' PNone)) (each read_policy)) (\<lambda>policies.
       ret \<lparr>ex_agent = agent, ex_tenant = tenant, ex_tools = tools, ex_policies = policies\<rparr>))"

definition read_memory :: "string \<Rightarrow> (string \<times> pyval) list \<Rightarrow> ('s, memory_manager) prog" where
  "read_memory agent d =
     andthen (sub_dict d ''memory'') (\<lambda>m.
     andthen (as_text (want m ''memory_type'' (PStr ''none''))) (\<lambda>ty.
     andthen (as_int (want m ''persistent_memory_ttl_days'' (PInt 30))) (\<lambda>ttl.
     andthen (as_int (want m ''max_session_turns'' (PInt 50))) (\<lambda>n.
       ret \<lparr>me_agent = agent, me_type = ty, me_ttl_days = ttl, me_max_turns = n\<rparr>))))"

definition read_hitl ::
  "string \<Rightarrow> string \<Rightarrow> (string \<times> pyval) list \<Rightarrow> ('s, hitl_manager \<times> approval_manager) prog" where
  "read_hitl agent tenant d =
     andthen (sub_dict d ''human_review'') (\<lambda>h.
     andthen (andthen (as_list (want h ''trigger_conditions'' PNone)) (each as_text)) (\<lambda>conditions.
     andthen (as_int (want h ''approval_timeout_hours'' (PInt 24))) (\<lambda>hours.
     andthen (as_opt_text (want h ''notification_sns_arn'' PNone)) (\<lambda>topic.
       ret (\<lparr>hm_agent = agent, hm_tenant = tenant, hm_enabled = py_truthy (want h ''enabled'' (PBool False)),
             hm_triggers = conditions, hm_timeout_hours = of_int hours, hm_topic = topic\<rparr>,
            \<lparr>am_agent = agent, am_tenant = tenant, am_topic = topic, am_timeout_hours = of_int hours\<rparr>)))))"

definition make_orchestrator :: "pyval \<Rightarrow> ('s, orchestrator) prog" where
  "make_orchestrator config =
     andthen (as_dict config) (\<lambda>d.
     andthen (andthen (need d ''agent_id'') as_text) (\<lambda>agent.
     andthen (andthen (need d ''tenant_id'') as_text) (\<lambda>tenant.
     andthen (read_llm d) (\<lambda>llm.
     andthen (read_rag tenant d) (\<lambda>rag.
     andthen (read_executor agent tenant d) (\<lambda>tools.
     andthen (read_memory agent d) (\<lambda>memory.
     andthen (as_opt_text (want d ''guardrail_policy_id'' PNone)) (\<lambda>policy.
     andthen (read_hitl agent tenant d) (\<lambda>(hitl, approval).
       ret \<lparr>oc_agent = agent, oc_tenant = tenant, oc_system_prompt = lc_system_prompt llm,
            oc_llm = llm, oc_rag = rag, oc_tools = tools, oc_memory = memory,
            oc_guardrail = \<lparr>gc_tenant = tenant, gc_policy = policy\<rparr>,
            oc_hitl = hitl, oc_approval = approval\<rparr>)))))))))"

section \<open>The persisted turn\<close>

text \<open>A tool call as the dict the LLM client builds, and back. Missing optional keys read as None.\<close>

definition call_value :: "tool_call \<Rightarrow> pyval" where
  "call_value c =
     PDict [(''id'', (case tc_id c of None \<Rightarrow> PNone | Some i \<Rightarrow> PStr i)), (''name'', PStr (tc_name c)),
            (''arguments'', (case tc_arguments c of None \<Rightarrow> PNone | Some a \<Rightarrow> PStr a))]"

definition read_call :: "pyval \<Rightarrow> ('s, tool_call) prog" where
  "read_call v =
     andthen (as_dict v) (\<lambda>d.
     andthen (as_opt_text (want d ''id'' PNone)) (\<lambda>i.
     andthen (andthen (need d ''name'') as_text) (\<lambda>n.
     andthen (as_opt_text (want d ''arguments'' PNone)) (\<lambda>a.
       ret \<lparr>tc_id = i, tc_name = n, tc_arguments = a\<rparr>))))"

definition opt_value :: "string option \<Rightarrow> pyval" where
  "opt_value x = (case x of None \<Rightarrow> PNone | Some s \<Rightarrow> PStr s)"

record paused_turn =
  pt_session :: string
  pt_user :: "string option"
  pt_message :: string
  pt_initial :: "pyval list"
  pt_content :: string
  pt_calls :: "tool_call list"
  pt_approved :: "string option"
  pt_tool :: string

definition resume_context :: "paused_turn \<Rightarrow> string" where
  "resume_context p = json_dumps (PDict
     [(''session_id'', PStr (pt_session p)), (''user_id'', opt_value (pt_user p)),
      (''effective_message'', PStr (pt_message p)), (''initial_messages'', PList (pt_initial p)),
      (''assistant_content'', PStr (pt_content p)), (''tool_calls'', PList (map call_value (pt_calls p))),
      (''approved_call_id'', opt_value (pt_approved p)), (''tool_id'', PStr (pt_tool p))])"

text \<open>
  The context is parsed before the claim and its keys are read after it, with the defaults of
  \<open>resume_after_approval\<close>. An absent or empty text is the empty context. The tool calls are
  decoded together, before the first of them runs.
\<close>

definition context_dict :: "'w services \<Rightarrow> string option \<Rightarrow> ('s, (string \<times> pyval) list) prog" where
  "context_dict sv text =
     (if truthy text
      then (case json_loads (get_or [] text) of
              None \<Rightarrow> raising (ValueError (sv_json_error sv (get_or [] text)))
            | Some v \<Rightarrow> as_dict v)
      else ret [])"

definition context_session :: "(string \<times> pyval) list \<Rightarrow> ('s, string) prog" where
  "context_session d = as_text (want d ''session_id'' (PStr []))"

definition context_tool :: "(string \<times> pyval) list \<Rightarrow> ('s, string) prog" where
  "context_tool d = as_text (want d ''tool_id'' (PStr []))"

definition read_paused :: "(string \<times> pyval) list \<Rightarrow> ('s, paused_turn) prog" where
  "read_paused d =
     andthen (context_session d) (\<lambda>session.
     andthen (as_opt_text (want d ''user_id'' PNone)) (\<lambda>user.
     andthen (as_text (want d ''effective_message'' (PStr []))) (\<lambda>message.
     andthen (as_list (want d ''initial_messages'' (PList []))) (\<lambda>initial.
     andthen (as_text (want d ''assistant_content'' (PStr []))) (\<lambda>content.
     andthen (andthen (as_list (want d ''tool_calls'' (PList []))) (each read_call)) (\<lambda>calls.
     andthen (as_opt_text (want d ''approved_call_id'' PNone)) (\<lambda>approved.
     andthen (context_tool d) (\<lambda>tool.
       ret \<lparr>pt_session = session, pt_user = user, pt_message = message, pt_initial = initial,
            pt_content = content, pt_calls = calls, pt_approved = approved, pt_tool = tool\<rparr>))))))))"

section \<open>A turn\<close>

record turn_result =
  tr_response :: string
  tr_session :: string
  tr_run :: string
  tr_pending :: bool
  tr_latency_ms :: int
  tr_input_tokens :: int
  tr_output_tokens :: int
  tr_review :: "string option"
  tr_approval :: "string option"

definition hitl_pending_message :: string where
  "hitl_pending_message = ''This request requires human review. You will be notified.''"

definition approval_pending_message :: string where
  "approval_pending_message =
     ''This action requires human approval before it can proceed. You will be notified once a decision is made.''"

definition approval_still_pending_message :: string where
  "approval_still_pending_message = ''This action is still awaiting human approval.''"

definition approval_already_processed_message :: string where
  "approval_already_processed_message = ''This action has already been processed.''"

definition perf_us :: "'w services \<Rightarrow> ('w, int) action" where
  "perf_us sv = reads (\<lambda>s. sv_perf sv (rt_world s))"

text \<open>The result dict; the latency is read when it is built.\<close>

definition result_of ::
  "'w services \<Rightarrow> int \<Rightarrow> string \<Rightarrow> string \<Rightarrow> string \<Rightarrow> bool \<Rightarrow> int \<Rightarrow> int \<Rightarrow> string option \<Rightarrow> string option
     \<Rightarrow> ('w, turn_result) action" where
  "result_of sv started response session run_id pending tin tout review approval =
     andthen (perf_us sv) (\<lambda>now.
       ret \<lparr>tr_response = response, tr_session = session, tr_run = run_id, tr_pending = pending,
            tr_latency_ms = (now - started) div 1000, tr_input_tokens = tin, tr_output_tokens = tout,
            tr_review = review, tr_approval = approval\<rparr>)"

definition reason_value :: "string option \<Rightarrow> pyval" where "reason_value = opt_value"

definition finalize ::
  "'w services \<Rightarrow> orchestrator \<Rightarrow> string \<Rightarrow> string \<Rightarrow> string option \<Rightarrow> string \<Rightarrow> string \<Rightarrow> int \<Rightarrow> int \<Rightarrow> int
     \<Rightarrow> string option \<Rightarrow> string option \<Rightarrow> ('w, turn_result) action" where
  "finalize sv oc final session user message run_id started tin tout review approval =
     andthen (check_guardrail sv (oc_guardrail oc) final ''OUTPUT'') (\<lambda>chk.
     andthen (if gd_blocked chk
              then andthen (write_audit_event sv (oc_tenant oc) ''guardrail.output_blocked'' (oc_agent oc)
                              ''agent-runtime'' ''guardrail_check:OUTPUT'' (oc_agent oc) ''denied'' []
                              [(''reason'', reason_value (gd_reason chk))])
                     (\<lambda>_. ret blocked_response_text)
              else ret (get_or final (gd_sanitised chk))) (\<lambda>response.
     andthen (save_memory sv (oc_memory oc) session user message response) (\<lambda>_.
       result_of sv started response session run_id False tin tout review approval)))"

text \<open>The first tool call with the name of the tool that needs approval.\<close>

fun matching_call :: "string \<Rightarrow> tool_call list \<Rightarrow> tool_call option" where
  "matching_call tool [] = None"
| "matching_call tool (c # cs) = (if tc_name c = tool then Some c else matching_call tool cs)"

definition request_tool_approval ::
  "'w services \<Rightarrow> orchestrator \<Rightarrow> string \<Rightarrow> llm_result \<Rightarrow> pyval list \<Rightarrow> string \<Rightarrow> string \<Rightarrow> string option
     \<Rightarrow> string \<Rightarrow> int \<Rightarrow> int \<Rightarrow> int \<Rightarrow> ('w, turn_result) action" where
  "request_tool_approval sv oc tool lr initial message session user run_id started tin tout =
     (let context = resume_context
            \<lparr>pt_session = session, pt_user = user, pt_message = message, pt_initial = initial,
             pt_content = lr_content lr, pt_calls = lr_tool_calls lr,
             pt_approved = (case matching_call tool (lr_tool_calls lr) of None \<Rightarrow> None | Some c \<Rightarrow> tc_id c),
             pt_tool = tool\<rparr>
      in andthen (request_approval sv (oc_approval oc) tool run_id session context) (\<lambda>rid.
           result_of sv started approval_pending_message session run_id True tin tout
             (Some rid) (Some ''pending'')))"

text \<open>The messages of the follow-up call: the first ones, the assistant's tool calls, the results.\<close>

definition follow_up :: "pyval list \<Rightarrow> string \<Rightarrow> tool_call list \<Rightarrow> pyval list \<Rightarrow> pyval list" where
  "follow_up initial content calls results =
     initial @
     [PDict [(''role'', PStr ''assistant''), (''content'', PStr content),
             (''tool_calls'', PList (map call_value calls))],
      message_of ''tool'' (py_str (PList results))]"

text \<open>Executing the calls of a turn: the results, or the tool whose approval stops it.\<close>

definition execute_or_pause ::
  "'w services \<Rightarrow> executor \<Rightarrow> tool_call list \<Rightarrow> ('w, string + pyval list) action" where
  "execute_or_pause sv ex calls =
     catching (andthen (execute sv ex None calls) (\<lambda>rs. ret (Inr rs)))
       (\<lambda>e. case e of ApprovalRequiredError tool \<Rightarrow> ret (Inl tool) | _ \<Rightarrow> raising e)"

text \<open>The turn after the model's first answer.\<close>

definition after_answer ::
  "'w services \<Rightarrow> orchestrator \<Rightarrow> llm_result \<Rightarrow> pyval list \<Rightarrow> string \<Rightarrow> string \<Rightarrow> string option \<Rightarrow> string
     \<Rightarrow> int \<Rightarrow> ('w, turn_result) action" where
  "after_answer sv oc lr initial message session user run_id started =
     (let tin = get_or 0 (lr_input_tokens lr); tout = get_or 0 (lr_output_tokens lr)
      in if lr_tool_calls lr = []
         then finalize sv oc (lr_content lr) session user message run_id started tin tout None None
         else
           andthen (execute_or_pause sv (oc_tools oc) (lr_tool_calls lr)) (\<lambda>out.
             case out of
               Inl tool \<Rightarrow>
                 request_tool_approval sv oc tool lr initial message session user run_id started tin tout
             | Inr results \<Rightarrow>
                 andthen (complete sv (oc_llm oc)
                            (follow_up initial (lr_content lr) (lr_tool_calls lr) results) []) (\<lambda>final.
                 andthen (record_llm_cost sv (oc_tenant oc) (oc_agent oc) (lr_cost final)) (\<lambda>_.
                   finalize sv oc (lr_content final) session user message run_id started
                     (tin + get_or 0 (lr_input_tokens final)) (tout + get_or 0 (lr_output_tokens final))
                     None None))))"

text \<open>The turn once the input has passed the guardrail as \<open>message\<close>.\<close>

definition admitted_turn ::
  "'w services \<Rightarrow> orchestrator \<Rightarrow> (string \<Rightarrow> string list) \<Rightarrow> string \<Rightarrow> string \<Rightarrow> string option \<Rightarrow> string \<Rightarrow> int
     \<Rightarrow> ('w, turn_result) action" where
  "admitted_turn sv oc ids message session user run_id started =
     andthen (load_memory sv (oc_memory oc) ids session user) (\<lambda>memory.
     andthen (retrieve sv (oc_rag oc) message) (\<lambda>rag.
       let initial = snd (build_messages
             \<lparr>pc_system_prompt = oc_system_prompt oc, pc_user_message = message, pc_kb_content = rag,
              pc_tool_results = [], pc_session_history = memory\<rparr>)
       in case pre_check (oc_hitl oc) message of
            Some condition \<Rightarrow>
              andthen (create_review sv (oc_hitl oc) run_id (oc_agent oc) message session condition) (\<lambda>_.
                result_of sv started hitl_pending_message session run_id True 0 0 None None)
          | None \<Rightarrow>
              andthen (complete sv (oc_llm oc) initial (get_definitions (oc_tools oc))) (\<lambda>lr.
              andthen (record_llm_cost sv (oc_tenant oc) (oc_agent oc) (lr_cost lr)) (\<lambda>_.
                after_answer sv oc lr initial message session user run_id started))))"

definition run_turn ::
  "'w services \<Rightarrow> orchestrator \<Rightarrow> (string \<Rightarrow> string list) \<Rightarrow> string \<Rightarrow> string \<Rightarrow> string option
     \<Rightarrow> ('w, turn_result) action" where
  "run_turn sv oc ids message session user =
     andthen (new_uuid sv) (\<lambda>run_id.
     andthen (perf_us sv) (\<lambda>started.
     andthen (check_guardrail sv (oc_guardrail oc) message ''INPUT'') (\<lambda>chk.
       if gd_blocked chk
       then
         andthen (write_audit_event sv (oc_tenant oc) ''guardrail.input_blocked'' (oc_agent oc)
                    ''agent-runtime'' ''guardrail_check:INPUT'' (oc_agent oc) ''denied'' []
                    [(''reason'', reason_value (gd_reason chk))])
           (\<lambda>_. result_of sv started blocked_response_text session run_id False 0 0 None None)
       else
         admitted_turn sv oc ids
           (if truthy (gd_sanitised chk) then get_or [] (gd_sanitised chk) else message)
           session user run_id started)))"

section \<open>Resuming\<close>

text \<open>The part of \<open>resume_after_approval\<close> that runs the tools.\<close>

definition resume_granted ::
  "'w services \<Rightarrow> orchestrator \<Rightarrow> string \<Rightarrow> (string \<times> pyval) list \<Rightarrow> string \<Rightarrow> int \<Rightarrow> ('w, turn_result) action" where
  "resume_granted sv oc rid d run_id started =
     andthen (context_tool d) (\<lambda>tool.
     andthen (write_audit_event sv (oc_tenant oc) ''human.approval.granted'' (oc_agent oc) ''agent-runtime''
                (''invoke:'' @ tool) (oc_agent oc) ''allowed'' [] []) (\<lambda>_.
     andthen (read_paused d) (\<lambda>p.
     andthen (execute sv (oc_tools oc) (pt_approved p) (pt_calls p)) (\<lambda>results.
     andthen (complete sv (oc_llm oc) (follow_up (pt_initial p) (pt_content p) (pt_calls p) results) []) (\<lambda>final.
     andthen (record_llm_cost sv (oc_tenant oc) (oc_agent oc) (lr_cost final)) (\<lambda>_.
       finalize sv oc (lr_content final) (pt_session p) (pt_user p) (pt_message p) run_id started
         (get_or 0 (lr_input_tokens final)) (get_or 0 (lr_output_tokens final))
         (Some rid) (Some ''approved'')))))))"

definition resume_refused ::
  "'w services \<Rightarrow> orchestrator \<Rightarrow> string \<Rightarrow> string \<Rightarrow> (string \<times> pyval) list \<Rightarrow> string \<Rightarrow> int
     \<Rightarrow> ('w, turn_result) action" where
  "resume_refused sv oc rid status d run_id started =
     andthen (context_tool d) (\<lambda>tool.
     andthen (write_audit_event sv (oc_tenant oc)
                (if status = ''rejected'' then ''human.approval.rejected'' else ''human.approval.timeout'')
                (oc_agent oc) ''agent-runtime'' (''invoke:'' @ tool) (oc_agent oc) ''denied'' [] []) (\<lambda>_.
     andthen (context_session d) (\<lambda>session.
       result_of sv started blocked_response_text session run_id False 0 0 (Some rid) (Some status))))"

text \<open>From the claim on, with the decision and the context read before it.\<close>

definition claim_and_resume ::
  "'w services \<Rightarrow> orchestrator \<Rightarrow> string \<Rightarrow> string \<Rightarrow> (string \<times> pyval) list \<Rightarrow> string \<Rightarrow> string \<Rightarrow> int
     \<Rightarrow> ('w, turn_result) action" where
  "claim_and_resume sv oc rid status d session run_id started =
     andthen (try_claim_resume sv (oc_approval oc) rid) (\<lambda>claimed.
       if \<not> claimed
       then result_of sv started approval_already_processed_message session run_id False 0 0
              (Some rid) (Some ''already_processed'')
       else if status \<in> {''rejected'', ''timeout''}
       then resume_refused sv oc rid status d run_id started
       else resume_granted sv oc rid d run_id started)"

definition resume_after_approval ::
  "'w services \<Rightarrow> orchestrator \<Rightarrow> string \<Rightarrow> ('w, turn_result) action" where
  "resume_after_approval sv oc rid =
     andthen (new_uuid sv) (\<lambda>run_id.
     andthen (perf_us sv) (\<lambda>started.
     andthen (get_decision sv (oc_approval oc) rid) (\<lambda>decision.
       if ad_status decision \<in> {''pending'', ''not_found''}
       then result_of sv started approval_still_pending_message [] run_id True 0 0
              (Some rid) (Some (ad_status decision))
       else
         andthen (context_dict sv (ad_context decision)) (\<lambda>d.
         andthen (context_session d) (\<lambda>session.
           claim_and_resume sv oc rid (ad_status decision) d session run_id started)))))"

section \<open>Frames of a turn\<close>

lemma reading_quiet [frame_intros]:
  fixes obs :: "'s \<Rightarrow> 'b"
  shows "stays_in (same obs) (as_text v)" and "stays_in (same obs) (as_opt_text v)"
    and "stays_in (same obs) (as_int v)" and "stays_in (same obs) (as_list v)"
    and "stays_in (same obs) (as_dict v)" and "stays_in (same obs) (need d k)"
  by (simp_all add: stays_in_def same_def as_text_def as_opt_text_def as_int_def as_list_def as_dict_def
      need_def bad_type_def ret_def raising_def split: pyval.splits option.splits)

lemma each_quiet [frame_intros]:
  fixes obs :: "'s \<Rightarrow> 'b"
  assumes "\<And>x. stays_in (same obs) (f x)"
  shows "stays_in (same obs) (each f xs)"
  by (induction xs) (auto intro!: frame_intros assms)

lemma context_quiet [frame_intros]:
  fixes obs :: "'s \<Rightarrow> 'b"
  shows "stays_in (same obs) (read_call v)" and "stays_in (same obs) (context_dict sv text)"
    and "stays_in (same obs) (context_session d)" and "stays_in (same obs) (context_tool d)"
    and "stays_in (same obs) (read_paused d)"
proof -
  show call: "stays_in (same obs) (read_call v)" for v
    unfolding read_call_def by (intro frame_intros)
  show "stays_in (same obs) (context_dict sv text)"
    unfolding context_dict_def by (intro frame_intros)
  show "stays_in (same obs) (context_session d)" and "stays_in (same obs) (context_tool d)" for d
    unfolding context_session_def context_tool_def by (intro frame_intros)+
  then show "stays_in (same obs) (read_paused d)"
    unfolding read_paused_def by (intro frame_intros call)
qed

lemma result_quiet [frame_intros]: "stays_in (same obs) (result_of sv a b c d e f g h i)"
  unfolding result_of_def perf_us_def by (intro frame_intros)

lemma review_requests_frames [frame_intros]:
  "stays_in (same rt_invocations) (create_review sv hm a b c d e)"
  "stays_in (same rt_llm_calls) (create_review sv hm a b c d e)"
  "stays_in (same rt_agents) (create_review sv hm a b c d e)"
  "stays_in (same rt_invocations) (request_approval sv am f g h i)"
  "stays_in (same rt_llm_calls) (request_approval sv am f g h i)"
  "stays_in (same rt_agents) (request_approval sv am f g h i)"
  unfolding create_review_def request_approval_def put_review_def notify_def Let_def
  by (intro frame_intros; simp)+

lemma decision_frames [frame_intros]:
  "world_free obs \<Longrightarrow> stays_in (same obs) (get_decision sv am rid)"
  unfolding get_decision_def by (intro frame_intros)

lemma claim_frames [frame_intros]:
  "stays_in (same rt_invocations) (try_claim_resume sv am rid)"
  "stays_in (same rt_llm_calls) (try_claim_resume sv am rid)"
  by (auto simp: try_claim_resume_def stays_in_def same_def on_table_def andthen_def now_us_def reads_def
      Let_def split: prod.splits sum.splits)

lemma finalize_frames [frame_intros]:
  "stays_in (same rt_invocations) (finalize sv oc a b c d e f g h i j)"
  "stays_in (same rt_llm_calls) (finalize sv oc a b c d e f g h i j)"
  "stays_in (same rt_reviews) (finalize sv oc a b c d e f g h i j)"
  "stays_in (same rt_agents) (finalize sv oc a b c d e f g h i j)"
  unfolding finalize_def by (intro frame_intros; simp)+

lemma request_tool_approval_frames [frame_intros]:
  "stays_in (same rt_invocations) (request_tool_approval sv oc a b c d e f g h i j)"
  "stays_in (same rt_llm_calls) (request_tool_approval sv oc a b c d e f g h i j)"
  unfolding request_tool_approval_def Let_def by (intro frame_intros)+

lemma execute_frames [frame_intros]:
  "stays_in (same rt_llm_calls) (execute sv ex pre cs)"
  "stays_in (same rt_reviews) (execute sv ex pre cs)"
proof -
  have run: "stays_in (same rt_llm_calls) (run_call sv ex pre c args)"
    "stays_in (same rt_reviews) (run_call sv ex pre c args)" for c args
    unfolding run_call_def invoke_lambda_def enforce_def by (intro frame_intros; simp)+
  show "stays_in (same rt_llm_calls) (execute sv ex pre cs)"
    "stays_in (same rt_reviews) (execute sv ex pre cs)"
    by (induction cs) (auto intro!: frame_intros run split: option.splits)
qed

lemma complete_adds:
  "(\<And>rq. rq_messages rq = full_messages lc ms \<Longrightarrow> P rq) \<Longrightarrow>
     stays_in (adds rt_llm_calls P) (complete sv lc ms ts)"
  by (auto simp: complete_def Let_def stays_in_def adds_def andthen_def modifies_def external_def ret_def
      split: prod.splits sum.splits)

lemma execute_or_pause_frame:
  assumes "frame R" and "stays_in R (execute sv ex None cs)"
  shows "stays_in R (execute_or_pause sv ex cs)"
proof -
  have "stays_in R (case e of ApprovalRequiredError tool \<Rightarrow> ret (Inl tool) | _ \<Rightarrow> raising e)" for e
    using frame.stays_ret [OF assms(1)] frame.stays_raising [OF assms(1)] by (cases e) simp_all
  then show ?thesis
    unfolding execute_or_pause_def
    by (intro frame.stays_catching [OF assms(1)] frame.stays_andthen [OF assms(1)] assms(2)
        frame.stays_ret [OF assms(1)])
qed

section \<open>What a turn may do\<close>

text \<open>
  Every model request of a turn starts with the agent's system prompt, and no other message of it
  has the system role.
\<close>

definition one_system_prompt :: "orchestrator \<Rightarrow> llm_request \<Rightarrow> bool" where
  "one_system_prompt oc rq \<longleftrightarrow>
     (case rq_messages rq of
        [] \<Rightarrow> False
      | m # ms \<Rightarrow> m = message_of ''system'' (lc_system_prompt (oc_llm oc))
               \<and> list_all (\<lambda>m. role_of m \<in> {Some ''user'', Some ''tool'', Some ''assistant''}) ms)"

lemma untrusted_roles:
  "list_all (\<lambda>m. role_of m \<in> {Some ''user'', Some ''tool'', Some ''assistant''}) (snd (build_messages ctx))"
  using build_messages_roles [of _ ctx] by (auto simp: list_all_iff)

lemma follow_up_roles:
  "list_all (\<lambda>m. role_of m \<in> {Some ''user'', Some ''tool'', Some ''assistant''}) ms \<Longrightarrow>
   list_all (\<lambda>m. role_of m \<in> {Some ''user'', Some ''tool'', Some ''assistant''}) (follow_up ms a b c)"
  by (simp add: follow_up_def role_of_def message_of_def)

lemma complete_one_prompt:
  assumes "list_all (\<lambda>m. role_of m \<in> {Some ''user'', Some ''tool'', Some ''assistant''}) ms"
  shows "stays_in (adds rt_llm_calls (one_system_prompt oc)) (complete sv (oc_llm oc) ms ts)"
  by (rule complete_adds) (use assms in \<open>simp add: one_system_prompt_def full_messages_def\<close>)

lemma after_answer_prompts:
  assumes "list_all (\<lambda>m. role_of m \<in> {Some ''user'', Some ''tool'', Some ''assistant''}) initial"
  shows "stays_in (adds rt_llm_calls (one_system_prompt oc))
           (after_answer sv oc lr initial message session user run_id started)"
proof -
  have pause: "stays_in (adds rt_llm_calls (one_system_prompt oc)) (execute_or_pause sv (oc_tools oc) cs)" for cs
    by (rule execute_or_pause_frame [OF adds_frame.frame_axioms]) (rule adds_same, intro frame_intros)
  show ?thesis
    unfolding after_answer_def Let_def
    by (intro adds_intros pause complete_one_prompt follow_up_roles assms) (rule adds_same, intro frame_intros)+
qed

lemma run_turn_prompts:
  "stays_in (adds rt_llm_calls (one_system_prompt oc)) (run_turn sv oc ids message session user)"
proof -
  have "stays_in (adds rt_llm_calls (one_system_prompt oc))
          (admitted_turn sv oc ids m session user run_id started)" for m run_id started
    unfolding admitted_turn_def Let_def
    by (intro adds_intros after_answer_prompts complete_one_prompt untrusted_roles)
      (rule adds_same, intro frame_intros)+
  then show ?thesis
    unfolding run_turn_def perf_us_def
    by (intro adds_intros) (assumption | rule adds_same, intro frame_intros; simp)+
qed

text \<open>A turn that reaches the model, a tool or a reviewer has passed the input guardrail.\<close>

lemma check_guardrail_raises_quiet:
  "check_guardrail sv gc text source s = (r, t) \<Longrightarrow>
     rt_llm_calls t = rt_llm_calls s \<and> rt_invocations t = rt_invocations s \<and> rt_reviews t = rt_reviews s"
  by (metis check_guardrail_frames(1,2,3) same_outcome)

definition effects :: "'w runtime \<Rightarrow> llm_request list \<times> (string \<times> string) list \<times> review_table" where
  "effects s = (rt_llm_calls s, rt_invocations s, rt_reviews s)"

lemma effects_world_free [simp]: "world_free effects"
  by (simp add: world_free_def effects_def)

lemma check_guardrail_effects [frame_intros]: "stays_in (same effects) (check_guardrail sv gc text source)"
  by (rule stays_inI) (auto simp: same_def effects_def dest: check_guardrail_raises_quiet)

lemma run_turn_gate:
  assumes "run_turn sv oc ids message session user s = (r, t)" and "effects t \<noteq> effects s"
    and "guardrail_enabled (oc_guardrail oc)"
  shows "\<exists>gid ver w reply w'. sv_guardrail sv gid ver ''INPUT'' message w = (Inr reply, w')
           \<and> \<not> gd_blocked (judge_reply reply)"
proof -
  obtain run_id u where u: "new_uuid sv s = (Inr run_id, u)"
    and rest: "andthen (perf_us sv) (\<lambda>started.
     andthen (check_guardrail sv (oc_guardrail oc) message ''INPUT'') (\<lambda>chk.
       if gd_blocked chk
       then
         andthen (write_audit_event sv (oc_tenant oc) ''guardrail.input_blocked'' (oc_agent oc)
                    ''agent-runtime'' ''guardrail_check:INPUT'' (oc_agent oc) ''denied'' []
                    [(''reason'', reason_value (gd_reason chk))])
           (\<lambda>_. result_of sv started blocked_response_text session run_id False 0 0 None None)
       else
         admitted_turn sv oc ids
           (if truthy (gd_sanitised chk) then get_or [] (gd_sanitised chk) else message)
           session user run_id started)) u = (r, t)"
    using assms(1) unfolding run_turn_def
    by (cases "new_uuid sv s") (auto simp: new_uuid_def uuid_hex_def andthen_def ret_def split: prod.splits)
  have eu: "effects u = effects s"
    using u by (rule same_outcome [where obs = effects and m = "new_uuid sv", rotated]) (intro frame_intros, simp)
  from rest obtain started where
    rest: "andthen (check_guardrail sv (oc_guardrail oc) message ''INPUT'') (\<lambda>chk.
       if gd_blocked chk
       then
         andthen (write_audit_event sv (oc_tenant oc) ''guardrail.input_blocked'' (oc_agent oc)
                    ''agent-runtime'' ''guardrail_check:INPUT'' (oc_agent oc) ''denied'' []
                    [(''reason'', reason_value (gd_reason chk))])
           (\<lambda>_. result_of sv started blocked_response_text session run_id False 0 0 None None)
       else
         admitted_turn sv oc ids
           (if truthy (gd_sanitised chk) then get_or [] (gd_sanitised chk) else message)
           session user run_id started) u = (r, t)"
    by (auto simp: perf_us_def reads_def andthen_def)
  then show ?thesis
  proof (cases rule: andthen_cases)
    case (stop e)
    have "effects t = effects u"
      using stop(1) by (rule same_outcome [where obs = effects and
          m = "check_guardrail sv (oc_guardrail oc) message ''INPUT''", rotated]) (intro frame_intros)
    with eu assms(2) show ?thesis by simp
  next
    case (step chk v)
    have ev: "effects v = effects u"
      using step(1) by (rule same_outcome [where obs = effects and
          m = "check_guardrail sv (oc_guardrail oc) message ''INPUT''", rotated]) (intro frame_intros)
    have "\<not> gd_blocked chk"
    proof
      assume "gd_blocked chk"
      with step(2) have "effects t = effects v"
        by simp (erule same_outcome [where obs = effects, rotated], intro frame_intros; simp add: effects_def)
      with ev eu assms(2) show False by simp
    qed
    with check_guardrail_enabled_pass [OF assms(3) step(1)] show ?thesis by blast
  qed
qed

section \<open>What a resume may do\<close>

lemma resume_refused_frames [frame_intros]:
  "stays_in (same rt_invocations) (resume_refused sv oc a b c d e)"
  "stays_in (same rt_llm_calls) (resume_refused sv oc a b c d e)"
  unfolding resume_refused_def by (intro frame_intros; simp)+

lemma resume_granted_reviews: "stays_in (same rt_reviews) (resume_granted sv oc a b c d)"
  unfolding resume_granted_def by (intro frame_intros; simp)

lemma get_decision_Inr:
  assumes "get_decision sv am rid s = (Inr ad, t)"
  shows "rt_reviews t = rt_reviews s \<and>
         (\<exists>now. ad = decision_of now (am_timeout_hours am) rid (rt_reviews s (am_tenant am, rid)))"
  using assms by (auto simp: get_decision_def now_us_def on_table_def prog_simps Let_def
      split: prod.splits sum.splits if_splits)

lemma try_claim_Inr:
  assumes "try_claim_resume sv am rid s = (Inr True, t)"
  shows "\<exists>now. claim_row (At now) (am_tenant am) rid (rt_reviews s) = (True, rt_reviews t)"
  using assms by (auto simp: try_claim_resume_def now_us_def on_table_def prog_simps Let_def
      split: prod.splits if_splits)

lemma claim_row_True:
  "claim_row now tenant rid tab = (True, tab') \<Longrightarrow> claimable (tab (tenant, rid)) \<and> \<not> claimable (tab' (tenant, rid))"
  by (auto simp: claim_row_def claimable_def split: if_splits)

lemma decision_of_granted:
  assumes "ad_status (decision_of now h rid item) \<notin> {''pending'', ''not_found'', ''rejected'', ''timeout''}"
  shows "\<exists>r st. item = Some r \<and> rv_status r = Some st \<and> st \<notin> {''pending'', ''rejected''}"
  using assms by (auto simp: decision_of_def Let_def get_or_def split: option.splits if_splits)

lemma context_state:
  "context_dict sv text s = (r, t) \<Longrightarrow> t = s" "context_session d s = (q, t) \<Longrightarrow> t = s"
  using stays_inD [OF context_quiet(2) [where obs = "\<lambda>s. s"]]
    stays_inD [OF context_quiet(3) [where obs = "\<lambda>s. s"]]
  by (metis same_def)+

lemma perf_us_run: "perf_us sv s = (Inr (sv_perf sv (rt_world s)), s)"
  by (simp add: perf_us_def reads_def)

lemma new_uuid_total: "\<exists>h w. new_uuid sv s = (Inr h, s\<lparr>rt_world := w\<rparr>)"
  by (auto simp: new_uuid_def uuid_hex_def andthen_def ret_def split: prod.splits)

definition turn_logs :: "'w runtime \<Rightarrow> (string \<times> string) list \<times> llm_request list" where
  "turn_logs s = (rt_invocations s, rt_llm_calls s)"

lemma turn_logs_free [simp]: "world_free turn_logs" "turn_logs (s\<lparr>rt_world := w\<rparr>) = turn_logs s"
  by (simp_all add: world_free_def turn_logs_def)

lemma turn_logs_same:
  "stays_in (same rt_invocations) m \<Longrightarrow> stays_in (same rt_llm_calls) m \<Longrightarrow> stays_in (same turn_logs) m"
  by (simp add: stays_in_def same_def turn_logs_def)

lemma turn_logs_kept: "m s = (r, t) \<Longrightarrow> stays_in (same turn_logs) m \<Longrightarrow> turn_logs t = turn_logs s"
  by (metis same_def stays_inD)

lemma claim_and_resume_cases:
  assumes "claim_and_resume sv oc rid status d session run_id started s = (r, t)"
  obtains (quiet) "turn_logs t = turn_logs s"
  | (granted) now where "claim_row (At now) (am_tenant (oc_approval oc)) rid (rt_reviews s) = (True, rt_reviews t)"
      "status \<notin> {''rejected'', ''timeout''}"
  using assms unfolding claim_and_resume_def
proof (cases rule: andthen_cases)
  case (stop e)
  from turn_logs_kept [OF stop(1) turn_logs_same [OF claim_frames]] quiet show ?thesis by simp
next
  case (step claimed w)
  note lw = turn_logs_kept [OF step(1) turn_logs_same [OF claim_frames]]
  show ?thesis
  proof (cases "claimed \<and> status \<notin> {''rejected'', ''timeout''}")
    case True
    with step(2) have g: "resume_granted sv oc rid d run_id started w = (r, t)" by simp
    then have "rt_reviews t = rt_reviews w" by (metis resume_granted_reviews same_outcome)
    with try_claim_Inr [of sv "oc_approval oc" rid s w] step(1) True granted show ?thesis by auto
  next
    case False
    then have "turn_logs t = turn_logs w"
      using step(2)
      by (auto split: if_splits elim!: turn_logs_kept
          intro: turn_logs_same [OF resume_refused_frames] result_quiet)
    with lw quiet show ?thesis by simp
  qed
qed

text \<open>
  A resume either leaves the Lambda and model logs as they were, or it has read a decided,
  unrejected review that nobody had claimed, claimed it, and left it claimed.
\<close>

lemma resume_trace:
  assumes "resume_after_approval sv oc rid s = (r, t)"
  obtains (quiet) "turn_logs t = turn_logs s"
  | (granted) now ts where
      "ad_status (decision_of now (am_timeout_hours (oc_approval oc)) rid
         (rt_reviews s (am_tenant (oc_approval oc), rid))) \<notin> {''pending'', ''not_found'', ''rejected'', ''timeout''}"
      "claim_row (At ts) (am_tenant (oc_approval oc)) rid (rt_reviews s) = (True, rt_reviews t)"
proof -
  let ?k = "(am_tenant (oc_approval oc), rid)"
  obtain run_id x where u: "new_uuid sv s = (Inr run_id, s\<lparr>rt_world := x\<rparr>)"
    using new_uuid_total [of sv s] by blast
  let ?started = "sv_perf sv (rt_world (s\<lparr>rt_world := x\<rparr>))"
  from assms u have "andthen (get_decision sv (oc_approval oc) rid) (\<lambda>decision.
       if ad_status decision \<in> {''pending'', ''not_found''}
       then result_of sv ?started approval_still_pending_message [] run_id True 0 0
              (Some rid) (Some (ad_status decision))
       else
         andthen (context_dict sv (ad_context decision)) (\<lambda>d.
         andthen (context_session d) (\<lambda>session.
           claim_and_resume sv oc rid (ad_status decision) d session run_id ?started))) (s\<lparr>rt_world := x\<rparr>) = (r, t)"
    by (simp add: resume_after_approval_def andthen_Inr [where m = "new_uuid sv", OF u]
        andthen_Inr [where m = "perf_us sv", OF perf_us_run])
  then show ?thesis
  proof (cases rule: andthen_cases)
    case (stop e)
    from turn_logs_kept [OF stop(1) decision_frames] quiet show ?thesis by simp
  next
    case (step ad v)
    have lv: "turn_logs v = turn_logs s" using turn_logs_kept [OF step(1) decision_frames] by simp
    from get_decision_Inr [OF step(1)] obtain now where rv: "rt_reviews v = rt_reviews s"
      and ad: "ad = decision_of now (am_timeout_hours (oc_approval oc)) rid (rt_reviews s ?k)" by auto
    show ?thesis
    proof (cases "ad_status ad \<in> {''pending'', ''not_found''}")
      case True
      with step(2) have "turn_logs t = turn_logs v"
        by (auto simp: result_of_def perf_us_def reads_def ret_def andthen_def)
      with lv quiet show ?thesis by simp
    next
      case False
      from step(2) False have "t = v \<or> (\<exists>d session.
          claim_and_resume sv oc rid (ad_status ad) d session run_id ?started v = (r, t))"
        by (auto elim!: andthen_cases dest: context_state)
      then show ?thesis
      proof (elim disjE exE)
        assume "t = v"
        with lv quiet show ?thesis by simp
      next
        fix d session
        assume "claim_and_resume sv oc rid (ad_status ad) d session run_id ?started v = (r, t)"
        then show ?thesis
        proof (cases rule: claim_and_resume_cases)
          case quiet
          with lv that(1) show ?thesis by simp
        next
          case granted
          with False ad rv that(2) show ?thesis by auto
        qed
      qed
    qed
  qed
qed

text \<open>A claimed review is never executed again, whatever happened to its status meanwhile.\<close>

lemma resume_claimed_quiet:
  assumes "resume_after_approval sv oc rid s = (r, t)"
    and "\<not> claimable (rt_reviews s (am_tenant (oc_approval oc), rid))"
  shows "turn_logs t = turn_logs s"
  using assms(1)
proof (cases rule: resume_trace)
  case (granted now ts)
  with assms(2) claim_row_True [OF granted(2)] show ?thesis by simp
qed

text \<open>What a resume that ran something had read.\<close>

lemma resume_ran:
  assumes "resume_after_approval sv oc rid s = (r, t)" and "turn_logs t \<noteq> turn_logs s"
  shows "\<exists>row st. rt_reviews s (am_tenant (oc_approval oc), rid) = Some row \<and> rv_status row = Some st
     \<and> st \<notin> {''pending'', ''rejected''} \<and> claimable (Some row)
     \<and> \<not> claimable (rt_reviews t (am_tenant (oc_approval oc), rid))"
  using assms(1)
proof (cases rule: resume_trace)
  case quiet
  with assms(2) show ?thesis by simp
next
  case (granted now ts)
  with decision_of_granted [OF granted(1)] claim_row_True [OF granted(2)] show ?thesis by auto
qed

section \<open>A paused turn is persisted and read back\<close>

lemma read_call_value: "read_call (call_value c) s = (Inr c, s)"
  by (cases c) (auto simp: read_call_def call_value_def as_dict_def as_opt_text_def as_text_def need_def want_def
      ret_def andthen_def split: option.splits)

lemma each_read_call: "each read_call (map call_value cs) s = (Inr cs, s)"
  by (induction cs) (simp_all add: andthen_def ret_def read_call_value)

lemma json_ok_opt_value [simp]: "json_ok (opt_value x)"
  by (simp add: opt_value_def split: option.splits)

lemma json_ok_call_value [simp]: "json_ok (call_value c)"
  by (simp add: call_value_def split: option.splits)

definition context_items :: "paused_turn \<Rightarrow> (string \<times> pyval) list" where
  "context_items p =
     [(''session_id'', PStr (pt_session p)), (''user_id'', opt_value (pt_user p)),
      (''effective_message'', PStr (pt_message p)), (''initial_messages'', PList (pt_initial p)),
      (''assistant_content'', PStr (pt_content p)), (''tool_calls'', PList (map call_value (pt_calls p))),
      (''approved_call_id'', opt_value (pt_approved p)), (''tool_id'', PStr (pt_tool p))]"

lemma resume_context_items: "resume_context p = json_dumps (PDict (context_items p))"
  by (simp add: resume_context_def context_items_def)

lemma read_paused_items: "read_paused (context_items p) s = (Inr p, s)"
  by (cases p) (auto simp: read_paused_def context_items_def context_session_def context_tool_def want_def
      as_text_def as_opt_text_def as_list_def opt_value_def andthen_def ret_def each_read_call split: option.splits)

lemma context_dict_resume_context:
  assumes "list_all json_ok (pt_initial p)"
  shows "context_dict sv (Some (resume_context p)) s = (Inr (context_items p), s)"
proof -
  have "json_ok (PDict (context_items p))"
    using assms by (simp add: context_items_def list_all_iff)
  then have "json_loads (resume_context p) = Some (PDict (context_items p))"
    unfolding resume_context_items by (rule json_loads_dumps)
  moreover have "resume_context p \<noteq> []" by (simp add: resume_context_def)
  ultimately show ?thesis by (simp add: context_dict_def truthy_def get_or_def as_dict_def ret_def)
qed

lemma build_messages_json_ok: "list_all json_ok (snd (build_messages ctx))"
  by (auto simp: build_messages_def message_of_def list_all_iff)

text \<open>The row a paused turn leaves.\<close>

definition persisted :: "orchestrator \<Rightarrow> string \<Rightarrow> paused_turn \<Rightarrow> 'w runtime \<Rightarrow> bool" where
  "persisted oc rid p s \<longleftrightarrow>
     (\<exists>row. rt_reviews s (am_tenant (oc_approval oc), rid) = Some row \<and> rv_status row = Some ''pending''
        \<and> rv_kind row = Some ''tool_approval'' \<and> rv_tool row = Some (pt_tool p)
        \<and> rv_context row = Some (resume_context p) \<and> claimable (Some row))"

lemma request_approval_Inr:
  assumes "request_approval sv am tool run_id session context s = (Inr rid, t)"
  shows "\<exists>row. rt_reviews t (am_tenant am, rid) = Some row \<and> rv_status row = Some ''pending''
        \<and> rv_kind row = Some ''tool_approval'' \<and> rv_tool row = Some tool
        \<and> rv_context row = Some context \<and> claimable (Some row)"
proof -
  have keep: "notify sv topic subject body u = (q, v) \<Longrightarrow> rt_reviews v = rt_reviews u" for topic subject body q u v
  proof (erule same_outcome [rotated])
    show "stays_in (same rt_reviews) (notify sv topic subject body)"
      unfolding notify_def by (intro frame_intros; simp)
  qed
  from assms show ?thesis
    by (auto simp: request_approval_def Let_def put_review_def on_table_def modifies_def ret_def claimable_def
        dest!: keep elim!: andthen_InrE split: prod.splits if_splits)
qed

end
