(* ===== verification/TurnRules.thy ===== *)
theory TurnRules
  imports Orchestrator
begin

text \<open>
  What a turn and a resume of orchestrator.py do, traced back to the calls of the model's answer:
  which calls reach Lambda, what a paused turn holds, and that a resume carries exactly that turn on.
\<close>

section \<open>The calls of a turn are the model's\<close>

lemma complete_run:
  assumes "complete sv lc ms ts s = (r, t)"
  obtains rq w where "rt_llm_calls t = rt_llm_calls s @ [rq]" and "rq_messages rq = full_messages lc ms"
    and "rt_invocations t = rt_invocations s"
    and "\<And>lr. r = Inr lr \<Longrightarrow> \<exists>reply w'. sv_llm sv rq w = (Inr reply, w') \<and> lr_tool_calls lr = rp_tool_calls reply
           \<and> lr_content lr = get_or [] (rp_content reply)"
proof -
  let ?rq = "\<lparr>rq_model = lc_model lc, rq_messages = full_messages lc ms, rq_max_tokens = lc_max_tokens lc,
    rq_temperature = lc_temperature lc, rq_tools = (if ts = [] then None else Some (PList ts)), rq_fallbacks = lc_fallbacks lc\<rparr>"
  have run: "andthen (external (sv_llm sv ?rq)) (\<lambda>reply.
           ret \<lparr>lr_content = get_or [] (rp_content reply), lr_tool_calls = rp_tool_calls reply,
                lr_cost = rp_cost reply, lr_input_tokens = rp_input_tokens reply,
                lr_output_tokens = rp_output_tokens reply\<rparr>) (s\<lparr>rt_llm_calls := rt_llm_calls s @ [?rq]\<rparr>) = (r, t)"
    using assms by (simp add: complete_def Let_def andthen_def modifies_def)
  show ?thesis
    by (rule that [of ?rq "rt_world s"])
      (use run in \<open>auto simp: andthen_def external_def ret_def split: prod.splits sum.splits\<close>)
qed

text \<open>The cleared calls of a batch, in its order, are what went to Lambda.\<close>

definition ran_cleared ::
  "'w services \<Rightarrow> executor \<Rightarrow> string option \<Rightarrow> tool_call list \<Rightarrow> 'w runtime \<Rightarrow> 'w runtime \<Rightarrow> bool" where
  "ran_cleared sv ex pre calls s t \<longleftrightarrow>
     (\<exists>ds. rt_invocations t = rt_invocations s @ map (invocation_of sv ex) ds \<and> subseq ds calls \<and>
           list_all (cleared ex pre) ds)"

lemma ran_cleared_same: "rt_invocations t = rt_invocations s \<Longrightarrow> ran_cleared sv ex pre calls s t"
  unfolding ran_cleared_def by (rule exI [of _ "[]"]) simp

lemma ran_cleared_step:
  "ran_cleared sv ex pre calls s u \<Longrightarrow> rt_invocations t = rt_invocations u \<Longrightarrow> ran_cleared sv ex pre calls s t"
  by (simp add: ran_cleared_def)

lemma execute_ran: "execute sv ex pre calls s = (r, t) \<Longrightarrow> ran_cleared sv ex pre calls s t"
  using execute_log by (fastforce simp: ran_cleared_def list_all_iff)

lemma execute_or_pause_ran: "execute_or_pause sv ex calls s = (r, t) \<Longrightarrow> ran_cleared sv ex None calls s t"
  unfolding execute_or_pause_def catching_def andthen_def ret_def raising_def
  by (auto split: prod.splits sum.splits pyexn.splits dest: execute_ran)

lemma invocations_kept: "m s = (r, t) \<Longrightarrow> stays_in (same rt_invocations) m \<Longrightarrow> rt_invocations t = rt_invocations s"
  by (metis same_outcome)

lemma after_answer_ran:
  assumes "after_answer sv oc lr initial message session user run_id started s = (r, t)"
  shows "ran_cleared sv (oc_tools oc) None (lr_tool_calls lr) s t"
proof (cases "lr_tool_calls lr = []")
  case True
  with assms have "rt_invocations t = rt_invocations s"
    unfolding after_answer_def Let_def by simp (erule invocations_kept, intro frame_intros)
  then show ?thesis by (rule ran_cleared_same)
next
  case False
  with assms show ?thesis
    unfolding after_answer_def Let_def if_not_P [OF False]
  proof (cases rule: andthen_cases)
    case (stop e)
    then show ?thesis by (blast intro: execute_or_pause_ran)
  next
    case (step out u)
    have "rt_invocations t = rt_invocations u"
      using step(2) by (rule invocations_kept) (intro frame_intros)
    with execute_or_pause_ran [OF step(1)] show ?thesis by (rule ran_cleared_step)
  qed
qed

lemma after_answer_llm:
  assumes "after_answer sv oc lr initial message session user run_id started s = (r, t)"
  shows "\<exists>more. rt_llm_calls t = rt_llm_calls s @ more"
proof -
  have pause: "stays_in (adds rt_llm_calls (\<lambda>_. True)) (execute_or_pause sv (oc_tools oc) cs)" for cs
    by (rule execute_or_pause_frame [OF adds_frame.frame_axioms]) (rule adds_same, intro frame_intros)
  have "stays_in (adds rt_llm_calls (\<lambda>_. True))
           (after_answer sv oc lr initial message session user run_id started)"
    unfolding after_answer_def Let_def
    by (intro adds_intros pause complete_adds) (rule TrueI | rule adds_same, intro frame_intros)+
  from stays_inD [OF this assms] show ?thesis by (auto simp: adds_def)
qed

text \<open>What a turn sent to Lambda, against the answer of its first model call.\<close>

definition ran_reply :: "'w services \<Rightarrow> orchestrator \<Rightarrow> 'w runtime \<Rightarrow> 'w runtime \<Rightarrow> bool" where
  "ran_reply sv oc s t \<longleftrightarrow>
     rt_invocations t = rt_invocations s \<or>
     (\<exists>rq reply w w' more. rt_llm_calls t = rt_llm_calls s @ rq # more \<and> sv_llm sv rq w = (Inr reply, w') \<and>
        ran_cleared sv (oc_tools oc) None (rp_tool_calls reply) s t)"

lemma admitted_turn_ran:
  assumes "admitted_turn sv oc ids message session user run_id started s = (r, t)"
  shows "ran_reply sv oc s t"
proof (rule ccontr)
  assume no: "\<not> ran_reply sv oc s t"
  then have moved: "rt_invocations t \<noteq> rt_invocations s" by (simp add: ran_reply_def)
  let ?after = "\<lambda>initial lr. after_answer sv oc lr initial message session user run_id started"
  have model: "ran_reply sv oc s t"
    if u: "turn_logs u = turn_logs s" and "andthen (complete sv (oc_llm oc) initial ts) (\<lambda>lr.
         andthen (record_llm_cost sv (oc_tenant oc) (oc_agent oc) (lr_cost lr)) (\<lambda>_. ?after initial lr)) u = (r, t)"
    for u initial ts
    using that(2)
  proof (cases rule: andthen_cases)
    case (stop e)
    have "rt_invocations t = rt_invocations u" using stop(1) by (rule invocations_kept) (intro frame_intros)
    with u moved show ?thesis by (simp add: turn_logs_def)
  next
    case (step lr v)
    from complete_run [OF step(1)] obtain rq w reply w' where q: "rt_llm_calls v = rt_llm_calls u @ [rq]"
      "rt_invocations v = rt_invocations u" "sv_llm sv rq w = (Inr reply, w')" "lr_tool_calls lr = rp_tool_calls reply"
      by metis
    from step(2) show ?thesis
    proof (cases rule: andthen_cases)
      case (stop e)
      have "rt_invocations t = rt_invocations v" using stop(1) by (rule invocations_kept) (intro frame_intros)
      with q u moved show ?thesis by (simp add: turn_logs_def)
    next
      case (step x y)
      have y: "rt_invocations y = rt_invocations v" "rt_llm_calls y = rt_llm_calls v"
        using step(1) by (rule same_outcome [rotated], intro frame_intros)+
      from after_answer_llm [OF step(2)] after_answer_ran [OF step(2)] y q u show ?thesis
        by (auto simp: ran_reply_def ran_cleared_def turn_logs_def)
    qed
  qed
  from assms show False
    unfolding admitted_turn_def
  proof (cases rule: andthen_cases)
    case (stop e)
    have "rt_invocations t = rt_invocations s" using stop(1) by (rule invocations_kept) (intro frame_intros)
    with moved show False by simp
  next
    case (step memory u)
    have u: "turn_logs u = turn_logs s" using step(1) by (rule turn_logs_kept) (intro turn_logs_same frame_intros)
    from step(2) show False
    proof (cases rule: andthen_cases)
      case (stop e)
      have "rt_invocations t = rt_invocations u" using stop(1) by (rule invocations_kept) (intro frame_intros)
      with u moved show False by (simp add: turn_logs_def)
    next
      case (step rag v)
      have "turn_logs v = turn_logs u" using step(1) by (rule turn_logs_kept) (intro turn_logs_same frame_intros)
      with u have v: "turn_logs v = turn_logs s" by simp
      show False
      proof (cases "pre_check (oc_hitl oc) message")
        case None
        with step(2) have "ran_reply sv oc s t" by (auto simp: Let_def intro: model [OF v])
        with no show False by simp
      next
        case (Some condition)
        with step(2) have "rt_invocations t = rt_invocations v"
          by (simp add: Let_def) (erule invocations_kept, intro frame_intros)
        with v moved show False by (simp add: turn_logs_def)
      qed
    qed
  qed
qed

lemma run_turn_ran:
  assumes "run_turn sv oc ids message session user s = (r, t)"
  shows "ran_reply sv oc s t"
proof -
  obtain run_id x where u: "new_uuid sv s = (Inr run_id, s\<lparr>rt_world := x\<rparr>)"
    using new_uuid_total [of sv s] by blast
  let ?u = "s\<lparr>rt_world := x\<rparr>" and ?started = "sv_perf sv (rt_world (s\<lparr>rt_world := x\<rparr>))"
  from assms u have "andthen (check_guardrail sv (oc_guardrail oc) message ''INPUT'') (\<lambda>chk.
       if gd_blocked chk
       then
         andthen (write_audit_event sv (oc_tenant oc) ''guardrail.input_blocked'' (oc_agent oc)
                    ''agent-runtime'' ''guardrail_check:INPUT'' (oc_agent oc) ''denied'' []
                    [(''reason'', reason_value (gd_reason chk))])
           (\<lambda>_. result_of sv ?started blocked_response_text session run_id False 0 0 None None)
       else
         admitted_turn sv oc ids
           (if truthy (gd_sanitised chk) then get_or [] (gd_sanitised chk) else message)
           session user run_id ?started) ?u = (r, t)"
    by (simp add: run_turn_def andthen_Inr [where m = "new_uuid sv", OF u]
        andthen_Inr [where m = "perf_us sv", OF perf_us_run])
  then show ?thesis
  proof (cases rule: andthen_cases)
    case (stop e)
    have "rt_invocations t = rt_invocations ?u" using stop(1) by (rule invocations_kept) (intro frame_intros)
    then show ?thesis by (simp add: ran_reply_def)
  next
    case (step chk v)
    have "turn_logs v = turn_logs ?u" using step(1) by (rule turn_logs_kept) (intro turn_logs_same frame_intros)
    then have v: "turn_logs v = turn_logs s" by simp
    show ?thesis
    proof (cases "gd_blocked chk")
      case True
      with step(2) have "rt_invocations t = rt_invocations v"
        by simp (erule invocations_kept, intro frame_intros; simp)
      with v show ?thesis by (simp add: ran_reply_def turn_logs_def)
    next
      case False
      with step(2) have "ran_reply sv oc v t" by simp (rule admitted_turn_ran)
      with v show ?thesis by (simp add: ran_reply_def ran_cleared_def turn_logs_def)
    qed
  qed
qed

section \<open>Resuming carries the paused turn on\<close>

text \<open>
  What a resume may do that continues \<open>p\<close>: its cleared calls go to Lambda, and at most one model
  call follows, on the messages of the paused turn, its answer, its calls and their results.
\<close>

definition carries_on :: "'w services \<Rightarrow> orchestrator \<Rightarrow> paused_turn \<Rightarrow> 'w runtime \<Rightarrow> 'w runtime \<Rightarrow> bool" where
  "carries_on sv oc p s t \<longleftrightarrow>
     ran_cleared sv (oc_tools oc) (pt_approved p) (pt_calls p) s t \<and>
     (rt_llm_calls t = rt_llm_calls s \<or>
      (\<exists>rq results. rt_llm_calls t = rt_llm_calls s @ [rq] \<and>
         rq_messages rq = full_messages (oc_llm oc) (follow_up (pt_initial p) (pt_content p) (pt_calls p) results)))"

lemma carries_on_quiet: "turn_logs t = turn_logs s \<Longrightarrow> carries_on sv oc p s t"
  by (simp add: carries_on_def turn_logs_def ran_cleared_same)

lemma carries_on_from: "turn_logs u = turn_logs s \<Longrightarrow> carries_on sv oc p u t \<Longrightarrow> carries_on sv oc p s t"
  by (simp add: carries_on_def turn_logs_def ran_cleared_def)

lemma resume_granted_carries:
  assumes "resume_granted sv oc rid (context_items p) run_id started s = (r, t)"
  shows "carries_on sv oc p s t"
proof -
  have tool: "context_tool (context_items p) u = (Inr (pt_tool p), u)" for u :: "'a runtime"
    by (simp add: context_tool_def context_items_def want_def as_text_def ret_def)
  from assms have run: "andthen (write_audit_event sv (oc_tenant oc) ''human.approval.granted'' (oc_agent oc) ''agent-runtime''
                (''invoke:'' @ pt_tool p) (oc_agent oc) ''allowed'' [] []) (\<lambda>_.
     andthen (read_paused (context_items p)) (\<lambda>p.
     andthen (execute sv (oc_tools oc) (pt_approved p) (pt_calls p)) (\<lambda>results.
     andthen (complete sv (oc_llm oc) (follow_up (pt_initial p) (pt_content p) (pt_calls p) results) []) (\<lambda>final.
     andthen (record_llm_cost sv (oc_tenant oc) (oc_agent oc) (lr_cost final)) (\<lambda>_.
       finalize sv oc (lr_content final) (pt_session p) (pt_user p) (pt_message p) run_id started
         (get_or 0 (lr_input_tokens final)) (get_or 0 (lr_output_tokens final))
         (Some rid) (Some ''approved'')))))) s = (r, t)"
    by (simp add: resume_granted_def andthen_Inr [where m = "context_tool (context_items p)", OF tool])
  then show ?thesis
  proof (cases rule: andthen_cases)
    case (stop e)
    have "turn_logs t = turn_logs s" using stop(1) by (rule turn_logs_kept) (intro turn_logs_same frame_intros; simp)
    then show ?thesis by (rule carries_on_quiet)
  next
    case (step x u)
    have u: "turn_logs u = turn_logs s" using step(1) by (rule turn_logs_kept) (intro turn_logs_same frame_intros; simp)
    from step(2) [unfolded andthen_Inr [where m = "read_paused (context_items p)", OF read_paused_items]]
    have "carries_on sv oc p u t"
    proof (cases rule: andthen_cases)
      case (stop e)
      have "rt_llm_calls t = rt_llm_calls u" using stop(1) by (rule same_outcome [rotated]) (intro frame_intros)
      with execute_ran [OF stop(1)] show ?thesis by (simp add: carries_on_def)
    next
      case (step results v)
      have v: "rt_llm_calls v = rt_llm_calls u" using step(1) by (rule same_outcome [rotated]) (intro frame_intros)
      note ran = execute_ran [OF step(1)]
      from step(2) show ?thesis
      proof (cases rule: andthen_cases)
        case (stop e)
        from complete_run [OF stop(1)] v ran show ?thesis
          unfolding carries_on_def by (metis ran_cleared_step)
      next
        case (step final w)
        have "rt_llm_calls t = rt_llm_calls w" "rt_invocations t = rt_invocations w"
          using step(2) by (rule same_outcome [rotated], intro frame_intros)+
        with complete_run [OF step(1)] v ran show ?thesis
          unfolding carries_on_def by (metis ran_cleared_step)
      qed
    qed
    with u show ?thesis by (rule carries_on_from)
  qed
qed

lemma resume_carries_on:
  assumes "resume_after_approval sv oc rid s = (r, t)" and "list_all json_ok (pt_initial p)"
    and "rt_reviews s (am_tenant (oc_approval oc), rid) = Some row" and "rv_context row = Some (resume_context p)"
  shows "carries_on sv oc p s t"
proof -
  obtain run_id x where u: "new_uuid sv s = (Inr run_id, s\<lparr>rt_world := x\<rparr>)"
    using new_uuid_total [of sv s] by blast
  let ?started = "sv_perf sv (rt_world (s\<lparr>rt_world := x\<rparr>))"
  from assms(1) u have "andthen (get_decision sv (oc_approval oc) rid) (\<lambda>decision.
       if ad_status decision \<in> {''pending'', ''not_found''}
       then result_of sv ?started approval_still_pending_message [] run_id True 0 0
              (Some rid) (Some (ad_status decision))
       else
         andthen (context_dict sv (ad_context decision)) (\<lambda>d.
         andthen (context_session d) (\<lambda>session.
           claim_and_resume sv oc rid (ad_status decision) d session run_id ?started))) (s\<lparr>rt_world := x\<rparr>) = (r, t)"
    by (simp add: resume_after_approval_def andthen_Inr [where m = "new_uuid sv", OF u]
        andthen_Inr [where m = "perf_us sv", OF perf_us_run])
  then show ?thesis
  proof (cases rule: andthen_cases)
    case (stop e)
    from turn_logs_kept [OF stop(1) decision_frames] show ?thesis by (intro carries_on_quiet) simp
  next
    case (step ad v)
    have v: "turn_logs v = turn_logs s" using turn_logs_kept [OF step(1) decision_frames] by simp
    from get_decision_Inr [OF step(1)] assms(3,4) have ctx: "ad_context ad = Some (resume_context p)"
      by (auto simp: decision_of_def Let_def)
    note parsed = context_dict_resume_context [OF assms(2), of sv v]
    have session: "context_session (context_items p) v = (Inr (pt_session p), v)"
      by (simp add: context_session_def context_items_def want_def as_text_def ret_def)
    show ?thesis
    proof (cases "ad_status ad \<in> {''pending'', ''not_found''}")
      case True
      with step(2) have "turn_logs t = turn_logs v"
        by (auto simp: result_of_def perf_us_def reads_def ret_def andthen_def)
      with v show ?thesis by (intro carries_on_quiet) simp
    next
      case False
      with step(2) ctx have "claim_and_resume sv oc rid (ad_status ad) (context_items p) (pt_session p) run_id ?started v = (r, t)"
        by (simp add: andthen_Inr [where m = "context_dict sv (Some (resume_context p))", OF parsed]
          andthen_Inr [where m = "context_session (context_items p)", OF session])
      then have "carries_on sv oc p v t"
        unfolding claim_and_resume_def
      proof (cases rule: andthen_cases)
        case (stop e)
        have "turn_logs t = turn_logs v" using stop(1) by (rule turn_logs_kept) (intro turn_logs_same frame_intros)
        then show ?thesis by (rule carries_on_quiet)
      next
        case (step claimed w)
        have w: "turn_logs w = turn_logs v" using step(1) by (rule turn_logs_kept) (intro turn_logs_same frame_intros)
        show ?thesis
        proof (cases "claimed \<and> ad_status ad \<notin> {''rejected'', ''timeout''}")
          case True
          with step(2) have "carries_on sv oc p w t" by (auto dest: resume_granted_carries)
          with w show ?thesis by (rule carries_on_from)
        next
          case False
          with step(2) have "turn_logs t = turn_logs w"
            by (auto split: if_splits elim!: turn_logs_kept
                intro: turn_logs_same [OF resume_refused_frames] result_quiet)
          with w show ?thesis by (intro carries_on_quiet) simp
        qed
      qed
      with v show ?thesis by (rule carries_on_from)
    qed
  qed
qed

section \<open>What a paused turn holds\<close>

lemma matching_call_find: "matching_call tool calls = find (\<lambda>c. tc_name c = tool) calls"
  by (induction calls) simp_all

text \<open>
  The paused turn \<open>p\<close> of a run from \<open>s\<close> to \<open>t\<close> on the admitted message \<open>m\<close>: the caller's session
  and user, the messages of the one model call that was made, the content and the calls of the
  model's answer, and the id of the first call of the tool that waits.
\<close>

definition holds_turn ::
  "'w services \<Rightarrow> orchestrator \<Rightarrow> string \<Rightarrow> string \<Rightarrow> string option \<Rightarrow> paused_turn \<Rightarrow> 'w runtime \<Rightarrow> 'w runtime \<Rightarrow> bool" where
  "holds_turn sv oc m session user p s t \<longleftrightarrow>
     pt_session p = session \<and> pt_user p = user \<and> pt_message p = m \<and>
     list_all json_ok (pt_initial p) \<and> last (pt_initial p) = message_of ''user'' m \<and>
     pt_approved p = (case find (\<lambda>c. tc_name c = pt_tool p) (pt_calls p) of None \<Rightarrow> None | Some c \<Rightarrow> tc_id c) \<and>
     (\<exists>rq w reply w'. rt_llm_calls t = rt_llm_calls s @ [rq] \<and>
        rq_messages rq = full_messages (oc_llm oc) (pt_initial p) \<and> sv_llm sv rq w = (Inr reply, w') \<and>
        pt_content p = get_or [] (rp_content reply) \<and> pt_calls p = rp_tool_calls reply)"

lemma request_tool_approval_turn:
  assumes "request_tool_approval sv oc tool lr initial message session user run_id started tin tout s = (Inr res, t)"
  shows "\<exists>rid p. tr_review res = Some rid \<and> persisted oc rid p t
     \<and> pt_session p = session \<and> pt_user p = user \<and> pt_message p = message \<and> pt_initial p = initial
     \<and> pt_content p = lr_content lr \<and> pt_calls p = lr_tool_calls lr \<and> pt_tool p = tool
     \<and> pt_approved p = (case find (\<lambda>c. tc_name c = tool) (lr_tool_calls lr) of None \<Rightarrow> None | Some c \<Rightarrow> tc_id c)"
proof -
  let ?p = "\<lparr>pt_session = session, pt_user = user, pt_message = message, pt_initial = initial,
             pt_content = lr_content lr, pt_calls = lr_tool_calls lr,
             pt_approved = (case matching_call tool (lr_tool_calls lr) of None \<Rightarrow> None | Some c \<Rightarrow> tc_id c),
             pt_tool = tool\<rparr>"
  obtain rid u where r: "request_approval sv (oc_approval oc) tool run_id session (resume_context ?p) s = (Inr rid, u)"
    and "result_of sv started approval_pending_message session run_id True tin tout (Some rid) (Some ''pending'') u
           = (Inr res, t)"
    using assms by (auto simp: request_tool_approval_def Let_def elim!: andthen_InrE)
  then have "tr_review res = Some rid" "t = u"
    by (auto simp: result_of_def perf_us_def reads_def ret_def andthen_def)
  with request_approval_Inr [OF r] show ?thesis
    by (intro exI [of _ rid] exI [of _ ?p]) (auto simp: persisted_def matching_call_find)
qed

lemma result_of_review: "result_of sv a b c d e f g h i s = (Inr res, t) \<Longrightarrow> tr_review res = h"
  by (auto simp: result_of_def perf_us_def reads_def ret_def andthen_def)

lemma finalize_review: "finalize sv oc a b c d e f g h i j s = (Inr res, t) \<Longrightarrow> tr_review res = i"
  unfolding finalize_def by (elim andthen_InrE) (rule result_of_review)

lemma execute_or_pause_llm: "execute_or_pause sv ex calls s = (r, t) \<Longrightarrow> rt_llm_calls t = rt_llm_calls s"
  by (erule same_outcome [rotated]) (intro execute_or_pause_frame same_frame.frame_axioms frame_intros)

lemma after_answer_paused:
  assumes "after_answer sv oc lr initial message session user run_id started s = (Inr res, t)"
    and "tr_review res = Some rid"
  shows "\<exists>p. persisted oc rid p t \<and> pt_session p = session \<and> pt_user p = user \<and> pt_message p = message
     \<and> pt_initial p = initial \<and> pt_content p = lr_content lr \<and> pt_calls p = lr_tool_calls lr
     \<and> pt_approved p = (case find (\<lambda>c. tc_name c = pt_tool p) (pt_calls p) of None \<Rightarrow> None | Some c \<Rightarrow> tc_id c)
     \<and> rt_llm_calls t = rt_llm_calls s"
proof (cases "lr_tool_calls lr = []")
  case True
  with assms show ?thesis by (auto simp: after_answer_def Let_def dest: finalize_review)
next
  case False
  with assms(1) obtain out u where o: "execute_or_pause sv (oc_tools oc) (lr_tool_calls lr) s = (Inr out, u)"
    and rest: "(case out of
               Inl tool \<Rightarrow>
                 request_tool_approval sv oc tool lr initial message session user run_id started
                   (get_or 0 (lr_input_tokens lr)) (get_or 0 (lr_output_tokens lr))
             | Inr results \<Rightarrow>
                 andthen (complete sv (oc_llm oc)
                            (follow_up initial (lr_content lr) (lr_tool_calls lr) results) []) (\<lambda>final.
                 andthen (record_llm_cost sv (oc_tenant oc) (oc_agent oc) (lr_cost final)) (\<lambda>_.
                   finalize sv oc (lr_content final) session user message run_id started
                     (get_or 0 (lr_input_tokens lr) + get_or 0 (lr_input_tokens final))
                     (get_or 0 (lr_output_tokens lr) + get_or 0 (lr_output_tokens final))
                     None None))) u = (Inr res, t)"
    by (auto simp: after_answer_def Let_def elim!: andthen_InrE)
  show ?thesis
  proof (cases out)
    case (Inl tool)
    with rest have r: "request_tool_approval sv oc tool lr initial message session user run_id started
        (get_or 0 (lr_input_tokens lr)) (get_or 0 (lr_output_tokens lr)) u = (Inr res, t)" by simp
    then have "rt_llm_calls t = rt_llm_calls u" by (rule same_outcome [rotated]) (intro frame_intros)
    with execute_or_pause_llm [OF o] request_tool_approval_turn [OF r] assms(2) show ?thesis by auto
  next
    case (Inr results)
    with rest have "tr_review res = None" by (auto elim!: andthen_InrE dest: finalize_review)
    with assms(2) show ?thesis by simp
  qed
qed

lemma admitted_turn_paused:
  assumes "admitted_turn sv oc ids m session user run_id started s = (Inr res, t)" and "tr_review res = Some rid"
  shows "\<exists>p. persisted oc rid p t \<and> holds_turn sv oc m session user p s t"
proof -
  obtain memory u1 rag u2 where a: "load_memory sv (oc_memory oc) ids session user s = (Inr memory, u1)"
      "retrieve sv (oc_rag oc) m u1 = (Inr rag, u2)"
    and rest: "(let initial = snd (build_messages
             \<lparr>pc_system_prompt = oc_system_prompt oc, pc_user_message = m, pc_kb_content = rag,
              pc_tool_results = [], pc_session_history = memory\<rparr>)
       in case pre_check (oc_hitl oc) m of
            Some condition \<Rightarrow>
              andthen (create_review sv (oc_hitl oc) run_id (oc_agent oc) m session condition) (\<lambda>_.
                result_of sv started hitl_pending_message session run_id True 0 0 None None)
          | None \<Rightarrow>
              andthen (complete sv (oc_llm oc) initial (get_definitions (oc_tools oc))) (\<lambda>lr.
              andthen (record_llm_cost sv (oc_tenant oc) (oc_agent oc) (lr_cost lr)) (\<lambda>_.
                after_answer sv oc lr initial m session user run_id started))) u2 = (Inr res, t)"
    using assms(1) unfolding admitted_turn_def by (elim andthen_InrE)
  let ?initial = "snd (build_messages
             \<lparr>pc_system_prompt = oc_system_prompt oc, pc_user_message = m, pc_kb_content = rag,
              pc_tool_results = [], pc_session_history = memory\<rparr>)"
  have "pre_check (oc_hitl oc) m = None"
    using rest assms(2) by (auto simp: Let_def elim!: andthen_InrE split: option.splits dest!: result_of_review)
  with rest obtain lr v x y where b: "complete sv (oc_llm oc) ?initial (get_definitions (oc_tools oc)) u2 = (Inr lr, v)"
      "record_llm_cost sv (oc_tenant oc) (oc_agent oc) (lr_cost lr) v = (Inr x, y)"
      "after_answer sv oc lr ?initial m session user run_id started y = (Inr res, t)"
    by (auto simp: Let_def elim!: andthen_InrE)
  have llm: "rt_llm_calls u1 = rt_llm_calls s" "rt_llm_calls u2 = rt_llm_calls u1" "rt_llm_calls y = rt_llm_calls v"
    using a(1) a(2) b(2) by - (rule same_outcome [rotated], assumption, intro frame_intros)+
  from complete_run [OF b(1)] obtain rq w reply w' where q: "rt_llm_calls v = rt_llm_calls u2 @ [rq]"
      "rq_messages rq = full_messages (oc_llm oc) ?initial" "sv_llm sv rq w = (Inr reply, w')"
      "lr_tool_calls lr = rp_tool_calls reply" "lr_content lr = get_or [] (rp_content reply)"
    by metis
  from after_answer_paused [OF b(3) assms(2)] obtain p where p: "persisted oc rid p t" "pt_session p = session"
      "pt_user p = user" "pt_message p = m" "pt_initial p = ?initial" "pt_content p = lr_content lr"
      "pt_calls p = lr_tool_calls lr"
      "pt_approved p = (case find (\<lambda>c. tc_name c = pt_tool p) (pt_calls p) of None \<Rightarrow> None | Some c \<Rightarrow> tc_id c)"
      "rt_llm_calls t = rt_llm_calls y" by blast
  have "last (pt_initial p) = message_of ''user'' m" unfolding p(5) build_messages_last by simp
  moreover have "list_all json_ok (pt_initial p)" unfolding p(5) by (rule build_messages_json_ok)
  moreover have "rt_llm_calls t = rt_llm_calls s @ [rq]" using p(9) llm q(1) by simp
  ultimately have "holds_turn sv oc m session user p s t"
    unfolding holds_turn_def using p q by metis
  with p(1) show ?thesis by blast
qed

lemma run_turn_paused:
  assumes "run_turn sv oc ids message session user s = (Inr res, t)" and "tr_review res = Some rid"
  shows "\<exists>w chk u p. check_guardrail sv (oc_guardrail oc) message ''INPUT'' (s\<lparr>rt_world := w\<rparr>) = (Inr chk, u) \<and>
     \<not> gd_blocked chk \<and> persisted oc rid p t \<and>
     holds_turn sv oc (if truthy (gd_sanitised chk) then get_or [] (gd_sanitised chk) else message) session user p s t"
proof -
  obtain run_id x where u: "new_uuid sv s = (Inr run_id, s\<lparr>rt_world := x\<rparr>)"
    using new_uuid_total [of sv s] by blast
  let ?started = "sv_perf sv (rt_world (s\<lparr>rt_world := x\<rparr>))"
  from assms(1) u obtain chk v where c: "check_guardrail sv (oc_guardrail oc) message ''INPUT'' (s\<lparr>rt_world := x\<rparr>) = (Inr chk, v)"
    and rest: "(if gd_blocked chk
       then
         andthen (write_audit_event sv (oc_tenant oc) ''guardrail.input_blocked'' (oc_agent oc)
                    ''agent-runtime'' ''guardrail_check:INPUT'' (oc_agent oc) ''denied'' []
                    [(''reason'', reason_value (gd_reason chk))])
           (\<lambda>_. result_of sv ?started blocked_response_text session run_id False 0 0 None None)
       else
         admitted_turn sv oc ids
           (if truthy (gd_sanitised chk) then get_or [] (gd_sanitised chk) else message)
           session user run_id ?started) v = (Inr res, t)"
    by (auto simp: run_turn_def andthen_Inr [where m = "new_uuid sv", OF u]
        andthen_Inr [where m = "perf_us sv", OF perf_us_run] elim!: andthen_InrE)
  have nb: "\<not> gd_blocked chk"
    using rest assms(2) by (auto elim!: andthen_InrE dest!: result_of_review)
  have v: "rt_llm_calls v = rt_llm_calls s" using check_guardrail_raises_quiet [OF c] by simp
  from rest nb have "admitted_turn sv oc ids (if truthy (gd_sanitised chk) then get_or [] (gd_sanitised chk) else message)
           session user run_id ?started v = (Inr res, t)" by simp
  from admitted_turn_paused [OF this assms(2)] obtain p where "persisted oc rid p t"
    "holds_turn sv oc (if truthy (gd_sanitised chk) then get_or [] (gd_sanitised chk) else message) session user p v t"
    by blast
  with c nb v show ?thesis unfolding holds_turn_def by metis
qed

end
