(* ===== verification/ConfigDiff.thy ===== *)
theory ConfigDiff
  imports JsonRoundtrip
begin

text \<open>
  app/modules/registry/diff.py: the differences between two configurations, as the paths that
  changed, were added and were removed. A configuration is the JSON dict that
  \<open>model_dump(mode="json")\<close> gives. The three lists the code appends to are one list of entries
  here, in the order of the calls; each of the code's lists is the entries of one kind.
\<close>

section \<open>Equality of JSON values\<close>

text \<open>
  Python's \<open>==\<close>: numbers compare exactly across bool, int and float, dicts compare without
  order. A float is its \<open>repr\<close>: the digits and ".0" of a whole value below 1e16, and the shortest
  digits with a positive exponent from there on; the double these digits stand for is the nearest
  number of 53 bits, ties to even. NaN equals nothing.
\<close>

fun bit_length :: "nat \<Rightarrow> nat" where
  "bit_length n = (if n = 0 then 0 else Suc (bit_length (n div 2)))"

declare bit_length.simps [simp del]

definition nearest_double :: "nat \<Rightarrow> nat" where
  "nearest_double n =
     (let e = bit_length n - 53; q = n div 2 ^ e; r = 2 * (n mod 2 ^ e)
      in (if 2 ^ e < r \<or> (r = 2 ^ e \<and> odd q) then q + 1 else q) * 2 ^ e)"

text \<open>\<open>1.5e+20\<close>: the digits in front of and behind the point, and the exponent.\<close>

definition large_float :: "string \<Rightarrow> int option" where
  "large_float t =
     (let u = drop_minus t; m = takeWhile (\<lambda>c. c \<noteq> CHR ''e'') u; x = drop (length m) u;
          ip = takeWhile (\<lambda>c. c \<noteq> CHR ''.'') m; fp = drop (Suc (length ip)) m; e = digits_val (drop 2 x)
      in if starts_with ''e+'' x \<and> length fp \<le> e
         then let n = int (nearest_double (digits_val (ip @ fp) * 10 ^ (e - length fp)))
              in Some (if starts_with ''-'' t then - n else n)
         else None)"

definition whole_float :: "string \<Rightarrow> int option" where
  "whole_float t =
     (if ends_with ''.0'' t \<and> nat_literal (drop_minus (take (length t - 2) t))
      then Some (int_of_text (take (length t - 2) t)) else large_float t)"

definition is_nan :: "pyval \<Rightarrow> bool" where
  "is_nan v \<longleftrightarrow> v \<in> {PFloat ''nan'', PFloat ''NaN''}"

definition whole_number :: "pyval \<Rightarrow> int option" where
  "whole_number v =
     (case v of
        PBool b \<Rightarrow> Some (if b then 1 else 0)
      | PInt i \<Rightarrow> Some i
      | PFloat t \<Rightarrow> whole_float t
      | _ \<Rightarrow> None)"

definition scalar_eq :: "pyval \<Rightarrow> pyval \<Rightarrow> bool" where
  "scalar_eq v w =
     (case (whole_number v, whole_number w) of (Some i, Some j) \<Rightarrow> i = j | _ \<Rightarrow> v = w \<and> \<not> is_nan v)"

fun py_eq :: "pyval \<Rightarrow> pyval \<Rightarrow> bool" where
  "py_eq (PList xs) b = (case b of PList ys \<Rightarrow> list_all2 py_eq xs ys | _ \<Rightarrow> False)"
| "py_eq (PDict fa) b =
     (case b of
        PDict fb \<Rightarrow> length fa = length fb \<and>
                   list_all (\<lambda>(k, v). case map_of fb k of None \<Rightarrow> False | Some w \<Rightarrow> py_eq v w) fa
      | _ \<Rightarrow> False)"
| "py_eq a b = scalar_eq a b"

section \<open>The diff\<close>

datatype diff_entry =
    Changed string pyval pyval
  | Added string pyval
  | Removed string pyval

definition child_path :: "string \<Rightarrow> string \<Rightarrow> string" where
  "child_path path key = (if path \<noteq> [] then path @ ''.'' @ key else key)"

definition item_path :: "string \<Rightarrow> nat \<Rightarrow> string" where
  "item_path path i = path @ ''['' @ nat_text i @ '']''"

text \<open>\<open>sorted(set(from_val) | set(to_val))\<close>\<close>

definition key_union :: "(string \<times> 'a) list \<Rightarrow> (string \<times> 'b) list \<Rightarrow> string list" where
  "key_union fa fb = map fst (sort_items (map (\<lambda>k. (k, ())) (dedupe_from [] (map fst fa @ map fst fb))))"

fun is_dict_val :: "pyval \<Rightarrow> bool" where
  "is_dict_val (PDict _) = True"
| "is_dict_val _ = False"

fun tail_entries :: "(string \<Rightarrow> pyval \<Rightarrow> diff_entry) \<Rightarrow> string \<Rightarrow> nat \<Rightarrow> pyval list \<Rightarrow> diff_entry list" where
  "tail_entries mk path i [] = []"
| "tail_entries mk path i (x # xs) = mk (item_path path i) x # tail_entries mk path (Suc i) xs"

lemma map_of_size: "map_of kvs k = Some v \<Longrightarrow> size v < Suc (size_list (size_prod size size) kvs)"
  by (induction kvs) (auto split: if_splits)

lemma map_of_pyval_size: "map_of kvs k = Some v \<Longrightarrow> size v < size (PDict kvs)"
  by (induction kvs) (auto split: if_splits)

function (sequential) diff_value :: "string \<Rightarrow> pyval \<Rightarrow> pyval \<Rightarrow> diff_entry list"
  and diff_items :: "string \<Rightarrow> nat \<Rightarrow> pyval list \<Rightarrow> pyval list \<Rightarrow> diff_entry list" where
  "diff_value path (PDict fa) (PDict fb) =
     concat (map (\<lambda>k.
       case map_of fa k of
         None \<Rightarrow> (case map_of fb k of None \<Rightarrow> [] | Some w \<Rightarrow> [Added (child_path path k) w])
       | Some v \<Rightarrow>
           (case map_of fb k of
              None \<Rightarrow> [Removed (child_path path k) v]
            | Some w \<Rightarrow> diff_value (child_path path k) v w)) (key_union fa fb))"
| "diff_value path (PList xs) (PList ys) = diff_items path 0 xs ys"
| "diff_value path a b = (if py_eq a b then [] else [Changed path a b])"
| "diff_items path i (x # xs) (y # ys) =
     (if is_dict_val x \<and> is_dict_val y then diff_value (item_path path i) x y
      else if py_eq x y then [] else [Changed (item_path path i) x y]) @ diff_items path (Suc i) xs ys"
| "diff_items path i [] ys = tail_entries Added path i ys"
| "diff_items path i xs [] = tail_entries Removed path i xs"
  by pat_completeness auto

termination
proof (relation "measure (\<lambda>x. case x of Inl (_, a, _) \<Rightarrow> size a | Inr (_, _, xs, _) \<Rightarrow> size_list size xs)", goal_cases)
  case (2 path fa fb k v w)
  then show ?case using map_of_pyval_size [of fa k v] by simp
qed auto

definition compute_config_diff :: "pyval option \<Rightarrow> pyval \<Rightarrow> diff_entry list" where
  "compute_config_diff from_data to_data = diff_value [] (get_or (PDict []) from_data) to_data"

section \<open>No difference is equality\<close>

lemma set_key_union: "set (key_union fa fb) = fst ` set fa \<union> fst ` set fb"
  by (force simp: key_union_def set_dedupe_from image_iff)

lemma map_of_None_keys: "map_of kvs k = None \<longleftrightarrow> k \<notin> fst ` set kvs"
  by (simp add: map_of_eq_None_iff)

lemma same_keys:
  assumes "distinct (map fst fa)" and "distinct (map fst fb)" and "length fa = length fb"
    and "fst ` set fa \<subseteq> fst ` set fb"
  shows "fst ` set fa = fst ` set fb"
proof (rule card_subset_eq)
  have "card (set (map fst fa)) = length fa" "card (set (map fst fb)) = length fb"
    using assms(1,2) by (simp_all only: distinct_card length_map)
  with assms(3) show "card (fst ` set fa) = card (fst ` set fb)" by simp
qed (use assms(4) in simp_all)

lemma keys_length:
  assumes "distinct (map fst fa)" and "distinct (map fst fb)" and "fst ` set fa = fst ` set fb"
  shows "length fa = length fb"
proof -
  have "card (set (map fst fa)) = length fa" "card (set (map fst fb)) = length fb"
    using assms(1,2) by (simp_all only: distinct_card length_map)
  with assms(3) show ?thesis by simp
qed

lemma dict_eq_iff:
  assumes "distinct (map fst fa)" and "distinct (map fst fb)"
  shows "py_eq (PDict fa) (PDict fb) \<longleftrightarrow>
     (\<forall>k \<in> fst ` set fa \<union> fst ` set fb. \<exists>v w. map_of fa k = Some v \<and> map_of fb k = Some w \<and> py_eq v w)"
    (is "_ \<longleftrightarrow> ?R")
proof
  assume e: "py_eq (PDict fa) (PDict fb)"
  have each: "\<exists>w. map_of fb k = Some w \<and> py_eq v w" if "(k, v) \<in> set fa" for k v
  proof -
    have "case map_of fb k of None \<Rightarrow> False | Some w \<Rightarrow> py_eq v w"
      using e that by (auto simp: list_all_iff)
    then show ?thesis by (cases "map_of fb k") simp_all
  qed
  have "fst ` set fa \<subseteq> fst ` set fb"
  proof
    fix k assume "k \<in> fst ` set fa"
    then obtain v where "(k, v) \<in> set fa" by auto
    with each show "k \<in> fst ` set fb" by (metis map_of_None_keys option.distinct(1))
  qed
  moreover have "length fa = length fb" using e by simp
  ultimately have eq: "fst ` set fa = fst ` set fb" using assms by (intro same_keys)
  show ?R
  proof
    fix k assume "k \<in> fst ` set fa \<union> fst ` set fb"
    with eq have "k \<in> fst ` set fa" by simp
    then obtain v where v: "(k, v) \<in> set fa" by auto
    with assms(1) have "map_of fa k = Some v" by simp
    with each [OF v] show "\<exists>v w. map_of fa k = Some v \<and> map_of fb k = Some w \<and> py_eq v w" by blast
  qed
next
  assume r: ?R
  have "fst ` set fa = fst ` set fb"
  proof (intro set_eqI)
    fix k
    show "k \<in> fst ` set fa \<longleftrightarrow> k \<in> fst ` set fb"
      using r by (metis UnI1 UnI2 map_of_None_keys option.distinct(1))
  qed
  with assms have "length fa = length fb" by (rule keys_length)
  moreover have "case map_of fb k of None \<Rightarrow> False | Some w \<Rightarrow> py_eq v w" if "(k, v) \<in> set fa" for k v
  proof -
    have "map_of fa k = Some v" using that assms(1) by simp
    moreover have "k \<in> fst ` set fa" using that by force
    ultimately obtain w where "map_of fb k = Some w" "py_eq v w" using r by (metis UnI1 option.inject)
    then show ?thesis by simp
  qed
  ultimately show "py_eq (PDict fa) (PDict fb)" by (auto simp: list_all_iff)
qed

lemma tail_entries_Nil [simp]: "tail_entries mk path i xs = [] \<longleftrightarrow> xs = []"
  by (cases xs) auto

lemma diff_empty:
  shows "json_ok a \<Longrightarrow> json_ok b \<Longrightarrow> diff_value path a b = [] \<longleftrightarrow> py_eq a b"
    and "list_all json_ok xs \<Longrightarrow> list_all json_ok ys \<Longrightarrow> diff_items path i xs ys = [] \<longleftrightarrow> list_all2 py_eq xs ys"
proof (induction path a b and path i xs ys rule: diff_value_diff_items.induct)
  case (1 path fa fb)
  have d: "distinct (map fst fa)" "distinct (map fst fb)" using 1(2,3) by simp_all
  have ok: "json_ok v" if "map_of fa k = Some v" for k v
    using 1(2) that by (auto simp: list_all_iff dest: map_of_SomeD)
  have ok': "json_ok v" if "map_of fb k = Some v" for k v
    using 1(3) that by (auto simp: list_all_iff dest: map_of_SomeD)
  have "diff_value path (PDict fa) (PDict fb) = [] \<longleftrightarrow>
     (\<forall>k \<in> fst ` set fa \<union> fst ` set fb. \<exists>v w. map_of fa k = Some v \<and> map_of fb k = Some w \<and> py_eq v w)"
    unfolding diff_value.simps concat_eq_Nil_conv set_map ball_simps set_key_union
  proof (rule ball_cong [OF refl])
    fix k assume k: "k \<in> fst ` set fa \<union> fst ` set fb"
    then have "map_of fa k \<noteq> None \<or> map_of fb k \<noteq> None" by (auto simp: map_of_None_keys)
    then show "((case map_of fa k of
         None \<Rightarrow> (case map_of fb k of None \<Rightarrow> [] | Some w \<Rightarrow> [Added (child_path path k) w])
       | Some v \<Rightarrow>
           (case map_of fb k of
              None \<Rightarrow> [Removed (child_path path k) v]
            | Some w \<Rightarrow> diff_value (child_path path k) v w)) = []) \<longleftrightarrow>
        (\<exists>v w. map_of fa k = Some v \<and> map_of fb k = Some w \<and> py_eq v w)"
      using 1(1) [of k] k ok ok' by (auto simp: set_key_union split: option.splits)
  qed
  then show ?case using dict_eq_iff [OF d] by simp
next
  case (4 path i x xs y ys)
  then show ?case by auto
next
  case (5 path i ys)
  then show ?case by (cases ys) auto
qed auto

lemma config_diff_empty:
  "json_ok a \<Longrightarrow> json_ok b \<Longrightarrow> compute_config_diff (Some a) b = [] \<longleftrightarrow> py_eq a b"
  by (simp add: compute_config_diff_def get_or_def diff_empty)

text \<open>A scalar under a top-level key that differs is reported as changed, with both values.\<close>

definition is_scalar :: "pyval \<Rightarrow> bool" where
  "is_scalar v = (case v of PDict _ \<Rightarrow> False | PList _ \<Rightarrow> False | _ \<Rightarrow> True)"

lemma scalar_changed:
  assumes "map_of fa k = Some v" and "map_of fb k = Some w" and "is_scalar v" and "\<not> py_eq v w"
  shows "Changed k v w \<in> set (compute_config_diff (Some (PDict fa)) (PDict fb))"
proof -
  have "k \<in> set (key_union fa fb)" using assms(1) by (force simp: set_key_union dest: map_of_SomeD)
  moreover have "diff_value k v w = [Changed k v w]"
    using assms(3,4) by (cases v; cases w) (simp_all add: is_scalar_def)
  ultimately show ?thesis
    using assms(1,2) by (auto simp: compute_config_diff_def get_or_def child_path_def intro!: bexI [of _ k])
qed

end
