(* ===== verification/ChangeImpact.thy ===== *)
theory ChangeImpact
  imports ConfigDiff
begin

text \<open>
  app/modules/change_impact/rules.py and analyzer.py: the deterministic table that maps each
  changed, added or removed configuration path to an impact level and the validations it
  requires, and the summary of a diff.
\<close>

section \<open>The rules table\<close>

definition impact_rules :: "(string \<times> string \<times> string list) list" where
  "impact_rules =
     [(''system_prompt'', ''MEDIUM'', [''PROMPT_EVALUATION'', ''GUARDRAIL_TESTS'']),
      (''model_id'', ''HIGH'', [''MODEL_EVALUATION'', ''SAFETY_TESTS'']),
      (''model_provider'', ''HIGH'', [''MODEL_EVALUATION'', ''SAFETY_TESTS'', ''FULL_SECURITY'']),
      (''temperature'', ''LOW'', [''PROMPT_EVALUATION'']),
      (''max_tokens'', ''LOW'', [''PROMPT_EVALUATION'']),
      (''knowledge_base.*'', ''MEDIUM'', [''RAG_EVALUATION'']),
      (''guardrails.*'', ''HIGH'', [''FULL_GUARDRAIL_REGRESSION'']),
      (''tools[*].add'', ''HIGH'', [''TOOL_SECURITY'', ''INTEGRATION_TESTS'', ''IAC_SCAN'']),
      (''tools[*].remove'', ''MEDIUM'', [''INTEGRATION_TESTS'']),
      (''tools[*].endpoint'', ''HIGH'', [''TOOL_SECURITY'', ''INTEGRATION_TESTS'']),
      (''human_review.*'', ''MEDIUM'', [''INTEGRATION_TESTS'']),
      (''token_budget_daily'', ''LOW'', []),
      (''rate_limit_rpm'', ''LOW'', []),
      (''lambda_code'', ''HIGH'', [''SAST'', ''DEPENDENCY_SCAN'', ''INTEGRATION_TESTS'']),
      (''iam_policy'', ''HIGH'', [''IAC_SCAN'', ''POLICY_VALIDATION'']),
      (''network_config'', ''HIGH'', [''IAC_SCAN'', ''SECURITY_SCAN'']),
      (''container_image'', ''CRITICAL'', [''FULL_SECURITY'', ''CONTAINER_SCAN'', ''FULL_REGRESSION'']),
      (''runtime_upgrade'', ''CRITICAL'', [''FULL_SECURITY'', ''FULL_REGRESSION''])]"

definition impact_level_order :: "string \<Rightarrow> nat" where
  "impact_level_order l =
     (if l = ''LOW'' then 0 else if l = ''MEDIUM'' then 1 else if l = ''HIGH'' then 2 else 3)"

definition critical_block_conditions :: "string list" where
  "critical_block_conditions =
     [''hardcoded_secret_found'', ''critical_cve_found'', ''iam_privilege_escalation'',
      ''prompt_injection_vulnerability'', ''data_exfiltration_risk'']"

section \<open>Matching\<close>

definition wildcard_prefixes :: "(string \<times> string) list" where
  "wildcard_prefixes =
     [(''knowledge_base.*'', ''knowledge_base''), (''guardrails.*'', ''guardrails''),
      (''human_review.*'', ''human_review'')]"

text \<open>The two regular expressions: \<open>tools[<digits>]\<close> and \<open>tools[<digits>].endpoint\<close>.\<close>

definition after_tool_index :: "string \<Rightarrow> string option" where
  "after_tool_index field =
     (if starts_with ''tools['' field
      then (let rest = drop 6 field; ds = takeWhile is_digit rest; more = dropWhile is_digit rest
            in if ds \<noteq> [] \<and> starts_with '']'' more then Some (drop 1 more) else None)
      else None)"

definition at_end :: "string \<Rightarrow> bool" where
  "at_end rest \<longleftrightarrow> rest = [] \<or> rest = [CHR 0x0A]"

definition is_tool_item :: "string \<Rightarrow> bool" where
  "is_tool_item field = (case after_tool_index field of Some rest \<Rightarrow> at_end rest | None \<Rightarrow> False)"

definition is_tool_endpoint :: "string \<Rightarrow> bool" where
  "is_tool_endpoint field =
     (case after_tool_index field of
        Some rest \<Rightarrow> starts_with ''.endpoint'' rest \<and> at_end (drop 9 rest)
      | None \<Rightarrow> False)"

datatype change_kind = KChanged | KAdded | KRemoved

fun match_wildcards :: "string \<Rightarrow> change_kind \<Rightarrow> pyval \<Rightarrow> (string \<times> string) list \<Rightarrow> string list" where
  "match_wildcards field kind v [] = []"
| "match_wildcards field kind v ((rule, pre) # rest) =
     (if field \<noteq> pre \<and> \<not> starts_with (pre @ ''.'') field then []
      else if field = pre \<and> kind \<in> {KAdded, KRemoved} \<and> v = PNone then []
      else [rule]) @ match_wildcards field kind v rest"

definition match_field :: "string \<Rightarrow> change_kind \<Rightarrow> pyval \<Rightarrow> string list" where
  "match_field field kind v =
     (if map_of impact_rules field \<noteq> None then [field] else [])
     @ match_wildcards field kind v wildcard_prefixes
     @ (if is_tool_item field
        then (if kind = KAdded then [''tools[*].add''] else if kind = KRemoved then [''tools[*].remove''] else [])
        else if kind = KChanged \<and> is_tool_endpoint field then [''tools[*].endpoint''] else [])"

definition match_rules :: "diff_entry list \<Rightarrow> string list" where
  "match_rules d =
     dedupe_from []
       (concat [match_field f KChanged w. Changed f v w \<leftarrow> d]
        @ concat [match_field f KAdded v. Added f v \<leftarrow> d]
        @ concat [match_field f KRemoved v. Removed f v \<leftarrow> d])"

section \<open>The summary\<close>

record impact_analysis =
  ia_level :: string
  ia_validations :: "string list"
  ia_rules :: "string list"

definition rule_level :: "string \<Rightarrow> string" where
  "rule_level r = (case map_of impact_rules r of Some (l, _) \<Rightarrow> l | None \<Rightarrow> [])"

definition rule_validations :: "string \<Rightarrow> string list" where
  "rule_validations r = (case map_of impact_rules r of Some (_, vs) \<Rightarrow> vs | None \<Rightarrow> [])"

text \<open>\<open>max(levels, key=...)\<close>: the first of the greatest.\<close>

fun max_level :: "string \<Rightarrow> string list \<Rightarrow> string" where
  "max_level best [] = best"
| "max_level best (l # ls) =
     max_level (if impact_level_order l > impact_level_order best then l else best) ls"

definition summarise :: "string list \<Rightarrow> impact_analysis" where
  "summarise rules =
     (case map rule_level rules of
        [] \<Rightarrow> \<lparr>ia_level = ''LOW'', ia_validations = [], ia_rules = []\<rparr>
      | l # ls \<Rightarrow>
          \<lparr>ia_level = max_level l ls,
           ia_validations = dedupe_from [] (concat (map rule_validations rules)),
           ia_rules = rules\<rparr>)"

definition analyze_diff :: "diff_entry list \<Rightarrow> impact_analysis" where
  "analyze_diff d = summarise (match_rules d)"

definition analyze :: "pyval option \<Rightarrow> pyval \<Rightarrow> impact_analysis" where
  "analyze from_config to_config = analyze_diff (compute_config_diff from_config to_config)"

section \<open>Laws\<close>

lemma max_level_above: "impact_level_order best \<le> impact_level_order (max_level best ls)"
proof (induction ls arbitrary: best)
  case (Cons l ls)
  show ?case
    using Cons [of l] Cons [of best] by (cases "impact_level_order best < impact_level_order l") simp_all
qed simp

lemma max_level_upper: "l \<in> set ls \<Longrightarrow> impact_level_order l \<le> impact_level_order (max_level best ls)"
proof (induction ls arbitrary: best)
  case (Cons m ls)
  show ?case
  proof (cases "l = m")
    case True
    then show ?thesis
      using max_level_above [of m ls] max_level_above [of best ls]
      by (cases "impact_level_order best < impact_level_order m") simp_all
  next
    case False
    with Cons show ?thesis by simp
  qed
qed simp

lemma max_level_member: "max_level best ls \<in> insert best (set ls)"
proof (induction ls arbitrary: best)
  case (Cons l ls)
  show ?case
    using Cons [of l] Cons [of best] by (cases "impact_level_order best < impact_level_order l") auto
qed simp

text \<open>
  A summary is exactly its rules: its level is the level of one of them and no rule is above it,
  and its validations are the validations of the rules, each once.
\<close>

lemma summarise_level:
  "r \<in> set rules \<Longrightarrow> impact_level_order (rule_level r) \<le> impact_level_order (ia_level (summarise rules))"
  using max_level_upper [of _ "map rule_level (tl rules)"] max_level_above
  by (cases rules) (auto simp: summarise_def)

lemma summarise_level_member:
  "rules \<noteq> [] \<Longrightarrow> \<exists>r \<in> set rules. ia_level (summarise rules) = rule_level r"
  using max_level_member by (cases rules) (fastforce simp: summarise_def)+

lemma summarise_validations:
  "set (ia_validations (summarise rules)) = (\<Union>r \<in> set rules. set (rule_validations r))
     \<and> distinct (ia_validations (summarise rules))"
  by (cases rules) (auto simp: summarise_def set_dedupe_from distinct_dedupe_from)

lemma matched_changed:
  assumes "Changed f v w \<in> set d" and "r \<in> set (match_field f KChanged w)"
  shows "r \<in> set (match_rules d)"
proof -
  have "r \<in> set (concat [match_field f KChanged w. Changed f v w \<leftarrow> d])"
    using assms by force
  then show ?thesis by (simp add: match_rules_def set_dedupe_from)
qed

lemma matched_added:
  assumes "Added f v \<in> set d" and "r \<in> set (match_field f KAdded v)"
  shows "r \<in> set (match_rules d)"
proof -
  have "r \<in> set (concat [match_field f KAdded v. Added f v \<leftarrow> d])"
    using assms by force
  then show ?thesis by (simp add: match_rules_def set_dedupe_from)
qed

text \<open>A changed scalar with a rule of its own raises the level and requires the rule's validations.\<close>

lemma analyze_changed_scalar:
  assumes "map_of fa k = Some v" and "map_of fb k = Some w" and "is_scalar v" and "\<not> py_eq v w"
    and "map_of impact_rules k = Some (l, vs)"
  shows "impact_level_order l \<le> impact_level_order (ia_level (analyze (Some (PDict fa)) (PDict fb)))
       \<and> set vs \<subseteq> set (ia_validations (analyze (Some (PDict fa)) (PDict fb)))"
proof -
  let ?d = "compute_config_diff (Some (PDict fa)) (PDict fb)"
  have "k \<in> set (match_field k KChanged w)" using assms(5) by (simp add: match_field_def)
  then have k: "k \<in> set (match_rules ?d)"
    using matched_changed [OF scalar_changed [OF assms(1-4)]] by blast
  have "rule_level k = l" "rule_validations k = vs"
    using assms(5) by (simp_all add: rule_level_def rule_validations_def)
  with summarise_level [OF k] summarise_validations [of "match_rules ?d"] k show ?thesis
    unfolding analyze_def analyze_diff_def by auto
qed

end
