(* ===== verification/DependencyValidator.thy ===== *)
theory DependencyValidator
  imports Prelude
begin

text \<open>
  app/modules/registry/dependency_validator.py: the depth-first search that keeps the sub-agent
  graph of a tenant free of cycles. The recursion carries a depth bound; the search never needs
  more than the number of agents the graph mentions. The answer is proved to be exactly "a cycle
  is reachable from the agent that is saved", and a graph without cycles stays without cycles.
\<close>

type_synonym graph = "(string \<times> string list) list"

datatype validation = ValidGraph | InvalidGraph string

text \<open>\<open>graph.get(node, [])\<close>\<close>

definition subs :: "graph \<Rightarrow> string \<Rightarrow> string list" where
  "subs g v = (case map_of g v of None \<Rightarrow> [] | Some us \<Rightarrow> us)"

type_synonym search = "string set \<times> string set"

text \<open>\<open>has_cycle\<close> and its loop over the neighbours; the state is (visited, rec_stack).\<close>

fun has_cycle :: "nat \<Rightarrow> graph \<Rightarrow> string \<Rightarrow> search \<Rightarrow> (bool \<times> search) option"
  and scan_subs :: "nat \<Rightarrow> graph \<Rightarrow> string list \<Rightarrow> search \<Rightarrow> (bool \<times> search) option" where
  "has_cycle 0 g v st = None"
| "has_cycle (Suc n) g v (vis, stk) =
     (case scan_subs n g (subs g v) (insert v vis, insert v stk) of
        None \<Rightarrow> None
      | Some (True, st) \<Rightarrow> Some (True, st)
      | Some (False, (vis', stk')) \<Rightarrow> Some (False, (vis', stk' - {v})))"
| "scan_subs n g [] st = Some (False, st)"
| "scan_subs n g (u # us) (vis, stk) =
     (if u \<notin> vis
      then (case has_cycle n g u (vis, stk) of
              None \<Rightarrow> None
            | Some (True, st) \<Rightarrow> Some (True, st)
            | Some (False, st) \<Rightarrow> scan_subs n g us st)
      else if u \<in> stk then Some (True, (vis, stk))
      else scan_subs n g us (vis, stk))"

definition mentioned :: "graph \<Rightarrow> string list" where
  "mentioned g = concat (map (\<lambda>(v, us). v # us) g)"

text \<open>\<open>graph = dict(all_agents); graph[agent_id] = proposed_sub_agents\<close>\<close>

definition with_edges :: "string \<Rightarrow> string list \<Rightarrow> graph \<Rightarrow> graph" where
  "with_edges agent proposed all_agents = (agent, proposed) # all_agents"

definition cycle_reason :: "string \<Rightarrow> string" where
  "cycle_reason agent =
     ''Circular dependency detected: '' @ agent @ '' is reachable from one of its sub-agents.''"

definition validate_graph :: "string \<Rightarrow> string list \<Rightarrow> graph \<Rightarrow> validation" where
  "validate_graph agent proposed all_agents =
     (let g = with_edges agent proposed all_agents
      in if fst (the (has_cycle (Suc (length (mentioned g))) g agent ({}, {})))
         then InvalidGraph (cycle_reason agent) else ValidGraph)"

section \<open>Edges and cycles\<close>

definition edges :: "graph \<Rightarrow> (string \<times> string) set" where
  "edges g = {(v, u). u \<in> set (subs g v)}"

lemma edges_iff [simp]: "(v, u) \<in> edges g \<longleftrightarrow> u \<in> set (subs g v)"
  by (simp add: edges_def)

lemma subs_mentioned:
  assumes "u \<in> set (subs g v)"
  shows "u \<in> set (mentioned g) \<and> v \<in> set (mentioned g)"
proof -
  from assms obtain us where "map_of g v = Some us" "u \<in> set us"
    by (cases "map_of g v") (simp_all add: subs_def)
  then have "(v, us) \<in> set g" by (simp add: map_of_SomeD)
  with \<open>u \<in> set us\<close> show ?thesis by (auto simp: mentioned_def)
qed

section \<open>The search returns\<close>

text \<open>The states of a search only grow, and the depth stays below the unvisited agents.\<close>

lemma search_returns:
  fixes N :: "string set"
  assumes "finite N"
  shows "\<forall>v. set (subs g v) \<subseteq> N \<Longrightarrow> v \<in> N \<Longrightarrow> v \<notin> fst st \<Longrightarrow> card (N - fst st) \<le> n \<Longrightarrow>
           \<exists>b st'. has_cycle n g v st = Some (b, st') \<and> fst st \<subseteq> fst st'"
    and "\<forall>v. set (subs g v) \<subseteq> N \<Longrightarrow> set us \<subseteq> N \<Longrightarrow> card (N - fst st) \<le> n \<Longrightarrow>
           \<exists>b st'. scan_subs n g us st = Some (b, st') \<and> fst st \<subseteq> fst st'"
proof (induction n g v st and n g us st rule: has_cycle_scan_subs.induct)
  case (1 g v st)
  then have "card (N - fst st) > 0" using \<open>finite N\<close> by (auto simp: card_gt_0_iff)
  with 1 show ?case by simp
next
  case (2 n g v vis stk)
  have "card (N - insert v vis) < card (N - vis)"
    using 2 \<open>finite N\<close> by (intro psubset_card_mono) auto
  with 2(5) have "card (N - fst (insert v vis, insert v stk)) \<le> n" by simp
  from 2(1) [OF 2(2) _ this] 2(2) have "\<exists>b st'. scan_subs n g (subs g v) (insert v vis, insert v stk) = Some (b, st')
       \<and> insert v vis \<subseteq> fst st'"
    by simp
  then show ?case by (auto split: bool.splits prod.splits)
next
  case (3 n g st)
  then show ?case by (intro exI [of _ False]) simp
next
  case (4 n g u us vis stk)
  show ?case
  proof (cases "u \<in> vis")
    case True
    with 4 show ?thesis by auto
  next
    case False
    with 4 obtain b st' where h: "has_cycle n g u (vis, stk) = Some (b, st')" "vis \<subseteq> fst st'"
      by auto
    have le: "card (N - fst st') \<le> n"
      using 4(6) h(2) \<open>finite N\<close> by (auto intro: le_trans [OF card_mono])
    show ?thesis
    proof (cases b)
      case True
      with h False show ?thesis by auto
    next
      case b: False
      from 4(2) [OF False h(1) _ _ 4(4), of False st'] 4(5) le b
      obtain b2 st2 where "scan_subs n g us st' = Some (b2, st2)" "fst st' \<subseteq> fst st2" by auto
      with h False b show ?thesis by auto
    qed
  qed
qed

section \<open>The answer is exact\<close>

text \<open>
  What the search keeps while it runs below an agent \<open>v\<close>: every agent on the stack reaches \<open>v\<close>;
  the finished agents (visited, off the stack) only lead to finished agents and lie on no cycle.
\<close>

definition finished_ok :: "graph \<Rightarrow> search \<Rightarrow> bool" where
  "finished_ok g st \<longleftrightarrow>
     snd st \<subseteq> fst st \<and>
     (\<forall>b \<in> fst st - snd st. set (subs g b) \<subseteq> fst st - snd st \<and> (b, b) \<notin> (edges g)\<^sup>+)"

lemma closed_reach:
  assumes "\<And>b. b \<in> B \<Longrightarrow> set (subs g b) \<subseteq> B" and "(x, y) \<in> (edges g)\<^sup>*" and "x \<in> B"
  shows "y \<in> B"
  using assms(2,3) by (induction rule: rtrancl_induct) (use assms(1) in auto)

lemma finish_agent:
  assumes "finished_ok g (vis, insert v stk)" and "set (subs g v) \<subseteq> vis - insert v stk" and "v \<in> vis" "v \<notin> stk"
  shows "finished_ok g (vis, stk)"
proof -
  let ?B = "vis - insert v stk"
  have closed: "set (subs g b) \<subseteq> ?B" if "b \<in> ?B" for b
    using assms(1) that by (auto simp: finished_ok_def)
  have "(v, v) \<notin> (edges g)\<^sup>+"
  proof
    assume "(v, v) \<in> (edges g)\<^sup>+"
    then obtain u where "u \<in> set (subs g v)" "(u, v) \<in> (edges g)\<^sup>*"
      by (metis edges_iff tranclD)
    with assms(2) closed_reach [of ?B g u v] closed show False by blast
  qed
  moreover have "vis - stk = insert v ?B" using assms(3,4) by auto
  ultimately show ?thesis
    using assms(1,2) closed unfolding finished_ok_def by auto
qed

lemma search_exact:
  shows "has_cycle n g v st = Some (b, st') \<Longrightarrow> v \<notin> fst st \<Longrightarrow> finished_ok g st \<Longrightarrow>
           (\<forall>r \<in> snd st. (r, v) \<in> (edges g)\<^sup>*) \<Longrightarrow>
           (if b then \<exists>u. (v, u) \<in> (edges g)\<^sup>* \<and> (u, u) \<in> (edges g)\<^sup>+
            else finished_ok g st' \<and> snd st' = snd st \<and> insert v (fst st) \<subseteq> fst st')"
    and "scan_subs n g us st = Some (b, st') \<Longrightarrow> v \<in> snd st \<Longrightarrow> set us \<subseteq> set (subs g v) \<Longrightarrow> finished_ok g st \<Longrightarrow>
           (\<forall>r \<in> snd st. (r, v) \<in> (edges g)\<^sup>*) \<Longrightarrow>
           (if b then \<exists>u. (v, u) \<in> (edges g)\<^sup>* \<and> (u, u) \<in> (edges g)\<^sup>+
            else finished_ok g st' \<and> snd st' = snd st \<and> fst st \<subseteq> fst st' \<and> set us \<subseteq> fst st' - snd st')"
proof (induction n g v st and n g us st arbitrary: b st' and b st' v rule: has_cycle_scan_subs.induct)
  case (1 g v st)
  then show ?case by simp
next
  case (2 n g v vis stk)
  from 2(2) obtain b1 v1 s1 where sc: "scan_subs n g (subs g v) (insert v vis, insert v stk) = Some (b1, (v1, s1))"
    and b: "b = b1" "\<not> b1 \<longrightarrow> st' = (v1, s1 - {v})"
    by (auto split: option.splits bool.splits prod.splits)
  have "finished_ok g (insert v vis, insert v stk)"
    using 2(3,4) by (auto simp: finished_ok_def)
  with 2(1) [OF sc, of v] 2(5) have sub: "if b1 then \<exists>u. (v, u) \<in> (edges g)\<^sup>* \<and> (u, u) \<in> (edges g)\<^sup>+
      else finished_ok g (v1, s1) \<and> s1 = insert v stk \<and> insert v vis \<subseteq> v1 \<and> set (subs g v) \<subseteq> v1 - s1"
    by auto
  show ?case
  proof (cases b1)
    case True
    with sub b show ?thesis by simp
  next
    case False
    have "v \<notin> stk" using 2(3,4) by (auto simp: finished_ok_def)
    with sub False have "finished_ok g (v1, stk)" using finish_agent [of g v1 v stk] by auto
    moreover have "s1 - {v} = stk" using sub False \<open>v \<notin> stk\<close> by auto
    ultimately show ?thesis using sub b False by auto
  qed
next
  case (3 n g st)
  then show ?case by simp
next
  case (4 n g u us vis stk)
  have vu: "(v, u) \<in> edges g" using 4(6) by simp
  show ?case
  proof (cases "u \<in> vis")
    case False
    then obtain b1 st1 where h: "has_cycle n g u (vis, stk) = Some (b1, st1)"
      and rest: "if b1 then b else scan_subs n g us st1 = Some (b, st')"
      using 4(4) by (auto split: option.splits bool.splits prod.splits)
    have "\<forall>r \<in> stk. (r, u) \<in> (edges g)\<^sup>*" using 4(8) vu by (auto intro: rtrancl_into_rtrancl)
    with 4(1) [OF False h] False 4(7) have sub: "if b1 then \<exists>w. (u, w) \<in> (edges g)\<^sup>* \<and> (w, w) \<in> (edges g)\<^sup>+
            else finished_ok g st1 \<and> snd st1 = stk \<and> insert u vis \<subseteq> fst st1" by (cases b1) auto
    show ?thesis
    proof (cases b1)
      case True
      with sub obtain w where "(u, w) \<in> (edges g)\<^sup>*" "(w, w) \<in> (edges g)\<^sup>+" by auto
      moreover from this vu have "(v, w) \<in> (edges g)\<^sup>*" by (blast intro: converse_rtrancl_into_rtrancl)
      ultimately show ?thesis using rest True by auto
    next
      case b1: False
      with rest sub 4(5-8) have "if b then \<exists>u. (v, u) \<in> (edges g)\<^sup>* \<and> (u, u) \<in> (edges g)\<^sup>+
            else finished_ok g st' \<and> snd st' = snd st1 \<and> fst st1 \<subseteq> fst st' \<and> set us \<subseteq> fst st' - snd st'"
        using 4(2) [OF False h, of False st1 b st' v] h by simp
      moreover have "u \<notin> stk" using False 4(7) by (auto simp: finished_ok_def)
      ultimately show ?thesis using sub b1 by (auto; blast)
    qed
  next
    case True
    show ?thesis
    proof (cases "u \<in> stk")
      case on: True
      with True 4(4) have "b" by simp
      moreover have "(u, u) \<in> (edges g)\<^sup>+" using 4(8) on vu by (auto intro: rtrancl_into_trancl1)
      moreover have "(v, u) \<in> (edges g)\<^sup>*" using vu by (rule r_into_rtrancl)
      ultimately show ?thesis by auto
    next
      case off: False
      with True 4(4) have "scan_subs n g us (vis, stk) = Some (b, st')" by simp
      from 4(3) [OF _ off this, of v] True 4(5-8) have "if b then \<exists>u. (v, u) \<in> (edges g)\<^sup>* \<and> (u, u) \<in> (edges g)\<^sup>+
            else finished_ok g st' \<and> snd st' = stk \<and> vis \<subseteq> fst st' \<and> set us \<subseteq> fst st' - snd st'"
        by (cases b) auto
      with True off show ?thesis by auto
    qed
  qed
qed

section \<open>Validation\<close>

lemma length_mentioned: "card (set (mentioned g) - V) \<le> length (mentioned g)"
  by (meson card_length card_mono Diff_subset List.finite_set le_trans)

text \<open>The search is deep enough, and its answer says whether a cycle is reachable from the agent.\<close>

lemma has_cycle_exact:
  assumes "v \<in> set (mentioned g)"
  obtains b st where "has_cycle (Suc (length (mentioned g)) + extra) g v ({}, {}) = Some (b, st)"
    and "b \<longleftrightarrow> (\<exists>u. (v, u) \<in> (edges g)\<^sup>* \<and> (u, u) \<in> (edges g)\<^sup>+)"
proof -
  have "\<forall>v. set (subs g v) \<subseteq> set (mentioned g)" using subs_mentioned by blast
  moreover have "card (set (mentioned g) - fst (({}, {}) :: search)) \<le> Suc (length (mentioned g)) + extra"
    using length_mentioned [of g "{}"] by simp
  ultimately obtain b st where h: "has_cycle (Suc (length (mentioned g)) + extra) g v ({}, {}) = Some (b, st)"
    using search_returns(1) [of "set (mentioned g)" g v "({}, {})" "Suc (length (mentioned g)) + extra"] assms by auto
  have ex: "if b then \<exists>u. (v, u) \<in> (edges g)\<^sup>* \<and> (u, u) \<in> (edges g)\<^sup>+
            else finished_ok g st \<and> snd st = {} \<and> v \<in> fst st"
    using search_exact(1) [OF h] by (cases b) (simp_all add: finished_ok_def [of g "({}, {})"])
  show ?thesis
  proof (rule that [OF h], cases b)
    case True
    with ex show "b \<longleftrightarrow> (\<exists>u. (v, u) \<in> (edges g)\<^sup>* \<and> (u, u) \<in> (edges g)\<^sup>+)" by simp
  next
    case False
    with ex have f: "finished_ok g st" "snd st = {}" "v \<in> fst st" by auto
    have closed: "\<And>b. b \<in> fst st \<Longrightarrow> set (subs g b) \<subseteq> fst st"
      using f(1,2) unfolding finished_ok_def by (metis Diff_empty)
    have "u \<in> fst st" if "(v, u) \<in> (edges g)\<^sup>*" for u
      by (rule closed_reach [OF closed that f(3)])
    with f False show "b \<longleftrightarrow> (\<exists>u. (v, u) \<in> (edges g)\<^sup>* \<and> (u, u) \<in> (edges g)\<^sup>+)"
      by (auto simp: finished_ok_def)
  qed
qed

lemma agent_mentioned: "agent \<in> set (mentioned (with_edges agent proposed g))"
  by (simp add: mentioned_def with_edges_def)

lemma validate_graph_cases:
  "validate_graph agent proposed all_agents =
     (if \<exists>u. (agent, u) \<in> (edges (with_edges agent proposed all_agents))\<^sup>* \<and>
          (u, u) \<in> (edges (with_edges agent proposed all_agents))\<^sup>+
      then InvalidGraph (cycle_reason agent) else ValidGraph)"
proof -
  obtain b st where h: "has_cycle (Suc (length (mentioned (with_edges agent proposed all_agents))) + 0)
      (with_edges agent proposed all_agents) agent ({}, {}) = Some (b, st)"
    and b: "b \<longleftrightarrow> (\<exists>u. (agent, u) \<in> (edges (with_edges agent proposed all_agents))\<^sup>* \<and>
          (u, u) \<in> (edges (with_edges agent proposed all_agents))\<^sup>+)"
    using agent_mentioned by (rule has_cycle_exact)
  from h [simplified] have "validate_graph agent proposed all_agents = (if b then InvalidGraph (cycle_reason agent) else ValidGraph)"
    by (simp add: validate_graph_def Let_def)
  with b show ?thesis by simp
qed

lemma validate_graph_iff:
  "validate_graph agent proposed all_agents = ValidGraph \<longleftrightarrow>
     (\<nexists>u. (agent, u) \<in> (edges (with_edges agent proposed all_agents))\<^sup>* \<and>
          (u, u) \<in> (edges (with_edges agent proposed all_agents))\<^sup>+)"
  by (simp add: validate_graph_cases)

text \<open>Saving an accepted agent keeps a tenant's graph free of cycles.\<close>

lemma edges_with_edges:
  "edges (with_edges agent proposed g) = {(v, u). (v \<noteq> agent \<and> (v, u) \<in> edges g) \<or> (v = agent \<and> u \<in> set proposed)}"
proof -
  have "subs (with_edges agent proposed g) v = (if v = agent then proposed else subs g v)" for v
    by (simp add: subs_def with_edges_def)
  then show ?thesis by (auto simp: edges_def split: if_splits)
qed

lemma cycle_avoids:
  assumes "(x, y) \<in> (edges (with_edges agent proposed g))\<^sup>+"
  shows "(x, y) \<in> (edges g)\<^sup>+ \<or>
    ((x, agent) \<in> (edges (with_edges agent proposed g))\<^sup>* \<and> (agent, y) \<in> (edges (with_edges agent proposed g))\<^sup>+)"
  using assms
proof (induction rule: trancl_induct)
  case (base y)
  then show ?case by (cases "x = agent") (auto simp: edges_with_edges simp del: edges_iff)
next
  case (step y z)
  show ?case
  proof (cases "y = agent")
    case True
    with step show ?thesis by (auto dest: trancl_into_rtrancl)
  next
    case False
    with step(2) have "(y, z) \<in> edges g" by (auto simp: edges_with_edges simp del: edges_iff)
    with step show ?thesis by (blast intro: trancl_into_trancl)
  qed
qed

lemma validate_keeps_acyclic:
  assumes "acyclic (edges g)" and "validate_graph agent proposed g = ValidGraph"
  shows "acyclic (edges (with_edges agent proposed g))"
proof (rule acyclicI, rule allI, rule notI)
  fix x
  let ?e = "edges (with_edges agent proposed g)"
  assume "(x, x) \<in> ?e\<^sup>+"
  with assms(1) cycle_avoids have "(x, agent) \<in> ?e\<^sup>* \<and> (agent, x) \<in> ?e\<^sup>+"
    unfolding acyclic_def by blast
  then have "(agent, agent) \<in> ?e\<^sup>+" by (blast intro: trancl_rtrancl_trancl)
  with assms(2) show False by (auto simp: validate_graph_iff)
qed

end
