(* ===== verification/RegistryModels.thy ===== *)
theory RegistryModels
  imports RuntimeState ConfigLoader DependencyValidator "HOL-Library.AList"
begin

text \<open>
  The data of the agent registry: app/modules/registry/models.py (the records of the two tables),
  contract_generator.py (the capability contract of a version) and versioner.py (how a version is
  built, written once, and given its derived fields). A configuration is the JSON dict of an
  AgentConfiguration; an agent is the agent_record of RuntimeState, which the runtime reads.
\<close>

section \<open>Vocabularies\<close>

definition legacy_agent_types :: "(string \<times> string) list" where
  "legacy_agent_types =
     [(''conversational'', ''standard''), (''task'', ''standard''), (''multi-step'', ''orchestrator''),
      (''rag'', ''standard''), (''tool_executor'', ''standard'')]"

definition normalise_agent_type :: "string \<Rightarrow> string" where
  "normalise_agent_type v = get_or v (map_of legacy_agent_types v)"

definition agent_types :: "string list" where
  "agent_types = [''standard'', ''orchestrator'']"

definition agent_statuses :: "string list" where
  "agent_statuses =
     [''DRAFT'', ''VALIDATING'', ''TESTING'', ''READY_FOR_APPROVAL'', ''APPROVED'', ''DEPLOYING'',
      ''ACTIVE'', ''FAILED'', ''BLOCKED'', ''ROLLED_BACK'', ''DEPRECATED'']"

definition lifecycle_statuses :: "string list" where
  "lifecycle_statuses = [''draft'', ''published'', ''deprecated'', ''archived'']"

text \<open>\<open>AgentRecord(**item)\<close>: the Literal fields must be in their vocabularies.\<close>

definition valid_record :: "agent_record \<Rightarrow> bool" where
  "valid_record r \<longleftrightarrow>
     ag_type r \<in> set agent_types \<and> ag_status r \<in> set agent_statuses \<and>
     (case ag_lifecycle r of None \<Rightarrow> True | Some l \<Rightarrow> l \<in> set lifecycle_statuses)"

section \<open>Reading a configuration\<close>

definition text_of :: "pyval \<Rightarrow> string" where
  "text_of v = (case v of PStr s \<Rightarrow> s | _ \<Rightarrow> [])"

definition items_of :: "pyval \<Rightarrow> pyval list" where
  "items_of v = (case v of PList xs \<Rightarrow> xs | _ \<Rightarrow> [])"

definition int_of_val :: "pyval \<Rightarrow> int option" where
  "int_of_val v = (case v of PInt i \<Rightarrow> Some i | _ \<Rightarrow> None)"

text \<open>The agent ids of \<open>configuration.orchestration.sub_agents\<close>, empty without orchestration.\<close>

definition sub_agent_ids :: "pyval \<Rightarrow> string list" where
  "sub_agent_ids cfg =
     map (\<lambda>ref. text_of (dict_get ''agent_id'' ref))
       (items_of (dict_get ''sub_agents'' (dict_get ''orchestration'' cfg)))"

section \<open>The capability contract\<close>

record contract =
  ct_agent :: string
  ct_name :: string
  ct_type :: string
  ct_version :: int
  ct_description :: string
  ct_capabilities :: "string list"
  ct_input_schema :: pyval
  ct_output_schema :: pyval
  ct_skills :: "string list"
  ct_tools :: "string list"
  ct_mcp_servers :: "string list"
  ct_knowledge_bases :: "string list"
  ct_allowed :: "string list"
  ct_restricted :: "string list"
  ct_guardrail_profile :: string
  ct_pii_policy :: string
  ct_classification :: string
  ct_latency :: "int option"
  ct_token_budget :: "int option"

definition contract_knowledge_bases :: "pyval \<Rightarrow> string list" where
  "contract_knowledge_bases cfg =
     (let kb = dict_get ''knowledge_base'' cfg; name = dict_get ''kb_name'' kb
      in if py_truthy kb \<and> py_truthy (dict_get ''enabled'' kb) \<and> py_truthy name then [text_of name] else [])"

definition generate_contract :: "string \<Rightarrow> string \<Rightarrow> string \<Rightarrow> pyval \<Rightarrow> int \<Rightarrow> contract" where
  "generate_contract agent name ty cfg version =
     \<lparr>ct_agent = agent, ct_name = name, ct_type = ty, ct_version = version,
      ct_description = take 200 (text_of (dict_get ''system_prompt'' cfg)), ct_capabilities = [],
      ct_input_schema = PNone, ct_output_schema = dict_get ''json_schema'' (dict_get ''output_format'' cfg),
      ct_skills = map (\<lambda>s. text_of (dict_get ''skill_id'' s))
        (filter (\<lambda>s. py_truthy (dict_get ''enabled'' s)) (items_of (dict_get ''skills'' cfg))),
      ct_tools = map (\<lambda>t. text_of (dict_get ''tool_id'' t)) (items_of (dict_get ''tools'' cfg)),
      ct_mcp_servers = map (\<lambda>m. text_of (dict_get ''server_id'' m)) (items_of (dict_get ''mcp_servers'' cfg)),
      ct_knowledge_bases = contract_knowledge_bases cfg,
      ct_allowed = [''read''], ct_restricted = [''external_write''],
      ct_guardrail_profile = ''standard'', ct_pii_policy = ''redact'', ct_classification = ''internal'',
      ct_latency = None, ct_token_budget = int_of_val (dict_get ''max_tokens'' cfg)\<rparr>"

section \<open>Versions\<close>

text \<open>
  A version item. Its snapshot is written once; the derived attributes are the ones an update is
  meant to set. An update of a version that is not there leaves an item with nothing else.
\<close>

record version_record =
  vr_agent :: string
  vr_version :: int
  vr_status :: string
  vr_change :: string
  vr_changed_by :: string
  vr_created :: stamp
  vr_config :: pyval
  vr_hash :: "string option"
  vr_contract :: contract
  vr_rolled_from :: "int option"
  vr_derived :: "(string \<times> pyval) list"

datatype version_row = FullVersion version_record | BareVersion "(string \<times> pyval) list"

definition mutable_derived_fields :: "string list" where
  "mutable_derived_fields =
     [''iac_version'', ''iac_s3_key'', ''iac_modules'', ''iac_validation_report'', ''deployment_id'',
      ''terraform_plan_summary'', ''deployment_result'', ''evaluation_result'', ''project_lifecycle_status'']"

definition vr_lifecycle :: "version_record \<Rightarrow> string option" where
  "vr_lifecycle v =
     (case map_of (vr_derived v) ''project_lifecycle_status'' of Some (PStr s) \<Rightarrow> Some s | _ \<Rightarrow> None)"

definition build_version ::
  "(string \<Rightarrow> string) \<Rightarrow> stamp \<Rightarrow> string \<Rightarrow> string \<Rightarrow> string \<Rightarrow> int \<Rightarrow> pyval \<Rightarrow> string \<Rightarrow> string \<Rightarrow> int option
     \<Rightarrow> version_record" where
  "build_version sha256 now agent name ty version cfg changed_by change rolled_from =
     \<lparr>vr_agent = agent, vr_version = version, vr_status = ''DRAFT'', vr_change = change,
      vr_changed_by = changed_by, vr_created = now, vr_config = cfg,
      vr_hash = Some (compute_config_hash_factory sha256 id cfg),
      vr_contract = generate_contract agent name ty cfg version, vr_rolled_from = rolled_from,
      vr_derived = []\<rparr>"

record registry =
  rg_agents :: "((string \<times> string) \<times> agent_row) list"
  rg_versions :: "((string \<times> int) \<times> version_row) list"

type_synonym 'a reg_action = "(registry, 'a) prog"

text \<open>\<open>put_item\<close> under the condition that the item is not there.\<close>

definition write_version :: "version_record \<Rightarrow> unit reg_action" where
  "write_version v =
     andthen (reads (\<lambda>s. map_of (rg_versions s) (vr_agent v, vr_version v))) (\<lambda>old.
       if old \<noteq> None then raising (VersionAlreadyExistsError (vr_agent v) (vr_version v))
       else modifies (\<lambda>s. s\<lparr>rg_versions := AList.update (vr_agent v, vr_version v) (FullVersion v) (rg_versions s)\<rparr>))"

text \<open>
  \<open>SET #name = :value\<close> on one attribute of an item. The store does not know which attributes
  belong to the snapshot: an update that names one overwrites it (a blob is stored as its JSON
  text). An attribute that is no field of the snapshot is kept with the derived ones;
  \<open>created_at\<close> and \<open>capability_contract\<close>, which are no attribute values here, are not reached.
\<close>

definition set_attribute :: "string \<times> pyval \<Rightarrow> version_record \<Rightarrow> version_record" where
  "set_attribute = (\<lambda>(k, x) v.
     if k = ''configuration'' then v\<lparr>vr_config := get_or x (json_loads (text_of x))\<rparr>
     else if k = ''config_hash'' then v\<lparr>vr_hash := (case x of PStr h \<Rightarrow> Some h | _ \<Rightarrow> None)\<rparr>
     else if k = ''version_status'' then v\<lparr>vr_status := text_of x\<rparr>
     else if k = ''change_description'' then v\<lparr>vr_change := text_of x\<rparr>
     else if k = ''changed_by'' then v\<lparr>vr_changed_by := text_of x\<rparr>
     else if k = ''rolled_back_from_version'' then v\<lparr>vr_rolled_from := int_of_val x\<rparr>
     else v\<lparr>vr_derived := AList.update k x (vr_derived v)\<rparr>)"

definition set_fields :: "(string \<times> pyval) list \<Rightarrow> version_row option \<Rightarrow> version_row" where
  "set_fields fs row =
     (let set_all = (\<lambda>d. foldl (\<lambda>d (k, x). AList.update k x d) d fs)
      in case row of
           None \<Rightarrow> BareVersion (set_all [])
         | Some (BareVersion d) \<Rightarrow> BareVersion (set_all d)
         | Some (FullVersion v) \<Rightarrow> FullVersion (foldl (\<lambda>v f. set_attribute f v) v fs))"

definition record_derived_fields :: "string \<Rightarrow> int \<Rightarrow> (string \<times> pyval) list \<Rightarrow> unit reg_action" where
  "record_derived_fields agent version fs =
     (if \<not> set (map fst fs) \<subseteq> set mutable_derived_fields
      then raising (ValueError ''Cannot update non-derived version fields'')
      else if fs = [] then ret ()
      else modifies (\<lambda>s. s\<lparr>rg_versions :=
             AList.update (agent, version) (set_fields fs (map_of (rg_versions s) (agent, version)))
               (rg_versions s)\<rparr>))"

definition delete_version :: "string \<Rightarrow> int \<Rightarrow> unit reg_action" where
  "delete_version agent version =
     modifies (\<lambda>s. s\<lparr>rg_versions := AList.delete (agent, version) (rg_versions s)\<rparr>)"

text \<open>\<open>AgentVersionRecord(**item)\<close>: an item without the required attributes does not validate.\<close>

definition from_row :: "version_row \<Rightarrow> version_record reg_action" where
  "from_row row =
     (case row of
        BareVersion _ \<Rightarrow> raising (ValidationError ''AgentVersionRecord'')
      | FullVersion v \<Rightarrow>
          (let v' = v\<lparr>vr_contract := (vr_contract v)\<lparr>ct_type := normalise_agent_type (ct_type (vr_contract v))\<rparr>\<rparr>
           in if ct_type (vr_contract v') \<in> set agent_types then ret v'
              else raising (ValidationError ''AgentVersionRecord'')))"

definition get_version :: "string \<Rightarrow> int \<Rightarrow> version_record option reg_action" where
  "get_version agent version =
     andthen (reads (\<lambda>s. map_of (rg_versions s) (agent, version))) (\<lambda>row.
       case row of None \<Rightarrow> ret None | Some r \<Rightarrow> andthen (from_row r) (\<lambda>v. ret (Some v)))"

fun all_rows :: "version_row list \<Rightarrow> version_record list reg_action" where
  "all_rows [] = ret []"
| "all_rows (r # rs) = andthen (from_row r) (\<lambda>v. andthen (all_rows rs) (\<lambda>vs. ret (v # vs)))"

fun insert_version :: "int \<times> version_row \<Rightarrow> (int \<times> version_row) list \<Rightarrow> (int \<times> version_row) list" where
  "insert_version v [] = [v]"
| "insert_version v (w # ws) = (if fst v \<ge> fst w then v # w # ws else w # insert_version v ws)"

text \<open>The rows of one agent by descending version number.\<close>

definition rows_of :: "string \<Rightarrow> ((string \<times> int) \<times> version_row) list \<Rightarrow> (int \<times> version_row) list" where
  "rows_of agent rows = foldr insert_version [(n, row). ((a, n), row) \<leftarrow> rows, a = agent] []"

definition list_versions :: "string \<Rightarrow> version_record list reg_action" where
  "list_versions agent =
     andthen (reads (\<lambda>s. map snd (rows_of agent (rg_versions s)))) all_rows"

section \<open>The snapshot of a version never changes\<close>

text \<open>The part of a row that is fixed at creation.\<close>

definition snapshot :: "version_row \<Rightarrow> version_record option" where
  "snapshot row = (case row of FullVersion v \<Rightarrow> Some (v\<lparr>vr_derived := []\<rparr>) | BareVersion _ \<Rightarrow> None)"

text \<open>Every full version of the first state is in the second with the same snapshot.\<close>

definition keeps_snapshots :: "registry \<Rightarrow> registry \<Rightarrow> bool" where
  "keeps_snapshots s t \<longleftrightarrow>
     (\<forall>k v. map_of (rg_versions s) k = Some (FullVersion v) \<longrightarrow>
        (\<exists>w. map_of (rg_versions t) k = Some (FullVersion w) \<and> w\<lparr>vr_derived := []\<rparr> = v\<lparr>vr_derived := []\<rparr>))"

interpretation snapshot_frame: frame keeps_snapshots
  by unfold_locales (auto simp: keeps_snapshots_def, metis)

lemma write_version_keeps [frame_intros]: "stays_in keeps_snapshots (write_version v)"
  by (auto simp: write_version_def stays_in_def keeps_snapshots_def prog_simps AList.update_conv')

lemma set_attribute_derived:
  "fst f \<in> set mutable_derived_fields \<Longrightarrow> (set_attribute f v)\<lparr>vr_derived := []\<rparr> = v\<lparr>vr_derived := []\<rparr>"
proof (cases f)
  case (Pair k x)
  assume "fst f \<in> set mutable_derived_fields"
  with Pair have "k \<notin> {''configuration'', ''config_hash'', ''version_status'', ''change_description'', ''changed_by'',
      ''rolled_back_from_version''}"
    by (simp add: mutable_derived_fields_def) fastforce
  then show ?thesis by (simp add: set_attribute_def Pair)
qed

lemma set_fields_derived:
  "set (map fst fs) \<subseteq> set mutable_derived_fields \<Longrightarrow>
     (foldl (\<lambda>v f. set_attribute f v) v fs)\<lparr>vr_derived := []\<rparr> = v\<lparr>vr_derived := []\<rparr>"
  by (induction fs arbitrary: v) (simp_all add: set_attribute_derived)

lemma set_fields_full:
  assumes "set (map fst fs) \<subseteq> set mutable_derived_fields"
  obtains w where "set_fields fs (Some (FullVersion v)) = FullVersion w" and "w\<lparr>vr_derived := []\<rparr> = v\<lparr>vr_derived := []\<rparr>"
  using set_fields_derived [OF assms] by (simp add: set_fields_def)

lemma record_derived_keeps [frame_intros]: "stays_in keeps_snapshots (record_derived_fields a n fs)"
proof (cases "set (map fst fs) \<subseteq> set mutable_derived_fields \<and> fs \<noteq> []")
  case True
  then have "set (map fst fs) \<subseteq> set mutable_derived_fields" and "fs \<noteq> []" by simp_all
  then have run: "record_derived_fields a n fs = modifies (\<lambda>s. s\<lparr>rg_versions :=
       AList.update (a, n) (set_fields fs (map_of (rg_versions s) (a, n))) (rg_versions s)\<rparr>)"
    by (simp add: record_derived_fields_def del: set_map)
  show ?thesis
    unfolding run
  proof (rule stays_inI, unfold keeps_snapshots_def modifies_def, intro allI impI)
    fix s r t k v
    assume t: "(Inr (), s\<lparr>rg_versions := AList.update (a, n) (set_fields fs (map_of (rg_versions s) (a, n))) (rg_versions s)\<rparr>) = (r, t)"
      and v: "map_of (rg_versions s) k = Some (FullVersion v)"
    from \<open>set (map fst fs) \<subseteq> set mutable_derived_fields\<close> obtain w
      where w: "set_fields fs (Some (FullVersion v)) = FullVersion w" "w\<lparr>vr_derived := []\<rparr> = v\<lparr>vr_derived := []\<rparr>"
      by (rule set_fields_full)
    from t v w show "\<exists>w. map_of (rg_versions t) k = Some (FullVersion w) \<and> w\<lparr>vr_derived := []\<rparr> = v\<lparr>vr_derived := []\<rparr>"
      by (cases "k = (a, n)") (auto simp: AList.update_conv')
  qed
next
  case False
  then show ?thesis
    by (auto simp: record_derived_fields_def stays_in_def ret_def raising_def snapshot_frame.frame_refl simp del: set_map)
qed

lemma keeps_reads [frame_intros]:
  "stays_in keeps_snapshots (from_row row)" "stays_in keeps_snapshots (get_version a n)"
  "stays_in keeps_snapshots (list_versions a)"
proof -
  show row: "stays_in keeps_snapshots (from_row row)" for row
    by (auto simp: from_row_def stays_in_def prog_simps Let_def snapshot_frame.frame_refl split: version_row.splits)
  then show "stays_in keeps_snapshots (get_version a n)"
    unfolding get_version_def by (intro frame_intros)
  have "stays_in keeps_snapshots (all_rows rs)" for rs
    by (induction rs) (auto intro!: frame_intros row)
  then show "stays_in keeps_snapshots (list_versions a)"
    unfolding list_versions_def by (intro frame_intros)
qed

end
