(* ===== verification/RegistryStore.thy ===== *)
theory RegistryStore
  imports RegistryModels
begin

text \<open>
  app/modules/registry/store.py: the agent registry over its two tables. The tables are
  association lists; a query of a tenant's partition sees its rows by agent id, a scan sees them
  in table order. Each operation is given the instant and the random hex digits it draws.
\<close>

section \<open>Ids\<close>

definition slug_char :: "char \<Rightarrow> bool" where
  "slug_char c = (let n = (of_char c :: nat) in (97 \<le> n \<and> n \<le> 122) \<or> (48 \<le> n \<and> n \<le> 57))"

text \<open>\<open>re.sub(r"[^a-z0-9]+", "-", name.lower())\<close>: a run of other characters becomes one dash.\<close>

fun collapse_runs :: "bool \<Rightarrow> string \<Rightarrow> string" where
  "collapse_runs run [] = []"
| "collapse_runs run (c # cs) =
     (if slug_char c then c # collapse_runs False cs
      else if run then collapse_runs True cs else CHR ''-'' # collapse_runs True cs)"

definition strip_dashes :: "string \<Rightarrow> string" where
  "strip_dashes s = rev (dropWhile (\<lambda>c. c = CHR ''-'') (rev (dropWhile (\<lambda>c. c = CHR ''-'') s)))"

definition slugify :: "string \<Rightarrow> string" where
  "slugify name = (let slug = strip_dashes (collapse_runs False (py_lower name)) in if slug = [] then ''agent'' else slug)"

definition new_agent_id :: "string \<Rightarrow> string \<Rightarrow> string" where
  "new_agent_id name hex = slugify name @ ''-'' @ take 6 hex"

section \<open>Reading\<close>

definition read_record :: "agent_row \<Rightarrow> agent_record reg_action" where
  "read_record row =
     (case row of
        SpendOnly _ _ \<Rightarrow> raising (ValidationError ''AgentRecord'')
      | Whole r \<Rightarrow>
          (let r' = r\<lparr>ag_type := normalise_agent_type (ag_type r)\<rparr>
           in if valid_record r' then ret r' else raising (ValidationError ''AgentRecord'')))"

definition get_agent :: "string \<Rightarrow> string \<Rightarrow> agent_record option reg_action" where
  "get_agent tenant agent =
     andthen (reads (\<lambda>s. map_of (rg_agents s) (tenant, agent))) (\<lambda>row.
       case row of None \<Rightarrow> ret None | Some r \<Rightarrow> andthen (read_record r) (\<lambda>x. ret (Some x)))"

definition require_agent :: "string \<Rightarrow> string \<Rightarrow> agent_record reg_action" where
  "require_agent tenant agent =
     andthen (get_agent tenant agent) (\<lambda>r.
       case r of None \<Rightarrow> raising (UnknownAgentError agent) | Some x \<Rightarrow> ret x)"

definition get_version_detail :: "string \<Rightarrow> string \<Rightarrow> int \<Rightarrow> version_record option reg_action" where
  "get_version_detail tenant agent version =
     andthen (require_agent tenant agent) (\<lambda>_. get_version agent version)"

definition list_versions_of :: "string \<Rightarrow> string \<Rightarrow> version_record list reg_action" where
  "list_versions_of tenant agent = andthen (require_agent tenant agent) (\<lambda>_. list_versions agent)"

definition put_agent :: "agent_record \<Rightarrow> unit reg_action" where
  "put_agent r =
     modifies (\<lambda>s. s\<lparr>rg_agents := AList.update (ag_tenant r, ag_id r) (Whole r) (rg_agents s)\<rparr>)"

text \<open>The rows of a tenant, by agent id.\<close>

definition tenant_rows :: "string \<Rightarrow> registry \<Rightarrow> (string \<times> agent_row) list" where
  "tenant_rows tenant s = sort_items [(a, row). ((t, a), row) \<leftarrow> rg_agents s, t = tenant]"

definition after_cursor :: "string option \<Rightarrow> (string \<times> 'a) list \<Rightarrow> (string \<times> 'a) list" where
  "after_cursor cursor rows =
     (case cursor of None \<Rightarrow> rows | Some c \<Rightarrow> filter (\<lambda>(a, _). \<not> text_le a c) rows)"

fun read_records :: "agent_row list \<Rightarrow> agent_record list reg_action" where
  "read_records [] = ret []"
| "read_records (r # rs) = andthen (read_record r) (\<lambda>x. andthen (read_records rs) (\<lambda>xs. ret (x # xs)))"

definition row_status :: "agent_row \<Rightarrow> string option" where
  "row_status row = (case row of Whole r \<Rightarrow> Some (ag_status r) | SpendOnly _ _ \<Rightarrow> None)"

text \<open>
  A page: the query stops after \<open>limit\<close> rows and then names the last one it looked at; the
  status filter applies to the rows of the page only.
\<close>

definition list_agents ::
  "string \<Rightarrow> string option \<Rightarrow> nat \<Rightarrow> string option \<Rightarrow> (agent_record list \<times> string option) reg_action" where
  "list_agents tenant status limit cursor =
     andthen (reads (\<lambda>s. take limit (after_cursor cursor (tenant_rows tenant s)))) (\<lambda>page.
     andthen (read_records (map snd (filter (\<lambda>(_, row). status = None \<or> row_status row = status) page))) (\<lambda>records.
       ret (records, if page \<noteq> [] \<and> length page = limit then Some (fst (last page)) else None)))"

definition list_agents_by_project :: "string \<Rightarrow> string \<Rightarrow> agent_record list reg_action" where
  "list_agents_by_project tenant project =
     andthen (reads (\<lambda>s. [Whole r. (_, Whole r) \<leftarrow> rg_agents s, ag_project r = Some project, ag_tenant r = tenant]))
       read_records"

definition get_agent_in_project :: "string \<Rightarrow> string \<Rightarrow> string \<Rightarrow> agent_record option reg_action" where
  "get_agent_in_project tenant project agent =
     andthen (get_agent tenant agent) (\<lambda>r.
       case r of
         None \<Rightarrow> ret None
       | Some x \<Rightarrow> ret (if ag_project x \<noteq> Some project then None else Some x))"

section \<open>Circular dependencies\<close>

fun graph_entries :: "string option \<Rightarrow> agent_record list \<Rightarrow> graph reg_action" where
  "graph_entries excluded [] = ret []"
| "graph_entries excluded (r # rs) =
     (if Some (ag_id r) = excluded then graph_entries excluded rs
      else
        andthen (get_version (ag_id r) (ag_current_version r)) (\<lambda>v.
        andthen (graph_entries excluded rs) (\<lambda>g.
          ret ((ag_id r, (case v of None \<Rightarrow> [] | Some w \<Rightarrow> sub_agent_ids (vr_config w))) # g))))"

text \<open>
  The walk over all agents of a tenant in pages of 100, with what is done on each page. One call
  per row and one more are enough.
\<close>

fun agent_pages ::
  "nat \<Rightarrow> string \<Rightarrow> (agent_record list \<Rightarrow> 'a list reg_action) \<Rightarrow> string option \<Rightarrow> 'a list reg_action" where
  "agent_pages 0 tenant f cursor = raising (RuntimeError ''page bound'')"
| "agent_pages (Suc n) tenant f cursor =
     andthen (list_agents tenant None 100 cursor) (\<lambda>(records, next).
     andthen (f records) (\<lambda>g.
       case next of
         None \<Rightarrow> ret g
       | Some c \<Rightarrow> andthen (agent_pages n tenant f (Some c)) (\<lambda>h. ret (g @ h))))"

definition all_agents :: "string \<Rightarrow> (agent_record list \<Rightarrow> 'a list reg_action) \<Rightarrow> 'a list reg_action" where
  "all_agents tenant f s = agent_pages (Suc (length (rg_agents s))) tenant f None s"

definition build_sub_agent_graph :: "string \<Rightarrow> string option \<Rightarrow> graph reg_action" where
  "build_sub_agent_graph tenant excluded = all_agents tenant (graph_entries excluded)"

text \<open>The agents of a page, one left out, whose current version refers to something.\<close>

fun referencing_among :: "string option \<Rightarrow> (version_record \<Rightarrow> bool) \<Rightarrow> agent_record list \<Rightarrow> agent_record list reg_action" where
  "referencing_among skip refers [] = ret []"
| "referencing_among skip refers (r # rs) =
     (if Some (ag_id r) = skip then referencing_among skip refers rs
      else
        andthen (get_version (ag_id r) (ag_current_version r)) (\<lambda>v.
        andthen (referencing_among skip refers rs) (\<lambda>found.
          ret (case v of None \<Rightarrow> found | Some w \<Rightarrow> if refers w then r # found else found))))"

definition validate_no_cycle :: "string \<Rightarrow> string option \<Rightarrow> pyval \<Rightarrow> unit reg_action" where
  "validate_no_cycle tenant agent cfg =
     (if sub_agent_ids cfg = [] then ret ()
      else
        andthen (build_sub_agent_graph tenant agent) (\<lambda>g.
          case validate_graph (get_or ''__new_agent__'' agent) (sub_agent_ids cfg) g of
            ValidGraph \<Rightarrow> ret ()
          | InvalidGraph reason \<Rightarrow> raising (CircularDependencyError reason)))"

section \<open>Creating\<close>

text \<open>\<open>scan(FilterExpression=..., Limit=1)\<close>: the limit counts the rows looked at, not the matches.\<close>

definition scan_agent_id :: "string \<Rightarrow> registry \<Rightarrow> bool" where
  "scan_agent_id candidate s = list_ex (\<lambda>((_, a), _). a = candidate) (take 1 (rg_agents s))"

fun allocate_agent_id :: "string \<Rightarrow> string list \<Rightarrow> string reg_action" where
  "allocate_agent_id name [] = raising (RuntimeError ''Failed to allocate a unique agent_id after several attempts'')"
| "allocate_agent_id name (h # hs) =
     andthen (reads (scan_agent_id (new_agent_id name h))) (\<lambda>taken.
       if taken then allocate_agent_id name hs else ret (new_agent_id name h))"

record new_agent =
  na_name :: string
  na_description :: string
  na_purpose :: string
  na_type :: string
  na_config :: pyval
  na_by :: string
  na_project :: "string option"
  na_owner :: "string option"
  na_tags :: "(string \<times> string) list"
  na_changelog :: "string option"

definition initial_record :: "string \<Rightarrow> string \<Rightarrow> string \<Rightarrow> stamp \<Rightarrow> new_agent \<Rightarrow> agent_record" where
  "initial_record platform tenant agent now na =
     \<lparr>ag_tenant = tenant, ag_id = agent, ag_name = na_name na, ag_description = na_description na,
      ag_purpose = na_purpose na, ag_type = na_type na, ag_current_version = 1, ag_live_version = None,
      ag_status = ''DRAFT'', ag_platform_version = platform, ag_runtime_version = platform,
      ag_created_by = na_by na, ag_created_at = now, ag_updated_by = na_by na, ag_updated_at = now,
      ag_tags = na_tags na, ag_project = na_project na,
      ag_lifecycle = (if na_project na \<noteq> None then Some ''draft'' else None), ag_owner_email = na_owner na,
      ag_key_arn = None, ag_prev_key_arn = None, ag_prev_key_expires = None, ag_rotated_at = None,
      ag_key_revoked = False, ag_jwt_issuer = None, ag_jwt_audience = None, ag_jwt_jwks_url = None,
      ag_jwt_tenant_claim = Some ''tenant_id'', ag_spend = 0, ag_spend_period = None\<rparr>"

definition create_agent ::
  "(string \<Rightarrow> string) \<Rightarrow> string \<Rightarrow> stamp \<Rightarrow> string list \<Rightarrow> string \<Rightarrow> new_agent
     \<Rightarrow> (agent_record \<times> version_record) reg_action" where
  "create_agent sha256 platform now hexes tenant na =
     andthen (validate_no_cycle tenant None (na_config na)) (\<lambda>_.
     andthen (allocate_agent_id (na_name na) (take 5 hexes)) (\<lambda>agent.
       let r = initial_record platform tenant agent now na;
           v = build_version sha256 now agent (na_name na) (na_type na) 1 (na_config na) (na_by na)
                 (if truthy (na_changelog na) then get_or [] (na_changelog na) else ''Initial version'') None
       in andthen (put_agent r) (\<lambda>_. andthen (write_version v) (\<lambda>_. ret (r, v)))))"

definition clone_agent ::
  "(string \<Rightarrow> string) \<Rightarrow> string \<Rightarrow> stamp \<Rightarrow> string list \<Rightarrow> string \<Rightarrow> string \<Rightarrow> string \<Rightarrow> string
     \<Rightarrow> (agent_record \<times> version_record) reg_action" where
  "clone_agent sha256 platform now hexes tenant source new_name who =
     andthen (require_agent tenant source) (\<lambda>src.
     andthen (get_version source (ag_current_version src)) (\<lambda>v.
       case v of
         None \<Rightarrow> raising (UnknownAgentError source)
       | Some sv \<Rightarrow>
           create_agent sha256 platform now hexes tenant
             \<lparr>na_name = new_name, na_description = ag_description src, na_purpose = ag_purpose src,
              na_type = ag_type src, na_config = vr_config sv, na_by = who, na_project = None,
              na_owner = None, na_tags = ag_tags src,
              na_changelog = Some (''Cloned from '' @ repr_str source @ '' (v''
                @ int_text (ag_current_version src) @ '')'')\<rparr>))"

section \<open>Derived artifacts and the deployment's marks\<close>

definition require_version :: "string \<Rightarrow> int \<Rightarrow> version_record reg_action" where
  "require_version agent version =
     andthen (get_version agent version) (\<lambda>v.
       case v of None \<Rightarrow> raising (VersionNotFoundError agent version) | Some w \<Rightarrow> ret w)"

definition record_iac_artifact ::
  "string \<Rightarrow> string \<Rightarrow> int \<Rightarrow> string \<Rightarrow> string \<Rightarrow> string list option \<Rightarrow> pyval option \<Rightarrow> unit reg_action" where
  "record_iac_artifact tenant agent version iac_version iac_key modules report =
     andthen (require_agent tenant agent) (\<lambda>_.
     andthen (require_version agent version) (\<lambda>_.
       record_derived_fields agent version
         ([(''iac_version'', PStr iac_version), (''iac_s3_key'', PStr iac_key)]
          @ (case modules of None \<Rightarrow> [] | Some ms \<Rightarrow> [(''iac_modules'', PList (map PStr ms))])
          @ (case report of None \<Rightarrow> [] | Some r \<Rightarrow> [(''iac_validation_report'', PStr (json_dumps r))]))))"

definition record_evaluation_result :: "string \<Rightarrow> string \<Rightarrow> int \<Rightarrow> pyval \<Rightarrow> unit reg_action" where
  "record_evaluation_result tenant agent version result =
     andthen (require_agent tenant agent) (\<lambda>_.
     andthen (require_version agent version) (\<lambda>_.
       record_derived_fields agent version [(''evaluation_result'', PStr (json_dumps result))]))"

text \<open>Every write of an agent goes through the record that was read: \<open>model_copy\<close> and \<open>put_item\<close>.\<close>

definition stamped :: "string \<Rightarrow> stamp \<Rightarrow> agent_record \<Rightarrow> agent_record" where
  "stamped who now r = r\<lparr>ag_updated_by := who, ag_updated_at := now\<rparr>"

definition amend_agent ::
  "string \<Rightarrow> string \<Rightarrow> (agent_record \<Rightarrow> agent_record) \<Rightarrow> agent_record reg_action" where
  "amend_agent tenant agent f =
     andthen (require_agent tenant agent) (\<lambda>r. andthen (put_agent (f r)) (\<lambda>_. ret (f r)))"

definition record_deployment_trigger ::
  "stamp \<Rightarrow> string \<Rightarrow> string \<Rightarrow> int \<Rightarrow> string \<Rightarrow> string \<Rightarrow> agent_record reg_action" where
  "record_deployment_trigger now tenant agent version deployment who =
     andthen (require_agent tenant agent) (\<lambda>r.
     andthen (require_version agent version) (\<lambda>_.
     andthen (record_derived_fields agent version [(''deployment_id'', PStr deployment)]) (\<lambda>_.
       let r' = stamped who now (r\<lparr>ag_status := ''DEPLOYING''\<rparr>)
       in andthen (put_agent r') (\<lambda>_. ret r'))))"

definition fallback_status :: "string \<Rightarrow> agent_record \<Rightarrow> string" where
  "fallback_status bad r = (if ag_live_version r \<noteq> None then ''ACTIVE'' else bad)"

definition mark_deployment_blocked :: "stamp \<Rightarrow> string \<Rightarrow> string \<Rightarrow> string \<Rightarrow> agent_record reg_action" where
  "mark_deployment_blocked now tenant agent who =
     amend_agent tenant agent (\<lambda>r. stamped who now (r\<lparr>ag_status := fallback_status ''BLOCKED'' r\<rparr>))"

definition mark_deployment_active :: "stamp \<Rightarrow> string \<Rightarrow> string \<Rightarrow> int \<Rightarrow> string \<Rightarrow> agent_record reg_action" where
  "mark_deployment_active now tenant agent live who =
     amend_agent tenant agent (\<lambda>r. stamped who now (r\<lparr>ag_status := ''ACTIVE'', ag_live_version := Some live\<rparr>))"

definition mark_deployment_failed :: "stamp \<Rightarrow> string \<Rightarrow> string \<Rightarrow> string \<Rightarrow> agent_record reg_action" where
  "mark_deployment_failed now tenant agent who =
     amend_agent tenant agent (\<lambda>r. stamped who now (r\<lparr>ag_status := fallback_status ''FAILED'' r\<rparr>))"

section \<open>Credentials\<close>

definition provision_api_key :: "stamp \<Rightarrow> string \<Rightarrow> string \<Rightarrow> string \<Rightarrow> string \<Rightarrow> agent_record reg_action" where
  "provision_api_key now tenant agent arn who =
     amend_agent tenant agent (\<lambda>r. stamped who now (r\<lparr>ag_key_arn := Some arn\<rparr>))"

definition rotate_api_key ::
  "stamp \<Rightarrow> string \<Rightarrow> string \<Rightarrow> string \<Rightarrow> int \<Rightarrow> string \<Rightarrow> agent_record reg_action" where
  "rotate_api_key now tenant agent new_arn expires who =
     andthen (require_agent tenant agent) (\<lambda>r.
       case ag_key_arn r of
         None \<Rightarrow> raising (NoApiKeyProvisionedError agent)
       | Some old \<Rightarrow>
           (let r' = stamped who now (r\<lparr>ag_prev_key_arn := Some old, ag_prev_key_expires := Some expires,
                                       ag_key_arn := Some new_arn, ag_rotated_at := Some now\<rparr>)
            in andthen (put_agent r') (\<lambda>_. ret r')))"

definition revoke_api_key :: "stamp \<Rightarrow> string \<Rightarrow> string \<Rightarrow> string \<Rightarrow> agent_record reg_action" where
  "revoke_api_key now tenant agent who =
     amend_agent tenant agent (\<lambda>r. stamped who now (r\<lparr>ag_key_revoked := True\<rparr>))"

definition set_jwt_config ::
  "stamp \<Rightarrow> string \<Rightarrow> string \<Rightarrow> string option \<Rightarrow> string option \<Rightarrow> string option \<Rightarrow> string \<Rightarrow> string
     \<Rightarrow> agent_record reg_action" where
  "set_jwt_config now tenant agent issuer audience jwks claim who =
     amend_agent tenant agent (\<lambda>r. stamped who now
       (r\<lparr>ag_jwt_issuer := issuer, ag_jwt_audience := audience, ag_jwt_jwks_url := jwks,
         ag_jwt_tenant_claim := Some claim\<rparr>))"

section \<open>New versions\<close>

record identity_updates =
  iu_name :: "string option"
  iu_description :: "string option"
  iu_purpose :: "string option"
  iu_tags :: "(string \<times> string) list option"

definition no_identity_updates :: identity_updates where
  "no_identity_updates = \<lparr>iu_name = None, iu_description = None, iu_purpose = None, iu_tags = None\<rparr>"

definition apply_identity :: "identity_updates \<Rightarrow> agent_record \<Rightarrow> agent_record" where
  "apply_identity iu r =
     r\<lparr>ag_name := get_or (ag_name r) (iu_name iu),
       ag_description := get_or (ag_description r) (iu_description iu),
       ag_purpose := get_or (ag_purpose r) (iu_purpose iu), ag_tags := get_or (ag_tags r) (iu_tags iu)\<rparr>"

definition create_new_version ::
  "(string \<Rightarrow> string) \<Rightarrow> stamp \<Rightarrow> string \<Rightarrow> string \<Rightarrow> pyval \<Rightarrow> string \<Rightarrow> string \<Rightarrow> int option
     \<Rightarrow> agent_record option \<Rightarrow> identity_updates \<Rightarrow> string option \<Rightarrow> (agent_record \<times> version_record) reg_action" where
  "create_new_version sha256 now tenant agent cfg who change rolled_from existing iu status =
     andthen (case existing of None \<Rightarrow> require_agent tenant agent | Some r \<Rightarrow> ret r) (\<lambda>r.
     andthen (validate_no_cycle tenant (Some agent) cfg) (\<lambda>_.
       let n = ag_current_version r + 1;
           v = build_version sha256 now agent (get_or (ag_name r) (iu_name iu)) (ag_type r) n cfg who change rolled_from;
           r' = stamped who now ((apply_identity iu r)\<lparr>ag_current_version := n, ag_status := get_or (ag_status r) status\<rparr>)
       in andthen (write_version v) (\<lambda>_. andthen (put_agent r') (\<lambda>_. ret (r', v)))))"

definition update_agent ::
  "(string \<Rightarrow> string) \<Rightarrow> stamp \<Rightarrow> string \<Rightarrow> string \<Rightarrow> pyval \<Rightarrow> string \<Rightarrow> string \<Rightarrow> identity_updates
     \<Rightarrow> (agent_record \<times> version_record) reg_action" where
  "update_agent sha256 now tenant agent cfg who change iu =
     create_new_version sha256 now tenant agent cfg who change None None iu (Some ''DRAFT'')"

definition already_current :: "string \<Rightarrow> int \<Rightarrow> string" where
  "already_current agent n =
     ''Version '' @ int_text n @ '' is already the current version of '' @ repr_str agent"

definition rollback_agent ::
  "(string \<Rightarrow> string) \<Rightarrow> stamp \<Rightarrow> string \<Rightarrow> string \<Rightarrow> int \<Rightarrow> string \<Rightarrow> string
     \<Rightarrow> (agent_record \<times> version_record) reg_action" where
  "rollback_agent sha256 now tenant agent target reason who =
     andthen (require_agent tenant agent) (\<lambda>r.
     andthen (require_version agent target) (\<lambda>v.
       if target = ag_current_version r then raising (InvalidRollbackError (already_current agent target))
       else create_new_version sha256 now tenant agent (vr_config v) who reason (Some (ag_current_version r))
              (Some r) no_identity_updates None))"

section \<open>Soft delete and the project lifecycle\<close>

definition soft_delete_agent :: "stamp \<Rightarrow> string \<Rightarrow> string \<Rightarrow> string \<Rightarrow> agent_record reg_action" where
  "soft_delete_agent now tenant agent who =
     amend_agent tenant agent (\<lambda>r. stamped who now (r\<lparr>ag_status := ''DEPRECATED''\<rparr>))"

definition lifecycle_field :: "string \<Rightarrow> (string \<times> pyval) list" where
  "lifecycle_field l = [(''project_lifecycle_status'', PStr l)]"

definition with_lifecycle :: "string \<Rightarrow> stamp \<Rightarrow> string \<Rightarrow> agent_record \<Rightarrow> agent_record" where
  "with_lifecycle who now l r = stamped who now (r\<lparr>ag_lifecycle := Some l\<rparr>)"

definition set_project_draft_after_edit :: "stamp \<Rightarrow> string \<Rightarrow> string \<Rightarrow> string \<Rightarrow> agent_record reg_action" where
  "set_project_draft_after_edit now tenant agent who =
     andthen (require_agent tenant agent) (\<lambda>r.
     andthen (record_derived_fields agent (ag_current_version r) (lifecycle_field ''draft'')) (\<lambda>_.
     andthen (put_agent (with_lifecycle who now ''draft'' r)) (\<lambda>_. ret (with_lifecycle who now ''draft'' r))))"

definition find_version_with_status :: "string \<Rightarrow> string \<Rightarrow> version_record option reg_action" where
  "find_version_with_status agent l =
     andthen (list_versions agent) (\<lambda>vs. ret (find (\<lambda>v. vr_lifecycle v = Some l) vs))"

definition publish_agent :: "stamp \<Rightarrow> string \<Rightarrow> string \<Rightarrow> string \<Rightarrow> agent_record reg_action" where
  "publish_agent now tenant agent who =
     andthen (require_agent tenant agent) (\<lambda>r.
     andthen (find_version_with_status agent ''published'') (\<lambda>previous.
     andthen (case previous of
                None \<Rightarrow> ret ()
              | Some p \<Rightarrow>
                  (if vr_version p \<noteq> ag_current_version r
                   then record_derived_fields agent (vr_version p) (lifecycle_field ''deprecated'') else ret ())) (\<lambda>_.
     andthen (record_derived_fields agent (ag_current_version r) (lifecycle_field ''published'')) (\<lambda>_.
     andthen (put_agent (with_lifecycle who now ''published'' r)) (\<lambda>_. ret (with_lifecycle who now ''published'' r))))))"

definition archive_agent :: "stamp \<Rightarrow> string \<Rightarrow> string \<Rightarrow> string \<Rightarrow> agent_record reg_action" where
  "archive_agent now tenant agent who =
     andthen (require_agent tenant agent) (\<lambda>r.
     andthen (record_derived_fields agent (ag_current_version r) (lifecycle_field ''archived'')) (\<lambda>_.
     andthen (put_agent (with_lifecycle who now ''archived'' r)) (\<lambda>_. ret (with_lifecycle who now ''archived'' r))))"

definition rollback_project_agent ::
  "stamp \<Rightarrow> string \<Rightarrow> string \<Rightarrow> int \<Rightarrow> string \<Rightarrow> agent_record reg_action" where
  "rollback_project_agent now tenant agent target who =
     andthen (require_agent tenant agent) (\<lambda>r.
     andthen (require_version agent target) (\<lambda>_.
       if target = ag_current_version r then raising (InvalidRollbackError (already_current agent target))
       else
         andthen (record_derived_fields agent (ag_current_version r) (lifecycle_field ''deprecated'')) (\<lambda>_.
         andthen (record_derived_fields agent target (lifecycle_field ''published'')) (\<lambda>_.
           let r' = with_lifecycle who now ''published'' (r\<lparr>ag_current_version := target\<rparr>)
           in andthen (put_agent r') (\<lambda>_. ret r')))))"

fun delete_versions :: "string \<Rightarrow> version_record list \<Rightarrow> unit reg_action" where
  "delete_versions agent [] = ret ()"
| "delete_versions agent (v # vs) = andthen (delete_version agent (vr_version v)) (\<lambda>_. delete_versions agent vs)"

definition hard_delete_agent :: "string \<Rightarrow> string \<Rightarrow> unit reg_action" where
  "hard_delete_agent tenant agent =
     andthen (require_agent tenant agent) (\<lambda>r.
     andthen (list_versions agent) (\<lambda>vs.
     andthen (delete_versions agent vs) (\<lambda>_.
       modifies (\<lambda>s. s\<lparr>rg_agents := AList.delete (tenant, ag_id r) (rg_agents s)\<rparr>))))"

section \<open>Reading changes nothing\<close>

lemma registry_reads [frame_intros]:
  fixes obs :: "registry \<Rightarrow> 'b"
  shows "stays_in (same obs) (read_record row)" "stays_in (same obs) (from_row vrow)"
    "stays_in (same obs) (get_version a n)" "stays_in (same obs) (list_versions a)"
    "stays_in (same obs) (get_agent tn a)" "stays_in (same obs) (require_agent tn a)"
    "stays_in (same obs) (require_version a n)" "stays_in (same obs) (read_records rows)"
    "stays_in (same obs) (list_agents tn st pg c)" "stays_in (same obs) (graph_entries ex rs)"
    "stays_in (same obs) (referencing_among skip refers rs)" "stays_in (same obs) (build_sub_agent_graph tn ex)"
    "stays_in (same obs) (list_agents_by_project tn pj)" "stays_in (same obs) (get_agent_in_project tn pj a)"
    "stays_in (same obs) (validate_no_cycle tn ag cfg)" "stays_in (same obs) (find_version_with_status a l)"
proof -
  show rr: "stays_in (same obs) (read_record row)" for row
    unfolding read_record_def Let_def
    by (cases row) (auto intro!: frame_intros)
  show fr: "stays_in (same obs) (from_row vrow)" for vrow
    unfolding from_row_def Let_def
    by (cases vrow) (auto intro!: frame_intros)
  show gv: "stays_in (same obs) (get_version a n)" for a n
    unfolding get_version_def by (intro frame_intros fr)
  have "stays_in (same obs) (all_rows rs)" for rs
    by (induction rs) (auto intro!: frame_intros fr)
  then show lv: "stays_in (same obs) (list_versions a)" for a
    unfolding list_versions_def by (intro frame_intros)
  show ga: "stays_in (same obs) (get_agent tn a)" for tn a
    unfolding get_agent_def by (intro frame_intros rr)
  show "stays_in (same obs) (require_agent tn a)"
    unfolding require_agent_def by (intro frame_intros ga)
  show "stays_in (same obs) (require_version a n)"
    unfolding require_version_def by (intro frame_intros gv)
  show rs: "stays_in (same obs) (read_records rows)" for rows
    by (induction rows) (auto intro!: frame_intros rr)
  show la: "stays_in (same obs) (list_agents tn st pg c)" for tn st pg c
    unfolding list_agents_def by (intro frame_intros rs)
  show ge: "stays_in (same obs) (graph_entries ex rs)" for ex rs
    by (induction ex rs rule: graph_entries.induct) (auto intro!: frame_intros gv)
  show "stays_in (same obs) (referencing_among skip refers rs)" for skip refers rs
    by (induction skip refers rs rule: referencing_among.induct) (auto intro!: frame_intros gv)
  have "stays_in (same obs) (agent_pages m tn (graph_entries ex) c)" for m tn ex c
    by (induction m tn "graph_entries ex" c rule: agent_pages.induct) (auto intro!: frame_intros la ge)
  then show bg: "stays_in (same obs) (build_sub_agent_graph tn ex)" for tn ex
    by (simp add: stays_in_def build_sub_agent_graph_def all_agents_def del: agent_pages.simps)
  show "stays_in (same obs) (list_agents_by_project tn pj)"
    unfolding list_agents_by_project_def by (intro frame_intros rs)
  show "stays_in (same obs) (get_agent_in_project tn pj a)"
    unfolding get_agent_in_project_def by (intro frame_intros ga)
  have "stays_in (same obs) (case x of ValidGraph \<Rightarrow> ret () | InvalidGraph r \<Rightarrow> raising (CircularDependencyError r))" for x
    by (cases x) (auto intro!: frame_intros)
  then show "stays_in (same obs) (validate_no_cycle tn ag cfg)"
    unfolding validate_no_cycle_def by (intro frame_intros bg)
  show "stays_in (same obs) (find_version_with_status a l)"
    unfolding find_version_with_status_def by (intro frame_intros lv)
qed

lemma reading_state: "m s = (r, t) \<Longrightarrow> stays_in (same (\<lambda>s. s)) m \<Longrightarrow> t = s"
  by (metis same_def stays_inD)

section \<open>Versions are immutable\<close>

lemma keeps_same: "stays_in (same rg_versions) m \<Longrightarrow> stays_in keeps_snapshots m"
  by (auto simp: stays_in_def same_def keeps_snapshots_def)

lemma put_agent_keeps [frame_intros]: "stays_in keeps_snapshots (put_agent r)"
  by (simp add: put_agent_def stays_in_def modifies_def keeps_snapshots_def)

lemma amend_agent_keeps [frame_intros]: "stays_in keeps_snapshots (amend_agent tn a f)"
  unfolding amend_agent_def by (intro frame_intros) (rule keeps_same, intro frame_intros)

lemma reads_keep [frame_intros]:
  "stays_in keeps_snapshots (require_agent tn a)" "stays_in keeps_snapshots (require_version a n)"
  "stays_in keeps_snapshots (validate_no_cycle tn ag cfg)" "stays_in keeps_snapshots (find_version_with_status a l)"
  by (rule keeps_same, intro frame_intros)+

lemma allocate_keeps [frame_intros]: "stays_in keeps_snapshots (allocate_agent_id name hs)"
  by (induction hs) (auto intro!: frame_intros)

lemma create_keeps [frame_intros]:
  "stays_in keeps_snapshots (create_agent sha platform now hs tn na)"
  "stays_in keeps_snapshots (create_new_version sha now tn a cfg who change rf ex iu st)"
  unfolding create_agent_def create_new_version_def Let_def by (intro frame_intros)+

lemma operations_keep:
  "stays_in keeps_snapshots (clone_agent sha platform now hs tn src nm who)"
  "stays_in keeps_snapshots (update_agent sha now tn a cfg who change iu)"
  "stays_in keeps_snapshots (rollback_agent sha now tn a target reason who)"
  "stays_in keeps_snapshots (record_iac_artifact tn a n x y ms rep)"
  "stays_in keeps_snapshots (record_evaluation_result tn a n res)"
  "stays_in keeps_snapshots (record_deployment_trigger now tn a n d who)"
  "stays_in keeps_snapshots (mark_deployment_blocked now tn a who)"
  "stays_in keeps_snapshots (mark_deployment_active now tn a n who)"
  "stays_in keeps_snapshots (mark_deployment_failed now tn a who)"
  "stays_in keeps_snapshots (provision_api_key now tn a arn who)"
  "stays_in keeps_snapshots (rotate_api_key now tn a arn e who)"
  "stays_in keeps_snapshots (revoke_api_key now tn a who)"
  "stays_in keeps_snapshots (set_jwt_config now tn a i au jw cl who)"
  "stays_in keeps_snapshots (soft_delete_agent now tn a who)"
  "stays_in keeps_snapshots (set_project_draft_after_edit now tn a who)"
  "stays_in keeps_snapshots (publish_agent now tn a who)"
  "stays_in keeps_snapshots (archive_agent now tn a who)"
  "stays_in keeps_snapshots (rollback_project_agent now tn a target who)"
  unfolding clone_agent_def update_agent_def rollback_agent_def record_iac_artifact_def
    record_evaluation_result_def record_deployment_trigger_def mark_deployment_blocked_def
    mark_deployment_active_def mark_deployment_failed_def provision_api_key_def rotate_api_key_def
    revoke_api_key_def set_jwt_config_def soft_delete_agent_def set_project_draft_after_edit_def
    publish_agent_def archive_agent_def rollback_project_agent_def Let_def
  by (intro frame_intros)+

section \<open>What the operations do\<close>

text \<open>A record as a reader of the table gets it.\<close>

definition readable :: "registry \<Rightarrow> string \<Rightarrow> string \<Rightarrow> agent_record \<Rightarrow> bool" where
  "readable s tenant agent r \<longleftrightarrow>
     (\<exists>r0. map_of (rg_agents s) (tenant, agent) = Some (Whole r0) \<and>
           r = r0\<lparr>ag_type := normalise_agent_type (ag_type r0)\<rparr> \<and> valid_record r)"

lemma require_agent_Inr: "require_agent tenant agent s = (Inr r, t) \<longleftrightarrow> t = s \<and> readable s tenant agent r"
  by (auto simp: require_agent_def get_agent_def read_record_def readable_def prog_simps Let_def
      split: option.splits agent_row.splits sum.splits prod.splits if_splits)

lemma require_version_Inr: "require_version agent n s = (Inr v, t) \<Longrightarrow> t = s"
  by (erule reading_state) (intro frame_intros)

lemma validate_no_cycle_state: "validate_no_cycle tn ag cfg s = (q, t) \<Longrightarrow> t = s"
  by (erule reading_state) (intro frame_intros)

lemma put_agent_Inr: "put_agent r s = (q, t) \<longleftrightarrow> q = Inr () \<and>
    t = s\<lparr>rg_agents := AList.update (ag_tenant r, ag_id r) (Whole r) (rg_agents s)\<rparr>"
  by (auto simp: put_agent_def modifies_def)

lemma write_version_Inr:
  "write_version v s = (Inr u, t) \<longleftrightarrow> map_of (rg_versions s) (vr_agent v, vr_version v) = None \<and>
     t = s\<lparr>rg_versions := AList.update (vr_agent v, vr_version v) (FullVersion v) (rg_versions s)\<rparr>"
  by (auto simp: write_version_def prog_simps)

text \<open>The record of a row carries the row's key.\<close>

definition keyed :: "registry \<Rightarrow> bool" where
  "keyed s \<longleftrightarrow> (\<forall>k r. map_of (rg_agents s) k = Some (Whole r) \<longrightarrow> (ag_tenant r, ag_id r) = k)"

lemma readable_key: "keyed s \<Longrightarrow> readable s tenant agent r \<Longrightarrow> ag_tenant r = tenant \<and> ag_id r = agent"
  by (auto simp: keyed_def readable_def)

lemma update_agent_effect:
  assumes "update_agent sha now tenant agent cfg who change iu s = (Inr (r', v), t)" and "keyed s"
  shows "\<exists>r. readable s tenant agent r \<and>
     vr_version v = ag_current_version r + 1 \<and> vr_config v = cfg \<and>
     vr_hash v = Some (compute_config_hash sha cfg) \<and>
     map_of (rg_versions s) (agent, vr_version v) = None \<and>
     map_of (rg_versions t) = (map_of (rg_versions s))((agent, vr_version v) \<mapsto> FullVersion v) \<and>
     map_of (rg_agents t) = (map_of (rg_agents s))((tenant, agent) \<mapsto> Whole r') \<and>
     ag_current_version r' = vr_version v \<and> ag_status r' = ''DRAFT'' \<and> ag_live_version r' = ag_live_version r"
proof -
  obtain r where r: "readable s tenant agent r"
    and rest: "(let n = ag_current_version r + 1;
           v = build_version sha now agent (get_or (ag_name r) (iu_name iu)) (ag_type r) n cfg who change None;
           r' = stamped who now ((apply_identity iu r)\<lparr>ag_current_version := n, ag_status := get_or (ag_status r) (Some ''DRAFT'')\<rparr>)
       in andthen (write_version v) (\<lambda>_. andthen (put_agent r') (\<lambda>_. ret (r', v)))) s = (Inr (r', v), t)"
    using assms(1)
    by (auto simp: update_agent_def create_new_version_def require_agent_Inr elim!: andthen_InrE
        dest!: validate_no_cycle_state)
  from readable_key [OF assms(2) r] have k: "ag_tenant r = tenant" "ag_id r = agent" by simp_all
  show ?thesis
    using rest k
    by (intro exI [of _ r] conjI r)
      (auto simp: Let_def write_version_Inr put_agent_Inr ret_def build_version_def stamped_def apply_identity_def
        get_or_def config_hash_copies AList.update_conv' elim!: andthen_InrE)
qed

text \<open>After a rollback in place to an older version, the next version number is taken.\<close>

lemma update_taken:
  assumes "readable s tenant agent r" and "map_of (rg_versions s) (agent, ag_current_version r + 1) = Some row"
  shows "\<exists>e. update_agent sha now tenant agent cfg who change iu s = (Inl e, s)"
proof (cases "validate_no_cycle tenant (Some agent) cfg s")
  case (Pair q t)
  then have t: "t = s" by (rule validate_no_cycle_state)
  have ra: "require_agent tenant agent s = (Inr r, s)" using assms(1) by (simp add: require_agent_Inr)
  show ?thesis
  proof (cases q)
    case (Inl e)
    with Pair t ra show ?thesis
      by (intro exI [of _ e]) (simp add: update_agent_def create_new_version_def andthen_def)
  next
    case (Inr x)
    with Pair t ra assms(2) show ?thesis
      by (intro exI [of _ "VersionAlreadyExistsError agent (ag_current_version r + 1)"])
        (simp add: update_agent_def create_new_version_def andthen_def Let_def write_version_def build_version_def
          prog_simps)
  qed
qed

lemma record_derived_state:
  assumes "record_derived_fields a n fs s = (Inr x, t)"
  shows "rg_agents t = rg_agents s" and "map_of (rg_versions s) k \<noteq> None \<Longrightarrow> map_of (rg_versions t) k \<noteq> None"
  using assms by (auto simp: record_derived_fields_def prog_simps AList.update_conv' split: if_splits)

lemma rollback_blocks_updates:
  assumes "rollback_project_agent now tenant agent target who s = (Inr r', t)" and "keyed s"
    and "map_of (rg_versions s) (agent, target + 1) \<noteq> None"
  shows "\<exists>e. update_agent sha now' tenant agent cfg who' change iu t = (Inl e, t)"
proof -
  obtain r u w where r: "readable s tenant agent r"
    and d1: "record_derived_fields agent (ag_current_version r) (lifecycle_field ''deprecated'') s = (Inr (), u)"
    and d2: "record_derived_fields agent target (lifecycle_field ''published'') u = (Inr (), w)"
    and r': "r' = with_lifecycle who now ''published'' (r\<lparr>ag_current_version := target\<rparr>)"
    and t: "t = w\<lparr>rg_agents := AList.update (ag_tenant r', ag_id r') (Whole r') (rg_agents w)\<rparr>"
    using assms(1)
    by (auto simp: rollback_project_agent_def require_agent_Inr Let_def put_agent_Inr ret_def raising_def
        elim!: andthen_InrE dest!: require_version_Inr split: if_splits)
  from readable_key [OF assms(2) r] r' have k: "ag_tenant r' = tenant" "ag_id r' = agent"
    by (simp_all add: with_lifecycle_def stamped_def)
  have "valid_record r'" and ty: "ag_type r' = ag_type r" and cur: "ag_current_version r' = target"
    using r r' by (auto simp: readable_def valid_record_def with_lifecycle_def stamped_def lifecycle_statuses_def)
  have "readable t tenant agent (r'\<lparr>ag_type := normalise_agent_type (ag_type r')\<rparr>)"
    using \<open>valid_record r'\<close> t k
    by (auto simp: readable_def AList.update_conv' valid_record_def agent_types_def normalise_agent_type_def
        legacy_agent_types_def)
  moreover have "map_of (rg_versions t) (agent, target + 1) \<noteq> None"
    using assms(3) record_derived_state(2) [OF d1] record_derived_state(2) [OF d2] t by simp
  ultimately show ?thesis
    using cur by (auto intro!: update_taken)
qed

text \<open>Blocking or failing a deployment never touches the live version.\<close>

lemma amend_agent_effect:
  assumes "amend_agent tenant agent f s = (Inr r', t)"
  obtains r where "readable s tenant agent r" "r' = f r"
    "t = s\<lparr>rg_agents := AList.update (ag_tenant (f r), ag_id (f r)) (Whole (f r)) (rg_agents s)\<rparr>"
  using assms by (auto simp: amend_agent_def require_agent_Inr put_agent_Inr ret_def elim!: andthen_InrE)

lemma amend_agent_Inl: "amend_agent tenant agent f s = (Inl e, t) \<Longrightarrow> t = s"
  by (auto simp: amend_agent_def put_agent_Inr ret_def elim!: andthen_cases
      dest: reading_state [OF _ registry_reads(6)])

lemma mark_blocked_or_failed_keeps_live:
  assumes "mark_deployment_blocked now tenant agent who s = (Inr r', t) \<or>
           mark_deployment_failed now tenant agent who s = (Inr r', t)" and "keyed s"
  shows "\<exists>r. readable s tenant agent r \<and> ag_live_version r' = ag_live_version r \<and>
     ag_current_version r' = ag_current_version r \<and> rg_versions t = rg_versions s \<and>
     map_of (rg_agents t) = (map_of (rg_agents s))((tenant, agent) \<mapsto> Whole r') \<and>
     (ag_live_version r \<noteq> None \<longrightarrow> ag_status r' = ''ACTIVE'') \<and>
     (ag_live_version r = None \<longrightarrow> ag_status r' \<in> {''BLOCKED'', ''FAILED''})"
  using assms(1) unfolding mark_deployment_blocked_def mark_deployment_failed_def
proof (elim disjE amend_agent_effect)
qed (use readable_key [OF assms(2)] in
      \<open>auto simp: stamped_def fallback_status_def AList.update_conv'\<close>)

end
