(* ===== verification/RegistryGraph.thy ===== *)
theory RegistryGraph
  imports RegistryStore
begin

text \<open>
  The sub-agent graph the registry checks is the whole graph of the tenant: the pages of
  \<open>list_agents\<close> together are every row, so an accepted update keeps the tenant's graph free of
  cycles.
\<close>

section \<open>The order of the keys\<close>

lemma text_le_refl [simp]: "text_le x x"
  by (induction x) auto

lemma text_le_total: "text_le x y \<or> text_le y x"
proof (induction x y rule: text_le.induct)
  case (3 x xs y ys)
  then show ?case
    by (cases "(of_char x :: nat) < of_char y"; cases "(of_char y :: nat) < of_char x")
      (auto simp: not_less dest!: antisym)
qed simp_all

lemma text_le_antisym: "text_le x y \<Longrightarrow> text_le y x \<Longrightarrow> x = y"
  by (induction x y rule: text_le.induct) (auto simp: neq_Nil_conv elim: text_le.elims)

lemma text_le_trans: "text_le x y \<Longrightarrow> text_le y z \<Longrightarrow> text_le x z"
proof (induction x y arbitrary: z rule: text_le.induct)
  case (3 x xs y ys)
  then show ?case by (cases z) auto
qed simp_all

definition key_less :: "string \<times> 'a \<Rightarrow> string \<times> 'a \<Rightarrow> bool" where
  "key_less x y \<longleftrightarrow> text_le (fst x) (fst y) \<and> fst x \<noteq> fst y"

lemma key_less_trans: "key_less x y \<Longrightarrow> key_less y z \<Longrightarrow> key_less x z"
  unfolding key_less_def using text_le_trans text_le_antisym by metis

lemma set_insert_key [simp]: "set (insert_key kv xs) = insert kv (set xs)"
  by (induction xs) auto

lemma insert_key_sorted:
  "sorted_wrt key_less xs \<Longrightarrow> fst kv \<notin> fst ` set xs \<Longrightarrow> sorted_wrt key_less (insert_key kv xs)"
proof (induction xs)
  case (Cons x xs)
  show ?case
  proof (cases "text_le (fst kv) (fst x)")
    case True
    with Cons have "key_less kv x" by (auto simp: key_less_def)
    with True Cons show ?thesis by (auto intro: key_less_trans)
  next
    case False
    with Cons text_le_total have "key_less x kv" by (auto simp: key_less_def)
    with False Cons show ?thesis by auto
  qed
qed simp

lemma sort_items_sorted: "distinct (map fst kvs) \<Longrightarrow> sorted_wrt key_less (sort_items kvs)"
proof (induction kvs)
  case (Cons kv kvs)
  then have "fst kv \<notin> fst ` set (sort_items kvs)" by simp
  with Cons show ?case
    using insert_key_sorted [of "sort_items kvs" kv] by (simp add: sort_items_def)
qed (simp add: sort_items_def)

lemma after_last:
  assumes "sorted_wrt key_less (xs @ [x] @ ys)"
  shows "filter (\<lambda>(a, _). \<not> text_le a (fst x)) (xs @ [x] @ ys) = ys"
proof -
  have "text_le (fst y) (fst x)" if "y \<in> set xs" for y
    using assms that by (auto simp: sorted_wrt_append key_less_def)
  then have "filter (\<lambda>(a, _). \<not> text_le a (fst x)) xs = []"
    by (auto simp: filter_empty_conv)
  moreover have "\<not> text_le (fst y) (fst x)" if "y \<in> set ys" for y
    using assms that text_le_antisym by (auto simp: sorted_wrt_append key_less_def)
  then have "filter (\<lambda>(a, _). \<not> text_le a (fst x)) ys = ys"
    by (auto simp: filter_id_conv)
  ultimately show ?thesis by (cases x) simp
qed

section \<open>The pages are all rows\<close>

lemma read_records_append:
  "read_records (xs @ ys) s = (case read_records xs s of
      (Inl e, t) \<Rightarrow> (Inl e, t)
    | (Inr as, t) \<Rightarrow> (case read_records ys t of (Inl e, u) \<Rightarrow> (Inl e, u) | (Inr bs, u) \<Rightarrow> (Inr (as @ bs), u)))"
  by (induction xs arbitrary: s) (auto simp: prog_simps split: prod.splits sum.splits)

lemma graph_entries_append:
  "graph_entries ex (xs @ ys) s = (case graph_entries ex xs s of
      (Inl e, t) \<Rightarrow> (Inl e, t)
    | (Inr as, t) \<Rightarrow> (case graph_entries ex ys t of (Inl e, u) \<Rightarrow> (Inl e, u) | (Inr bs, u) \<Rightarrow> (Inr (as @ bs), u)))"
  by (induction xs arbitrary: s) (auto simp: prog_simps split: prod.splits sum.splits)

lemma list_agents_Inr:
  assumes "list_agents tenant None n cursor s = (Inr (records, next), t)"
  shows "t = s \<and> read_records (map snd (take n (after_cursor cursor (tenant_rows tenant s)))) s = (Inr records, s)
     \<and> next = (let page = take n (after_cursor cursor (tenant_rows tenant s))
               in if page \<noteq> [] \<and> length page = n then Some (fst (last page)) else None)"
proof -
  let ?page = "take n (after_cursor cursor (tenant_rows tenant s))"
  obtain q u where q: "read_records (map snd ?page) s = (q, u)" by (cases "read_records (map snd ?page) s")
  then have "u = s" by (rule reading_state) (intro frame_intros)
  with q assms show ?thesis
    by (cases q) (auto simp: list_agents_def prog_simps case_prod_unfold Let_def split: if_splits)
qed

text \<open>
  A reader of pages: it only reads, and on a longer list it gives what it gives on the parts. Then
  the walk over the pages gives what the reader gives on all the rows at once.
\<close>

locale page_reader =
  fixes f :: "agent_record list \<Rightarrow> 'a list reg_action"
  assumes reads_only: "stays_in (same (\<lambda>s. s)) (f rs)"
    and reads_parts: "f (xs @ ys) s = (case f xs s of
      (Inl e, t) \<Rightarrow> (Inl e, t)
    | (Inr as, t) \<Rightarrow> (case f ys t of (Inl e, u) \<Rightarrow> (Inl e, u) | (Inr bs, u) \<Rightarrow> (Inr (as @ bs), u)))"
begin

lemma pages_all:
  assumes "sorted_wrt key_less (tenant_rows tenant s)"
  shows "agent_pages n tenant f cursor s = (Inr g, t) \<Longrightarrow>
     after_cursor cursor (tenant_rows tenant s) = drop k (tenant_rows tenant s) \<Longrightarrow>
     \<exists>recs. read_records (map snd (drop k (tenant_rows tenant s))) s = (Inr recs, s)
          \<and> f recs s = (Inr g, s)"
proof (induction n arbitrary: cursor g k t)
  case 0
  then show ?case by (simp add: raising_def)
next
  case (Suc n)
  let ?rows = "tenant_rows tenant s"
  let ?page = "take 100 (drop k ?rows)"
  from Suc(2) obtain rn u where rn: "list_agents tenant None 100 cursor s = (Inr rn, u)"
    "(case rn of (records, next) \<Rightarrow> andthen (f records) (\<lambda>g.
       case next of
         None \<Rightarrow> ret g
       | Some c \<Rightarrow> andthen (agent_pages n tenant f (Some c)) (\<lambda>h. ret (g @ h)))) u = (Inr g, t)"
    unfolding agent_pages.simps by (elim andthen_InrE)
  then obtain records nxt where l: "list_agents tenant None 100 cursor s = (Inr (records, nxt), u)"
    and rest: "andthen (f records) (\<lambda>g.
       case nxt of
         None \<Rightarrow> ret g
       | Some c \<Rightarrow> andthen (agent_pages n tenant f (Some c)) (\<lambda>h. ret (g @ h))) u = (Inr g, t)"
    by (cases rn) auto
  from list_agents_Inr [OF l] Suc(3) have u: "u = s"
    and rr: "read_records (map snd ?page) s = (Inr records, s)"
    and nx: "nxt = (if ?page \<noteq> [] \<and> length ?page = 100 then Some (fst (last ?page)) else None)"
    by (simp_all add: Let_def)
  from rest u obtain g1 v where g1: "f records s = (Inr g1, v)"
    and tl: "(case nxt of
         None \<Rightarrow> ret g1
       | Some c \<Rightarrow> andthen (agent_pages n tenant f (Some c)) (\<lambda>h. ret (g1 @ h))) v = (Inr g, t)"
    by (auto elim!: andthen_InrE)
  have v: "v = s" using g1 by (rule reading_state) (rule reads_only)
  show ?case
  proof (cases nxt)
    case None
    with nx have "length ?page < 100" by (cases "?page = []") (auto split: if_splits)
    then have "drop k ?rows = ?page" by simp
    with rr g1 v tl None show ?thesis by (auto simp: ret_def)
  next
    case (Some c)
    with nx have full: "length ?page = 100" "c = fst (last ?page)" by (auto split: if_splits)
    then have ne: "?page \<noteq> []" by auto
    have "?rows = take k ?rows @ ?page @ drop (k + 100) ?rows"
      by (metis append_take_drop_id drop_drop add.commute)
    moreover have "(take k ?rows @ butlast ?page) @ [last ?page] @ drop (k + 100) ?rows
        = take k ?rows @ (butlast ?page @ [last ?page]) @ drop (k + 100) ?rows" by simp
    ultimately have split: "?rows = (take k ?rows @ butlast ?page) @ [last ?page] @ drop (k + 100) ?rows"
      by (simp only: append_butlast_last_id [OF ne])
    then have "after_cursor (Some c) ?rows = drop (k + 100) ?rows"
      using after_last [of "take k ?rows @ butlast ?page" "last ?page" "drop (k + 100) ?rows"] assms full(2)
      by (simp add: after_cursor_def)
    moreover from tl Some v obtain h w where h: "agent_pages n tenant f (Some c) s = (Inr h, w)" "g = g1 @ h"
      by (auto simp: ret_def elim!: andthen_InrE)
    ultimately obtain recs where recs: "read_records (map snd (drop (k + 100) ?rows)) s = (Inr recs, s)"
      "f recs s = (Inr h, s)"
      using Suc(1) by blast
    have "map snd (drop k ?rows) = map snd ?page @ map snd (drop (k + 100) ?rows)"
      by (metis append_take_drop_id drop_drop add.commute map_append)
    with rr recs g1 v h show ?thesis
      by (intro exI [of _ "records @ recs"]) (simp add: read_records_append reads_parts)
  qed
qed

lemma all_agents_Inr:
  assumes "all_agents tenant f s = (Inr g, t)" and "sorted_wrt key_less (tenant_rows tenant s)"
  shows "\<exists>recs. read_records (map snd (tenant_rows tenant s)) s = (Inr recs, s) \<and> f recs s = (Inr g, s)"
  using pages_all [OF assms(2), of "Suc (length (rg_agents s))" None g t 0] assms(1)
  by (auto simp: all_agents_def after_cursor_def simp del: agent_pages.simps)

end

interpretation graph_reader: page_reader "graph_entries ex" for ex
  by unfold_locales (intro frame_intros, rule graph_entries_append)

lemma referencing_append:
  "referencing_among skip refers (xs @ ys) s = (case referencing_among skip refers xs s of
      (Inl e, t) \<Rightarrow> (Inl e, t)
    | (Inr as, t) \<Rightarrow> (case referencing_among skip refers ys t of
        (Inl e, u) \<Rightarrow> (Inl e, u) | (Inr bs, u) \<Rightarrow> (Inr (as @ bs), u)))"
  by (induction xs arbitrary: s) (auto simp: prog_simps split: prod.splits sum.splits option.splits)

interpretation reference_reader: page_reader "referencing_among skip refers" for skip refers
  by unfold_locales (intro frame_intros, rule referencing_append)

section \<open>The tenant's graph\<close>

definition current_subs :: "registry \<Rightarrow> string \<Rightarrow> agent_record \<Rightarrow> string list" where
  "current_subs s agent r =
     (case map_of (rg_versions s) (agent, ag_current_version r) of
        Some (FullVersion v) \<Rightarrow> sub_agent_ids (vr_config v)
      | _ \<Rightarrow> [])"

text \<open>Who delegates to whom: the sub-agents in the current version of each agent of the tenant.\<close>

definition tenant_edges :: "string \<Rightarrow> registry \<Rightarrow> (string \<times> string) set" where
  "tenant_edges tenant s =
     {(a, u). \<exists>r. map_of (rg_agents s) (tenant, a) = Some (Whole r) \<and> u \<in> set (current_subs s a r)}"

definition tables_ok :: "registry \<Rightarrow> bool" where
  "tables_ok s \<longleftrightarrow> keyed s \<and> distinct (map fst (rg_agents s))"

lemma tenant_rows_key:
  assumes "tables_ok s"
  shows "distinct (map fst [(a, row). ((t, a), row) \<leftarrow> rg_agents s, t = tenant])"
proof -
  have "distinct (map fst [(a, row). ((t, a), row) \<leftarrow> xs, t = tenant]) \<and>
        fst ` set [(a, row). ((t, a), row) \<leftarrow> xs, t = tenant] = {a. (tenant, a) \<in> fst ` set xs}"
    if "distinct (map fst xs)" for xs :: "((string \<times> string) \<times> agent_row) list"
    using that
  proof (induction xs)
    case (Cons x xs)
    obtain t a row where x: "x = ((t, a), row)" by (metis prod.collapse)
    from Cons have "(t, a) \<notin> fst ` set xs" and "distinct (map fst xs)" by (auto simp: x)
    with Cons show ?case by (auto simp: x image_iff)
  qed simp
  with assms show ?thesis by (simp add: tables_ok_def)
qed

lemma tenant_rows_sorted: "tables_ok s \<Longrightarrow> sorted_wrt key_less (tenant_rows tenant s)"
  unfolding tenant_rows_def by (intro sort_items_sorted tenant_rows_key)

lemma set_tenant_rows: "tables_ok s \<Longrightarrow> (a, row) \<in> set (tenant_rows tenant s) \<longleftrightarrow> map_of (rg_agents s) (tenant, a) = Some row"
  by (auto simp: tenant_rows_def tables_ok_def)

lemma read_records_set:
  "read_records rows s = (Inr recs, t) \<Longrightarrow>
     (\<forall>row \<in> set rows. \<exists>r0. row = Whole r0 \<and> r0\<lparr>ag_type := normalise_agent_type (ag_type r0)\<rparr> \<in> set recs) \<and>
     (\<forall>r \<in> set recs. \<exists>r0. Whole r0 \<in> set rows \<and> r = r0\<lparr>ag_type := normalise_agent_type (ag_type r0)\<rparr>)"
proof (induction rows arbitrary: recs s t)
  case (Cons row rows)
  then obtain r rs u where r: "read_record row s = (Inr r, u)" "read_records rows u = (Inr rs, t)" "recs = r # rs"
    by (auto simp: ret_def elim!: andthen_InrE)
  then have "\<exists>r0. row = Whole r0 \<and> r = r0\<lparr>ag_type := normalise_agent_type (ag_type r0)\<rparr>"
    by (auto simp: read_record_def ret_def raising_def Let_def split: agent_row.splits if_splits)
  with Cons(1) [OF r(2)] r(3) show ?case by auto
qed (simp add: ret_def)

lemma get_version_subs:
  "get_version a n s = (Inr v, t) \<Longrightarrow>
     (case v of None \<Rightarrow> [] | Some w \<Rightarrow> sub_agent_ids (vr_config w)) =
     (case map_of (rg_versions s) (a, n) of Some (FullVersion v) \<Rightarrow> sub_agent_ids (vr_config v) | _ \<Rightarrow> []) \<and> t = s"
  by (auto simp: get_version_def from_row_def prog_simps Let_def
      split: option.splits version_row.splits sum.splits prod.splits if_splits)

lemma graph_entries_shape:
  "graph_entries ex recs s = (Inr g, t) \<Longrightarrow>
     g = [(ag_id r, current_subs s (ag_id r) r). r \<leftarrow> recs, Some (ag_id r) \<noteq> ex]"
proof (induction recs arbitrary: g t)
  case (Cons r rs)
  show ?case
  proof (cases "Some (ag_id r) = ex")
    case True
    with Cons show ?thesis by simp
  next
    case False
    with Cons(2) obtain v h u w where v: "get_version (ag_id r) (ag_current_version r) s = (Inr v, u)"
      and h: "graph_entries ex rs u = (Inr h, w)"
      and g: "g = (ag_id r, (case v of None \<Rightarrow> [] | Some w \<Rightarrow> sub_agent_ids (vr_config w))) # h"
      by (auto simp: ret_def elim!: andthen_InrE)
    from get_version_subs [OF v] Cons(1) h g False show ?thesis by (simp add: current_subs_def)
  qed
qed (simp add: ret_def)

lemma subs_unique:
  assumes "\<And>x. x \<in> set g \<Longrightarrow> fst x = a \<Longrightarrow> snd x = us" and "a \<in> fst ` set g"
  shows "subs g a = us"
proof -
  from assms(2) obtain vs where "map_of g a = Some vs" by (cases "map_of g a") (auto simp: map_of_eq_None_iff)
  with assms(1) show ?thesis by (auto simp: subs_def dest: map_of_SomeD)
qed

lemma build_graph_edges:
  assumes ok: "tables_ok s" and b: "build_sub_agent_graph tenant (Some agent) s = (Inr g, t)" and "a \<noteq> agent"
  shows "set (subs g a) = {u. (a, u) \<in> tenant_edges tenant s}"
proof -
  obtain recs where recs: "read_records (map snd (tenant_rows tenant s)) s = (Inr recs, s)"
    and g: "graph_entries (Some agent) recs s = (Inr g, s)"
    using graph_reader.all_agents_Inr [OF b [unfolded build_sub_agent_graph_def] tenant_rows_sorted [OF ok]] by blast
  note shape = graph_entries_shape [OF g]
  note rs = read_records_set [OF recs]
  have rec_of: "\<exists>r0. map_of (rg_agents s) (tenant, ag_id r) = Some (Whole r0) \<and>
      r = r0\<lparr>ag_type := normalise_agent_type (ag_type r0)\<rparr>" if "r \<in> set recs" for r
  proof -
    from rs that obtain r0 b where r0: "(b, Whole r0) \<in> set (tenant_rows tenant s)"
      "r = r0\<lparr>ag_type := normalise_agent_type (ag_type r0)\<rparr>" by fastforce
    then have m: "map_of (rg_agents s) (tenant, b) = Some (Whole r0)" using set_tenant_rows [OF ok] by blast
    with ok have "ag_id r0 = b" by (auto simp: tables_ok_def keyed_def)
    with m r0 show ?thesis by auto
  qed
  have cs: "current_subs s b (r\<lparr>ag_type := x\<rparr>) = current_subs s b r" for b r x
    by (simp add: current_subs_def)
  show ?thesis
  proof (cases "\<exists>r0. map_of (rg_agents s) (tenant, a) = Some (Whole r0)")
    case True
    then obtain r0 where r0: "map_of (rg_agents s) (tenant, a) = Some (Whole r0)" by blast
    then have id: "ag_id r0 = a" using ok by (auto simp: tables_ok_def keyed_def)
    have "Whole r0 \<in> set (map snd (tenant_rows tenant s))"
      using r0 set_tenant_rows [OF ok] by force
    with rs have r1: "r0\<lparr>ag_type := normalise_agent_type (ag_type r0)\<rparr> \<in> set recs" by fastforce
    have "(ag_id r, current_subs s (ag_id r) r) \<in> set g" if "r \<in> set recs" "ag_id r \<noteq> agent" for r
      using that by (auto simp: shape)
    from this [OF r1] have "(a, current_subs s a r0) \<in> set g"
      using id \<open>a \<noteq> agent\<close> cs by simp
    then have "a \<in> fst ` set g" by (metis fst_conv image_eqI)
    moreover have "snd x = current_subs s a r0" if "x \<in> set g" "fst x = a" for x
      using that shape rec_of r0 cs by fastforce
    ultimately have "subs g a = current_subs s a r0" by (rule subs_unique [rotated])
    with r0 show ?thesis by (auto simp: tenant_edges_def)
  next
    case False
    then have "a \<notin> fst ` set g" using shape rec_of by force
    then have "map_of g a = None" by (simp add: map_of_eq_None_iff)
    then have "subs g a = []" by (simp add: subs_def)
    with False show ?thesis by (auto simp: tenant_edges_def)
  qed
qed

text \<open>Editing an agent through \<open>update_agent\<close> keeps the tenant's graph free of cycles.\<close>

lemma validate_no_cycle_Inr:
  assumes "validate_no_cycle tenant (Some agent) cfg s = (Inr u, t)" and "sub_agent_ids cfg \<noteq> []"
  shows "\<exists>g v. build_sub_agent_graph tenant (Some agent) s = (Inr g, v) \<and>
     validate_graph agent (sub_agent_ids cfg) g = ValidGraph"
  using assms by (auto simp: validate_no_cycle_def get_or_def ret_def raising_def elim!: andthen_InrE
      split: validation.splits)

lemma tenant_edges_update:
  assumes "tables_ok s"
    and "map_of (rg_versions s) (agent, n) = None"
    and "map_of (rg_versions t) = (map_of (rg_versions s))((agent, n) \<mapsto> FullVersion v)"
    and "map_of (rg_agents t) = (map_of (rg_agents s))((tenant, agent) \<mapsto> Whole r')"
    and "ag_current_version r' = n" and "vr_config v = cfg"
  shows "tenant_edges tenant t =
     {(a, u). (a \<noteq> agent \<and> (a, u) \<in> tenant_edges tenant s) \<or> (a = agent \<and> u \<in> set (sub_agent_ids cfg))}"
  using assms(3-6) by (auto simp: tenant_edges_def current_subs_def split: if_splits)

lemma acyclic_mono: "acyclic E \<Longrightarrow> F \<subseteq> E \<Longrightarrow> acyclic F"
  by (rule acyclic_subset)

lemma update_keeps_acyclic:
  assumes "update_agent sha now tenant agent cfg who change iu s = (Inr (r', v), t)"
    and "tables_ok s" and "acyclic (tenant_edges tenant s)"
  shows "acyclic (tenant_edges tenant t)"
proof -
  have keyed: "keyed s" using assms(2) by (simp add: tables_ok_def)
  have e: "map_of (rg_versions s) (agent, vr_version v) = None"
    "map_of (rg_versions t) = (map_of (rg_versions s))((agent, vr_version v) \<mapsto> FullVersion v)"
    "map_of (rg_agents t) = (map_of (rg_agents s))((tenant, agent) \<mapsto> Whole r')"
    "ag_current_version r' = vr_version v" "vr_config v = cfg"
    using update_agent_effect [OF assms(1) keyed] by auto
  note edges = tenant_edges_update [OF assms(2) e]
  show ?thesis
  proof (cases "sub_agent_ids cfg = []")
    case True
    then have "tenant_edges tenant t \<subseteq> tenant_edges tenant s" unfolding edges by auto
    with assms(3) show ?thesis by (rule acyclic_mono)
  next
    case False
    from assms(1) obtain u where "validate_no_cycle tenant (Some agent) cfg s = (Inr (), u)"
      by (auto simp: update_agent_def create_new_version_def require_agent_Inr elim!: andthen_InrE)
    from validate_no_cycle_Inr [OF this False] obtain g w where
      g: "build_sub_agent_graph tenant (Some agent) s = (Inr g, w)"
      and ok: "validate_graph agent (sub_agent_ids cfg) g = ValidGraph" by blast
    let ?g = "with_edges agent [] g"
    have others: "(a, x) \<in> edges g \<longleftrightarrow> (a, x) \<in> tenant_edges tenant s" if "a \<noteq> agent" for a x
      using build_graph_edges [OF assms(2) g that] by auto
    have sub: "subs (with_edges agent us g) a = (if a = agent then us else subs g a)" for us a
      by (simp add: subs_def with_edges_def)
    have "edges ?g \<subseteq> tenant_edges tenant s"
      using others by (auto simp: sub split: if_splits)
    with assms(3) have "acyclic (edges ?g)" by (rule acyclic_mono)
    moreover have "with_edges agent (sub_agent_ids cfg) ?g = (agent, sub_agent_ids cfg) # (agent, []) # g"
      by (simp add: with_edges_def)
    moreover have "edges ((agent, sub_agent_ids cfg) # (agent, []) # g) = edges (with_edges agent (sub_agent_ids cfg) g)"
      by (auto simp: edges_def subs_def with_edges_def)
    ultimately have "acyclic (edges (with_edges agent (sub_agent_ids cfg) g))"
      using validate_keeps_acyclic [of ?g agent "sub_agent_ids cfg"] ok
      by (metis validate_graph_iff)
    moreover have "tenant_edges tenant t = edges (with_edges agent (sub_agent_ids cfg) g)"
      unfolding edges using others by (auto simp: edges_def sub split: if_splits)
    ultimately show ?thesis by simp
  qed
qed

end
