(* ===== verification/Auth.thy ===== *)
theory Auth
  imports RuntimeState
begin

text \<open>
  services/agent-runtime/auth.py: the API key and JWT providers and the chain that tries them.
  Secret values and JWKS documents are cached in the container for five minutes; the revoked
  flag is read from the record the caller just fetched. PyJWT (header parsing, signature and
  claim checks) and the secret and JWKS fetches are services.
\<close>

definition cache_ttl_us :: int where "cache_ttl_us = 300 * 1000000"
definition jwks_cache_ttl_us :: int where "jwks_cache_ttl_us = 300 * 1000000"

record auth_context =
  au_tenant :: string
  au_agent :: string
  au_principal :: string
  au_scopes :: "pyval list"
  au_method :: string

definition fresh :: "int \<Rightarrow> int \<Rightarrow> ('a \<times> int) option \<Rightarrow> 'a option" where
  "fresh now ttl c = (case c of None \<Rightarrow> None | Some (x, t) \<Rightarrow> if now - t < ttl then Some x else None)"

definition get_secret_value :: "'w services \<Rightarrow> string \<Rightarrow> ('w, string) action" where
  "get_secret_value sv arn =
     andthen (now_us sv) (\<lambda>now.
     andthen (reads (\<lambda>s. rt_keys s arn)) (\<lambda>cached.
       case fresh now cache_ttl_us cached of
         Some v \<Rightarrow> ret v
       | None \<Rightarrow>
           andthen (external (sv_secret sv arn)) (\<lambda>v.
           andthen (now_us sv) (\<lambda>later.
           andthen (modifies (\<lambda>s. s\<lparr>rt_keys := (rt_keys s)(arn \<mapsto> (v, later))\<rparr>)) (\<lambda>_. ret v)))))"

definition fetch_jwks :: "'w services \<Rightarrow> string \<Rightarrow> ('w, pyval) action" where
  "fetch_jwks sv url =
     andthen (now_us sv) (\<lambda>now.
     andthen (reads (\<lambda>s. rt_jwks_cache s url)) (\<lambda>cached.
       case fresh now jwks_cache_ttl_us cached of
         Some v \<Rightarrow> ret v
       | None \<Rightarrow>
           andthen (external (sv_jwks sv url)) (\<lambda>v.
           andthen (now_us sv) (\<lambda>later.
           andthen (modifies (\<lambda>s. s\<lparr>rt_jwks_cache := (rt_jwks_cache s)(url \<mapsto> (v, later))\<rparr>)) (\<lambda>_. ret v)))))"

text \<open>\<open>hmac.compare_digest\<close> on text refuses characters beyond ASCII.\<close>

definition ascii_text :: "string \<Rightarrow> bool" where
  "ascii_text = list_all (\<lambda>c. (of_char c :: nat) < 128)"

definition compare_digest :: "string \<Rightarrow> string \<Rightarrow> ('w, bool) action" where
  "compare_digest a b = (if ascii_text a \<and> ascii_text b then ret (a = b) else raising (TypeError ''compare_digest''))"

section \<open>API keys\<close>

definition bearer :: string where "bearer = ''Bearer ''"

definition presented :: "string \<Rightarrow> string" where
  "presented authorization =
     py_strip (if starts_with bearer authorization then drop (length bearer) authorization else authorization)"

definition api_key_context :: "agent_record \<Rightarrow> auth_context" where
  "api_key_context rec =
     \<lparr>au_tenant = ag_tenant rec, au_agent = ag_id rec, au_principal = ''api_key_caller'',
      au_scopes = [PStr ''agent:invoke''], au_method = ''api_key''\<rparr>"

definition api_key_authenticate ::
  "'w services \<Rightarrow> string \<Rightarrow> agent_record \<Rightarrow> ('w, auth_context option) action" where
  "api_key_authenticate sv authorization rec =
     (if \<not> starts_with bearer authorization then ret None
      else if presented authorization = [] then ret None
      else if ag_key_revoked rec then ret None
      else if \<not> truthy (ag_key_arn rec) then ret None
      else
        andthen (get_secret_value sv (get_or [] (ag_key_arn rec))) (\<lambda>current.
        andthen (compare_digest (presented authorization) current) (\<lambda>same.
          if same then ret (Some (api_key_context rec))
          else
            andthen (now_us sv) (\<lambda>now.
              if truthy (ag_prev_key_arn rec) \<and> now < get_or 0 (ag_prev_key_expires rec) * 1000000
              then
                andthen (get_secret_value sv (get_or [] (ag_prev_key_arn rec))) (\<lambda>prev.
                andthen (compare_digest (presented authorization) prev) (\<lambda>same_prev.
                  ret (if same_prev then Some (api_key_context rec) else None)))
              else ret None))))"

section \<open>JWTs\<close>

definition is_dict :: "pyval \<Rightarrow> bool" where
  "is_dict v = (case v of PDict _ \<Rightarrow> True | _ \<Rightarrow> False)"

text \<open>
  \<open>next((k for k in jwks.get("keys", []) if k.get("kid") == kid), None)\<close>; a document or a key
  that is no dict raises.
\<close>

fun find_key :: "pyval \<Rightarrow> pyval list \<Rightarrow> pyexn + pyval option" where
  "find_key kid [] = Inr None"
| "find_key kid (k # ks) =
     (if \<not> is_dict k then Inl (AttributeError ''get'')
      else if dict_get ''kid'' k = kid then Inr (Some k) else find_key kid ks)"

definition signing_key :: "pyval \<Rightarrow> pyval \<Rightarrow> pyexn + pyval option" where
  "signing_key kid jwks =
     (case jwks of
        PDict kvs \<Rightarrow>
          (case map_of kvs ''keys'' of
             None \<Rightarrow> Inr None
           | Some (PList ks) \<Rightarrow> find_key kid ks
           | Some _ \<Rightarrow> Inl (TypeError ''keys''))
      | _ \<Rightarrow> Inl (AttributeError ''get''))"

definition jwt_scopes :: "pyval \<Rightarrow> pyval list" where
  "jwt_scopes claims =
     (case dict_get ''scope'' claims of
        PStr t \<Rightarrow> map PStr (py_split t)
      | _ \<Rightarrow> (case dict_get ''scopes'' claims of PList xs \<Rightarrow> xs | _ \<Rightarrow> [PStr ''agent:invoke'']))"

definition jwt_principal :: "pyval \<Rightarrow> string" where
  "jwt_principal claims =
     py_str (if py_truthy (dict_get ''sub'' claims) then dict_get ''sub'' claims
             else if py_truthy (dict_get ''client_id'' claims) then dict_get ''client_id'' claims
             else PStr ''jwt_caller'')"

definition jwt_context :: "agent_record \<Rightarrow> pyval \<Rightarrow> auth_context option" where
  "jwt_context rec claims =
     (let claim = (if truthy (ag_jwt_tenant_claim rec) then get_or [] (ag_jwt_tenant_claim rec) else ''tenant_id'');
          tenant = dict_get claim claims
      in if \<not> py_truthy tenant then None
         else Some \<lparr>au_tenant = py_str tenant, au_agent = ag_id rec, au_principal = jwt_principal claims,
                    au_scopes = jwt_scopes claims, au_method = ''jwt''\<rparr>)"

definition jwt_authenticate ::
  "'w services \<Rightarrow> string \<Rightarrow> agent_record \<Rightarrow> ('w, auth_context option) action" where
  "jwt_authenticate sv authorization rec =
     (if \<not> starts_with ''Bearer ey'' authorization then ret None
      else if \<not> truthy (ag_jwt_jwks_url rec) \<or> \<not> truthy (ag_jwt_issuer rec) then ret None
      else
        (let token = presented authorization;
             url = get_or [] (ag_jwt_jwks_url rec);
             issuer = get_or [] (ag_jwt_issuer rec)
         in if \<not> starts_with ''https://'' url then ret None
            else
              (case sv_jwt_header sv token of
                 None \<Rightarrow> ret None
               | Some header \<Rightarrow>
                   andthen (catching (andthen (fetch_jwks sv url) (\<lambda>d. ret (Some d))) (\<lambda>_. ret None)) (\<lambda>doc.
                     case doc of
                       None \<Rightarrow> ret None
                     | Some jwks \<Rightarrow>
                         (case signing_key (dict_get ''kid'' header) jwks of
                            Inl e \<Rightarrow> raising e
                          | Inr None \<Rightarrow> ret None
                          | Inr (Some key) \<Rightarrow>
                              andthen (reads (\<lambda>s. sv_jwt_decode sv token key issuer (ag_jwt_audience rec) (rt_world s)))
                                (\<lambda>claims. ret (case claims of None \<Rightarrow> None | Some c \<Rightarrow> jwt_context rec c)))))))"

section \<open>The chain\<close>

fun chain_authenticate ::
  "(string \<Rightarrow> agent_record \<Rightarrow> ('w, auth_context option) action) list \<Rightarrow> string \<Rightarrow> agent_record
     \<Rightarrow> ('w, auth_context option) action" where
  "chain_authenticate [] authorization rec = ret None"
| "chain_authenticate (p # ps) authorization rec =
     andthen (p authorization rec) (\<lambda>ctx.
       case ctx of Some c \<Rightarrow> ret (Some c) | None \<Rightarrow> chain_authenticate ps authorization rec)"

definition auth_chain :: "'w services \<Rightarrow> string \<Rightarrow> agent_record \<Rightarrow> ('w, auth_context option) action" where
  "auth_chain sv = chain_authenticate [api_key_authenticate sv, jwt_authenticate sv]"

section \<open>The provider interface\<close>

text \<open>
  A provider that accepts a caller speaks for the record's own agent, accepts only a bearer
  credential, and touches nothing but its caches. Any chain of such providers does the same.
\<close>

locale auth_provider =
  fixes provide :: "string \<Rightarrow> agent_record \<Rightarrow> ('w, auth_context option) action"
  assumes provide_agent: "provide a rec s = (Inr (Some c), t) \<Longrightarrow> au_agent c = ag_id rec"
    and provide_bearer: "provide a rec s = (Inr (Some c), t) \<Longrightarrow> starts_with bearer a"
    and provide_quiet: "stays_in (same (\<lambda>s. (rt_invocations s, rt_llm_calls s, rt_reviews s, rt_agents s))) (provide a rec)"
begin

lemma accepted:
  assumes "provide a rec s = (Inr (Some c), t)"
  shows "au_agent c = ag_id rec \<and> starts_with bearer a \<and> rt_invocations t = rt_invocations s
         \<and> rt_llm_calls t = rt_llm_calls s \<and> rt_reviews t = rt_reviews s \<and> rt_agents t = rt_agents s"
  using provide_agent [OF assms] provide_bearer [OF assms] same_outcome [OF provide_quiet assms] by simp

end

lemma quiet_auth:
  "stays_in (same (\<lambda>s. (rt_invocations s, rt_llm_calls s, rt_reviews s, rt_agents s))) (get_secret_value sv arn)"
  "stays_in (same (\<lambda>s. (rt_invocations s, rt_llm_calls s, rt_reviews s, rt_agents s))) (fetch_jwks sv arn)"
  unfolding get_secret_value_def fetch_jwks_def
  by (intro frame_intros; simp add: world_free_def)+

lemma quiet_compare [frame_intros]: "stays_in (same obs) (compare_digest a b)"
  unfolding compare_digest_def by (intro frame_intros)

lemma presented_bearer: "starts_with ''Bearer ey'' a \<Longrightarrow> starts_with bearer a"
  unfolding starts_with_prefix bearer_def prefix_def by auto

lemma jwt_context_agent: "jwt_context rec claims = Some c \<Longrightarrow> au_agent c = ag_id rec"
  by (auto simp: jwt_context_def Let_def split: if_splits)

interpretation api_key_provider: auth_provider "api_key_authenticate sv" for sv
proof unfold_locales
  fix a rec s c t
  assume ok: "api_key_authenticate sv a rec s = (Inr (Some c), t)"
  then show "au_agent c = ag_id rec"
    by (auto simp: api_key_authenticate_def ret_def api_key_context_def elim!: andthen_InrE split: if_splits)
  from ok show "starts_with bearer a"
    by (auto simp: api_key_authenticate_def ret_def split: if_splits)
next
  show "stays_in (same (\<lambda>s. (rt_invocations s, rt_llm_calls s, rt_reviews s, rt_agents s)))
          (api_key_authenticate sv a rec)" for a rec
    unfolding api_key_authenticate_def by (intro frame_intros quiet_auth)
qed

interpretation jwt_provider: auth_provider "jwt_authenticate sv" for sv
proof unfold_locales
  fix a rec s c t
  assume ok: "jwt_authenticate sv a rec s = (Inr (Some c), t)"
  then show "au_agent c = ag_id rec"
    by (auto simp: jwt_authenticate_def ret_def raising_def Let_def reads_def
        elim!: andthen_InrE split: if_splits option.splits sum.splits)
      (erule jwt_context_agent)
  from ok show "starts_with bearer a"
    by (auto simp: jwt_authenticate_def ret_def presented_bearer split: if_splits)
next
  show "stays_in (same (\<lambda>s. (rt_invocations s, rt_llm_calls s, rt_reviews s, rt_agents s)))
          (jwt_authenticate sv a rec)" for a rec
    unfolding jwt_authenticate_def Let_def by (intro frame_intros quiet_auth)
qed

lemma chain_Cons_provider:
  assumes "auth_provider p" and "auth_provider (chain_authenticate ps)"
  shows "auth_provider (chain_authenticate (p # ps))"
proof
  fix a rec s c t
  assume ok: "chain_authenticate (p # ps) a rec s = (Inr (Some c), t)"
  then obtain x u where x: "p a rec s = (Inr x, u)"
      "(case x of Some c \<Rightarrow> ret (Some c) | None \<Rightarrow> chain_authenticate ps a rec) u = (Inr (Some c), t)"
    by (auto elim: andthen_InrE)
  show "au_agent c = ag_id rec"
    using x auth_provider.provide_agent [OF assms(1)] auth_provider.provide_agent [OF assms(2)]
    by (cases x) (auto simp: ret_def)
  show "starts_with bearer a"
    using x auth_provider.provide_bearer [OF assms(1)] auth_provider.provide_bearer [OF assms(2)]
    by (cases x) (auto simp: ret_def)
next
  show "stays_in (same (\<lambda>s. (rt_invocations s, rt_llm_calls s, rt_reviews s, rt_agents s)))
          (chain_authenticate (p # ps) a rec)" for a rec
    unfolding chain_authenticate.simps
    by (intro frame_intros auth_provider.provide_quiet [OF assms(1)] auth_provider.provide_quiet [OF assms(2)])
qed

lemma empty_chain_provider: "auth_provider (chain_authenticate [])"
  by unfold_locales (auto simp: ret_def stays_in_def same_def)

interpretation chain: auth_provider "auth_chain sv" for sv
  unfolding auth_chain_def
  by (intro chain_Cons_provider empty_chain_provider api_key_provider.auth_provider_axioms
      jwt_provider.auth_provider_axioms)

text \<open>A revoked key is refused before any secret is read.\<close>

lemma revoked_refused: "ag_key_revoked rec \<Longrightarrow> api_key_authenticate sv a rec = ret None"
  by (simp add: api_key_authenticate_def)

lemma jwt_unconfigured: "\<not> truthy (ag_jwt_issuer rec) \<Longrightarrow> jwt_authenticate sv a rec = ret None"
  by (simp add: jwt_authenticate_def)

text \<open>
  A value is known for a secret when the container's cache holds it or Secrets Manager can
  answer it. A caller whose API key is accepted presented such a value: the current secret's, or
  before its expiry the previous secret's.
\<close>

definition secret_known :: "'w services \<Rightarrow> 'w runtime \<Rightarrow> string \<Rightarrow> string \<Rightarrow> bool" where
  "secret_known sv s arn v \<longleftrightarrow>
     (\<exists>t. rt_keys s arn = Some (v, t)) \<or> (\<exists>w w'. sv_secret sv arn w = (Inr v, w'))"

lemma get_secret_value_known:
  assumes "get_secret_value sv arn s = (Inr v, t)"
  shows "secret_known sv s arn v \<and> (\<forall>a x. secret_known sv t a x \<longrightarrow> secret_known sv s a x)"
  using assms
  by (auto simp: get_secret_value_def fresh_def now_us_def prog_simps external_def secret_known_def
      split: option.splits prod.splits if_splits sum.splits)

lemma compare_digest_state: "compare_digest a b s = (r, t) \<Longrightarrow> t = s"
  by (auto simp: compare_digest_def ret_def raising_def split: if_splits)

lemma compare_digest_Inr: "compare_digest a b s = (Inr x, t) \<Longrightarrow> x = (a = b) \<and> t = s"
  by (auto simp: compare_digest_def ret_def raising_def split: if_splits)

lemma api_key_accepted:
  assumes "api_key_authenticate sv a rec s = (Inr (Some c), t)"
  shows "\<not> ag_key_revoked rec \<and> presented a \<noteq> [] \<and> c = api_key_context rec \<and>
     (secret_known sv s (get_or [] (ag_key_arn rec)) (presented a) \<or>
      (\<exists>w. sv_clock sv w < get_or 0 (ag_prev_key_expires rec) * 1000000 \<and>
           secret_known sv s (get_or [] (ag_prev_key_arn rec)) (presented a)))"
proof -
  have pre: "\<not> ag_key_revoked rec" "presented a \<noteq> []" "starts_with bearer a" "truthy (ag_key_arn rec)"
    using assms by (auto simp: api_key_authenticate_def ret_def split: if_splits)
  then obtain current u where c: "get_secret_value sv (get_or [] (ag_key_arn rec)) s = (Inr current, u)"
    and rest: "(if presented a = current then ret (Some (api_key_context rec))
          else
            andthen (now_us sv) (\<lambda>now.
              if truthy (ag_prev_key_arn rec) \<and> now < get_or 0 (ag_prev_key_expires rec) * 1000000
              then
                andthen (get_secret_value sv (get_or [] (ag_prev_key_arn rec))) (\<lambda>prev.
                andthen (compare_digest (presented a) prev) (\<lambda>same_prev.
                  ret (if same_prev then Some (api_key_context rec) else None)))
              else ret None)) u = (Inr (Some c), t)"
    using assms by (auto simp: api_key_authenticate_def elim!: andthen_InrE dest!: compare_digest_Inr split: if_splits)
  note k = get_secret_value_known [OF c]
  show ?thesis
  proof (cases "presented a = current")
    case True
    with rest k pre show ?thesis by (auto simp: ret_def)
  next
    case False
    with rest obtain prev v where "sv_clock sv (rt_world u) < get_or 0 (ag_prev_key_expires rec) * 1000000"
      "get_secret_value sv (get_or [] (ag_prev_key_arn rec)) u = (Inr prev, v)" "presented a = prev"
      "c = api_key_context rec"
      by (auto simp: now_us_def ret_def elim!: andthen_InrE dest!: compare_digest_Inr split: if_splits)
        (auto simp: reads_def)
    with get_secret_value_known [OF this(2)] k pre show ?thesis by blast
  qed
qed

end
