(* ===== verification/RuntimeMain.thy ===== *)
theory RuntimeMain
  imports Orchestrator Auth
begin

text \<open>
  services/agent-runtime/main.py: the routes of the container and the middleware in front of
  them. A request passes authentication, tenant isolation, the rate limits and the budget before
  its handler runs; every refusal is an audited response.
\<close>

record app =
  ap_env :: environment
  ap_config :: pyval
  ap_orchestrator :: orchestrator
  ap_memory_ids :: "string \<Rightarrow> string list"

record chat_request =
  cr_message :: string
  cr_session :: string
  cr_user :: "string option"

datatype endpoint = Chat chat_request | Resume string | Health | ConfigPage | OtherPath string

record request =
  rq_endpoint :: endpoint
  rq_method :: string
  rq_authorization :: string
  rq_source_ip :: string

text \<open>A response: its status, and either the detail of an error, a turn, or a plain JSON body.\<close>

datatype body = Detail string | Turn turn_result | Json pyval

record response =
  rs_status :: int
  rs_body :: body

definition path_of :: "endpoint \<Rightarrow> string" where
  "path_of e =
     (case e of
        Chat _ \<Rightarrow> ''/chat''
      | Resume rid \<Rightarrow> ''/approvals/'' @ rid @ ''/resume''
      | Health \<Rightarrow> ''/health''
      | ConfigPage \<Rightarrow> ''/config''
      | OtherPath p \<Rightarrow> p)"

definition auth_exempt_paths :: "string list" where
  "auth_exempt_paths = [''/health'', ''/config'']"

definition respond :: "int \<Rightarrow> body \<Rightarrow> ('w, response) action" where
  "respond status b = ret \<lparr>rs_status = status, rs_body = b\<rparr>"

section \<open>Configuration values\<close>

definition config_get :: "app \<Rightarrow> string \<Rightarrow> pyval" where
  "config_get app k = (case ap_config app of PDict d \<Rightarrow> want d k PNone | _ \<Rightarrow> PNone)"

definition as_opt_int :: "pyval \<Rightarrow> ('s, int option) prog" where
  "as_opt_int v = (case v of PInt i \<Rightarrow> ret (Some i) | PNone \<Rightarrow> ret None | _ \<Rightarrow> bad_type)"

definition as_opt_rat :: "'w services \<Rightarrow> pyval \<Rightarrow> ('s, rat option) prog" where
  "as_opt_rat sv v =
     (case v of
        PInt i \<Rightarrow> ret (Some (of_int i))
      | PFloat t \<Rightarrow> ret (Some (sv_float_value sv t))
      | PNone \<Rightarrow> ret None
      | _ \<Rightarrow> bad_type)"

section \<open>The middleware\<close>

definition action_of :: "request \<Rightarrow> string" where
  "action_of rq = rq_method rq @ '' '' @ path_of (rq_endpoint rq)"

definition refuse ::
  "'w services \<Rightarrow> request \<Rightarrow> string \<Rightarrow> string \<Rightarrow> string \<Rightarrow> string \<Rightarrow> (string \<times> pyval) list \<Rightarrow> int \<Rightarrow> string
     \<Rightarrow> ('w, response) action" where
  "refuse sv rq tenant etype agent who extra status detail =
     andthen (write_audit_event sv tenant etype agent who (action_of rq) agent ''denied'' (rq_source_ip rq) extra)
       (\<lambda>_. respond status (Detail detail))"

definition metered :: "endpoint \<Rightarrow> bool" where
  "metered e \<longleftrightarrow> path_of e = ''/chat'' \<or> starts_with ''/approvals/'' (path_of e)"

text \<open>The budget gate, then the handler.\<close>

definition budget_gate ::
  "'w services \<Rightarrow> app \<Rightarrow> request \<Rightarrow> agent_record \<Rightarrow> auth_context
     \<Rightarrow> ('w, response) action \<Rightarrow> ('w, response) action" where
  "budget_gate sv app rq rec ctx call_next =
     andthen (as_opt_rat sv (config_get app ''monthly_budget_usd'')) (\<lambda>budget.
       case budget of
         None \<Rightarrow> call_next
       | Some b \<Rightarrow>
           andthen (now_us sv) (\<lambda>now.
             if \<not> check_monthly_budget now rec (Some b)
             then refuse sv rq (au_tenant ctx) ''budget.exceeded'' (ag_id rec) (au_principal ctx) [] 402
                    ''Monthly cost budget exceeded for this agent''
             else call_next))"

text \<open>The rate limits, then the budget gate.\<close>

definition rate_gate ::
  "'w services \<Rightarrow> app \<Rightarrow> request \<Rightarrow> agent_record \<Rightarrow> auth_context
     \<Rightarrow> ('w, response) action \<Rightarrow> ('w, response) action" where
  "rate_gate sv app rq rec ctx call_next =
     andthen (as_opt_int (config_get app ''rate_limit_rpm'')) (\<lambda>rpm.
     andthen (as_opt_int (config_get app ''rate_limit_rpd'')) (\<lambda>rpd.
     andthen (if rpm \<noteq> None \<or> rpd \<noteq> None
              then check_rate_limit sv (au_tenant ctx) (ag_id rec) rpm rpd else ret (True, None)) (\<lambda>(allowed, reason).
       if \<not> allowed
       then refuse sv rq (au_tenant ctx) ''rate_limit.exceeded'' (ag_id rec) (au_principal ctx)
              [(''reason'', opt_value reason)] 429 (''Rate limit exceeded ('' @ get_or ''None'' reason @ '')'')
       else budget_gate sv app rq rec ctx call_next)))"

text \<open>From an authenticated caller on.\<close>

definition tenant_gate ::
  "'w services \<Rightarrow> app \<Rightarrow> request \<Rightarrow> agent_record \<Rightarrow> auth_context
     \<Rightarrow> ('w, response) action \<Rightarrow> ('w, response) action" where
  "tenant_gate sv app rq rec ctx call_next =
     (if ag_tenant rec \<noteq> au_tenant ctx
      then refuse sv rq (au_tenant ctx) ''auth.tenant_mismatch'' (ag_id rec) (au_principal ctx) [] 403 ''Access denied''
      else if metered (rq_endpoint rq) then rate_gate sv app rq rec ctx call_next
      else call_next)"

definition auth_middleware ::
  "'w services \<Rightarrow> app \<Rightarrow> request \<Rightarrow> (auth_context option \<Rightarrow> ('w, response) action) \<Rightarrow> ('w, response) action" where
  "auth_middleware sv app rq call_next =
     (if path_of (rq_endpoint rq) \<in> set auth_exempt_paths then call_next None
      else
        andthen (catching (andthen (get_current_agent_record sv (ap_env app)) (\<lambda>r. ret (Some r))) (\<lambda>_. ret None)) (\<lambda>found.
          case found of
            None \<Rightarrow> respond 500 (Detail ''Agent configuration unavailable'')
          | Some rec \<Rightarrow>
              andthen (auth_chain sv (rq_authorization rq) rec) (\<lambda>ctx.
                case ctx of
                  None \<Rightarrow> refuse sv rq (ag_tenant rec) ''auth.failed'' (ag_id rec) ''unknown'' [] 401
                            ''Authentication failed''
                | Some c \<Rightarrow> tenant_gate sv app rq rec c (call_next (Some c)))))"

section \<open>The routes\<close>

definition exn_name :: "pyexn \<Rightarrow> string" where
  "exn_name e =
     (case e of
        KeyError _ \<Rightarrow> ''KeyError'' | ValueError _ \<Rightarrow> ''ValueError'' | TypeError _ \<Rightarrow> ''TypeError''
      | AttributeError _ \<Rightarrow> ''AttributeError'' | RuntimeError _ \<Rightarrow> ''RuntimeError''
      | ClientError _ \<Rightarrow> ''ClientError'' | ConditionalCheckFailed \<Rightarrow> ''ClientError''
      | ExternalError n \<Rightarrow> n
      | ToolDeniedError _ _ \<Rightarrow> ''ToolDeniedError'' | ApprovalRequiredError _ \<Rightarrow> ''ApprovalRequiredError''
      | AgentNotFoundError _ _ \<Rightarrow> ''AgentNotFoundError''
      | AgentVersionNotFoundError _ _ \<Rightarrow> ''AgentVersionNotFoundError''
      | ConfigIntegrityError _ _ _ \<Rightarrow> ''ConfigIntegrityError''
      | UnknownAgentError _ \<Rightarrow> ''AgentNotFoundError'' | VersionNotFoundError _ _ \<Rightarrow> ''VersionNotFoundError''
      | VersionAlreadyExistsError _ _ \<Rightarrow> ''VersionAlreadyExistsError''
      | InvalidRollbackError _ \<Rightarrow> ''InvalidRollbackError''
      | CircularDependencyError _ \<Rightarrow> ''CircularDependencyError''
      | NoApiKeyProvisionedError _ \<Rightarrow> ''NoApiKeyProvisionedError''
      | ValidationError _ \<Rightarrow> ''ValidationError''
      | HttpError _ _ \<Rightarrow> ''HTTPException''
      | Raised n _ \<Rightarrow> n)"

definition audit_invocation ::
  "'w services \<Rightarrow> app \<Rightarrow> auth_context \<Rightarrow> string \<Rightarrow> string \<Rightarrow> (string \<times> pyval) list \<Rightarrow> ('w, unit) action" where
  "audit_invocation sv app ctx act result extra =
     write_audit_event sv (au_tenant ctx) ''agent.invoked'' (oc_agent (ap_orchestrator app)) (au_principal ctx)
       act (oc_agent (ap_orchestrator app)) result [] extra"

definition chat :: "'w services \<Rightarrow> app \<Rightarrow> auth_context \<Rightarrow> chat_request \<Rightarrow> ('w, response) action" where
  "chat sv app ctx cr =
     catching
       (andthen (run_turn sv (ap_orchestrator app) (ap_memory_ids app) (cr_message cr) (cr_session cr) (cr_user cr))
          (\<lambda>res.
          andthen (audit_invocation sv app ctx ''POST /chat'' ''success''
                     [(''latency_ms'', PInt (tr_latency_ms res)), (''input_tokens'', PInt (tr_input_tokens res)),
                      (''output_tokens'', PInt (tr_output_tokens res))])
            (\<lambda>_. respond (if tr_pending res \<and> truthy (tr_review res) then 202 else 200) (Turn res))))
       (\<lambda>e. case e of
              ToolDeniedError tool reason \<Rightarrow> respond 403 (Detail (''Tool denied: '' @ reason))
            | _ \<Rightarrow>
                andthen (audit_invocation sv app ctx ''POST /chat'' ''error'' [(''error_type'', PStr (exn_name e))])
                  (\<lambda>_. respond 500 (Detail ''Agent execution failed'')))"

definition resume_approval :: "'w services \<Rightarrow> app \<Rightarrow> auth_context \<Rightarrow> string \<Rightarrow> ('w, response) action" where
  "resume_approval sv app ctx rid =
     catching
       (andthen (resume_after_approval sv (ap_orchestrator app) rid)
          (\<lambda>res. respond (if tr_pending res then 202 else 200) (Turn res)))
       (\<lambda>e. andthen (audit_invocation sv app ctx (''POST /approvals/'' @ rid @ ''/resume'') ''error''
                       [(''error_type'', PStr (exn_name e))])
              (\<lambda>_. respond 500 (Detail ''Agent execution failed'')))"

definition app_name :: "app \<Rightarrow> pyval" where
  "app_name app =
     (case ap_config app of
        PDict d \<Rightarrow> want d ''name'' (PStr (oc_agent (ap_orchestrator app)))
      | _ \<Rightarrow> PStr (oc_agent (ap_orchestrator app)))"

definition health :: "app \<Rightarrow> ('w, response) action" where
  "health app =
     respond 200 (Json (PDict
       [(''status'', PStr ''healthy''), (''agent_id'', PStr (oc_agent (ap_orchestrator app))),
        (''agent_name'', app_name app)]))"

definition config_page :: "app \<Rightarrow> ('w, response) action" where
  "config_page app =
     andthen (as_dict (ap_config app)) (\<lambda>d.
     andthen (sub_dict d ''memory'') (\<lambda>m.
     andthen (sub_dict d ''human_review'') (\<lambda>h.
     andthen (sub_dict d ''knowledge_base'') (\<lambda>kb.
     andthen (as_list (want d ''tools'' PNone)) (\<lambda>tools.
       respond 200 (Json (PDict
         [(''agent_id'', PStr (oc_agent (ap_orchestrator app))), (''name'', app_name app),
          (''version'', want d ''version'' PNone), (''model_id'', want d ''model_id'' PNone),
          (''memory_type'', want m ''memory_type'' (PStr ''none'')),
          (''hitl_enabled'', PBool (py_truthy (want h ''enabled'' (PBool False)))),
          (''kb_attached'', PBool (py_truthy (want kb ''enabled'' PNone))),
          (''tools_count'', PInt (int (length tools)))])))))))"

text \<open>The router behind the middleware. A path without a route is answered by the framework.\<close>

definition route :: "'w services \<Rightarrow> app \<Rightarrow> request \<Rightarrow> auth_context option \<Rightarrow> ('w, response) action" where
  "route sv app rq ctx =
     (case (rq_endpoint rq, ctx) of
        (Chat cr, Some c) \<Rightarrow> chat sv app c cr
      | (Resume rid, Some c) \<Rightarrow> resume_approval sv app c rid
      | (Health, _) \<Rightarrow> health app
      | (ConfigPage, _) \<Rightarrow> config_page app
      | _ \<Rightarrow> respond 404 (Detail ''Not Found''))"

definition serve :: "'w services \<Rightarrow> app \<Rightarrow> request \<Rightarrow> ('w, response) action" where
  "serve sv app rq = auth_middleware sv app rq (route sv app rq)"

text \<open>The module body: the configuration is loaded and the components are built before any request.\<close>

definition start_container ::
  "'w services \<Rightarrow> environment \<Rightarrow> (string \<Rightarrow> string list) \<Rightarrow> ('w, app) action" where
  "start_container sv env ids =
     andthen (load_agent_config sv env) (\<lambda>config.
     andthen (make_orchestrator config) (\<lambda>oc.
       ret \<lparr>ap_env = env, ap_config = config, ap_orchestrator = oc, ap_memory_ids = ids\<rparr>))"

section \<open>Nothing runs unauthenticated\<close>

lemma effects_of_quiet:
  "stays_in (same (\<lambda>s. (rt_invocations s, rt_llm_calls s, rt_reviews s, rt_agents s))) m \<Longrightarrow>
     stays_in (same effects) m"
  by (simp add: stays_in_def same_def effects_def)

lemma auth_chain_effects [frame_intros]: "stays_in (same effects) (auth_chain sv a rec)"
  by (rule effects_of_quiet) (rule chain.provide_quiet)

lemma gates_quiet [frame_intros]:
  "stays_in (same effects) (refuse sv rq a b c d e f g)"
  "stays_in (same effects) (respond status bd)"
  "stays_in (same effects) (env_item n v)"
  "stays_in (same effects) (get_current_agent_record sv env)"
  "stays_in (same obs) (as_opt_int pv)"
  "stays_in (same obs) (as_opt_rat sv pv)"
proof -
  show resp: "stays_in (same effects) (respond status bd)" for status bd
    unfolding respond_def by (intro frame_intros)
  show "stays_in (same effects) (refuse sv rq a b c d e f g)"
    unfolding refuse_def by (intro frame_intros resp; simp add: effects_def)
  show env: "stays_in (same effects) (env_item n v)" for n v
    unfolding env_item_def by (intro frame_intros)
  show "stays_in (same effects) (get_current_agent_record sv env)"
    unfolding get_current_agent_record_def by (intro frame_intros env; simp)
  show "stays_in (same obs) (as_opt_int pv)" "stays_in (same obs) (as_opt_rat sv pv)"
    by (simp_all add: stays_in_def same_def as_opt_int_def as_opt_rat_def bad_type_def ret_def raising_def
        split: pyval.splits)
qed

lemma redis_effects [frame_intros]: "stays_in (same effects) (redis sv f)"
  by (auto simp: redis_def stays_in_def same_def on_table_def effects_def Let_def split: prod.splits)

lemma rate_limit_effects [frame_intros]: "stays_in (same effects) (check_rate_limit sv a b c d)"
proof -
  have "stays_in (same effects) (check_windows sv now cs)" for now cs
    by (induction sv now cs rule: check_windows.induct) (auto intro!: frame_intros split: option.splits)
  then show ?thesis
    unfolding check_rate_limit_def by (intro frame_intros)
qed

lemma effects_kept: "m s = (r, t) \<Longrightarrow> stays_in (same effects) m \<Longrightarrow> effects t = effects s"
  by (metis same_def stays_inD)

text \<open>A caller the chain accepts has a known API key or a token the record's issuer signed.\<close>

lemma auth_chain_accepted:
  assumes "auth_chain sv a rec s = (Inr (Some c), t)"
  shows "au_agent c = ag_id rec \<and> starts_with bearer a \<and>
     ((\<not> ag_key_revoked rec \<and> presented a \<noteq> [] \<and> c = api_key_context rec) \<or>
      (\<exists>u v. jwt_authenticate sv a rec u = (Inr (Some c), v)))"
  using assms chain.accepted [OF assms]
  by (auto simp: auth_chain_def ret_def elim!: andthen_InrE split: option.splits dest!: api_key_accepted)

lemma route_quiet: "path_of (rq_endpoint rq) \<in> set auth_exempt_paths \<Longrightarrow> stays_in (same effects) (route sv app rq ctx)"
proof -
  assume p: "path_of (rq_endpoint rq) \<in> set auth_exempt_paths"
  have cfg: "stays_in (same effects) (config_page app)"
    unfolding config_page_def sub_dict_def Let_def by (intro frame_intros)
  have hl: "stays_in (same effects) (health app)"
    unfolding health_def by (intro frame_intros)
  from p cfg hl show ?thesis
    by (cases "rq_endpoint rq"; cases ctx)
      (auto simp: route_def auth_exempt_paths_def path_of_def intro!: frame_intros)
qed

lemma get_current_agent_record_Inr:
  assumes "get_current_agent_record sv env s = (Inr rec, t)"
  obtains agent tenant row where "env_agent env = Some agent" "env_tenant env = Some tenant"
    "rt_agents s (tenant, agent) = Some row" "rec = row_view (tenant, agent) row"
  using assms by (auto simp: get_current_agent_record_def ret_def raising_def elim!: andthen_InrE
      dest!: on_table_reads_Inr split: option.splits)

lemma serve_authenticated_trace:
  assumes "serve sv app rq s = (r, t)" and "effects t \<noteq> effects s"
  obtains rec c u v w where "get_current_agent_record sv (ap_env app) s = (Inr rec, u)"
    "auth_chain sv (rq_authorization rq) rec u = (Inr (Some c), v)" "effects v = effects s"
    "ag_tenant rec = au_tenant c" "tenant_gate sv app rq rec c (route sv app rq (Some c)) v = (r, t)"
proof -
  let ?found = "catching (andthen (get_current_agent_record sv (ap_env app)) (\<lambda>r. ret (Some r))) (\<lambda>_. ret None)"
  have "path_of (rq_endpoint rq) \<notin> set auth_exempt_paths"
  proof
    assume exempt: "path_of (rq_endpoint rq) \<in> set auth_exempt_paths"
    with assms(1) have "route sv app rq None s = (r, t)" by (simp add: serve_def auth_middleware_def)
    from effects_kept [OF this route_quiet [OF exempt]] assms(2) show False by simp
  qed
  with assms(1) have "andthen ?found (\<lambda>found.
          case found of
            None \<Rightarrow> respond 500 (Detail ''Agent configuration unavailable'')
          | Some rec \<Rightarrow>
              andthen (auth_chain sv (rq_authorization rq) rec) (\<lambda>ctx.
                case ctx of
                  None \<Rightarrow> refuse sv rq (ag_tenant rec) ''auth.failed'' (ag_id rec) ''unknown'' [] 401
                            ''Authentication failed''
                | Some c \<Rightarrow> tenant_gate sv app rq rec c (route sv app rq (Some c)))) s = (r, t)"
    by (simp add: serve_def auth_middleware_def)
  then show ?thesis
  proof (cases rule: andthen_cases)
    case (stop e)
    then show ?thesis by (auto simp: catching_def ret_def split: prod.splits sum.splits)
  next
    case (step found u)
    have qf: "stays_in (same effects) ?found" by (intro frame_intros)
    note eu = effects_kept [OF step(1) qf]
    show ?thesis
    proof (cases found)
      case None
      with step(2) eu assms(2) effects_kept [OF _ gates_quiet(2)] show ?thesis by fastforce
    next
      case (Some rec)
      with step(1) have g: "get_current_agent_record sv (ap_env app) s = (Inr rec, u)"
        by (auto simp: catching_def andthen_def ret_def split: prod.splits sum.splits)
      from step(2) Some have "andthen (auth_chain sv (rq_authorization rq) rec) (\<lambda>ctx.
                case ctx of
                  None \<Rightarrow> refuse sv rq (ag_tenant rec) ''auth.failed'' (ag_id rec) ''unknown'' [] 401
                            ''Authentication failed''
                | Some c \<Rightarrow> tenant_gate sv app rq rec c (route sv app rq (Some c))) u = (r, t)" by simp
      then show ?thesis
      proof (cases rule: andthen_cases)
        case (stop e)
        with eu assms(2) effects_kept [OF stop(1) auth_chain_effects] show ?thesis by simp
      next
        case (step ctx v)
        note ev = effects_kept [OF step(1) auth_chain_effects]
        show ?thesis
        proof (cases ctx)
          case None
          with step(2) eu ev assms(2) effects_kept [OF _ gates_quiet(1)] show ?thesis by fastforce
        next
          case (Some c)
          with step(2) have tg: "tenant_gate sv app rq rec c (route sv app rq (Some c)) v = (r, t)" by simp
          have "ag_tenant rec = au_tenant c"
          proof (rule ccontr)
            assume "ag_tenant rec \<noteq> au_tenant c"
            with tg have "effects t = effects v"
              by (auto simp: tenant_gate_def dest: effects_kept [OF _ gates_quiet(1)])
            with eu ev assms(2) show False by simp
          qed
          with that g step(1) Some eu ev tg show ?thesis by metis
        qed
      qed
    qed
  qed
qed

text \<open>The budget gate stops a caller whose agent has spent more than its budget this month.\<close>

definition budget_of :: "'w services \<Rightarrow> app \<Rightarrow> rat option" where
  "budget_of sv app =
     (case config_get app ''monthly_budget_usd'' of
        PInt i \<Rightarrow> Some (of_int i) | PFloat t \<Rightarrow> Some (sv_float_value sv t) | _ \<Rightarrow> None)"

lemma budget_gate_stops:
  assumes "budget_gate sv app rq rec ctx next s = (r, t)" and "budget_of sv app = Some b"
    and "\<And>w. \<not> check_monthly_budget (sv_clock sv w) rec (Some b)"
  shows "effects t = effects s"
proof -
  have b: "as_opt_rat sv (config_get app ''monthly_budget_usd'') = ret (Some b)"
    using assms(2) by (auto simp: budget_of_def as_opt_rat_def split: pyval.splits)
  from assms(1,3) have "refuse sv rq (au_tenant ctx) ''budget.exceeded'' (ag_id rec) (au_principal ctx) [] 402
                    ''Monthly cost budget exceeded for this agent'' s = (r, t)"
    by (simp add: budget_gate_def b now_us_def reads_def andthen_def)
  then show ?thesis by (rule effects_kept) (rule gates_quiet)
qed

lemma rate_gate_stops:
  assumes "rate_gate sv app rq rec ctx next s = (r, t)"
    and stops: "\<And>s r t. budget_gate sv app rq rec ctx next s = (r, t) \<Longrightarrow> effects t = effects s"
  shows "effects t = effects s"
proof -
  have "stays_in (same effects) (budget_gate sv app rq rec ctx next)"
    using stops by (metis same_def stays_inI)
  then have "stays_in (same effects) (rate_gate sv app rq rec ctx next)"
    unfolding rate_gate_def by (intro frame_intros)
  with assms(1) show ?thesis by (rule effects_kept)
qed

lemma serve_over_budget:
  assumes "serve sv app rq s = (r, t)" and "metered (rq_endpoint rq)"
    and "env_agent (ap_env app) = Some agent" and "env_tenant (ap_env app) = Some tenant"
    and "rt_agents s (tenant, agent) = Some (Whole rec)"
    and "budget_of sv app = Some b" and "b < ag_spend rec"
    and "\<And>w. ag_spend_period rec = Some (current_period (sv_clock sv w))"
  shows "effects t = effects s"
proof (rule ccontr)
  assume "effects t \<noteq> effects s"
  with assms(1) obtain rec' c u v where tr: "get_current_agent_record sv (ap_env app) s = (Inr rec', u)"
    "effects v = effects s" "ag_tenant rec' = au_tenant c"
    "tenant_gate sv app rq rec' c (route sv app rq (Some c)) v = (r, t)"
    by (rule serve_authenticated_trace)
  from tr(1) assms(3-5) have "rec' = rec"
    by (elim get_current_agent_record_Inr) (auto simp: row_view_def)
  with tr(3,4) assms(2) have "rate_gate sv app rq rec c (route sv app rq (Some c)) v = (r, t)"
    by (simp add: tenant_gate_def)
  then have "effects t = effects v"
    by (rule rate_gate_stops)
      (rule budget_gate_stops [OF _ assms(6)], assumption, use assms(7,8) in \<open>simp add: check_monthly_budget_def\<close>)
  with tr(2) \<open>effects t \<noteq> effects s\<close> show False by simp
qed

text \<open>A container that starts runs the agent its environment names, on the configuration it pinned.\<close>

lemma start_container_trace:
  assumes "start_container sv env ids s = (Inr app, t)"
  shows "\<exists>u. load_agent_config sv env s = (Inr (ap_config app), u) \<and> ap_env app = env"
  using assms by (auto simp: start_container_def ret_def elim!: andthen_InrE)

end
