(* ===== verification/ApprovalProtocol.thy ===== *)
theory ApprovalProtocol
  imports Orchestrator
begin

text \<open>
  The approval of a tool call as a protocol between the agent container and the Factory, over the
  shared reviews table. Steps: a turn pauses and asks (request), a person decides (decide), the
  container resumes (resume: reads the decision, claims the row, runs the tools when granted).
  The Factory's decide is a read followed by a write of the whole item. \<open>atomic_step\<close> takes each
  operation as one step, \<open>split_step\<close> keeps the two halves of a decision apart, as concurrent
  requests do, and \<open>access_step\<close> makes every access to the table a step of its own, those of a
  resume included.
\<close>

record protocol =
  pr_table :: review_table
  pr_runs :: "(string \<times> string) list"
  pr_read :: "((string \<times> string) \<times> review) list"

definition grants :: "review option \<Rightarrow> int \<Rightarrow> rat \<Rightarrow> string \<Rightarrow> bool" where
  "grants item now h rid \<longleftrightarrow>
     ad_status (decision_of now h rid item) \<notin> {''pending'', ''not_found'', ''rejected'', ''timeout''}"

text \<open>A row as \<open>request_approval\<close> writes it.\<close>

definition fresh_request :: "string \<Rightarrow> string \<Rightarrow> review \<Rightarrow> bool" where
  "fresh_request tenant rid row \<longleftrightarrow>
     rv_tenant row = tenant \<and> rv_id row = rid \<and> rv_status row = Some ''pending'' \<and> rv_resumed_at row = None"

inductive atomic_step :: "protocol \<Rightarrow> protocol \<Rightarrow> bool" where
  request: "pr_table s (tenant, rid) = None \<Longrightarrow> fresh_request tenant rid row \<Longrightarrow>
     atomic_step s (s\<lparr>pr_table := (pr_table s)((tenant, rid) \<mapsto> row)\<rparr>)"
| decide: "hitl_decide now tenant rid st who reason (pr_table s) = (Inr row, tab) \<Longrightarrow>
     st \<in> {''approved'', ''rejected'', ''info_requested''} \<Longrightarrow>
     atomic_step s (s\<lparr>pr_table := tab\<rparr>)"
| resume_run: "grants (pr_table s (tenant, rid)) now h rid \<Longrightarrow>
     claim_row t tenant rid (pr_table s) = (True, tab) \<Longrightarrow>
     atomic_step s (s\<lparr>pr_table := tab, pr_runs := pr_runs s @ [(tenant, rid)]\<rparr>)"
| resume_stop: "\<not> grants (pr_table s (tenant, rid)) now h rid \<Longrightarrow>
     ad_status (decision_of now h rid (pr_table s (tenant, rid))) \<notin> {''pending'', ''not_found''} \<Longrightarrow>
     claim_row t tenant rid (pr_table s) = (ok, tab) \<Longrightarrow>
     atomic_step s (s\<lparr>pr_table := tab\<rparr>)"

inductive_cases atomic_stepE: "atomic_step s t"

text \<open>The same protocol with the decision's read and write apart.\<close>

inductive split_step :: "protocol \<Rightarrow> protocol \<Rightarrow> bool" where
  atomic: "atomic_step s t \<Longrightarrow> split_step s t"
| read_row: "require_pending tenant rid (pr_table s) = Inr row \<Longrightarrow>
     split_step s (s\<lparr>pr_read := ((tenant, rid), row) # pr_read s\<rparr>)"
| write_row: "(k, row) \<in> set (pr_read s) \<Longrightarrow> st \<in> {''approved'', ''rejected'', ''info_requested''} \<Longrightarrow>
     split_step s (s\<lparr>pr_table := (pr_table s)(k \<mapsto> decided now st who reason row),
                    pr_read := remove1 (k, row) (pr_read s)\<rparr>)"

inductive reaches :: "('s \<Rightarrow> 's \<Rightarrow> bool) \<Rightarrow> 's \<Rightarrow> 's \<Rightarrow> bool" for R where
  here: "reaches R s s"
| more: "reaches R s t \<Longrightarrow> R t u \<Longrightarrow> reaches R s u"

definition empty_protocol :: protocol where
  "empty_protocol = \<lparr>pr_table = Map.empty, pr_runs = [], pr_read = []\<rparr>"

section \<open>At most once\<close>

text \<open>
  Every run belongs to a claimed row whose status is final, and no row runs twice.
\<close>

definition run_settled :: "review_table \<Rightarrow> string \<times> string \<Rightarrow> bool" where
  "run_settled tab k \<longleftrightarrow>
     (\<exists>row. tab k = Some row \<and> \<not> claimable (Some row) \<and> rv_status row \<in> {Some ''approved'', Some ''info_requested''})"

definition known_statuses :: "review_table \<Rightarrow> bool" where
  "known_statuses tab \<longleftrightarrow>
     (\<forall>k row. tab k = Some row \<longrightarrow>
        rv_status row \<in> {Some ''pending'', Some ''approved'', Some ''rejected'', Some ''info_requested''})"

definition at_most_once :: "protocol \<Rightarrow> bool" where
  "at_most_once s \<longleftrightarrow>
     distinct (pr_runs s) \<and> (\<forall>k \<in> set (pr_runs s). run_settled (pr_table s) k) \<and> known_statuses (pr_table s)"

lemma grants_row:
  assumes "grants item now h rid"
  obtains row st where "item = Some row" "rv_status row = Some st" "st \<notin> {''pending'', ''rejected''}"
  using decision_of_granted assms unfolding grants_def by blast

lemma claim_row_table:
  "claim_row t tenant rid tab = (ok, tab') \<Longrightarrow>
     tab' = (if claimable (tab (tenant, rid))
             then tab((tenant, rid) \<mapsto> (get_or (bare_review tenant rid) (tab (tenant, rid)))\<lparr>rv_resumed_at := Some (Some t)\<rparr>)
             else tab) \<and> ok = claimable (tab (tenant, rid))"
  by (auto simp: claim_row_def)

lemma run_settled_claimed: "run_settled tab k \<Longrightarrow> \<not> claimable (tab k)"
  by (auto simp: run_settled_def)

lemma settled_claim:
  assumes "claim_row t tenant rid tab = (ok, tab')" and "run_settled tab k"
  shows "run_settled tab' k"
  using claim_row_table [OF assms(1)] assms(2) run_settled_claimed [OF assms(2)]
  by (auto simp: run_settled_def)

lemma known_claim:
  assumes "claim_row t tenant rid tab = (ok, tab')" and "known_statuses tab" and "tab (tenant, rid) \<noteq> None"
  shows "known_statuses tab'"
  using claim_row_table [OF assms(1)] assms(2,3) by (auto simp: known_statuses_def get_or_def split: option.splits)

lemma atomic_step_at_most_once:
  assumes "atomic_step s t" and "at_most_once s"
  shows "at_most_once t"
  using assms(1)
proof (cases rule: atomic_step.cases)
  case (request tenant rid row)
  with assms(2) show ?thesis
    by (auto simp: at_most_once_def run_settled_def known_statuses_def fresh_request_def)
next
  case (decide now tenant rid st who reason row tab)
  from hitl_decide_row [OF decide(2)] obtain r where r: "pr_table s (tenant, rid) = Some r"
    "rv_status r = Some ''pending''" "tab = (pr_table s)((tenant, rid) \<mapsto> row)" "rv_status row = Some st" by blast
  have "k \<noteq> (tenant, rid)" if "run_settled (pr_table s) k" for k
    using that r by (auto simp: run_settled_def)
  with assms(2) decide(1,3) r show ?thesis
    by (auto simp: at_most_once_def run_settled_def known_statuses_def)
next
  case (resume_run tenant rid now h ts tab)
  from resume_run(2) obtain row st where row: "pr_table s (tenant, rid) = Some row" "rv_status row = Some st"
    "st \<notin> {''pending'', ''rejected''}" by (rule grants_row)
  from claim_row_table [OF resume_run(3)] have cl: "claimable (pr_table s (tenant, rid))"
    and tab: "tab = (pr_table s)((tenant, rid) \<mapsto> row\<lparr>rv_resumed_at := Some (Some ts)\<rparr>)"
    using row(1) by (auto simp: get_or_def)
  from assms(2) row have "st \<in> {''approved'', ''info_requested''}"
    by (fastforce simp: at_most_once_def known_statuses_def)
  with tab row have "run_settled tab (tenant, rid)"
    by (auto simp: run_settled_def claimable_def)
  moreover have "(tenant, rid) \<notin> set (pr_runs s)"
    using cl assms(2) run_settled_claimed unfolding at_most_once_def by blast
  moreover have "known_statuses tab"
    using known_claim [OF resume_run(3)] assms(2) row(1) unfolding at_most_once_def by simp
  ultimately show ?thesis
    using assms(2) resume_run(1) settled_claim [OF resume_run(3)] unfolding at_most_once_def by auto
next
  case (resume_stop tenant rid now h ts ok tab)
  have "pr_table s (tenant, rid) \<noteq> None"
    using resume_stop(3) by (cases "pr_table s (tenant, rid)") (simp_all add: decision_of_def)
  with assms(2) resume_stop(1) settled_claim [OF resume_stop(4)] known_claim [OF resume_stop(4)]
  show ?thesis unfolding at_most_once_def by auto
qed

section \<open>The container's resume is a step of the protocol\<close>

text \<open>The protocol state of a container, with the reviews it has run.\<close>

definition protocol_of :: "'w runtime \<Rightarrow> (string \<times> string) list \<Rightarrow> protocol" where
  "protocol_of s runs = \<lparr>pr_table = rt_reviews s, pr_runs = runs, pr_read = []\<rparr>"

lemma resume_simulated:
  assumes "resume_after_approval sv oc rid s = (r, t)" and "turn_logs t \<noteq> turn_logs s"
  shows "atomic_step (protocol_of s runs) (protocol_of t (runs @ [(am_tenant (oc_approval oc), rid)]))"
  using assms(1)
proof (cases rule: resume_trace)
  case quiet
  with assms(2) show ?thesis by simp
next
  case (granted now ts)
  from atomic_step.resume_run [of "protocol_of s runs" "am_tenant (oc_approval oc)" rid now
      "am_timeout_hours (oc_approval oc)" "At ts" "rt_reviews t"] granted
  show ?thesis by (simp add: protocol_of_def grants_def)
qed

section \<open>A stale decision\<close>

text \<open>The rows of a run in which two people decide the same review at once.\<close>

definition asked :: review where
  "asked = (bare_review ''t'' ''r'')\<lparr>rv_status := Some ''pending'', rv_timeout_hours := Some 24,
     rv_requested_at := Some (At 0), rv_kind := Some ''tool_approval''\<rparr>"

definition asked_read :: review where
  "asked_read = asked\<lparr>rv_resumed_at := Some None\<rparr>"

definition approved_row :: review where
  "approved_row = decided (At 1) ''approved'' ''alice'' None asked_read"

definition claimed_row :: review where
  "claimed_row = approved_row\<lparr>rv_resumed_at := Some (Some (At 2))\<rparr>"

definition again_row :: review where
  "again_row = decided (At 3) ''approved'' ''bob'' None asked_read"

lemmas stale_rows = asked_def asked_read_def approved_row_def claimed_row_def again_row_def
  bare_review_def decided_def

lemma stale_require: "tab (''t'', ''r'') = Some asked \<Longrightarrow> require_pending ''t'' ''r'' tab = Inr asked_read"
  by (simp add: require_pending_def hitl_get_def parse_review_def review_statuses_def review_kinds_def
      get_or_def stale_rows)

lemma stale_grants: "rv_status row = Some ''approved'' \<Longrightarrow> grants (Some row) 0 24 ''r''"
  by (simp add: grants_def decision_of_def get_or_def Let_def)

lemma stale_claim:
  "tab (''t'', ''r'') = Some row \<Longrightarrow> claimable (Some row) \<Longrightarrow>
     claim_row ts ''t'' ''r'' tab = (True, tab((''t'', ''r'') \<mapsto> row\<lparr>rv_resumed_at := Some (Some ts)\<rparr>))"
  by (simp add: claim_row_def get_or_def)

lemma split_decisions_run_twice:
  "\<exists>s. reaches split_step empty_protocol s \<and> pr_runs s = [(''t'', ''r''), (''t'', ''r'')]"
proof -
  let ?k = "(''t'', ''r'')"
  let ?s1 = "empty_protocol\<lparr>pr_table := [?k \<mapsto> asked]\<rparr>"
  let ?s2 = "?s1\<lparr>pr_read := [(?k, asked_read)]\<rparr>"
  let ?s3 = "?s2\<lparr>pr_table := [?k \<mapsto> approved_row]\<rparr>"
  let ?s4 = "?s3\<lparr>pr_table := [?k \<mapsto> claimed_row], pr_runs := [?k]\<rparr>"
  let ?s5 = "?s4\<lparr>pr_table := [?k \<mapsto> again_row], pr_read := []\<rparr>"
  let ?s6 = "?s5\<lparr>pr_table := [?k \<mapsto> again_row\<lparr>rv_resumed_at := Some (Some (At 4))\<rparr>], pr_runs := [?k, ?k]\<rparr>"
  have c1: "split_step empty_protocol ?s1"
    using split_step.atomic [OF atomic_step.request [of empty_protocol "''t''" "''r''" asked]]
    by (simp add: empty_protocol_def fresh_request_def stale_rows)
  have c2: "split_step ?s1 ?s2"
    using split_step.read_row [of "''t''" "''r''" ?s1 asked_read] stale_require
    by (simp add: empty_protocol_def)
  have c3: "split_step ?s2 ?s3"
    using split_step.atomic [OF atomic_step.decide [of "At 1" "''t''" "''r''" "''approved''" "''alice''" None ?s2
          approved_row "[?k \<mapsto> approved_row]"]] stale_require [of "[?k \<mapsto> asked]"]
    by (simp add: hitl_decide_def approved_row_def Let_def)
  have c4: "split_step ?s3 ?s4"
    using split_step.atomic [OF atomic_step.resume_run [of ?s3 "''t''" "''r''" 0 24 "At 2" "[?k \<mapsto> claimed_row]"]]
      stale_grants [of approved_row] stale_claim [of "[?k \<mapsto> approved_row]" approved_row "At 2"]
    by (simp add: empty_protocol_def claimed_row_def) (simp add: stale_rows claimable_def)
  have c5: "split_step ?s4 ?s5"
    using split_step.write_row [of ?k asked_read ?s4 "''approved''" "At 3" "''bob''" None]
    by (simp add: again_row_def)
  have c6: "split_step ?s5 ?s6"
    using split_step.atomic [OF atomic_step.resume_run [of ?s5 "''t''" "''r''" 0 24 "At 4"
          "[?k \<mapsto> again_row\<lparr>rv_resumed_at := Some (Some (At 4))\<rparr>]"]]
      stale_grants [of again_row] stale_claim [of "[?k \<mapsto> again_row]" again_row "At 4"]
    by (simp add: empty_protocol_def) (simp add: stale_rows claimable_def)
  have "reaches split_step empty_protocol ?s6"
    by (intro reaches.more [where R = split_step, OF _ c6] reaches.more [where R = split_step, OF _ c5]
        reaches.more [where R = split_step, OF _ c4] reaches.more [where R = split_step, OF _ c3]
        reaches.more [where R = split_step, OF _ c2] reaches.more [where R = split_step, OF _ c1] reaches.here)
  moreover have "pr_runs ?s6 = [?k, ?k]" by simp
  ultimately show ?thesis by blast
qed

section \<open>One access at a time\<close>

text \<open>
  The same protocol with every access to the table a step of its own: a decision reads the row and
  later writes the item (or never does), a resume reads the decision and later makes its conditional
  claim. \<open>pr_read\<close> are the decisions under way, \<open>pr_ready\<close> the resumes between their read and
  their claim, with what they read: granted or not.
\<close>

record interleaving = protocol +
  pr_ready :: "((string \<times> string) \<times> bool) list"

inductive access_step :: "interleaving \<Rightarrow> interleaving \<Rightarrow> bool" where
  ask: "pr_table s (tenant, rid) = None \<Longrightarrow> fresh_request tenant rid row \<Longrightarrow>
     access_step s (s\<lparr>pr_table := (pr_table s)((tenant, rid) \<mapsto> row)\<rparr>)"
| read_pending: "require_pending tenant rid (pr_table s) = Inr row \<Longrightarrow>
     access_step s (s\<lparr>pr_read := ((tenant, rid), row) # pr_read s\<rparr>)"
| write_decision: "(k, row) \<in> set (pr_read s) \<Longrightarrow> st \<in> {''approved'', ''rejected'', ''info_requested''} \<Longrightarrow>
     access_step s (s\<lparr>pr_table := (pr_table s)(k \<mapsto> decided now st who reason row),
                     pr_read := remove1 (k, row) (pr_read s)\<rparr>)"
| drop_decision: "access_step s (s\<lparr>pr_read := remove1 kr (pr_read s)\<rparr>)"
| read_decision: "ad_status (decision_of now h rid (pr_table s (tenant, rid))) \<notin> {''pending'', ''not_found''} \<Longrightarrow>
     access_step s (s\<lparr>pr_ready := ((tenant, rid), grants (pr_table s (tenant, rid)) now h rid) # pr_ready s\<rparr>)"
| claim: "((tenant, rid), granted) \<in> set (pr_ready s) \<Longrightarrow> claim_row t tenant rid (pr_table s) = (ok, tab) \<Longrightarrow>
     access_step s (s\<lparr>pr_table := tab, pr_ready := remove1 ((tenant, rid), granted) (pr_ready s),
                     pr_runs := (if ok \<and> granted then pr_runs s @ [(tenant, rid)] else pr_runs s)\<rparr>)"
| drop_resume: "access_step s (s\<lparr>pr_ready := remove1 kg (pr_ready s)\<rparr>)"

text \<open>No two decisions of one review are under way at once.\<close>

definition serial :: "interleaving \<Rightarrow> bool" where
  "serial s \<longleftrightarrow> distinct (map fst (pr_read s))"

definition empty_interleaving :: interleaving where
  "empty_interleaving = protocol.extend empty_protocol \<lparr>pr_ready = []\<rparr>"

definition has_status :: "review_table \<Rightarrow> string list \<Rightarrow> string \<times> string \<Rightarrow> bool" where
  "has_status tab sts k \<longleftrightarrow> (\<exists>row st. tab k = Some row \<and> rv_status row = Some st \<and> st \<in> set sts)"

definition all_statuses :: "string list" where
  "all_statuses = [''pending'', ''approved'', ''rejected'', ''info_requested'']"

text \<open>What a resume may have read: a decision that grants, or anything.\<close>

definition read_statuses :: "bool \<Rightarrow> string list" where
  "read_statuses granted = (if granted then [''approved'', ''info_requested''] else all_statuses)"

text \<open>
  While a decision is under way its review is pending; a review some resume read as granted, or
  that ran, is decided; and what ran stays claimed.
\<close>

definition interleaving_ok :: "interleaving \<Rightarrow> bool" where
  "interleaving_ok s \<longleftrightarrow>
     known_statuses (pr_table s) \<and> distinct (pr_runs s) \<and> list_all (run_settled (pr_table s)) (pr_runs s) \<and>
     list_all (\<lambda>(k, _). has_status (pr_table s) [''pending''] k) (pr_read s) \<and>
     list_all (\<lambda>(k, g). has_status (pr_table s) (read_statuses g) k) (pr_ready s)"

lemma run_settled_status: "run_settled tab k \<Longrightarrow> has_status tab [''approved'', ''info_requested''] k"
  by (auto simp: run_settled_def has_status_def)

lemma pending_not_decided:
  "has_status tab [''pending''] k \<Longrightarrow> \<not> has_status tab [''approved'', ''info_requested''] k"
  by (auto simp: has_status_def)

lemma has_status_update: "j \<noteq> k \<Longrightarrow> has_status (tab(k \<mapsto> row)) sts j = has_status tab sts j"
  by (simp add: has_status_def)

lemma run_settled_update: "j \<noteq> k \<Longrightarrow> run_settled (tab(k \<mapsto> row)) j = run_settled tab j"
  by (simp add: run_settled_def)

lemma known_status: "known_statuses tab \<Longrightarrow> tab k \<noteq> None \<Longrightarrow> has_status tab all_statuses k"
proof -
  assume "known_statuses tab" and "tab k \<noteq> None"
  then obtain row where row: "tab k = Some row" by blast
  with \<open>known_statuses tab\<close> have "rv_status row \<in> {Some ''pending'', Some ''approved'', Some ''rejected'', Some ''info_requested''}"
    unfolding known_statuses_def by blast
  with row show ?thesis by (auto simp: has_status_def all_statuses_def)
qed

text \<open>A claim keeps every status, and claims the row.\<close>

lemma claim_keeps:
  assumes "claim_row t tenant rid tab = (ok, tab')" and "has_status tab sts j"
  shows "has_status tab' sts j"
  using claim_row_table [OF assms(1)] assms(2) by (auto simp: has_status_def get_or_def)

lemma claim_ready:
  assumes "claim_row t tenant rid tab = (True, tab')" and "has_status tab [''approved'', ''info_requested''] (tenant, rid)"
  shows "run_settled tab' (tenant, rid)"
  using claim_row_table [OF assms(1)] assms(2) by (auto simp: has_status_def run_settled_def get_or_def claimable_def)

lemma list_all_remove1: "list_all P xs \<Longrightarrow> list_all P (remove1 x xs)"
  using set_remove1_subset [of x xs] by (auto simp: list_all_iff)

lemma require_pending_status:
  assumes "require_pending tenant rid tab = Inr row"
  shows "has_status tab [''pending''] (tenant, rid)"
  using assms by (auto simp: require_pending_def hitl_get_def parse_review_def Let_def has_status_def
      split: option.splits if_splits sum.splits)

lemma read_apart:
  assumes "distinct (map fst xs)" and "(k, row) \<in> set xs" and "(j, r) \<in> set (remove1 (k, row) xs)"
  shows "j \<noteq> k"
proof -
  from assms(2) obtain ys zs where "xs = ys @ (k, row) # zs" "(k, row) \<notin> set ys" by (meson split_list_first)
  with assms(1,3) show ?thesis by (force simp: remove1_append)
qed

lemma access_step_ok:
  assumes "access_step s t" and "interleaving_ok s" and "serial s"
  shows "interleaving_ok t"
proof -
  from assms(2) have known: "known_statuses (pr_table s)" and dist: "distinct (pr_runs s)"
    and ran: "\<And>k. k \<in> set (pr_runs s) \<Longrightarrow> run_settled (pr_table s) k"
    and read: "\<And>k r. (k, r) \<in> set (pr_read s) \<Longrightarrow> has_status (pr_table s) [''pending''] k"
    and ready: "\<And>k g. (k, g) \<in> set (pr_ready s) \<Longrightarrow>
       has_status (pr_table s) (read_statuses g) k"
    by (auto simp: interleaving_ok_def list_all_iff)
  have ok: "interleaving_ok u"
    if "known_statuses (pr_table u)" "distinct (pr_runs u)" "\<And>k. k \<in> set (pr_runs u) \<Longrightarrow> run_settled (pr_table u) k"
      "\<And>k r. (k, r) \<in> set (pr_read u) \<Longrightarrow> has_status (pr_table u) [''pending''] k"
      "\<And>k g. (k, g) \<in> set (pr_ready u) \<Longrightarrow>
         has_status (pr_table u) (read_statuses g) k" for u
    using that by (auto simp: interleaving_ok_def list_all_iff)
  from assms(1) show ?thesis
  proof (cases rule: access_step.cases)
    case (ask tenant rid row)
    have other: "j \<noteq> (tenant, rid)" if "has_status (pr_table s) sts j" for sts j
      using that ask(2) by (auto simp: has_status_def)
    have k: "known_statuses ((pr_table s)((tenant, rid) \<mapsto> row))"
      using known ask(3) by (auto simp: known_statuses_def fresh_request_def)
    show ?thesis
      unfolding ask(1)
    proof (rule ok, simp_all add: k dist del: fun_upd_apply)
      show "run_settled ((pr_table s)((tenant, rid) \<mapsto> row)) j" if "j \<in> set (pr_runs s)" for j
        using ran [OF that] other run_settled_status run_settled_update by metis
      show "has_status ((pr_table s)((tenant, rid) \<mapsto> row)) [''pending''] j" if "(j, r) \<in> set (pr_read s)" for j r
        using read [OF that] other has_status_update by metis
      show "has_status ((pr_table s)((tenant, rid) \<mapsto> row)) (read_statuses g) j" if "(j, g) \<in> set (pr_ready s)" for j g
        using ready [OF that] other has_status_update by metis
    qed
  next
    case (read_pending tenant rid row)
    have "has_status (pr_table s) [''pending''] (tenant, rid)"
      using require_pending_status [OF read_pending(2)] .
    then show ?thesis
      unfolding read_pending(1) by (intro ok) (use known dist ran read ready in auto)
  next
    case (write_decision k row st now who reason)
    have other: "j \<noteq> k" if "has_status (pr_table s) [''approved'', ''info_requested''] j" for j
      using that read [OF write_decision(2)] pending_not_decided by blast
    have others: "j \<noteq> k" if "(j, r) \<in> set (remove1 (k, row) (pr_read s))" for j r
      using read_apart [OF _ write_decision(2) that] assms(3) by (simp add: serial_def)
    have rest: "has_status (pr_table s) [''pending''] j" if "(j, r) \<in> set (remove1 (k, row) (pr_read s))" for j r
      using read that set_remove1_subset [of "(k, row)" "pr_read s"] by blast
    have k: "known_statuses ((pr_table s)(k \<mapsto> decided now st who reason row))"
      using known write_decision(3) by (auto simp: known_statuses_def decided_def)
    have new: "has_status ((pr_table s)(k \<mapsto> decided now st who reason row)) all_statuses k"
      using write_decision(3) by (auto simp: has_status_def decided_def all_statuses_def)
    show ?thesis
      unfolding write_decision(1)
    proof (rule ok, simp_all add: k dist del: fun_upd_apply)
      show "run_settled ((pr_table s)(k \<mapsto> decided now st who reason row)) j" if "j \<in> set (pr_runs s)" for j
        using ran [OF that] other run_settled_status run_settled_update by metis
      show "has_status ((pr_table s)(k \<mapsto> decided now st who reason row)) [''pending''] j"
        if "(j, r) \<in> set (remove1 (k, row) (pr_read s))" for j r
        using rest [OF that] others [OF that] has_status_update by metis
      show "has_status ((pr_table s)(k \<mapsto> decided now st who reason row)) (read_statuses g) j"
        if "(j, g) \<in> set (pr_ready s)" for j g
      proof (cases "j = k")
        case True
        with ready [OF that] other [of k] have "\<not> g" by (cases g) (simp_all add: read_statuses_def)
        with new True show ?thesis by (simp add: read_statuses_def)
      next
        case False
        with ready [OF that] show ?thesis by (simp add: has_status_update)
      qed
    qed
  next
    case (drop_decision kr)
    show ?thesis
      unfolding drop_decision
    proof (rule ok, simp_all add: known dist ran ready)
      show "has_status (pr_table s) [''pending''] j" if "(j, r) \<in> set (remove1 kr (pr_read s))" for j r
        using read subsetD [OF set_remove1_subset that] .
    qed
  next
    case (read_decision now h rid tenant)
    have "has_status (pr_table s) [''approved'', ''info_requested''] (tenant, rid)"
      if g: "grants (pr_table s (tenant, rid)) now h rid"
    proof -
      from g obtain row st where "pr_table s (tenant, rid) = Some row" "rv_status row = Some st"
        "st \<notin> {''pending'', ''rejected''}" by (rule grants_row)
      with known show ?thesis by (fastforce simp: known_statuses_def has_status_def)
    qed
    moreover have "has_status (pr_table s) all_statuses (tenant, rid)"
      using read_decision(2) by (intro known_status known) (cases "pr_table s (tenant, rid)"; simp add: decision_of_def)
    ultimately have new: "has_status (pr_table s) (read_statuses (grants (pr_table s (tenant, rid)) now h rid)) (tenant, rid)"
      by (cases "grants (pr_table s (tenant, rid)) now h rid") (simp_all add: read_statuses_def)
    show ?thesis
      unfolding read_decision(1) by (intro ok) (use known dist ran read ready new in auto)
  next
    case (claim tenant rid granted ts ok' tab)
    note kept = claim_keeps [OF claim(3)]
    have "pr_table s (tenant, rid) \<noteq> None" using ready [OF claim(2)] by (auto simp: has_status_def)
    then have k: "known_statuses tab" using known_claim [OF claim(3) known] by simp
    have runs: "run_settled tab j" if "j \<in> set (pr_runs s)" for j
      using settled_claim [OF claim(3) ran [OF that]] .
    have new: "run_settled tab (tenant, rid) \<and> (tenant, rid) \<notin> set (pr_runs s)" if "ok'" "granted"
    proof
      show "run_settled tab (tenant, rid)" using claim_ready claim(3) ready [OF claim(2)] that by (auto simp: read_statuses_def)
      show "(tenant, rid) \<notin> set (pr_runs s)"
        using claim_row_table [OF claim(3)] that(1) ran run_settled_claimed by blast
    qed
    have rest: "has_status tab (read_statuses g) j"
      if "(j, g) \<in> set (remove1 ((tenant, rid), granted) (pr_ready s))" for j g
      using kept ready subsetD [OF set_remove1_subset that] by blast
    have keep: "has_status tab [''pending''] j" if "(j, r) \<in> set (pr_read s)" for j r
      using kept read [OF that] by blast
    show ?thesis
    proof (cases "ok' \<and> granted")
      case True
      with new show ?thesis
        unfolding claim(1) by (intro ok; simp add: k dist rest keep) (use runs in blast)
    next
      case False
      then show ?thesis
        unfolding claim(1) if_not_P [OF False] by (intro ok) (simp_all add: k dist rest keep runs)
    qed
  next
    case (drop_resume kg)
    show ?thesis
      unfolding drop_resume
    proof (rule ok, simp_all add: known dist ran read)
      show "has_status (pr_table s) (read_statuses g) j" if "(j, g) \<in> set (remove1 kg (pr_ready s))" for j g
        using ready subsetD [OF set_remove1_subset that] .
    qed
  qed
qed

text \<open>A history in which the decisions of one review never overlap.\<close>

definition serial_step :: "interleaving \<Rightarrow> interleaving \<Rightarrow> bool" where
  "serial_step s t \<longleftrightarrow> access_step s t \<and> serial t"

lemma serial_reaches_ok:
  assumes "reaches serial_step s t" and "interleaving_ok s" and "serial s"
  shows "interleaving_ok t \<and> serial t"
  using assms by (induction rule: reaches.induct) (auto simp: serial_step_def intro: access_step_ok)

lemma empty_interleaving_ok: "interleaving_ok empty_interleaving" "serial empty_interleaving"
  by (simp_all add: interleaving_ok_def empty_interleaving_def empty_protocol_def known_statuses_def serial_def
      protocol.defs)

text \<open>One request, one decision, one resume, access by access.\<close>

definition ran_serially :: interleaving where
  "ran_serially = empty_interleaving\<lparr>pr_table := [(''t'', ''r'') \<mapsto> claimed_row], pr_runs := [(''t'', ''r'')]\<rparr>"

lemma ran_serially_reached: "reaches serial_step empty_interleaving ran_serially"
proof -
  let ?k = "(''t'', ''r'')"
  let ?s1 = "empty_interleaving\<lparr>pr_table := [?k \<mapsto> asked]\<rparr>"
  let ?s2 = "?s1\<lparr>pr_read := [(?k, asked_read)]\<rparr>"
  let ?s3 = "?s1\<lparr>pr_table := [?k \<mapsto> approved_row]\<rparr>"
  let ?s4 = "?s3\<lparr>pr_ready := [(?k, True)]\<rparr>"
  note start = empty_interleaving_def empty_protocol_def protocol.defs serial_step_def serial_def
  have c1: "serial_step empty_interleaving ?s1"
    using access_step.ask [of empty_interleaving "''t''" "''r''" asked]
    by (simp add: start fresh_request_def stale_rows)
  have c2: "serial_step ?s1 ?s2"
    using access_step.read_pending [of "''t''" "''r''" ?s1 asked_read] stale_require [of "[?k \<mapsto> asked]"]
    by (simp add: start)
  have c3: "serial_step ?s2 ?s3"
    using access_step.write_decision [of ?k asked_read ?s2 "''approved''" "At 1" "''alice''" None]
    by (simp add: start approved_row_def)
  have c4: "serial_step ?s3 ?s4"
    using access_step.read_decision [of 0 24 "''r''" ?s3 "''t''"] stale_grants [of approved_row]
    by (simp add: start grants_def) (simp add: stale_rows decision_of_def get_or_def)
  have c5: "serial_step ?s4 ran_serially"
    using access_step.claim [of "''t''" "''r''" True ?s4 "At 2" True "[?k \<mapsto> claimed_row]"]
      stale_claim [of "[?k \<mapsto> approved_row]" approved_row "At 2"]
    by (simp add: start ran_serially_def claimed_row_def) (simp add: stale_rows claimable_def)
  show ?thesis
    by (intro reaches.more [where R = serial_step, OF _ c5] reaches.more [where R = serial_step, OF _ c4]
        reaches.more [where R = serial_step, OF _ c3] reaches.more [where R = serial_step, OF _ c2]
        reaches.more [where R = serial_step, OF _ c1] reaches.here)
qed

end
