(* ===== verification/Sample.thy ===== *)
theory Sample
  imports RuntimeMain ApprovalProtocol RegistryGraph
begin

text \<open>
  A sample container: one agent with a tool of low and a tool of high risk, services that always
  answer, and the requests and rows of an ordinary day. The properties of the runtime are applied
  to it, so that their hypotheses are seen to hold together on concrete data.
\<close>

section \<open>Services\<close>

definition sample_reply :: "string \<Rightarrow> llm_request \<Rightarrow> llm_reply" where
  "sample_reply tool rq =
     \<lparr>rp_content = Some ''ok'',
      rp_tool_calls = (if rq_tools rq = None then []
                       else [\<lparr>tc_id = Some ''c1'', tc_name = tool, tc_arguments = Some ''{}''\<rparr>]),
      rp_cost = None, rp_input_tokens = Some 3, rp_output_tokens = Some 2\<rparr>"

text \<open>The model asks for \<open>tool\<close>; the secret store holds one key; every table answers.\<close>

definition sample_services :: "string \<Rightarrow> unit services" where
  "sample_services tool =
     \<lparr>sv_clock = \<lambda>_. 0, sv_perf = \<lambda>_. 0, sv_uuid = \<lambda>_. (''u'', ()), sv_db = \<lambda>_ _. (True, ()),
      sv_lambda = \<lambda>_ _ _. (Inr (False, PStr ''done''), ()),
      sv_guardrail = \<lambda>_ _ _ _ _. (Inr \<lparr>gr_action = ''NONE'', gr_outputs = []\<rparr>, ()),
      sv_retrieve = \<lambda>_ _ _ _. (Inr [], ()),
      sv_llm = \<lambda>rq _. (Inr (sample_reply tool rq), ()),
      sv_secret = \<lambda>_ _. (Inr ''k'', ()), sv_jwks = \<lambda>_ _. (Inl ''x'', ()),
      sv_jwt_header = \<lambda>_. None, sv_jwt_decode = \<lambda>_ _ _ _ _. None,
      sv_sha1 = \<lambda>_. ''0123456789'', sv_sha256 = \<lambda>_. ''h'', sv_json_error = \<lambda>_. ''bad json'',
      sv_float_text = \<lambda>_. ''0.5'', sv_float_value = \<lambda>_. 0\<rparr>"

section \<open>The agent\<close>

definition sample_agent :: agent_record where
  "sample_agent = (blank_record (''t'', ''a''))\<lparr>ag_name := ''A'', ag_type := ''task'', ag_current_version := 1,
     ag_live_version := Some 1, ag_status := ''ACTIVE'', ag_key_arn := Some ''arn''\<rparr>"

definition sample_executor :: executor where
  "sample_executor =
     \<lparr>ex_agent = ''a'', ex_tenant = ''t'',
      ex_tools = [\<lparr>tool_id = ''look'', tool_name = None, input_schema = None\<rparr>,
                  \<lparr>tool_id = ''wipe'', tool_name = None, input_schema = None\<rparr>],
      ex_policies = [\<lparr>tp_tool = ''look'', tp_allowed = Some True, tp_risk = Some ''LOW''\<rparr>,
                     \<lparr>tp_tool = ''wipe'', tp_allowed = Some True, tp_risk = Some ''HIGH''\<rparr>]\<rparr>"

definition sample_orchestrator :: orchestrator where
  "sample_orchestrator =
     \<lparr>oc_agent = ''a'', oc_tenant = ''t'', oc_system_prompt = ''p'',
      oc_llm = \<lparr>lc_model = ''m'', lc_system_prompt = ''p'', lc_temperature = PInt 0, lc_max_tokens = PInt 9,
                lc_fallbacks = None\<rparr>,
      oc_rag = \<lparr>ra_tenant = ''t'', ra_enabled_flag = False, ra_kb_id = None, ra_top_k = 5\<rparr>,
      oc_tools = sample_executor,
      oc_memory = \<lparr>me_agent = ''a'', me_type = ''session'', me_ttl_days = 30, me_max_turns = 50\<rparr>,
      oc_guardrail = \<lparr>gc_tenant = ''t'', gc_policy = Some ''g''\<rparr>,
      oc_hitl = \<lparr>hm_agent = ''a'', hm_tenant = ''t'', hm_enabled = False, hm_triggers = [],
                 hm_timeout_hours = 24, hm_topic = None\<rparr>,
      oc_approval = \<lparr>am_agent = ''a'', am_tenant = ''t'', am_topic = None, am_timeout_hours = 24\<rparr>\<rparr>"

section \<open>The state\<close>

definition sample_turn :: paused_turn where
  "sample_turn = \<lparr>pt_session = ''s'', pt_user = None, pt_message = ''m'', pt_initial = [], pt_content = ''ok'',
     pt_calls = [\<lparr>tc_id = Some ''c1'', tc_name = ''wipe'', tc_arguments = Some ''{}''\<rparr>],
     pt_approved = Some ''c1'', pt_tool = ''wipe''\<rparr>"

definition sample_review :: "string \<Rightarrow> review" where
  "sample_review st = (bare_review ''t'' ''r'')\<lparr>rv_status := Some st, rv_timeout_hours := Some 24,
     rv_requested_at := Some (At 0), rv_kind := Some ''tool_approval'',
     rv_context := Some (resume_context sample_turn)\<rparr>"

definition sample_config :: "(string \<times> attr) list" where
  "sample_config = [(''model_id'', AStr ''m''), (''model_provider'', AStr ''bedrock''), (''system_prompt'', AStr ''p'')]"

definition sample_state :: "review option \<Rightarrow> unit runtime" where
  "sample_state rv =
     \<lparr>rt_world = (), rt_audit = [], rt_invocations = [], rt_llm_calls = [], rt_published = [],
      rt_reviews = (case rv of None \<Rightarrow> Map.empty | Some r \<Rightarrow> [(''t'', ''r'') \<mapsto> r]),
      rt_agents = [(''t'', ''a'') \<mapsto> Whole sample_agent],
      rt_versions = [(''a'', 1) \<mapsto> Some (AMap sample_config)],
      rt_memory = Map.empty, rt_sessions = Map.empty,
      rt_guardrail_rows = [(''t'', ''g'') \<mapsto> (Some ''gid'', Some ''1'')], rt_kb_rows = Map.empty,
      rt_guardrail_cache = None, rt_kb_cache = None, rt_counters = Map.empty, rt_keys = Map.empty,
      rt_jwks_cache = Map.empty\<rparr>"

section \<open>The application and its requests\<close>

definition sample_env :: environment where
  "sample_env = \<lparr>env_agent = Some ''a'', env_tenant = Some ''t'', env_config_hash = Some ''h''\<rparr>"

definition sample_app :: app where
  "sample_app =
     \<lparr>ap_env = sample_env, ap_config = PDict [(''monthly_budget_usd'', PInt 5)],
      ap_orchestrator = sample_orchestrator, ap_memory_ids = \<lambda>_. []\<rparr>"

definition sample_request :: request where
  "sample_request =
     \<lparr>rq_endpoint = Chat \<lparr>cr_message = ''hi'', cr_session = ''s'', cr_user = None\<rparr>, rq_method = ''POST'',
      rq_authorization = ''Bearer k'', rq_source_ip = ''ip''\<rparr>"

definition overspent_agent :: agent_record where
  "overspent_agent = sample_agent\<lparr>ag_spend := 9, ag_spend_period := Some (current_period 0)\<rparr>"

section \<open>The registry\<close>

text \<open>The agent with two versions, the second one current and the first one live.\<close>

definition sample_record :: agent_record where
  "sample_record = sample_agent\<lparr>ag_current_version := 2\<rparr>"

definition sample_version :: "int \<Rightarrow> version_record" where
  "sample_version n = build_version (\<lambda>_. ''h'') (At 0) ''a'' ''A'' ''task'' n (PDict []) ''me'' ''first'' None"

definition sample_registry :: registry where
  "sample_registry =
     \<lparr>rg_agents = [((''t'', ''a''), Whole sample_record)],
      rg_versions = [((''a'', 1), FullVersion (sample_version 1)), ((''a'', 2), FullVersion (sample_version 2))]\<rparr>"

lemma sample_registry_keyed: "keyed sample_registry"
  by (simp add: keyed_def sample_registry_def sample_record_def sample_agent_def blank_record_def)

lemma sample_registry_ok: "tables_ok sample_registry"
  using sample_registry_keyed by (simp add: tables_ok_def) (simp add: sample_registry_def)

lemma sample_registry_edges: "tenant_edges tenant sample_registry = {}"
  by (auto simp: tenant_edges_def current_subs_def sample_registry_def sample_version_def build_version_def
      sub_agent_ids_def dict_get_def items_of_def split: if_splits)

end
