(* ===== verification/Factory.thy ===== *)
theory Factory
  imports RegistryStore
begin

text \<open>
  The state the Factory's deployment code works on, and the deployments table
  (app/modules/deployment/models.py, status_store.py, orchestrator.py). The registry and the
  deployments are tables; the git requests, the published events, the audit entries and the
  metrics leave the program and are kept as logs. The git host, CodeBuild, HTTP endpoints and the
  clock are services.
\<close>

section \<open>Deployments\<close>

definition deployment_stage_order :: "string list" where
  "deployment_stage_order =
     [''VALIDATING'', ''CHANGE_IMPACT'', ''GENERATING_IAC'', ''SECURITY_SCANNING'', ''EVALUATING'',
      ''TERRAFORM_VALIDATE'', ''TERRAFORM_PLAN'', ''POLICY_CHECK'', ''APPLYING'', ''DEPLOYING'', ''HEALTH_CHECK'']"

record stage_result =
  sr_stage :: string
  sr_status :: string
  sr_started :: "int option"
  sr_completed :: "int option"
  sr_summary :: "string option"
  sr_blocking :: "string option"

definition pending_stage :: "string \<Rightarrow> stage_result" where
  "pending_stage stage =
     \<lparr>sr_stage = stage, sr_status = ''PENDING'', sr_started = None, sr_completed = None,
      sr_summary = None, sr_blocking = None\<rparr>"

record deployment =
  dp_agent :: string
  dp_id :: string
  dp_version :: int
  dp_triggered_by :: string
  dp_triggered_at :: int
  dp_status :: string
  dp_current :: string
  dp_mode :: string
  dp_approved_by :: "string option"
  dp_approved_at :: "int option"
  dp_stages :: "(string \<times> stage_result) list"
  dp_iac_key :: "string option"
  dp_branch :: "string option"
  dp_pr :: "string option"
  dp_health_url :: "string option"
  dp_failure :: "string option"
  dp_failed_stage :: "string option"
  dp_updated_at :: int

definition initial_stages :: "(string \<times> stage_result) list" where
  "initial_stages = map (\<lambda>s. (s, pending_stage s)) deployment_stage_order"

section \<open>State\<close>

datatype git_request = ClosePr string string string | MergePr string string

record factory_settings =
  st_git_provider :: string
  st_git_org :: "string option"

record 'w cloud =
  cl_clock :: "'w \<Rightarrow> int"
  cl_iso :: "int \<Rightarrow> string"
  cl_git :: "git_request \<Rightarrow> 'w \<Rightarrow> (string + unit) \<times> 'w"
  cl_codebuild :: "string \<Rightarrow> (string \<times> string) list \<Rightarrow> 'w \<Rightarrow> (string + string) \<times> 'w"
  cl_post :: "string \<Rightarrow> 'w \<Rightarrow> (string + int \<times> pyval option) \<times> 'w"

record 'w factory =
  fc_world :: 'w
  fc_registry :: registry
  fc_deployments :: "((string \<times> string) \<times> deployment) list"
  fc_git :: "git_request list"
  fc_events :: "(string \<times> pyval) list"
  fc_audit :: "(string \<times> string \<times> string \<times> string) list"
  fc_metrics :: "(string \<times> string) list"

type_synonym ('w, 'a) factory_action = "('w factory, 'a) prog"

definition now_at :: "'w cloud \<Rightarrow> ('w, int) factory_action" where
  "now_at cl = reads (\<lambda>s. cl_clock cl (fc_world s))"

definition on_registry :: "'a reg_action \<Rightarrow> ('w, 'a) factory_action" where
  "on_registry m s = (let (r, g) = m (fc_registry s) in (r, s\<lparr>fc_registry := g\<rparr>))"

definition calls :: "('w \<Rightarrow> (string + 'a) \<times> 'w) \<Rightarrow> ('w, 'a) factory_action" where
  "calls f s =
     (case f (fc_world s) of
        (Inl e, w) \<Rightarrow> (Inl (ExternalError e), s\<lparr>fc_world := w\<rparr>)
      | (Inr x, w) \<Rightarrow> (Inr x, s\<lparr>fc_world := w\<rparr>))"

text \<open>A request to the git host is sent before its answer is known.\<close>

definition git_send :: "'w cloud \<Rightarrow> git_request \<Rightarrow> ('w, unit) factory_action" where
  "git_send cl rq =
     andthen (modifies (\<lambda>s. s\<lparr>fc_git := fc_git s @ [rq]\<rparr>)) (\<lambda>_. calls (cl_git cl rq))"

section \<open>The deployments table\<close>

definition get_deployment :: "string \<Rightarrow> string \<Rightarrow> ('w, deployment option) factory_action" where
  "get_deployment agent did = reads (\<lambda>s. map_of (fc_deployments s) (agent, did))"

text \<open>
  The index has no sort key: with one deployment under an id, as random ids make it, the query
  returns that one.
\<close>

definition get_deployment_by_id :: "string \<Rightarrow> ('w, deployment option) factory_action" where
  "get_deployment_by_id did =
     reads (\<lambda>s. map_option snd (find (\<lambda>(k, d). snd k = did) (fc_deployments s)))"

text \<open>The query gives the rows by deployment id; the list is sorted by trigger time, newest first.\<close>

definition list_deployments :: "string \<Rightarrow> ('w, deployment list) factory_action" where
  "list_deployments agent =
     reads (\<lambda>s. sort_key (\<lambda>d. - dp_triggered_at d)
                  (map snd (sort_items [(i, d). ((a, i), d) \<leftarrow> fc_deployments s, a = agent])))"

definition put_deployment :: "deployment \<Rightarrow> ('w, unit) factory_action" where
  "put_deployment d =
     modifies (\<lambda>s. s\<lparr>fc_deployments := AList.update (dp_agent d, dp_id d) d (fc_deployments s)\<rparr>)"

definition create_deployment :: "deployment \<Rightarrow> ('w, unit) factory_action" where
  "create_deployment d = put_deployment d"

definition require_deployment :: "string \<Rightarrow> string \<Rightarrow> ('w, deployment) factory_action" where
  "require_deployment agent did =
     andthen (get_deployment agent did) (\<lambda>d.
       case d of
         None \<Rightarrow> raising (Raised ''DeploymentNotFoundError''
                  (''Deployment '' @ repr_str did @ '' not found for agent '' @ repr_str agent))
       | Some x \<Rightarrow> ret x)"

text \<open>The optional arguments of \<open>update_stage\<close>.\<close>

record stage_update =
  su_summary :: "string option"
  su_blocking :: "string option"
  su_overall :: "string option"
  su_failure :: "string option"
  su_failed_stage :: "string option"

definition no_update :: stage_update where
  "no_update = \<lparr>su_summary = None, su_blocking = None, su_overall = None, su_failure = None, su_failed_stage = None\<rparr>"

definition keep_unless :: "'a option \<Rightarrow> 'a option \<Rightarrow> 'a option" where
  "keep_unless new old = (case new of None \<Rightarrow> old | Some x \<Rightarrow> Some x)"

definition terminal_stage_statuses :: "string list" where
  "terminal_stage_statuses = [''PASSED'', ''FAILED'', ''SKIPPED'', ''BLOCKED'']"

definition updated_stage :: "int \<Rightarrow> string \<Rightarrow> stage_update \<Rightarrow> stage_result \<Rightarrow> stage_result" where
  "updated_stage now status up old =
     old\<lparr>sr_status := status,
         sr_summary := keep_unless (su_summary up) (sr_summary old),
         sr_blocking := keep_unless (su_blocking up) (sr_blocking old),
         sr_started := (case sr_started old of Some t \<Rightarrow> Some t
                        | None \<Rightarrow> if status = ''RUNNING'' then Some now else None),
         sr_completed := (if status \<in> set terminal_stage_statuses then Some now else sr_completed old)\<rparr>"

definition with_stage :: "int \<Rightarrow> string \<Rightarrow> string \<Rightarrow> stage_update \<Rightarrow> deployment \<Rightarrow> deployment" where
  "with_stage now stage status up d =
     d\<lparr>dp_stages := AList.update stage
         (updated_stage now status up (get_or (pending_stage stage) (map_of (dp_stages d) stage))) (dp_stages d),
       dp_current := stage, dp_updated_at := now,
       dp_status := get_or (dp_status d) (su_overall up),
       dp_failure := keep_unless (su_failure up) (dp_failure d),
       dp_failed_stage := keep_unless (su_failed_stage up) (dp_failed_stage d)\<rparr>"

definition update_stage ::
  "'w cloud \<Rightarrow> string \<Rightarrow> string \<Rightarrow> string \<Rightarrow> string \<Rightarrow> stage_update \<Rightarrow> ('w, deployment) factory_action" where
  "update_stage cl agent did stage status up =
     andthen (require_deployment agent did) (\<lambda>d.
     andthen (now_at cl) (\<lambda>now.
       let d' = with_stage now stage status up d
       in andthen (put_deployment d') (\<lambda>_. ret d')))"

definition record_git_reference ::
  "'w cloud \<Rightarrow> string \<Rightarrow> string \<Rightarrow> string \<Rightarrow> string option \<Rightarrow> ('w, deployment) factory_action" where
  "record_git_reference cl agent did branch pr =
     andthen (require_deployment agent did) (\<lambda>d.
     andthen (now_at cl) (\<lambda>now.
       let d' = d\<lparr>dp_branch := Some branch, dp_pr := pr, dp_updated_at := now\<rparr>
       in andthen (put_deployment d') (\<lambda>_. ret d')))"

definition record_approval ::
  "'w cloud \<Rightarrow> string \<Rightarrow> string \<Rightarrow> string \<Rightarrow> ('w, deployment) factory_action" where
  "record_approval cl agent did who =
     andthen (require_deployment agent did) (\<lambda>d.
     andthen (now_at cl) (\<lambda>now.
       let d' = d\<lparr>dp_approved_by := Some who, dp_approved_at := Some now, dp_updated_at := now\<rparr>
       in andthen (put_deployment d') (\<lambda>_. ret d')))"

section \<open>Repositories, events, audit, metrics\<close>

definition agent_repo_identifier :: "string \<Rightarrow> string option \<Rightarrow> string \<Rightarrow> string option" where
  "agent_repo_identifier provider org agent =
     (let repo = ''panasa-iac-'' @ agent
      in if provider = ''codecommit'' then Some repo
         else if \<not> truthy org then None
         else Some (get_or [] org @ ''/'' @ repo))"

definition put_event :: "string \<Rightarrow> pyval \<Rightarrow> ('w, unit) factory_action" where
  "put_event kind detail = modifies (\<lambda>s. s\<lparr>fc_events := fc_events s @ [(kind, detail)]\<rparr>)"

definition trigger_deployment ::
  "'w cloud \<Rightarrow> string \<Rightarrow> int \<Rightarrow> string \<Rightarrow> string \<Rightarrow> ('w, unit) factory_action" where
  "trigger_deployment cl agent version did tenant =
     andthen (now_at cl) (\<lambda>now.
       put_event ''AgentDeploymentRequested'' (PDict
         [(''deploymentId'', PStr did), (''agentId'', PStr agent), (''version'', PInt version),
          (''tenantId'', PStr tenant), (''triggeredAt'', PStr (cl_iso cl now))]))"

definition notify_deployment_approved ::
  "'w cloud \<Rightarrow> string \<Rightarrow> string \<Rightarrow> string \<Rightarrow> string \<Rightarrow> ('w, unit) factory_action" where
  "notify_deployment_approved cl agent did tenant who =
     andthen (now_at cl) (\<lambda>now.
       put_event ''AgentDeploymentApproved'' (PDict
         [(''deploymentId'', PStr did), (''agentId'', PStr agent), (''tenantId'', PStr tenant),
          (''approvedBy'', PStr who), (''approvedAt'', PStr (cl_iso cl now))]))"

text \<open>The audit and metrics writers never raise; an entry that is lost is not in the log.\<close>

definition audit_block :: "string \<Rightarrow> string \<Rightarrow> string \<Rightarrow> ('w, unit) factory_action" where
  "audit_block tenant agent summary =
     modifies (\<lambda>s. s\<lparr>fc_audit := fc_audit s @ [(''block'', tenant, agent, summary)]\<rparr>)"

definition emit_metric :: "string \<Rightarrow> string \<Rightarrow> ('w, unit) factory_action" where
  "emit_metric name tenant = modifies (\<lambda>s. s\<lparr>fc_metrics := fc_metrics s @ [(name, tenant)]\<rparr>)"

section \<open>Laws of the table\<close>

lemma require_deployment_Inr:
  "require_deployment agent did s = (Inr d, t) \<longleftrightarrow> t = s \<and> map_of (fc_deployments s) (agent, did) = Some d"
  by (auto simp: require_deployment_def get_deployment_def prog_simps split: option.splits)

lemma put_deployment_run:
  "put_deployment d s = (Inr (), s\<lparr>fc_deployments := AList.update (dp_agent d, dp_id d) d (fc_deployments s)\<rparr>)"
  by (simp add: put_deployment_def modifies_def)

lemma with_stage_key [simp]:
  "dp_agent (with_stage now stage status up d) = dp_agent d" "dp_id (with_stage now stage status up d) = dp_id d"
  "dp_version (with_stage now stage status up d) = dp_version d" "dp_mode (with_stage now stage status up d) = dp_mode d"
  "dp_pr (with_stage now stage status up d) = dp_pr d"
  "dp_approved_by (with_stage now stage status up d) = dp_approved_by d"
  "dp_health_url (with_stage now stage status up d) = dp_health_url d"
  "dp_status (with_stage now stage status up d) = get_or (dp_status d) (su_overall up)"
  by (simp_all add: with_stage_def)

lemma with_stage_status:
  "map_option sr_status (map_of (dp_stages (with_stage now stage status up d)) k) =
     (if k = stage then Some status else map_option sr_status (map_of (dp_stages d) k))"
  by (simp add: with_stage_def updated_stage_def AList.update_conv')

text \<open>Deployments are stored under their own key.\<close>

definition dp_keyed :: "'w factory \<Rightarrow> bool" where
  "dp_keyed s \<longleftrightarrow> (\<forall>k d. map_of (fc_deployments s) k = Some d \<longrightarrow> (dp_agent d, dp_id d) = k)"

definition at_deployment :: "string \<Rightarrow> string \<Rightarrow> 'w factory \<Rightarrow> deployment option" where
  "at_deployment agent did s = map_of (fc_deployments s) (agent, did)"

text \<open>An update of a stage changes exactly its own row, and no other table.\<close>

lemma update_stage_run:
  assumes "map_of (fc_deployments s) (agent, did) = Some d" and "dp_agent d = agent" and "dp_id d = did"
  shows "update_stage cl agent did stage status up s =
    (let d' = with_stage (cl_clock cl (fc_world s)) stage status up d
     in (Inr d', s\<lparr>fc_deployments := AList.update (agent, did) d' (fc_deployments s)\<rparr>))"
proof -
  have "require_deployment agent did s = (Inr d, s)"
    using assms(1) by (simp add: require_deployment_Inr)
  then show ?thesis
    using assms(2,3) by (simp add: update_stage_def andthen_def now_at_def reads_def put_deployment_run ret_def Let_def)
qed

lemma update_stage_missing:
  assumes "map_of (fc_deployments s) (agent, did) = None"
  shows "\<exists>e. update_stage cl agent did stage status up s = (Inl e, s)"
  using assms by (simp add: update_stage_def require_deployment_def get_deployment_def prog_simps)

lemma update_stage_Inr:
  assumes "update_stage cl agent did stage status up s = (Inr d', t)" and "dp_keyed s"
  obtains d now where "map_of (fc_deployments s) (agent, did) = Some d" and "d' = with_stage now stage status up d"
    and "t = s\<lparr>fc_deployments := AList.update (agent, did) d' (fc_deployments s)\<rparr>"
proof -
  obtain d where d: "map_of (fc_deployments s) (agent, did) = Some d"
    using assms(1) by (cases "map_of (fc_deployments s) (agent, did)")
      (auto dest: update_stage_missing [where cl = cl and stage = stage and status = status and up = up])
  moreover have "dp_agent d = agent" "dp_id d = did"
    using assms(2) d unfolding dp_keyed_def by blast+
  ultimately show ?thesis
    using update_stage_run [OF d] assms(1) that by (auto simp: Let_def)
qed

lemma update_stage_keyed:
  assumes "update_stage cl agent did stage status up s = (r, t)" and "dp_keyed s"
  shows "dp_keyed t"
proof (cases "map_of (fc_deployments s) (agent, did)")
  case None
  with assms show ?thesis by (auto dest: update_stage_missing [where cl = cl and stage = stage and status = status and up = up])
next
  case (Some d)
  then have "dp_agent d = agent" "dp_id d = did" using assms(2) unfolding dp_keyed_def by blast+
  with update_stage_run [OF Some] assms show ?thesis
    by (auto simp: Let_def dp_keyed_def AList.update_conv' split: if_splits)
qed

end
