(* ===== verification/Gates.thy ===== *)
theory Gates
  imports Factory ChangeImpact
begin

text \<open>
  The gates of a deployment (app/modules/security/policy_gate.py, app/modules/evaluation/gate.py)
  and their enforcement (app/modules/security/policy_enforcement.py). Scores are rationals.
\<close>

section \<open>Findings\<close>

record finding =
  fd_scan :: string
  fd_severity :: string
  fd_category :: string
  fd_description :: string
  fd_location :: "string option"

definition scan_types :: "string list" where
  "scan_types = [''sast'', ''secret_scan'', ''dependency_scan'', ''iac_scan'', ''container_scan'']"

record gate_result =
  gt_decision :: string
  gt_reason :: string
  gt_finding :: "finding option"

definition blocking :: "finding \<Rightarrow> bool" where
  "blocking f \<longleftrightarrow> fd_severity f = ''CRITICAL'' \<and> fd_category f \<in> set critical_block_conditions"

fun policy_gate :: "finding list \<Rightarrow> gate_result" where
  "policy_gate [] = \<lparr>gt_decision = ''PASS'', gt_reason = ''All security gates passed'', gt_finding = None\<rparr>"
| "policy_gate (f # fs) =
     (if blocking f
      then \<lparr>gt_decision = ''BLOCK'', gt_reason = ''Critical finding: '' @ fd_description f, gt_finding = Some f\<rparr>
      else policy_gate fs)"

lemma policy_gate_decision:
  "gt_decision (policy_gate fs) = (if list_ex blocking fs then ''BLOCK'' else ''PASS'')"
  by (induction fs) auto

lemma policy_gate_finding:
  "gt_finding (policy_gate fs) = find blocking fs"
  by (induction fs) auto

section \<open>Evaluation\<close>

text \<open>The metrics with their thresholds and whether they block.\<close>

definition ragas_phase1_metrics :: "(string \<times> rat \<times> bool) list" where
  "ragas_phase1_metrics =
     [(''faithfulness'', 70/100, True), (''answer_relevancy'', 75/100, True), (''context_precision'', 60/100, True),
      (''context_recall'', 65/100, True), (''noise_sensitivity'', 65/100, True)]"

definition ragas_phase2_metrics :: "(string \<times> rat \<times> bool) list" where
  "ragas_phase2_metrics = [(''groundedness'', 75/100, False), (''citation_accuracy'', 70/100, False)]"

definition ragas_metrics :: "(string \<times> rat \<times> bool) list" where
  "ragas_metrics = ragas_phase1_metrics @ ragas_phase2_metrics"

definition should_run_ragas :: "bool \<Rightarrow> bool \<Rightarrow> bool" where
  "should_run_ragas kb_enabled test_dataset_exists = (kb_enabled \<and> test_dataset_exists)"

definition failed_metrics :: "(string \<times> rat) list \<Rightarrow> string list" where
  "failed_metrics scores =
     [name. (name, threshold, blocks) \<leftarrow> ragas_metrics,
        blocks \<and> (case map_of scores name of None \<Rightarrow> False | Some x \<Rightarrow> x < threshold)]"

record evaluation_result =
  er_decision :: string
  er_reason :: string
  er_failed :: "string list"

definition evaluation_gate :: "(string \<times> rat) list \<Rightarrow> evaluation_result" where
  "evaluation_gate scores =
     (let failed = failed_metrics scores
      in if failed \<noteq> []
         then \<lparr>er_decision = ''BLOCK'', er_reason = ''RAGAS metric(s) below threshold: '' @ join_with '', '' failed,
               er_failed = failed\<rparr>
         else \<lparr>er_decision = ''PASS'', er_reason = ''All evaluation gates passed'', er_failed = []\<rparr>)"

lemma failed_metrics_iff:
  "name \<in> set (failed_metrics scores) \<longleftrightarrow>
     (\<exists>threshold x. (name, threshold, True) \<in> set ragas_metrics \<and> map_of scores name = Some x \<and> x < threshold)"
  unfolding failed_metrics_def by (fastforce split: option.splits)

lemma evaluation_gate_decision:
  "er_decision (evaluation_gate scores) = ''BLOCK'' \<longleftrightarrow> failed_metrics scores \<noteq> []"
  "er_decision (evaluation_gate scores) = ''PASS'' \<longleftrightarrow> failed_metrics scores = []"
  by (simp_all add: evaluation_gate_def Let_def)

section \<open>The evaluation and scan jobs\<close>

definition evaluation_project :: string where "evaluation_project = ''panasa-evaluation''"

definition start_evaluation ::
  "'w cloud \<Rightarrow> string \<Rightarrow> string \<Rightarrow> string list \<Rightarrow> bool \<Rightarrow> ('w, string option) factory_action" where
  "start_evaluation cl agent did validations run_ragas =
     (if validations = [] \<and> \<not> run_ragas then ret None
      else andthen (calls (cl_codebuild cl evaluation_project
                     [(''AGENT_ID'', agent), (''DEPLOYMENT_ID'', did),
                      (''REQUIRED_VALIDATIONS'', join_with '','' validations),
                      (''RUN_RAGAS'', if run_ragas then ''true'' else ''false'')]))
             (\<lambda>i. ret (Some i)))"

definition codebuild_project_name :: "string \<Rightarrow> string" where
  "codebuild_project_name scan = ''panasa-security-'' @ replace_char CHR ''_'' CHR ''-'' scan"

text \<open>The builds are all started; the first failure in their order is raised afterwards.\<close>

fun start_each ::
  "'w cloud \<Rightarrow> string \<Rightarrow> string \<Rightarrow> string list \<Rightarrow> ('w, (pyexn + string \<times> string) list) factory_action" where
  "start_each cl agent did [] = ret []"
| "start_each cl agent did (scan # scans) =
     andthen (catching
        (andthen (calls (cl_codebuild cl (codebuild_project_name scan)
             [(''AGENT_ID'', agent), (''DEPLOYMENT_ID'', did), (''SCAN_TYPE'', scan)])) (\<lambda>i. ret (Inr (scan, i))))
        (\<lambda>e. ret (Inl e))) (\<lambda>r.
     andthen (start_each cl agent did scans) (\<lambda>rs. ret (r # rs)))"

fun all_started :: "(pyexn + 'a) list \<Rightarrow> pyexn + 'a list" where
  "all_started [] = Inr []"
| "all_started (Inl e # rs) = Inl e"
| "all_started (Inr x # rs) = (case all_started rs of Inl e \<Rightarrow> Inl e | Inr xs \<Rightarrow> Inr (x # xs))"

definition start_scans ::
  "'w cloud \<Rightarrow> string \<Rightarrow> string \<Rightarrow> string list \<Rightarrow> ('w, (string \<times> string) list) factory_action" where
  "start_scans cl agent did scans =
     andthen (start_each cl agent did scans) (\<lambda>rs. case all_started rs of Inl e \<Rightarrow> raising e | Inr xs \<Rightarrow> ret xs)"

section \<open>Enforcement\<close>

definition combined_gate :: "finding list \<Rightarrow> (string \<times> rat) list option \<Rightarrow> gate_result" where
  "combined_gate findings scores =
     (let result = policy_gate findings
      in case scores of
           None \<Rightarrow> result
         | Some sc \<Rightarrow>
             (if gt_decision result = ''PASS'' \<and> er_decision (evaluation_gate sc) = ''BLOCK''
              then \<lparr>gt_decision = ''BLOCK'', gt_reason = er_reason (evaluation_gate sc), gt_finding = None\<rparr>
              else result))"

definition blocked_update :: "string \<Rightarrow> stage_update" where
  "blocked_update reason =
     \<lparr>su_summary = Some reason, su_blocking = Some reason, su_overall = Some ''BLOCKED'', su_failure = Some reason,
      su_failed_stage = Some ''POLICY_CHECK''\<rparr>"

definition audit_deployment_block :: "string \<Rightarrow> string \<Rightarrow> string \<Rightarrow> string \<Rightarrow> ('w, unit) factory_action" where
  "audit_deployment_block tenant agent did reason =
     andthen (audit_block tenant agent (''Deployment '' @ did @ '' blocked: '' @ reason)) (\<lambda>_.
       emit_metric ''DeploymentBlocked'' tenant)"

definition enforce_policy_gate ::
  "'w cloud \<Rightarrow> finding list \<Rightarrow> string \<Rightarrow> string \<Rightarrow> string \<Rightarrow> string \<Rightarrow> (string \<times> rat) list option \<Rightarrow> bool
     \<Rightarrow> ('w, gate_result) factory_action" where
  "enforce_policy_gate cl findings tenant agent did who scores audited =
     (let result = combined_gate findings scores
      in andthen (if gt_decision result = ''BLOCK'' \<and> audited
                  then audit_deployment_block tenant agent did (gt_reason result) else ret ()) (\<lambda>_.
         andthen (if gt_decision result = ''BLOCK''
                  then andthen (update_stage cl agent did ''POLICY_CHECK'' ''BLOCKED'' (blocked_update (gt_reason result))) (\<lambda>_.
                       andthen (now_at cl) (\<lambda>now.
                       andthen (on_registry (mark_deployment_blocked (At now) tenant agent who)) (\<lambda>_. ret ())))
                  else andthen (update_stage cl agent did ''POLICY_CHECK'' ''PASSED''
                         (no_update\<lparr>su_summary := Some (gt_reason result), su_overall := Some ''APPLYING''\<rparr>)) (\<lambda>_. ret ()))
           (\<lambda>_. ret result)))"

lemma combined_gate_block:
  "gt_decision (combined_gate findings scores) = ''BLOCK'' \<longleftrightarrow>
     list_ex blocking findings \<or> (\<exists>sc. scores = Some sc \<and> failed_metrics sc \<noteq> [])"
  by (auto simp: combined_gate_def policy_gate_decision evaluation_gate_decision Let_def split: option.splits)

lemma combined_gate_pass:
  "gt_decision (combined_gate findings scores) \<noteq> ''BLOCK'' \<Longrightarrow> gt_decision (combined_gate findings scores) = ''PASS''"
  by (auto simp: combined_gate_def policy_gate_decision Let_def split: option.splits if_splits)

end
