(* ===== verification/ScanRunner.thy ===== *)
theory ScanRunner
  imports Gates
begin

text \<open>
  app/modules/deployment/iac_scan_runner.py: the findings of tfsec and checkov over generated
  Terraform, their summary, and the policy gate's decision on them. The two programs are
  parameters that answer with their output or with the way they failed.
\<close>

section \<open>Reading a scanner's output\<close>

datatype tool_run = NotFound | TimedOut | Output string

definition scanner_severities :: "string list" where
  "scanner_severities = [''LOW'', ''MEDIUM'', ''HIGH'', ''CRITICAL'']"

definition category_keywords :: "(string \<times> string) list" where
  "category_keywords =
     [(''secret'', ''hardcoded_secret_found''), (''credential'', ''hardcoded_secret_found''),
      (''privilege'', ''iam_privilege_escalation''), (''wildcard'', ''iam_privilege_escalation'')]"

definition infer_category :: "string \<Rightarrow> string" where
  "infer_category text =
     (case find (\<lambda>(kw, _). contains_text kw (py_lower text)) category_keywords of
        Some (_, c) \<Rightarrow> c
      | None \<Rightarrow> text)"

text \<open>\<open>item.get(k, "")\<close> and \<open>item.get(a) or item.get(b) or d\<close> on an item that is an object.\<close>

definition get_text :: "string \<Rightarrow> pyval \<Rightarrow> string" where
  "get_text k v =
     (case v of PDict kvs \<Rightarrow> (case map_of kvs k of None \<Rightarrow> [] | Some x \<Rightarrow> py_str x) | _ \<Rightarrow> [])"

definition first_text :: "string list \<Rightarrow> string \<Rightarrow> pyval \<Rightarrow> string" where
  "first_text ks dflt v =
     (case find (\<lambda>k. py_truthy (dict_get k v)) ks of None \<Rightarrow> dflt | Some k \<Rightarrow> py_str (dict_get k v))"

definition is_object :: "pyval \<Rightarrow> bool" where
  "is_object v = (case v of PDict _ \<Rightarrow> True | _ \<Rightarrow> False)"

fun each_object :: "(pyval \<Rightarrow> 'a) \<Rightarrow> pyval list \<Rightarrow> pyexn + 'a list" where
  "each_object f [] = Inr []"
| "each_object f (v # vs) =
     (if \<not> is_object v then Inl (AttributeError ''get'')
      else (case each_object f vs of Inl e \<Rightarrow> Inl e | Inr xs \<Rightarrow> Inr (f v # xs)))"

text \<open>Iterating over a value: a list's items; a value that is false is replaced by an empty list.\<close>

definition items_or_empty :: "pyval \<Rightarrow> pyexn + pyval list" where
  "items_or_empty v =
     (if \<not> py_truthy v then Inr []
      else (case v of
              PList xs \<Rightarrow> Inr xs
            | PDict kvs \<Rightarrow> Inr (map (\<lambda>(k, _). PStr k) kvs)
            | PStr s \<Rightarrow> Inr (map (\<lambda>c. PStr [c]) s)
            | _ \<Rightarrow> Inl (TypeError ''not iterable'')))"

definition tfsec_severity :: "pyval \<Rightarrow> string" where
  "tfsec_severity item =
     (let s = upper (first_text [''severity''] ''LOW'' item) in if s \<in> set scanner_severities then s else ''LOW'')"

definition tfsec_finding :: "pyval \<Rightarrow> finding" where
  "tfsec_finding item =
     \<lparr>fd_scan = ''iac_scan'', fd_severity = tfsec_severity item,
      fd_category = infer_category (get_text ''long_id'' item @ '' '' @ get_text ''rule_description'' item),
      fd_description = first_text [''description'', ''rule_description''] [] item,
      fd_location = Some (first_text [''resource''] [] item)\<rparr>"

definition checkov_severity :: "pyval \<Rightarrow> string" where
  "checkov_severity raw =
     (case raw of PStr s \<Rightarrow> if upper s \<in> set scanner_severities then upper s else ''MEDIUM'' | _ \<Rightarrow> ''MEDIUM'')"

definition checkov_finding :: "pyval \<Rightarrow> finding" where
  "checkov_finding item =
     \<lparr>fd_scan = ''iac_scan'', fd_severity = checkov_severity (dict_get ''severity'' item),
      fd_category = infer_category (get_text ''check_id'' item @ '' '' @ get_text ''check_name'' item),
      fd_description = first_text [''check_name'', ''check_id''] [] item,
      fd_location = Some (first_text [''resource''] [] item)\<rparr>"

text \<open>An output that is empty is \<open>{}\<close>; one that is no JSON has no findings.\<close>

definition parsed_output :: "string \<Rightarrow> pyval option" where
  "parsed_output out = (if out = [] then Some (PDict []) else json_loads out)"

definition findings_in :: "(pyval \<Rightarrow> finding) \<Rightarrow> pyval \<Rightarrow> pyexn + finding list" where
  "findings_in f items = (case items_or_empty items of Inl e \<Rightarrow> Inl e | Inr xs \<Rightarrow> each_object f xs)"

definition run_tfsec :: "tool_run \<Rightarrow> pyexn + finding list" where
  "run_tfsec r =
     (case r of
        Output out \<Rightarrow>
          (case parsed_output out of
             None \<Rightarrow> Inr []
           | Some v \<Rightarrow>
               (if \<not> is_object v then Inl (AttributeError ''get'') else findings_in tfsec_finding (dict_get ''results'' v)))
      | _ \<Rightarrow> Inr [])"

definition run_checkov :: "tool_run option \<Rightarrow> pyexn + finding list" where
  "run_checkov r =
     (case r of
        Some (Output out) \<Rightarrow>
          (case parsed_output out of
             None \<Rightarrow> Inr []
           | Some v \<Rightarrow>
               (let d = (case v of PList xs \<Rightarrow> (if xs = [] then PDict [] else hd xs) | _ \<Rightarrow> v)
                in if \<not> is_object d then Inl (AttributeError ''get'')
                   else (let r = dict_get ''results'' d
                         in if \<not> py_truthy r then Inr []
                            else if \<not> is_object r then Inl (AttributeError ''get'')
                            else findings_in checkov_finding (dict_get ''failed_checks'' r))))
      | _ \<Rightarrow> Inr [])"

section \<open>The summary\<close>

text \<open>The severities found, in alphabetical order, with their counts.\<close>

definition severity_counts :: "finding list \<Rightarrow> (string \<times> nat) list" where
  "severity_counts fs =
     sort_items (map (\<lambda>s. (s, length (filter (\<lambda>f. fd_severity f = s) fs))) (remdups (map fd_severity fs)))"

definition summarize :: "finding list \<Rightarrow> string" where
  "summarize fs =
     (if fs = [] then ''tfsec + checkov: 0 findings''
      else ''tfsec + checkov: '' @
        join_with '', '' (map (\<lambda>(s, n). nat_text n @ '' '' @ py_lower s) (severity_counts fs)))"

record validation_check =
  vc_name :: string
  vc_passed :: bool
  vc_detail :: string

record scan_result =
  sc_findings :: "finding list"
  sc_summary :: string
  sc_checks :: "validation_check list"
  sc_passed :: bool
  sc_decision :: string
  sc_reason :: string

text \<open>The validator's report and the two tools' outputs, put together.\<close>

definition scan_run :: "validation_check list \<Rightarrow> bool \<Rightarrow> tool_run \<Rightarrow> tool_run option \<Rightarrow> pyexn + scan_result" where
  "scan_run checks passed tfsec checkov =
     (case run_tfsec tfsec of
        Inl e \<Rightarrow> Inl e
      | Inr a \<Rightarrow>
          (case run_checkov checkov of
             Inl e \<Rightarrow> Inl e
           | Inr b \<Rightarrow>
               (let fs = a @ b; gate = policy_gate fs
                in Inr \<lparr>sc_findings = fs, sc_summary = summarize fs, sc_checks = checks, sc_passed = passed,
                        sc_decision = gt_decision gate, sc_reason = gt_reason gate\<rparr>)))"

section \<open>What a scan can decide\<close>

lemma each_object_map: "each_object f vs = Inr xs \<Longrightarrow> xs = map f vs"
  by (induction vs arbitrary: xs) (auto split: if_splits sum.splits)

lemma findings_in_image: "findings_in f v = Inr xs \<Longrightarrow> set xs \<subseteq> range f"
  by (auto simp: findings_in_def dest!: each_object_map split: sum.splits)

text \<open>Whatever the two programs print, every finding is an IaC finding of a known severity.\<close>

definition known_finding :: "finding \<Rightarrow> bool" where
  "known_finding f \<longleftrightarrow> fd_severity f \<in> set scanner_severities \<and> fd_scan f = ''iac_scan''"

lemma known_findings: "known_finding (tfsec_finding x)" "known_finding (checkov_finding x)"
  by (auto simp: known_finding_def tfsec_finding_def tfsec_severity_def checkov_finding_def checkov_severity_def
      scanner_severities_def Let_def split: pyval.splits)

lemma findings_in_known:
  "findings_in tfsec_finding v = Inr fs \<Longrightarrow> list_all known_finding fs"
  "findings_in checkov_finding v = Inr fs \<Longrightarrow> list_all known_finding fs"
  using findings_in_image known_findings by (fastforce simp: list_all_iff)+

lemma run_findings_known:
  "run_tfsec r = Inr fs \<Longrightarrow> list_all known_finding fs"
  "run_checkov r' = Inr fs \<Longrightarrow> list_all known_finding fs"
  by (auto simp: run_tfsec_def run_checkov_def Let_def dest!: findings_in_known
      split: tool_run.splits option.splits if_splits)

lemma scan_run_known:
  "scan_run checks passed tfsec checkov = Inr sc \<Longrightarrow> list_all known_finding (sc_findings sc)"
  by (auto simp: scan_run_def Let_def dest!: run_findings_known split: sum.splits)

lemma scan_run_decision:
  assumes "scan_run checks passed tfsec checkov = Inr sc"
  shows "sc_decision sc = (if list_ex blocking (sc_findings sc) then ''BLOCK'' else ''PASS'')"
  using assms by (auto simp: scan_run_def policy_gate_decision Let_def split: sum.splits)

end
