(* ===== verification/Simulator.thy ===== *)
theory Simulator
  imports ScanRunner
begin

text \<open>
  app/modules/deployment/pipeline_simulator.py: the pipeline that stands in for the customer's CI/CD
  where there is none. It drives the real tables: stages in order, the policy decision, the pull
  request, the live version. The scan is a parameter that is there when a scan runner, a
  configuration and files are.
\<close>

section \<open>Texts\<close>

fun title_from :: "bool \<Rightarrow> string \<Rightarrow> string" where
  "title_from inside [] = []"
| "title_from inside (c # cs) =
     (let letter = (lower_char c \<noteq> c \<or> upper_char c \<noteq> c)
      in (if inside then lower_char c else upper_char c) # title_from letter cs)"

definition simulated_summary :: "string \<Rightarrow> string" where
  "simulated_summary stage =
     ''[simulated] '' @ title_from False (replace_char CHR ''_'' CHR '' '' stage) @ '' passed.''"

definition severity_rank :: "string \<Rightarrow> nat" where
  "severity_rank s = get_or 4 (map_of [(''CRITICAL'', 0), (''HIGH'', 1), (''MEDIUM'', 2), (''LOW'', 3)] s)"

definition pad_to :: "nat \<Rightarrow> string \<Rightarrow> string" where
  "pad_to n s = s @ replicate (n - length s) CHR '' ''"

definition finding_line :: "finding \<Rightarrow> string" where
  "finding_line f =
     pad_to 8 (fd_severity f) @ '' '' @ fd_category f @ '': '' @ fd_description f @
     (if truthy (fd_location f) then '' ('' @ get_or [] (fd_location f) @ '')'' else [])"

definition findings_limit :: nat where "findings_limit = 4000"

definition format_security_findings :: "string \<Rightarrow> finding list \<Rightarrow> string" where
  "format_security_findings summary fs =
     (if fs = [] then summary
      else take findings_limit (join_with [CHR 0x0A]
             (summary # [] # map finding_line (sort_key (\<lambda>f. severity_rank (fd_severity f)) fs))))"

definition check_line :: "validation_check \<Rightarrow> string" where
  "check_line c = (if vc_passed c then ''PASS'' else ''FAIL'') @ '' '' @ vc_name c @ '': '' @ vc_detail c"

section \<open>Steps\<close>

definition simulator_name :: string where "simulator_name = ''deployment-pipeline-simulator''"

fun advance_stages :: "'w cloud \<Rightarrow> string \<Rightarrow> string \<Rightarrow> string list \<Rightarrow> ('w, unit) factory_action" where
  "advance_stages cl agent did [] = ret ()"
| "advance_stages cl agent did (stage # stages) =
     andthen (update_stage cl agent did stage ''RUNNING'' no_update) (\<lambda>_.
     andthen (update_stage cl agent did stage ''PASSED'' (no_update\<lparr>su_summary := Some (simulated_summary stage)\<rparr>)) (\<lambda>_.
       advance_stages cl agent did stages))"

text \<open>The pull request of a deployment, when it has one and its repository is known.\<close>

definition on_pull_request ::
  "'w cloud \<Rightarrow> factory_settings \<Rightarrow> string \<Rightarrow> deployment \<Rightarrow> (string \<Rightarrow> string \<Rightarrow> git_request) \<Rightarrow> ('w, unit) factory_action" where
  "on_pull_request cl st agent d request =
     (case dp_pr d of
        None \<Rightarrow> ret ()
      | Some pr \<Rightarrow>
          (case agent_repo_identifier (st_git_provider st) (st_git_org st) agent of
             None \<Rightarrow> ret ()
           | Some repo \<Rightarrow> git_send cl (request repo pr)))"

definition block_deployment ::
  "'w cloud \<Rightarrow> factory_settings \<Rightarrow> string \<Rightarrow> string \<Rightarrow> deployment \<Rightarrow> string \<Rightarrow> ('w, unit) factory_action" where
  "block_deployment cl st agent tenant d reason =
     andthen (on_pull_request cl st agent d (\<lambda>repo pr. ClosePr repo pr reason)) (\<lambda>_.
     andthen (now_at cl) (\<lambda>now.
     andthen (on_registry (mark_deployment_blocked (At now) tenant agent simulator_name)) (\<lambda>_.
     andthen (update_stage cl agent (dp_id d) ''POLICY_CHECK'' ''BLOCKED''
                ((blocked_update reason)\<lparr>su_blocking := None\<rparr>)) (\<lambda>_. ret ()))))"

definition finish_deployment ::
  "'w cloud \<Rightarrow> factory_settings \<Rightarrow> string \<Rightarrow> string \<Rightarrow> string \<Rightarrow> deployment \<Rightarrow> ('w, unit) factory_action" where
  "finish_deployment cl st tenant agent did d =
     andthen (on_pull_request cl st agent d MergePr) (\<lambda>_.
     andthen (advance_stages cl agent did [''APPLYING'', ''DEPLOYING'']) (\<lambda>_.
     andthen (now_at cl) (\<lambda>now.
     andthen (on_registry (mark_deployment_active (At now) tenant agent (dp_version d) simulator_name)) (\<lambda>_.
     andthen (update_stage cl agent did ''HEALTH_CHECK'' ''PASSED''
                (no_update\<lparr>su_overall := Some ''ACTIVE'', su_summary := Some ''[simulated] Health check passed.''\<rparr>))
       (\<lambda>_. ret ())))))"

definition scan_and_policy_check ::
  "'w cloud \<Rightarrow> factory_settings \<Rightarrow> ('w, scan_result) factory_action option \<Rightarrow> string \<Rightarrow> string \<Rightarrow> deployment
     \<Rightarrow> ('w, bool) factory_action" where
  "scan_and_policy_check cl st scan agent tenant d =
     (case scan of
        None \<Rightarrow>
          andthen (advance_stages cl agent (dp_id d)
                     [''SECURITY_SCANNING'', ''EVALUATING'', ''TERRAFORM_VALIDATE'', ''TERRAFORM_PLAN'']) (\<lambda>_.
          andthen (advance_stages cl agent (dp_id d) [''POLICY_CHECK'']) (\<lambda>_. ret True))
      | Some sc \<Rightarrow>
          andthen (update_stage cl agent (dp_id d) ''SECURITY_SCANNING'' ''RUNNING'' no_update) (\<lambda>_.
          andthen sc (\<lambda>res.
          andthen (update_stage cl agent (dp_id d) ''SECURITY_SCANNING'' ''PASSED''
                     (no_update\<lparr>su_summary := Some (format_security_findings (sc_summary res) (sc_findings res))\<rparr>)) (\<lambda>_.
          andthen (advance_stages cl agent (dp_id d) [''EVALUATING'']) (\<lambda>_.
          andthen (update_stage cl agent (dp_id d) ''TERRAFORM_VALIDATE'' (if sc_passed res then ''PASSED'' else ''FAILED'')
                     (no_update\<lparr>su_summary := Some (take 2000 (join_with [CHR 0x0A] (map check_line (sc_checks res))))\<rparr>)) (\<lambda>_.
          andthen (advance_stages cl agent (dp_id d) [''TERRAFORM_PLAN'']) (\<lambda>_.
            if sc_decision res = ''BLOCK''
            then andthen (block_deployment cl st agent tenant d (sc_reason res)) (\<lambda>_. ret False)
            else
              andthen (update_stage cl agent (dp_id d) ''POLICY_CHECK'' ''PASSED''
                         (no_update\<lparr>su_summary := Some (sc_reason res)\<rparr>)) (\<lambda>_. ret True))))))))"

text \<open>\<open>run\<close>: every exception is logged and ends the run.\<close>

definition simulate ::
  "'w cloud \<Rightarrow> factory_settings \<Rightarrow> ('w, scan_result) factory_action option \<Rightarrow> string \<Rightarrow> string \<Rightarrow> string
     \<Rightarrow> ('w, unit) factory_action" where
  "simulate cl st scan tenant agent did =
     catching
       (andthen (get_deployment agent did) (\<lambda>found.
          case found of
            None \<Rightarrow> ret ()
          | Some d \<Rightarrow>
              andthen (advance_stages cl agent did [''VALIDATING'', ''CHANGE_IMPACT'', ''GENERATING_IAC'']) (\<lambda>_.
              andthen (scan_and_policy_check cl st scan agent tenant d) (\<lambda>passed.
                if \<not> passed then ret ()
                else if dp_mode d = ''manual''
                then andthen (update_stage cl agent did ''POLICY_CHECK'' ''PASSED''
                                (no_update\<lparr>su_overall := Some ''PENDING_APPROVAL''\<rparr>)) (\<lambda>_. ret ())
                else finish_deployment cl st tenant agent did d))))
       (\<lambda>_. ret ())"

definition resume_deployment ::
  "'w cloud \<Rightarrow> factory_settings \<Rightarrow> string \<Rightarrow> string \<Rightarrow> string \<Rightarrow> ('w, unit) factory_action" where
  "resume_deployment cl st tenant agent did =
     catching
       (andthen (get_deployment agent did) (\<lambda>found.
          case found of None \<Rightarrow> ret () | Some d \<Rightarrow> finish_deployment cl st tenant agent did d))
       (\<lambda>_. ret ())"

section \<open>What a run that does not finish leaves alone\<close>

text \<open>The live version of every agent, as the table has it.\<close>

definition live_of :: "registry \<Rightarrow> string \<times> string \<Rightarrow> int option" where
  "live_of g k = (case map_of (rg_agents g) k of Some (Whole r) \<Rightarrow> ag_live_version r | _ \<Rightarrow> None)"

definition lives :: "'w factory \<Rightarrow> string \<times> string \<Rightarrow> int option" where
  "lives s = live_of (fc_registry s)"

definition merges :: "'w factory \<Rightarrow> git_request list" where
  "merges s = filter (\<lambda>r. case r of MergePr _ _ \<Rightarrow> True | ClosePr _ _ _ \<Rightarrow> False) (fc_git s)"

text \<open>
  Nothing is deployed between two states: no pull request is merged and no agent's live version
  changes, in a registry whose rows stand under their own keys.
\<close>

definition undeployed :: "'w factory \<Rightarrow> 'w factory \<Rightarrow> bool" where
  "undeployed s t \<longleftrightarrow>
     merges t = merges s \<and> (keyed (fc_registry s) \<longrightarrow> keyed (fc_registry t) \<and> lives t = lives s)"

interpretation undeployed_frame: frame undeployed
  by unfold_locales (auto simp: undeployed_def)

lemma update_stage_undeployed [frame_intros]: "stays_in undeployed (update_stage cl agent did stage status up)"
proof (rule stays_inI)
  fix s t :: "'a factory" and r
  assume "update_stage cl agent did stage status up s = (r, t)"
  then show "undeployed s t"
    by (auto simp: update_stage_def require_deployment_def get_deployment_def now_at_def put_deployment_def prog_simps
        undeployed_def merges_def lives_def Let_def split: option.splits)
qed


lemma quiet_undeployed [frame_intros]:
  "stays_in undeployed (get_deployment agent did)" "stays_in undeployed (now_at cl)"
  "stays_in undeployed (calls f)"
  by (auto simp: stays_in_def get_deployment_def now_at_def calls_def prog_simps undeployed_def merges_def lives_def
      split: prod.splits sum.splits)

lemma close_undeployed [frame_intros]: "stays_in undeployed (git_send cl (ClosePr a b c))"
  by (auto simp: stays_in_def git_send_def calls_def prog_simps undeployed_def merges_def lives_def
      split: prod.splits sum.splits)

lemma amend_keeps_live:
  assumes "amend_agent tenant agent f s = (x, t)" and "keyed s"
    and "\<And>r. ag_tenant (f r) = ag_tenant r \<and> ag_id (f r) = ag_id r \<and> ag_live_version (f r) = ag_live_version r"
  shows "keyed t \<and> live_of t = live_of s"
proof (cases x)
  case (Inl e)
  with assms show ?thesis by (auto dest: amend_agent_Inl)
next
  case (Inr r')
  with assms(1) have "amend_agent tenant agent f s = (Inr r', t)" by simp
  then obtain r where r: "readable s tenant agent r"
    and t: "t = s\<lparr>rg_agents := AList.update (ag_tenant (f r), ag_id (f r)) (Whole (f r)) (rg_agents s)\<rparr>"
    by (rule amend_agent_effect)
  from readable_key [OF assms(2) r] assms(3) [of r] have k: "ag_tenant (f r) = tenant" "ag_id (f r) = agent"
    "ag_live_version (f r) = ag_live_version r" by simp_all
  have m: "map_of (rg_agents t) = (map_of (rg_agents s))((tenant, agent) \<mapsto> Whole (f r))"
    using t k by (simp add: AList.update_conv')
  have "keyed t" using assms(2) m k by (simp add: keyed_def)
  moreover have "live_of t k = live_of s k" for k
    using m k r by (auto simp: live_of_def readable_def)
  ultimately show ?thesis by blast
qed

lemma amend_undeployed:
  assumes "\<And>r. ag_tenant (f r) = ag_tenant r \<and> ag_id (f r) = ag_id r \<and> ag_live_version (f r) = ag_live_version r"
  shows "stays_in undeployed (on_registry (amend_agent tenant agent f))"
proof (rule stays_inI)
  fix s t :: "'x factory" and x
  assume "on_registry (amend_agent tenant agent f) s = (x, t)"
  then obtain g where g: "amend_agent tenant agent f (fc_registry s) = (x, g)" and t: "t = s\<lparr>fc_registry := g\<rparr>"
    by (auto simp: on_registry_def Let_def split: prod.splits)
  then show "undeployed s t"
    using amend_keeps_live [OF g _ assms] by (simp add: undeployed_def merges_def lives_def)
qed

lemma mark_blocked_undeployed [frame_intros]:
  "stays_in undeployed (on_registry (mark_deployment_blocked now tenant agent who))"
  "stays_in undeployed (on_registry (mark_deployment_failed now tenant agent who))"
  unfolding mark_deployment_blocked_def mark_deployment_failed_def
  by (rule amend_undeployed; simp add: stamped_def)+

lemma simulator_undeployed [frame_intros]:
  "stays_in undeployed (advance_stages cl agent did stages)"
  "stays_in undeployed (block_deployment cl st agent tenant d reason)"
  "stays_in undeployed sc \<Longrightarrow> stays_in undeployed (scan_and_policy_check cl st (Some sc) agent tenant d)"
  "stays_in undeployed (scan_and_policy_check cl st None agent tenant d)"
proof -
  show adv: "stays_in undeployed (advance_stages cl agent did stages)" for stages did
    by (induction stages) (auto intro!: frame_intros)
  show blk: "stays_in undeployed (block_deployment cl st agent tenant d reason)" for reason
    unfolding block_deployment_def on_pull_request_def by (intro frame_intros)
  show "stays_in undeployed (scan_and_policy_check cl st None agent tenant d)"
    unfolding scan_and_policy_check_def by (simp add: frame_intros adv)
  show "stays_in undeployed sc \<Longrightarrow> stays_in undeployed (scan_and_policy_check cl st (Some sc) agent tenant d)"
    unfolding scan_and_policy_check_def by (auto intro!: frame_intros adv blk)
qed

text \<open>
  A run deploys only a deployment that is not in manual mode and whose scan, when there is one,
  did not decide BLOCK.
\<close>

lemma policy_passed:
  assumes "scan_and_policy_check cl st (Some sc) agent tenant d s = (Inr True, t)"
  shows "\<exists>u v res. sc u = (Inr res, v) \<and> sc_decision res \<noteq> ''BLOCK''"
proof (rule ccontr)
  assume no: "\<nexists>u v res. sc u = (Inr res, v) \<and> sc_decision res \<noteq> ''BLOCK''"
  show False
    using assms no unfolding scan_and_policy_check_def option.case
    by (elim andthen_InrE) (auto simp: ret_def elim!: andthen_InrE split: if_splits)
qed

lemma simulate_deploys:
  assumes "\<not> undeployed s (snd (simulate cl st scan tenant agent did s))"
    and "\<And>sc. scan = Some sc \<Longrightarrow> stays_in undeployed sc"
  shows "\<exists>d. map_of (fc_deployments s) (agent, did) = Some d \<and> dp_mode d \<noteq> ''manual'' \<and>
     (\<forall>sc. scan = Some sc \<longrightarrow> (\<exists>u v res. sc u = (Inr res, v) \<and> sc_decision res \<noteq> ''BLOCK''))"
proof (cases "map_of (fc_deployments s) (agent, did)")
  case None
  with assms(1) show ?thesis
    by (simp add: simulate_def get_deployment_def prog_simps undeployed_frame.frame_refl)
next
  case (Some d)
  let ?check = "scan_and_policy_check cl st scan agent tenant d"
  let ?rest = "\<lambda>passed. if \<not> passed then ret ()
                else if dp_mode d = ''manual''
                then andthen (update_stage cl agent did ''POLICY_CHECK'' ''PASSED''
                                (no_update\<lparr>su_overall := Some ''PENDING_APPROVAL''\<rparr>)) (\<lambda>_. ret ())
                else finish_deployment cl st tenant agent did d"
  let ?adv = "advance_stages cl agent did [''VALIDATING'', ''CHANGE_IMPACT'', ''GENERATING_IAC'']"
  have got: "get_deployment agent did s = (Inr (Some d), s)"
    using Some by (simp add: get_deployment_def reads_def)
  have run: "snd (simulate cl st scan tenant agent did s) = snd (andthen ?adv (\<lambda>_. andthen ?check ?rest) s)"
    unfolding simulate_def snd_catching_quiet by (subst andthen_Inr [where m = "get_deployment agent did", OF got]) simp
  have check: "stays_in undeployed ?check"
    using assms(2) simulator_undeployed(3,4) by (cases scan) auto
  have "\<not> undeployed s (snd (andthen ?adv (\<lambda>_. andthen ?check ?rest) s))"
    using assms(1) unfolding run .
  then obtain x u where "\<not> undeployed u (snd (andthen ?check ?rest u))"
    by (rule undeployed_frame.leaves_after [OF _ simulator_undeployed(1)])
  then obtain passed v where passed: "?check u = (Inr passed, v)" and left: "\<not> undeployed v (snd (?rest passed v))"
    by (rule undeployed_frame.leaves_after [OF _ check])
  have quiet: "stays_in undeployed (?rest p)" if "p \<longrightarrow> dp_mode d = ''manual''" for p
    using that by (auto intro!: frame_intros)
  have p: "passed" "dp_mode d \<noteq> ''manual''"
    using left quiet unfolding stays_in_def by blast+
  have "\<exists>u v res. sc u = (Inr res, v) \<and> sc_decision res \<noteq> ''BLOCK''" if "scan = Some sc" for sc
  proof (rule policy_passed)
    show "scan_and_policy_check cl st (Some sc) agent tenant d u = (Inr True, v)"
      using passed p(1) that by simp
  qed
  with Some p(2) show ?thesis by blast
qed

section \<open>An automated run that is not stopped\<close>

definition statuses :: "deployment \<Rightarrow> string \<Rightarrow> string option" where
  "statuses d k = map_option sr_status (map_of (dp_stages d) k)"

text \<open>What is stored under a deployment's key, and that no other part of the state moved.\<close>

definition at_key :: "'w factory \<Rightarrow> deployment \<Rightarrow> bool" where
  "at_key s d \<longleftrightarrow> map_of (fc_deployments s) (dp_agent d, dp_id d) = Some d"

definition same_elsewhere :: "'w factory \<Rightarrow> 'w factory \<Rightarrow> bool" where
  "same_elsewhere s t \<longleftrightarrow> fc_registry t = fc_registry s \<and> fc_git t = fc_git s \<and> fc_world t = fc_world s"

definition same_deployment :: "deployment \<Rightarrow> deployment \<Rightarrow> bool" where
  "same_deployment d e \<longleftrightarrow> dp_agent e = dp_agent d \<and> dp_id e = dp_id d \<and> dp_version e = dp_version d
     \<and> dp_mode e = dp_mode d \<and> dp_pr e = dp_pr d"

lemma update_moves:
  assumes "at_key s d"
  shows "\<exists>t e. update_stage cl (dp_agent d) (dp_id d) stage status up s = (Inr e, t) \<and> at_key t e \<and> same_elsewhere s t
     \<and> same_deployment d e \<and> statuses e = (statuses d)(stage \<mapsto> status) \<and> dp_status e = get_or (dp_status d) (su_overall up)"
  using update_stage_run [of s "dp_agent d" "dp_id d" d cl stage status up] assms
  by (auto simp: Let_def at_key_def same_elsewhere_def same_deployment_def AList.update_conv' statuses_def
      with_stage_status fun_eq_iff)

lemma advance_moves:
  assumes "at_key s d"
  shows "\<exists>t e. advance_stages cl (dp_agent d) (dp_id d) stages s = (Inr (), t) \<and> at_key t e \<and> same_elsewhere s t
     \<and> same_deployment d e \<and> statuses e = (\<lambda>k. if k \<in> set stages then Some ''PASSED'' else statuses d k)
     \<and> dp_status e = dp_status d"
  using assms
proof (induction stages arbitrary: s d)
  case Nil
  then show ?case by (auto simp: ret_def same_elsewhere_def same_deployment_def)
next
  case (Cons stage stages)
  from update_moves [OF Cons.prems, of cl stage "''RUNNING''" no_update] obtain t1 e1
    where 1: "update_stage cl (dp_agent d) (dp_id d) stage ''RUNNING'' no_update s = (Inr e1, t1)" "at_key t1 e1"
      "same_elsewhere s t1" "same_deployment d e1" "statuses e1 = (statuses d)(stage \<mapsto> ''RUNNING'')"
      "dp_status e1 = dp_status d"
    by (auto simp: no_update_def)
  let ?up = "no_update\<lparr>su_summary := Some (simulated_summary stage)\<rparr>"
  from update_moves [OF 1(2), of cl stage "''PASSED''" ?up] 1(4) obtain t2 e2
    where 2: "update_stage cl (dp_agent d) (dp_id d) stage ''PASSED'' ?up t1 = (Inr e2, t2)" "at_key t2 e2"
      "same_elsewhere t1 t2" "same_deployment e1 e2" "statuses e2 = (statuses e1)(stage \<mapsto> ''PASSED'')"
      "dp_status e2 = dp_status e1"
    by (auto simp: no_update_def same_deployment_def)
  from Cons.IH [OF 2(2)] 1(4) 2(4) obtain t e
    where 3: "advance_stages cl (dp_agent d) (dp_id d) stages t2 = (Inr (), t)" "at_key t e" "same_elsewhere t2 t"
      "same_deployment e2 e" "statuses e = (\<lambda>k. if k \<in> set stages then Some ''PASSED'' else statuses e2 k)"
      "dp_status e = dp_status e2"
    by (auto simp: same_deployment_def)
  have "advance_stages cl (dp_agent d) (dp_id d) (stage # stages) s = (Inr (), t)"
    by (simp add: andthen_Inr [where m = "update_stage cl (dp_agent d) (dp_id d) stage ''RUNNING'' no_update", OF 1(1)]
        andthen_Inr [where m = "update_stage cl (dp_agent d) (dp_id d) stage ''PASSED'' ?up", OF 2(1)] 3(1))
  moreover have "statuses e = (\<lambda>k. if k \<in> set (stage # stages) then Some ''PASSED'' else statuses d k)"
    using 1(5) 2(5) 3(5) by auto
  ultimately show ?case
    using 1 2 3 by (intro exI [of _ t] exI [of _ e]) (auto simp: same_elsewhere_def same_deployment_def)
qed

text \<open>The policy check with a scan that passes the gate, whatever the validator reported.\<close>

lemma check_moves:
  assumes "at_key s e" and "same_deployment d e" and "sc_decision res \<noteq> ''BLOCK''"
  shows "\<exists>t e'. scan_and_policy_check cl st (Some (ret res)) (dp_agent d) tenant d s = (Inr True, t) \<and> at_key t e'
     \<and> same_elsewhere s t \<and> same_deployment d e' \<and>
     statuses e' = (statuses e)(''SECURITY_SCANNING'' \<mapsto> ''PASSED'', ''EVALUATING'' \<mapsto> ''PASSED'',
        ''TERRAFORM_VALIDATE'' \<mapsto> (if sc_passed res then ''PASSED'' else ''FAILED''),
        ''TERRAFORM_PLAN'' \<mapsto> ''PASSED'', ''POLICY_CHECK'' \<mapsto> ''PASSED'')"
proof -
  let ?a = "dp_agent d" and ?i = "dp_id d"
  have upd: "\<exists>t e'. update_stage cl ?a ?i stage status up s' = (Inr e', t) \<and> at_key t e' \<and> same_elsewhere s' t
     \<and> same_deployment d e' \<and> statuses e' = (statuses e1)(stage \<mapsto> status)"
    if "at_key s' e1" "same_deployment d e1" for s' e1 stage status up
    using update_moves [OF that(1), of cl stage status up] that(2) by (auto simp: same_deployment_def)
  have adv: "\<exists>t e'. advance_stages cl ?a ?i [stage] s' = (Inr (), t) \<and> at_key t e' \<and> same_elsewhere s' t
     \<and> same_deployment d e' \<and> statuses e' = (statuses e1)(stage \<mapsto> ''PASSED'')"
    if "at_key s' e1" "same_deployment d e1" for s' e1 stage
  proof -
    from advance_moves [OF that(1), of cl "[stage]"] obtain t e' where
      "advance_stages cl (dp_agent e1) (dp_id e1) [stage] s' = (Inr (), t)" "at_key t e'" "same_elsewhere s' t"
      "same_deployment e1 e'" "statuses e' = (\<lambda>k. if k \<in> set [stage] then Some ''PASSED'' else statuses e1 k)"
      by blast
    with that(2) show ?thesis
      by (intro exI [of _ t] exI [of _ e']) (simp add: same_deployment_def fun_eq_iff del: advance_stages.simps)
  qed
  let ?f = "no_update\<lparr>su_summary := Some (format_security_findings (sc_summary res) (sc_findings res))\<rparr>"
  let ?v = "no_update\<lparr>su_summary := Some (take 2000 (join_with [CHR 0x0A] (map check_line (sc_checks res))))\<rparr>"
  let ?q = "no_update\<lparr>su_summary := Some (sc_reason res)\<rparr>"
  let ?w = "if sc_passed res then ''PASSED'' else ''FAILED''"
  obtain t1 e1 where 1: "update_stage cl ?a ?i ''SECURITY_SCANNING'' ''RUNNING'' no_update s = (Inr e1, t1)" "at_key t1 e1"
    "same_elsewhere s t1" "same_deployment d e1" "statuses e1 = (statuses e)(''SECURITY_SCANNING'' \<mapsto> ''RUNNING'')"
    using upd [OF assms(1,2)] by blast
  obtain t2 e2 where 2: "update_stage cl ?a ?i ''SECURITY_SCANNING'' ''PASSED'' ?f t1 = (Inr e2, t2)" "at_key t2 e2"
    "same_elsewhere t1 t2" "same_deployment d e2" "statuses e2 = (statuses e1)(''SECURITY_SCANNING'' \<mapsto> ''PASSED'')"
    using upd [OF 1(2,4)] by blast
  obtain t3 e3 where 3: "advance_stages cl ?a ?i [''EVALUATING''] t2 = (Inr (), t3)" "at_key t3 e3"
    "same_elsewhere t2 t3" "same_deployment d e3" "statuses e3 = (statuses e2)(''EVALUATING'' \<mapsto> ''PASSED'')"
    using adv [OF 2(2,4)] by blast
  obtain t4 e4 where 4: "update_stage cl ?a ?i ''TERRAFORM_VALIDATE'' ?w ?v t3 = (Inr e4, t4)" "at_key t4 e4"
    "same_elsewhere t3 t4" "same_deployment d e4" "statuses e4 = (statuses e3)(''TERRAFORM_VALIDATE'' \<mapsto> ?w)"
    using upd [OF 3(2,4)] by blast
  obtain t5 e5 where 5: "advance_stages cl ?a ?i [''TERRAFORM_PLAN''] t4 = (Inr (), t5)" "at_key t5 e5"
    "same_elsewhere t4 t5" "same_deployment d e5" "statuses e5 = (statuses e4)(''TERRAFORM_PLAN'' \<mapsto> ''PASSED'')"
    using adv [OF 4(2,4)] by blast
  obtain t6 e6 where 6: "update_stage cl ?a ?i ''POLICY_CHECK'' ''PASSED'' ?q t5 = (Inr e6, t6)" "at_key t6 e6"
    "same_elsewhere t5 t6" "same_deployment d e6" "statuses e6 = (statuses e5)(''POLICY_CHECK'' \<mapsto> ''PASSED'')"
    using upd [OF 5(2,4)] by blast
  have "scan_and_policy_check cl st (Some (ret res)) ?a tenant d s = (Inr True, t6)"
    using assms(3) unfolding scan_and_policy_check_def option.case andthen_ret
    by (subst andthen_Inr [where m = "update_stage cl ?a ?i ''SECURITY_SCANNING'' ''RUNNING'' no_update", OF 1(1)],
        subst andthen_Inr [where m = "update_stage cl ?a ?i ''SECURITY_SCANNING'' ''PASSED'' ?f", OF 2(1)],
        subst andthen_Inr [where m = "advance_stages cl ?a ?i [''EVALUATING'']", OF 3(1)],
        subst andthen_Inr [where m = "update_stage cl ?a ?i ''TERRAFORM_VALIDATE'' ?w ?v", OF 4(1)],
        subst andthen_Inr [where m = "advance_stages cl ?a ?i [''TERRAFORM_PLAN'']", OF 5(1)])
      (simp add: andthen_Inr [where m = "update_stage cl ?a ?i ''POLICY_CHECK'' ''PASSED'' ?q", OF 6(1)] ret_def)
  with 1 2 3 4 5 6 show ?thesis
    by (intro exI [of _ t6] exI [of _ e6]) (auto simp: same_elsewhere_def fun_eq_iff)
qed

text \<open>Marking a readable agent active sets its live version.\<close>

lemma mark_active_run:
  assumes "readable g tenant agent r" and "keyed g"
  shows "\<exists>r' g'. mark_deployment_active now tenant agent n who g = (Inr r', g') \<and> live_of g' (tenant, agent) = Some n"
proof -
  have "require_agent tenant agent g = (Inr r, g)"
    using assms(1) by (simp add: require_agent_Inr)
  then show ?thesis
    using readable_key [OF assms(2,1)]
    by (simp add: mark_deployment_active_def amend_agent_def andthen_def put_agent_def modifies_def ret_def
        stamped_def live_of_def AList.update_conv')
qed

lemma finish_moves:
  assumes "at_key s e" and "same_deployment d e" and "\<And>rq w. \<exists>w'. cl_git cl rq w = (Inr (), w')"
    and "readable (fc_registry s) tenant (dp_agent d) r" and "keyed (fc_registry s)"
  shows "\<exists>t e'. finish_deployment cl st tenant (dp_agent d) (dp_id d) d s = (Inr (), t) \<and> at_key t e'
     \<and> same_deployment d e' \<and> dp_status e' = ''ACTIVE''
     \<and> statuses e' = (statuses e)(''APPLYING'' \<mapsto> ''PASSED'', ''DEPLOYING'' \<mapsto> ''PASSED'', ''HEALTH_CHECK'' \<mapsto> ''PASSED'')
     \<and> live_of (fc_registry t) (tenant, dp_agent d) = Some (dp_version d)"
proof -
  let ?a = "dp_agent d" and ?i = "dp_id d"
  have "\<exists>u. on_pull_request cl st ?a d MergePr s = (Inr (), u) \<and> fc_registry u = fc_registry s
     \<and> fc_deployments u = fc_deployments s"
  proof (cases "\<exists>pr repo. dp_pr d = Some pr \<and> agent_repo_identifier (st_git_provider st) (st_git_org st) ?a = Some repo")
    case True
    then obtain pr repo where pr: "dp_pr d = Some pr" "agent_repo_identifier (st_git_provider st) (st_git_org st) ?a = Some repo"
      by blast
    obtain w' where "cl_git cl (MergePr repo pr) (fc_world s) = (Inr (), w')" using assms(3) by blast
    with pr show ?thesis by (simp add: on_pull_request_def git_send_def calls_def prog_simps)
  qed (auto simp: on_pull_request_def ret_def split: option.splits)
  then obtain u where u: "on_pull_request cl st ?a d MergePr s = (Inr (), u)" "fc_registry u = fc_registry s"
    "at_key u e" using assms(1) by (auto simp: at_key_def)
  have k: "dp_agent e = ?a" "dp_id e = ?i" using assms(2) by (simp_all add: same_deployment_def)
  from advance_moves [OF u(3), of cl "[''APPLYING'', ''DEPLOYING'']"] k obtain v e1 where
    v: "advance_stages cl ?a ?i [''APPLYING'', ''DEPLOYING''] u = (Inr (), v)" "at_key v e1" "same_elsewhere u v"
      "same_deployment e e1"
      "statuses e1 = (\<lambda>k. if k \<in> set [''APPLYING'', ''DEPLOYING''] then Some ''PASSED'' else statuses e k)"
    by (auto simp del: advance_stages.simps)
  have reg: "readable (fc_registry v) tenant ?a r" "keyed (fc_registry v)"
    using assms(4,5) u(2) v(3) by (simp_all add: same_elsewhere_def)
  let ?now = "At (cl_clock cl (fc_world v))"
  from mark_active_run [OF reg, of ?now "dp_version d" simulator_name] obtain r' g' where
    g: "mark_deployment_active ?now tenant ?a (dp_version d) simulator_name (fc_registry v) = (Inr r', g')"
      "live_of g' (tenant, ?a) = Some (dp_version d)" by blast
  let ?w = "v\<lparr>fc_registry := g'\<rparr>"
  let ?up = "no_update\<lparr>su_overall := Some ''ACTIVE'', su_summary := Some ''[simulated] Health check passed.''\<rparr>"
  have "at_key ?w e1" using v(2) by (simp add: at_key_def)
  from update_moves [OF this, of cl "''HEALTH_CHECK''" "''PASSED''" ?up] k v(4) obtain t e' where
    t: "update_stage cl ?a ?i ''HEALTH_CHECK'' ''PASSED'' ?up ?w = (Inr e', t)" "at_key t e'" "same_elsewhere ?w t"
      "same_deployment e1 e'" "statuses e' = (statuses e1)(''HEALTH_CHECK'' \<mapsto> ''PASSED'')" "dp_status e' = ''ACTIVE''"
    by (auto simp: same_deployment_def)
  have "finish_deployment cl st tenant ?a ?i d s = (Inr (), t)"
    by (simp add: finish_deployment_def andthen_def u(1) v(1) now_at_def reads_def on_registry_def g(1) Let_def t(1) ret_def
        del: advance_stages.simps)
  with t v(4,5) k g(2) assms(2) show ?thesis
    by (intro exI [of _ t] exI [of _ e']) (auto simp: same_deployment_def same_elsewhere_def fun_eq_iff)
qed

text \<open>
  An automated deployment whose scan does not block ends active and live, every stage passed but
  the validation stage, which says what the validator said.
\<close>

lemma simulate_automated:
  assumes "at_key s d" and "dp_mode d \<noteq> ''manual''" and "sc_decision res \<noteq> ''BLOCK''"
    and "\<And>rq w. \<exists>w'. cl_git cl rq w = (Inr (), w')"
    and "readable (fc_registry s) tenant (dp_agent d) r" and "keyed (fc_registry s)"
  shows "\<exists>t e. simulate cl st (Some (ret res)) tenant (dp_agent d) (dp_id d) s = (Inr (), t) \<and> at_key t e
     \<and> same_deployment d e \<and> dp_status e = ''ACTIVE''
     \<and> live_of (fc_registry t) (tenant, dp_agent d) = Some (dp_version d)
     \<and> (\<forall>k \<in> set deployment_stage_order. statuses e k =
           Some (if k = ''TERRAFORM_VALIDATE'' \<and> \<not> sc_passed res then ''FAILED'' else ''PASSED''))"
proof -
  let ?a = "dp_agent d" and ?i = "dp_id d"
  from advance_moves [OF assms(1), of cl "[''VALIDATING'', ''CHANGE_IMPACT'', ''GENERATING_IAC'']"] obtain u e1 where
    u: "advance_stages cl ?a ?i [''VALIDATING'', ''CHANGE_IMPACT'', ''GENERATING_IAC''] s = (Inr (), u)" "at_key u e1"
      "same_elsewhere s u" "same_deployment d e1"
      "statuses e1 = (\<lambda>k. if k \<in> set [''VALIDATING'', ''CHANGE_IMPACT'', ''GENERATING_IAC''] then Some ''PASSED'' else statuses d k)"
    by blast
  from check_moves [OF u(2,4) assms(3), of cl st tenant] obtain v e2 where
    v: "scan_and_policy_check cl st (Some (ret res)) ?a tenant d u = (Inr True, v)" "at_key v e2" "same_elsewhere u v"
      "same_deployment d e2" and st2:
      "statuses e2 = (statuses e1)(''SECURITY_SCANNING'' \<mapsto> ''PASSED'', ''EVALUATING'' \<mapsto> ''PASSED'',
        ''TERRAFORM_VALIDATE'' \<mapsto> (if sc_passed res then ''PASSED'' else ''FAILED''),
        ''TERRAFORM_PLAN'' \<mapsto> ''PASSED'', ''POLICY_CHECK'' \<mapsto> ''PASSED'')" by blast
  have reg: "readable (fc_registry v) tenant ?a r" "keyed (fc_registry v)"
    using assms(5,6) u(3) v(3) by (simp_all add: same_elsewhere_def)
  from finish_moves [OF v(2,4) assms(4) reg, where st = st] obtain t e where
    t: "finish_deployment cl st tenant ?a ?i d v = (Inr (), t)" "at_key t e" "same_deployment d e" "dp_status e = ''ACTIVE''"
      "live_of (fc_registry t) (tenant, ?a) = Some (dp_version d)" and st3:
      "statuses e = (statuses e2)(''APPLYING'' \<mapsto> ''PASSED'', ''DEPLOYING'' \<mapsto> ''PASSED'', ''HEALTH_CHECK'' \<mapsto> ''PASSED'')"
    by blast
  have got: "get_deployment ?a ?i s = (Inr (Some d), s)"
    using assms(1) by (simp add: get_deployment_def reads_def at_key_def)
  have "simulate cl st (Some (ret res)) tenant ?a ?i s = (Inr (), t)"
    using assms(2) by (simp add: simulate_def catching_def andthen_def got u(1) v(1) t(1) del: advance_stages.simps)
  with t st3 st2 u(5) show ?thesis
    by (intro exI [of _ t] exI [of _ e]) (simp add: deployment_stage_order_def)
qed

end
