(* ===== verification/Handlers.thy ===== *)
theory Handlers
  imports Simulator
begin

text \<open>
  The deployment handlers (lambda_handlers/common.py, validating.py, change_impact.py,
  generating_iac.py, policy_check.py, deploying.py, health_check.py, mark_active.py, mark_failed.py,
  mark_blocked.py) and the health check they use (app/modules/deployment/health_check.py). An
  em dash in a message is written as two hyphens.
\<close>

record event =
  ev_agent_id :: string
  ev_tenant_id :: string
  ev_version :: int
  ev_deployment_id :: string

definition stage_failure :: "string \<Rightarrow> ('s, 'a) prog" where
  "stage_failure m = raising (Raised ''StageFailure'' m)"

text \<open>\<open>require(event, "agentId", "tenantId")\<close>: an absent field and an empty one are the same.\<close>

definition require_ids :: "event \<Rightarrow> ('w, unit) factory_action" where
  "require_ids ev =
     (let missing = (if ev_agent_id ev = [] then [''agentId''] else []) @ (if ev_tenant_id ev = [] then [''tenantId''] else [])
      in if missing \<noteq> []
         then stage_failure (''Missing required event field(s): '' @ py_repr (PList (map PStr missing)))
         else ret ())"

definition require_agent_repo :: "factory_settings \<Rightarrow> string \<Rightarrow> ('w, string) factory_action" where
  "require_agent_repo st agent =
     (case agent_repo_identifier (st_git_provider st) (st_git_org st) agent of
        None \<Rightarrow> stage_failure ''GIT_ORG is not configured''
      | Some repo \<Rightarrow> ret repo)"

definition version_of_event :: "string \<Rightarrow> string \<Rightarrow> int \<Rightarrow> ('w, version_record) factory_action" where
  "version_of_event tenant agent version =
     andthen (on_registry (get_version_detail tenant agent version)) (\<lambda>v.
       case v of
         None \<Rightarrow> stage_failure (''Version '' @ int_text version @ '' of agent '' @ repr_str agent @ '' not found'')
       | Some x \<Rightarrow> ret x)"

section \<open>Validating\<close>

text \<open>
  Every version the registry builds has a capability contract, so the branch for a missing one is
  not taken. The graph is built as the registry builds it.
\<close>

definition validate_version :: "string \<Rightarrow> string \<Rightarrow> int \<Rightarrow> ('w, pyval) factory_action" where
  "validate_version agent tenant version =
     andthen (version_of_event tenant agent version) (\<lambda>v.
     andthen (if sub_agent_ids (vr_config v) = [] then ret ()
              else andthen (on_registry (build_sub_agent_graph tenant (Some agent))) (\<lambda>g.
                   case validate_graph agent (sub_agent_ids (vr_config v)) g of
                     ValidGraph \<Rightarrow> ret ()
                   | InvalidGraph reason \<Rightarrow> stage_failure reason))
       (\<lambda>_. ret (PDict [(''capabilityContractPresent'', PBool True)])))"

definition failed_update :: "string \<Rightarrow> string \<Rightarrow> stage_update" where
  "failed_update stage reason =
     \<lparr>su_summary = Some reason, su_blocking = None, su_overall = Some ''FAILED'', su_failure = Some reason,
      su_failed_stage = Some stage\<rparr>"

definition passed_update :: "string \<Rightarrow> string \<Rightarrow> stage_update" where
  "passed_update summary overall =
     no_update\<lparr>su_summary := Some summary, su_overall := Some overall\<rparr>"

definition validating_handler :: "'w cloud \<Rightarrow> event \<Rightarrow> ('w, pyval) factory_action" where
  "validating_handler cl ev =
     andthen (require_ids ev) (\<lambda>_.
     andthen (catching (validate_version (ev_agent_id ev) (ev_tenant_id ev) (ev_version ev)) (\<lambda>e.
                case e of
                  Raised c m \<Rightarrow>
                    (if c = ''StageFailure''
                     then andthen (update_stage cl (ev_agent_id ev) (ev_deployment_id ev) ''VALIDATING'' ''FAILED''
                                     (failed_update ''VALIDATING'' m)) (\<lambda>_. raising e)
                     else raising e)
                | _ \<Rightarrow> raising e)) (\<lambda>result.
     andthen (update_stage cl (ev_agent_id ev) (ev_deployment_id ev) ''VALIDATING'' ''PASSED''
                (passed_update ''Capability contract present; no circular dependency'' ''CHANGE_IMPACT''))
       (\<lambda>_. ret result)))"

section \<open>Change impact and generated IaC\<close>

definition analyze_version :: "string \<Rightarrow> string \<Rightarrow> int \<Rightarrow> ('w, impact_analysis) factory_action" where
  "analyze_version agent tenant version =
     andthen (version_of_event tenant agent version) (\<lambda>to_record.
     andthen (if version > 1 then on_registry (get_version_detail tenant agent (version - 1)) else ret None) (\<lambda>from_record.
       ret (analyze (map_option vr_config from_record) (vr_config to_record))))"

definition change_impact_handler :: "'w cloud \<Rightarrow> event \<Rightarrow> ('w, pyval) factory_action" where
  "change_impact_handler cl ev =
     andthen (require_ids ev) (\<lambda>_.
     andthen (analyze_version (ev_agent_id ev) (ev_tenant_id ev) (ev_version ev)) (\<lambda>an.
     andthen (update_stage cl (ev_agent_id ev) (ev_deployment_id ev) ''CHANGE_IMPACT'' ''PASSED''
                (passed_update (ia_level an @ '' impact -- '' @ nat_text (length (ia_validations an))
                   @ '' required validation(s)'') ''GENERATING_IAC''))
       (\<lambda>_. ret (PDict [(''impactLevel'', PStr (ia_level an)), (''requiredValidations'', PList (map PStr (ia_validations an))),
                        (''matchedRules'', PList (map PStr (ia_rules an)))]))))"

definition derived :: "string \<Rightarrow> version_record \<Rightarrow> pyval" where
  "derived k v = (case map_of (vr_derived v) k of None \<Rightarrow> PNone | Some x \<Rightarrow> x)"

definition opt_text :: "string option \<Rightarrow> pyval" where
  "opt_text x = (case x of None \<Rightarrow> PNone | Some s \<Rightarrow> PStr s)"

definition confirm_iac_generated ::
  "string \<Rightarrow> string \<Rightarrow> int \<Rightarrow> string \<Rightarrow> ('w, version_record \<times> deployment) factory_action" where
  "confirm_iac_generated agent tenant version did =
     andthen (version_of_event tenant agent version) (\<lambda>v.
       if \<not> py_truthy (derived ''iac_s3_key'' v)
       then stage_failure (''Version '' @ int_text version @ '' of agent '' @ repr_str agent
              @ '' has no IaC artifact recorded -- expected app/api/v1/agents.py's deploy trigger to have generated and ''
              @ ''pushed it before publishing this deployment's event'')
       else
         andthen (get_deployment agent did) (\<lambda>d.
           case d of
             None \<Rightarrow> stage_failure (''Deployment '' @ repr_str did @ '' not found for agent '' @ repr_str agent)
           | Some x \<Rightarrow> ret (v, x)))"

definition generating_iac_handler :: "'w cloud \<Rightarrow> event \<Rightarrow> ('w, pyval \<times> string option) factory_action" where
  "generating_iac_handler cl ev =
     andthen (require_ids ev) (\<lambda>_.
     andthen (confirm_iac_generated (ev_agent_id ev) (ev_tenant_id ev) (ev_version ev) (ev_deployment_id ev)) (\<lambda>(v, d).
       let modules = items_of (derived ''iac_modules'' v)
       in andthen (update_stage cl (ev_agent_id ev) (ev_deployment_id ev) ''GENERATING_IAC'' ''PASSED''
                (passed_update (''Terraform already generated and pushed by the deploy trigger: ''
                   @ nat_text (length modules) @ '' module(s)''
                   @ (if truthy (dp_pr d) then '', PR '' @ get_or [] (dp_pr d) @ '' opened'' else '' (pushed to main)''))
                   ''SECURITY_SCANNING''))
       (\<lambda>_. ret (PDict [(''iacVersion'', derived ''iac_version'' v), (''s3Key'', derived ''iac_s3_key'' v),
                        (''modules'', PList modules), (''branch'', opt_text (dp_branch d)), (''prId'', opt_text (dp_pr d))],
                 dp_pr d))))"

section \<open>The policy check\<close>

definition reported_findings :: "deployment \<Rightarrow> finding list" where
  "reported_findings d =
     (case map_of (dp_stages d) ''SECURITY_SCANNING'' of
        None \<Rightarrow> []
      | Some sec \<Rightarrow>
          (if sr_status sec = ''FAILED'' \<and> truthy (sr_blocking sec)
           then [\<lparr>fd_scan = ''sast'', fd_severity = ''CRITICAL'', fd_category = get_or [] (sr_blocking sec),
                  fd_description = (if truthy (sr_summary sec) then get_or [] (sr_summary sec) else get_or [] (sr_blocking sec)),
                  fd_location = None\<rparr>]
           else []))"

definition evaluation_failure :: "deployment \<Rightarrow> string option" where
  "evaluation_failure d =
     (case map_of (dp_stages d) ''EVALUATING'' of
        None \<Rightarrow> None
      | Some ev \<Rightarrow>
          (if sr_status ev = ''FAILED''
           then Some (if truthy (sr_blocking ev) then get_or [] (sr_blocking ev)
                      else if truthy (sr_summary ev) then get_or [] (sr_summary ev) else ''Evaluation failed'')
           else None))"

definition steps_name :: string where "steps_name = ''step-functions''"

definition gate_decision ::
  "'w cloud \<Rightarrow> string \<Rightarrow> string \<Rightarrow> string \<Rightarrow> deployment \<Rightarrow> ('w, string \<times> string) factory_action" where
  "gate_decision cl agent tenant did d =
     (case evaluation_failure d of
        Some reason \<Rightarrow>
          andthen (update_stage cl agent did ''POLICY_CHECK'' ''BLOCKED'' (blocked_update reason)) (\<lambda>_.
          andthen (now_at cl) (\<lambda>now.
          andthen (on_registry (mark_deployment_blocked (At now) tenant agent steps_name)) (\<lambda>_.
          andthen (audit_deployment_block tenant agent did reason) (\<lambda>_. ret (''BLOCK'', reason)))))
      | None \<Rightarrow>
          andthen (enforce_policy_gate cl (reported_findings d) tenant agent did steps_name None True) (\<lambda>gate.
            ret (gt_decision gate, gt_reason gate)))"

definition policy_decide ::
  "'w cloud \<Rightarrow> factory_settings \<Rightarrow> string \<Rightarrow> string \<Rightarrow> string \<Rightarrow> string option \<Rightarrow> ('w, string \<times> string) factory_action" where
  "policy_decide cl st agent tenant did pr =
     andthen (get_deployment agent did) (\<lambda>found.
       case found of
         None \<Rightarrow> raising (RuntimeError (''Deployment '' @ repr_str did @ '' not found for agent '' @ repr_str agent))
       | Some d \<Rightarrow>
           andthen (gate_decision cl agent tenant did d) (\<lambda>(decision, reason).
           andthen (case pr of
                      None \<Rightarrow> ret ()
                    | Some p \<Rightarrow>
                        andthen (require_agent_repo st agent) (\<lambda>repo.
                          git_send cl (if decision = ''BLOCK'' then ClosePr repo p reason else MergePr repo p)))
             (\<lambda>_. ret (decision, reason))))"

definition policy_check_handler ::
  "'w cloud \<Rightarrow> factory_settings \<Rightarrow> event \<Rightarrow> string option \<Rightarrow> ('w, string \<times> string) factory_action" where
  "policy_check_handler cl st ev pr =
     andthen (require_ids ev) (\<lambda>_. policy_decide cl st (ev_agent_id ev) (ev_tenant_id ev) (ev_deployment_id ev) pr)"

section \<open>Deploying and the health check\<close>

definition deploying_handler :: "'w cloud \<Rightarrow> event \<Rightarrow> ('w, pyval) factory_action" where
  "deploying_handler cl ev =
     andthen (require_ids ev) (\<lambda>_.
     andthen (update_stage cl (ev_agent_id ev) (ev_deployment_id ev) ''DEPLOYING'' ''PASSED''
                (passed_update (''terraform apply already triggered the ECS rolling update; ''
                   @ ''active steady-state polling is not wired in yet (no service name output -- see module docstring)'')
                   ''HEALTH_CHECK''))
       (\<lambda>_. ret (PDict [(''deployed'', PBool True)])))"

record health_result =
  hr_passed :: bool
  hr_status :: "int option"
  hr_summary :: string

definition health_failed :: "int option \<Rightarrow> string \<Rightarrow> health_result" where
  "health_failed status summary = \<lparr>hr_passed = False, hr_status = status, hr_summary = summary\<rparr>"

definition health_of_body :: "string \<Rightarrow> string \<Rightarrow> pyval option \<Rightarrow> pyexn + health_result" where
  "health_of_body url expected reply =
     (case reply of
        None \<Rightarrow> Inr (health_failed (Some 200) ''200 but response body was not JSON -- cannot verify version'')
      | Some v \<Rightarrow>
          (if \<not> is_object v then Inl (AttributeError ''get'')
           else (let actual = dict_get ''version'' v
                 in if py_str actual \<noteq> expected
                    then Inr (health_failed (Some 200)
                           (''Version mismatch: expected '' @ repr_str expected @ '', got '' @ py_repr actual))
                    else Inr \<lparr>hr_passed = True, hr_status = Some 200,
                              hr_summary = ''POST '' @ url @ '' -> 200, version '' @ expected @ '' confirmed''\<rparr>)))"

definition health_check :: "'w cloud \<Rightarrow> string \<Rightarrow> string \<Rightarrow> ('w, health_result) factory_action" where
  "health_check cl url expected s =
     (case cl_post cl url (fc_world s) of
        (Inl e, w) \<Rightarrow> (Inr (health_failed None (''POST '' @ url @ '' failed: '' @ e)), s\<lparr>fc_world := w\<rparr>)
      | (Inr (status, reply), w) \<Rightarrow>
          (if status \<noteq> 200
           then (Inr (health_failed (Some status) (''POST '' @ url @ '' -> '' @ int_text status)), s\<lparr>fc_world := w\<rparr>)
           else (health_of_body url expected reply, s\<lparr>fc_world := w\<rparr>)))"

definition check_deployment :: "'w cloud \<Rightarrow> string \<Rightarrow> string \<Rightarrow> ('w, bool \<times> string) factory_action" where
  "check_deployment cl agent did =
     andthen (get_deployment agent did) (\<lambda>found.
       let unset = ret (True, ''No health_check_url recorded for this deployment yet -- see module docstring'')
       in case found of
            None \<Rightarrow> unset
          | Some d \<Rightarrow>
              (if \<not> truthy (dp_health_url d) then unset
               else andthen (health_check cl (get_or [] (dp_health_url d)) (int_text (dp_version d))) (\<lambda>h.
                      ret (hr_passed h, hr_summary h))))"

definition health_check_handler :: "'w cloud \<Rightarrow> event \<Rightarrow> ('w, pyval) factory_action" where
  "health_check_handler cl ev =
     andthen (require_ids ev) (\<lambda>_.
     andthen (check_deployment cl (ev_agent_id ev) (ev_deployment_id ev)) (\<lambda>(passed, summary).
       if \<not> passed
       then andthen (update_stage cl (ev_agent_id ev) (ev_deployment_id ev) ''HEALTH_CHECK'' ''FAILED''
                       (failed_update ''HEALTH_CHECK'' summary)) (\<lambda>_. raising (RuntimeError summary))
       else andthen (update_stage cl (ev_agent_id ev) (ev_deployment_id ev) ''HEALTH_CHECK'' ''PASSED''
                       (passed_update summary ''ACTIVE''))
              (\<lambda>_. ret (PDict [(''healthCheckPassed'', PBool True)]))))"

section \<open>The terminal handlers\<close>

definition mark_active_handler :: "'w cloud \<Rightarrow> event \<Rightarrow> ('w, unit) factory_action" where
  "mark_active_handler cl ev =
     andthen (require_ids ev) (\<lambda>_.
     andthen (now_at cl) (\<lambda>now.
     andthen (on_registry (mark_deployment_active (At now) (ev_tenant_id ev) (ev_agent_id ev) (ev_version ev) steps_name)) (\<lambda>_.
     andthen (update_stage cl (ev_agent_id ev) (ev_deployment_id ev) ''HEALTH_CHECK'' ''PASSED''
                (no_update\<lparr>su_overall := Some ''ACTIVE''\<rparr>)) (\<lambda>_. ret ()))))"

text \<open>The error of the caught state is its cause or its name; \<open>failedStage\<close> is not in the event.\<close>

definition mark_failed_handler :: "'w cloud \<Rightarrow> event \<Rightarrow> string option \<Rightarrow> string option \<Rightarrow> ('w, unit) factory_action" where
  "mark_failed_handler cl ev cause failed_stage =
     (let reason = (if truthy cause then get_or [] cause else ''Deployment pipeline failed'');
          stage = get_or ''UNKNOWN'' failed_stage
      in andthen (require_ids ev) (\<lambda>_.
         andthen (now_at cl) (\<lambda>now.
         andthen (on_registry (mark_deployment_failed (At now) (ev_tenant_id ev) (ev_agent_id ev) steps_name)) (\<lambda>_.
         andthen (update_stage cl (ev_agent_id ev) (ev_deployment_id ev) stage ''FAILED''
                    (failed_update stage (take 2000 reason))) (\<lambda>_. ret ())))))"

definition mark_blocked_handler :: "string option \<Rightarrow> ('w, string) factory_action" where
  "mark_blocked_handler reason = ret (get_or ''Blocked by policy gate'' reason)"

end
