(* ===== verification/Workflow.thy ===== *)
theory Workflow
  imports Handlers
begin

text \<open>
  step_functions/deployment_workflow.json as a state machine over the Factory's tables: the Lambda
  states run the handlers, the CodeBuild states are runs of the customer's projects, of which only
  this is assumed: they merge no pull request and write no registry row (they write their stage
  with codebuild/scripts/write_stage_result.sh). Every state's failure goes to MarkFailed.
\<close>

section \<open>The machine\<close>

datatype wf_state =
    Validating | ChangeImpact | GeneratingIac | SecurityScanning | Evaluating | TerraformValidate | TerraformPlan
  | PolicyCheck | PolicyGateChoice | Applying | Deploying | HealthCheck | MarkActive | MarkBlocked | MarkFailed
  | Succeeded | Stopped

text \<open>
  An execution: its state, what the generating and the policy state put into its data, the cause of
  the caught error, and the tables.
\<close>

record 'w execution =
  ex_state :: wf_state
  ex_pr :: "string option"
  ex_decision :: "(string \<times> string) option"
  ex_cause :: "string option"
  ex_tables :: "'w factory"

definition build_states :: "wf_state \<Rightarrow> wf_state option" where
  "build_states q =
     map_of [(SecurityScanning, Evaluating), (Evaluating, TerraformValidate), (TerraformValidate, TerraformPlan),
             (TerraformPlan, PolicyCheck), (Applying, Deploying)] q"

text \<open>The states whose handler answers nothing the machine keeps.\<close>

definition plain_handler ::
  "'w cloud \<Rightarrow> event \<Rightarrow> wf_state \<Rightarrow> (wf_state \<times> ('w, pyval) factory_action) option" where
  "plain_handler cl ev q =
     map_of [(Validating, (ChangeImpact, validating_handler cl ev)),
             (ChangeImpact, (GeneratingIac, change_impact_handler cl ev)),
             (Deploying, (HealthCheck, deploying_handler cl ev)),
             (HealthCheck, (MarkActive, health_check_handler cl ev))] q"

inductive wf_step :: "'w cloud \<Rightarrow> factory_settings \<Rightarrow> event \<Rightarrow> 'w execution \<Rightarrow> 'w execution \<Rightarrow> bool" for cl st ev where
  handled: "plain_handler cl ev (ex_state x) = Some (q, h) \<Longrightarrow> h (ex_tables x) = (Inr v, t) \<Longrightarrow>
     wf_step cl st ev x (x\<lparr>ex_state := q, ex_tables := t\<rparr>)"
| caught: "plain_handler cl ev (ex_state x) = Some (q, h) \<Longrightarrow> h (ex_tables x) = (Inl e, t) \<Longrightarrow>
     wf_step cl st ev x (x\<lparr>ex_state := MarkFailed, ex_cause := cause, ex_tables := t\<rparr>)"
| generated: "ex_state x = GeneratingIac \<Longrightarrow> generating_iac_handler cl ev (ex_tables x) = (Inr (v, pr), t) \<Longrightarrow>
     wf_step cl st ev x (x\<lparr>ex_state := SecurityScanning, ex_pr := pr, ex_tables := t\<rparr>)"
| not_generated: "ex_state x = GeneratingIac \<Longrightarrow> generating_iac_handler cl ev (ex_tables x) = (Inl e, t) \<Longrightarrow>
     wf_step cl st ev x (x\<lparr>ex_state := MarkFailed, ex_cause := cause, ex_tables := t\<rparr>)"
| built: "build_states (ex_state x) = Some q \<Longrightarrow> undeployed (ex_tables x) t \<Longrightarrow>
     wf_step cl st ev x (x\<lparr>ex_state := q, ex_tables := t\<rparr>)"
| build_failed: "build_states (ex_state x) = Some q \<Longrightarrow> undeployed (ex_tables x) t \<Longrightarrow>
     wf_step cl st ev x (x\<lparr>ex_state := MarkFailed, ex_cause := cause, ex_tables := t\<rparr>)"
| decided: "ex_state x = PolicyCheck \<Longrightarrow> policy_check_handler cl st ev (ex_pr x) (ex_tables x) = (Inr d, t) \<Longrightarrow>
     wf_step cl st ev x (x\<lparr>ex_state := PolicyGateChoice, ex_decision := Some d, ex_tables := t\<rparr>)"
| not_decided: "ex_state x = PolicyCheck \<Longrightarrow> policy_check_handler cl st ev (ex_pr x) (ex_tables x) = (Inl e, t) \<Longrightarrow>
     wf_step cl st ev x (x\<lparr>ex_state := MarkFailed, ex_cause := cause, ex_tables := t\<rparr>)"
| chosen_block: "ex_state x = PolicyGateChoice \<Longrightarrow> ex_decision x = Some (''BLOCK'', reason) \<Longrightarrow>
     wf_step cl st ev x (x\<lparr>ex_state := MarkBlocked\<rparr>)"
| chosen_apply: "ex_state x = PolicyGateChoice \<Longrightarrow> ex_decision x = Some (d, reason) \<Longrightarrow> d \<noteq> ''BLOCK'' \<Longrightarrow>
     wf_step cl st ev x (x\<lparr>ex_state := Applying\<rparr>)"
| activated: "ex_state x = MarkActive \<Longrightarrow> mark_active_handler cl ev (ex_tables x) = (Inr u, t) \<Longrightarrow>
     wf_step cl st ev x (x\<lparr>ex_state := Succeeded, ex_tables := t\<rparr>)"
| not_activated: "ex_state x = MarkActive \<Longrightarrow> mark_active_handler cl ev (ex_tables x) = (Inl e, t) \<Longrightarrow>
     wf_step cl st ev x (x\<lparr>ex_state := Stopped, ex_tables := t\<rparr>)"
| blocked: "ex_state x = MarkBlocked \<Longrightarrow> wf_step cl st ev x (x\<lparr>ex_state := Stopped\<rparr>)"
| failed: "ex_state x = MarkFailed \<Longrightarrow> mark_failed_handler cl ev (ex_cause x) None (ex_tables x) = (r, t) \<Longrightarrow>
     wf_step cl st ev x (x\<lparr>ex_state := Stopped, ex_tables := t\<rparr>)"

inductive_cases wf_stepE: "wf_step cl st ev x y"

inductive executes :: "'w cloud \<Rightarrow> factory_settings \<Rightarrow> event \<Rightarrow> 'w execution \<Rightarrow> 'w execution \<Rightarrow> bool" for cl st ev where
  start: "executes cl st ev x x"
| proceed: "executes cl st ev x y \<Longrightarrow> wf_step cl st ev y z \<Longrightarrow> executes cl st ev x z"

definition execution_start :: "'w factory \<Rightarrow> 'w execution" where
  "execution_start s = \<lparr>ex_state = Validating, ex_pr = None, ex_decision = None, ex_cause = None, ex_tables = s\<rparr>"

section \<open>Every execution ends\<close>

definition wf_rank :: "wf_state \<Rightarrow> nat" where
  "wf_rank q =
     (case q of Validating \<Rightarrow> 15 | ChangeImpact \<Rightarrow> 14 | GeneratingIac \<Rightarrow> 13 | SecurityScanning \<Rightarrow> 12 | Evaluating \<Rightarrow> 11
      | TerraformValidate \<Rightarrow> 10 | TerraformPlan \<Rightarrow> 9 | PolicyCheck \<Rightarrow> 8 | PolicyGateChoice \<Rightarrow> 7 | Applying \<Rightarrow> 6
      | Deploying \<Rightarrow> 5 | HealthCheck \<Rightarrow> 4 | MarkActive \<Rightarrow> 3 | MarkBlocked \<Rightarrow> 2 | MarkFailed \<Rightarrow> 1
      | Succeeded \<Rightarrow> 0 | Stopped \<Rightarrow> 0)"

lemma plain_handler_rank: "plain_handler cl ev q = Some (q', h) \<Longrightarrow> wf_rank q' < wf_rank q \<and> 1 < wf_rank q"
  by (auto simp: plain_handler_def wf_rank_def split: if_splits)

lemma build_rank: "build_states q = Some q' \<Longrightarrow> wf_rank q' < wf_rank q \<and> 1 < wf_rank q"
  by (auto simp: build_states_def wf_rank_def split: if_splits)

lemma wf_step_rank: "wf_step cl st ev x y \<Longrightarrow> wf_rank (ex_state y) < wf_rank (ex_state x)"
  by (induction rule: wf_step.induct)
    (auto dest: plain_handler_rank build_rank simp: wf_rank_def)

text \<open>From a state that is not final some step is always possible.\<close>

lemma wf_progress:
  assumes "ex_state x \<notin> {Succeeded, Stopped}" and "ex_state x = PolicyGateChoice \<Longrightarrow> ex_decision x \<noteq> None"
  shows "\<exists>y. wf_step cl st ev x y"
proof (cases "plain_handler cl ev (ex_state x)")
  case (Some qh)
  then obtain q h where qh: "plain_handler cl ev (ex_state x) = Some (q, h)" by (cases qh) auto
  show ?thesis
    by (cases "h (ex_tables x)"; cases "fst (h (ex_tables x))") (auto intro: wf_step.handled wf_step.caught qh)
next
  case None
  show ?thesis
  proof (cases "build_states (ex_state x)")
    case (Some q)
    then show ?thesis by (blast intro: wf_step.built undeployed_frame.frame_refl)
  next
    case n: None
    consider "ex_state x = GeneratingIac" | "ex_state x = PolicyCheck" | "ex_state x = PolicyGateChoice"
      | "ex_state x = MarkActive" | "ex_state x = MarkBlocked" | "ex_state x = MarkFailed"
      using assms(1) None n by (cases "ex_state x") (simp_all add: plain_handler_def build_states_def)
    then show ?thesis
    proof cases
      case 1
      show ?thesis
        by (cases "generating_iac_handler cl ev (ex_tables x)"; cases "fst (generating_iac_handler cl ev (ex_tables x))")
          (auto intro: wf_step.generated wf_step.not_generated 1)
    next
      case 2
      show ?thesis
        by (cases "policy_check_handler cl st ev (ex_pr x) (ex_tables x)";
            cases "fst (policy_check_handler cl st ev (ex_pr x) (ex_tables x))")
          (auto intro: wf_step.decided wf_step.not_decided 2)
    next
      case 3
      with assms(2) obtain d reason where "ex_decision x = Some (d, reason)" by auto
      with 3 show ?thesis by (cases "d = ''BLOCK''") (auto intro: wf_step.chosen_block wf_step.chosen_apply)
    next
      case 4
      show ?thesis
        by (cases "mark_active_handler cl ev (ex_tables x)"; cases "fst (mark_active_handler cl ev (ex_tables x))")
          (auto intro: wf_step.activated wf_step.not_activated 4)
    next
      case 5
      then show ?thesis by (auto intro: wf_step.blocked)
    next
      case 6
      show ?thesis by (cases "mark_failed_handler cl ev (ex_cause x) None (ex_tables x)") (auto intro: wf_step.failed 6)
    qed
  qed
qed

section \<open>Only a passed policy check deploys\<close>

definition live_kept :: "'w factory \<Rightarrow> 'w factory \<Rightarrow> bool" where
  "live_kept s t \<longleftrightarrow> (keyed (fc_registry s) \<longrightarrow> keyed (fc_registry t) \<and> lives t = lives s)"

interpretation live_kept_frame: frame live_kept
  by unfold_locales (auto simp: live_kept_def)

lemma undeployed_live_kept: "undeployed s t \<Longrightarrow> live_kept s t"
  by (simp add: undeployed_def live_kept_def)

lemma live_kept_weaken: "stays_in undeployed m \<Longrightarrow> stays_in live_kept m"
  by (simp add: stays_in_def undeployed_live_kept)

lemma registry_read_undeployed:
  assumes "stays_in (same (\<lambda>s. s)) m"
  shows "stays_in undeployed (on_registry m)"
proof (rule stays_inI)
  fix s t :: "'w factory" and x
  assume "on_registry m s = (x, t)"
  then obtain g where g: "m (fc_registry s) = (x, g)" and t: "t = s\<lparr>fc_registry := g\<rparr>"
    by (auto simp: on_registry_def Let_def split: prod.splits)
  have "g = fc_registry s" by (rule reading_state [OF g assms])
  with t show "undeployed s t" by (simp add: undeployed_def merges_def lives_def)
qed

lemma version_detail_reads: "stays_in (same obs) (get_version_detail tenant agent version)"
  unfolding get_version_detail_def by (intro frame_intros)

lemma parts_undeployed [frame_intros]:
  "stays_in undeployed (require_ids ev)" "stays_in undeployed (version_of_event tenant agent version)"
  "stays_in undeployed (stage_failure m)" "stays_in undeployed (require_agent_repo st agent)"
  "stays_in undeployed (audit_deployment_block tenant agent did reason)"
  "stays_in undeployed (health_check cl url expected)"
proof -
  show sf: "stays_in undeployed (stage_failure m)" for m
    unfolding stage_failure_def by (rule undeployed_frame.stays_raising)
  show "stays_in undeployed (require_ids ev)" "stays_in undeployed (require_agent_repo st agent)"
    unfolding require_ids_def require_agent_repo_def Let_def by (intro frame_intros sf)+
  show "stays_in undeployed (version_of_event tenant agent version)"
    unfolding version_of_event_def by (intro frame_intros sf registry_read_undeployed version_detail_reads)
  show "stays_in undeployed (audit_deployment_block tenant agent did reason)"
    by (simp add: audit_deployment_block_def audit_block_def emit_metric_def stays_in_def prog_simps undeployed_def
        merges_def lives_def)
  show "stays_in undeployed (health_check cl url expected)"
    by (auto simp: health_check_def stays_in_def undeployed_def merges_def lives_def split: prod.splits sum.splits)
qed

lemma validate_version_undeployed: "stays_in undeployed (validate_version agent tenant version)"
proof -
  have "stays_in undeployed (case v of ValidGraph \<Rightarrow> ret () | InvalidGraph r \<Rightarrow> stage_failure r)" for v
    by (cases v) (simp_all add: undeployed_frame.stays_ret parts_undeployed(3))
  then show ?thesis
    unfolding validate_version_def by (intro frame_intros registry_read_undeployed)
qed

lemma validating_undeployed: "stays_in undeployed (validating_handler cl ev)"
proof -
  have "stays_in undeployed (case e of
                  Raised c m \<Rightarrow>
                    (if c = ''StageFailure''
                     then andthen (update_stage cl (ev_agent_id ev) (ev_deployment_id ev) ''VALIDATING'' ''FAILED''
                                     (failed_update ''VALIDATING'' m)) (\<lambda>_. raising e)
                     else raising e)
                | _ \<Rightarrow> raising e)" for e
    by (cases e) (auto intro!: frame_intros)
  then show ?thesis
    unfolding validating_handler_def by (intro frame_intros validate_version_undeployed)
qed

lemma handlers_undeployed:
  "stays_in undeployed (change_impact_handler cl ev)" "stays_in undeployed (generating_iac_handler cl ev)"
  "stays_in undeployed (deploying_handler cl ev)" "stays_in undeployed (health_check_handler cl ev)"
  "stays_in undeployed (mark_failed_handler cl ev cause fs)"
  unfolding change_impact_handler_def analyze_version_def generating_iac_handler_def confirm_iac_generated_def
    deploying_handler_def health_check_handler_def check_deployment_def mark_failed_handler_def Let_def
  by (intro frame_intros registry_read_undeployed version_detail_reads)+

lemma plain_handler_undeployed: "plain_handler cl ev q = Some (q', h) \<Longrightarrow> stays_in undeployed h"
  by (auto simp: plain_handler_def validating_undeployed handlers_undeployed split: if_splits)

text \<open>The gate itself deploys nothing; what follows it closes the pull request on BLOCK.\<close>

lemma enforce_undeployed [frame_intros]:
  "stays_in undeployed (enforce_policy_gate cl findings tenant agent did who scores audited)"
  unfolding enforce_policy_gate_def Let_def by (intro frame_intros)

lemma gate_decision_undeployed [frame_intros]: "stays_in undeployed (gate_decision cl agent tenant did d)"
  unfolding gate_decision_def by (intro frame_intros)

lemma git_send_kept: "stays_in live_kept (git_send cl rq)"
  by (auto simp: stays_in_def git_send_def calls_def prog_simps live_kept_def lives_def split: prod.splits sum.splits)

lemma policy_decide_kept: "stays_in live_kept (policy_decide cl st agent tenant did pr)"
  unfolding policy_decide_def
  by (intro live_kept_frame.stays_andthen live_kept_frame.stays_option live_kept_frame.stays_prod live_kept_frame.stays_ret
      live_kept_frame.stays_raising git_send_kept live_kept_weaken quiet_undeployed gate_decision_undeployed parts_undeployed)

lemma policy_decide_block:
  assumes "policy_decide cl st agent tenant did pr s = (Inr (''BLOCK'', reason), t)"
  shows "undeployed s t"
proof -
  let ?send = "\<lambda>d reason. case pr of None \<Rightarrow> ret () | Some p \<Rightarrow>
     andthen (require_agent_repo st agent) (\<lambda>repo.
       git_send cl (if d = ''BLOCK'' then ClosePr repo p reason else MergePr repo p))"
  obtain d u where g: "gate_decision cl agent tenant did d s = (Inr (''BLOCK'', reason), u)"
    and f: "?send ''BLOCK'' reason u = (Inr (), t)"
    using assms
    by (auto simp: policy_decide_def get_deployment_def reads_def raising_def ret_def elim!: andthen_InrE split: option.splits)
  have "stays_in undeployed (?send ''BLOCK'' reason)"
    by (auto intro!: frame_intros split: option.splits)
  from this f have "undeployed u t" by (rule stays_inD)
  with stays_inD [OF gate_decision_undeployed g] show ?thesis
    by (rule undeployed_frame.frame_trans)
qed

lemma policy_handler_kept: "stays_in live_kept (policy_check_handler cl st ev pr)"
  unfolding policy_check_handler_def
  by (intro live_kept_frame.stays_andthen live_kept_weaken parts_undeployed policy_decide_kept)

lemma policy_handler_block:
  assumes "policy_check_handler cl st ev pr s = (Inr (''BLOCK'', reason), t)"
  shows "undeployed s t"
proof -
  obtain u where "require_ids ev s = (Inr (), u)"
    "policy_decide cl st (ev_agent_id ev) (ev_tenant_id ev) (ev_deployment_id ev) pr u = (Inr (''BLOCK'', reason), t)"
    using assms by (auto simp: policy_check_handler_def elim!: andthen_InrE)
  then show ?thesis
    using stays_inD [OF parts_undeployed(1)] policy_decide_block undeployed_frame.frame_trans by blast
qed

section \<open>The invariant of an execution\<close>

definition before_decision :: "wf_state set" where
  "before_decision = {Validating, ChangeImpact, GeneratingIac, SecurityScanning, Evaluating, TerraformValidate,
     TerraformPlan, PolicyCheck}"

definition after_pass :: "wf_state set" where
  "after_pass = {Applying, Deploying, HealthCheck, MarkActive}"

definition wf_invariant :: "'w factory \<Rightarrow> 'w execution \<Rightarrow> bool" where
  "wf_invariant s x \<longleftrightarrow>
     (ex_state x \<in> before_decision \<longrightarrow> ex_decision x = None \<and> undeployed s (ex_tables x)) \<and>
     (ex_state x = PolicyGateChoice \<longrightarrow> ex_decision x \<noteq> None \<and> live_kept s (ex_tables x)) \<and>
     (ex_state x \<in> after_pass \<longrightarrow> ex_decision x \<noteq> None \<and> live_kept s (ex_tables x)) \<and>
     (ex_state x = MarkBlocked \<longrightarrow> (\<exists>r. ex_decision x = Some (''BLOCK'', r))) \<and>
     (ex_state x = MarkFailed \<longrightarrow> live_kept s (ex_tables x)) \<and>
     (ex_state x = Succeeded \<longrightarrow> ex_decision x \<noteq> None) \<and>
     (ex_decision x = None \<longrightarrow> live_kept s (ex_tables x)) \<and>
     (\<forall>r. ex_decision x = Some (''BLOCK'', r) \<longrightarrow>
        undeployed s (ex_tables x) \<and> ex_state x \<in> {PolicyGateChoice, MarkBlocked, Stopped})"

lemma wf_invariant_start: "wf_invariant s (execution_start s)"
  by (simp add: wf_invariant_def execution_start_def before_decision_def undeployed_frame.frame_refl
      live_kept_frame.frame_refl after_pass_def)

lemma plain_handler_states:
  "plain_handler cl ev q = Some (q', h) \<Longrightarrow>
     (q \<in> before_decision \<and> q' \<in> before_decision \<or> q \<in> after_pass \<and> q' \<in> after_pass) \<and> q \<noteq> MarkFailed"
  by (auto simp: plain_handler_def before_decision_def after_pass_def split: if_splits)

lemma build_states_states:
  "build_states q = Some q' \<Longrightarrow>
     q \<in> before_decision \<and> q' \<in> before_decision \<or> q \<in> after_pass \<and> q' \<in> after_pass"
  by (auto simp: build_states_def before_decision_def after_pass_def split: if_splits)

text \<open>A step inside a phase that deploys nothing, or one that fails out of it.\<close>

lemma phases_apart:
  "q \<in> before_decision \<Longrightarrow> q \<notin> after_pass \<and> q \<notin> {PolicyGateChoice, MarkBlocked, MarkFailed, Succeeded, Stopped}"
  "q \<in> after_pass \<Longrightarrow> q \<notin> before_decision \<and> q \<notin> {PolicyGateChoice, MarkBlocked, MarkFailed, Succeeded, Stopped}"
  by (auto simp: before_decision_def after_pass_def)

lemma quiet_step_invariant:
  assumes "wf_invariant s x" and "undeployed (ex_tables x) t"
    and "ex_state x \<in> before_decision \<and> q \<in> insert MarkFailed before_decision \<or>
         ex_state x \<in> after_pass \<and> q \<in> insert MarkFailed after_pass"
  shows "wf_invariant s (x\<lparr>ex_state := q, ex_pr := pr, ex_cause := c, ex_tables := t\<rparr>)"
proof -
  have ut: "undeployed s (ex_tables x) \<Longrightarrow> undeployed s t"
    using assms(2) undeployed_frame.frame_trans by blast
  have kt: "live_kept s (ex_tables x) \<Longrightarrow> live_kept s t"
    using assms(2) undeployed_live_kept live_kept_frame.frame_trans by blast
  from assms(3) show ?thesis
  proof (elim disjE conjE insertE)
    assume "ex_state x \<in> before_decision" "q = MarkFailed"
    with assms(1) ut undeployed_live_kept [of s t] show ?thesis
      by (simp add: wf_invariant_def) (simp add: before_decision_def after_pass_def)
  next
    assume "ex_state x \<in> before_decision" "q \<in> before_decision"
    with assms(1) ut undeployed_live_kept [of s t] phases_apart(1) [of q] show ?thesis
      by (auto simp add: wf_invariant_def)
  next
    assume "ex_state x \<in> after_pass" "q = MarkFailed"
    with assms(1) kt phases_apart(2) [of "ex_state x"] show ?thesis
      by (simp add: wf_invariant_def) (auto simp: before_decision_def after_pass_def)
  next
    assume "ex_state x \<in> after_pass" "q \<in> after_pass"
    with assms(1) kt phases_apart(2) [of q] phases_apart(2) [of "ex_state x"] show ?thesis
      by (auto simp add: wf_invariant_def)
  qed
qed

lemma undeployed_step: "stays_in undeployed m \<Longrightarrow> m s = (r, t) \<Longrightarrow> undeployed s t"
  by (rule stays_inD)

lemma execution_update: "x\<lparr>ex_state := q, ex_tables := t\<rparr> = x\<lparr>ex_state := q, ex_pr := ex_pr x, ex_cause := ex_cause x, ex_tables := t\<rparr>"
  "x\<lparr>ex_state := q, ex_cause := c, ex_tables := t\<rparr> = x\<lparr>ex_state := q, ex_pr := ex_pr x, ex_cause := c, ex_tables := t\<rparr>"
  "x\<lparr>ex_state := q, ex_pr := p, ex_tables := t\<rparr> = x\<lparr>ex_state := q, ex_pr := p, ex_cause := ex_cause x, ex_tables := t\<rparr>"
  by (cases x; simp)+

lemma wf_step_invariant:
  assumes "wf_step cl st ev x y" and inv: "wf_invariant s x"
  shows "wf_invariant s y"
  using assms(1)
proof (cases rule: wf_step.cases)
  case (handled q h v t)
  show ?thesis
    unfolding handled(1) execution_update
    using inv undeployed_step [OF plain_handler_undeployed [OF handled(2)] handled(3)]
    by (rule quiet_step_invariant) (use plain_handler_states [OF handled(2)] in auto)
next
  case (caught q h e t cause)
  show ?thesis
    unfolding caught(1) execution_update
    using inv undeployed_step [OF plain_handler_undeployed [OF caught(2)] caught(3)]
    by (rule quiet_step_invariant) (use plain_handler_states [OF caught(2)] in auto)
next
  case (generated v pr t)
  show ?thesis
    unfolding generated(1) execution_update
    using inv undeployed_step [OF handlers_undeployed(2) generated(3)]
    by (rule quiet_step_invariant) (simp add: generated(2) before_decision_def)
next
  case (not_generated e t cause)
  show ?thesis
    unfolding not_generated(1) execution_update
    using inv undeployed_step [OF handlers_undeployed(2) not_generated(3)]
    by (rule quiet_step_invariant) (simp add: not_generated(2) before_decision_def)
next
  case (built q t)
  show ?thesis
    unfolding built(1) execution_update
    using inv built(3) by (rule quiet_step_invariant) (use build_states_states [OF built(2)] in auto)
next
  case (build_failed q t cause)
  show ?thesis
    unfolding build_failed(1) execution_update
    using inv build_failed(3) by (rule quiet_step_invariant) (use build_states_states [OF build_failed(2)] in auto)
next
  case (decided d t)
  have u: "undeployed s (ex_tables x)"
    using inv decided(2) by (simp add: wf_invariant_def before_decision_def)
  have "live_kept s t"
    using undeployed_live_kept [OF u] stays_inD [OF policy_handler_kept decided(3)] live_kept_frame.frame_trans by blast
  moreover have "undeployed s t" if "d = (''BLOCK'', r)" for r
    using policy_handler_block decided(3) that u undeployed_frame.frame_trans by blast
  ultimately show ?thesis
    by (simp add: decided(1) wf_invariant_def) (simp add: before_decision_def after_pass_def)
next
  case (not_decided e t cause)
  have i: "undeployed s (ex_tables x)" "ex_decision x = None"
    using inv not_decided(2) by (simp_all add: wf_invariant_def before_decision_def)
  have "live_kept s t"
    using undeployed_live_kept [OF i(1)] stays_inD [OF policy_handler_kept not_decided(3)] live_kept_frame.frame_trans
    by blast
  with i(2) show ?thesis
    by (simp add: not_decided(1) wf_invariant_def) (simp add: before_decision_def after_pass_def)
next
  case (chosen_block reason)
  with inv show ?thesis
    by (simp add: wf_invariant_def) (simp add: before_decision_def after_pass_def)
next
  case (chosen_apply d reason)
  with inv show ?thesis
    by (simp add: wf_invariant_def) (simp add: before_decision_def after_pass_def)
next
  case (activated u t)
  with inv show ?thesis
    by (simp add: wf_invariant_def) (auto simp: before_decision_def after_pass_def)
next
  case (not_activated e t)
  with inv show ?thesis
    by (simp add: wf_invariant_def) (auto simp: before_decision_def after_pass_def)
next
  case blocked
  with inv show ?thesis
    by (simp add: wf_invariant_def) (simp add: before_decision_def after_pass_def)
next
  case (failed r t)
  have "undeployed (ex_tables x) t" by (rule undeployed_step [OF handlers_undeployed(5) failed(3)])
  then have "live_kept s (ex_tables x) \<Longrightarrow> live_kept s t"
    using undeployed_live_kept live_kept_frame.frame_trans by blast
  with failed inv show ?thesis
    by (simp add: wf_invariant_def) (simp add: before_decision_def after_pass_def)
qed

lemma executes_invariant: "executes cl st ev x y \<Longrightarrow> wf_invariant s x \<Longrightarrow> wf_invariant s y"
  by (induction rule: executes.induct) (auto intro: wf_step_invariant)

text \<open>An execution the policy check blocked has merged nothing and made nothing live.\<close>

lemma blocked_execution_undeployed:
  assumes "executes cl st ev (execution_start s) x" and "ex_decision x = Some (''BLOCK'', reason)"
  shows "undeployed s (ex_tables x)"
  using executes_invariant [OF assms(1) wf_invariant_start] assms(2) by (simp add: wf_invariant_def)

text \<open>A live version changes only in an execution that ran to its end after a passed check.\<close>

lemma live_change_needs_pass:
  assumes "executes cl st ev (execution_start s) x" and "\<not> live_kept s (ex_tables x)"
  shows "ex_state x \<in> {Succeeded, Stopped} \<and> (\<exists>d r. ex_decision x = Some (d, r) \<and> d \<noteq> ''BLOCK'')"
proof -
  have inv: "wf_invariant s x" by (rule executes_invariant [OF assms(1) wf_invariant_start])
  obtain d r where d: "ex_decision x = Some (d, r)"
    using inv assms(2) by (cases "ex_decision x") (auto simp: wf_invariant_def)
  have nb: "d \<noteq> ''BLOCK''"
  proof
    assume "d = ''BLOCK''"
    with inv d have "undeployed s (ex_tables x)" by (simp add: wf_invariant_def)
    with assms(2) show False using undeployed_live_kept by blast
  qed
  have "ex_state x \<in> {Succeeded, Stopped}"
    using inv d nb assms(2) by (cases "ex_state x") (auto simp: wf_invariant_def before_decision_def after_pass_def)
  with d nb show ?thesis by blast
qed

text \<open>Every execution takes at most fifteen steps.\<close>

inductive steps_from :: "'w cloud \<Rightarrow> factory_settings \<Rightarrow> event \<Rightarrow> nat \<Rightarrow> 'w execution \<Rightarrow> 'w execution \<Rightarrow> bool" for cl st ev where
  none: "steps_from cl st ev 0 x x"
| one: "steps_from cl st ev n x y \<Longrightarrow> wf_step cl st ev y z \<Longrightarrow> steps_from cl st ev (Suc n) x z"

lemma steps_from_rank: "steps_from cl st ev n x y \<Longrightarrow> n + wf_rank (ex_state y) \<le> wf_rank (ex_state x)"
  by (induction rule: steps_from.induct) (auto dest!: wf_step_rank)

lemma execution_bound: "steps_from cl st ev n (execution_start s) x \<Longrightarrow> n \<le> 15"
  using steps_from_rank [of cl st ev n "execution_start s" x] by (simp add: execution_start_def wf_rank_def)

lemma steps_executes: "steps_from cl st ev n x y \<Longrightarrow> executes cl st ev x y"
  by (induction rule: steps_from.induct) (auto intro: executes.intros)

lemma execution_goes_on:
  assumes "executes cl st ev (execution_start s) x"
  shows "ex_state x \<in> {Succeeded, Stopped} \<or> (\<exists>y. wf_step cl st ev x y)"
proof (rule disjCI)
  assume "\<not> (\<exists>y. wf_step cl st ev x y)"
  moreover have "wf_invariant s x" by (rule executes_invariant [OF assms wf_invariant_start])
  then have "ex_state x = PolicyGateChoice \<Longrightarrow> ex_decision x \<noteq> None" by (simp add: wf_invariant_def)
  ultimately show "ex_state x \<in> {Succeeded, Stopped}" using wf_progress [of x cl st ev] by blast
qed

end
