(* ===== verification/SampleFactory.thy ===== *)
theory SampleFactory
  imports Sample Workflow
begin

text \<open>
  A sample of the Factory's tables: the agent of the sample container, its second version with its
  generated IaC, a deployment of that version with an open pull request, services that answer, and
  a run of the deployment workflow on them in which every build passes.
\<close>

section \<open>The tables\<close>

definition sample_cloud :: "unit cloud" where
  "sample_cloud =
     \<lparr>cl_clock = \<lambda>_. 7, cl_iso = \<lambda>_. ''now'', cl_git = \<lambda>_ _. (Inr (), ()), cl_codebuild = \<lambda>_ _ _. (Inr ''b'', ()),
      cl_post = \<lambda>_ _. (Inr (200, None), ())\<rparr>"

definition sample_settings :: factory_settings where
  "sample_settings = \<lparr>st_git_provider = ''github'', st_git_org = Some ''org''\<rparr>"

definition sample_event :: event where
  "sample_event = \<lparr>ev_agent_id = ''a'', ev_tenant_id = ''t'', ev_version = 2, ev_deployment_id = ''d''\<rparr>"

text \<open>The stage the security scan reports is an argument.\<close>

definition sample_deployment :: "stage_result \<Rightarrow> deployment" where
  "sample_deployment scan =
     \<lparr>dp_agent = ''a'', dp_id = ''d'', dp_version = 2, dp_triggered_by = ''me'', dp_triggered_at = 0,
      dp_status = ''VALIDATING'', dp_current = ''VALIDATING'', dp_mode = ''automated'', dp_approved_by = None,
      dp_approved_at = None, dp_stages = AList.update ''SECURITY_SCANNING'' scan initial_stages,
      dp_iac_key = Some ''k'', dp_branch = Some ''b'', dp_pr = Some ''1'', dp_health_url = None,
      dp_failure = None, dp_failed_stage = None, dp_updated_at = 0\<rparr>"

definition clean_scan :: stage_result where
  "clean_scan = (pending_stage ''SECURITY_SCANNING'')\<lparr>sr_status := ''PASSED''\<rparr>"

definition failed_scan :: stage_result where
  "failed_scan = clean_scan\<lparr>sr_status := ''FAILED'', sr_blocking := Some ''hardcoded_secret_found''\<rparr>"

definition clean_result :: scan_result where
  "clean_result = \<lparr>sc_findings = [], sc_summary = ''clean'', sc_checks = [], sc_passed = True,
     sc_decision = ''PASS'', sc_reason = ''ok''\<rparr>"

definition generated_version :: version_record where
  "generated_version = (sample_version 2)\<lparr>vr_derived := [(''iac_s3_key'', PStr ''k'')]\<rparr>"

definition sample_factory :: "stage_result \<Rightarrow> unit factory" where
  "sample_factory scan =
     \<lparr>fc_world = (),
      fc_registry = sample_registry\<lparr>rg_versions := [((''a'', 1), FullVersion (sample_version 1)),
                                                     ((''a'', 2), FullVersion generated_version)]\<rparr>,
      fc_deployments = [((''a'', ''d''), sample_deployment scan)],
      fc_git = [], fc_events = [], fc_audit = [], fc_metrics = []\<rparr>"

section \<open>An execution whose builds pass\<close>

text \<open>One step of the machine when no state fails and the builds write nothing.\<close>

fun then_go :: "(pyexn + 'a) \<times> 'w factory \<Rightarrow> ('a \<Rightarrow> 'w factory \<Rightarrow> 'w execution) \<Rightarrow> 'w execution option" where
  "then_go (Inl e, t) go = None"
| "then_go (Inr v, t) go = Some (go v t)"

definition smooth_step :: "'w cloud \<Rightarrow> factory_settings \<Rightarrow> event \<Rightarrow> 'w execution \<Rightarrow> 'w execution option" where
  "smooth_step cl st ev x =
     (case plain_handler cl ev (ex_state x) of
        Some (q, h) \<Rightarrow> then_go (h (ex_tables x)) (\<lambda>_ t. x\<lparr>ex_state := q, ex_tables := t\<rparr>)
      | None \<Rightarrow>
          (case build_states (ex_state x) of
             Some q \<Rightarrow> Some (x\<lparr>ex_state := q, ex_tables := ex_tables x\<rparr>)
           | None \<Rightarrow>
               (if ex_state x = GeneratingIac
                then then_go (generating_iac_handler cl ev (ex_tables x))
                       (\<lambda>(_, pr) t. x\<lparr>ex_state := SecurityScanning, ex_pr := pr, ex_tables := t\<rparr>)
                else if ex_state x = PolicyCheck
                then then_go (policy_check_handler cl st ev (ex_pr x) (ex_tables x))
                       (\<lambda>d t. x\<lparr>ex_state := PolicyGateChoice, ex_decision := Some d, ex_tables := t\<rparr>)
                else if ex_state x = PolicyGateChoice
                then (case ex_decision x of
                        Some (d, _) \<Rightarrow> Some (x\<lparr>ex_state := (if d = ''BLOCK'' then MarkBlocked else Applying)\<rparr>)
                      | None \<Rightarrow> None)
                else if ex_state x = MarkActive
                then then_go (mark_active_handler cl ev (ex_tables x)) (\<lambda>_ t. x\<lparr>ex_state := Succeeded, ex_tables := t\<rparr>)
                else None)))"

lemma then_go_Some: "then_go r go = Some y \<longleftrightarrow> (\<exists>v t. r = (Inr v, t) \<and> y = go v t)"
  by (cases "(r, go)" rule: then_go.cases) auto

lemma built_quietly: "build_states (ex_state x) = Some q \<Longrightarrow> wf_step cl st ev x (x\<lparr>ex_state := q\<rparr>)"
  using wf_step.built [of x q "ex_tables x" cl st ev] by (simp add: undeployed_frame.frame_refl)

lemma smooth_step_sound: "smooth_step cl st ev x = Some y \<Longrightarrow> wf_step cl st ev x y"
  by (auto simp: smooth_step_def then_go_Some split: option.splits if_splits prod.splits
      intro: wf_step.handled wf_step.generated wf_step.decided wf_step.chosen_block wf_step.chosen_apply wf_step.activated
        built_quietly)

fun smooth_run :: "'w cloud \<Rightarrow> factory_settings \<Rightarrow> event \<Rightarrow> nat \<Rightarrow> 'w execution \<Rightarrow> 'w execution option" where
  "smooth_run cl st ev 0 x = Some x"
| "smooth_run cl st ev (Suc n) x =
     (case smooth_run cl st ev n x of None \<Rightarrow> None | Some y \<Rightarrow> smooth_step cl st ev y)"

lemma smooth_run_sound: "smooth_run cl st ev n x = Some y \<Longrightarrow> steps_from cl st ev n x y"
  by (induction n arbitrary: y) (auto split: option.splits intro: steps_from.intros dest: smooth_step_sound)

text \<open>The whole execution, with a clean scan and with a finding.\<close>

definition sample_run :: "nat \<Rightarrow> stage_result \<Rightarrow> unit execution option" where
  "sample_run n scan =
     smooth_run sample_cloud sample_settings sample_event n (execution_start (sample_factory scan))"

lemma sample_pass:
  "case sample_run 13 clean_scan of None \<Rightarrow> False
   | Some x \<Rightarrow> ex_state x = Succeeded \<and> merges (ex_tables x) \<noteq> [] \<and> lives (ex_tables x) (''t'', ''a'') = Some 2"
  by code_simp

lemma sample_block:
  "case sample_run 9 failed_scan of None \<Rightarrow> False
   | Some x \<Rightarrow> ex_state x = MarkBlocked
       \<and> ex_decision x = Some (''BLOCK'', ''Critical finding: hardcoded_secret_found'')"
  by code_simp

lemma sample_factory_keyed: "keyed (fc_registry (sample_factory scan))"
  using sample_registry_keyed by (simp add: sample_factory_def keyed_def)

lemma sample_factory_lives: "lives (sample_factory scan) (''t'', ''a'') = Some 1"
  by (simp add: lives_def live_of_def sample_factory_def sample_registry_def sample_record_def sample_agent_def)

lemma sample_run_executes:
  "sample_run n scan = Some x \<Longrightarrow>
     executes sample_cloud sample_settings sample_event (execution_start (sample_factory scan)) x"
  unfolding sample_run_def by (rule steps_executes [OF smooth_run_sound])

lemma sample_factory_readable:
  "readable (fc_registry (sample_factory scan)) ''t'' ''a'' (sample_record\<lparr>ag_type := ''standard''\<rparr>)"
proof -
  have "normalise_agent_type (ag_type sample_record) = ''standard'' \<and> valid_record (sample_record\<lparr>ag_type := ''standard''\<rparr>)"
    by code_simp
  then show ?thesis
    by (auto simp: readable_def sample_factory_def sample_registry_def)
qed

end
