(* ===== verification/Tables.thy ===== *)
theory Tables
  imports RegistryStore
begin

text \<open>
  A DynamoDB table of the Factory's catalogs: rows under a tenant (partition key) and an id (sort
  key), as an association list, and the item operations the stores use. \<open>put_item\<close> replaces, a
  query of a tenant's partition gives its rows by id. The frame \<open>tenant_only\<close> is the interface the
  stores promise: an operation of a tenant leaves every other tenant's rows as they are.
\<close>

type_synonym 'r table = "((string \<times> string) \<times> 'r) list"
type_synonym ('r, 'a) table_action = "('r table, 'a) prog"

definition find_row :: "string \<Rightarrow> string \<Rightarrow> ('r, 'r option) table_action" where
  "find_row tenant i = reads (\<lambda>t. map_of t (tenant, i))"

definition put_row :: "string \<Rightarrow> string \<Rightarrow> 'r \<Rightarrow> ('r, unit) table_action" where
  "put_row tenant i r = modifies (AList.update (tenant, i) r)"

definition delete_row :: "string \<Rightarrow> string \<Rightarrow> ('r, unit) table_action" where
  "delete_row tenant i = modifies (AList.delete (tenant, i))"

definition partition_of :: "string \<Rightarrow> 'r table \<Rightarrow> (string \<times> 'r) list" where
  "partition_of tenant t = sort_items [(i, r). ((t', i), r) \<leftarrow> t, t' = tenant]"

definition query_rows :: "string \<Rightarrow> ('r, 'r list) table_action" where
  "query_rows tenant = reads (\<lambda>t. map snd (partition_of tenant t))"

text \<open>A row read, changed and written back, or the exception of a missing one.\<close>

definition amend_row :: "pyexn \<Rightarrow> string \<Rightarrow> string \<Rightarrow> ('r \<Rightarrow> 'r) \<Rightarrow> ('r, 'r) table_action" where
  "amend_row missing tenant i f =
     andthen (find_row tenant i) (\<lambda>found.
       case found of
         None \<Rightarrow> raising missing
       | Some r \<Rightarrow> andthen (put_row tenant i (f r)) (\<lambda>_. ret (f r)))"

text \<open>
  The DynamoDB resource refuses a Python float anywhere in an item. A store that writes untyped
  JSON without converting it raises there.
\<close>

fun has_float :: "pyval \<Rightarrow> bool" where
  "has_float (PFloat _) = True"
| "has_float (PList xs) = list_ex has_float xs"
| "has_float (PDict kvs) = list_ex (\<lambda>(k, v). has_float v) kvs"
| "has_float _ = False"

definition float_refused :: pyexn where
  "float_refused = TypeError ''Float types are not supported. Use Decimal types instead.''"

definition put_native :: "string \<Rightarrow> string \<Rightarrow> 'r \<Rightarrow> pyval list \<Rightarrow> ('r, unit) table_action" where
  "put_native tenant i r untyped =
     (if list_ex has_float untyped then raising float_refused else put_row tenant i r)"

section \<open>Ids\<close>

definition slug_or :: "string \<Rightarrow> string \<Rightarrow> string" where
  "slug_or other name =
     (let slug = strip_dashes (collapse_runs False (py_lower name)) in if slug = [] then other else slug)"

definition slug_id :: "string \<Rightarrow> string \<Rightarrow> string \<Rightarrow> string" where
  "slug_id other name hex = slug_or other name @ ''-'' @ take 6 hex"

section \<open>Laws\<close>

interpretation alist_table: keyed_table map_of AList.update
  by unfold_locales (simp_all add: AList.update_conv')

definition tenant_only :: "string \<Rightarrow> 'r table \<Rightarrow> 'r table \<Rightarrow> bool" where
  "tenant_only tenant s t \<longleftrightarrow> (\<forall>u i. u \<noteq> tenant \<longrightarrow> map_of t (u, i) = map_of s (u, i))"

interpretation tenant_frame: frame "tenant_only tenant" for tenant
  by unfold_locales (auto simp: tenant_only_def)

lemma item_tenant_only [frame_intros]:
  "stays_in (tenant_only tenant) (find_row u i)"
  "stays_in (tenant_only tenant) (query_rows u)"
  "stays_in (tenant_only tenant) (put_row tenant i r)"
  "stays_in (tenant_only tenant) (delete_row tenant i)"
  by (auto simp: stays_in_def tenant_only_def find_row_def query_rows_def put_row_def delete_row_def prog_simps
      AList.update_conv' AList.delete_conv')

lemma amend_tenant_only [frame_intros]: "stays_in (tenant_only tenant) (amend_row e tenant i f)"
  unfolding amend_row_def by (intro frame_intros)

lemma native_tenant_only [frame_intros]: "stays_in (tenant_only tenant) (put_native tenant i r vs)"
  unfolding put_native_def by (intro frame_intros)

lemma find_after_put: "find_row tenant i (snd (put_row tenant i r s)) = (Inr (Some r), snd (put_row tenant i r s))"
  by (simp add: find_row_def put_row_def prog_simps AList.update_conv')

lemma find_after_delete: "find_row tenant i (snd (delete_row tenant i s)) = (Inr None, snd (delete_row tenant i s))"
  by (simp add: find_row_def delete_row_def prog_simps AList.delete_conv')

lemma amend_row_run:
  "map_of s (tenant, i) = Some r \<Longrightarrow> amend_row e tenant i f s = (Inr (f r), AList.update (tenant, i) (f r) s)"
  by (simp add: amend_row_def find_row_def put_row_def prog_simps)

lemma amend_row_missing: "map_of s (tenant, i) = None \<Longrightarrow> amend_row e tenant i f s = (Inl e, s)"
  by (simp add: amend_row_def find_row_def prog_simps)

lemma set_partition_of:
  assumes "distinct (map fst t)"
  shows "set (partition_of tenant t) = {(i, r). map_of t (tenant, i) = Some r}"
proof -
  have s: "set (sort_items kvs) = set kvs" for kvs :: "(string \<times> 'a) list"
    by (simp add: set_sort_items)
  show ?thesis
    using assms by (auto simp: partition_of_def s map_of_eq_Some_iff)
qed

text \<open>A slug is never empty, and it keeps to lower-case letters, digits and dashes.\<close>

lemma slug_or_nonempty: "other \<noteq> [] \<Longrightarrow> slug_or other name \<noteq> []"
  by (simp add: slug_or_def Let_def)

lemma collapse_runs_chars: "set (collapse_runs b s) \<subseteq> insert (CHR ''-'') {c. slug_char c}"
  by (induction b s rule: collapse_runs.induct) auto

lemma slug_or_chars:
  assumes "set other \<subseteq> insert (CHR ''-'') {c. slug_char c}"
  shows "set (slug_or other name) \<subseteq> insert (CHR ''-'') {c. slug_char c}"
proof -
  have "set (strip_dashes s) \<subseteq> set s" for s
    by (auto simp: strip_dashes_def dest!: set_dropWhileD)
  with assms collapse_runs_chars [of False "py_lower name"] show ?thesis
    by (auto simp: slug_or_def Let_def split: if_splits)
qed

end
