(* ===== verification/Catalogs.thy ===== *)
theory Catalogs
  imports Tables
begin

text \<open>
  The tenant catalogs of the Factory: connectors (app/modules/connectors), knowledge bases
  (app/modules/knowledge_base), skills (app/modules/skills), prompts (app/modules/prompts), projects
  (app/modules/projects) and the platform-wide tool registry (app/modules/tool_registry). Each store
  is a group of programs over its own table; an operation is given the instant and the random hex
  digits it draws. Instants are kept as numbers, the sources write their ISO text.
\<close>

section \<open>Connectors\<close>

definition global_tenant :: string where "global_tenant = ''GLOBAL''"

definition executor_types :: "string list" where
  "executor_types = [''http'', ''lambda'', ''sql'', ''mcp'']"

record connector =
  cn_tenant :: string
  cn_id :: string
  cn_name :: string
  cn_executor :: string
  cn_description :: string
  cn_input :: pyval
  cn_output :: pyval
  cn_endpoint :: "string option"
  cn_credentials :: "string list"
  cn_global :: bool
  cn_by :: string
  cn_created :: int

text \<open>
  The fields a caller gives. They come as untyped JSON where the caller is the approval executor,
  so the record's own validation is part of the operation: the executor must be one of four names,
  the schemas must be objects, the endpoint a text or null, the credentials texts.
\<close>

record connector_fields =
  cf_name :: string
  cf_executor :: pyval
  cf_description :: string
  cf_input :: pyval
  cf_output :: pyval
  cf_endpoint :: pyval
  cf_credentials :: "pyval list"

definition or_empty :: "pyval \<Rightarrow> pyval" where
  "or_empty v = (if py_truthy v then v else PDict [])"

definition is_text :: "pyval \<Rightarrow> bool" where
  "is_text v = (case v of PStr _ \<Rightarrow> True | _ \<Rightarrow> False)"

definition is_dict :: "pyval \<Rightarrow> bool" where
  "is_dict v = (case v of PDict _ \<Rightarrow> True | _ \<Rightarrow> False)"

definition optional_text :: "pyval \<Rightarrow> string option" where
  "optional_text v = (case v of PStr s \<Rightarrow> Some s | _ \<Rightarrow> None)"

definition connector_valid :: "connector_fields \<Rightarrow> bool" where
  "connector_valid f \<longleftrightarrow>
     is_text (cf_executor f) \<and> text_of (cf_executor f) \<in> set executor_types \<and>
     is_dict (or_empty (cf_input f)) \<and> is_dict (or_empty (cf_output f)) \<and>
     (cf_endpoint f = PNone \<or> is_text (cf_endpoint f)) \<and> list_all is_text (cf_credentials f)"

definition new_connector :: "int \<Rightarrow> string \<Rightarrow> string \<Rightarrow> string \<Rightarrow> connector_fields \<Rightarrow> connector" where
  "new_connector now tenant i who f =
     \<lparr>cn_tenant = tenant, cn_id = i, cn_name = cf_name f, cn_executor = text_of (cf_executor f),
      cn_description = cf_description f, cn_input = or_empty (cf_input f), cn_output = or_empty (cf_output f),
      cn_endpoint = optional_text (cf_endpoint f), cn_credentials = map text_of (cf_credentials f),
      cn_global = False, cn_by = who, cn_created = now\<rparr>"

definition create_connector ::
  "int \<Rightarrow> string \<Rightarrow> string \<Rightarrow> string \<Rightarrow> connector_fields \<Rightarrow> (connector, connector) table_action" where
  "create_connector now hex tenant who f =
     (if \<not> connector_valid f then raising (ValidationError ''ConnectorRecord'')
      else
        (let r = new_connector now tenant (slug_id ''connector'' (cf_name f) hex) who f
         in andthen (put_native tenant (cn_id r) r [cn_input r, cn_output r]) (\<lambda>_. ret r)))"

definition list_connectors :: "string \<Rightarrow> (connector, connector list) table_action" where
  "list_connectors tenant =
     andthen (query_rows global_tenant) (\<lambda>shared. andthen (query_rows tenant) (\<lambda>own. ret (shared @ own)))"

definition get_connector :: "string \<Rightarrow> string \<Rightarrow> (connector, connector option) table_action" where
  "get_connector tenant i =
     andthen (find_row tenant i) (\<lambda>own. case own of Some r \<Rightarrow> ret (Some r) | None \<Rightarrow> find_row global_tenant i)"

definition get_tenant_owned_connector :: "string \<Rightarrow> string \<Rightarrow> (connector, connector option) table_action" where
  "get_tenant_owned_connector tenant i = find_row tenant i"

text \<open>The update of a route carries typed fields; the schemas and credentials are never None there.\<close>

definition changed_connector :: "connector_fields \<Rightarrow> connector \<Rightarrow> connector" where
  "changed_connector f r =
     r\<lparr>cn_name := cf_name f, cn_executor := text_of (cf_executor f), cn_description := cf_description f,
       cn_input := (if cf_input f = PNone then cn_input r else cf_input f),
       cn_output := (if cf_output f = PNone then cn_output r else cf_output f),
       cn_endpoint := optional_text (cf_endpoint f), cn_credentials := map text_of (cf_credentials f)\<rparr>"

definition update_connector ::
  "string \<Rightarrow> string \<Rightarrow> connector_fields \<Rightarrow> (connector, connector option) table_action" where
  "update_connector tenant i f =
     andthen (get_tenant_owned_connector tenant i) (\<lambda>found.
       case found of
         None \<Rightarrow> ret None
       | Some r \<Rightarrow>
           (let r' = changed_connector f r
            in andthen (put_native tenant i r' [cn_input r', cn_output r']) (\<lambda>_. ret (Some r'))))"

definition delete_connector :: "string \<Rightarrow> string \<Rightarrow> (connector, bool) table_action" where
  "delete_connector tenant i =
     andthen (get_tenant_owned_connector tenant i) (\<lambda>found.
       case found of None \<Rightarrow> ret False | Some _ \<Rightarrow> andthen (delete_row tenant i) (\<lambda>_. ret True))"

text \<open>The curated connectors, written again at every start.\<close>

definition object_schema :: "string \<Rightarrow> pyval" where
  "object_schema field =
     PDict [(''type'', PStr ''object''), (''properties'', PDict [(field, PDict [(''type'', PStr ''string'')])])]"

definition global_seed :: "int \<Rightarrow> string \<Rightarrow> string \<Rightarrow> string \<Rightarrow> string \<Rightarrow> string \<Rightarrow> string list \<Rightarrow> connector" where
  "global_seed now i name description field endpoint creds =
     \<lparr>cn_tenant = global_tenant, cn_id = i, cn_name = name, cn_executor = ''http'', cn_description = description,
      cn_input = object_schema field, cn_output = PDict [(''type'', PStr ''object'')], cn_endpoint = Some endpoint,
      cn_credentials = creds, cn_global = True, cn_by = ''panasa'', cn_created = now\<rparr>"

definition global_connector_seeds :: "int \<Rightarrow> connector list" where
  "global_connector_seeds now =
     [global_seed now ''jira'' ''Jira'' ''Atlassian Jira issue tracking.'' ''issue_key''
        ''https://{domain}.atlassian.net/rest/api/3'' [''api_key'', ''domain''],
      global_seed now ''salesforce'' ''Salesforce'' ''Salesforce CRM records.'' ''object_id''
        ''https://{domain}.salesforce.com/services/data/v60.0'' [''access_token'', ''domain''],
      global_seed now ''companies-house'' ''Companies House Lookup'' ''UK Companies House company/officer lookup.''
        ''company_number'' ''https://api.companieshouse.gov.uk'' [''api_key'']]"

fun put_connectors :: "connector list \<Rightarrow> (connector, unit) table_action" where
  "put_connectors [] = ret ()"
| "put_connectors (r # rs) = andthen (put_row (cn_tenant r) (cn_id r) r) (\<lambda>_. put_connectors rs)"

definition seed_global_connectors :: "int \<Rightarrow> (connector, unit) table_action" where
  "seed_global_connectors now = put_connectors (global_connector_seeds now)"

section \<open>Knowledge bases\<close>

record knowledge_base =
  kn_tenant :: string
  kn_id :: string
  kn_name :: string
  kn_description :: string
  kn_source :: string
  kn_source_config :: pyval
  kn_embedding :: string
  kn_chunk_tokens :: int
  kn_overlap :: int
  kn_strategy :: string
  kn_status :: string
  kn_documents :: int
  kn_bucket :: "string option"
  kn_prefix :: "string option"
  kn_bedrock :: "string option"
  kn_data_source :: "string option"
  kn_synced_at :: "int option"
  kn_sync_status :: "string option"
  kn_sync_error :: "string option"
  kn_by :: string
  kn_created :: int
  kn_updated :: int

record kb_fields =
  bf_name :: string
  bf_description :: string
  bf_source :: string
  bf_config :: pyval
  bf_embedding :: string
  bf_chunk_tokens :: int
  bf_overlap :: int
  bf_strategy :: string

definition default_kb_fields :: "string \<Rightarrow> string \<Rightarrow> string \<Rightarrow> kb_fields" where
  "default_kb_fields name description source =
     \<lparr>bf_name = name, bf_description = description, bf_source = source, bf_config = PNone,
      bf_embedding = ''amazon.titan-embed-text-v2:0'', bf_chunk_tokens = 512, bf_overlap = 10,
      bf_strategy = ''semantic''\<rparr>"

definition strip_slashes :: "string \<Rightarrow> string" where
  "strip_slashes s = rev (dropWhile (\<lambda>c. c = CHR ''/'') (rev (dropWhile (\<lambda>c. c = CHR ''/'') s)))"

definition source_config_error :: pyexn where
  "source_config_error =
     Raised ''InvalidSourceConfigError'' ''source_config.bucket is required when source_type is \"s3\"''"

text \<open>
  Where the documents live: the customer's own path for \<open>s3\<close>, a folder of the base under the
  configured bucket otherwise, nowhere without one. The bucket of \<open>source_config\<close> is untyped.
\<close>

definition kb_location ::
  "kb_fields \<Rightarrow> string \<Rightarrow> string option \<Rightarrow> string \<Rightarrow> pyexn + string option \<times> string option" where
  "kb_location f i bucket folder =
     (if bf_source f = ''s3''
      then (let b = dict_get ''bucket'' (or_empty (bf_config f)); p = dict_get ''prefix'' (or_empty (bf_config f))
            in if \<not> py_truthy b then Inl source_config_error
               else if \<not> is_text b then Inl (ValidationError ''KnowledgeBaseRecord'')
               else (let raw = strip_slashes (if py_truthy p then py_str p else [])
                     in Inr (Some (text_of b), Some (if raw = [] then [] else raw @ ''/''))))
      else if truthy bucket then Inr (bucket, Some (folder @ ''/'' @ i @ ''/raw/''))
      else Inr (None, None))"

definition new_kb ::
  "int \<Rightarrow> string \<Rightarrow> string \<Rightarrow> string \<Rightarrow> kb_fields \<Rightarrow> string option \<times> string option \<Rightarrow> bool \<Rightarrow> knowledge_base" where
  "new_kb now tenant i who f loc provisioned =
     \<lparr>kn_tenant = tenant, kn_id = i, kn_name = bf_name f, kn_description = bf_description f,
      kn_source = bf_source f, kn_source_config = or_empty (bf_config f), kn_embedding = bf_embedding f,
      kn_chunk_tokens = bf_chunk_tokens f, kn_overlap = bf_overlap f, kn_strategy = bf_strategy f,
      kn_status = (if provisioned then ''CREATING'' else ''INDEXING''), kn_documents = 0,
      kn_bucket = fst loc, kn_prefix = snd loc, kn_bedrock = None, kn_data_source = None, kn_synced_at = None,
      kn_sync_status = None, kn_sync_error = None, kn_by = who, kn_created = now, kn_updated = now\<rparr>"

text \<open>
  \<open>create\<close>: the provisioner, when there is one, is asked before anything is written; its failure
  ends the operation.
\<close>

definition create_kb ::
  "int \<Rightarrow> string \<Rightarrow> string \<Rightarrow> string \<Rightarrow> kb_fields \<Rightarrow> string option \<Rightarrow> string
     \<Rightarrow> (knowledge_base \<Rightarrow> pyexn + string \<times> string) option \<Rightarrow> (knowledge_base, knowledge_base) table_action" where
  "create_kb now hex tenant who f bucket folder provisioner =
     (let i = slug_id ''kb'' (bf_name f) hex
      in case kb_location f i bucket folder of
           Inl e \<Rightarrow> raising e
         | Inr loc \<Rightarrow>
             (let r = new_kb now tenant i who f loc (provisioner \<noteq> None)
              in case (case provisioner of
                         None \<Rightarrow> Inr r
                       | Some p \<Rightarrow>
                           (case p r of
                              Inl e \<Rightarrow> Inl e
                            | Inr (kb, ds) \<Rightarrow>
                                Inr (r\<lparr>kn_bedrock := Some kb, kn_data_source := Some ds, kn_status := ''ACTIVE''\<rparr>))) of
                   Inl e \<Rightarrow> raising e
                 | Inr r' \<Rightarrow> andthen (put_native tenant i r' [kn_source_config r']) (\<lambda>_. ret r')))"

definition kb_not_found :: "string \<Rightarrow> pyexn" where
  "kb_not_found i = Raised ''KnowledgeBaseNotFoundError'' (''Knowledge base '' @ repr_str i @ '' not found'')"

definition update_sync_state ::
  "int \<Rightarrow> string \<Rightarrow> string \<Rightarrow> string \<Rightarrow> string option \<Rightarrow> bool \<Rightarrow> (knowledge_base, knowledge_base) table_action" where
  "update_sync_state now tenant i sync err synced =
     amend_row (kb_not_found i) tenant i
       (\<lambda>r. r\<lparr>kn_sync_status := Some sync, kn_sync_error := err,
              kn_status := (if sync = ''IN_PROGRESS'' then ''SYNCING'' else ''ACTIVE''), kn_updated := now,
              kn_synced_at := (if synced then Some now else kn_synced_at r)\<rparr>)"

definition set_document_count ::
  "int \<Rightarrow> string \<Rightarrow> string \<Rightarrow> int \<Rightarrow> (knowledge_base, knowledge_base) table_action" where
  "set_document_count now tenant i n =
     amend_row (kb_not_found i) tenant i (\<lambda>r. r\<lparr>kn_documents := n, kn_updated := now\<rparr>)"

definition trigger_reindex :: "int \<Rightarrow> string \<Rightarrow> string \<Rightarrow> (knowledge_base, knowledge_base) table_action" where
  "trigger_reindex now tenant i =
     amend_row (kb_not_found i) tenant i (\<lambda>r. r\<lparr>kn_status := ''INDEXING'', kn_updated := now\<rparr>)"

definition list_kbs :: "string \<Rightarrow> (knowledge_base, knowledge_base list) table_action" where
  "list_kbs = query_rows"

definition get_kb :: "string \<Rightarrow> string \<Rightarrow> (knowledge_base, knowledge_base option) table_action" where
  "get_kb = find_row"

definition delete_kb :: "string \<Rightarrow> string \<Rightarrow> (knowledge_base, unit) table_action" where
  "delete_kb = delete_row"

section \<open>Skills\<close>

record skill_snapshot =
  ss_version :: string
  ss_name :: string
  ss_description :: string
  ss_capability :: string
  ss_fragment :: string
  ss_input :: pyval
  ss_output :: pyval
  ss_changed_by :: string
  ss_change :: string
  ss_created :: int

record skill =
  sk_tenant :: string
  sk_id :: string
  sk_name :: string
  sk_description :: string
  sk_capability :: string
  sk_fragment :: string
  sk_input :: pyval
  sk_output :: pyval
  sk_version :: string
  sk_status :: string
  sk_history :: "skill_snapshot list"
  sk_by :: string
  sk_created :: int
  sk_updated_by :: string
  sk_updated :: int

fun split_on :: "char \<Rightarrow> string \<Rightarrow> string list" where
  "split_on d [] = [[]]"
| "split_on d (c # cs) =
     (if c = d then [] # split_on d cs
      else (case split_on d cs of [] \<Rightarrow> [[c]] | w # ws \<Rightarrow> (c # w) # ws))"

text \<open>\<open>str.isdigit\<close> holds of the superscripts too, which \<open>int()\<close> refuses.\<close>

definition isdigit_char :: "char \<Rightarrow> bool" where
  "isdigit_char c \<longleftrightarrow> is_digit c \<or> (of_char c :: nat) \<in> {178, 179, 185}"

definition bump_version :: "string \<Rightarrow> pyexn + string" where
  "bump_version version =
     (case split_on (CHR ''.'') version of
        [major, minor] \<Rightarrow>
          (if minor \<noteq> [] \<and> list_all isdigit_char minor
           then (if list_all is_digit minor then Inr (major @ ''.'' @ nat_text (digits_val minor + 1))
                 else Inl (ValueError (''invalid literal for int() with base 10: '' @ repr_str minor)))
           else Inr (version @ ''.1''))
      | _ \<Rightarrow> Inr (version @ ''.1''))"

definition skill_not_found :: "string \<Rightarrow> pyexn" where
  "skill_not_found i = Raised ''SkillNotFoundError'' (''Skill '' @ repr_str i @ '' not found'')"

definition skill_snapshot_of :: "skill \<Rightarrow> string \<Rightarrow> string \<Rightarrow> skill_snapshot" where
  "skill_snapshot_of s who change =
     \<lparr>ss_version = sk_version s, ss_name = sk_name s, ss_description = sk_description s,
      ss_capability = sk_capability s, ss_fragment = sk_fragment s, ss_input = sk_input s,
      ss_output = sk_output s, ss_changed_by = who, ss_change = change, ss_created = sk_updated s\<rparr>"

definition create_skill ::
  "int \<Rightarrow> string \<Rightarrow> string \<Rightarrow> string \<Rightarrow> string \<Rightarrow> string \<Rightarrow> string \<Rightarrow> string \<Rightarrow> pyval \<Rightarrow> pyval \<Rightarrow> string
     \<Rightarrow> (skill, skill) table_action" where
  "create_skill now hex tenant who name description capability fragment inp out version =
     (let s = \<lparr>sk_tenant = tenant, sk_id = slug_id ''skill'' name hex, sk_name = name, sk_description = description,
               sk_capability = capability, sk_fragment = fragment, sk_input = or_empty inp, sk_output = or_empty out,
               sk_version = version, sk_status = ''draft'', sk_history = [], sk_by = who, sk_created = now,
               sk_updated_by = who, sk_updated = now\<rparr>
      in andthen (put_native tenant (sk_id s) s [sk_input s, sk_output s]) (\<lambda>_. ret s))"

record skill_update =
  su_name :: "string option"
  su_description :: "string option"
  su_capability :: "string option"
  su_fragment :: "string option"
  su_input :: "pyval option"
  su_output :: "pyval option"
  su_status :: "string option"

definition is_content_edit :: "skill_update \<Rightarrow> bool" where
  "is_content_edit u \<longleftrightarrow>
     su_name u \<noteq> None \<or> su_description u \<noteq> None \<or> su_capability u \<noteq> None \<or> su_fragment u \<noteq> None \<or>
     su_input u \<noteq> None \<or> su_output u \<noteq> None"

definition edited_skill :: "int \<Rightarrow> string \<Rightarrow> skill_update \<Rightarrow> skill \<Rightarrow> skill" where
  "edited_skill now who u s =
     s\<lparr>sk_name := get_or (sk_name s) (su_name u), sk_description := get_or (sk_description s) (su_description u),
       sk_capability := get_or (sk_capability s) (su_capability u), sk_fragment := get_or (sk_fragment s) (su_fragment u),
       sk_input := get_or (sk_input s) (su_input u), sk_output := get_or (sk_output s) (su_output u),
       sk_status := get_or (sk_status s) (su_status u), sk_updated_by := who, sk_updated := now\<rparr>"

definition put_skill :: "string \<Rightarrow> string \<Rightarrow> skill \<Rightarrow> (skill, skill) table_action" where
  "put_skill tenant i s =
     andthen (put_native tenant i s (sk_input s # sk_output s # concat (map (\<lambda>h. [ss_input h, ss_output h]) (sk_history s))))
       (\<lambda>_. ret s)"

definition update_skill ::
  "int \<Rightarrow> string \<Rightarrow> string \<Rightarrow> string \<Rightarrow> string \<Rightarrow> skill_update \<Rightarrow> (skill, skill) table_action" where
  "update_skill now tenant i who change u =
     andthen (find_row tenant i) (\<lambda>found.
       case found of
         None \<Rightarrow> raising (skill_not_found i)
       | Some s \<Rightarrow>
           (if is_content_edit u
            then (case bump_version (sk_version s) of
                    Inl e \<Rightarrow> raising e
                  | Inr v \<Rightarrow>
                      put_skill tenant i ((edited_skill now who u s)
                        \<lparr>sk_version := v, sk_history := sk_history s @ [skill_snapshot_of s who change]\<rparr>))
            else put_skill tenant i (edited_skill now who u s)))"

section \<open>Prompts\<close>

record prompt =
  pm_tenant :: string
  pm_id :: string
  pm_name :: string
  pm_content :: string
  pm_tags :: "string list"
  pm_by :: string
  pm_created :: int
  pm_updated_by :: string
  pm_updated :: int

definition prompt_not_found :: "string \<Rightarrow> pyexn" where
  "prompt_not_found i = Raised ''PromptNotFoundError'' (''Prompt '' @ repr_str i @ '' not found'')"

definition create_prompt ::
  "int \<Rightarrow> string \<Rightarrow> string \<Rightarrow> string \<Rightarrow> string \<Rightarrow> string \<Rightarrow> string list \<Rightarrow> (prompt, prompt) table_action" where
  "create_prompt now hex tenant who name content tags =
     (let p = \<lparr>pm_tenant = tenant, pm_id = slug_id ''prompt'' name hex, pm_name = name, pm_content = content,
               pm_tags = tags, pm_by = who, pm_created = now, pm_updated_by = who, pm_updated = now\<rparr>
      in andthen (put_row tenant (pm_id p) p) (\<lambda>_. ret p))"

definition update_prompt ::
  "int \<Rightarrow> string \<Rightarrow> string \<Rightarrow> string \<Rightarrow> string option \<Rightarrow> string option \<Rightarrow> string list option
     \<Rightarrow> (prompt, prompt) table_action" where
  "update_prompt now tenant i who name content tags =
     amend_row (prompt_not_found i) tenant i
       (\<lambda>p. p\<lparr>pm_name := get_or (pm_name p) name, pm_content := get_or (pm_content p) content,
              pm_tags := get_or (pm_tags p) tags, pm_updated_by := who, pm_updated := now\<rparr>)"

section \<open>Projects\<close>

record project =
  pj_tenant :: string
  pj_id :: string
  pj_name :: string
  pj_description :: string
  pj_owner :: string
  pj_status :: string
  pj_agents :: "string list"
  pj_tags :: "string list"
  pj_policy :: "string option"
  pj_by :: string
  pj_created :: int
  pj_updated :: int

definition project_not_found :: "string \<Rightarrow> pyexn" where
  "project_not_found i = Raised ''ProjectNotFoundError'' (''Project '' @ repr_str i @ '' not found'')"

definition create_project ::
  "int \<Rightarrow> string \<Rightarrow> string \<Rightarrow> string \<Rightarrow> string \<Rightarrow> string \<Rightarrow> string list \<Rightarrow> string option
     \<Rightarrow> (project, project) table_action" where
  "create_project now hex tenant who name description tags policy =
     (let p = \<lparr>pj_tenant = tenant, pj_id = slug_id ''project'' name hex, pj_name = name, pj_description = description,
               pj_owner = who, pj_status = ''active'', pj_agents = [], pj_tags = tags, pj_policy = policy,
               pj_by = who, pj_created = now, pj_updated = now\<rparr>
      in andthen (put_row tenant (pj_id p) p) (\<lambda>_. ret p))"

record project_update =
  pu_name :: "string option"
  pu_description :: "string option"
  pu_tags :: "string list option"
  pu_policy :: "string option"
  pu_status :: "string option"

definition update_project :: "int \<Rightarrow> string \<Rightarrow> string \<Rightarrow> project_update \<Rightarrow> (project, project) table_action" where
  "update_project now tenant i u =
     amend_row (project_not_found i) tenant i
       (\<lambda>p. p\<lparr>pj_name := get_or (pj_name p) (pu_name u), pj_description := get_or (pj_description p) (pu_description u),
              pj_tags := get_or (pj_tags p) (pu_tags u),
              pj_policy := (case pu_policy u of None \<Rightarrow> pj_policy p | Some g \<Rightarrow> Some g),
              pj_status := get_or (pj_status p) (pu_status u), pj_updated := now\<rparr>)"

text \<open>The list of agents is a set kept in order: an id is added once and removed wholly.\<close>

definition add_agent_id :: "int \<Rightarrow> string \<Rightarrow> string \<Rightarrow> string \<Rightarrow> (project, project) table_action" where
  "add_agent_id now tenant i agent =
     andthen (find_row tenant i) (\<lambda>found.
       case found of
         None \<Rightarrow> raising (project_not_found i)
       | Some p \<Rightarrow>
           (if agent \<in> set (pj_agents p) then ret p
            else (let p' = p\<lparr>pj_agents := pj_agents p @ [agent], pj_updated := now\<rparr>
                  in andthen (put_row tenant i p') (\<lambda>_. ret p'))))"

definition remove_agent_id :: "int \<Rightarrow> string \<Rightarrow> string \<Rightarrow> string \<Rightarrow> (project, project) table_action" where
  "remove_agent_id now tenant i agent =
     andthen (find_row tenant i) (\<lambda>found.
       case found of
         None \<Rightarrow> raising (project_not_found i)
       | Some p \<Rightarrow>
           (if agent \<notin> set (pj_agents p) then ret p
            else (let p' = p\<lparr>pj_agents := filter (\<lambda>a. a \<noteq> agent) (pj_agents p), pj_updated := now\<rparr>
                  in andthen (put_row tenant i p') (\<lambda>_. ret p'))))"

section \<open>The tool registry\<close>

record tool_entry =
  te_id :: string
  te_name :: string
  te_risk :: string
  te_scopes :: "string list"
  te_lambda :: "string option"
  te_reviewed_at :: int
  te_reviewed_by :: string
  te_status :: string

definition tool_seed :: "int \<Rightarrow> string \<Rightarrow> string \<Rightarrow> string \<Rightarrow> tool_entry" where
  "tool_seed now i name risk =
     \<lparr>te_id = i, te_name = name, te_risk = risk, te_scopes = [], te_lambda = None, te_reviewed_at = now,
      te_reviewed_by = ''system-seed'', te_status = ''APPROVED''\<rparr>"

definition seed_tool_entries :: "int \<Rightarrow> tool_entry list" where
  "seed_tool_entries now =
     [tool_seed now ''jira_search'' ''Jira -- Search Issues'' ''LOW'',
      tool_seed now ''jira_create_issue'' ''Jira -- Create Issue'' ''MEDIUM'',
      tool_seed now ''kb_search'' ''Knowledge Base Search'' ''LOW'',
      tool_seed now ''send_email'' ''Send Email'' ''MEDIUM'']"

type_synonym tool_registry = "(string \<times> tool_entry) list"

text \<open>The table is seeded only by the start that creates it; None is a table that is not there.\<close>

definition ensure_tool_registry :: "int \<Rightarrow> tool_registry option \<Rightarrow> tool_registry" where
  "ensure_tool_registry now t = (case t of Some r \<Rightarrow> r | None \<Rightarrow> map (\<lambda>e. (te_id e, e)) (seed_tool_entries now))"

definition tool_status :: "tool_registry \<Rightarrow> string \<Rightarrow> string option" where
  "tool_status t i = map_option te_status (map_of t i)"

section \<open>Every store keeps to the caller's tenant\<close>

lemma connector_stores_tenant [frame_intros]:
  "stays_in (tenant_only tenant) (create_connector now hex tenant who f)"
  "stays_in (tenant_only tenant) (list_connectors u)"
  "stays_in (tenant_only tenant) (get_connector u i)"
  "stays_in (tenant_only tenant) (get_tenant_owned_connector u i)"
  "stays_in (tenant_only tenant) (update_connector tenant i f)"
  "stays_in (tenant_only tenant) (delete_connector tenant i)"
  unfolding create_connector_def list_connectors_def get_connector_def get_tenant_owned_connector_def
    update_connector_def delete_connector_def Let_def
  by (intro frame_intros)+

lemma kb_stores_tenant [frame_intros]:
  "stays_in (tenant_only tenant) (create_kb now hex tenant who f bucket folder provisioner)"
  "stays_in (tenant_only tenant) (update_sync_state now tenant i sync err synced)"
  "stays_in (tenant_only tenant) (set_document_count now tenant i n)"
  "stays_in (tenant_only tenant) (trigger_reindex now tenant i)"
  "stays_in (tenant_only tenant) (list_kbs u)" "stays_in (tenant_only tenant) (get_kb u i)"
  "stays_in (tenant_only tenant) (delete_kb tenant i)"
  unfolding create_kb_def update_sync_state_def set_document_count_def trigger_reindex_def list_kbs_def get_kb_def
    delete_kb_def Let_def
  by (intro frame_intros)+

lemma put_skill_tenant [frame_intros]: "stays_in (tenant_only tenant) (put_skill tenant i s)"
  unfolding put_skill_def by (intro frame_intros)

lemma skill_stores_tenant [frame_intros]:
  "stays_in (tenant_only tenant) (create_skill now hex tenant who name description capability fragment inp out version)"
  "stays_in (tenant_only tenant) (update_skill now tenant i who change u)"
  unfolding create_skill_def update_skill_def Let_def by (intro frame_intros)+

lemma prompt_stores_tenant [frame_intros]:
  "stays_in (tenant_only tenant) (create_prompt now hex tenant who name content tags)"
  "stays_in (tenant_only tenant) (update_prompt now tenant i who name' content' tags')"
  unfolding create_prompt_def update_prompt_def Let_def by (intro frame_intros)+

lemma project_stores_tenant [frame_intros]:
  "stays_in (tenant_only tenant) (create_project now hex tenant who name description tags policy)"
  "stays_in (tenant_only tenant) (update_project now tenant i u)"
  "stays_in (tenant_only tenant) (add_agent_id now tenant i agent)"
  "stays_in (tenant_only tenant) (remove_agent_id now tenant i agent)"
  unfolding create_project_def update_project_def add_agent_id_def remove_agent_id_def Let_def
  by (intro frame_intros)+

section \<open>What the stores promise\<close>

text \<open>The rows a tenant sees are its own, and the curated ones of connectors.\<close>

definition row_tenants :: "('r \<Rightarrow> string) \<Rightarrow> 'r table \<Rightarrow> bool" where
  "row_tenants owner t \<longleftrightarrow> (\<forall>u i r. ((u, i), r) \<in> set t \<longrightarrow> owner r = u)"

lemma query_rows_owner:
  "row_tenants owner t \<Longrightarrow> query_rows tenant t = (Inr rs, t') \<Longrightarrow> r \<in> set rs \<Longrightarrow> owner r = tenant"
  by (auto simp: query_rows_def partition_of_def prog_simps row_tenants_def)

lemma bump_version_counts:
  "bump_version (major @ ''.'' @ nat_text n) = Inr (major @ ''.'' @ nat_text (n + 1))" if "CHR ''.'' \<notin> set major"
proof -
  have no_dot: "CHR ''.'' \<notin> set (nat_text n)"
    using nat_text_digits [of n] by (auto simp: list_all_iff is_digit_def)
  have one: "CHR ''.'' \<notin> set w \<Longrightarrow> split_on (CHR ''.'') w = [w]" for w
    by (induction w) auto
  have two: "CHR ''.'' \<notin> set w \<Longrightarrow> split_on (CHR ''.'') (w @ CHR ''.'' # v) = w # split_on (CHR ''.'') v" for w v
    by (induction w) auto
  have "list_all isdigit_char (nat_text n)"
    using nat_text_digits [of n] by (auto simp: list_all_iff isdigit_char_def)
  then show ?thesis
    using nat_text_digits [of n] by (simp add: bump_version_def two [OF that] one [OF no_dot] digits_val_nat_text)
qed

text \<open>The history of a skill is only extended, by the state before the edit.\<close>

lemma update_skill_history:
  assumes "update_skill now tenant i who change u s = (Inr k, t)"
  shows "\<exists>old. map_of s (tenant, i) = Some old \<and> map_of t (tenant, i) = Some k \<and>
     sk_history k = (if is_content_edit u then sk_history old @ [skill_snapshot_of old who change] else sk_history old) \<and>
     (\<not> is_content_edit u \<longrightarrow> sk_version k = sk_version old)"
  using assms
  by (auto simp: update_skill_def find_row_def put_skill_def put_native_def put_row_def prog_simps edited_skill_def
      AList.update_conv' split: option.splits if_splits sum.splits)

lemma agent_ids_distinct:
  assumes "add_agent_id now tenant i agent s = (Inr p, t)"
    and "\<And>q. map_of s (tenant, i) = Some q \<Longrightarrow> distinct (pj_agents q)"
  shows "distinct (pj_agents p) \<and> agent \<in> set (pj_agents p) \<and> map_of t (tenant, i) = Some p"
  using assms
  by (auto simp: add_agent_id_def find_row_def put_row_def prog_simps Let_def AList.update_conv'
      split: option.splits if_splits)

lemma agent_id_removed:
  assumes "remove_agent_id now tenant i agent s = (Inr p, t)"
  shows "agent \<notin> set (pj_agents p) \<and> map_of t (tenant, i) = Some p"
  using assms
  by (auto simp: remove_agent_id_def find_row_def put_row_def prog_simps Let_def AList.update_conv'
      split: option.splits if_splits)

text \<open>A connector whose schema holds a float is refused by the table, and nothing is written.\<close>

lemma float_schema_refused:
  assumes "connector_valid f" and "has_float (or_empty (cf_input f)) \<or> has_float (or_empty (cf_output f))"
  shows "create_connector now hex tenant who f s = (Inl float_refused, s)"
  using assms by (auto simp: create_connector_def put_native_def new_connector_def prog_simps Let_def)

end
