(* ===== verification/Policies.thy ===== *)
theory Policies
  imports Catalogs
begin

text \<open>
  Guardrail policies of the Factory: app/modules/guardrails/models.py (the policy), store.py (its
  table), engine.py (the layered decision on a text), the label matching of bert_classifier.py, the
  request provisioner.py builds for Bedrock, and the Bedrock credentials a policy may name
  (app/modules/bedrock_credentials). Thresholds and scores are rationals; the scores of the local
  models and the answers of Bedrock are arguments.
\<close>

section \<open>The policy\<close>

definition min_bert_block_threshold :: rat where "min_bert_block_threshold = 7 / 10"
definition max_bert_escalate_threshold :: rat where "max_bert_escalate_threshold = 6 / 10"

record bert_config =
  be_enabled :: bool
  be_block :: rat
  be_escalate :: rat
  be_toxicity :: bool
  be_nsfw :: bool
  be_nsfw_threshold :: rat
  be_nsfw_validation :: string
  be_injection :: bool
  be_injection_threshold :: rat
  be_gibberish :: bool
  be_gibberish_threshold :: rat
  be_gibberish_validation :: string

definition default_bert :: bert_config where
  "default_bert =
     \<lparr>be_enabled = True, be_block = 85 / 100, be_escalate = 40 / 100, be_toxicity = True, be_nsfw = True,
      be_nsfw_threshold = 80 / 100, be_nsfw_validation = ''sentence'', be_injection = True,
      be_injection_threshold = 30 / 100, be_gibberish = True, be_gibberish_threshold = 50 / 100,
      be_gibberish_validation = ''sentence''\<rparr>"

text \<open>The strengths of a content filter: on the input and on the output.\<close>

type_synonym filter_strength = "string \<times> string"

record content_filters =
  bl_sexual :: filter_strength
  bl_violence :: filter_strength
  bl_hate :: filter_strength
  bl_insults :: filter_strength
  bl_misconduct :: filter_strength
  bl_attack :: filter_strength

definition default_filters :: content_filters where
  "default_filters =
     (let high = (''HIGH'', ''HIGH'')
      in \<lparr>bl_sexual = high, bl_violence = high, bl_hate = high, bl_insults = high, bl_misconduct = high,
          bl_attack = (''HIGH'', ''NONE'')\<rparr>)"

text \<open>What to do with each kind of personal data: DISABLED, BLOCK or REDACT.\<close>

record pii_config =
  pii_card :: string
  pii_email :: string
  pii_phone :: string
  pii_name :: string
  pii_ssn :: string
  pii_ip :: string
  pii_secret :: string
  pii_date :: string

definition default_pii :: pii_config where
  "default_pii =
     \<lparr>pii_card = ''DISABLED'', pii_email = ''DISABLED'', pii_phone = ''DISABLED'', pii_name = ''DISABLED'',
      pii_ssn = ''DISABLED'', pii_ip = ''DISABLED'', pii_secret = ''DISABLED'', pii_date = ''DISABLED''\<rparr>"

record keyword_rule =
  kr_pattern :: string
  kr_type :: string
  kr_action :: string

record compliance_config =
  cc_frameworks :: "string list"
  cc_rules :: "string list"
  cc_on_violation :: string

record blocked_messages =
  bm_content :: string
  bm_compliance :: string

record guardrail_policy =
  gp_id :: string
  gp_tenant :: string
  gp_name :: string
  gp_description :: string
  gp_created :: int
  gp_updated :: int
  gp_by :: string
  gp_bert :: bert_config
  gp_bedrock :: bool
  gp_credential :: "string option"
  gp_guardrail :: "string option"
  gp_version :: string
  gp_filters :: content_filters
  gp_pii :: pii_config
  gp_banned :: "string list"
  gp_allowed :: "string list option"
  gp_rules :: "keyword_rule list"
  gp_compliance :: compliance_config
  gp_messages :: blocked_messages

text \<open>What a caller gives for a new policy; the store adds the rest.\<close>

record policy_fields =
  gf_name :: string
  gf_description :: string
  gf_bert :: bert_config
  gf_bedrock :: bool
  gf_credential :: "string option"
  gf_filters :: content_filters
  gf_pii :: pii_config
  gf_banned :: "string list"
  gf_allowed :: "string list option"
  gf_rules :: "keyword_rule list"
  gf_compliance :: compliance_config
  gf_messages :: blocked_messages

definition default_policy_fields :: "string \<Rightarrow> string \<Rightarrow> policy_fields" where
  "default_policy_fields name description =
     \<lparr>gf_name = name, gf_description = description, gf_bert = default_bert, gf_bedrock = True, gf_credential = None,
      gf_filters = default_filters, gf_pii = default_pii, gf_banned = [], gf_allowed = None, gf_rules = [],
      gf_compliance = \<lparr>cc_frameworks = [], cc_rules = [], cc_on_violation = ''stop_agent''\<rparr>,
      gf_messages = \<lparr>bm_content = ''This content has been blocked by the content policy.'',
                     bm_compliance = ''This request cannot be processed due to compliance requirements.''\<rparr>\<rparr>"

section \<open>Local checks\<close>

text \<open>
  \<open>_label_matches_keyword\<close>: the keyword is in the label and no negated form of it is. Case is
  ignored.
\<close>

definition label_matches :: "string \<Rightarrow> string \<Rightarrow> bool" where
  "label_matches label keyword \<longleftrightarrow>
     (let l = py_lower label; k = py_lower keyword
      in contains_text k l \<and>
         \<not> (\<exists>neg \<in> {''non'', ''not''}. \<exists>sep \<in> {[], ''-'', ''_''}. contains_text (neg @ sep @ k) l))"

text \<open>
  The outputs that count for a keyword, from the labels of config.json where it has any; every
  output otherwise. \<open>int\<close> of a label's index that is no number raises.
\<close>

definition well_grouped :: "string \<Rightarrow> bool" where
  "well_grouped u \<longleftrightarrow>
     u \<noteq> [] \<and> list_all (\<lambda>c. is_digit c \<or> c = CHR ''_'') u \<and> hd u \<noteq> CHR ''_'' \<and> last u \<noteq> CHR ''_'' \<and>
     \<not> contains_text ''__'' u"

text \<open>\<open>int()\<close> of a text: blanks around it, a sign, single underscores between digits.\<close>

definition py_int :: "string \<Rightarrow> int option" where
  "py_int s =
     (let t = py_strip s;
          u = (case t of [] \<Rightarrow> [] | c # cs \<Rightarrow> if c \<in> {CHR ''+'', CHR ''-''} then cs else t);
          n = int (digits_val (filter (\<lambda>c. c \<noteq> CHR ''_'') u))
      in if well_grouped u then Some (if hd t = CHR ''-'' then - n else n) else None)"

definition label_index :: "string \<Rightarrow> pyexn + int" where
  "label_index s =
     (case py_int s of
        Some n \<Rightarrow> Inr n
      | None \<Rightarrow> Inl (ValueError (''invalid literal for int() with base 10: '' @ repr_str s)))"

fun matching_indices :: "string \<Rightarrow> (string \<times> pyval) list \<Rightarrow> pyexn + int list" where
  "matching_indices keyword [] = Inr []"
| "matching_indices keyword ((i, label) # rest) =
     (if label_matches (py_str label) keyword
      then (case label_index i of
              Inl e \<Rightarrow> Inl e
            | Inr n \<Rightarrow> (case matching_indices keyword rest of Inl e \<Rightarrow> Inl e | Inr ns \<Rightarrow> Inr (n # ns)))
      else matching_indices keyword rest)"

definition target_label_indices :: "int \<Rightarrow> string \<Rightarrow> pyval option \<Rightarrow> pyexn + int list" where
  "target_label_indices width keyword config =
     (let every = map int [0 ..< nat width]
      in case config of
           None \<Rightarrow> Inr every
         | Some c \<Rightarrow>
             (case dict_get ''id2label'' c of
                PDict labels \<Rightarrow>
                  (case matching_indices keyword labels of
                     Inl e \<Rightarrow> Inl e
                   | Inr [] \<Rightarrow> Inr every
                   | Inr (n # ns) \<Rightarrow> Inr (n # ns))
              | _ \<Rightarrow> Inr every))"

text \<open>
  \<open>_split_sentences\<close>: the text is cut at the blanks after a full stop, an exclamation or a
  question mark; blank pieces are dropped.
\<close>

fun cut_sentences :: "bool \<Rightarrow> bool \<Rightarrow> string \<Rightarrow> string \<Rightarrow> string list" where
  "cut_sentences skipping ended cur [] = [rev cur]"
| "cut_sentences skipping ended cur (c # cs) =
     (if skipping \<and> is_space c then cut_sentences True False cur cs
      else if ended \<and> is_space c then rev cur # cut_sentences True False [] cs
      else cut_sentences False (c \<in> {CHR ''.'', CHR ''!'', CHR ''?''}) (c # cur) cs)"

definition split_sentences :: "string \<Rightarrow> string list" where
  "split_sentences text =
     (let parts = filter (\<lambda>s. s \<noteq> []) (map py_strip (cut_sentences False False [] text))
      in if parts = [] then [text] else parts)"

record layer_result =
  ly_layer :: string
  ly_action :: string
  ly_confidence :: "rat option"
  ly_reason :: "string option"

record guardrail_decision =
  gn_blocked :: bool
  gn_layers :: "layer_result list"
  gn_text :: "string option"

definition layer :: "string \<Rightarrow> string \<Rightarrow> rat option \<Rightarrow> string \<Rightarrow> layer_result" where
  "layer l action confidence reason = \<lparr>ly_layer = l, ly_action = action, ly_confidence = confidence, ly_reason = Some reason\<rparr>"

text \<open>
  The engine's surroundings: the score of a local model (or the text of its failure), whether
  Bedrock is mocked, and Bedrock's answer: the action and the outputs, each with its text if any.
\<close>

record 'w engine =
  en_score :: "string \<Rightarrow> string \<Rightarrow> string \<Rightarrow> string + rat"
  en_mock :: bool
  en_apply :: "string option \<Rightarrow> string \<Rightarrow> string \<Rightarrow> string \<Rightarrow> 'w \<Rightarrow> (string + string option \<times> string option list) \<times> 'w"

definition toxicity_model :: string where "toxicity_model = ''unitary/toxic-bert''"
definition nsfw_model :: string where "nsfw_model = ''eliasalbouzidi/distilbert-nsfw-text-classifier''"
definition injection_model :: string where "injection_model = ''protectai/deberta-v3-base-prompt-injection-v2''"
definition gibberish_model :: string where "gibberish_model = ''madhurjindal/autonlp-Gibberish-Detector''"

definition classifier_failed :: "string \<Rightarrow> pyexn" where
  "classifier_failed e = Raised ''GuardrailModelUnavailableError'' e"

fun score_all :: "(string \<Rightarrow> string + rat) \<Rightarrow> string list \<Rightarrow> pyexn + rat list" where
  "score_all f [] = Inr []"
| "score_all f (s # ss) =
     (case f s of
        Inl e \<Rightarrow> Inl (classifier_failed e)
      | Inr x \<Rightarrow> (case score_all f ss of Inl e \<Rightarrow> Inl e | Inr xs \<Rightarrow> Inr (x # xs)))"

fun highest :: "rat list \<Rightarrow> rat" where
  "highest [] = 0"
| "highest [x] = x"
| "highest (x # y # zs) = max x (highest (y # zs))"

definition score_with_validation :: "(string \<Rightarrow> string + rat) \<Rightarrow> string \<Rightarrow> string \<Rightarrow> pyexn + rat" where
  "score_with_validation f validation text =
     (if validation = ''full_text''
      then (case f text of Inl e \<Rightarrow> Inl (classifier_failed e) | Inr x \<Rightarrow> Inr x)
      else (case score_all f (split_sentences text) of Inl e \<Rightarrow> Inl e | Inr xs \<Rightarrow> Inr (highest xs)))"

text \<open>A single-threshold check: its model, keyword, threshold, validation and reason.\<close>

record binary_check =
  ck_model :: string
  ck_keyword :: string
  ck_threshold :: rat
  ck_validation :: string
  ck_reason :: string

definition check_score :: "'w engine \<Rightarrow> string \<Rightarrow> binary_check \<Rightarrow> pyexn + rat" where
  "check_score en text c = score_with_validation (en_score en (ck_model c) (ck_keyword c)) (ck_validation c) text"

text \<open>The checks in order; the first one over its threshold ends them with a block.\<close>

fun run_checks :: "'w engine \<Rightarrow> string \<Rightarrow> binary_check list \<Rightarrow> layer_result list \<Rightarrow> pyexn + bool \<times> layer_result list" where
  "run_checks en text [] layers = Inr (False, layers)"
| "run_checks en text (c # cs) layers =
     (case check_score en text c of
        Inl e \<Rightarrow> Inl e
      | Inr x \<Rightarrow>
          (if x > ck_threshold c
           then Inr (True, layers @ [layer ''bert'' ''block'' (Some x) (ck_reason c)])
           else run_checks en text cs (layers @ [layer ''bert'' ''pass'' (Some x) (ck_reason c)])))"

definition local_checks :: "bert_config \<Rightarrow> binary_check list" where
  "local_checks b =
     (if be_nsfw b
      then [\<lparr>ck_model = nsfw_model, ck_keyword = ''nsfw'', ck_threshold = be_nsfw_threshold b,
             ck_validation = be_nsfw_validation b, ck_reason = ''nsfw''\<rparr>] else []) @
     (if be_injection b
      then [\<lparr>ck_model = injection_model, ck_keyword = ''injection'', ck_threshold = be_injection_threshold b,
             ck_validation = ''full_text'', ck_reason = ''prompt_injection''\<rparr>] else []) @
     (if be_gibberish b
      then [\<lparr>ck_model = gibberish_model, ck_keyword = ''gibberish'', ck_threshold = be_gibberish_threshold b,
             ck_validation = be_gibberish_validation b, ck_reason = ''gibberish''\<rparr>] else [])"

section \<open>Bedrock\<close>

definition bedrock_configured :: "guardrail_policy \<Rightarrow> bool" where
  "bedrock_configured p \<longleftrightarrow> gp_bedrock p \<and> truthy (gp_guardrail p)"

definition call_bedrock ::
  "'w engine \<Rightarrow> string \<Rightarrow> guardrail_policy \<Rightarrow> string \<Rightarrow> ('w, layer_result \<times> string) prog" where
  "call_bedrock en text p source w =
     (if en_mock en then (Inr (layer ''bedrock'' ''pass'' None ''mocked_pass'', text), w)
      else (case en_apply en (gp_guardrail p) (gp_version p) source text w of
              (Inl e, w') \<Rightarrow> (Inr (layer ''bedrock'' ''block'' None ''bedrock_guardrail_unavailable'', text), w')
            | (Inr (action, outputs), w') \<Rightarrow>
                (let hit = (action = Some ''GUARDRAIL_INTERVENED'');
                     shown = (case outputs of [] \<Rightarrow> text | out # _ \<Rightarrow> get_or text out)
                 in (Inr (layer ''bedrock'' (if hit then ''block'' else ''pass'') None
                            (if hit then ''guardrail_intervened'' else ''passed''), shown), w'))))"

section \<open>The decision on an input\<close>

text \<open>The toxicity check: whether it blocks, whether it found the text clearly safe, its layer.\<close>

definition toxicity_check :: "'w engine \<Rightarrow> bert_config \<Rightarrow> string \<Rightarrow> pyexn + bool \<times> bool \<times> layer_result list" where
  "toxicity_check en b text =
     (if \<not> be_toxicity b then Inr (False, False, [])
      else (case en_score en toxicity_model ''toxic'' text of
              Inl e \<Rightarrow> Inl (classifier_failed e)
            | Inr x \<Rightarrow>
                (if x > be_block b then Inr (True, False, [layer ''bert'' ''block'' (Some x) ''toxicity''])
                 else if x < be_escalate b then Inr (False, True, [layer ''bert'' ''pass'' (Some x) ''safe''])
                 else Inr (False, False, [layer ''bert'' ''escalate'' (Some x) ''unsure'']))))"

definition bert_layer :: "'w engine \<Rightarrow> bert_config \<Rightarrow> string \<Rightarrow> pyexn + bool \<times> bool \<times> layer_result list" where
  "bert_layer en b text =
     (if \<not> be_enabled b then Inr (False, False, [])
      else (case toxicity_check en b text of
              Inl e \<Rightarrow> Inl e
            | Inr (blocked, safe, layers) \<Rightarrow>
                (if blocked then Inr (True, safe, layers)
                 else (case run_checks en text (local_checks b) layers of
                         Inl e \<Rightarrow> Inl e
                       | Inr (hit, layers') \<Rightarrow> Inr (hit, safe, layers')))))"

definition decision :: "bool \<Rightarrow> layer_result list \<Rightarrow> guardrail_decision" where
  "decision blocked layers = \<lparr>gn_blocked = blocked, gn_layers = layers, gn_text = None\<rparr>"

definition check_input :: "'w engine \<Rightarrow> string \<Rightarrow> guardrail_policy \<Rightarrow> ('w, guardrail_decision) prog" where
  "check_input en text p =
     (case bert_layer en (gp_bert p) text of
        Inl e \<Rightarrow> raising e
      | Inr (blocked, safe, layers) \<Rightarrow>
          (if blocked then ret (decision True layers)
           else if safe then ret (decision False layers)
           else if bedrock_configured p
           then andthen (call_bedrock en text p ''INPUT'') (\<lambda>(answer, _).
                  ret (decision (ly_action answer = ''block'') (layers @ [answer])))
           else if layers \<noteq> [] \<and> ly_action (last layers) = ''escalate''
           then ret (decision False (layers @ [layer ''bedrock'' ''pass'' None ''no_bedrock_guardrail_configured'']))
           else ret (decision False layers)))"

definition check_output :: "'w engine \<Rightarrow> string \<Rightarrow> guardrail_policy \<Rightarrow> ('w, guardrail_decision) prog" where
  "check_output en text p =
     (if \<not> bedrock_configured p
      then ret (decision False [layer ''bedrock'' ''pass'' None ''no_bedrock_guardrail_configured''])
      else andthen (call_bedrock en text p ''OUTPUT'') (\<lambda>(answer, shown).
             if ly_action answer = ''block'' then ret (decision True [answer])
             else ret ((decision False [answer])\<lparr>gn_text := (if shown \<noteq> text then Some shown else None)\<rparr>)))"

section \<open>The request for Bedrock\<close>

definition pii_entities :: "pii_config \<Rightarrow> (string \<times> string) list" where
  "pii_entities c =
     [(''CREDIT_DEBIT_CARD_NUMBER'', pii_card c), (''EMAIL'', pii_email c), (''PHONE'', pii_phone c),
      (''NAME'', pii_name c), (''US_SOCIAL_SECURITY_NUMBER'', pii_ssn c), (''IP_ADDRESS'', pii_ip c),
      (''PASSWORD'', pii_secret c)]"

definition pii_action :: "string \<Rightarrow> string" where
  "pii_action a = (if a = ''REDACT'' then ''ANONYMIZE'' else a)"

definition text_dict :: "(string \<times> string) list \<Rightarrow> pyval" where
  "text_dict kvs = PDict (map (\<lambda>(k, v). (k, PStr v)) kvs)"

definition pii_request :: "guardrail_policy \<Rightarrow> pyval option" where
  "pii_request p =
     (let on = filter (\<lambda>(_, a). a \<noteq> ''DISABLED'') (pii_entities (gp_pii p))
      in if on = [] then None
         else Some (PDict [(''piiEntitiesConfig'',
                PList (map (\<lambda>(t, a). text_dict [(''type'', t), (''action'', pii_action a)]) on))]))"

definition content_request :: "guardrail_policy \<Rightarrow> pyval" where
  "content_request p =
     (let f = gp_filters p
      in PDict [(''filtersConfig'', PList (map
           (\<lambda>(t, i, out). text_dict [(''type'', t), (''inputStrength'', i), (''outputStrength'', out)])
           [(''SEXUAL'', bl_sexual f), (''VIOLENCE'', bl_violence f), (''HATE'', bl_hate f),
            (''INSULTS'', bl_insults f), (''MISCONDUCT'', bl_misconduct f), (''PROMPT_ATTACK'', bl_attack f)]))])"

definition topic_request :: "guardrail_policy \<Rightarrow> pyval option" where
  "topic_request p =
     (if gp_banned p = [] then None
      else Some (PDict [(''topicsConfig'',
             PList (map (\<lambda>t. text_dict [(''name'', t), (''definition'', t), (''type'', ''DENY'')]) (gp_banned p)))]))"

definition literal_words :: "guardrail_policy \<Rightarrow> string list" where
  "literal_words p = map kr_pattern (filter (\<lambda>r. kr_type r = ''LITERAL'') (gp_rules p))"

definition word_request :: "guardrail_policy \<Rightarrow> pyval option" where
  "word_request p =
     (if literal_words p = [] then None
      else Some (PDict [(''wordsConfig'', PList (map (\<lambda>w. text_dict [(''text'', w)]) (literal_words p)))]))"

definition optional_item :: "string \<Rightarrow> pyval option \<Rightarrow> (string \<times> pyval) list" where
  "optional_item k v = (case v of None \<Rightarrow> [] | Some x \<Rightarrow> [(k, x)])"

text \<open>The dash between the name and the description is written here as a hyphen.\<close>

definition build_request :: "guardrail_policy \<Rightarrow> (string \<times> pyval) list" where
  "build_request p =
     [(''name'', PStr (gp_id p)),
      (''description'', PStr (take 200 (gp_name p @ '' - '' @ gp_description p))),
      (''blockedInputMessaging'', PStr (bm_content (gp_messages p))),
      (''blockedOutputsMessaging'', PStr (bm_content (gp_messages p))),
      (''contentPolicyConfig'', content_request p)]
     @ optional_item ''sensitiveInformationPolicyConfig'' (pii_request p)
     @ optional_item ''topicPolicyConfig'' (topic_request p)
     @ optional_item ''wordPolicyConfig'' (word_request p)"

section \<open>What the engine promises\<close>

lemma run_checks_pass:
  "run_checks en text cs layers = Inr (False, layers') \<Longrightarrow>
     (\<forall>c \<in> set cs. \<exists>x. check_score en text c = Inr x \<and> x \<le> ck_threshold c) \<and>
     (\<exists>more. layers' = layers @ more \<and> list_all (\<lambda>l. ly_action l = ''pass'') more \<and> length more = length cs)"
proof (induction cs arbitrary: layers)
  case Nil
  then show ?case by simp
next
  case (Cons c cs)
  then obtain x where x: "check_score en text c = Inr x" "x \<le> ck_threshold c"
    and r: "run_checks en text cs (layers @ [layer ''bert'' ''pass'' (Some x) (ck_reason c)]) = Inr (False, layers')"
    by (auto split: sum.splits if_splits)
  obtain more where m: "\<forall>c \<in> set cs. \<exists>x. check_score en text c = Inr x \<and> x \<le> ck_threshold c"
    "layers' = (layers @ [layer ''bert'' ''pass'' (Some x) (ck_reason c)]) @ more"
    "list_all (\<lambda>l. ly_action l = ''pass'') more" "length more = length cs"
    using Cons.IH [OF r] by blast
  have "layers' = layers @ (layer ''bert'' ''pass'' (Some x) (ck_reason c) # more)" using m(2) by simp
  with x m show ?case by (auto simp: layer_def intro!: exI [of _ "layer ''bert'' ''pass'' (Some x) (ck_reason c) # more"])
qed

lemma bert_layer_pass:
  assumes "bert_layer en b text = Inr (False, safe, layers)" and "be_enabled b"
  shows "(be_toxicity b \<longrightarrow> (\<exists>x. en_score en toxicity_model ''toxic'' text = Inr x \<and> x \<le> be_block b
            \<and> safe = (x < be_escalate b)))
       \<and> (\<not> be_toxicity b \<longrightarrow> \<not> safe)
       \<and> (\<forall>c \<in> set (local_checks b). \<exists>x. check_score en text c = Inr x \<and> x \<le> ck_threshold c)"
proof -
  obtain layers0 where t: "toxicity_check en b text = Inr (False, safe, layers0)"
    and r: "run_checks en text (local_checks b) layers0 = Inr (False, layers)"
    using assms by (auto simp: bert_layer_def split: sum.splits if_splits)
  from t have "(be_toxicity b \<longrightarrow> (\<exists>x. en_score en toxicity_model ''toxic'' text = Inr x \<and> x \<le> be_block b
            \<and> safe = (x < be_escalate b))) \<and> (\<not> be_toxicity b \<longrightarrow> \<not> safe)"
    by (auto simp: toxicity_check_def split: sum.splits if_splits)
  with run_checks_pass [OF r] show ?thesis by blast
qed

lemma call_bedrock_pass:
  assumes "call_bedrock en text p source w = (Inr (answer, shown), w')" and "ly_action answer \<noteq> ''block''" and "\<not> en_mock en"
  shows "\<exists>action outputs. en_apply en (gp_guardrail p) (gp_version p) source text w = (Inr (action, outputs), w')
     \<and> action \<noteq> Some ''GUARDRAIL_INTERVENED''"
  using assms by (auto simp: call_bedrock_def layer_def Let_def split: sum.splits prod.splits if_splits)

text \<open>
  An input that is not blocked passed every enabled local check, and unless the toxicity model
  found it clearly safe Bedrock was asked, answered, and did not intervene.
\<close>

lemma check_input_fails_closed:
  assumes "check_input en text p w = (Inr d, w')" and "\<not> gn_blocked d"
  shows "(be_enabled (gp_bert p) \<longrightarrow>
            (be_toxicity (gp_bert p) \<longrightarrow> (\<exists>x. en_score en toxicity_model ''toxic'' text = Inr x \<and> x \<le> be_block (gp_bert p))) \<and>
            (\<forall>c \<in> set (local_checks (gp_bert p)). \<exists>x. check_score en text c = Inr x \<and> x \<le> ck_threshold c)) \<and>
         (bedrock_configured p \<and> \<not> en_mock en \<longrightarrow>
            (be_enabled (gp_bert p) \<and> be_toxicity (gp_bert p) \<and>
               (\<exists>x. en_score en toxicity_model ''toxic'' text = Inr x \<and> x < be_escalate (gp_bert p))) \<or>
            (\<exists>action outputs. en_apply en (gp_guardrail p) (gp_version p) ''INPUT'' text w = (Inr (action, outputs), w')
               \<and> action \<noteq> Some ''GUARDRAIL_INTERVENED''))"
proof -
  let ?b = "gp_bert p"
  obtain blocked safe layers where r: "bert_layer en ?b text = Inr (blocked, safe, layers)"
    using assms(1) by (cases "bert_layer en ?b text") (auto simp: check_input_def prog_simps)
  have nb: "\<not> blocked" using assms r by (auto simp: check_input_def prog_simps decision_def)
  with r have pass: "bert_layer en ?b text = Inr (False, safe, layers)" by simp
  have off: "\<not> be_enabled ?b \<Longrightarrow> \<not> safe" using pass by (simp add: bert_layer_def)
  have asked: "\<exists>action outputs. en_apply en (gp_guardrail p) (gp_version p) ''INPUT'' text w = (Inr (action, outputs), w')
      \<and> action \<noteq> Some ''GUARDRAIL_INTERVENED''" if q: "\<not> safe" "bedrock_configured p" "\<not> en_mock en"
  proof -
    obtain answer shown where c: "call_bedrock en text p ''INPUT'' w = (Inr (answer, shown), w')"
      and d: "d = decision (ly_action answer = ''block'') (layers @ [answer])"
      using assms(1) pass q(1,2) by (auto simp: check_input_def prog_simps split: sum.splits prod.splits)
    from d assms(2) have "ly_action answer \<noteq> ''block''" by (simp add: decision_def)
    from call_bedrock_pass [OF c this q(3)] show ?thesis .
  qed
  show ?thesis
  proof (cases "be_enabled ?b")
    case True
    with bert_layer_pass [OF pass True] asked show ?thesis by blast
  next
    case False
    with off asked show ?thesis by blast
  qed
qed

text \<open>A failing call to Bedrock blocks.\<close>

lemma bedrock_failure_blocks:
  assumes "bedrock_configured p" and "\<not> en_mock en" and "en_apply en (gp_guardrail p) (gp_version p) ''OUTPUT'' text w = (Inl e, w')"
  shows "check_output en text p w = (Inr (decision True [layer ''bedrock'' ''block'' None ''bedrock_guardrail_unavailable'']), w')"
  using assms by (simp add: check_output_def call_bedrock_def prog_simps layer_def)

text \<open>
  A text the toxicity model finds clearly safe never reaches Bedrock, whatever the policy says on
  personal data, topics or words.
\<close>

lemma safe_text_skips_bedrock:
  assumes "be_enabled (gp_bert p)" and "be_toxicity (gp_bert p)"
    and "en_score en toxicity_model ''toxic'' text = Inr x" and "x < be_escalate (gp_bert p)" and "x \<le> be_block (gp_bert p)"
    and "local_checks (gp_bert p) = []"
  shows "check_input en text p w = (Inr (decision False [layer ''bert'' ''pass'' (Some x) ''safe'']), w)"
  using assms by (simp add: check_input_def bert_layer_def toxicity_check_def prog_simps)

text \<open>No negated label counts for its keyword.\<close>

lemma negated_label_ignored:
  "neg \<in> {''non'', ''not''} \<Longrightarrow> sep \<in> {[], ''-'', ''_''} \<Longrightarrow> \<not> label_matches (neg @ sep @ keyword) keyword"
  by (auto simp: label_matches_def Let_def contains_text_sublist py_lower_def lower_char_def)

end
