(* ===== verification/Planner.thy ===== *)
theory Planner
  imports Policies
begin

text \<open>
  The task planner: app/modules/task_planner/models.py (proposals, architectures, sessions) and
  analyzer.py (reading the model's reply, binding it to the tenant's catalog, the resources that are
  missing). The reply of the model, its three system prompts and pydantic's lax conversions to bool
  and float are arguments; a text that must be a text is checked here.
\<close>

section \<open>Proposals\<close>

record suggestion =
  sg_name :: string
  sg_description :: "string option"
  sg_in_catalog :: bool
  sg_resource :: "string option"

record task_proposal =
  tp_name :: string
  tp_description :: string
  tp_type :: string
  tp_persona :: "string option"
  tp_prompt :: string
  tp_tools :: "suggestion list"
  tp_kbs :: "suggestion list"
  tp_policy :: "suggestion option"
  tp_skills :: "suggestion list"
  tp_output :: "string option"
  tp_confidence :: string
  tp_reasoning :: string

record agent_proposal =
  ap_name :: string
  ap_description :: string
  ap_type :: string
  ap_persona :: "string option"
  ap_prompt :: string
  ap_capability :: string
  ap_tools :: "suggestion list"
  ap_kbs :: "suggestion list"
  ap_policy :: "suggestion option"
  ap_skills :: "suggestion list"

record resource_proposal =
  rs_tools :: "suggestion list"
  rs_kbs :: "suggestion list"
  rs_policies :: "suggestion list"
  rs_skills :: "suggestion list"

record architecture =
  ar_orchestrator :: agent_proposal
  ar_subs :: "agent_proposal list"
  ar_resources :: resource_proposal
  ar_output :: "string option"
  ar_confidence :: string
  ar_reasoning :: string

record missing_resource =
  mr_key :: string
  mr_type :: string
  mr_name :: string
  mr_description :: string
  mr_config :: "(string \<times> pyval) list"

record created_resource =
  cs_type :: string
  cs_id :: string
  cs_name :: string

record created_agent =
  ca_id :: string
  ca_name :: string
  ca_role :: string

record build_session =
  bs_id :: string
  bs_tenant :: string
  bs_project :: "string option"
  bs_description :: string
  bs_architecture :: architecture
  bs_missing :: "missing_resource list"
  bs_status :: string
  bs_resources :: "created_resource list"
  bs_agents :: "created_agent list"
  bs_error :: "string option"
  bs_created :: int
  bs_updated :: int

section \<open>The catalog\<close>

record catalog_entry =
  ce_id :: string
  ce_name :: string
  ce_description :: string

record catalog =
  ct_tool_entries :: "catalog_entry list"
  ct_kb_entries :: "catalog_entry list"
  ct_policy_entries :: "catalog_entry list"
  ct_skill_entries :: "catalog_entry list"

definition entry :: "string \<Rightarrow> string \<Rightarrow> string \<Rightarrow> catalog_entry" where
  "entry i name description = \<lparr>ce_id = i, ce_name = name, ce_description = description\<rparr>"

definition build_catalog ::
  "connector list \<Rightarrow> knowledge_base list \<Rightarrow> guardrail_policy list \<Rightarrow> skill list \<Rightarrow> catalog" where
  "build_catalog cs ks ps ss =
     \<lparr>ct_tool_entries = map (\<lambda>c. entry (cn_id c) (cn_name c) (cn_description c)) cs,
      ct_kb_entries = map (\<lambda>k. entry (kn_id k) (kn_name k) (kn_description k)) ks,
      ct_policy_entries = map (\<lambda>p. entry (gp_id p) (gp_name p) (gp_description p)) ps,
      ct_skill_entries = map (\<lambda>s. entry (sk_id s) (sk_name s) (sk_description s)) ss\<rparr>"

definition newline :: string where "newline = [CHR 0x0A]"
definition quote :: string where "quote = [CHR 0x22]"

definition render_entry :: "catalog_entry \<Rightarrow> string" where
  "render_entry e =
     ''  - resource_id='' @ quote @ ce_id e @ quote @ '' name='' @ quote @ ce_name e @ quote
     @ '' description='' @ quote @ ce_description e @ quote"

definition render_category :: "string \<Rightarrow> catalog_entry list \<Rightarrow> string list" where
  "render_category name es =
     (newline @ name @ '':'') #
     (if es = [] then [''  (none configured for this tenant)''] else map render_entry es)"

definition render_catalog :: "catalog \<Rightarrow> string" where
  "render_catalog c =
     join_with newline
       (''EXISTING CATALOG (only these may be marked in_catalog=true):'' #
        render_category ''tools'' (ct_tool_entries c) @
        render_category ''knowledge_bases'' (ct_kb_entries c) @
        render_category ''skills'' (ct_skill_entries c) @
        render_category ''guardrail_policies'' (ct_policy_entries c))"

definition build_user_message :: "string \<Rightarrow> catalog \<Rightarrow> string" where
  "build_user_message description c =
     ''Agent description:'' @ newline @ description @ newline @ newline @ render_catalog c @ newline @ newline
     @ ''Propose an agent configuration using only the rules and JSON shape from the system prompt.''"

section \<open>Reading a reply\<close>

text \<open>
  \<open>^```(?:json)?\s*(.*?)\s*```$\<close> on the stripped text: what is between the fences, without the
  blanks next to them; the text itself when it is not fenced.
\<close>

definition fence :: string where "fence = ''```''"

definition strip_end :: "string \<Rightarrow> string" where
  "strip_end s = rev (dropWhile is_space (rev s))"

definition strip_code_fence :: "string \<Rightarrow> string" where
  "strip_code_fence text =
     (let s = py_strip text;
          opened = drop 3 s;
          inside = (if starts_with ''json'' opened then drop 4 opened else opened)
      in if starts_with fence s \<and> ends_with fence inside
         then strip_end (dropWhile is_space (take (length inside - 3) inside))
         else s)"

record coercions =
  co_bool :: "pyval \<Rightarrow> bool option"
  co_float :: "pyval \<Rightarrow> string option"

definition text_field :: "string \<Rightarrow> pyval \<Rightarrow> string option" where
  "text_field k v = optional_text (dict_get k v)"

text \<open>A field that may be left out or null: None is a value of another type.\<close>

definition maybe_text :: "string \<Rightarrow> pyval \<Rightarrow> string option option" where
  "maybe_text k v = (case dict_get k v of PNone \<Rightarrow> Some None | PStr s \<Rightarrow> Some (Some s) | _ \<Rightarrow> None)"

text \<open>A text with a default: left out it is the default, null is refused.\<close>

definition has_key :: "string \<Rightarrow> pyval \<Rightarrow> bool" where
  "has_key k v = (case v of PDict kvs \<Rightarrow> k \<in> fst ` set kvs | _ \<Rightarrow> False)"

definition text_or :: "string \<Rightarrow> string \<Rightarrow> pyval \<Rightarrow> string option" where
  "text_or d k v = (if has_key k v then text_field k v else Some d)"

definition parse_suggestion :: "coercions \<Rightarrow> pyval \<Rightarrow> suggestion option" where
  "parse_suggestion co v =
     (case (is_dict v, text_field ''name'' v, maybe_text ''description'' v,
            if has_key ''in_catalog'' v then co_bool co (dict_get ''in_catalog'' v) else None,
            maybe_text ''resource_id'' v) of
        (True, Some name, Some d, Some inc, Some r) \<Rightarrow>
          Some \<lparr>sg_name = name, sg_description = d, sg_in_catalog = inc, sg_resource = r\<rparr>
      | _ \<Rightarrow> None)"

fun parse_all :: "('a \<Rightarrow> 'b option) \<Rightarrow> 'a list \<Rightarrow> 'b list option" where
  "parse_all f [] = Some []"
| "parse_all f (x # xs) =
     (case f x of None \<Rightarrow> None | Some y \<Rightarrow> (case parse_all f xs of None \<Rightarrow> None | Some ys \<Rightarrow> Some (y # ys)))"

definition suggestions_field :: "coercions \<Rightarrow> string \<Rightarrow> pyval \<Rightarrow> suggestion list option" where
  "suggestions_field co k v =
     (if \<not> has_key k v then Some []
      else case dict_get k v of PList xs \<Rightarrow> parse_all (parse_suggestion co) xs | _ \<Rightarrow> None)"

definition suggestion_field :: "coercions \<Rightarrow> string \<Rightarrow> pyval \<Rightarrow> suggestion option option" where
  "suggestion_field co k v =
     (case dict_get k v of PNone \<Rightarrow> Some None | x \<Rightarrow> map_option Some (parse_suggestion co x))"

definition float_or :: "coercions \<Rightarrow> string \<Rightarrow> string \<Rightarrow> pyval \<Rightarrow> string option" where
  "float_or co d k v = (if has_key k v then co_float co (dict_get k v) else Some d)"

definition valid_agent_types :: "string list" where
  "valid_agent_types = [''conversational'', ''task'', ''rag'', ''multi-step'', ''orchestrator'']"

definition proposal_of :: "coercions \<Rightarrow> pyval \<Rightarrow> task_proposal option" where
  "proposal_of co v =
     (case (text_field ''suggested_name'' v, text_field ''suggested_description'' v,
            text_field ''suggested_agent_type'' v, maybe_text ''suggested_persona_name'' v,
            text_field ''suggested_system_prompt'' v) of
        (Some n, Some d, Some ty, Some pn, Some sp) \<Rightarrow>
          (case (suggestions_field co ''suggested_tools'' v, suggestions_field co ''suggested_knowledge_bases'' v,
                 suggestion_field co ''suggested_guardrail_policy'' v, suggestions_field co ''suggested_skills'' v) of
             (Some ts, Some ks, Some gp, Some ss) \<Rightarrow>
               (case (maybe_text ''suggested_output_format'' v, float_or co ''0.5'' ''confidence'' v,
                      text_or [] ''reasoning'' v) of
                  (Some out, Some c, Some why) \<Rightarrow>
                    Some \<lparr>tp_name = n, tp_description = d, tp_type = ty, tp_persona = pn, tp_prompt = sp,
                          tp_tools = ts, tp_kbs = ks, tp_policy = gp, tp_skills = ss, tp_output = out,
                          tp_confidence = c, tp_reasoning = why\<rparr>
                | _ \<Rightarrow> None)
           | _ \<Rightarrow> None)
      | _ \<Rightarrow> None)"

definition try_parse :: "coercions \<Rightarrow> string \<Rightarrow> task_proposal option" where
  "try_parse co raw =
     (case json_loads (strip_code_fence raw) of
        None \<Rightarrow> None
      | Some v \<Rightarrow>
          (if \<not> is_dict v then None
           else if \<not> (case text_field ''suggested_agent_type'' v of None \<Rightarrow> False | Some t \<Rightarrow> t \<in> set valid_agent_types)
           then None else proposal_of co v))"

definition agent_proposal_of :: "coercions \<Rightarrow> pyval \<Rightarrow> agent_proposal option" where
  "agent_proposal_of co v =
     (case (text_field ''name'' v, text_field ''description'' v, text_field ''agent_type'' v,
            maybe_text ''persona_name'' v, text_field ''system_prompt'' v, text_or [] ''capability_description'' v) of
        (Some n, Some d, Some ty, Some pn, Some sp, Some cap) \<Rightarrow>
          (case (suggestions_field co ''tools'' v, suggestions_field co ''knowledge_bases'' v,
                 suggestion_field co ''guardrail_policy'' v, suggestions_field co ''skills'' v) of
             (Some ts, Some ks, Some gp, Some ss) \<Rightarrow>
               Some \<lparr>ap_name = n, ap_description = d, ap_type = ty, ap_persona = pn, ap_prompt = sp,
                     ap_capability = cap, ap_tools = ts, ap_kbs = ks, ap_policy = gp, ap_skills = ss\<rparr>
           | _ \<Rightarrow> None)
      | _ \<Rightarrow> None)"

definition role_ok :: "pyval \<Rightarrow> bool" where
  "role_ok v \<longleftrightarrow>
     is_dict v \<and> (case text_field ''agent_type'' v of None \<Rightarrow> False | Some t \<Rightarrow> t \<in> {''standard'', ''orchestrator''})"

text \<open>The rest of the reply is passed on as it is: its type is checked only when the response is built.\<close>

record parsed_architecture =
  pa_orchestrator :: agent_proposal
  pa_subs :: "agent_proposal list"
  pa_output :: pyval
  pa_confidence :: pyval
  pa_reasoning :: pyval

definition get_default :: "string \<Rightarrow> pyval \<Rightarrow> pyval \<Rightarrow> pyval" where
  "get_default k d v = (if has_key k v then dict_get k v else d)"

definition try_parse_architecture :: "coercions \<Rightarrow> string \<Rightarrow> parsed_architecture option" where
  "try_parse_architecture co raw =
     (case json_loads (strip_code_fence raw) of
        None \<Rightarrow> None
      | Some v \<Rightarrow>
          (if \<not> is_dict v \<or> \<not> role_ok (dict_get ''orchestrator'' v) then None
           else (case get_default ''sub_agents'' (PList []) v of
                   PList members \<Rightarrow>
                     (if \<not> list_all role_ok members then None
                      else (case (agent_proposal_of co (dict_get ''orchestrator'' v), parse_all (agent_proposal_of co) members) of
                              (Some orch, Some sub_agents) \<Rightarrow>
                                Some \<lparr>pa_orchestrator = orch, pa_subs = sub_agents, pa_output = dict_get ''output_schema'' v,
                                      pa_confidence = get_default ''confidence'' (PFloat ''0.5'') v,
                                      pa_reasoning = get_default ''reasoning'' (PStr []) v\<rparr>
                            | _ \<Rightarrow> None))
                 | _ \<Rightarrow> None)))"

section \<open>Binding to the catalog\<close>

definition unlisted :: "suggestion \<Rightarrow> suggestion" where
  "unlisted s = s\<lparr>sg_in_catalog := False, sg_resource := None\<rparr>"

definition listed :: "catalog_entry list \<Rightarrow> suggestion \<Rightarrow> bool" where
  "listed es s \<longleftrightarrow> sg_in_catalog s \<and> (case sg_resource s of None \<Rightarrow> False | Some i \<Rightarrow> i \<in> ce_id ` set es)"

definition enforce_list :: "suggestion list \<Rightarrow> catalog_entry list \<Rightarrow> suggestion list" where
  "enforce_list ss es = map (\<lambda>s. if listed es s then s else unlisted s) ss"

definition enforce_single :: "suggestion option \<Rightarrow> catalog_entry list \<Rightarrow> suggestion option" where
  "enforce_single s es = map_option (\<lambda>x. if listed es x then x else unlisted x) s"

definition enforce_proposal :: "task_proposal \<Rightarrow> catalog \<Rightarrow> task_proposal" where
  "enforce_proposal p c =
     p\<lparr>tp_tools := enforce_list (tp_tools p) (ct_tool_entries c), tp_kbs := enforce_list (tp_kbs p) (ct_kb_entries c),
       tp_policy := enforce_single (tp_policy p) (ct_policy_entries c),
       tp_skills := enforce_list (tp_skills p) (ct_skill_entries c)\<rparr>"

definition enforce_agent :: "catalog \<Rightarrow> agent_proposal \<Rightarrow> agent_proposal" where
  "enforce_agent c p =
     p\<lparr>ap_tools := enforce_list (ap_tools p) (ct_tool_entries c), ap_kbs := enforce_list (ap_kbs p) (ct_kb_entries c),
       ap_policy := enforce_single (ap_policy p) (ct_policy_entries c),
       ap_skills := enforce_list (ap_skills p) (ct_skill_entries c)\<rparr>"

definition suggestion_key :: "suggestion \<Rightarrow> string" where
  "suggestion_key s =
     (case sg_resource s of
        Some i \<Rightarrow> if sg_in_catalog s then i else ''name:'' @ sg_name s
      | None \<Rightarrow> ''name:'' @ sg_name s)"

fun dedupe_keyed :: "('a \<Rightarrow> string) \<Rightarrow> string list \<Rightarrow> 'a list \<Rightarrow> 'a list" where
  "dedupe_keyed key seen [] = []"
| "dedupe_keyed key seen (x # xs) =
     (if key x \<in> set seen then dedupe_keyed key seen xs else x # dedupe_keyed key (key x # seen) xs)"

definition dedupe_suggestions :: "suggestion list \<Rightarrow> suggestion list" where
  "dedupe_suggestions = dedupe_keyed suggestion_key []"

definition build_resource_proposal :: "agent_proposal list \<Rightarrow> resource_proposal" where
  "build_resource_proposal agents =
     \<lparr>rs_tools = dedupe_suggestions (concat (map ap_tools agents)),
      rs_kbs = dedupe_suggestions (concat (map ap_kbs agents)),
      rs_policies = dedupe_suggestions (concat (map (\<lambda>a. case ap_policy a of None \<Rightarrow> [] | Some s \<Rightarrow> [s]) agents)),
      rs_skills = dedupe_suggestions (concat (map ap_skills agents))\<rparr>"

section \<open>Asking the model\<close>

datatype planner_prompt = ProposalPrompt | ArchitecturePrompt | ConfigPrompt

text \<open>The call of the factory's model: it fails with a text, or answers with a content or none.\<close>

type_synonym 'w model_call = "planner_prompt \<Rightarrow> string \<Rightarrow> 'w \<Rightarrow> (string + string option) \<times> 'w"

definition planner_error :: "string \<Rightarrow> pyexn" where
  "planner_error m = Raised ''TaskPlannerError'' m"

definition retry_nudge :: string where
  "retry_nudge =
     newline @ newline @ ''Your previous response could not be parsed as valid JSON matching the required schema. ''
     @ ''Respond again with ONLY the JSON object -- no markdown code fences, no explanation before or after it.''"

text \<open>A reply without a content is no text: stripping it raises.\<close>

definition ask :: "'w model_call \<Rightarrow> planner_prompt \<Rightarrow> string \<Rightarrow> ('w, string) prog" where
  "ask llm prompt message w =
     (case llm prompt message w of
        (Inl e, w') \<Rightarrow> (Inl (planner_error (''Task Planner'' @ [CHR 0x27] @ ''s model call failed: '' @ e)), w')
      | (Inr None, w') \<Rightarrow> (Inl (AttributeError ''strip''), w')
      | (Inr (Some text), w') \<Rightarrow> (Inr text, w'))"

definition ask_twice ::
  "'w model_call \<Rightarrow> planner_prompt \<Rightarrow> string \<Rightarrow> (string \<Rightarrow> 'a option) \<Rightarrow> string \<Rightarrow> ('w, 'a) prog" where
  "ask_twice llm prompt message parse failed =
     andthen (ask llm prompt message) (\<lambda>raw.
       case parse raw of
         Some x \<Rightarrow> ret x
       | None \<Rightarrow>
           andthen (ask llm prompt (message @ retry_nudge)) (\<lambda>again.
             case parse again of Some x \<Rightarrow> ret x | None \<Rightarrow> raising (planner_error failed)))"

definition analyze_task :: "'w model_call \<Rightarrow> coercions \<Rightarrow> string \<Rightarrow> catalog \<Rightarrow> ('w, task_proposal) prog" where
  "analyze_task llm co description c =
     andthen (ask_twice llm ProposalPrompt (build_user_message description c) (try_parse co)
                ''Task Planner did not return a valid proposal after retrying once.'')
       (\<lambda>p. ret (enforce_proposal p c))"

text \<open>The response is validated as it is built: an output schema that is an object raises here.\<close>

definition response_of :: "coercions \<Rightarrow> catalog \<Rightarrow> parsed_architecture \<Rightarrow> architecture option" where
  "response_of co c p =
     (let orch = enforce_agent c (pa_orchestrator p); others = map (enforce_agent c) (pa_subs p)
      in case (pa_output p, co_float co (pa_confidence p), optional_text (pa_reasoning p)) of
           (out, Some conf, Some why) \<Rightarrow>
             (if out = PNone \<or> is_text out
              then Some \<lparr>ar_orchestrator = orch, ar_subs = others, ar_resources = build_resource_proposal (orch # others),
                         ar_output = optional_text out, ar_confidence = conf, ar_reasoning = why\<rparr>
              else None)
         | _ \<Rightarrow> None)"

definition analyze_architecture ::
  "'w model_call \<Rightarrow> coercions \<Rightarrow> string \<Rightarrow> catalog \<Rightarrow> ('w, architecture) prog" where
  "analyze_architecture llm co description c =
     andthen (ask_twice llm ArchitecturePrompt (build_user_message description c) (try_parse_architecture co)
                ''Task Planner did not return a valid architecture proposal after retrying once.'')
       (\<lambda>p. case response_of co c p of
              None \<Rightarrow> raising (ValidationError ''TaskPlannerResponse'')
            | Some a \<Rightarrow> ret a)"

section \<open>What is missing\<close>

definition slugify_key :: "string \<Rightarrow> string" where
  "slugify_key name = slug_or ''resource'' name"

definition resource_key :: "string \<Rightarrow> string \<Rightarrow> string" where
  "resource_key kind name = kind @ '':'' @ slugify_key name"

definition missing_of :: "string \<Rightarrow> suggestion list \<Rightarrow> missing_resource list" where
  "missing_of kind ss =
     map (\<lambda>s. \<lparr>mr_key = resource_key kind (sg_name s), mr_type = kind, mr_name = sg_name s,
               mr_description = get_or [] (sg_description s), mr_config = []\<rparr>)
       (filter (\<lambda>s. \<not> sg_in_catalog s) ss)"

definition missing_resources :: "architecture \<Rightarrow> missing_resource list" where
  "missing_resources a =
     (let r = ar_resources a
      in dedupe_keyed mr_key []
           (missing_of ''tool'' (rs_tools r) @ missing_of ''knowledge_base'' (rs_kbs r)
            @ missing_of ''guardrail_policy'' (rs_policies r) @ missing_of ''skill'' (rs_skills r)))"

text \<open>The later entry of a key wins; entries of another shape are passed over.\<close>

fun configs_of :: "pyval list \<Rightarrow> (string \<times> (string \<times> pyval) list) list" where
  "configs_of [] = []"
| "configs_of (v # vs) =
     (case (dict_get ''resource_key'' v, dict_get ''proposed_config'' v) of
        (PStr k, PDict cfg) \<Rightarrow> (k, cfg) # configs_of vs
      | _ \<Rightarrow> configs_of vs)"

definition try_parse_configs :: "string \<Rightarrow> (string \<times> (string \<times> pyval) list) list option" where
  "try_parse_configs raw =
     (case json_loads (strip_code_fence raw) of
        Some v \<Rightarrow> (case dict_get ''resources'' v of PList xs \<Rightarrow> Some (configs_of xs) | _ \<Rightarrow> None)
      | None \<Rightarrow> None)"

definition missing_json :: "missing_resource list \<Rightarrow> string" where
  "missing_json ms =
     (let item = (\<lambda>k v. ''    '' @ json_text k @ '': '' @ json_text v);
          one = (\<lambda>m. ''  {'' @ newline
             @ join_with ('','' @ newline)
                 [item ''resource_key'' (mr_key m), item ''resource_type'' (mr_type m), item ''name'' (mr_name m),
                  item ''description'' (mr_description m)] @ newline @ ''  }'')
      in ''['' @ newline @ join_with ('','' @ newline) (map one ms) @ newline @ '']'')"

text \<open>The elaboration is best effort: when the call fails, the resources keep empty configurations.\<close>

definition propose_missing_resource_configs ::
  "'w model_call \<Rightarrow> architecture \<Rightarrow> ('w, missing_resource list) prog" where
  "propose_missing_resource_configs llm a w =
     (let missing = missing_resources a
      in if missing = [] then (Inr [], w)
         else (case llm ConfigPrompt (''Missing resources:'' @ newline @ missing_json missing) w of
                 (Inl e, w') \<Rightarrow> (Inr missing, w')
               | (Inr None, w') \<Rightarrow> (Inl (AttributeError ''strip''), w')
               | (Inr (Some raw), w') \<Rightarrow>
                   (case try_parse_configs raw of
                      None \<Rightarrow> (Inr missing, w')
                    | Some configs \<Rightarrow>
                        (Inr (map (\<lambda>m. case dict_of configs (mr_key m) of
                                         None \<Rightarrow> m
                                       | Some cfg \<Rightarrow> m\<lparr>mr_config := cfg\<rparr>) missing), w'))))"

section \<open>What the planner promises\<close>

text \<open>A suggestion stays inside a catalog: it names one of its entries, or names nothing.\<close>

definition bound_to :: "catalog_entry list \<Rightarrow> suggestion \<Rightarrow> bool" where
  "bound_to es s \<longleftrightarrow>
     (case sg_resource s of None \<Rightarrow> \<not> sg_in_catalog s | Some i \<Rightarrow> sg_in_catalog s \<and> i \<in> ce_id ` set es)"

lemma enforced_bound: "listed es s \<Longrightarrow> bound_to es s" "bound_to es (unlisted s)"
  by (auto simp: bound_to_def listed_def unlisted_def split: option.splits)

lemma enforce_list_bound: "list_all (bound_to es) (enforce_list ss es)"
  using enforced_bound by (auto simp: enforce_list_def list_all_iff)

lemma enforce_single_bound: "enforce_single s es = Some x \<Longrightarrow> bound_to es x"
  using enforced_bound by (auto simp: enforce_single_def split: if_splits)

definition agent_bound :: "catalog \<Rightarrow> agent_proposal \<Rightarrow> bool" where
  "agent_bound c p \<longleftrightarrow>
     list_all (bound_to (ct_tool_entries c)) (ap_tools p) \<and> list_all (bound_to (ct_kb_entries c)) (ap_kbs p) \<and>
     list_all (bound_to (ct_skill_entries c)) (ap_skills p) \<and>
     (\<forall>s. ap_policy p = Some s \<longrightarrow> bound_to (ct_policy_entries c) s)"

lemma enforce_agent_bound: "agent_bound c (enforce_agent c p)"
  using enforce_single_bound by (auto simp: agent_bound_def enforce_agent_def enforce_list_bound)

lemma dedupe_keyed_facts:
  "set (dedupe_keyed key seen xs) \<subseteq> set xs"
  "distinct (map key (dedupe_keyed key seen xs))"
  "key ` set (dedupe_keyed key seen xs) = key ` set xs - set seen"
proof (induction key seen xs rule: dedupe_keyed.induct)
  case (2 key seen x xs)
  {
    case 1
    from 2 show ?case by auto
  next
    case 2
    have "key x \<notin> key ` set (dedupe_keyed key (key x # seen) xs)" if "key x \<notin> set seen"
      using "2.IH"(6) [OF that] by simp
    with "2.IH" show ?case by simp
  next
    case 3
    from "2.IH" show ?case by (cases "key x \<in> set seen") auto
  }
qed simp_all

text \<open>Every resource of every agent is in the proposal of resources, once per key.\<close>

lemma dedupe_covers:
  assumes "s \<in> set ss"
  shows "\<exists>r \<in> set (dedupe_suggestions ss). suggestion_key r = suggestion_key s"
proof -
  have "suggestion_key ` set (dedupe_suggestions ss) = suggestion_key ` set ss"
    using dedupe_keyed_facts(3) [of suggestion_key "[]" ss] by (simp add: dedupe_suggestions_def)
  with assms have "suggestion_key s \<in> suggestion_key ` set (dedupe_suggestions ss)" by blast
  then show ?thesis by force
qed

lemma missing_keys_distinct: "distinct (map mr_key (missing_resources a))"
  by (simp add: missing_resources_def Let_def dedupe_keyed_facts)

end
