(* ===== verification/Settings.thy ===== *)
theory Settings
  imports Tables
begin

text \<open>
  The tenant's settings (app/modules/platform_settings: models.py, store.py): one row per tenant
  under a fixed range key, written with its defaults when it is first asked for.
\<close>

definition global_setting_id :: string where "global_setting_id = ''GLOBAL''"

record tenant_settings =
  ts_tenant :: string
  ts_otel_endpoint :: "string option"
  ts_langfuse_enabled :: bool
  ts_langfuse_public_key :: "string option"
  ts_langfuse_secret_arn :: "string option"
  ts_langfuse_host :: "string option"
  ts_datadog_enabled :: bool
  ts_datadog_api_key_arn :: "string option"
  ts_datadog_site :: "string option"
  ts_grafana_enabled :: bool
  ts_grafana_endpoint :: "string option"
  ts_new_relic_enabled :: bool
  ts_new_relic_api_key_arn :: "string option"
  ts_dynatrace_enabled :: bool
  ts_dynatrace_endpoint :: "string option"
  ts_approval_mode :: string
  ts_cicd_provider :: string
  ts_kb_bucket :: "string option"
  ts_kb_prefix :: string
  ts_git_organisation :: "string option"
  ts_aws_region :: "string option"
  ts_vpc_id :: "string option"
  ts_subnet_ids :: "string list"
  ts_cluster_arn :: "string option"
  ts_ecr_registry :: "string option"
  ts_bedrock_cidr :: "string option"
  ts_opensearch_cidr :: "string option"
  ts_dynamodb_cidr :: "string option"
  ts_s3_cidr :: "string option"
  ts_cloudwatch_cidr :: "string option"
  ts_updated_by :: string
  ts_updated_at :: int

definition default_settings :: "int \<Rightarrow> string \<Rightarrow> string \<Rightarrow> tenant_settings" where
  "default_settings now tenant actor =
     \<lparr>ts_tenant = tenant, ts_otel_endpoint = None, ts_langfuse_enabled = False, ts_langfuse_public_key = None,
      ts_langfuse_secret_arn = None, ts_langfuse_host = None, ts_datadog_enabled = False,
      ts_datadog_api_key_arn = None, ts_datadog_site = None, ts_grafana_enabled = False, ts_grafana_endpoint = None,
      ts_new_relic_enabled = False, ts_new_relic_api_key_arn = None, ts_dynatrace_enabled = False,
      ts_dynatrace_endpoint = None, ts_approval_mode = ''automated'', ts_cicd_provider = ''github_actions'',
      ts_kb_bucket = None, ts_kb_prefix = ''agent-factory'', ts_git_organisation = None, ts_aws_region = None,
      ts_vpc_id = None, ts_subnet_ids = [], ts_cluster_arn = None, ts_ecr_registry = None, ts_bedrock_cidr = None,
      ts_opensearch_cidr = None, ts_dynamodb_cidr = None, ts_s3_cidr = None, ts_cloudwatch_cidr = None,
      ts_updated_by = actor, ts_updated_at = now\<rparr>"

definition get_or_create_settings :: "int \<Rightarrow> string \<Rightarrow> string \<Rightarrow> (tenant_settings, tenant_settings) table_action" where
  "get_or_create_settings now tenant actor =
     andthen (find_row tenant global_setting_id) (\<lambda>found.
       case found of
         Some r \<Rightarrow> ret r
       | None \<Rightarrow>
           (let r = default_settings now tenant actor
            in andthen (put_row tenant global_setting_id r) (\<lambda>_. ret r)))"

definition save_settings :: "tenant_settings \<Rightarrow> (tenant_settings, tenant_settings) table_action" where
  "save_settings r = andthen (put_row (ts_tenant r) global_setting_id r) (\<lambda>_. ret r)"

lemma settings_store_tenant [frame_intros]:
  "stays_in (tenant_only tenant) (get_or_create_settings now tenant actor)"
  unfolding get_or_create_settings_def Let_def by (intro frame_intros)

text \<open>What is asked for once is there afterwards, unchanged.\<close>

lemma settings_stay:
  assumes "get_or_create_settings now tenant actor s = (Inr r, t)"
  shows "get_or_create_settings later tenant other t = (Inr r, t)"
  using assms
  by (auto simp: get_or_create_settings_def find_row_def put_row_def prog_simps AList.update_conv' Let_def split: option.splits)

end
