(* ===== verification/Platform.thy ===== *)
theory Platform
  imports Planner Simulator Settings
begin

text \<open>
  The Factory's API as one state: the deployment state of \<open>Factory\<close>, the catalogs, the users; the
  services it calls; and who may call it (app/modules/auth: security.py, dependencies.py, api/v1/auth.py).
  PyJWT, bcrypt, Bedrock's control plane and the object stores are arguments.
\<close>

section \<open>State\<close>

record user_row =
  us_id :: string
  us_email :: string
  us_hash :: string
  us_role :: string
  us_tenant :: string
  us_active :: bool

text \<open>
  A stored policy. A field set to null by an update stays null in the row, and a row with a null
  field that must not be one is refused when it is read; the names of those fields are kept.
\<close>

datatype policy_row = Policy guardrail_policy | Nulled guardrail_policy "string list"

record credential =
  cr_tenant :: string
  cr_id :: string
  cr_name :: string
  cr_role :: string
  cr_by :: string
  cr_created :: int

record 'w platform =
  pl_factory :: "'w factory"
  pl_connectors :: "connector table"
  pl_kbs :: "knowledge_base table"
  pl_policies :: "policy_row table"
  pl_credentials :: "credential table"
  pl_skills :: "skill table"
  pl_prompts :: "prompt table"
  pl_projects :: "project table"
  pl_tools :: tool_registry
  pl_builds :: "build_session table"
  pl_users :: "user_row list"
  pl_settings :: "tenant_settings table"
  pl_objects :: "((string \<times> string) \<times> string) list"

type_synonym ('w, 'a) platform_action = "('w platform, 'a) prog"

text \<open>A program over one part of the state, run on the whole.\<close>

definition on_part :: "('s \<Rightarrow> 't) \<Rightarrow> ('t \<Rightarrow> 's \<Rightarrow> 's) \<Rightarrow> ('t, 'a) prog \<Rightarrow> ('s, 'a) prog" where
  "on_part part put m s = (let (r, t) = m (part s) in (r, put t s))"

definition on_factory :: "('w, 'a) factory_action \<Rightarrow> ('w, 'a) platform_action" where
  "on_factory = on_part pl_factory (\<lambda>t s. s\<lparr>pl_factory := t\<rparr>)"

definition on_agents :: "'a reg_action \<Rightarrow> ('w, 'a) platform_action" where
  "on_agents m = on_factory (on_registry m)"

definition on_connectors :: "(connector, 'a) table_action \<Rightarrow> ('w, 'a) platform_action" where
  "on_connectors = on_part pl_connectors (\<lambda>t s. s\<lparr>pl_connectors := t\<rparr>)"

definition on_kbs :: "(knowledge_base, 'a) table_action \<Rightarrow> ('w, 'a) platform_action" where
  "on_kbs = on_part pl_kbs (\<lambda>t s. s\<lparr>pl_kbs := t\<rparr>)"

definition on_policies :: "(policy_row, 'a) table_action \<Rightarrow> ('w, 'a) platform_action" where
  "on_policies = on_part pl_policies (\<lambda>t s. s\<lparr>pl_policies := t\<rparr>)"

definition on_credentials :: "(credential, 'a) table_action \<Rightarrow> ('w, 'a) platform_action" where
  "on_credentials = on_part pl_credentials (\<lambda>t s. s\<lparr>pl_credentials := t\<rparr>)"

definition on_skills :: "(skill, 'a) table_action \<Rightarrow> ('w, 'a) platform_action" where
  "on_skills = on_part pl_skills (\<lambda>t s. s\<lparr>pl_skills := t\<rparr>)"

definition on_prompts :: "(prompt, 'a) table_action \<Rightarrow> ('w, 'a) platform_action" where
  "on_prompts = on_part pl_prompts (\<lambda>t s. s\<lparr>pl_prompts := t\<rparr>)"

definition on_projects :: "(project, 'a) table_action \<Rightarrow> ('w, 'a) platform_action" where
  "on_projects = on_part pl_projects (\<lambda>t s. s\<lparr>pl_projects := t\<rparr>)"

definition on_builds :: "(build_session, 'a) table_action \<Rightarrow> ('w, 'a) platform_action" where
  "on_builds = on_part pl_builds (\<lambda>t s. s\<lparr>pl_builds := t\<rparr>)"

definition on_settings :: "(tenant_settings, 'a) table_action \<Rightarrow> ('w, 'a) platform_action" where
  "on_settings = on_part pl_settings (\<lambda>t s. s\<lparr>pl_settings := t\<rparr>)"

section \<open>Services\<close>

text \<open>The outcome of \<open>jwt.decode\<close>.\<close>

datatype jwt_outcome = TokenExpired | TokenInvalid string | Claims "(string \<times> pyval) list"

text \<open>The Bedrock control plane is called with the Runtime's own role or with assumed credentials.\<close>

datatype bedrock_client = Ambient | Assumed string

text \<open>
  The calls to S3 (whether one fails is the world's; what a successful one does to the objects is
  modelled) and to Bedrock's knowledge bases, whose answers are JSON but for a job's, which carries
  instants.
\<close>

datatype s3_call = PutObject string string string | GetObject string string | CopyObject string string string
  | DeleteObject string string | ListObjects string string | DeleteObjects string "string list"
  | Presign string string | HeadBucket string

datatype kb_call = CreateKb pyval | CreateSource pyval | DeleteSource string string | DeleteKb string
  | StartJob string string

record ingestion_job =
  jb_status :: string
  jb_indexed :: int
  jb_failed :: int
  jb_started :: "int option"
  jb_updated :: "int option"
  jb_reasons :: "string list"

record 'w platform_services =
  ps_cloud :: "'w cloud"
  ps_uuid :: "'w \<Rightarrow> string \<times> 'w"
  ps_llm :: "'w model_call"
  ps_co :: coercions
  ps_sha256 :: "string \<Rightarrow> string"
  ps_version :: string
  ps_jwt_decode :: "string \<Rightarrow> int \<Rightarrow> string \<Rightarrow> jwt_outcome"
  ps_jwt_encode :: "string \<Rightarrow> (string \<times> pyval) list \<Rightarrow> string"
  ps_checkpw :: "string \<Rightarrow> string \<Rightarrow> bool"
  ps_assume :: "string \<Rightarrow> string \<Rightarrow> 'w \<Rightarrow> (pyexn + string) \<times> 'w"
  ps_put_guardrail :: "bedrock_client \<Rightarrow> (string \<times> pyval) list \<Rightarrow> 'w \<Rightarrow> (pyexn + string \<times> string) \<times> 'w"
  ps_delete_guardrail :: "bedrock_client \<Rightarrow> string \<Rightarrow> 'w \<Rightarrow> (pyexn + unit) \<times> 'w"
  ps_s3 :: "s3_call \<Rightarrow> 'w \<Rightarrow> pyexn option \<times> 'w"
  ps_kb_call :: "kb_call \<Rightarrow> 'w \<Rightarrow> (string + pyval) \<times> 'w"
  ps_kb_job :: "string \<Rightarrow> string \<Rightarrow> string \<Rightarrow> 'w \<Rightarrow> (string + ingestion_job) \<times> 'w"
  ps_presigned :: "string \<Rightarrow> string \<Rightarrow> string"
  ps_mock_kb :: bool
  ps_kb_role :: string
  ps_kb_collection :: string
  ps_region :: string
  ps_engine :: "'w engine"
  ps_jwt_secret :: string
  ps_access_minutes :: int
  ps_refresh_days :: int
  ps_mock_guardrails :: bool
  ps_kb_bucket :: "string option"

definition the_time :: "'w platform_services \<Rightarrow> ('w, int) platform_action" where
  "the_time ps = on_factory (now_at (ps_cloud ps))"

text \<open>A program over the world alone.\<close>

definition on_world :: "('w, 'a) prog \<Rightarrow> ('w, 'a) platform_action" where
  "on_world = on_part (\<lambda>s. fc_world (pl_factory s)) (\<lambda>w s. s\<lparr>pl_factory := (pl_factory s)\<lparr>fc_world := w\<rparr>\<rparr>)"

definition draw_hex :: "'w platform_services \<Rightarrow> ('w, string) platform_action" where
  "draw_hex ps = on_world (\<lambda>w. let (h, w') = ps_uuid ps w in (Inr h, w'))"

fun draw_hexes :: "'w platform_services \<Rightarrow> nat \<Rightarrow> ('w, string list) platform_action" where
  "draw_hexes ps 0 = ret []"
| "draw_hexes ps (Suc n) = andthen (draw_hex ps) (\<lambda>h. andthen (draw_hexes ps n) (\<lambda>hs. ret (h # hs)))"

definition http_error :: "int \<Rightarrow> string \<Rightarrow> ('w, 'a) platform_action" where
  "http_error code detail = raising (HttpError code detail)"

definition not_found_404 :: "string \<Rightarrow> string \<Rightarrow> ('w, 'a) platform_action" where
  "not_found_404 kind i = http_error 404 (kind @ '' '' @ repr_str i @ '' not found'')"

text \<open>\<open>except <class> as exc: raise HTTPException(code, detail=str(exc))\<close> for the classes carried as \<open>Raised\<close>.\<close>

definition mapping :: "string \<Rightarrow> int \<Rightarrow> ('w, 'a) platform_action \<Rightarrow> ('w, 'a) platform_action" where
  "mapping class code m =
     catching m (\<lambda>e. case e of
       Raised c msg \<Rightarrow> (if c = class then http_error code msg else raising e)
     | _ \<Rightarrow> raising e)"

section \<open>Tokens\<close>

text \<open>The clock counts microseconds; the claims of a token count seconds.\<close>

definition token_claims :: "string \<Rightarrow> int \<Rightarrow> int \<Rightarrow> user_row \<Rightarrow> (string \<times> pyval) list" where
  "token_claims ty now seconds u =
     [(''sub'', PStr (us_id u)), (''tenant_id'', PStr (us_tenant u)), (''role'', PStr (us_role u)),
      (''type'', PStr ty), (''iat'', PInt (now div 1000000)), (''exp'', PInt (now div 1000000 + seconds))]"

definition create_access_token :: "'w platform_services \<Rightarrow> int \<Rightarrow> user_row \<Rightarrow> string" where
  "create_access_token ps now u =
     ps_jwt_encode ps (ps_jwt_secret ps) (token_claims ''access'' now (ps_access_minutes ps * 60) u)"

definition create_refresh_token :: "'w platform_services \<Rightarrow> int \<Rightarrow> user_row \<Rightarrow> string" where
  "create_refresh_token ps now u =
     ps_jwt_encode ps (ps_jwt_secret ps) (token_claims ''refresh'' now (ps_refresh_days ps * 86400) u)"

definition token_error :: "string \<Rightarrow> pyexn" where
  "token_error m = Raised ''TokenError'' m"

definition decode_token :: "'w platform_services \<Rightarrow> int \<Rightarrow> string \<Rightarrow> string \<Rightarrow> pyexn + (string \<times> pyval) list" where
  "decode_token ps now token expected =
     (case ps_jwt_decode ps (ps_jwt_secret ps) now token of
        TokenExpired \<Rightarrow> Inl (token_error ''Token has expired'')
      | TokenInvalid m \<Rightarrow> Inl (token_error (''Invalid token: '' @ m))
      | Claims cs \<Rightarrow>
          (let ty = dict_get ''type'' (PDict cs)
           in if ty \<noteq> PStr expected
              then Inl (token_error (''Expected a '' @ repr_str expected @ '' token, got '' @ py_repr ty))
              else Inr cs))"

text \<open>
  \<open>uuid.UUID\<close> of a text: 32 hexadecimal digits once braces, dashes and a \<open>urn:uuid:\<close> are taken
  away. Of the other 32-character texts \<open>int(_, 16)\<close> reads (a sign, blanks, underscores) none is taken.
\<close>

fun remove_text :: "nat \<Rightarrow> string \<Rightarrow> string \<Rightarrow> string" where
  "remove_text 0 p s = s"
| "remove_text (Suc n) p [] = []"
| "remove_text (Suc n) p (c # cs) =
     (if p \<noteq> [] \<and> starts_with p (c # cs) then remove_text n p (drop (length p) (c # cs))
      else c # remove_text n p cs)"

definition strip_braces :: "string \<Rightarrow> string" where
  "strip_braces s =
     (let b = (\<lambda>c. c = CHR ''{'' \<or> c = CHR ''}'') in rev (dropWhile b (rev (dropWhile b s))))"

definition uuid_digits :: "string \<Rightarrow> string option" where
  "uuid_digits s =
     (let t = remove_text (length s) ''uuid:'' (remove_text (length s) ''urn:'' s);
          h = filter (\<lambda>c. c \<noteq> CHR ''-'') (strip_braces t)
      in if length h = 32 \<and> list_all (\<lambda>c. hex_val c \<noteq> None) h then Some (py_lower h) else None)"

definition find_user :: "string \<Rightarrow> user_row list \<Rightarrow> user_row option" where
  "find_user i us = find (\<lambda>u. uuid_digits (us_id u) = Some i) us"

text \<open>What is done with the claims of a token: the user must exist and be active.\<close>

definition claimed_user :: "(string \<times> pyval) list \<Rightarrow> ('w, user_row) platform_action" where
  "claimed_user cs =
     (case dict_get ''sub'' (PDict cs) of
        PStr sub \<Rightarrow>
          (case uuid_digits sub of
             None \<Rightarrow> http_error 401 ''Token subject is invalid''
           | Some i \<Rightarrow>
               andthen (reads (\<lambda>s. find_user i (pl_users s))) (\<lambda>found.
                 case found of
                   None \<Rightarrow> http_error 401 ''User not found or inactive''
                 | Some u \<Rightarrow> if us_active u then ret u else http_error 401 ''User not found or inactive''))
      | PNone \<Rightarrow>
          (if has_key ''sub'' (PDict cs) then raising (TypeError ''UUID'') else http_error 401 ''Token subject is invalid'')
      | _ \<Rightarrow> raising (AttributeError ''replace''))"

definition get_current_user :: "'w platform_services \<Rightarrow> string option \<Rightarrow> ('w, user_row) platform_action" where
  "get_current_user ps bearer =
     (case bearer of
        None \<Rightarrow> http_error 403 ''Not authenticated''
      | Some token \<Rightarrow>
          andthen (the_time ps) (\<lambda>now.
            case decode_token ps now token ''access'' of
              Inl (Raised _ m) \<Rightarrow> http_error 401 m
            | Inl e \<Rightarrow> raising e
            | Inr cs \<Rightarrow> claimed_user cs))"

definition require_role :: "string list \<Rightarrow> user_row \<Rightarrow> ('w, unit) platform_action" where
  "require_role roles u =
     (if us_role u = ''admin'' \<or> us_role u \<in> set roles then ret ()
      else http_error 403 (''Role '' @ repr_str (us_role u) @ '' is not permitted to perform this action''))"

text \<open>A route: the caller is found, its role is checked, then the handler runs for it.\<close>

definition guarded ::
  "'w platform_services \<Rightarrow> string option \<Rightarrow> string list \<Rightarrow> (user_row \<Rightarrow> ('w, 'a) platform_action)
     \<Rightarrow> ('w, 'a) platform_action" where
  "guarded ps bearer roles handler =
     andthen (get_current_user ps bearer) (\<lambda>u. andthen (require_role roles u) (\<lambda>_. handler u))"

section \<open>Login and refresh\<close>

record token_pair =
  tk_access :: string
  tk_refresh :: string
  tk_expires :: int

definition token_response :: "'w platform_services \<Rightarrow> int \<Rightarrow> user_row \<Rightarrow> token_pair" where
  "token_response ps now u =
     \<lparr>tk_access = create_access_token ps now u, tk_refresh = create_refresh_token ps now u,
      tk_expires = ps_access_minutes ps * 60\<rparr>"

definition login :: "'w platform_services \<Rightarrow> string \<Rightarrow> string \<Rightarrow> ('w, token_pair) platform_action" where
  "login ps email password =
     andthen (reads (\<lambda>s. find (\<lambda>u. us_email u = email) (pl_users s))) (\<lambda>found.
       case found of
         None \<Rightarrow> http_error 401 ''Incorrect email or password''
       | Some u \<Rightarrow>
           (if \<not> ps_checkpw ps password (us_hash u) then http_error 401 ''Incorrect email or password''
            else if \<not> us_active u then http_error 403 ''User is inactive''
            else andthen (the_time ps) (\<lambda>now. ret (token_response ps now u))))"

definition refresh_tokens :: "'w platform_services \<Rightarrow> string \<Rightarrow> ('w, token_pair) platform_action" where
  "refresh_tokens ps token =
     andthen (the_time ps) (\<lambda>now.
       case decode_token ps now token ''refresh'' of
         Inl (Raised _ m) \<Rightarrow> http_error 401 m
       | Inl e \<Rightarrow> raising e
       | Inr cs \<Rightarrow> andthen (claimed_user cs) (\<lambda>u. ret (token_response ps now u)))"

end
