(* ===== verification/CatalogRoutes.thy ===== *)
theory CatalogRoutes
  imports Platform RegistryGraph
begin

text \<open>
  The routes of the resource libraries (app/api/v1: prompts.py, skills.py, connectors.py,
  bedrock_credentials.py, guardrail_policies.py, projects.py) with guardrails/provisioner.py,
  guardrails/store.py and shared/reference_errors.py. A handler takes the user the guard found;
  \<open>serve_catalog\<close> puts the guard with the route's roles in front of it. A route of a connector's
  live test and the OpenAPI import are left out.
\<close>

section \<open>Shared by the routes\<close>

definition fresh :: "'w platform_services \<Rightarrow> (int \<Rightarrow> string \<Rightarrow> ('w, 'a) platform_action) \<Rightarrow> ('w, 'a) platform_action" where
  "fresh ps f = andthen (the_time ps) (\<lambda>now. andthen (draw_hex ps) (\<lambda>hex. f now hex))"

definition found_or_404 :: "string \<Rightarrow> string \<Rightarrow> ('w, 'a option) platform_action \<Rightarrow> ('w, 'a) platform_action" where
  "found_or_404 kind i m = andthen m (\<lambda>r. case r of None \<Rightarrow> not_found_404 kind i | Some x \<Rightarrow> ret x)"

text \<open>\<open>raise_if_referenced\<close>: the 409 names who refers to the resource.\<close>

definition null_or_text :: "string option \<Rightarrow> pyval" where
  "null_or_text x = (case x of None \<Rightarrow> PNone | Some s \<Rightarrow> PStr s)"

definition referencing_resource :: "string option \<Rightarrow> agent_record \<Rightarrow> pyval" where
  "referencing_resource status r =
     PDict [(''type'', PStr ''agent''), (''id'', PStr (ag_id r)), (''name'', PStr (ag_name r)),
            (''project'', null_or_text (ag_project r)), (''status'', null_or_text status)]"

definition raise_if_referenced :: "pyval list \<Rightarrow> ('w, unit) platform_action" where
  "raise_if_referenced refs =
     (if refs = [] then ret () else http_error 409 (json_dumps (PDict [(''referenced_by'', PList refs)])))"

text \<open>The agents of a tenant whose current version refers to something.\<close>

definition agents_referencing :: "string \<Rightarrow> string option \<Rightarrow> (version_record \<Rightarrow> bool) \<Rightarrow> ('w, agent_record list) platform_action" where
  "agents_referencing tenant skip refers = on_agents (all_agents tenant (referencing_among skip refers))"

definition uses_skill :: "string \<Rightarrow> version_record \<Rightarrow> bool" where
  "uses_skill i v \<longleftrightarrow> PStr i \<in> set (items_of (dict_get ''skill_ids'' (vr_config v)))"

definition uses_policy :: "string \<Rightarrow> version_record \<Rightarrow> bool" where
  "uses_policy i v \<longleftrightarrow> dict_get ''guardrail_policy_id'' (vr_config v) = PStr i"

definition uses_agent :: "string \<Rightarrow> version_record \<Rightarrow> bool" where
  "uses_agent i v \<longleftrightarrow>
     (let orch = dict_get ''orchestration'' (vr_config v)
      in orch \<noteq> PNone \<and>
         (i \<in> set (sub_agent_ids (vr_config v)) \<or> PStr i \<in> set (items_of (dict_get ''sub_agent_ids'' orch)) \<or>
          dict_get ''parent_orchestrator_id'' orch = PStr i))"

section \<open>Prompts\<close>

definition list_prompts_route :: "user_row \<Rightarrow> ('w, prompt list) platform_action" where
  "list_prompts_route u = on_prompts (query_rows (us_tenant u))"

definition create_prompt_route ::
  "'w platform_services \<Rightarrow> user_row \<Rightarrow> string \<Rightarrow> string \<Rightarrow> string list \<Rightarrow> ('w, prompt) platform_action" where
  "create_prompt_route ps u name content tags =
     fresh ps (\<lambda>now hex. on_prompts (create_prompt now hex (us_tenant u) (us_email u) name content tags))"

definition get_prompt_route :: "user_row \<Rightarrow> string \<Rightarrow> ('w, prompt) platform_action" where
  "get_prompt_route u i = found_or_404 ''Prompt'' i (on_prompts (find_row (us_tenant u) i))"

definition update_prompt_route ::
  "'w platform_services \<Rightarrow> user_row \<Rightarrow> string \<Rightarrow> string option \<Rightarrow> string option \<Rightarrow> string list option
     \<Rightarrow> ('w, prompt) platform_action" where
  "update_prompt_route ps u i name content tags =
     andthen (the_time ps) (\<lambda>now.
       mapping ''PromptNotFoundError'' 404 (on_prompts (update_prompt now (us_tenant u) i (us_email u) name content tags)))"

definition delete_prompt_route :: "user_row \<Rightarrow> string \<Rightarrow> ('w, unit) platform_action" where
  "delete_prompt_route u i = on_prompts (delete_row (us_tenant u) i)"

section \<open>Skills\<close>

record skill_fields =
  sf_name :: string
  sf_description :: string
  sf_capability :: string
  sf_fragment :: string
  sf_input :: pyval
  sf_output :: pyval
  sf_version :: string

definition list_skills_route :: "user_row \<Rightarrow> ('w, skill list) platform_action" where
  "list_skills_route u = on_skills (query_rows (us_tenant u))"

definition create_skill_route :: "'w platform_services \<Rightarrow> user_row \<Rightarrow> skill_fields \<Rightarrow> ('w, skill) platform_action" where
  "create_skill_route ps u f =
     fresh ps (\<lambda>now hex. on_skills
       (create_skill now hex (us_tenant u) (us_email u) (sf_name f) (sf_description f) (sf_capability f) (sf_fragment f)
          (sf_input f) (sf_output f) (sf_version f)))"

definition get_skill_route :: "user_row \<Rightarrow> string \<Rightarrow> ('w, skill) platform_action" where
  "get_skill_route u i = found_or_404 ''Skill'' i (on_skills (find_row (us_tenant u) i))"

definition update_skill_route ::
  "'w platform_services \<Rightarrow> user_row \<Rightarrow> string \<Rightarrow> string \<Rightarrow> skill_update \<Rightarrow> ('w, skill) platform_action" where
  "update_skill_route ps u i change upd =
     andthen (the_time ps) (\<lambda>now.
       mapping ''SkillNotFoundError'' 404 (on_skills (update_skill now (us_tenant u) i (us_email u) change upd)))"

definition delete_skill_route :: "user_row \<Rightarrow> string \<Rightarrow> ('w, unit) platform_action" where
  "delete_skill_route u i =
     andthen (get_skill_route u i) (\<lambda>_.
     andthen (agents_referencing (us_tenant u) None (uses_skill i)) (\<lambda>refs.
     andthen (raise_if_referenced (map (referencing_resource None) refs)) (\<lambda>_.
       on_skills (delete_row (us_tenant u) i))))"

section \<open>Connectors\<close>

definition list_connectors_route :: "user_row \<Rightarrow> ('w, connector list) platform_action" where
  "list_connectors_route u = on_connectors (list_connectors (us_tenant u))"

definition create_connector_route :: "'w platform_services \<Rightarrow> user_row \<Rightarrow> connector_fields \<Rightarrow> ('w, connector) platform_action" where
  "create_connector_route ps u f =
     andthen (draw_hex ps) (\<lambda>hex. andthen (the_time ps) (\<lambda>now.
       on_connectors (create_connector now hex (us_tenant u) (us_email u) f)))"

definition get_connector_route :: "user_row \<Rightarrow> string \<Rightarrow> ('w, connector) platform_action" where
  "get_connector_route u i = found_or_404 ''Connector'' i (on_connectors (get_connector (us_tenant u) i))"

definition not_own_connector :: "string \<Rightarrow> ('w, 'a) platform_action" where
  "not_own_connector i = http_error 404 (''Connector '' @ repr_str i @ '' not found or is a global connector'')"

definition update_connector_route :: "user_row \<Rightarrow> string \<Rightarrow> connector_fields \<Rightarrow> ('w, connector) platform_action" where
  "update_connector_route u i f =
     andthen (on_connectors (get_tenant_owned_connector (us_tenant u) i)) (\<lambda>existing.
       case existing of
         None \<Rightarrow> not_own_connector i
       | Some _ \<Rightarrow>
           andthen (on_connectors (update_connector (us_tenant u) i f)) (\<lambda>updated.
             case updated of None \<Rightarrow> raising (Raised ''AssertionError'' []) | Some c \<Rightarrow> ret c))"

definition delete_connector_route :: "user_row \<Rightarrow> string \<Rightarrow> ('w, unit) platform_action" where
  "delete_connector_route u i =
     andthen (on_connectors (delete_connector (us_tenant u) i)) (\<lambda>deleted.
       if deleted then ret () else not_own_connector i)"

section \<open>Stored guardrail policies\<close>

text \<open>\<open>GuardrailPolicy(**item)\<close> refuses a row with a null where none may be.\<close>

definition read_policy :: "policy_row \<Rightarrow> ('s, guardrail_policy) prog" where
  "read_policy row = (case row of Policy p \<Rightarrow> ret p | Nulled _ _ \<Rightarrow> raising (ValidationError ''GuardrailPolicy''))"

fun read_policies :: "policy_row list \<Rightarrow> ('s, guardrail_policy list) prog" where
  "read_policies [] = ret []"
| "read_policies (r # rs) = andthen (read_policy r) (\<lambda>p. andthen (read_policies rs) (\<lambda>ps. ret (p # ps)))"

definition list_policies :: "string \<Rightarrow> (policy_row, guardrail_policy list) table_action" where
  "list_policies tenant = andthen (query_rows tenant) read_policies"

definition get_policy :: "string \<Rightarrow> string \<Rightarrow> (policy_row, guardrail_policy option) table_action" where
  "get_policy tenant i =
     andthen (find_row tenant i) (\<lambda>r.
       case r of None \<Rightarrow> ret None | Some row \<Rightarrow> andthen (read_policy row) (\<lambda>p. ret (Some p)))"

definition new_policy :: "int \<Rightarrow> string \<Rightarrow> string \<Rightarrow> string \<Rightarrow> policy_fields \<Rightarrow> guardrail_policy" where
  "new_policy now i tenant who f =
     \<lparr>gp_id = i, gp_tenant = tenant, gp_name = gf_name f, gp_description = gf_description f, gp_created = now,
      gp_updated = now, gp_by = who, gp_bert = gf_bert f, gp_bedrock = gf_bedrock f, gp_credential = gf_credential f,
      gp_guardrail = None, gp_version = ''DRAFT'', gp_filters = gf_filters f, gp_pii = gf_pii f,
      gp_banned = gf_banned f, gp_allowed = gf_allowed f, gp_rules = gf_rules f, gp_compliance = gf_compliance f,
      gp_messages = gf_messages f\<rparr>"

definition create_policy ::
  "int \<Rightarrow> string \<Rightarrow> string \<Rightarrow> string \<Rightarrow> policy_fields \<Rightarrow> (policy_row, guardrail_policy) table_action" where
  "create_policy now hex tenant who f =
     (let p = new_policy now (slug_id ''policy'' (gf_name f) hex) tenant who f
      in andthen (put_row tenant (gp_id p) (Policy p)) (\<lambda>_. ret p))"

text \<open>
  An update names the fields it sets. A field is left out (None), null (\<open>Some None\<close>) or given.
  The values are put into the row without being validated again.
\<close>

record policy_update =
  px_name :: "string option option"
  px_description :: "string option option"
  px_bert :: "bert_config option option"
  px_bedrock :: "bool option option"
  px_credential :: "string option option"
  px_filters :: "content_filters option option"
  px_pii :: "pii_config option option"
  px_topics :: "(string list \<times> string list option) option option"
  px_keywords :: "keyword_rule list option option"
  px_compliance :: "compliance_config option option"
  px_messages :: "blocked_messages option option"

definition given_or :: "'a \<Rightarrow> 'a option option \<Rightarrow> 'a" where
  "given_or d x = (case x of Some (Some v) \<Rightarrow> v | _ \<Rightarrow> d)"

definition nulled_fields :: "policy_update \<Rightarrow> string list" where
  "nulled_fields x =
     map fst (filter snd
       [(''name'', px_name x = Some None), (''description'', px_description x = Some None),
        (''bert'', px_bert x = Some None), (''bedrock_enabled'', px_bedrock x = Some None),
        (''bedrock_content_filters'', px_filters x = Some None), (''pii'', px_pii x = Some None),
        (''topics'', px_topics x = Some None), (''keywords'', px_keywords x = Some None),
        (''compliance'', px_compliance x = Some None), (''blocked_messages'', px_messages x = Some None)])"

definition edited_policy :: "int \<Rightarrow> policy_update \<Rightarrow> guardrail_policy \<Rightarrow> guardrail_policy" where
  "edited_policy now x p =
     (let topics = given_or (gp_banned p, gp_allowed p) (px_topics x)
      in p\<lparr>gp_name := given_or (gp_name p) (px_name x), gp_description := given_or (gp_description p) (px_description x),
           gp_bert := given_or (gp_bert p) (px_bert x), gp_bedrock := given_or (gp_bedrock p) (px_bedrock x),
           gp_credential := get_or (gp_credential p) (px_credential x),
           gp_filters := given_or (gp_filters p) (px_filters x), gp_pii := given_or (gp_pii p) (px_pii x),
           gp_banned := fst topics, gp_allowed := snd topics, gp_rules := given_or (gp_rules p) (px_keywords x),
           gp_compliance := given_or (gp_compliance p) (px_compliance x),
           gp_messages := given_or (gp_messages p) (px_messages x), gp_updated := now\<rparr>)"

definition policy_not_found :: "string \<Rightarrow> pyexn" where
  "policy_not_found i = Raised ''GuardrailPolicyNotFoundError'' (''Guardrail policy '' @ repr_str i @ '' not found'')"

definition update_policy :: "int \<Rightarrow> string \<Rightarrow> string \<Rightarrow> policy_update \<Rightarrow> (policy_row, policy_row) table_action" where
  "update_policy now tenant i x =
     andthen (get_policy tenant i) (\<lambda>r.
       case r of
         None \<Rightarrow> raising (policy_not_found i)
       | Some p \<Rightarrow>
           (let row = (if nulled_fields x = [] then Policy (edited_policy now x p)
                       else Nulled (edited_policy now x p) (nulled_fields x))
            in andthen (put_row tenant i row) (\<lambda>_. ret row)))"

definition set_guardrail ::
  "int \<Rightarrow> string \<Rightarrow> string \<Rightarrow> string \<Rightarrow> string \<Rightarrow> (policy_row, guardrail_policy) table_action" where
  "set_guardrail now tenant i gid version =
     andthen (get_policy tenant i) (\<lambda>r.
       case r of
         None \<Rightarrow> raising (policy_not_found i)
       | Some p \<Rightarrow>
           (let p' = p\<lparr>gp_guardrail := Some gid, gp_version := version, gp_updated := now\<rparr>
            in andthen (put_row tenant i (Policy p')) (\<lambda>_. ret p')))"

section \<open>Provisioning at Bedrock\<close>

definition policy_of :: "policy_row \<Rightarrow> guardrail_policy" where
  "policy_of row = (case row of Policy p \<Rightarrow> p | Nulled p _ \<Rightarrow> p)"

definition nulls_of :: "policy_row \<Rightarrow> string list" where
  "nulls_of row = (case row of Policy _ \<Rightarrow> [] | Nulled _ ns \<Rightarrow> ns)"

definition credential_not_found :: "string \<Rightarrow> pyexn" where
  "credential_not_found i = Raised ''BedrockCredentialNotFoundError'' (''Bedrock credential '' @ repr_str i @ '' not found'')"

definition resolve_client :: "'w platform_services \<Rightarrow> string \<Rightarrow> guardrail_policy \<Rightarrow> ('w, bedrock_client) platform_action" where
  "resolve_client ps tenant p =
     (if \<not> truthy (gp_credential p) then ret Ambient
      else
        (let i = get_or [] (gp_credential p)
         in andthen (on_credentials (find_row tenant i)) (\<lambda>found.
              case found of
                None \<Rightarrow> raising (credential_not_found i)
              | Some c \<Rightarrow>
                  on_world (\<lambda>w. case ps_assume ps (cr_role c) (take 64 (''panasa-guardrail-'' @ gp_id p)) w of
                    (Inl e, w') \<Rightarrow> (Inl e, w') | (Inr key, w') \<Rightarrow> (Inr (Assumed key), w')))))"

text \<open>The request of a row: a null where an object is expected is an AttributeError, a null text reads None.\<close>

definition row_request :: "policy_row \<Rightarrow> pyexn + (string \<times> pyval) list" where
  "row_request row =
     (let p = policy_of row; ns = nulls_of row;
          shown = p\<lparr>gp_name := (if ''name'' \<in> set ns then ''None'' else gp_name p),
                    gp_description := (if ''description'' \<in> set ns then ''None'' else gp_description p)\<rparr>
      in if \<exists>n \<in> set ns. n \<in> {''blocked_messages'', ''bedrock_content_filters'', ''pii'', ''topics'', ''keywords''}
         then Inl (AttributeError ''NoneType'') else Inr (build_request shown))"

definition provision_policy ::
  "'w platform_services \<Rightarrow> string \<Rightarrow> policy_row \<Rightarrow> ('w, string \<times> string) platform_action" where
  "provision_policy ps tenant row =
     (let p = policy_of row
      in if ps_mock_guardrails ps
         then (if truthy (gp_guardrail p) then ret (get_or [] (gp_guardrail p), gp_version p)
               else andthen (draw_hex ps) (\<lambda>hex. ret (''mock-gr-'' @ take 8 hex, ''1'')))
         else
           andthen (resolve_client ps tenant p) (\<lambda>client.
             case row_request row of
               Inl e \<Rightarrow> raising e
             | Inr rq \<Rightarrow>
                 on_world (ps_put_guardrail ps client
                   (if truthy (gp_guardrail p)
                    then rq @ [(''guardrailIdentifier'', null_or_text (gp_guardrail p))] else rq))))"

definition deprovision_policy :: "'w platform_services \<Rightarrow> string \<Rightarrow> guardrail_policy \<Rightarrow> ('w, unit) platform_action" where
  "deprovision_policy ps tenant p =
     (if \<not> truthy (gp_guardrail p) \<or> ps_mock_guardrails ps then ret ()
      else
        catching (andthen (resolve_client ps tenant p) (\<lambda>client.
                    on_world (ps_delete_guardrail ps client (get_or [] (gp_guardrail p)))))
          (\<lambda>_. ret ()))"

text \<open>The row after provisioning: None when there is nothing to provision.\<close>

definition provision_bedrock_guardrail ::
  "'w platform_services \<Rightarrow> string \<Rightarrow> policy_row \<Rightarrow> ('w, (string \<times> string) option) platform_action" where
  "provision_bedrock_guardrail ps tenant row =
     (if \<not> gp_bedrock (policy_of row) \<or> ''bedrock_enabled'' \<in> set (nulls_of row) then ret None
      else andthen (provision_policy ps tenant row) (\<lambda>gv. ret (Some gv)))"

definition credential_error_codes :: "string list" where
  "credential_error_codes = [''UnrecognizedClientException'', ''InvalidSignatureException'', ''ExpiredTokenException'']"

definition provisioning_error :: "pyexn \<Rightarrow> ('w, 'a) platform_action" where
  "provisioning_error e =
     (case e of
        ClientError code \<Rightarrow>
          (if code \<in> set credential_error_codes then http_error 503 ''aws_credentials_invalid''
           else http_error 502 ''Bedrock guardrail provisioning failed'')
      | _ \<Rightarrow> http_error 502 ''Bedrock guardrail provisioning failed'')"

section \<open>Guardrail policy routes\<close>

definition threshold_errors :: "bert_config \<Rightarrow> (string \<times> string) list" where
  "threshold_errors b =
     (if be_block b < min_bert_block_threshold then [(''bert.block_threshold'', ''cannot be set below 0.7'')] else []) @
     (if be_escalate b > max_bert_escalate_threshold then [(''bert.escalate_threshold'', ''cannot be set above 0.6'')] else []) @
     (if be_block b \<le> be_escalate b then [(''bert.block_threshold'', ''must be greater than bert.escalate_threshold'')] else [])"

definition validate_thresholds :: "bert_config \<Rightarrow> ('w, unit) platform_action" where
  "validate_thresholds b =
     (if threshold_errors b = [] then ret ()
      else http_error 422 (json_dumps (PList (map (\<lambda>(f, m).
             PDict [(''field'', PStr f), (''message'', PStr m)]) (threshold_errors b)))))"

definition list_policies_route :: "user_row \<Rightarrow> ('w, guardrail_policy list) platform_action" where
  "list_policies_route u = on_policies (list_policies (us_tenant u))"

definition get_policy_route :: "user_row \<Rightarrow> string \<Rightarrow> ('w, guardrail_policy) platform_action" where
  "get_policy_route u i = found_or_404 ''Guardrail policy'' i (on_policies (get_policy (us_tenant u) i))"

definition create_policy_route :: "'w platform_services \<Rightarrow> user_row \<Rightarrow> policy_fields \<Rightarrow> ('w, guardrail_policy) platform_action" where
  "create_policy_route ps u f =
     andthen (validate_thresholds (gf_bert f)) (\<lambda>_.
     andthen (fresh ps (\<lambda>now hex. on_policies (create_policy now hex (us_tenant u) (us_email u) f))) (\<lambda>created.
     andthen (catching (provision_bedrock_guardrail ps (us_tenant u) (Policy created))
                (\<lambda>e. andthen (on_policies (delete_row (us_tenant u) (gp_id created))) (\<lambda>_. provisioning_error e))) (\<lambda>gv.
       case gv of
         None \<Rightarrow> ret created
       | Some (gid, version) \<Rightarrow>
           andthen (the_time ps) (\<lambda>now. on_policies (set_guardrail now (us_tenant u) (gp_id created) gid version)))))"

text \<open>A row that does not validate as the response is an error of the server.\<close>

definition update_policy_route ::
  "'w platform_services \<Rightarrow> user_row \<Rightarrow> string \<Rightarrow> policy_update \<Rightarrow> ('w, guardrail_policy) platform_action" where
  "update_policy_route ps u i x =
     andthen (get_policy_route u i) (\<lambda>existing.
     andthen (validate_thresholds (given_or (gp_bert existing) (px_bert x))) (\<lambda>_.
     andthen (the_time ps) (\<lambda>now.
     andthen (mapping ''GuardrailPolicyNotFoundError'' 404 (on_policies (update_policy now (us_tenant u) i x))) (\<lambda>row.
     andthen (catching (provision_bedrock_guardrail ps (us_tenant u) row) provisioning_error) (\<lambda>gv.
       case gv of
         None \<Rightarrow> read_policy row
       | Some (gid, version) \<Rightarrow>
           andthen (the_time ps) (\<lambda>later. on_policies (set_guardrail later (us_tenant u) i gid version)))))))"

definition delete_policy_route :: "'w platform_services \<Rightarrow> user_row \<Rightarrow> string \<Rightarrow> ('w, unit) platform_action" where
  "delete_policy_route ps u i =
     andthen (get_policy_route u i) (\<lambda>p.
     andthen (agents_referencing (us_tenant u) None (uses_policy i)) (\<lambda>refs.
       if refs \<noteq> []
       then http_error 409 (''Guardrail policy '' @ repr_str i @ '' is still referenced by agent(s): ''
              @ join_with '', '' (map ag_id refs))
       else
         andthen (deprovision_policy ps (us_tenant u) p) (\<lambda>_. on_policies (delete_row (us_tenant u) i))))"

section \<open>Bedrock credentials\<close>

definition list_credentials_route :: "user_row \<Rightarrow> ('w, credential list) platform_action" where
  "list_credentials_route u = on_credentials (query_rows (us_tenant u))"

definition create_credential_route ::
  "'w platform_services \<Rightarrow> user_row \<Rightarrow> string \<Rightarrow> string \<Rightarrow> ('w, credential) platform_action" where
  "create_credential_route ps u name arn =
     fresh ps (\<lambda>now hex.
       let c = \<lparr>cr_tenant = us_tenant u, cr_id = slug_id ''credential'' name hex, cr_name = name, cr_role = arn,
                cr_by = us_email u, cr_created = now\<rparr>
       in andthen (on_credentials (put_row (us_tenant u) (cr_id c) c)) (\<lambda>_. ret c))"

definition get_credential_route :: "user_row \<Rightarrow> string \<Rightarrow> ('w, credential) platform_action" where
  "get_credential_route u i = found_or_404 ''Bedrock credential'' i (on_credentials (find_row (us_tenant u) i))"

definition delete_credential_route :: "user_row \<Rightarrow> string \<Rightarrow> ('w, unit) platform_action" where
  "delete_credential_route u i =
     andthen (get_credential_route u i) (\<lambda>_.
     andthen (on_policies (list_policies (us_tenant u))) (\<lambda>policies.
       let refs = [gp_id p. p \<leftarrow> policies, gp_credential p = Some i]
       in if refs \<noteq> []
          then http_error 409 (''Bedrock credential '' @ repr_str i @ '' is still referenced by guardrail policy(ies): ''
                 @ join_with '', '' refs)
          else on_credentials (delete_row (us_tenant u) i)))"

section \<open>Projects and their agents\<close>

record project_fields =
  jf_name :: string
  jf_description :: string
  jf_tags :: "string list"
  jf_policy :: "string option"

definition list_projects_route :: "user_row \<Rightarrow> ('w, project list) platform_action" where
  "list_projects_route u = on_projects (query_rows (us_tenant u))"

definition create_project_route :: "'w platform_services \<Rightarrow> user_row \<Rightarrow> project_fields \<Rightarrow> ('w, project) platform_action" where
  "create_project_route ps u f =
     fresh ps (\<lambda>now hex. on_projects
       (create_project now hex (us_tenant u) (us_email u) (jf_name f) (jf_description f) (jf_tags f) (jf_policy f)))"

definition get_project_route :: "user_row \<Rightarrow> string \<Rightarrow> ('w, project) platform_action" where
  "get_project_route u i = found_or_404 ''Project'' i (on_projects (find_row (us_tenant u) i))"

definition update_project_route ::
  "'w platform_services \<Rightarrow> user_row \<Rightarrow> string \<Rightarrow> project_update \<Rightarrow> ('w, project) platform_action" where
  "update_project_route ps u i x =
     andthen (the_time ps) (\<lambda>now.
       mapping ''ProjectNotFoundError'' 404 (on_projects (update_project now (us_tenant u) i x)))"

definition delete_project_route :: "user_row \<Rightarrow> string \<Rightarrow> ('w, unit) platform_action" where
  "delete_project_route u i =
     andthen (get_project_route u i) (\<lambda>_.
     andthen (on_agents (list_agents_by_project (us_tenant u) i)) (\<lambda>agents.
     andthen (raise_if_referenced (map (\<lambda>a. referencing_resource (ag_lifecycle a) a) agents)) (\<lambda>_.
       on_projects (delete_row (us_tenant u) i))))"

text \<open>Classes of the registry's errors (shared/exceptions.py) that a route turns into an answer, and their texts.\<close>

definition registry_error_text :: "pyexn \<Rightarrow> string" where
  "registry_error_text e =
     (case e of
        UnknownAgentError a \<Rightarrow> ''Agent '' @ repr_str a @ '' not found''
      | CircularDependencyError reason \<Rightarrow> reason
      | VersionNotFoundError a n \<Rightarrow> ''Version '' @ int_text n @ '' of agent '' @ repr_str a @ '' not found''
      | InvalidRollbackError reason \<Rightarrow> reason
      | _ \<Rightarrow> [])"

definition registry_errors :: "(pyexn \<Rightarrow> int option) \<Rightarrow> ('w, 'a) platform_action \<Rightarrow> ('w, 'a) platform_action" where
  "registry_errors code m =
     catching m (\<lambda>e. case code e of None \<Rightarrow> raising e | Some n \<Rightarrow> http_error n (registry_error_text e))"

definition update_error_code :: "pyexn \<Rightarrow> int option" where
  "update_error_code e =
     (case e of UnknownAgentError _ \<Rightarrow> Some 404 | CircularDependencyError _ \<Rightarrow> Some 409 | _ \<Rightarrow> None)"

definition rollback_error_code :: "pyexn \<Rightarrow> int option" where
  "rollback_error_code e =
     (case e of VersionNotFoundError _ _ \<Rightarrow> Some 404 | InvalidRollbackError _ \<Rightarrow> Some 400 | _ \<Rightarrow> None)"

definition require_project_agent :: "user_row \<Rightarrow> string \<Rightarrow> string \<Rightarrow> ('w, agent_record) platform_action" where
  "require_project_agent u project agent =
     andthen (on_agents (get_agent_in_project (us_tenant u) project agent)) (\<lambda>r.
       case r of
         None \<Rightarrow> http_error 404 (''Agent '' @ repr_str agent @ '' not found in project '' @ repr_str project)
       | Some x \<Rightarrow> ret x)"

definition list_project_agents_route :: "user_row \<Rightarrow> string \<Rightarrow> ('w, agent_record list) platform_action" where
  "list_project_agents_route u project =
     andthen (get_project_route u project) (\<lambda>_. on_agents (list_agents_by_project (us_tenant u) project))"

record agent_fields =
  af_name :: string
  af_description :: string
  af_purpose :: string
  af_type :: string
  af_config :: pyval
  af_owner :: "string option"

definition create_project_agent_route ::
  "'w platform_services \<Rightarrow> user_row \<Rightarrow> string \<Rightarrow> agent_fields \<Rightarrow> ('w, agent_record) platform_action" where
  "create_project_agent_route ps u project f =
     andthen (get_project_route u project) (\<lambda>_.
     andthen (draw_hexes ps 5) (\<lambda>hexes.
     andthen (the_time ps) (\<lambda>now.
     andthen (registry_errors (\<lambda>e. case e of CircularDependencyError _ \<Rightarrow> Some 409 | _ \<Rightarrow> None)
                (on_agents (create_agent (ps_sha256 ps) (ps_version ps) (At now) hexes (us_tenant u)
                  \<lparr>na_name = af_name f, na_description = af_description f, na_purpose = af_purpose f,
                   na_type = af_type f, na_config = af_config f, na_by = us_email u, na_project = Some project,
                   na_owner = af_owner f, na_tags = [], na_changelog = None\<rparr>))) (\<lambda>(r, v).
     andthen (on_projects (add_agent_id now (us_tenant u) project (ag_id r))) (\<lambda>_. ret r)))))"

definition update_project_agent_route ::
  "'w platform_services \<Rightarrow> user_row \<Rightarrow> string \<Rightarrow> string \<Rightarrow> pyval \<Rightarrow> string \<Rightarrow> ('w, agent_record) platform_action" where
  "update_project_agent_route ps u project agent cfg change =
     andthen (require_project_agent u project agent) (\<lambda>_.
     andthen (the_time ps) (\<lambda>now.
     andthen (registry_errors update_error_code
                (on_agents (update_agent (ps_sha256 ps) (At now) (us_tenant u) agent cfg (us_email u) change
                  no_identity_updates))) (\<lambda>_.
     andthen (the_time ps) (\<lambda>later.
       on_agents (set_project_draft_after_edit (At later) (us_tenant u) agent (us_email u))))))"

definition delete_project_agent_route ::
  "'w platform_services \<Rightarrow> user_row \<Rightarrow> string \<Rightarrow> string \<Rightarrow> ('w, unit) platform_action" where
  "delete_project_agent_route ps u project agent =
     andthen (require_project_agent u project agent) (\<lambda>r.
       if ag_lifecycle r \<noteq> Some ''archived''
       then http_error 422 (''Agent '' @ repr_str agent @ '' must be archived before it can be deleted (current status: ''
              @ py_repr (null_or_text (ag_lifecycle r)) @ '').'')
       else
         andthen (agents_referencing (us_tenant u) (Some agent) (uses_agent agent)) (\<lambda>refs.
         andthen (raise_if_referenced (map (referencing_resource None) refs)) (\<lambda>_.
         andthen (on_agents (hard_delete_agent (us_tenant u) agent)) (\<lambda>_.
         andthen (the_time ps) (\<lambda>now.
         andthen (on_projects (remove_agent_id now (us_tenant u) project agent)) (\<lambda>_. ret ()))))))"

definition lifecycle_route ::
  "'w platform_services \<Rightarrow> user_row \<Rightarrow> string \<Rightarrow> string \<Rightarrow> (stamp \<Rightarrow> agent_record reg_action) \<Rightarrow> ('w, agent_record) platform_action" where
  "lifecycle_route ps u project agent act =
     andthen (require_project_agent u project agent) (\<lambda>_.
     andthen (the_time ps) (\<lambda>now. on_agents (act (At now))))"

definition publish_project_agent_route ::
  "'w platform_services \<Rightarrow> user_row \<Rightarrow> string \<Rightarrow> string \<Rightarrow> ('w, agent_record) platform_action" where
  "publish_project_agent_route ps u project agent =
     lifecycle_route ps u project agent (\<lambda>now. publish_agent now (us_tenant u) agent (us_email u))"

definition archive_project_agent_route ::
  "'w platform_services \<Rightarrow> user_row \<Rightarrow> string \<Rightarrow> string \<Rightarrow> ('w, agent_record) platform_action" where
  "archive_project_agent_route ps u project agent =
     lifecycle_route ps u project agent (\<lambda>now. archive_agent now (us_tenant u) agent (us_email u))"

definition rollback_project_agent_route ::
  "'w platform_services \<Rightarrow> user_row \<Rightarrow> string \<Rightarrow> string \<Rightarrow> int \<Rightarrow> ('w, agent_record) platform_action" where
  "rollback_project_agent_route ps u project agent target =
     registry_errors rollback_error_code
       (lifecycle_route ps u project agent (\<lambda>now. rollback_project_agent now (us_tenant u) agent target (us_email u)))"

section \<open>The routes behind the guard\<close>

datatype catalog_request =
    ListPrompts | CreatePrompt string string "string list" | GetPrompt string
  | UpdatePrompt string "string option" "string option" "string list option" | DeletePrompt string
  | ListSkills | CreateSkill skill_fields | GetSkill string | UpdateSkill string string skill_update | DeleteSkill string
  | ListConnectors | CreateConnector connector_fields | GetConnector string
  | UpdateConnector string connector_fields | DeleteConnector string
  | ListCredentials | CreateCredential string string | GetCredential string | DeleteCredential string
  | ListPolicies | CreatePolicy policy_fields | GetPolicy string | UpdatePolicy string policy_update | DeletePolicy string
  | ListProjects | CreateProject project_fields | GetProject string | UpdateProject string project_update
  | DeleteProject string
  | ListProjectAgents string | CreateProjectAgent string agent_fields | GetProjectAgent string string
  | UpdateProjectAgent string string pyval string | DeleteProjectAgent string string
  | PublishAgent string string | ArchiveAgent string string | RollbackAgent string string int

datatype catalog_reply =
    Prompts "prompt list" | APrompt prompt | Skills "skill list" | ASkill skill
  | Connectors "connector list" | AConnector connector | Credentials "credential list" | ACredential credential
  | Policies "guardrail_policy list" | APolicy guardrail_policy | Projects "project list" | AProject project
  | Agents "agent_record list" | AnAgent agent_record | NoContent

definition replying :: "('a \<Rightarrow> catalog_reply) \<Rightarrow> ('w, 'a) platform_action \<Rightarrow> ('w, catalog_reply) platform_action" where
  "replying f m = andthen m (\<lambda>x. ret (f x))"

text \<open>The roles of the routers: everyone reads; what a developer may write, and what only an admin may.\<close>

definition read_roles :: "string list" where "read_roles = [''developer'', ''analyst'', ''auditor'']"
definition write_roles :: "string list" where "write_roles = [''developer'']"
definition admin_roles :: "string list" where "admin_roles = []"

fun route_roles :: "catalog_request \<Rightarrow> string list" where
  "route_roles ListPrompts = read_roles" | "route_roles (GetPrompt _) = read_roles"
| "route_roles ListSkills = read_roles" | "route_roles (GetSkill _) = read_roles"
| "route_roles ListConnectors = read_roles" | "route_roles (GetConnector _) = read_roles"
| "route_roles ListCredentials = read_roles" | "route_roles (GetCredential _) = read_roles"
| "route_roles ListPolicies = read_roles" | "route_roles (GetPolicy _) = read_roles"
| "route_roles ListProjects = read_roles" | "route_roles (GetProject _) = read_roles"
| "route_roles (ListProjectAgents _) = read_roles" | "route_roles (GetProjectAgent _ _) = read_roles"
| "route_roles (CreateSkill _) = admin_roles" | "route_roles (UpdateSkill _ _ _) = admin_roles"
| "route_roles (DeleteSkill _) = admin_roles"
| "route_roles (CreateCredential _ _) = admin_roles" | "route_roles (DeleteCredential _) = admin_roles"
| "route_roles (CreatePolicy _) = admin_roles" | "route_roles (UpdatePolicy _ _) = admin_roles"
| "route_roles (DeletePolicy _) = admin_roles"
| "route_roles _ = write_roles"

fun handle_catalog :: "'w platform_services \<Rightarrow> user_row \<Rightarrow> catalog_request \<Rightarrow> ('w, catalog_reply) platform_action" where
  "handle_catalog ps u ListPrompts = replying Prompts (list_prompts_route u)"
| "handle_catalog ps u (CreatePrompt n c ts) = replying APrompt (create_prompt_route ps u n c ts)"
| "handle_catalog ps u (GetPrompt i) = replying APrompt (get_prompt_route u i)"
| "handle_catalog ps u (UpdatePrompt i n c ts) = replying APrompt (update_prompt_route ps u i n c ts)"
| "handle_catalog ps u (DeletePrompt i) = replying (\<lambda>_. NoContent) (delete_prompt_route u i)"
| "handle_catalog ps u ListSkills = replying Skills (list_skills_route u)"
| "handle_catalog ps u (CreateSkill f) = replying ASkill (create_skill_route ps u f)"
| "handle_catalog ps u (GetSkill i) = replying ASkill (get_skill_route u i)"
| "handle_catalog ps u (UpdateSkill i c x) = replying ASkill (update_skill_route ps u i c x)"
| "handle_catalog ps u (DeleteSkill i) = replying (\<lambda>_. NoContent) (delete_skill_route u i)"
| "handle_catalog ps u ListConnectors = replying Connectors (list_connectors_route u)"
| "handle_catalog ps u (CreateConnector f) = replying AConnector (create_connector_route ps u f)"
| "handle_catalog ps u (GetConnector i) = replying AConnector (get_connector_route u i)"
| "handle_catalog ps u (UpdateConnector i f) = replying AConnector (update_connector_route u i f)"
| "handle_catalog ps u (DeleteConnector i) = replying (\<lambda>_. NoContent) (delete_connector_route u i)"
| "handle_catalog ps u ListCredentials = replying Credentials (list_credentials_route u)"
| "handle_catalog ps u (CreateCredential n arn) = replying ACredential (create_credential_route ps u n arn)"
| "handle_catalog ps u (GetCredential i) = replying ACredential (get_credential_route u i)"
| "handle_catalog ps u (DeleteCredential i) = replying (\<lambda>_. NoContent) (delete_credential_route u i)"
| "handle_catalog ps u ListPolicies = replying Policies (list_policies_route u)"
| "handle_catalog ps u (CreatePolicy f) = replying APolicy (create_policy_route ps u f)"
| "handle_catalog ps u (GetPolicy i) = replying APolicy (get_policy_route u i)"
| "handle_catalog ps u (UpdatePolicy i x) = replying APolicy (update_policy_route ps u i x)"
| "handle_catalog ps u (DeletePolicy i) = replying (\<lambda>_. NoContent) (delete_policy_route ps u i)"
| "handle_catalog ps u ListProjects = replying Projects (list_projects_route u)"
| "handle_catalog ps u (CreateProject f) = replying AProject (create_project_route ps u f)"
| "handle_catalog ps u (GetProject i) = replying AProject (get_project_route u i)"
| "handle_catalog ps u (UpdateProject i x) = replying AProject (update_project_route ps u i x)"
| "handle_catalog ps u (DeleteProject i) = replying (\<lambda>_. NoContent) (delete_project_route u i)"
| "handle_catalog ps u (ListProjectAgents p) = replying Agents (list_project_agents_route u p)"
| "handle_catalog ps u (CreateProjectAgent p f) = replying AnAgent (create_project_agent_route ps u p f)"
| "handle_catalog ps u (GetProjectAgent p a) = replying AnAgent (require_project_agent u p a)"
| "handle_catalog ps u (UpdateProjectAgent p a cfg c) = replying AnAgent (update_project_agent_route ps u p a cfg c)"
| "handle_catalog ps u (DeleteProjectAgent p a) = replying (\<lambda>_. NoContent) (delete_project_agent_route ps u p a)"
| "handle_catalog ps u (PublishAgent p a) = replying AnAgent (publish_project_agent_route ps u p a)"
| "handle_catalog ps u (ArchiveAgent p a) = replying AnAgent (archive_project_agent_route ps u p a)"
| "handle_catalog ps u (RollbackAgent p a n) = replying AnAgent (rollback_project_agent_route ps u p a n)"

definition serve_catalog ::
  "'w platform_services \<Rightarrow> string option \<Rightarrow> catalog_request \<Rightarrow> ('w, catalog_reply) platform_action" where
  "serve_catalog ps bearer rq = guarded ps bearer (route_roles rq) (\<lambda>u. handle_catalog ps u rq)"

end
