(* ===== verification/CatalogRules.thy ===== *)
theory CatalogRules
  imports CatalogRoutes
begin

text \<open>
  What the library routes keep: a request changes rows of its caller's tenant only, a reader changes
  nothing, and a resource an agent uses is not deleted.
\<close>

section \<open>The registry's rows of one tenant\<close>

text \<open>
  On a registry whose records carry their keys, only the rows of one tenant change, and the records
  still carry their keys.
\<close>

definition registry_only :: "string \<Rightarrow> registry \<Rightarrow> registry \<Rightarrow> bool" where
  "registry_only tenant s t \<longleftrightarrow>
     (keyed s \<longrightarrow> keyed t \<and> (\<forall>u a. u \<noteq> tenant \<longrightarrow> map_of (rg_agents t) (u, a) = map_of (rg_agents s) (u, a)))"

interpretation registry_only_frame: frame "registry_only tenant" for tenant
  by unfold_locales (auto simp: registry_only_def)

lemma registry_only_reads:
  "stays_in (same rg_agents) m \<Longrightarrow> stays_in (registry_only tenant) m"
  by (simp add: stays_in_def same_def registry_only_def keyed_def)

lemma put_agent_only: "ag_tenant r = tenant \<Longrightarrow> stays_in (registry_only tenant) (put_agent r)"
  by (auto simp: stays_in_def registry_only_def put_agent_def modifies_def keyed_def AList.update_conv')

lemma versions_only [frame_intros]:
  "stays_in (registry_only tenant) (write_version v)" "stays_in (registry_only tenant) (record_derived_fields a n fs)"
  "stays_in (registry_only tenant) (delete_version a n)"
  by (auto simp: stays_in_def registry_only_def keyed_def write_version_def record_derived_fields_def delete_version_def
      prog_simps)

lemma reads_only [frame_intros]:
  "stays_in (registry_only tenant) (get_version a n)" "stays_in (registry_only tenant) (list_versions a)"
  "stays_in (registry_only tenant) (require_version a n)" "stays_in (registry_only tenant) (require_agent u a)"
  "stays_in (registry_only tenant) (validate_no_cycle u ag cfg)"
  "stays_in (registry_only tenant) (find_version_with_status a l)"
  "stays_in (registry_only tenant) (list_agents_by_project u pj)"
  "stays_in (registry_only tenant) (get_agent_in_project u pj a)"
  by (rule registry_only_reads, intro frame_intros)+

lemma allocate_only [frame_intros]: "stays_in (registry_only tenant) (allocate_agent_id name hs)"
  by (induction hs) (auto intro!: frame_intros)

text \<open>After \<open>require_agent\<close> the record at hand is the tenant's.\<close>

lemma required_only:
  assumes "\<And>r. ag_tenant r = tenant \<Longrightarrow> ag_id r = agent \<Longrightarrow> stays_in (registry_only tenant) (f r)"
  shows "stays_in (registry_only tenant) (andthen (require_agent tenant agent) f)"
proof (rule stays_inI, erule andthen_cases)
  fix s r t e
  assume "require_agent tenant agent s = (Inl e, t)"
  then have "t = s" by (rule reading_state) (intro frame_intros)
  then show "registry_only tenant s t" by (simp add: registry_only_frame.frame_refl)
next
  fix s q t r u
  assume "require_agent tenant agent s = (Inr r, u)" and f: "f r u = (q, t)"
  then have r: "readable s tenant agent r" and u: "u = s" by (simp_all add: require_agent_Inr)
  show "registry_only tenant s t"
  proof (cases "keyed s")
    case True
    from readable_key [OF this r] assms have "stays_in (registry_only tenant) (f r)" by simp
    from stays_inD [OF this f] u show ?thesis by simp
  qed (simp add: registry_only_def)
qed

lemma stamped_key [simp]:
  "ag_tenant (stamped who now r) = ag_tenant r" "ag_id (stamped who now r) = ag_id r"
  "ag_tenant (with_lifecycle who now l r) = ag_tenant r" "ag_id (with_lifecycle who now l r) = ag_id r"
  by (simp_all add: stamped_def with_lifecycle_def)

lemma create_agent_only [frame_intros]: "stays_in (registry_only tenant) (create_agent sha pv now hs tenant na)"
  unfolding create_agent_def Let_def
  by (intro frame_intros put_agent_only) (simp add: initial_record_def)

lemma update_agent_only [frame_intros]:
  "stays_in (registry_only tenant) (update_agent sha now tenant agent cfg who change iu)"
  unfolding update_agent_def create_new_version_def Let_def option.case
  by (intro required_only frame_intros put_agent_only) (simp add: apply_identity_def)

lemma lifecycle_only [frame_intros]:
  "stays_in (registry_only tenant) (set_project_draft_after_edit now tenant agent who)"
  "stays_in (registry_only tenant) (publish_agent now tenant agent who)"
  "stays_in (registry_only tenant) (archive_agent now tenant agent who)"
  "stays_in (registry_only tenant) (rollback_project_agent now tenant agent target who)"
  unfolding set_project_draft_after_edit_def publish_agent_def archive_agent_def rollback_project_agent_def Let_def
  by (intro required_only frame_intros put_agent_only; simp)+

lemma delete_versions_only [frame_intros]: "stays_in (registry_only tenant) (delete_versions agent vs)"
  by (induction vs) (auto intro!: frame_intros)

lemma hard_delete_only [frame_intros]: "stays_in (registry_only tenant) (hard_delete_agent tenant agent)"
proof -
  have "stays_in (registry_only tenant) (modifies (\<lambda>s. s\<lparr>rg_agents := AList.delete (tenant, a) (rg_agents s)\<rparr>))" for a
    by (auto simp: stays_in_def registry_only_def modifies_def keyed_def AList.delete_conv')
  then show ?thesis
    unfolding hard_delete_agent_def by (intro required_only frame_intros)
qed

section \<open>The rows of one tenant\<close>

definition own_rows :: "string \<Rightarrow> 'w platform \<Rightarrow> 'w platform \<Rightarrow> bool" where
  "own_rows tenant s t \<longleftrightarrow>
     registry_only tenant (fc_registry (pl_factory s)) (fc_registry (pl_factory t)) \<and>
     fc_deployments (pl_factory t) = fc_deployments (pl_factory s) \<and>
     tenant_only tenant (pl_connectors s) (pl_connectors t) \<and> tenant_only tenant (pl_kbs s) (pl_kbs t) \<and>
     tenant_only tenant (pl_policies s) (pl_policies t) \<and> tenant_only tenant (pl_credentials s) (pl_credentials t) \<and>
     tenant_only tenant (pl_skills s) (pl_skills t) \<and> tenant_only tenant (pl_prompts s) (pl_prompts t) \<and>
     tenant_only tenant (pl_projects s) (pl_projects t) \<and> tenant_only tenant (pl_builds s) (pl_builds t) \<and>
     tenant_only tenant (pl_settings s) (pl_settings t) \<and>
     pl_tools t = pl_tools s \<and> pl_users t = pl_users s"

interpretation own_rows_frame: frame "own_rows tenant" for tenant
  by unfold_locales
    (auto simp: own_rows_def registry_only_frame.frame_refl tenant_frame.frame_refl
      intro: registry_only_frame.frame_trans tenant_frame.frame_trans)

lemma on_part_frame:
  assumes "stays_in Q m" and "\<And>s t. Q (part s) t \<Longrightarrow> R s (put t s)"
  shows "stays_in R (on_part part put m)"
  using assms by (auto simp: stays_in_def on_part_def split: prod.splits) (metis snd_conv)

lemma on_tables_own [frame_intros]:
  "stays_in (tenant_only tenant) m1 \<Longrightarrow> stays_in (own_rows tenant) (on_connectors m1)"
  "stays_in (tenant_only tenant) m2 \<Longrightarrow> stays_in (own_rows tenant) (on_kbs m2)"
  "stays_in (tenant_only tenant) m3 \<Longrightarrow> stays_in (own_rows tenant) (on_policies m3)"
  "stays_in (tenant_only tenant) m4 \<Longrightarrow> stays_in (own_rows tenant) (on_credentials m4)"
  "stays_in (tenant_only tenant) m5 \<Longrightarrow> stays_in (own_rows tenant) (on_skills m5)"
  "stays_in (tenant_only tenant) m6 \<Longrightarrow> stays_in (own_rows tenant) (on_prompts m6)"
  "stays_in (tenant_only tenant) m7 \<Longrightarrow> stays_in (own_rows tenant) (on_projects m7)"
  "stays_in (tenant_only tenant) m8 \<Longrightarrow> stays_in (own_rows tenant) (on_builds m8)"
  "stays_in (tenant_only tenant) m9 \<Longrightarrow> stays_in (own_rows tenant) (on_settings m9)"
  unfolding on_connectors_def on_kbs_def on_policies_def on_credentials_def on_skills_def on_prompts_def
    on_projects_def on_builds_def on_settings_def
  by (erule on_part_frame, simp add: own_rows_def registry_only_frame.frame_refl tenant_frame.frame_refl)+

lemma on_agents_own [frame_intros]:
  assumes "stays_in (registry_only tenant) m"
  shows "stays_in (own_rows tenant) (on_agents m)"
proof -
  have "stays_in (\<lambda>s t. registry_only tenant (fc_registry s) (fc_registry t) \<and> fc_deployments t = fc_deployments s)
      (on_registry m)"
    using assms by (auto simp: stays_in_def on_registry_def split: prod.splits) (metis snd_conv)
  then show ?thesis
    unfolding on_agents_def on_factory_def
    by (rule on_part_frame) (simp add: own_rows_def tenant_frame.frame_refl)
qed

lemma all_agents_only [frame_intros]:
  "stays_in (registry_only tenant) (all_agents u (referencing_among skip refers))"
proof (rule registry_only_reads)
  have "stays_in (same rg_agents) (agent_pages n u (referencing_among skip refers) c)" for n c
    by (induction n u "referencing_among skip refers" c rule: agent_pages.induct) (auto intro!: frame_intros)
  then show "stays_in (same rg_agents) (all_agents u (referencing_among skip refers))"
    by (simp add: stays_in_def all_agents_def del: agent_pages.simps)
qed

lemma world_own [frame_intros]:
  "stays_in (own_rows tenant) (on_world m)" "stays_in (own_rows tenant) (the_time ps)"
  by (auto simp: stays_in_def on_world_def on_part_def the_time_def on_factory_def now_at_def reads_def own_rows_def
      registry_only_frame.frame_refl tenant_frame.frame_refl split: prod.splits)

lemma draws_own [frame_intros]:
  "stays_in (own_rows tenant) (draw_hex ps)" "stays_in (own_rows tenant) (draw_hexes ps n)"
proof -
  show d: "stays_in (own_rows tenant) (draw_hex ps)" unfolding draw_hex_def by (intro frame_intros)
  show "stays_in (own_rows tenant) (draw_hexes ps n)" by (induction n) (auto intro!: frame_intros d)
qed

lemma fresh_own [frame_intros]: "(\<And>now hex. stays_in (own_rows tenant) (f now hex)) \<Longrightarrow> stays_in (own_rows tenant) (fresh ps f)"
  unfolding fresh_def by (intro frame_intros)

lemma errors_own [frame_intros]:
  "stays_in (own_rows tenant) (http_error n d)" "stays_in (own_rows tenant) (not_found_404 k i)"
  "stays_in (own_rows tenant) (not_own_connector i)" "stays_in (own_rows tenant) (raise_if_referenced refs)"
  unfolding not_found_404_def not_own_connector_def raise_if_referenced_def http_error_def
  by (intro frame_intros)+

lemma mapping_own [frame_intros]: "stays_in (own_rows tenant) m \<Longrightarrow> stays_in (own_rows tenant) (mapping c n m)"
  unfolding mapping_def
  by (intro frame_intros) (auto intro!: frame_intros split: pyexn.split)

lemma registry_errors_own [frame_intros]:
  "stays_in (own_rows tenant) m \<Longrightarrow> stays_in (own_rows tenant) (registry_errors code m)"
  unfolding registry_errors_def by (intro frame_intros)

lemma found_own [frame_intros]: "stays_in (own_rows tenant) m \<Longrightarrow> stays_in (own_rows tenant) (found_or_404 k i m)"
  unfolding found_or_404_def by (intro frame_intros)

lemma referencing_own [frame_intros]: "stays_in (own_rows tenant) (agents_referencing u skip refers)"
  unfolding agents_referencing_def by (intro frame_intros)

lemma provisioning_error_own [frame_intros]: "stays_in (own_rows tenant) (provisioning_error e)"
  unfolding provisioning_error_def by (cases e) (auto intro!: frame_intros)

section \<open>Every route stays with its caller's tenant\<close>

lemma read_policies_quiet [frame_intros]:
  fixes obs :: "'s \<Rightarrow> 'b"
  shows "stays_in (tenant_only tenant) (read_policy row)" "stays_in (tenant_only tenant) (read_policies rows)"
    "stays_in (same obs) (read_policy row)" "stays_in (same obs) (read_policies rows)"
    "stays_in (own_rows tenant) (read_policy row)"
proof -
  show "stays_in (tenant_only tenant) (read_policies rows)"
    by (induction rows) (auto simp: read_policy_def intro!: frame_intros split: policy_row.splits)
  show "stays_in (same obs) (read_policies rows)" 
    by (induction rows) (auto simp: read_policy_def intro!: frame_intros split: policy_row.splits)
qed (auto simp: read_policy_def intro!: frame_intros split: policy_row.splits)

lemma policy_store_tenant [frame_intros]:
  "stays_in (tenant_only tenant) (list_policies u)" "stays_in (tenant_only tenant) (get_policy u i)"
  "stays_in (tenant_only tenant) (create_policy now hex tenant who f)"
  "stays_in (tenant_only tenant) (update_policy now tenant i x)"
  "stays_in (tenant_only tenant) (set_guardrail now tenant i gid version)"
  unfolding list_policies_def get_policy_def create_policy_def update_policy_def set_guardrail_def Let_def
  by (intro frame_intros)+

lemma prompt_routes_own [frame_intros]:
  "stays_in (own_rows (us_tenant u)) (list_prompts_route u)"
  "stays_in (own_rows (us_tenant u)) (create_prompt_route ps u n c ts)"
  "stays_in (own_rows (us_tenant u)) (get_prompt_route u i)"
  "stays_in (own_rows (us_tenant u)) (update_prompt_route ps u i n' c' ts')"
  "stays_in (own_rows (us_tenant u)) (delete_prompt_route u i)"
  unfolding list_prompts_route_def create_prompt_route_def get_prompt_route_def update_prompt_route_def
    delete_prompt_route_def
  by (intro frame_intros)+

lemma skill_routes_own [frame_intros]:
  "stays_in (own_rows (us_tenant u)) (list_skills_route u)"
  "stays_in (own_rows (us_tenant u)) (create_skill_route ps u f)"
  "stays_in (own_rows (us_tenant u)) (get_skill_route u i)"
  "stays_in (own_rows (us_tenant u)) (update_skill_route ps u i c x)"
  "stays_in (own_rows (us_tenant u)) (delete_skill_route u i)"
proof -
  show g: "stays_in (own_rows (us_tenant u)) (get_skill_route u i)"
    unfolding get_skill_route_def by (intro frame_intros)
  show "stays_in (own_rows (us_tenant u)) (delete_skill_route u i)"
    unfolding delete_skill_route_def by (intro frame_intros g)
qed (unfold list_skills_route_def create_skill_route_def update_skill_route_def, (intro frame_intros)+)

lemma connector_routes_own [frame_intros]:
  "stays_in (own_rows (us_tenant u)) (list_connectors_route u)"
  "stays_in (own_rows (us_tenant u)) (create_connector_route ps u f)"
  "stays_in (own_rows (us_tenant u)) (get_connector_route u i)"
  "stays_in (own_rows (us_tenant u)) (update_connector_route u i f)"
  "stays_in (own_rows (us_tenant u)) (delete_connector_route u i)"
  unfolding list_connectors_route_def create_connector_route_def get_connector_route_def update_connector_route_def
    delete_connector_route_def
  by (intro frame_intros)+

lemma provision_own [frame_intros]:
  "stays_in (own_rows tenant) (resolve_client ps u p)" "stays_in (own_rows tenant) (provision_policy ps u row)"
  "stays_in (own_rows tenant) (deprovision_policy ps u p)"
  "stays_in (own_rows tenant) (provision_bedrock_guardrail ps u row)"
proof -
  show r: "stays_in (own_rows tenant) (resolve_client ps u p)" for p
    unfolding resolve_client_def Let_def by (intro frame_intros)
  show p: "stays_in (own_rows tenant) (provision_policy ps u row)"
    unfolding provision_policy_def Let_def by (intro frame_intros r)
  show "stays_in (own_rows tenant) (deprovision_policy ps u p)"
    unfolding deprovision_policy_def by (intro frame_intros r)
  show "stays_in (own_rows tenant) (provision_bedrock_guardrail ps u row)"
    unfolding provision_bedrock_guardrail_def by (intro frame_intros p)
qed

lemma thresholds_own [frame_intros]: "stays_in (own_rows tenant) (validate_thresholds b)"
  unfolding validate_thresholds_def by (intro frame_intros)

lemma policy_routes_own [frame_intros]:
  "stays_in (own_rows (us_tenant u)) (list_policies_route u)"
  "stays_in (own_rows (us_tenant u)) (create_policy_route ps u f)"
  "stays_in (own_rows (us_tenant u)) (get_policy_route u i)"
  "stays_in (own_rows (us_tenant u)) (update_policy_route ps u i x)"
  "stays_in (own_rows (us_tenant u)) (delete_policy_route ps u i)"
proof -
  show g: "stays_in (own_rows (us_tenant u)) (get_policy_route u i)"
    unfolding get_policy_route_def by (intro frame_intros)
  show "stays_in (own_rows (us_tenant u)) (update_policy_route ps u i x)"
    unfolding update_policy_route_def by (intro frame_intros g)
  show "stays_in (own_rows (us_tenant u)) (delete_policy_route ps u i)"
    unfolding delete_policy_route_def by (intro frame_intros g)
qed (unfold list_policies_route_def create_policy_route_def, (intro frame_intros)+)

lemma credential_routes_own [frame_intros]:
  "stays_in (own_rows (us_tenant u)) (list_credentials_route u)"
  "stays_in (own_rows (us_tenant u)) (create_credential_route ps u n arn)"
  "stays_in (own_rows (us_tenant u)) (get_credential_route u i)"
  "stays_in (own_rows (us_tenant u)) (delete_credential_route u i)"
proof -
  show g: "stays_in (own_rows (us_tenant u)) (get_credential_route u i)"
    unfolding get_credential_route_def by (intro frame_intros)
  show "stays_in (own_rows (us_tenant u)) (delete_credential_route u i)"
    unfolding delete_credential_route_def Let_def by (intro frame_intros g)
qed (unfold list_credentials_route_def create_credential_route_def Let_def, (intro frame_intros)+)

lemma project_routes_own [frame_intros]:
  "stays_in (own_rows (us_tenant u)) (list_projects_route u)"
  "stays_in (own_rows (us_tenant u)) (create_project_route ps u f)"
  "stays_in (own_rows (us_tenant u)) (get_project_route u i)"
  "stays_in (own_rows (us_tenant u)) (update_project_route ps u i x)"
  "stays_in (own_rows (us_tenant u)) (delete_project_route u i)"
proof -
  show g: "stays_in (own_rows (us_tenant u)) (get_project_route u i)"
    unfolding get_project_route_def by (intro frame_intros)
  show "stays_in (own_rows (us_tenant u)) (delete_project_route u i)"
    unfolding delete_project_route_def by (intro frame_intros g)
qed (unfold list_projects_route_def create_project_route_def update_project_route_def, (intro frame_intros)+)

lemma project_agent_own [frame_intros]: "stays_in (own_rows (us_tenant u)) (require_project_agent u p a)"
  unfolding require_project_agent_def by (intro frame_intros)

lemma lifecycle_route_own:
  "(\<And>now. stays_in (registry_only (us_tenant u)) (act now)) \<Longrightarrow> stays_in (own_rows (us_tenant u)) (lifecycle_route ps u p a act)"
  unfolding lifecycle_route_def by (intro frame_intros)

lemma project_agent_routes_own [frame_intros]:
  "stays_in (own_rows (us_tenant u)) (list_project_agents_route u p)"
  "stays_in (own_rows (us_tenant u)) (create_project_agent_route ps u p f)"
  "stays_in (own_rows (us_tenant u)) (update_project_agent_route ps u p a cfg change)"
  "stays_in (own_rows (us_tenant u)) (delete_project_agent_route ps u p a)"
  "stays_in (own_rows (us_tenant u)) (publish_project_agent_route ps u p a)"
  "stays_in (own_rows (us_tenant u)) (archive_project_agent_route ps u p a)"
  "stays_in (own_rows (us_tenant u)) (rollback_project_agent_route ps u p a n)"
  unfolding list_project_agents_route_def create_project_agent_route_def update_project_agent_route_def
    delete_project_agent_route_def publish_project_agent_route_def archive_project_agent_route_def
    rollback_project_agent_route_def
  by (intro frame_intros lifecycle_route_own)+

lemma handle_catalog_own: "stays_in (own_rows (us_tenant u)) (handle_catalog ps u rq)"
  unfolding replying_def by (cases rq; simp add: replying_def; intro frame_intros)

lemma get_current_user_state: "get_current_user ps bearer s = (r, t) \<Longrightarrow> t = s"
proof (erule reading_state)
  have c: "stays_in (same (\<lambda>s :: 'a platform. s)) (claimed_user cs)" for cs
    unfolding claimed_user_def http_error_def by (auto intro!: frame_intros split: pyval.split)
  have "stays_in (same (\<lambda>s :: 'a platform. s)) (the_time ps)"
    by (auto simp: stays_in_def same_def the_time_def on_factory_def on_part_def now_at_def reads_def)
  then show "stays_in (same (\<lambda>s. s)) (get_current_user ps bearer)"
    unfolding get_current_user_def http_error_def
    by (intro frame_intros c) (auto intro!: frame_intros split: pyexn.split)
qed

lemma serve_catalog_own:
  assumes "serve_catalog ps bearer rq s = (r, t)"
  shows "case fst (get_current_user ps bearer s) of Inl e \<Rightarrow> r = Inl e \<and> t = s | Inr u \<Rightarrow> own_rows (us_tenant u) s t"
proof (cases "get_current_user ps bearer s")
  case (Pair q u)
  then have u: "u = s" by (rule get_current_user_state)
  show ?thesis
  proof (cases q)
    case (Inl e)
    with Pair u assms show ?thesis by (simp add: serve_catalog_def guarded_def andthen_def)
  next
    case (Inr x)
    have "stays_in (own_rows (us_tenant x)) (andthen (require_role (route_roles rq) x) (\<lambda>_. handle_catalog ps x rq))"
      unfolding require_role_def by (intro frame_intros handle_catalog_own)
    with Pair u Inr assms show ?thesis
      by (auto simp: serve_catalog_def guarded_def andthen_Inr dest: stays_inD)
  qed
qed

section \<open>Roles\<close>

text \<open>The stored rows are as they were; only the world's clock and randomness may have moved.\<close>

definition only_world :: "'w platform \<Rightarrow> 'w platform \<Rightarrow> bool" where
  "only_world s t \<longleftrightarrow> (\<exists>w. t = s\<lparr>pl_factory := (pl_factory s)\<lparr>fc_world := w\<rparr>\<rparr>)"

interpretation only_world_frame: frame only_world
proof
  show "only_world s s" for s :: "'a platform"
    unfolding only_world_def by (rule exI [of _ "fc_world (pl_factory s)"]) simp
qed (auto simp: only_world_def)

lemma read_part_world:
  assumes "stays_in (same (\<lambda>s. s)) m" and "\<And>s. put (part s) s = s"
  shows "stays_in only_world (on_part part put m)"
  using assms(1) by (rule on_part_frame) (simp add: same_def assms(2) only_world_frame.frame_refl)

lemma read_tables_world [frame_intros]:
  "stays_in (same (\<lambda>s. s)) m1 \<Longrightarrow> stays_in only_world (on_connectors m1)"
  "stays_in (same (\<lambda>s. s)) m3 \<Longrightarrow> stays_in only_world (on_policies m3)"
  "stays_in (same (\<lambda>s. s)) m4 \<Longrightarrow> stays_in only_world (on_credentials m4)"
  "stays_in (same (\<lambda>s. s)) m5 \<Longrightarrow> stays_in only_world (on_skills m5)"
  "stays_in (same (\<lambda>s. s)) m6 \<Longrightarrow> stays_in only_world (on_prompts m6)"
  "stays_in (same (\<lambda>s. s)) m7 \<Longrightarrow> stays_in only_world (on_projects m7)"
  unfolding on_connectors_def on_policies_def on_credentials_def on_skills_def on_prompts_def on_projects_def
  by (rule read_part_world, assumption, simp)+

lemma read_agents_world [frame_intros]:
  assumes "stays_in (same (\<lambda>s. s)) m"
  shows "stays_in only_world (on_agents m)"
proof -
  have st: "t = s" if "m s = (q, t)" for s q t using that assms by (rule reading_state)
  have "stays_in (same (\<lambda>s. s)) (on_registry m)"
    by (intro stays_inI) (auto simp: on_registry_def same_def split: prod.splits dest!: st)
  then show ?thesis
    unfolding on_agents_def on_factory_def by (rule read_part_world) simp
qed

lemma read_rows_same [frame_intros]:
  "stays_in (same obs) (find_row u i)" "stays_in (same obs) (query_rows u)"
  by (auto simp: stays_in_def same_def find_row_def query_rows_def prog_simps)

lemma store_reads_same [frame_intros]:
  "stays_in (same obs1) (list_connectors u)" "stays_in (same obs1) (get_connector u i)"
  "stays_in (same obs2) (list_policies u)" "stays_in (same obs2) (get_policy u i)"
  unfolding list_connectors_def get_connector_def list_policies_def get_policy_def by (intro frame_intros)+

lemma world_errors [frame_intros]:
  "stays_in only_world (http_error n d)" "stays_in only_world (not_found_404 k i)"
  unfolding not_found_404_def http_error_def by (intro frame_intros)+

lemma found_world [frame_intros]: "stays_in only_world m \<Longrightarrow> stays_in only_world (found_or_404 k i m)"
  unfolding found_or_404_def by (intro frame_intros)

lemma get_routes_world [frame_intros]:
  "stays_in only_world (get_prompt_route u i)" "stays_in only_world (get_skill_route u i)"
  "stays_in only_world (get_connector_route u i)" "stays_in only_world (get_credential_route u i)"
  "stays_in only_world (get_policy_route u i)" "stays_in only_world (get_project_route u i)"
  "stays_in only_world (require_project_agent u p a)"
  unfolding get_prompt_route_def get_skill_route_def get_connector_route_def get_credential_route_def
    get_policy_route_def get_project_route_def require_project_agent_def
  by (intro frame_intros)+

lemma read_routes_world:
  "route_roles rq = read_roles \<Longrightarrow> stays_in only_world (handle_catalog ps u rq)"
  by (cases rq;
      simp add: replying_def read_roles_def write_roles_def admin_roles_def list_prompts_route_def list_skills_route_def
        list_connectors_route_def list_credentials_route_def list_policies_route_def list_projects_route_def
        list_project_agents_route_def;
      intro frame_intros)

lemma routes_roles: "route_roles rq \<in> {read_roles, write_roles, admin_roles}"
  by (cases rq) simp_all

lemma reader_changes_nothing:
  assumes "serve_catalog ps bearer rq s = (r, t)" and "fst (get_current_user ps bearer s) = Inr u"
    and "us_role u \<notin> {''admin'', ''developer''}"
  shows "only_world s t"
proof -
  obtain v where v: "get_current_user ps bearer s = (Inr u, v)"
    using assms(2) by (cases "get_current_user ps bearer s") auto
  then have "v = s" by (rule get_current_user_state)
  with v assms(1) have run: "andthen (require_role (route_roles rq) u) (\<lambda>_. handle_catalog ps u rq) s = (r, t)"
    by (simp add: serve_catalog_def guarded_def andthen_Inr)
  show ?thesis
  proof (cases "route_roles rq = read_roles")
    case True
    then have "stays_in only_world (andthen (require_role (route_roles rq) u) (\<lambda>_. handle_catalog ps u rq))"
      unfolding require_role_def by (intro frame_intros read_routes_world)
    from stays_inD [OF this run] show ?thesis .
  next
    case False
    with routes_roles [of rq] assms(3) have "us_role u \<notin> set (route_roles rq)"
      by (auto simp: write_roles_def admin_roles_def)
    with run assms(3) have "t = s" by (simp add: require_role_def http_error_def andthen_def raising_def)
    then show ?thesis by (simp add: only_world_frame.frame_refl)
  qed
qed

section \<open>What is used is not deleted\<close>

text \<open>An agent of the tenant, other than one, whose current version refers to something.\<close>

definition tenant_refers :: "string \<Rightarrow> string option \<Rightarrow> (version_record \<Rightarrow> bool) \<Rightarrow> registry \<Rightarrow> bool" where
  "tenant_refers tenant skip refers s \<longleftrightarrow>
     (\<exists>a r v. map_of (rg_agents s) (tenant, a) = Some (Whole r) \<and> Some a \<noteq> skip \<and>
        map_of (rg_versions s) (a, ag_current_version r) = Some (FullVersion v) \<and> refers v)"

lemma get_version_full:
  assumes "get_version a n s = (Inr v, t)" and "map_of (rg_versions s) (a, n) = Some (FullVersion w)"
  shows "\<exists>c. v = Some (w\<lparr>vr_contract := c\<rparr>) \<and> t = s"
  using assms by (auto simp: get_version_def from_row_def prog_simps Let_def split: if_splits)

lemma referencing_nonempty:
  assumes "\<And>v c. refers (v\<lparr>vr_contract := c\<rparr>) = refers v"
  shows "referencing_among skip refers recs s = (Inr found, t) \<Longrightarrow> r \<in> set recs \<Longrightarrow> Some (ag_id r) \<noteq> skip \<Longrightarrow>
    map_of (rg_versions s) (ag_id r, ag_current_version r) = Some (FullVersion v) \<Longrightarrow> refers v \<Longrightarrow> found \<noteq> []"
proof (induction recs arbitrary: found t)
  case (Cons x xs)
  show ?case
  proof (cases "Some (ag_id x) = skip")
    case True
    with Cons show ?thesis by auto
  next
    case False
    with Cons(2) obtain w h u y where w: "get_version (ag_id x) (ag_current_version x) s = (Inr w, u)"
      and h: "referencing_among skip refers xs u = (Inr h, y)"
      and f: "found = (case w of None \<Rightarrow> h | Some w \<Rightarrow> if refers w then x # h else h)"
      by (auto simp: ret_def elim!: andthen_InrE)
    have u: "u = s" using w by (rule reading_state) (intro frame_intros)
    show ?thesis
    proof (cases "r = x")
      case True
      with get_version_full [OF w] Cons(5,6) f assms show ?thesis by auto
    next
      case False
      with Cons.prems(2) Cons.IH [OF h [unfolded u]] Cons.prems(3-5) have "h \<noteq> []" by simp
      with f show ?thesis by (auto split: option.splits)
    qed
  qed
qed simp

lemma agents_referencing_run:
  assumes "agents_referencing tenant skip refers s = (q, t)"
    and ok: "tables_ok (fc_registry (pl_factory s))"
    and refers: "\<And>v c. refers (v\<lparr>vr_contract := c\<rparr>) = refers v"
    and used: "tenant_refers tenant skip refers (fc_registry (pl_factory s))"
  shows "t = s \<and> q \<noteq> Inr []"
proof -
  let ?g = "fc_registry (pl_factory s)"
  obtain p g where p: "all_agents tenant (referencing_among skip refers) ?g = (p, g)" by (cases rule: prod.exhaust)
  have "stays_in (same (\<lambda>s. s)) (all_agents tenant (referencing_among skip refers))"
  proof -
    have "stays_in (same (\<lambda>s. s)) (agent_pages n tenant (referencing_among skip refers) c)" for n c
      by (induction n tenant "referencing_among skip refers" c rule: agent_pages.induct) (auto intro!: frame_intros)
    then show ?thesis by (simp add: stays_in_def all_agents_def del: agent_pages.simps)
  qed
  with p have g: "g = ?g" by (rule reading_state)
  with p assms(1) have "t = s" and q: "q = p"
    by (auto simp: agents_referencing_def on_agents_def on_factory_def on_part_def on_registry_def)
  have "p \<noteq> Inr []"
  proof
    assume "p = Inr []"
    with p have run: "all_agents tenant (referencing_among skip refers) ?g = (Inr [], g)" by simp
    from reference_reader.all_agents_Inr [OF run tenant_rows_sorted [OF ok]] obtain recs where
      recs: "read_records (map snd (tenant_rows tenant ?g)) ?g = (Inr recs, ?g)"
      and none: "referencing_among skip refers recs ?g = (Inr [], ?g)" by blast
    from used obtain a r v where a: "map_of (rg_agents ?g) (tenant, a) = Some (Whole r)" "Some a \<noteq> skip"
      "map_of (rg_versions ?g) (a, ag_current_version r) = Some (FullVersion v)" "refers v"
      by (auto simp: tenant_refers_def)
    have "Whole r \<in> set (map snd (tenant_rows tenant ?g))"
      using a(1) set_tenant_rows [OF ok] by force
    with read_records_set [OF recs] have "r\<lparr>ag_type := normalise_agent_type (ag_type r)\<rparr> \<in> set recs" by fastforce
    moreover have "ag_id r = a" using ok a(1) by (auto simp: tables_ok_def keyed_def)
    ultimately show False
      using referencing_nonempty [OF refers none, of "r\<lparr>ag_type := normalise_agent_type (ag_type r)\<rparr>" v] a by simp
  qed
  with \<open>t = s\<close> q show ?thesis by simp
qed

text \<open>What a delete request must find unused.\<close>

fun in_use :: "string \<Rightarrow> catalog_request \<Rightarrow> 'w platform \<Rightarrow> bool" where
  "in_use tenant (DeleteSkill i) s = tenant_refers tenant None (uses_skill i) (fc_registry (pl_factory s))"
| "in_use tenant (DeletePolicy i) s = tenant_refers tenant None (uses_policy i) (fc_registry (pl_factory s))"
| "in_use tenant (DeleteProjectAgent p a) s = tenant_refers tenant (Some a) (uses_agent a) (fc_registry (pl_factory s))"
| "in_use tenant (DeleteProject i) s \<longleftrightarrow>
     (\<exists>a r. ((tenant, a), Whole r) \<in> set (rg_agents (fc_registry (pl_factory s))) \<and> ag_project r = Some i)"
| "in_use tenant (DeleteCredential i) s \<longleftrightarrow>
     (\<exists>j p. ((tenant, j), Policy p) \<in> set (pl_policies s) \<and> gp_credential p = Some i)"
| "in_use tenant _ s = False"

lemma uses_contract [simp]:
  "uses_skill i (v\<lparr>vr_contract := c\<rparr>) = uses_skill i v" "uses_policy i (v\<lparr>vr_contract := c\<rparr>) = uses_policy i v"
  "uses_agent i (v\<lparr>vr_contract := c\<rparr>) = uses_agent i v"
  by (simp_all add: uses_skill_def uses_policy_def uses_agent_def)

text \<open>A handler that looks first and refuses what it finds.\<close>

lemma refuses_after:
  assumes "stays_in only_world m"
    and "\<And>x u. m s = (Inr x, u) \<Longrightarrow> only_world s u \<Longrightarrow> \<exists>e t. f x u = (Inl e, t) \<and> only_world u t"
  shows "\<exists>e t. andthen m f s = (Inl e, t) \<and> only_world s t"
proof (cases "m s")
  case (Pair q u)
  with assms(1) have w: "only_world s u" by (auto dest: stays_inD)
  show ?thesis
  proof (cases q)
    case (Inl e)
    with Pair w show ?thesis by (simp add: andthen_def)
  next
    case (Inr x)
    with assms(2) w Pair obtain e t where "f x u = (Inl e, t)" "only_world u t" by blast
    with Pair Inr w show ?thesis by (auto simp: andthen_def intro: only_world_frame.frame_trans)
  qed
qed

lemma referenced_refused:
  "refs \<noteq> [] \<Longrightarrow> \<exists>e t. andthen (raise_if_referenced refs) f s = (Inl e, t) \<and> only_world s t"
  by (simp add: raise_if_referenced_def http_error_def raising_def andthen_def only_world_frame.frame_refl)

lemma only_world_tables:
  "only_world s t \<Longrightarrow> fc_registry (pl_factory t) = fc_registry (pl_factory s) \<and> pl_policies t = pl_policies s"
  by (auto simp: only_world_def)

lemma references_refused:
  assumes "tables_ok (fc_registry (pl_factory s))" and "\<And>v c. refers (v\<lparr>vr_contract := c\<rparr>) = refers v"
    and "tenant_refers tenant skip refers (fc_registry (pl_factory s))"
    and "\<And>refs. refs \<noteq> [] \<Longrightarrow> \<exists>e t. f refs s = (Inl e, t) \<and> only_world s t"
  shows "\<exists>e t. andthen (agents_referencing tenant skip refers) f s = (Inl e, t) \<and> only_world s t"
proof (cases "agents_referencing tenant skip refers s")
  case (Pair q t)
  from agents_referencing_run [OF this assms(1-3)] have "t = s" "q \<noteq> Inr []" by simp_all
  with Pair assms(4) show ?thesis
    by (cases q) (auto simp: andthen_def only_world_frame.frame_refl)
qed

lemma read_records_whole:
  "read_records rows s = (Inr [], t) \<Longrightarrow> rows = []"
  by (cases rows) (auto simp: ret_def elim!: andthen_InrE)

lemma list_agents_by_project_used:
  assumes "on_agents (list_agents_by_project tenant i) s = (Inr found, t)" and "keyed (fc_registry (pl_factory s))"
    and "((tenant, a), Whole r) \<in> set (rg_agents (fc_registry (pl_factory s)))" and "ag_project r = Some i"
    and "ag_tenant r = tenant"
  shows "found \<noteq> []"
proof
  assume e: "found = []"
  let ?g = "fc_registry (pl_factory s)"
  have "\<exists>g. read_records [Whole r. (_, Whole r) \<leftarrow> rg_agents ?g, ag_project r = Some i, ag_tenant r = tenant] ?g = (Inr [], g)"
    using assms(1) e
    by (auto simp: on_agents_def on_factory_def on_part_def on_registry_def list_agents_by_project_def andthen_def reads_def
        split: prod.splits)
  then have "[Whole r. (_, Whole r) \<leftarrow> rg_agents ?g, ag_project r = Some i, ag_tenant r = tenant] = []"
    by (blast dest: read_records_whole)
  with assms(3-5) show False by (force simp: concat_eq_Nil_conv)
qed

lemma read_policies_all: "read_policies rows s = (Inr ps, t) \<Longrightarrow> Policy p \<in> set rows \<Longrightarrow> p \<in> set ps"
  by (induction rows arbitrary: s ps) (auto simp: read_policy_def ret_def raising_def elim!: andthen_InrE split: policy_row.splits)

lemma list_policies_has:
  assumes "on_policies (list_policies tenant) s = (Inr ps, t)" and "((tenant, j), Policy p) \<in> set (pl_policies s)"
  shows "p \<in> set ps"
proof -
  have "\<exists>v. read_policies (map snd (partition_of tenant (pl_policies s))) (pl_policies s) = (Inr ps, v)"
    using assms(1)
    by (auto simp: on_policies_def on_part_def list_policies_def query_rows_def andthen_def reads_def split: prod.splits)
  moreover have "Policy p \<in> set (map snd (partition_of tenant (pl_policies s)))"
    using assms(2) by (force simp: partition_of_def set_sort_items)
  ultimately show ?thesis by (blast dest: read_policies_all)
qed

lemma replying_error:
  "(\<exists>e t. m s = (Inl e, t) \<and> only_world s t) \<Longrightarrow> \<exists>e t. replying f m s = (Inl e, t) \<and> only_world s t"
  by (auto simp: replying_def andthen_def)

lemma answer_refused: "\<exists>e t. http_error n d s = (Inl e, t) \<and> only_world s t"
  by (simp add: http_error_def raising_def only_world_frame.frame_refl)

lemma delete_skill_in_use:
  assumes "tables_ok (fc_registry (pl_factory s))" and "tenant_refers (us_tenant u) None (uses_skill i) (fc_registry (pl_factory s))"
  shows "\<exists>e t. delete_skill_route u i s = (Inl e, t) \<and> only_world s t"
  unfolding delete_skill_route_def
proof (rule refuses_after)
  fix x v assume "only_world s v"
  from only_world_tables [OF this] assms
  show "\<exists>e t. andthen (agents_referencing (us_tenant u) None (uses_skill i)) (\<lambda>refs.
      andthen (raise_if_referenced (map (referencing_resource None) refs)) (\<lambda>_. on_skills (delete_row (us_tenant u) i))) v
      = (Inl e, t) \<and> only_world v t"
    by (intro references_refused referenced_refused) simp_all
qed (intro frame_intros)

lemma delete_policy_in_use:
  assumes "tables_ok (fc_registry (pl_factory s))" and "tenant_refers (us_tenant u) None (uses_policy i) (fc_registry (pl_factory s))"
  shows "\<exists>e t. delete_policy_route ps u i s = (Inl e, t) \<and> only_world s t"
  unfolding delete_policy_route_def
proof (rule refuses_after)
  fix x v assume "only_world s v"
  from only_world_tables [OF this] assms
  show "\<exists>e t. andthen (agents_referencing (us_tenant u) None (uses_policy i)) (\<lambda>refs.
      if refs \<noteq> []
      then http_error 409 (''Guardrail policy '' @ repr_str i @ '' is still referenced by agent(s): ''
             @ join_with '', '' (map ag_id refs))
      else andthen (deprovision_policy ps (us_tenant u) x) (\<lambda>_. on_policies (delete_row (us_tenant u) i))) v
      = (Inl e, t) \<and> only_world v t"
    by (intro references_refused) (simp_all add: answer_refused)
qed (intro frame_intros)

lemma delete_agent_in_use:
  assumes "tables_ok (fc_registry (pl_factory s))" and "tenant_refers (us_tenant u) (Some a) (uses_agent a) (fc_registry (pl_factory s))"
  shows "\<exists>e t. delete_project_agent_route ps u p a s = (Inl e, t) \<and> only_world s t"
  unfolding delete_project_agent_route_def
proof (rule refuses_after)
  fix r v assume "only_world s v"
  from only_world_tables [OF this] assms
  have refused: "\<exists>e t. andthen (agents_referencing (us_tenant u) (Some a) (uses_agent a)) (\<lambda>refs.
      andthen (raise_if_referenced (map (referencing_resource None) refs)) (f refs)) v = (Inl e, t) \<and> only_world v t" for f
    by (intro references_refused referenced_refused) simp_all
  show "\<exists>e t. (if ag_lifecycle r \<noteq> Some ''archived''
      then http_error 422 (''Agent '' @ repr_str a @ '' must be archived before it can be deleted (current status: ''
             @ py_repr (null_or_text (ag_lifecycle r)) @ '').'')
      else andthen (agents_referencing (us_tenant u) (Some a) (uses_agent a)) (\<lambda>refs.
        andthen (raise_if_referenced (map (referencing_resource None) refs)) (\<lambda>_.
        andthen (on_agents (hard_delete_agent (us_tenant u) a)) (\<lambda>_.
        andthen (the_time ps) (\<lambda>now.
        andthen (on_projects (remove_agent_id now (us_tenant u) p a)) (\<lambda>_. ret ())))))) v
      = (Inl e, t) \<and> only_world v t"
    by (split if_split, intro conjI impI answer_refused refused)
qed (intro frame_intros)

lemma delete_project_in_use:
  assumes "keyed (fc_registry (pl_factory s))" and "ag_tenant r = us_tenant u" and "ag_project r = Some i"
    and "((us_tenant u, a), Whole r) \<in> set (rg_agents (fc_registry (pl_factory s)))"
  shows "\<exists>e t. delete_project_route u i s = (Inl e, t) \<and> only_world s t"
  unfolding delete_project_route_def
proof (rule refuses_after)
  fix x v assume "only_world s v"
  with assms have v: "keyed (fc_registry (pl_factory v))"
    "((us_tenant u, a), Whole r) \<in> set (rg_agents (fc_registry (pl_factory v)))"
    by (simp_all add: only_world_tables)
  show "\<exists>e t. andthen (on_agents (list_agents_by_project (us_tenant u) i)) (\<lambda>agents.
      andthen (raise_if_referenced (map (\<lambda>a. referencing_resource (ag_lifecycle a) a) agents)) (\<lambda>_.
        on_projects (delete_row (us_tenant u) i))) v = (Inl e, t) \<and> only_world v t"
  proof (rule refuses_after)
    fix found w assume f: "on_agents (list_agents_by_project (us_tenant u) i) v = (Inr found, w)"
    from list_agents_by_project_used [OF f v assms(3,2)]
    show "\<exists>e t. andthen (raise_if_referenced (map (\<lambda>a. referencing_resource (ag_lifecycle a) a) found)) (\<lambda>_.
        on_projects (delete_row (us_tenant u) i)) w = (Inl e, t) \<and> only_world w t"
      by (intro referenced_refused) simp
  qed (intro frame_intros)
qed (intro frame_intros)

lemma delete_credential_in_use:
  assumes "((us_tenant u, j), Policy p) \<in> set (pl_policies s)" and "gp_credential p = Some i"
  shows "\<exists>e t. delete_credential_route u i s = (Inl e, t) \<and> only_world s t"
  unfolding delete_credential_route_def Let_def
proof (rule refuses_after)
  fix x v assume "only_world s v"
  with assms have v: "((us_tenant u, j), Policy p) \<in> set (pl_policies v)" by (simp add: only_world_tables)
  show "\<exists>e t. andthen (on_policies (list_policies (us_tenant u))) (\<lambda>policies.
      if [gp_id p. p \<leftarrow> policies, gp_credential p = Some i] \<noteq> []
      then http_error 409 (''Bedrock credential '' @ repr_str i @ '' is still referenced by guardrail policy(ies): ''
             @ join_with '', '' [gp_id p. p \<leftarrow> policies, gp_credential p = Some i])
      else on_credentials (delete_row (us_tenant u) i)) v = (Inl e, t) \<and> only_world v t"
  proof (rule refuses_after)
    fix qs w assume "on_policies (list_policies (us_tenant u)) v = (Inr qs, w)"
    from list_policies_has [OF this v] assms(2)
    have ne: "[gp_id p. p \<leftarrow> qs, gp_credential p = Some i] \<noteq> []" by (auto simp: concat_eq_Nil_conv)
    show "\<exists>e t. (if [gp_id p. p \<leftarrow> qs, gp_credential p = Some i] \<noteq> []
        then http_error 409 (''Bedrock credential '' @ repr_str i @ '' is still referenced by guardrail policy(ies): ''
               @ join_with '', '' [gp_id p. p \<leftarrow> qs, gp_credential p = Some i])
        else on_credentials (delete_row (us_tenant u) i)) w = (Inl e, t) \<and> only_world w t"
      unfolding if_P [OF ne] by (rule answer_refused)
  qed (intro frame_intros)
qed (intro frame_intros)

lemma delete_in_use_refused:
  assumes ok: "tables_ok (fc_registry (pl_factory s))" and used: "in_use (us_tenant u) rq s"
  shows "\<exists>e t. handle_catalog ps u rq s = (Inl e, t) \<and> only_world s t"
proof (cases rq)
  case (DeleteProject i)
  with used obtain a r where r: "((us_tenant u, a), Whole r) \<in> set (rg_agents (fc_registry (pl_factory s)))"
    "ag_project r = Some i" by auto
  with ok have k: "keyed (fc_registry (pl_factory s))" "ag_tenant r = us_tenant u"
    by (auto simp: tables_ok_def keyed_def)
  then show ?thesis
    unfolding DeleteProject handle_catalog.simps by (intro replying_error delete_project_in_use [OF k r(2,1)])
next
  case (DeleteCredential i)
  with used show ?thesis by (auto intro!: replying_error delete_credential_in_use)
qed (use assms in \<open>auto intro!: replying_error delete_skill_in_use delete_policy_in_use delete_agent_in_use\<close>)

end
