(* ===== verification/KnowledgeBases.thy ===== *)
theory KnowledgeBases
  imports CatalogRules
begin

text \<open>
  The routes of knowledge bases (app/api/v1/knowledge_bases.py) with the scan of documents
  (knowledge_base/ingestion_scan.py) and the provisioner (knowledge_base/provisioner.py). The
  objects of S3 are a table of the platform's state; file names, keys and documents are bytes, and
  the classifier is given the bytes of a document. A structured detail of an error is given by its
  message, without the text of the exception it was made from.
\<close>

section \<open>S3\<close>

type_synonym objects = "((string \<times> string) \<times> string) list"

fun s3_effect :: "s3_call \<Rightarrow> objects \<Rightarrow> objects" where
  "s3_effect (PutObject b k body) os = AList.update (b, k) body os"
| "s3_effect (CopyObject b k k') os =
     (case map_of os (b, k) of None \<Rightarrow> os | Some body \<Rightarrow> AList.update (b, k') body os)"
| "s3_effect (DeleteObject b k) os = AList.delete (b, k) os"
| "s3_effect (DeleteObjects b ks) os = filter (\<lambda>((b', k), _). \<not> (b' = b \<and> k \<in> set ks)) os"
| "s3_effect _ os = os"

definition s3_do :: "'w platform_services \<Rightarrow> s3_call \<Rightarrow> ('w, unit) platform_action" where
  "s3_do ps c =
     andthen (on_world (\<lambda>w. case ps_s3 ps c w of (Some e, w') \<Rightarrow> (Inl e, w') | (None, w') \<Rightarrow> (Inr (), w'))) (\<lambda>_.
       modifies (\<lambda>s. s\<lparr>pl_objects := s3_effect c (pl_objects s)\<rparr>))"

text \<open>\<open>list_objects_v2\<close> without a continuation token: the first thousand keys in order.\<close>

definition objects_under :: "string \<Rightarrow> string \<Rightarrow> objects \<Rightarrow> (string \<times> string) list" where
  "objects_under b p os = sort_items [(k, body). ((b', k), body) \<leftarrow> os, b' = b, starts_with p k]"

definition list_objects ::
  "'w platform_services \<Rightarrow> string \<Rightarrow> string \<Rightarrow> ('w, (string \<times> string) list) platform_action" where
  "list_objects ps b p =
     andthen (s3_do ps (ListObjects b p)) (\<lambda>_. reads (\<lambda>s. take 1000 (objects_under b p (pl_objects s))))"

definition delete_all_under_prefix :: "'w platform_services \<Rightarrow> string \<Rightarrow> string \<Rightarrow> ('w, unit) platform_action" where
  "delete_all_under_prefix ps b p =
     andthen (list_objects ps b p) (\<lambda>os.
       if os = [] then ret () else s3_do ps (DeleteObjects b (map fst os)))"

section \<open>Scanning a document\<close>

definition allowed_document_extensions :: "string list" where
  "allowed_document_extensions = [''.pdf'', ''.docx'', ''.doc'', ''.txt'', ''.md'', ''.html'', ''.csv'']"

definition text_extractable_extensions :: "string list" where
  "text_extractable_extensions = [''.txt'', ''.md'', ''.html'', ''.csv'']"

definition max_document_size :: nat where "max_document_size = 50 * 1024 * 1024"

text \<open>\<open>PurePosixPath(name).suffix.lower()\<close>: the last component from its last inner dot on.\<close>

definition path_name :: "string \<Rightarrow> string" where
  "path_name s =
     (let parts = filter (\<lambda>p. p \<noteq> [] \<and> p \<noteq> ''.'') (split_on (CHR ''/'') s) in if parts = [] then [] else last parts)"

definition suffix_of :: "string \<Rightarrow> string" where
  "suffix_of s =
     (let n = path_name s; ext = rev (takeWhile (\<lambda>c. c \<noteq> CHR ''.'') (rev n)); stem = length n - length ext
      in if length ext < length n \<and> ext \<noteq> [] \<and> stem > 1 then py_lower (CHR ''.'' # ext) else [])"

definition validate_document :: "string \<Rightarrow> string \<Rightarrow> string option" where
  "validate_document name body =
     (if suffix_of name \<notin> set allowed_document_extensions then Some ''validation''
      else if length body > max_document_size then Some ''validation''
      else if body = [] then Some ''validation'' else None)"

definition injection_only_policy :: "string \<Rightarrow> guardrail_policy" where
  "injection_only_policy tenant =
     (let f = default_policy_fields ''KB ingestion-time prompt-injection scan'' ''Synthetic, not persisted''
      in \<lparr>gp_id = ''kb-ingestion-scan'', gp_tenant = tenant, gp_name = gf_name f, gp_description = gf_description f,
          gp_created = 0, gp_updated = 0, gp_by = ''system'',
          gp_bert = default_bert\<lparr>be_toxicity := False, be_nsfw := False, be_injection := True, be_gibberish := False\<rparr>,
          gp_bedrock = False, gp_credential = None, gp_guardrail = None, gp_version = ''DRAFT'',
          gp_filters = gf_filters f, gp_pii = gf_pii f, gp_banned = [], gp_allowed = None, gp_rules = [],
          gp_compliance = gf_compliance f, gp_messages = gf_messages f\<rparr>)"

definition scan_for_prompt_injection ::
  "'w platform_services \<Rightarrow> string \<Rightarrow> string \<Rightarrow> string \<Rightarrow> ('w, string option) platform_action" where
  "scan_for_prompt_injection ps tenant name body =
     (if suffix_of name \<notin> set text_extractable_extensions \<or> py_strip body = [] then ret None
      else
        andthen (on_world (check_input (ps_engine ps) body (injection_only_policy tenant))) (\<lambda>d.
          ret (if gn_blocked d then Some ''prompt_injection'' else None)))"

text \<open>Both checks, as the upload and the sync run them: the reason of a rejection, if any.\<close>

definition scan_document ::
  "'w platform_services \<Rightarrow> string \<Rightarrow> string \<Rightarrow> string \<Rightarrow> ('w, string option) platform_action" where
  "scan_document ps tenant name body =
     (case validate_document name body of
        Some r \<Rightarrow> ret (Some r)
      | None \<Rightarrow> scan_for_prompt_injection ps tenant name body)"

definition audit_rejection :: "string \<Rightarrow> string \<Rightarrow> string \<Rightarrow> string \<Rightarrow> ('w, unit) platform_action" where
  "audit_rejection tenant i name reason =
     on_factory (modifies (\<lambda>s. s\<lparr>fc_audit := fc_audit s @
       [(''kb_document_rejected'', tenant, i,
         ''KB document '' @ repr_str name @ '' rejected ('' @ reason @ '') for knowledge base '' @ repr_str i)]\<rparr>))"

section \<open>The provisioner\<close>

definition provisioning_failed :: "string \<Rightarrow> pyexn" where
  "provisioning_failed msg = Raised ''KnowledgeBaseProvisioningError'' msg"

definition call_kb :: "'w platform_services \<Rightarrow> kb_call \<Rightarrow> ('w, pyval) platform_action" where
  "call_kb ps c =
     on_world (\<lambda>w. case ps_kb_call ps c w of (Inl e, w') \<Rightarrow> (Inl (ExternalError e), w') | (Inr v, w') \<Rightarrow> (Inr v, w'))"

text \<open>Subscripts into an answer.\<close>

fun at_path :: "string list \<Rightarrow> pyval \<Rightarrow> pyexn + string" where
  "at_path [] v = Inr (py_str v)"
| "at_path (k # ks) v = (if has_key k v then at_path ks (dict_get k v) else Inl (KeyError k))"

definition ret_or :: "pyexn + 'a \<Rightarrow> ('s, 'a) prog" where
  "ret_or r = (case r of Inl e \<Rightarrow> raising e | Inr x \<Rightarrow> ret x)"

definition kb_request :: "'w platform_services \<Rightarrow> knowledge_base \<Rightarrow> pyval" where
  "kb_request ps kb =
     PDict [(''name'', PStr (''panasa-'' @ kn_tenant kb @ ''-'' @ kn_id kb)), (''description'', PStr (kn_description kb)),
       (''roleArn'', PStr (ps_kb_role ps)),
       (''knowledgeBaseConfiguration'', PDict [(''type'', PStr ''VECTOR''),
          (''vectorKnowledgeBaseConfiguration'', PDict [(''embeddingModelArn'',
             PStr (''arn:aws:bedrock:'' @ ps_region ps @ ''::foundation-model/'' @ kn_embedding kb))])]),
       (''storageConfiguration'', PDict [(''type'', PStr ''OPENSEARCH_SERVERLESS''),
          (''opensearchServerlessConfiguration'', PDict [(''collectionArn'', PStr (ps_kb_collection ps)),
             (''vectorIndexName'', PStr (''panasa-'' @ kn_id kb @ ''-index'')),
             (''fieldMapping'', PDict [(''vectorField'', PStr ''embedding''), (''textField'', PStr ''text''),
                (''metadataField'', PStr ''metadata'')])])])]"

definition source_request :: "string \<Rightarrow> knowledge_base \<Rightarrow> pyval" where
  "source_request bedrock kb =
     PDict [(''knowledgeBaseId'', PStr bedrock), (''name'', PStr (''panasa-'' @ kn_id kb @ ''-s3-source'')),
       (''dataSourceConfiguration'', PDict [(''type'', PStr ''S3''),
          (''s3Configuration'', PDict [(''bucketArn'', PStr (''arn:aws:s3:::'' @ get_or ''None'' (kn_bucket kb))),
             (''inclusionPrefixes'', PList [null_or_text (kn_prefix kb)])])]),
       (''vectorIngestionConfiguration'', PDict [(''chunkingConfiguration'',
          PDict [(''chunkingStrategy'', PStr (upper (kn_strategy kb)))])])]"

definition provision_kb :: "'w platform_services \<Rightarrow> knowledge_base \<Rightarrow> ('w, string \<times> string) platform_action" where
  "provision_kb ps kb =
     (if ps_mock_kb ps then ret (''mock-bedrock-kb-'' @ kn_id kb, ''mock-bedrock-ds-'' @ kn_id kb)
      else
        catching
          (andthen (call_kb ps (CreateKb (kb_request ps kb))) (\<lambda>r.
           andthen (ret_or (at_path [''knowledgeBase'', ''knowledgeBaseId''] r)) (\<lambda>i.
           andthen (call_kb ps (CreateSource (source_request i kb))) (\<lambda>r'.
           andthen (ret_or (at_path [''dataSource'', ''dataSourceId''] r')) (\<lambda>j. ret (i, j))))))
          (\<lambda>_. raising (provisioning_failed ''Could not create knowledge base'')))"

definition deprovision_kb :: "'w platform_services \<Rightarrow> knowledge_base \<Rightarrow> ('w, unit) platform_action" where
  "deprovision_kb ps kb =
     (if ps_mock_kb ps \<or> \<not> truthy (kn_bedrock kb) then ret ()
      else
        (let i = get_or [] (kn_bedrock kb)
         in catching
              (andthen (if truthy (kn_data_source kb)
                        then andthen (call_kb ps (DeleteSource i (get_or [] (kn_data_source kb)))) (\<lambda>_. ret ())
                        else ret ()) (\<lambda>_.
               andthen (call_kb ps (DeleteKb i)) (\<lambda>_. ret ())))
              (\<lambda>_. ret ())))"

definition start_sync :: "'w platform_services \<Rightarrow> knowledge_base \<Rightarrow> ('w, string) platform_action" where
  "start_sync ps kb =
     (if ps_mock_kb ps then ret (''mock-ingestion-'' @ kn_id kb)
      else if \<not> truthy (kn_bedrock kb) \<or> \<not> truthy (kn_data_source kb)
      then raising (provisioning_failed ''Knowledge base has no provisioned Bedrock resource to sync.'')
      else
        catching
          (andthen (call_kb ps (StartJob (get_or [] (kn_bedrock kb)) (get_or [] (kn_data_source kb)))) (\<lambda>r.
             ret_or (at_path [''ingestionJob'', ''ingestionJobId''] r)))
          (\<lambda>_. raising (provisioning_failed ''Could not start sync'')))"

text \<open>
  The state of a job. The answer's instants are datetime objects; the mocked one has none. Its
  error is the first reason of failure.
\<close>

record sync_report =
  sy_status :: string
  sy_indexed :: int
  sy_failed :: int
  sy_started :: "int option"
  sy_updated :: "int option"
  sy_error :: "string option"

definition job_report :: "ingestion_job \<Rightarrow> sync_report" where
  "job_report j =
     \<lparr>sy_status = jb_status j, sy_indexed = jb_indexed j, sy_failed = jb_failed j, sy_started = jb_started j,
      sy_updated = jb_updated j, sy_error = (case jb_reasons j of [] \<Rightarrow> None | r # _ \<Rightarrow> Some r)\<rparr>"

definition sync_status_of :: "'w platform_services \<Rightarrow> knowledge_base \<Rightarrow> string \<Rightarrow> ('w, sync_report) platform_action" where
  "sync_status_of ps kb job =
     (if ps_mock_kb ps
      then ret \<lparr>sy_status = ''COMPLETE'', sy_indexed = kn_documents kb, sy_failed = 0, sy_started = None,
                sy_updated = None, sy_error = None\<rparr>
      else if \<not> truthy (kn_bedrock kb) \<or> \<not> truthy (kn_data_source kb)
      then raising (provisioning_failed ''Knowledge base has no provisioned Bedrock resource to check.'')
      else
        on_world (\<lambda>w. case ps_kb_job ps (get_or [] (kn_bedrock kb)) (get_or [] (kn_data_source kb)) job w of
          (Inl e, w') \<Rightarrow> (Inl (provisioning_failed ''Could not check sync status''), w')
        | (Inr j, w') \<Rightarrow> (Inr (job_report j), w')))"

section \<open>The routes\<close>

definition get_kb_or_404 :: "string \<Rightarrow> string \<Rightarrow> ('w, knowledge_base) platform_action" where
  "get_kb_or_404 tenant i = found_or_404 ''Knowledge base'' i (on_kbs (get_kb tenant i))"

definition list_kbs_route :: "user_row \<Rightarrow> ('w, knowledge_base list) platform_action" where
  "list_kbs_route u = on_kbs (list_kbs (us_tenant u))"

definition resolve_kb_bucket :: "'w platform_services \<Rightarrow> string \<Rightarrow> ('w, string option \<times> string) platform_action" where
  "resolve_kb_bucket ps tenant =
     andthen (the_time ps) (\<lambda>now.
     andthen (on_settings (get_or_create_settings now tenant ''system'')) (\<lambda>r.
       ret (if truthy (ts_kb_bucket r) then ts_kb_bucket r else ps_kb_bucket ps, ts_kb_prefix r)))"

definition attempt :: "('s, 'a) prog \<Rightarrow> ('s, pyexn + 'a) prog" where
  "attempt m s = (let (r, t) = m s in (Inr r, t))"

definition create_kb_route :: "'w platform_services \<Rightarrow> user_row \<Rightarrow> kb_fields \<Rightarrow> ('w, knowledge_base) platform_action" where
  "create_kb_route ps u f =
     andthen (resolve_kb_bucket ps (us_tenant u)) (\<lambda>(bucket, folder).
       mapping ''KnowledgeBaseProvisioningError'' 503 (mapping ''InvalidSourceConfigError'' 422
         (fresh ps (\<lambda>now hex.
           let i = slug_id ''kb'' (bf_name f) hex
           in andthen
                (case (bucket, kb_location f i bucket folder) of
                   (Some _, Inr loc) \<Rightarrow> attempt (provision_kb ps (new_kb now (us_tenant u) i (us_email u) f loc True))
                 | _ \<Rightarrow> ret (Inl source_config_error)) (\<lambda>made.
                on_kbs (create_kb now hex (us_tenant u) (us_email u) f bucket folder
                  (if bucket = None then None else Some (\<lambda>_. made))))))))"

definition get_kb_route :: "user_row \<Rightarrow> string \<Rightarrow> ('w, knowledge_base) platform_action" where
  "get_kb_route u i = get_kb_or_404 (us_tenant u) i"

text \<open>The agents that use a base; an agent whose version cannot be read is passed over.\<close>

fun kb_referencing :: "string \<Rightarrow> agent_record list \<Rightarrow> agent_record list reg_action" where
  "kb_referencing i [] = ret []"
| "kb_referencing i (r # rs) =
     andthen (attempt (get_version (ag_id r) (ag_current_version r))) (\<lambda>v.
     andthen (kb_referencing i rs) (\<lambda>found.
       ret (case v of
              Inr (Some w) \<Rightarrow> if dict_get ''kb_id'' (vr_config w) = PStr i then r # found else found
            | _ \<Rightarrow> found)))"

definition agents_referencing_kb :: "string \<Rightarrow> string \<Rightarrow> ('w, agent_record list) platform_action" where
  "agents_referencing_kb tenant i = on_agents (all_agents tenant (kb_referencing i))"

definition delete_kb_route :: "'w platform_services \<Rightarrow> user_row \<Rightarrow> string \<Rightarrow> ('w, unit) platform_action" where
  "delete_kb_route ps u i =
     andthen (get_kb_or_404 (us_tenant u) i) (\<lambda>kb.
     andthen (agents_referencing_kb (us_tenant u) i) (\<lambda>refs.
       if refs \<noteq> []
       then http_error 409 (''Knowledge base '' @ repr_str i @ '' is still referenced by agent(s): ''
              @ join_with '', '' (map ag_id refs))
       else
         andthen (deprovision_kb ps kb) (\<lambda>_.
         andthen (if truthy (kn_bucket kb) \<and> truthy (kn_prefix kb)
                  then delete_all_under_prefix ps (get_or [] (kn_bucket kb)) (get_or [] (kn_prefix kb)) else ret ()) (\<lambda>_.
           on_kbs (delete_kb (us_tenant u) i)))))"

definition reindex_kb_route :: "'w platform_services \<Rightarrow> user_row \<Rightarrow> string \<Rightarrow> ('w, knowledge_base) platform_action" where
  "reindex_kb_route ps u i =
     andthen (the_time ps) (\<lambda>now.
       mapping ''KnowledgeBaseNotFoundError'' 404 (on_kbs (trigger_reindex now (us_tenant u) i)))"

section \<open>Documents\<close>

definition document_key :: "knowledge_base \<Rightarrow> string option \<Rightarrow> string \<Rightarrow> string" where
  "document_key kb folder name =
     (if truthy folder then get_or [] (kn_prefix kb) @ strip_slashes (get_or [] folder) @ ''/'' @ name
      else get_or [] (kn_prefix kb) @ name)"

definition provisioned_kb :: "string \<Rightarrow> string \<Rightarrow> ('w, knowledge_base) platform_action" where
  "provisioned_kb tenant i =
     andthen (get_kb_or_404 tenant i) (\<lambda>kb.
       if truthy (kn_bucket kb) \<and> truthy (kn_prefix kb) then ret kb
       else http_error 409 ''Configure your S3 bucket in Settings > Deployment first.'')"

definition check_extensions :: "string list \<Rightarrow> ('w, unit) platform_action" where
  "check_extensions names =
     (case find (\<lambda>n. suffix_of n \<notin> set allowed_document_extensions) names of
        None \<Rightarrow> ret ()
      | Some n \<Rightarrow> http_error 415 (''File type '' @ repr_str (suffix_of n)
          @ '' is not supported. Allowed: csv, doc, docx, html, md, pdf, txt''))"

record upload_report =
  up_uploaded :: "(string \<times> string \<times> nat) list"
  up_rejected :: "(string \<times> string) list"

fun upload_files ::
  "'w platform_services \<Rightarrow> string \<Rightarrow> knowledge_base \<Rightarrow> string option \<Rightarrow> (string \<times> string) list
     \<Rightarrow> upload_report \<Rightarrow> ('w, upload_report) platform_action" where
  "upload_files ps tenant kb folder [] r = ret r"
| "upload_files ps tenant kb folder ((given, body) # files) r =
     (let name = (if given = [] then ''document'' else given)
      in andthen (scan_document ps tenant name body) (\<lambda>verdict.
           case verdict of
             Some reason \<Rightarrow>
               andthen (audit_rejection tenant (kn_id kb) name reason) (\<lambda>_.
                 upload_files ps tenant kb folder files (r\<lparr>up_rejected := up_rejected r @ [(name, reason)]\<rparr>))
           | None \<Rightarrow>
               (let key = document_key kb folder name
                in andthen (s3_do ps (PutObject (get_or [] (kn_bucket kb)) key body)) (\<lambda>_.
                     upload_files ps tenant kb folder files
                       (r\<lparr>up_uploaded := up_uploaded r @ [(name, key, length body)]\<rparr>)))))"

definition upload_documents_route ::
  "'w platform_services \<Rightarrow> user_row \<Rightarrow> string \<Rightarrow> string option \<Rightarrow> (string \<times> string) list
     \<Rightarrow> ('w, upload_report) platform_action" where
  "upload_documents_route ps u i folder files =
     andthen (provisioned_kb (us_tenant u) i) (\<lambda>kb.
     andthen (check_extensions (map fst files)) (\<lambda>_.
     andthen (catching (upload_files ps (us_tenant u) kb folder files \<lparr>up_uploaded = [], up_rejected = []\<rparr>)
                (\<lambda>e. case e of HttpError _ _ \<Rightarrow> raising e | _ \<Rightarrow> http_error 503 ''Could not upload file'')) (\<lambda>r.
     andthen (the_time ps) (\<lambda>now.
     andthen (on_kbs (set_document_count now (us_tenant u) i (kn_documents kb + int (length (up_uploaded r))))) (\<lambda>_.
       ret r)))))"

text \<open>The listing: the name under the prefix, the key and the size; its modification time is left out.\<close>

definition list_documents_route ::
  "'w platform_services \<Rightarrow> user_row \<Rightarrow> string \<Rightarrow> ('w, (string \<times> string \<times> nat) list) platform_action" where
  "list_documents_route ps u i =
     andthen (provisioned_kb (us_tenant u) i) (\<lambda>kb.
     andthen (list_objects ps (get_or [] (kn_bucket kb)) (get_or [] (kn_prefix kb))) (\<lambda>os.
       ret (map (\<lambda>(k, body). (drop (length (get_or [] (kn_prefix kb))) k, k, length body)) os)))"

fun unquote :: "string \<Rightarrow> string" where
  "unquote [] = []"
| "unquote (c # a # b # r) =
     (if c = CHR ''%''
      then (case (hex_val a, hex_val b) of
              (Some x, Some y) \<Rightarrow> char_of (16 * x + y) # unquote r
            | _ \<Rightarrow> c # unquote (a # b # r))
      else c # unquote (a # b # r))"
| "unquote (c # r) = c # unquote r"

definition delete_document_route :: "'w platform_services \<Rightarrow> user_row \<Rightarrow> string \<Rightarrow> string \<Rightarrow> ('w, unit) platform_action" where
  "delete_document_route ps u i key =
     andthen (provisioned_kb (us_tenant u) i) (\<lambda>kb.
       if \<not> starts_with (get_or [] (kn_prefix kb)) (unquote key) then http_error 404 ''Document not found''
       else
         andthen (s3_do ps (DeleteObject (get_or [] (kn_bucket kb)) (unquote key))) (\<lambda>_.
         andthen (the_time ps) (\<lambda>now.
         andthen (on_kbs (set_document_count now (us_tenant u) i (max 0 (kn_documents kb - 1)))) (\<lambda>_. ret ()))))"

section \<open>Sync\<close>

definition quarantine_prefix :: "string \<Rightarrow> string" where
  "quarantine_prefix p = rev (dropWhile (\<lambda>c. c = CHR ''/'') (rev p)) @ ''-quarantine/''"

text \<open>Every listed object is fetched and scanned; a rejected one is copied away and deleted.\<close>

fun quarantine_objects ::
  "'w platform_services \<Rightarrow> string \<Rightarrow> string \<Rightarrow> string \<Rightarrow> string \<Rightarrow> string list \<Rightarrow> ('w, (string \<times> string) list) platform_action" where
  "quarantine_objects ps tenant i b p [] = ret []"
| "quarantine_objects ps tenant i b p (k # ks) =
     (let name = drop (length p) k
      in if name = [] then quarantine_objects ps tenant i b p ks
         else
           andthen (s3_do ps (GetObject b k)) (\<lambda>_.
           andthen (reads (\<lambda>s. get_or [] (map_of (pl_objects s) (b, k)))) (\<lambda>body.
           andthen (scan_document ps tenant name body) (\<lambda>verdict.
             case verdict of
               None \<Rightarrow> quarantine_objects ps tenant i b p ks
             | Some reason \<Rightarrow>
                 andthen (s3_do ps (CopyObject b k (quarantine_prefix p @ name))) (\<lambda>_.
                 andthen (s3_do ps (DeleteObject b k)) (\<lambda>_.
                 andthen (audit_rejection tenant i name reason) (\<lambda>_.
                 andthen (quarantine_objects ps tenant i b p ks) (\<lambda>rest. ret ((name, reason) # rest)))))))))"

definition scan_and_quarantine :: "'w platform_services \<Rightarrow> string \<Rightarrow> knowledge_base \<Rightarrow> ('w, (string \<times> string) list) platform_action" where
  "scan_and_quarantine ps tenant kb =
     (let b = get_or [] (kn_bucket kb); p = get_or [] (kn_prefix kb)
      in andthen (list_objects ps b p) (\<lambda>os. quarantine_objects ps tenant (kn_id kb) b p (map fst os)))"

definition trigger_sync_route ::
  "'w platform_services \<Rightarrow> user_row \<Rightarrow> string \<Rightarrow> ('w, string \<times> (string \<times> string) list) platform_action" where
  "trigger_sync_route ps u i =
     andthen (provisioned_kb (us_tenant u) i) (\<lambda>kb.
       if kn_sync_status kb = Some ''IN_PROGRESS''
       then http_error 409 ''A sync is already running for this knowledge base.''
       else
         andthen (scan_and_quarantine ps (us_tenant u) kb) (\<lambda>rejected.
         andthen (mapping ''KnowledgeBaseProvisioningError'' 503 (start_sync ps kb)) (\<lambda>job.
         andthen (the_time ps) (\<lambda>now.
         andthen (on_kbs (update_sync_state now (us_tenant u) i ''IN_PROGRESS'' None False)) (\<lambda>_. ret (job, rejected))))))"

text \<open>The answer's instants must be texts: a datetime does not validate.\<close>

definition sync_status_route :: "'w platform_services \<Rightarrow> user_row \<Rightarrow> string \<Rightarrow> string \<Rightarrow> ('w, sync_report) platform_action" where
  "sync_status_route ps u i job =
     andthen (get_kb_or_404 (us_tenant u) i) (\<lambda>kb.
     andthen (mapping ''KnowledgeBaseProvisioningError'' 503 (sync_status_of ps kb job)) (\<lambda>r.
     andthen (if sy_status r \<in> {''COMPLETE'', ''FAILED''}
              then andthen (the_time ps) (\<lambda>now.
                   andthen (on_kbs (update_sync_state now (us_tenant u) i (sy_status r) (sy_error r)
                     (sy_status r = ''COMPLETE''))) (\<lambda>_. ret ()))
              else ret ()) (\<lambda>_.
       if sy_started r = None \<and> sy_updated r = None then ret r else raising (ValidationError ''SyncStatusResponse''))))"

section \<open>Presigned uploads and the bucket check\<close>

fun presign_files ::
  "'w platform_services \<Rightarrow> knowledge_base \<Rightarrow> string option \<Rightarrow> string list \<Rightarrow> ('w, (string \<times> string \<times> string) list) platform_action" where
  "presign_files ps kb folder [] = ret []"
| "presign_files ps kb folder (n # ns) =
     (let key = document_key kb folder n; b = get_or [] (kn_bucket kb)
      in andthen (s3_do ps (Presign b key)) (\<lambda>_.
         andthen (presign_files ps kb folder ns) (\<lambda>rest. ret ((n, key, ps_presigned ps b key) # rest))))"

definition presigned_upload_route ::
  "'w platform_services \<Rightarrow> user_row \<Rightarrow> string \<Rightarrow> string option \<Rightarrow> string list
     \<Rightarrow> ('w, (string \<times> string \<times> string) list) platform_action" where
  "presigned_upload_route ps u i folder names =
     andthen (provisioned_kb (us_tenant u) i) (\<lambda>kb.
     andthen (check_extensions names) (\<lambda>_.
       catching (presign_files ps kb folder names) (\<lambda>_. http_error 503 ''Could not create upload URL'')))"

definition validate_s3_route :: "'w platform_services \<Rightarrow> user_row \<Rightarrow> string \<Rightarrow> string \<Rightarrow> ('w, unit) platform_action" where
  "validate_s3_route ps u i bucket =
     andthen (get_kb_or_404 (us_tenant u) i) (\<lambda>_.
       catching (s3_do ps (HeadBucket bucket)) (\<lambda>e.
         http_error 422
           (case e of
              ClientError code \<Rightarrow>
                (if code = ''404'' then ''Bucket does not exist.''
                 else if code = ''403'' then ''This Runtime does not have access to this bucket.''
                 else ''Bucket is not accessible ('' @ code @ '').'')
            | _ \<Rightarrow> ''Could not validate bucket'')))"

section \<open>The routes behind the guard\<close>

datatype kb_demand =
    ListKbs | CreateKnowledgeBase kb_fields | GetKb string | DeleteKnowledgeBase string | Reindex string
  | UploadDocuments string "string option" "(string \<times> string) list" | ListDocuments string
  | DeleteDocument string string | TriggerSync string | SyncStatus string string
  | PresignedUpload string "string option" "string list" | ValidateS3 string string

datatype kb_reply =
    Kbs "knowledge_base list" | AKb knowledge_base | Uploaded upload_report
  | Documents "(string \<times> string \<times> nat) list" | SyncStarted string "(string \<times> string) list"
  | SyncReport sync_report | UploadUrls "(string \<times> string \<times> string) list" | Done

definition kb_answer :: "('a \<Rightarrow> kb_reply) \<Rightarrow> ('w, 'a) platform_action \<Rightarrow> ('w, kb_reply) platform_action" where
  "kb_answer f m = andthen m (\<lambda>x. ret (f x))"

fun kb_roles :: "kb_demand \<Rightarrow> string list" where
  "kb_roles ListKbs = read_roles"
| "kb_roles (GetKb _) = read_roles"
| "kb_roles (ListDocuments _) = read_roles"
| "kb_roles (SyncStatus _ _) = read_roles"
| "kb_roles _ = write_roles"

fun handle_kb :: "'w platform_services \<Rightarrow> user_row \<Rightarrow> kb_demand \<Rightarrow> ('w, kb_reply) platform_action" where
  "handle_kb ps u ListKbs = kb_answer Kbs (list_kbs_route u)"
| "handle_kb ps u (CreateKnowledgeBase f) = kb_answer AKb (create_kb_route ps u f)"
| "handle_kb ps u (GetKb i) = kb_answer AKb (get_kb_route u i)"
| "handle_kb ps u (DeleteKnowledgeBase i) = kb_answer (\<lambda>_. Done) (delete_kb_route ps u i)"
| "handle_kb ps u (Reindex i) = kb_answer AKb (reindex_kb_route ps u i)"
| "handle_kb ps u (UploadDocuments i d fs) = kb_answer Uploaded (upload_documents_route ps u i d fs)"
| "handle_kb ps u (ListDocuments i) = kb_answer Documents (list_documents_route ps u i)"
| "handle_kb ps u (DeleteDocument i k) = kb_answer (\<lambda>_. Done) (delete_document_route ps u i k)"
| "handle_kb ps u (TriggerSync i) = kb_answer (\<lambda>(j, r). SyncStarted j r) (trigger_sync_route ps u i)"
| "handle_kb ps u (SyncStatus i j) = kb_answer SyncReport (sync_status_route ps u i j)"
| "handle_kb ps u (PresignedUpload i d ns) = kb_answer UploadUrls (presigned_upload_route ps u i d ns)"
| "handle_kb ps u (ValidateS3 i b) = kb_answer (\<lambda>_. Done) (validate_s3_route ps u i b)"

definition serve_kb ::
  "'w platform_services \<Rightarrow> string option \<Rightarrow> kb_demand \<Rightarrow> ('w, kb_reply) platform_action" where
  "serve_kb ps bearer d = guarded ps bearer (kb_roles d) (\<lambda>u. handle_kb ps u d)"

end
