(* ===== verification/BuildWithAi.thy ===== *)
theory BuildWithAi
  imports CatalogRules
begin

text \<open>
  Build with AI: the planner's routes (app/api/v1/task_planner.py), the proposal, its approval and
  its status (app/api/v1/build_with_ai.py), the executor of an approval
  (task_planner/executor.py) and the store of sessions (task_planner/session_store.py). The text
  of an exception is that of the registry's errors; another exception's text is left empty.
\<close>

section \<open>The planner's routes\<close>

definition catalog_of :: "string \<Rightarrow> ('w, catalog) platform_action" where
  "catalog_of tenant =
     andthen (on_connectors (list_connectors tenant)) (\<lambda>cs.
     andthen (on_kbs (list_kbs tenant)) (\<lambda>ks.
     andthen (on_policies (list_policies tenant)) (\<lambda>ps.
     andthen (on_skills (query_rows tenant)) (\<lambda>ss. ret (build_catalog cs ks ps ss)))))"

definition planning :: "('w, 'a) platform_action \<Rightarrow> ('w, 'a) platform_action" where
  "planning m = mapping ''TaskPlannerError'' 502 m"

definition analyze_route :: "'w platform_services \<Rightarrow> user_row \<Rightarrow> string \<Rightarrow> ('w, task_proposal) platform_action" where
  "analyze_route ps u description =
     planning (andthen (catalog_of (us_tenant u)) (\<lambda>c. on_world (analyze_task (ps_llm ps) (ps_co ps) description c)))"

definition architecture_for :: "'w platform_services \<Rightarrow> string \<Rightarrow> string \<Rightarrow> ('w, architecture) platform_action" where
  "architecture_for ps tenant description =
     andthen (catalog_of tenant) (\<lambda>c. on_world (analyze_architecture (ps_llm ps) (ps_co ps) description c))"

definition architecture_route :: "'w platform_services \<Rightarrow> user_row \<Rightarrow> string \<Rightarrow> ('w, architecture) platform_action" where
  "architecture_route ps u description = planning (architecture_for ps (us_tenant u) description)"

section \<open>The session store\<close>

definition new_session_id :: "string \<Rightarrow> string" where "new_session_id hex = ''bwai-'' @ take 12 hex"

definition put_session :: "build_session \<Rightarrow> (build_session, unit) table_action" where
  "put_session b = put_row (bs_tenant b) (bs_id b) b"

definition session_not_found :: "string \<Rightarrow> pyexn" where
  "session_not_found i =
     Raised ''BuildWithAISessionNotFoundError'' (''Build with AI session '' @ repr_str i @ '' not found'')"

definition require_session :: "string \<Rightarrow> string \<Rightarrow> (build_session, build_session) table_action" where
  "require_session tenant i =
     andthen (find_row tenant i) (\<lambda>r. case r of None \<Rightarrow> raising (session_not_found i) | Some b \<Rightarrow> ret b)"

section \<open>The proposal\<close>

text \<open>A resource of the catalog that the architecture uses: its kind, id and name, each id once.\<close>

type_synonym resource_ref = "string \<times> string \<times> string"

fun add_available :: "string \<Rightarrow> suggestion list \<Rightarrow> resource_ref list \<Rightarrow> resource_ref list" where
  "add_available kind [] acc = acc"
| "add_available kind (s # ss) acc =
     (case sg_resource s of
        None \<Rightarrow> add_available kind ss acc
      | Some i \<Rightarrow>
          if \<not> sg_in_catalog s \<or> i \<in> fst ` snd ` set acc then add_available kind ss acc
          else add_available kind ss (acc @ [(kind, i, sg_name s)]))"

definition available_resources :: "architecture \<Rightarrow> resource_ref list" where
  "available_resources a =
     (let r = ar_resources a
      in add_available ''skill'' (rs_skills r) (add_available ''guardrail_policy'' (rs_policies r)
           (add_available ''knowledge_base'' (rs_kbs r) (add_available ''tool'' (rs_tools r) []))))"

record agent_spec =
  sp_name :: string
  sp_role :: string
  sp_purpose :: string
  sp_prompt :: string
  sp_capability :: string
  sp_tools :: "string list"
  sp_kbs :: "string list"
  sp_policy :: "string option"
  sp_skills :: "string list"
  sp_subs :: "string list"

definition proposed_agent_spec :: "string list \<Rightarrow> agent_proposal \<Rightarrow> agent_spec" where
  "proposed_agent_spec names p =
     \<lparr>sp_name = ap_name p, sp_role = ap_type p, sp_purpose = ap_description p, sp_prompt = ap_prompt p,
      sp_capability = ap_capability p, sp_tools = map sg_name (ap_tools p), sp_kbs = map sg_name (ap_kbs p),
      sp_policy = map_option sg_name (ap_policy p), sp_skills = map sg_name (ap_skills p), sp_subs = names\<rparr>"

definition proposed_agents :: "architecture \<Rightarrow> agent_spec list" where
  "proposed_agents a =
     proposed_agent_spec (map ap_name (ar_subs a)) (ar_orchestrator a) # map (proposed_agent_spec []) (ar_subs a)"

record build_proposal =
  bp_session :: string
  bp_description :: string
  bp_available :: "resource_ref list"
  bp_missing :: "missing_resource list"
  bp_agents :: "agent_spec list"
  bp_confidence :: string
  bp_reasoning :: string

definition propose_build ::
  "'w platform_services \<Rightarrow> user_row \<Rightarrow> string \<Rightarrow> string option \<Rightarrow> ('w, build_proposal) platform_action" where
  "propose_build ps u description project =
     andthen (planning (andthen (architecture_for ps (us_tenant u) description) (\<lambda>a.
       andthen (on_world (propose_missing_resource_configs (ps_llm ps) a)) (\<lambda>missing. ret (a, missing))))) (\<lambda>(a, missing).
     andthen (draw_hex ps) (\<lambda>hex.
     andthen (the_time ps) (\<lambda>now.
     andthen (on_builds (put_session
         \<lparr>bs_id = new_session_id hex, bs_tenant = us_tenant u, bs_project = project, bs_description = description,
          bs_architecture = a, bs_missing = missing, bs_status = ''proposed'', bs_resources = [], bs_agents = [],
          bs_error = None, bs_created = now, bs_updated = now\<rparr>)) (\<lambda>_.
       ret \<lparr>bp_session = new_session_id hex, bp_description = description, bp_available = available_resources a,
            bp_missing = missing, bp_agents = proposed_agents a, bp_confidence = ar_confidence a,
            bp_reasoning = ar_reasoning a\<rparr>))))"

section \<open>What an approval creates: the missing resources\<close>

definition key_or :: "string \<Rightarrow> pyval \<Rightarrow> (string \<times> pyval) list \<Rightarrow> pyval" where
  "key_or k d cfg = get_or d (dict_of cfg k)"

definition tool_fields :: "missing_resource \<Rightarrow> (string \<times> pyval) list \<Rightarrow> connector_fields" where
  "tool_fields m cfg =
     (let auth = key_or ''auth_type'' (PStr ''none'') cfg
      in \<lparr>cf_name = mr_name m, cf_executor = key_or ''executor_type'' (PStr ''http'') cfg,
          cf_description = mr_description m, cf_input = key_or ''input_schema'' PNone cfg,
          cf_output = key_or ''output_schema'' PNone cfg, cf_endpoint = key_or ''endpoint'' PNone cfg,
          cf_credentials = (if py_truthy auth \<and> auth \<noteq> PStr ''none'' then [auth] else [])\<rparr>)"

definition create_missing :: 
  "'w platform_services \<Rightarrow> user_row \<Rightarrow> (string \<times> pyval) list \<Rightarrow> missing_resource \<Rightarrow> ('w, string) platform_action" where
  "create_missing ps u cfg m =
     fresh ps (\<lambda>now hex.
       if mr_type m = ''tool''
       then andthen (on_connectors (create_connector now hex (us_tenant u) (us_email u) (tool_fields m cfg))) (\<lambda>r. ret (cn_id r))
       else if mr_type m = ''knowledge_base''
       then andthen (on_kbs (create_kb now hex (us_tenant u) (us_email u)
                (default_kb_fields (mr_name m) (mr_description m) ''manual'') None ''agent-factory'' None)) (\<lambda>r. ret (kn_id r))
       else if mr_type m = ''guardrail_policy''
       then andthen (on_policies (create_policy now hex (us_tenant u) (us_email u)
                (default_policy_fields (mr_name m) (mr_description m)))) (\<lambda>r. ret (gp_id r))
       else
         (let capability = key_or ''capability'' (PStr (mr_name m)) cfg;
              fragment = key_or ''prompt_fragment'' (PStr (''Use the '' @ mr_name m @ '' skill when relevant.'')) cfg
          in if is_text capability \<and> is_text fragment
             then andthen (on_skills (create_skill now hex (us_tenant u) (us_email u) (mr_name m) (mr_description m)
                      (text_of capability) (text_of fragment) PNone PNone ''1.0'')) (\<lambda>r. ret (sk_id r))
             else raising (ValidationError ''Skill'')))"

text \<open>The configurations a user edited, by key, are merged over the proposed one.\<close>

type_synonym edits = "(string \<times> (string \<times> pyval) list) list"

fun create_missing_resources ::
  "'w platform_services \<Rightarrow> user_row \<Rightarrow> string list \<Rightarrow> edits \<Rightarrow> missing_resource list
     \<Rightarrow> ('w, (string \<times> string) list \<times> created_resource list \<times> string list) platform_action" where
  "create_missing_resources ps u skip edited [] = ret ([], [], [])"
| "create_missing_resources ps u skip edited (m # ms) =
     (if mr_key m \<in> set skip
      then andthen (create_missing_resources ps u skip edited ms) (\<lambda>(l, cs, sk). ret (l, cs, mr_key m # sk))
      else
        andthen (create_missing ps u (mr_config m @ get_or [] (dict_of edited (mr_key m))) m) (\<lambda>i.
        andthen (create_missing_resources ps u skip edited ms) (\<lambda>(l, cs, sk).
          ret ((mr_key m, i) # l, \<lparr>cs_type = mr_type m, cs_id = i, cs_name = mr_name m\<rparr> # cs, sk))))"

definition resolve_id :: "string \<Rightarrow> (string \<times> string) list \<Rightarrow> suggestion \<Rightarrow> string option" where
  "resolve_id kind made s =
     (if sg_in_catalog s \<and> sg_resource s \<noteq> None then sg_resource s else dict_of made (resource_key kind (sg_name s)))"

section \<open>The configuration of a built agent\<close>

definition tool_instance :: "string \<Rightarrow> pyval" where
  "tool_instance i =
     PDict [(''connector_id'', PStr i), (''timeout_ms'', PInt 10000), (''retry_count'', PInt 1),
       (''cache_enabled'', PBool False), (''cache_ttl_seconds'', PInt 300), (''error_handling'', PStr ''fail_request''),
       (''fallback_connector_id'', PNone), (''parallel_calls_allowed'', PBool True)]"

definition skill_config :: "string \<Rightarrow> pyval" where
  "skill_config i = PDict [(''skill_id'', PStr i), (''enabled'', PBool True), (''config'', PDict [])]"

definition guardrail_defaults :: pyval where
  "guardrail_defaults =
     PDict [(''prompt_injection'', PBool True), (''pii_detection'', PBool True), (''toxicity_filter'', PBool True),
       (''topic_filter'', PBool False), (''blocked_topics'', PList []), (''hallucination_check'', PBool True),
       (''pii_strip_output'', PBool True)]"

definition memory_defaults :: pyval where
  "memory_defaults =
     PDict [(''memory_type'', PStr ''none''), (''persistent_memory_ttl_days'', PInt 30), (''max_session_turns'', PInt 50)]"

definition output_defaults :: pyval where
  "output_defaults =
     PDict [(''format_type'', PStr ''text''), (''json_schema'', PNone), (''output_instructions'', PNone)]"

definition sub_agent_ref :: "string \<times> string \<times> string \<Rightarrow> pyval" where
  "sub_agent_ref x =
     (case x of (i, name, capability) \<Rightarrow>
        PDict [(''agent_id'', PStr i), (''agent_name'', PStr name), (''capability_description'', PStr capability),
          (''allowed_actions'', PList [])])"

definition orchestration_of :: "(string \<times> string \<times> string) list \<Rightarrow> pyval" where
  "orchestration_of refs =
     (if refs = [] then PNone
      else PDict [(''is_manager'', PBool True), (''routing_strategy'', PStr ''llm''),
             (''sub_agents'', PList (map sub_agent_ref refs)), (''fallback_agent_id'', PNone),
             (''max_delegation_depth'', PInt 2), (''pipeline_config'', PNone), (''parent_orchestrator_id'', PNone),
             (''sub_agent_ids'', PList []), (''execution_mode'', PNone), (''hitl_enabled'', PBool False)])"

text \<open>The dump of \<open>AgentConfiguration\<close> with its defaults.\<close>

definition agent_configuration ::
  "string \<Rightarrow> string option \<Rightarrow> string option \<Rightarrow> string list \<Rightarrow> string list \<Rightarrow> (string \<times> string \<times> string) list \<Rightarrow> pyval" where
  "agent_configuration prompt kb policy tools skills refs =
     PDict
       [(''model_id'', PStr ''anthropic.claude-3-5-sonnet-20241022-v2:0''), (''model_provider'', PStr ''bedrock''),
        (''temperature'', PFloat ''0.3''), (''max_tokens'', PInt 2048), (''top_p'', PFloat ''0.9''),
        (''context_window_k'', PInt 32), (''fallback_model_string'', PNone), (''system_prompt'', PStr prompt),
        (''system_prompt_variables'', PList []), (''prompt_version'', PNone), (''guardrails'', guardrail_defaults),
        (''policies'', PList []), (''knowledge_base'', PNone), (''tools'', PList []), (''tool_policies'', PList []),
        (''human_review'', PNone), (''token_budget_daily'', PNone), (''rate_limit_rpm'', PNone),
        (''rate_limit_rpd'', PNone), (''monthly_budget_usd'', PNone), (''observability_enabled'', PBool True),
        (''langfuse_enabled'', PBool True), (''audit_enabled'', PBool True), (''audit_s3_prefix'', PNone),
        (''memory'', memory_defaults), (''output_format'', output_defaults), (''orchestration'', orchestration_of refs),
        (''mcp_servers'', PList []), (''skills'', PList (map skill_config skills)), (''kb_id'', null_or_text kb),
        (''guardrail_policy_id'', null_or_text policy), (''model_advanced'', PNone), (''memory_config'', PNone),
        (''tool_instances'', PList (map tool_instance tools)), (''output_schema'', PNone), (''persona_name'', PNone),
        (''greeting_message'', PNone), (''response_tone'', PNone), (''max_turns'', PNone),
        (''session_timeout_minutes'', PNone), (''skill_ids'', PList []), (''trigger'', PNone), (''access'', PNone),
        (''hitl'', PNone)]"

definition some_ids :: "string \<Rightarrow> (string \<times> string) list \<Rightarrow> suggestion list \<Rightarrow> string list" where
  "some_ids kind made ss = List.map_filter (resolve_id kind made) ss"

definition build_configuration ::
  "(string \<times> string) list \<Rightarrow> (string \<times> string \<times> string) list \<Rightarrow> agent_proposal \<Rightarrow> pyval" where
  "build_configuration made refs p =
     (let kbs = some_ids ''knowledge_base'' made (ap_kbs p)
      in agent_configuration (ap_prompt p) (if kbs = [] then None else Some (hd kbs))
           (Option.bind (ap_policy p) (resolve_id ''guardrail_policy'' made)) (some_ids ''tool'' made (ap_tools p))
           (some_ids ''skill'' made (ap_skills p)) refs)"

section \<open>The executor\<close>

definition build_agent ::
  "'w platform_services \<Rightarrow> user_row \<Rightarrow> pyval \<Rightarrow> agent_proposal \<Rightarrow> ('w, string) platform_action" where
  "build_agent ps u cfg p =
     andthen (draw_hexes ps 5) (\<lambda>hexes.
     andthen (the_time ps) (\<lambda>now.
     andthen (on_agents (create_agent (ps_sha256 ps) (ps_version ps) (At now) hexes (us_tenant u)
         \<lparr>na_name = ap_name p, na_description = ap_description p, na_purpose = ap_description p, na_type = ap_type p,
          na_config = cfg, na_by = us_email u, na_project = None, na_owner = None, na_tags = [],
          na_changelog = None\<rparr>)) (\<lambda>(r, v). ret (ag_id r))))"

fun build_subs ::
  "'w platform_services \<Rightarrow> user_row \<Rightarrow> (string \<times> string) list \<Rightarrow> agent_proposal list
     \<Rightarrow> ('w, (string \<times> string \<times> string) list \<times> created_agent list) platform_action" where
  "build_subs ps u made [] = ret ([], [])"
| "build_subs ps u made (p # rest) =
     andthen (build_agent ps u (build_configuration made [] p) p) (\<lambda>i.
     andthen (build_subs ps u made rest) (\<lambda>(refs, agents).
       ret ((i, ap_name p, ap_capability p) # refs, \<lparr>ca_id = i, ca_name = ap_name p, ca_role = ap_type p\<rparr> # agents)))"

definition execute_approval ::
  "'w platform_services \<Rightarrow> user_row \<Rightarrow> build_session \<Rightarrow> string list \<Rightarrow> edits
     \<Rightarrow> ('w, created_resource list \<times> string list \<times> created_agent list) platform_action" where
  "execute_approval ps u b skip edited =
     andthen (create_missing_resources ps u skip edited (bs_missing b)) (\<lambda>(made, resources, skipped).
     andthen (build_subs ps u made (ar_subs (bs_architecture b))) (\<lambda>(refs, agents).
       let orch = ar_orchestrator (bs_architecture b)
       in andthen (build_agent ps u (build_configuration made refs orch) orch) (\<lambda>i.
            ret (resources, skipped, agents @ [\<lparr>ca_id = i, ca_name = ap_name orch, ca_role = ap_type orch\<rparr>]))))"

section \<open>Approval and status\<close>

definition session_or_404 :: "string \<Rightarrow> string \<Rightarrow> ('w, build_session) platform_action" where
  "session_or_404 tenant i = mapping ''BuildWithAISessionNotFoundError'' 404 (on_builds (require_session tenant i))"

definition approve_session ::
  "'w platform_services \<Rightarrow> user_row \<Rightarrow> string \<Rightarrow> string list \<Rightarrow> edits \<Rightarrow> build_session
     \<Rightarrow> ('w, created_resource list \<times> string list \<times> created_agent list) platform_action" where
  "approve_session ps u i skip edited b =
      (if bs_status b \<noteq> ''proposed''
       then http_error 409 (''Build with AI session '' @ repr_str i @ '' was already '' @ bs_status b
              @ '' -- a session can only be approved once.'')
       else
         andthen (catching (execute_approval ps u b skip edited) (\<lambda>e.
           andthen (the_time ps) (\<lambda>now.
           andthen (on_builds (put_session (b\<lparr>bs_status := ''failed'', bs_error := Some (registry_error_text e),
               bs_updated := now\<rparr>))) (\<lambda>_.
             http_error 502 (''Build with AI approval failed partway through: '' @ registry_error_text e))))) (\<lambda>(rs, sk, as).
         andthen (the_time ps) (\<lambda>now.
         andthen (on_builds (put_session (b\<lparr>bs_status := ''completed'', bs_resources := rs, bs_agents := as,
             bs_updated := now\<rparr>))) (\<lambda>_.
           ret (rs, sk, as)))))"

definition approve_build ::
  "'w platform_services \<Rightarrow> user_row \<Rightarrow> string \<Rightarrow> string list \<Rightarrow> edits
     \<Rightarrow> ('w, created_resource list \<times> string list \<times> created_agent list) platform_action" where
  "approve_build ps u i skip edited = andthen (session_or_404 (us_tenant u) i) (approve_session ps u i skip edited)"

definition build_status_route ::
  "user_row \<Rightarrow> string \<Rightarrow> ('w, string \<times> created_resource list \<times> created_agent list \<times> string option) platform_action" where
  "build_status_route u i =
     andthen (session_or_404 (us_tenant u) i) (\<lambda>b. ret (bs_status b, bs_resources b, bs_agents b, bs_error b))"

section \<open>The routes behind the guard\<close>

datatype build_demand =
    AnalyzeTask string | AnalyzeArchitecture string | Propose string "string option"
  | Approve string "string list" edits | BuildStatus string

datatype build_reply =
    Proposal task_proposal | Architecture architecture | Proposed build_proposal
  | Approved "created_resource list" "string list" "created_agent list"
  | Status string "created_resource list" "created_agent list" "string option"

definition build_answer :: "('a \<Rightarrow> build_reply) \<Rightarrow> ('w, 'a) platform_action \<Rightarrow> ('w, build_reply) platform_action" where
  "build_answer f m = andthen m (\<lambda>x. ret (f x))"

fun build_roles :: "build_demand \<Rightarrow> string list" where
  "build_roles (Approve _ _ _) = write_roles"
| "build_roles _ = read_roles"

fun handle_build :: "'w platform_services \<Rightarrow> user_row \<Rightarrow> build_demand \<Rightarrow> ('w, build_reply) platform_action" where
  "handle_build ps u (AnalyzeTask d) = build_answer Proposal (analyze_route ps u d)"
| "handle_build ps u (AnalyzeArchitecture d) = build_answer Architecture (architecture_route ps u d)"
| "handle_build ps u (Propose d p) = build_answer Proposed (propose_build ps u d p)"
| "handle_build ps u (Approve i skip edited) =
     build_answer (\<lambda>(rs, sk, as). Approved rs sk as) (approve_build ps u i skip edited)"
| "handle_build ps u (BuildStatus i) =
     build_answer (\<lambda>(st, rs, as, e). Status st rs as e) (build_status_route u i)"

definition serve_build ::
  "'w platform_services \<Rightarrow> string option \<Rightarrow> build_demand \<Rightarrow> ('w, build_reply) platform_action" where
  "serve_build ps bearer rq = guarded ps bearer (build_roles rq) (\<lambda>u. handle_build ps u rq)"

end
