(* ===== verification/QuietParts.thy ===== *)
theory QuietParts
  imports KnowledgeBases BuildWithAi
begin

text \<open>
  Parts of the platform's state that a group of routes does not touch. The interface names an
  observation that no write to the libraries' tables, to the Factory or to the settings changes;
  what the routes keep of it is proved once and read off for each such part.
\<close>

lemma attempt_frame [frame_intros]: "stays_in R m \<Longrightarrow> stays_in R (attempt m)"
  by (auto simp: stays_in_def attempt_def split: prod.splits) (metis snd_conv)

section \<open>An observation the libraries do not touch\<close>

locale quiet_part =
  fixes obs :: "'w platform \<Rightarrow> 'b"
  assumes quiet_writes:
    "obs (s\<lparr>pl_factory := f\<rparr>) = obs s" "obs (s\<lparr>pl_connectors := c\<rparr>) = obs s" "obs (s\<lparr>pl_kbs := k\<rparr>) = obs s"
    "obs (s\<lparr>pl_policies := g\<rparr>) = obs s" "obs (s\<lparr>pl_credentials := d\<rparr>) = obs s" "obs (s\<lparr>pl_skills := l\<rparr>) = obs s"
    "obs (s\<lparr>pl_prompts := q\<rparr>) = obs s" "obs (s\<lparr>pl_projects := j\<rparr>) = obs s" "obs (s\<lparr>pl_settings := e\<rparr>) = obs s"
begin

lemma quiet_parts [frame_intros]:
  "stays_in (same obs) (on_world m1)" "stays_in (same obs) (on_factory m2)" "stays_in (same obs) (on_agents m3)"
  "stays_in (same obs) (on_connectors m4)" "stays_in (same obs) (on_kbs m5)" "stays_in (same obs) (on_policies m6)"
  "stays_in (same obs) (on_credentials m7)" "stays_in (same obs) (on_skills m8)" "stays_in (same obs) (on_prompts m9)"
  "stays_in (same obs) (on_projects m10)" "stays_in (same obs) (on_settings m11)"
  by (auto simp: stays_in_def same_def on_world_def on_factory_def on_agents_def on_connectors_def on_kbs_def
      on_policies_def on_credentials_def on_skills_def on_prompts_def on_projects_def on_settings_def on_part_def
      quiet_writes split: prod.splits)

lemma quiet_errors [frame_intros]:
  "stays_in (same obs) (http_error n t)" "stays_in (same obs) (not_found_404 kind i)"
  "stays_in (same obs) (not_own_connector i)" "stays_in (same obs) (raise_if_referenced refs)"
  "stays_in (same obs) (provisioning_error x)"
proof -
  show "stays_in (same obs) (provisioning_error x)"
    unfolding provisioning_error_def http_error_def by (cases x) (auto intro!: frame_intros)
qed (unfold not_found_404_def not_own_connector_def raise_if_referenced_def http_error_def, (intro frame_intros)+)

lemma quiet_mapping [frame_intros]: "stays_in (same obs) m \<Longrightarrow> stays_in (same obs) (mapping cl n m)"
  unfolding mapping_def by (intro frame_intros) (auto intro!: frame_intros split: pyexn.split)

lemma quiet_registry_errors [frame_intros]:
  "stays_in (same obs) m \<Longrightarrow> stays_in (same obs) (registry_errors code m)"
  unfolding registry_errors_def by (intro frame_intros)

lemma quiet_found [frame_intros]: "stays_in (same obs) m \<Longrightarrow> stays_in (same obs) (found_or_404 kind i m)"
  unfolding found_or_404_def by (intro frame_intros)

lemma quiet_time [frame_intros]:
  "stays_in (same obs) (the_time ps)" "stays_in (same obs) (draw_hex ps)" "stays_in (same obs) (draw_hexes ps n)"
proof -
  show d: "stays_in (same obs) (draw_hex ps)" unfolding draw_hex_def by (intro frame_intros)
  show "stays_in (same obs) (draw_hexes ps n)" by (induction n) (auto intro!: frame_intros d)
  show "stays_in (same obs) (the_time ps)" unfolding the_time_def by (intro frame_intros)
qed

lemma quiet_fresh [frame_intros]:
  "(\<And>now hex. stays_in (same obs) (m now hex)) \<Longrightarrow> stays_in (same obs) (fresh ps m)"
  unfolding fresh_def by (intro frame_intros)

section \<open>The libraries\<close>

lemma quiet_library [frame_intros]:
  "stays_in (same obs) (agents_referencing u skip refers)" "stays_in (same obs) (validate_thresholds b)"
  "stays_in (same obs) (read_policy row)"
proof -
  show "stays_in (same obs) (read_policy row)"
    unfolding read_policy_def by (auto intro!: frame_intros split: policy_row.splits)
qed (unfold agents_referencing_def validate_thresholds_def, (intro frame_intros)+)

lemma quiet_provision [frame_intros]:
  "stays_in (same obs) (resolve_client ps u p)" "stays_in (same obs) (provision_policy ps u row)"
  "stays_in (same obs) (deprovision_policy ps u p)" "stays_in (same obs) (provision_bedrock_guardrail ps u row)"
proof -
  show r: "stays_in (same obs) (resolve_client ps u p)" for p
    unfolding resolve_client_def Let_def by (intro frame_intros)
  show p: "stays_in (same obs) (provision_policy ps u row)"
    unfolding provision_policy_def Let_def by (intro frame_intros r)
  show "stays_in (same obs) (deprovision_policy ps u p)"
    unfolding deprovision_policy_def by (intro frame_intros r)
  show "stays_in (same obs) (provision_bedrock_guardrail ps u row)"
    unfolding provision_bedrock_guardrail_def by (intro frame_intros p)
qed

lemmas library_routes =
  list_prompts_route_def create_prompt_route_def get_prompt_route_def update_prompt_route_def delete_prompt_route_def
  list_skills_route_def create_skill_route_def get_skill_route_def update_skill_route_def delete_skill_route_def
  list_connectors_route_def create_connector_route_def get_connector_route_def update_connector_route_def
  delete_connector_route_def list_credentials_route_def create_credential_route_def get_credential_route_def
  delete_credential_route_def list_policies_route_def create_policy_route_def get_policy_route_def
  update_policy_route_def delete_policy_route_def list_projects_route_def create_project_route_def
  get_project_route_def update_project_route_def delete_project_route_def list_project_agents_route_def
  create_project_agent_route_def require_project_agent_def update_project_agent_route_def
  delete_project_agent_route_def publish_project_agent_route_def archive_project_agent_route_def
  rollback_project_agent_route_def lifecycle_route_def

lemma handle_catalog_quiet: "stays_in (same obs) (handle_catalog ps u rq)"
  by (cases rq; simp add: replying_def; unfold library_routes Let_def; intro frame_intros)

section \<open>Knowledge bases, without their objects\<close>

lemma quiet_ret_or [frame_intros]: "stays_in (same obs) (ret_or r)"
  unfolding ret_or_def by (intro frame_intros)

lemma quiet_scan [frame_intros]:
  "stays_in (same obs) (scan_document ps tenant name body)"
  "stays_in (same obs) (audit_rejection tenant i name reason)"
  unfolding scan_document_def scan_for_prompt_injection_def audit_rejection_def by (intro frame_intros)+

lemma quiet_provisioner [frame_intros]:
  "stays_in (same obs) (call_kb ps x)" "stays_in (same obs) (provision_kb ps kb)"
  "stays_in (same obs) (deprovision_kb ps kb)" "stays_in (same obs) (start_sync ps kb)"
  "stays_in (same obs) (sync_status_of ps kb job)"
  unfolding provision_kb_def deprovision_kb_def start_sync_def sync_status_of_def call_kb_def Let_def
  by (intro frame_intros)+

lemma quiet_lookups [frame_intros]:
  "stays_in (same obs) (get_kb_or_404 tenant i)" "stays_in (same obs) (provisioned_kb tenant i)"
  "stays_in (same obs) (agents_referencing_kb tenant i)" "stays_in (same obs) (resolve_kb_bucket ps tenant)"
  "stays_in (same obs) (check_extensions names)"
  unfolding get_kb_or_404_def provisioned_kb_def agents_referencing_kb_def resolve_kb_bucket_def check_extensions_def
  by (intro frame_intros)+

lemma plain_kb_routes [frame_intros]:
  "stays_in (same obs) (list_kbs_route u)" "stays_in (same obs) (create_kb_route ps u f')"
  "stays_in (same obs) (get_kb_route u i)" "stays_in (same obs) (reindex_kb_route ps u i)"
  "stays_in (same obs) (sync_status_route ps u i job)"
  unfolding list_kbs_route_def create_kb_route_def get_kb_route_def reindex_kb_route_def sync_status_route_def Let_def
  by (intro frame_intros)+

section \<open>Build with AI, without its sessions\<close>

lemma quiet_build [frame_intros]:
  "stays_in (same obs) (catalog_of tenant)" "stays_in (same obs) (architecture_for ps tenant x)"
  "stays_in (same obs) (analyze_route ps u x)" "stays_in (same obs) (architecture_route ps u x)"
  "stays_in (same obs) (create_missing ps u cfg m)" "stays_in (same obs) (build_agent ps u cfg' p)"
  unfolding catalog_of_def architecture_for_def analyze_route_def architecture_route_def planning_def
    create_missing_def build_agent_def Let_def
  by (intro frame_intros)+

lemma quiet_build_loops [frame_intros]:
  "stays_in (same obs) (create_missing_resources ps u skip edited ms)" "stays_in (same obs) (build_subs ps u made rest)"
  by (induction ms) (auto intro!: frame_intros, induction rest, auto intro!: frame_intros)

lemma execute_approval_quiet [frame_intros]: "stays_in (same obs) (execute_approval ps u b skip edited)"
  unfolding execute_approval_def Let_def by (intro frame_intros)

end

section \<open>An observation that does not see the objects either\<close>

locale apart_from_objects = quiet_part obs for obs :: "'w platform \<Rightarrow> 'b" +
  assumes quiet_objects_write: "obs (s\<lparr>pl_objects := os\<rparr>) = obs s"
begin

lemma quiet_s3 [frame_intros]:
  "stays_in (same obs) (s3_do ps x)" "stays_in (same obs) (list_objects ps b p)"
  "stays_in (same obs) (delete_all_under_prefix ps b p)"
proof -
  have m: "stays_in (same obs) (modifies (\<lambda>s. s\<lparr>pl_objects := h s\<rparr>))" for h
    by (simp add: stays_in_def modifies_def same_def quiet_objects_write)
  show s: "stays_in (same obs) (s3_do ps x)" for x unfolding s3_do_def by (intro frame_intros m)
  show l: "stays_in (same obs) (list_objects ps b p)" unfolding list_objects_def by (intro frame_intros s)
  show "stays_in (same obs) (delete_all_under_prefix ps b p)"
    unfolding delete_all_under_prefix_def by (intro frame_intros s l)
qed

lemma quiet_kb_loops [frame_intros]:
  "stays_in (same obs) (upload_files ps u kb dir fs r)" "stays_in (same obs) (quarantine_objects ps u i b p ks)"
  "stays_in (same obs) (presign_files ps kb dir ns)"
proof -
  show "stays_in (same obs) (upload_files ps u kb dir fs r)"
  proof (induction fs arbitrary: r)
    case (Cons x fs)
    then show ?case by (cases x) (auto simp: Let_def intro!: frame_intros)
  qed (auto intro!: frame_intros)
  show "stays_in (same obs) (quarantine_objects ps u i b p ks)"
    by (induction ks) (auto simp: Let_def intro!: frame_intros)
  show "stays_in (same obs) (presign_files ps kb dir ns)"
    by (induction ns) (auto simp: Let_def intro!: frame_intros)
qed

lemma upload_quiet [frame_intros]: "stays_in (same obs) (upload_documents_route ps u i dir fs)"
  unfolding upload_documents_route_def by (intro frame_intros) (auto intro!: frame_intros split: pyexn.split)

lemma handle_kb_quiet: "stays_in (same obs) (handle_kb ps u rq)"
  by (cases rq; simp add: kb_answer_def; (unfold delete_kb_route_def list_documents_route_def delete_document_route_def
      trigger_sync_route_def presigned_upload_route_def validate_s3_route_def scan_and_quarantine_def Let_def)?;
      intro frame_intros)

end

section \<open>The parts\<close>

interpretation quiet_objects: quiet_part pl_objects
  by unfold_locales simp_all

interpretation quiet_sessions: apart_from_objects pl_builds
  by unfold_locales simp_all

interpretation quiet_users: apart_from_objects pl_users
  by unfold_locales simp_all

end
