(* ===== verification/KnowledgeBaseRules.thy ===== *)
theory KnowledgeBaseRules
  imports QuietParts CatalogRules
begin

text \<open>
  What the routes of knowledge bases keep: a request changes rows of its caller's tenant only and
  objects of its own bases only, and a sync leaves no listed document that did not pass the scan.
\<close>

lemma ret_or_own [frame_intros]: "stays_in (own_rows tenant) (ret_or r)"
  unfolding ret_or_def by (intro frame_intros)

section \<open>Calls to S3\<close>

lemma s3_do_cases:
  assumes "s3_do ps c s = (r, t)"
  obtains (failed) e where "r = Inl e" "pl_objects t = pl_objects s"
    | (made) "r = Inr ()" "pl_objects t = s3_effect c (pl_objects s)"
proof -
  obtain q w where q: "ps_s3 ps c (fc_world (pl_factory s)) = (q, w)" by (cases rule: prod.exhaust)
  show ?thesis
  proof (cases q)
    case None
    with q assms made show ?thesis by (auto simp: s3_do_def on_world_def on_part_def andthen_def modifies_def)
  next
    case (Some e)
    with q assms failed show ?thesis by (auto simp: s3_do_def on_world_def on_part_def andthen_def)
  qed
qed

lemma list_objects_cases:
  assumes "list_objects ps b p s = (r, t)"
  shows "pl_objects t = pl_objects s \<and> (\<forall>os. r = Inr os \<longrightarrow> os = take 1000 (objects_under b p (pl_objects s)))"
  using assms unfolding list_objects_def
  by (auto elim!: andthen_cases s3_do_cases simp: reads_def)

lemma set_objects_under: "(k, body) \<in> set (objects_under b p os) \<longleftrightarrow> ((b, k), body) \<in> set os \<and> starts_with p k"
  by (force simp: objects_under_def set_sort_items)

lemma objects_under_keys:
  "k \<in> set (map fst (objects_under b p os)) \<longleftrightarrow> starts_with p k \<and> (\<exists>body. ((b, k), body) \<in> set os)"
  by (simp only: set_map image_iff Bex_def split_paired_Ex set_objects_under fst_conv) blast

section \<open>A sync's scan\<close>

text \<open>The quarantine of a folder is not inside the folder.\<close>

definition folder :: "string \<Rightarrow> bool" where
  "folder p \<longleftrightarrow> (\<exists>q. p = q @ ''/'' \<and> q \<noteq> [] \<and> last q \<noteq> CHR ''/'')"

lemma quarantine_of_folder: "q \<noteq> [] \<Longrightarrow> last q \<noteq> CHR ''/'' \<Longrightarrow> quarantine_prefix (q @ ''/'') = q @ ''-quarantine/''"
  by (cases q rule: rev_cases) (simp_all add: quarantine_prefix_def)

lemma quarantine_outside:
  assumes "folder p" shows "\<not> starts_with p (quarantine_prefix p @ name)"
proof -
  from assms obtain q where "p = q @ ''/''" "q \<noteq> []" "last q \<noteq> CHR ''/''" by (auto simp: folder_def)
  then show ?thesis by (simp add: quarantine_of_folder starts_with_prefix)
qed

text \<open>What the scan says of bytes: it was run on them in some state, and found nothing.\<close>

definition passed_scan :: "'w platform_services \<Rightarrow> string \<Rightarrow> string \<Rightarrow> string \<Rightarrow> bool" where
  "passed_scan ps tenant name body \<longleftrightarrow> (\<exists>s :: 'w platform. fst (scan_document ps tenant name body s) = Inr None)"

definition settled :: "'w platform_services \<Rightarrow> string \<Rightarrow> string \<Rightarrow> string \<Rightarrow> objects \<Rightarrow> string \<Rightarrow> bool" where
  "settled ps tenant b p os k \<longleftrightarrow>
     k = p \<or> (case map_of os (b, k) of None \<Rightarrow> True | Some body \<Rightarrow> passed_scan ps tenant (drop (length p) k) body)"

lemma settled_mono:
  "settled ps tenant b p os k \<Longrightarrow> map_of os' (b, k) = map_of os (b, k) \<or> map_of os' (b, k) = None \<Longrightarrow>
    settled ps tenant b p os' k"
  by (auto simp: settled_def)

text \<open>What a pass over keys of the folder may do to one of the folder's objects: remove it, or leave it.\<close>

definition removes_only :: "string \<Rightarrow> string \<Rightarrow> string list \<Rightarrow> objects \<Rightarrow> objects \<Rightarrow> bool" where
  "removes_only b p ks os os' \<longleftrightarrow>
     (\<forall>k. starts_with p k \<longrightarrow> map_of os' (b, k) = map_of os (b, k) \<or> map_of os' (b, k) = None \<and> k \<in> set ks)"

lemma removes_only_trans:
  "removes_only b p ks os os' \<Longrightarrow> removes_only b p ks' os' os'' \<Longrightarrow> set ks \<subseteq> set ms \<Longrightarrow> set ks' \<subseteq> set ms \<Longrightarrow>
    removes_only b p ms os os''"
  unfolding removes_only_def by (metis subsetD)

lemma quarantined:
  assumes "folder p" and "starts_with p k"
  shows "removes_only b p [k] os (AList.delete (b, k) (s3_effect (CopyObject b k (quarantine_prefix p @ name)) os))"
    and "map_of (AList.delete (b, k) os) (b, k) = None"
  using quarantine_outside [OF assms(1)]
  by (auto simp: removes_only_def AList.delete_conv' AList.update_conv' split: option.splits)

lemma quarantine_step:
  assumes run: "quarantine_objects ps tenant i b p (k # ks) s = (Inr rej, t)"
    and k: "starts_with p k" and p: "folder p"
  obtains v rest where "quarantine_objects ps tenant i b p ks v = (Inr rest, t)"
    "removes_only b p [k] (pl_objects s) (pl_objects v)" "settled ps tenant b p (pl_objects v) k"
proof (cases "drop (length p) k = []")
  case True
  with k have "k = p" by (auto simp: starts_with_prefix prefix_def)
  with run that True show ?thesis by (simp add: removes_only_def settled_def)
next
  case False
  define body where "body = get_or [] (map_of (pl_objects s) (b, k))"
  from run False obtain s1 u1 s2 verdict where
    g: "s3_do ps (GetObject b k) s = (Inr u1, s1)"
    and sc: "scan_document ps tenant (drop (length p) k) (get_or [] (map_of (pl_objects s1) (b, k))) s1 = (Inr verdict, s2)"
    and rest: "(case verdict of None \<Rightarrow> quarantine_objects ps tenant i b p ks
       | Some reason \<Rightarrow> andthen (s3_do ps (CopyObject b k (quarantine_prefix p @ drop (length p) k))) (\<lambda>_.
           andthen (s3_do ps (DeleteObject b k)) (\<lambda>_. andthen (audit_rejection tenant i (drop (length p) k) reason) (\<lambda>_.
           andthen (quarantine_objects ps tenant i b p ks) (\<lambda>rest. ret ((drop (length p) k, reason) # rest)))))) s2
       = (Inr rej, t)"
    by (auto simp: Let_def reads_def elim!: andthen_InrE)
  have o1: "pl_objects s1 = pl_objects s" using g by (auto elim!: s3_do_cases)
  have o2: "pl_objects s2 = pl_objects s1" using sc by (rule same_outcome [rotated]) (intro frame_intros)
  show ?thesis
  proof (cases verdict)
    case None
    with sc o1 have "passed_scan ps tenant (drop (length p) k) body"
      unfolding passed_scan_def body_def by (intro exI [of _ s1]) simp
    then have "settled ps tenant b p (pl_objects s2) k"
      by (auto simp: settled_def o1 o2 body_def get_or_def split: option.splits)
    with None rest o1 o2 that show ?thesis by (simp add: removes_only_def)
  next
    case (Some reason)
    with rest obtain s3 u3 s4 u4 s5 u5 r where
      c: "s3_do ps (CopyObject b k (quarantine_prefix p @ drop (length p) k)) s2 = (Inr u3, s3)"
      and d: "s3_do ps (DeleteObject b k) s3 = (Inr u4, s4)"
      and a: "audit_rejection tenant i (drop (length p) k) reason s4 = (Inr u5, s5)"
      and q: "quarantine_objects ps tenant i b p ks s5 = (Inr r, t)"
      by (auto simp: ret_def elim!: andthen_InrE)
    have o5: "pl_objects s5 = pl_objects s4" using a by (rule same_outcome [rotated]) (intro frame_intros)
    have o: "pl_objects s4 = AList.delete (b, k)
        (s3_effect (CopyObject b k (quarantine_prefix p @ drop (length p) k)) (pl_objects s))"
      using c d o1 o2 by (auto elim!: s3_do_cases)
    show ?thesis
    proof (rule that [OF q])
      show "removes_only b p [k] (pl_objects s) (pl_objects s5)" unfolding o5 o by (rule quarantined [OF p k])
      show "settled ps tenant b p (pl_objects s5) k"
        unfolding o5 o settled_def by (simp add: quarantined(2) [OF p k])
    qed
  qed
qed

lemma quarantine_objects_run:
  assumes "folder p"
  shows "quarantine_objects ps tenant i b p ks s = (Inr rej, t) \<Longrightarrow> \<forall>k \<in> set ks. starts_with p k \<Longrightarrow>
    removes_only b p ks (pl_objects s) (pl_objects t) \<and> (\<forall>k \<in> set ks. settled ps tenant b p (pl_objects t) k)"
proof (induction ks arbitrary: s rej)
  case Nil
  then show ?case by (simp add: removes_only_def ret_def)
next
  case (Cons k ks)
  from Cons.prems(2) have k: "starts_with p k" by simp
  from quarantine_step [OF Cons.prems(1) k assms] obtain v rest where
    q: "quarantine_objects ps tenant i b p ks v = (Inr rest, t)"
    and r: "removes_only b p [k] (pl_objects s) (pl_objects v)" and v: "settled ps tenant b p (pl_objects v) k" by blast
  from Cons.IH [OF q] Cons.prems(2) have ih: "removes_only b p ks (pl_objects v) (pl_objects t)"
    "\<forall>k \<in> set ks. settled ps tenant b p (pl_objects t) k" by simp_all
  have "settled ps tenant b p (pl_objects t) k"
    using settled_mono [OF v] ih(1) k unfolding removes_only_def by blast
  moreover have "removes_only b p (k # ks) (pl_objects s) (pl_objects t)"
    by (rule removes_only_trans [OF r ih(1)]) auto
  ultimately show ?case using ih(2) by simp
qed

lemma found_or_404_Inr:
  "found_or_404 k i m s = (Inr x, t) \<Longrightarrow> m s = (Inr (Some x), t)"
  by (auto simp: found_or_404_def not_found_404_def http_error_def ret_def raising_def elim!: andthen_InrE split: option.splits)

lemma get_kb_or_404_Inr:
  assumes "get_kb_or_404 tenant i s = (Inr kb, t)"
  shows "map_of (pl_kbs s) (tenant, i) = Some kb \<and> t = s"
  using found_or_404_Inr [OF assms [unfolded get_kb_or_404_def]]
  by (auto simp: get_kb_def find_row_def reads_def on_kbs_def on_part_def)

lemma provisioned_kb_Inr:
  assumes "provisioned_kb tenant i s = (Inr kb, t)"
  shows "map_of (pl_kbs s) (tenant, i) = Some kb \<and> t = s \<and> truthy (kn_bucket kb) \<and> truthy (kn_prefix kb)"
  using assms unfolding provisioned_kb_def
  by (auto simp: http_error_def ret_def raising_def elim!: andthen_InrE split: if_splits dest!: get_kb_or_404_Inr)

text \<open>
  A sync: each of the first thousand objects of the base's folder passed the scan or is gone from
  it, and every object after them is as it was.
\<close>

lemma scan_and_quarantine_run:
  assumes "scan_and_quarantine ps tenant kb s = (Inr rej, t)" and "kn_bucket kb = Some b" and "kn_prefix kb = Some p"
    and "folder p"
  shows "removes_only b p (map fst (take 1000 (objects_under b p (pl_objects s)))) (pl_objects s) (pl_objects t) \<and>
    (\<forall>k \<in> set (map fst (take 1000 (objects_under b p (pl_objects s)))). settled ps tenant b p (pl_objects t) k)"
proof -
  let ?ks = "map fst (take 1000 (objects_under b p (pl_objects s)))"
  from assms(1-3) obtain os v where "list_objects ps b p s = (Inr os, v)"
    and q: "quarantine_objects ps tenant (kn_id kb) b p (map fst os) v = (Inr rej, t)"
    by (auto simp: scan_and_quarantine_def Let_def elim!: andthen_InrE)
  from list_objects_cases [OF this(1)] have v: "pl_objects v = pl_objects s" and os: "map fst os = ?ks" by simp_all
  have "\<forall>k \<in> set ?ks. starts_with p k"
    by (auto simp: set_objects_under dest!: in_set_takeD)
  with quarantine_objects_run [OF assms(4) q] show ?thesis unfolding os v by blast
qed

lemma trigger_sync_run:
  assumes "trigger_sync_route ps u i s = (Inr (job, rej), t)" and "map_of (pl_kbs s) (us_tenant u, i) = Some kb"
    and "kn_bucket kb = Some b" and "kn_prefix kb = Some p" and "folder p"
  shows "removes_only b p (map fst (take 1000 (objects_under b p (pl_objects s)))) (pl_objects s) (pl_objects t) \<and>
    (\<forall>k \<in> set (map fst (take 1000 (objects_under b p (pl_objects s)))). settled ps (us_tenant u) b p (pl_objects t) k)"
proof -
  from assms(1) obtain kb' s1 v rej' job' now u3 v1 v2 v3 where
    k: "provisioned_kb (us_tenant u) i s = (Inr kb', s1)"
    and q: "scan_and_quarantine ps (us_tenant u) kb' s1 = (Inr rej', v)"
    and st: "mapping ''KnowledgeBaseProvisioningError'' 503 (start_sync ps kb') v = (Inr job', v1)"
    and now: "the_time ps v1 = (Inr now, v2)"
    and up: "on_kbs (update_sync_state now (us_tenant u) i ''IN_PROGRESS'' None False) v2 = (Inr u3, v3)"
    and t: "t = v3"
    by (auto simp: trigger_sync_route_def ret_def http_error_def raising_def elim!: andthen_InrE split: if_splits)
  have "pl_objects v1 = pl_objects v" using st by (rule same_outcome [rotated]) (intro frame_intros)
  moreover have "pl_objects v2 = pl_objects v1" using now by (rule same_outcome [rotated]) (intro frame_intros)
  moreover have "pl_objects v3 = pl_objects v2" using up by (rule same_outcome [rotated]) (intro frame_intros)
  moreover from provisioned_kb_Inr [OF k] assms(2) have "kb' = kb" "s1 = s" by auto
  ultimately show ?thesis using scan_and_quarantine_run [OF q] assms(3-5) t by simp
qed

section \<open>A request stays with its caller's bases\<close>

lemma s3_do_own [frame_intros]:
  "stays_in (own_rows tenant) (s3_do ps c)" "stays_in (own_rows tenant) (list_objects ps b p)"
proof -
  have m: "stays_in (own_rows tenant) (modifies (\<lambda>s :: 'a platform. s\<lparr>pl_objects := f s\<rparr>))" for f
    by (simp add: stays_in_def modifies_def own_rows_def registry_only_frame.frame_refl tenant_frame.frame_refl)
  show s: "stays_in (own_rows tenant) (s3_do ps c)" for c
    unfolding s3_do_def by (intro frame_intros m)
  show "stays_in (own_rows tenant) (list_objects ps b p)"
    unfolding list_objects_def by (intro frame_intros s)
qed

lemma audit_own [frame_intros]:
  "stays_in (own_rows tenant) (audit_rejection u i name reason)"
  "stays_in (own_rows tenant) (scan_document ps u name body)"
proof -
  show "stays_in (own_rows tenant) (audit_rejection u i name reason)"
    by (simp add: audit_rejection_def stays_in_def on_factory_def on_part_def modifies_def own_rows_def
        registry_only_frame.frame_refl tenant_frame.frame_refl)
qed (unfold scan_document_def scan_for_prompt_injection_def, (intro frame_intros)+)

lemma kb_referencing_only [frame_intros]: "stays_in (registry_only tenant) (all_agents u (kb_referencing i))"
proof (rule registry_only_reads)
  have k: "stays_in (same rg_agents) (kb_referencing i rs)" for rs
    by (induction rs) (auto intro!: frame_intros)
  have "stays_in (same rg_agents) (agent_pages n u (kb_referencing i) c)" for n c
    by (induction n u "kb_referencing i" c rule: agent_pages.induct) (auto intro!: frame_intros k)
  then show "stays_in (same rg_agents) (all_agents u (kb_referencing i))"
    by (simp add: stays_in_def all_agents_def del: agent_pages.simps)
qed

lemma provisioner_own [frame_intros]:
  "stays_in (own_rows tenant) (call_kb ps c)" "stays_in (own_rows tenant) (provision_kb ps kb)"
  "stays_in (own_rows tenant) (deprovision_kb ps kb)" "stays_in (own_rows tenant) (start_sync ps kb)"
  "stays_in (own_rows tenant) (sync_status_of ps kb job)"
  unfolding provision_kb_def deprovision_kb_def start_sync_def sync_status_of_def call_kb_def Let_def
  by (intro frame_intros)+

lemma settings_row_tenant [frame_intros]: "stays_in (tenant_only tenant) (get_or_create_settings now tenant who)"
  unfolding get_or_create_settings_def Let_def by (intro frame_intros)

lemma kb_helpers_own [frame_intros]:
  "stays_in (own_rows tenant) (get_kb_or_404 u i)" "stays_in (own_rows tenant) (provisioned_kb u i)"
  "stays_in (own_rows tenant) (agents_referencing_kb u i)" "stays_in (own_rows tenant) (resolve_kb_bucket ps tenant)"
  "stays_in (own_rows tenant) (check_extensions names)" "stays_in (own_rows tenant) (delete_all_under_prefix ps b p)"
  unfolding get_kb_or_404_def provisioned_kb_def agents_referencing_kb_def resolve_kb_bucket_def check_extensions_def
    delete_all_under_prefix_def
  by (intro frame_intros)+

lemma kb_loops_own [frame_intros]:
  "stays_in (own_rows tenant) (upload_files ps u kb d fs r)"
  "stays_in (own_rows tenant) (quarantine_objects ps u i b p ks)"
  "stays_in (own_rows tenant) (presign_files ps kb d ns)"
proof -
  show "stays_in (own_rows tenant) (upload_files ps u kb d fs r)"
  proof (induction fs arbitrary: r)
    case (Cons x fs)
    then show ?case by (cases x) (auto simp: Let_def intro!: frame_intros)
  qed (auto intro!: frame_intros)
  show "stays_in (own_rows tenant) (quarantine_objects ps u i b p ks)"
    by (induction ks) (auto simp: Let_def intro!: frame_intros)
  show "stays_in (own_rows tenant) (presign_files ps kb d ns)"
    by (induction ns) (auto simp: Let_def intro!: frame_intros)
qed

lemma kb_routes_own [frame_intros]:
  "stays_in (own_rows (us_tenant u)) (list_kbs_route u)"
  "stays_in (own_rows (us_tenant u)) (create_kb_route ps u f)"
  "stays_in (own_rows (us_tenant u)) (get_kb_route u i)"
  "stays_in (own_rows (us_tenant u)) (delete_kb_route ps u i)"
  "stays_in (own_rows (us_tenant u)) (reindex_kb_route ps u i)"
  "stays_in (own_rows (us_tenant u)) (upload_documents_route ps u i d fs)"
  "stays_in (own_rows (us_tenant u)) (list_documents_route ps u i)"
  "stays_in (own_rows (us_tenant u)) (delete_document_route ps u i key)"
  "stays_in (own_rows (us_tenant u)) (trigger_sync_route ps u i)"
  "stays_in (own_rows (us_tenant u)) (sync_status_route ps u i job)"
  "stays_in (own_rows (us_tenant u)) (presigned_upload_route ps u i d ns)"
  "stays_in (own_rows (us_tenant u)) (validate_s3_route ps u i bucket)"
proof -
  show "stays_in (own_rows (us_tenant u)) (upload_documents_route ps u i d fs)"
    unfolding upload_documents_route_def by (intro frame_intros) (auto intro!: frame_intros split: pyexn.split)
  show "stays_in (own_rows (us_tenant u)) (create_kb_route ps u f)"
    unfolding create_kb_route_def Let_def by (intro frame_intros)
qed (unfold list_kbs_route_def get_kb_route_def delete_kb_route_def reindex_kb_route_def
    list_documents_route_def delete_document_route_def trigger_sync_route_def sync_status_route_def
    presigned_upload_route_def validate_s3_route_def scan_and_quarantine_def Let_def, (intro frame_intros)+)

lemma handle_kb_own: "stays_in (own_rows (us_tenant u)) (handle_kb ps u d)"
  by (cases d; simp add: kb_answer_def; intro frame_intros)

text \<open>Keys of a base: under its folder, or under the folder's quarantine.\<close>

definition base_key :: "string \<Rightarrow> string \<Rightarrow> bool" where
  "base_key p k \<longleftrightarrow> starts_with p k \<or> starts_with (quarantine_prefix p) k"

definition in_base :: "string \<Rightarrow> string \<Rightarrow> 'w platform \<Rightarrow> 'w platform \<Rightarrow> bool" where
  "in_base b p s t \<longleftrightarrow>
     (\<forall>b' k. map_of (pl_objects t) (b', k) \<noteq> map_of (pl_objects s) (b', k) \<longrightarrow> b' = b \<and> base_key p k)"

interpretation in_base_frame: frame "in_base b p" for b p
proof
  show "in_base b p s s" for s :: "'a platform" by (simp add: in_base_def)
  show "in_base b p s t \<Longrightarrow> in_base b p t u \<Longrightarrow> in_base b p s u" for s t u :: "'a platform"
    unfolding in_base_def by metis
qed

lemma same_objects_in_base: "stays_in (same pl_objects) m \<Longrightarrow> stays_in (in_base b p) m"
  by (auto simp: stays_in_def same_def in_base_def)

text \<open>The calls a base's routes make: writes and removals at its keys only.\<close>

fun call_in_base :: "string \<Rightarrow> string \<Rightarrow> s3_call \<Rightarrow> bool" where
  "call_in_base b p (PutObject b' k _) \<longleftrightarrow> b' = b \<and> base_key p k"
| "call_in_base b p (CopyObject b' _ k) \<longleftrightarrow> b' = b \<and> base_key p k"
| "call_in_base b p (DeleteObject b' k) \<longleftrightarrow> b' = b \<and> base_key p k"
| "call_in_base b p (DeleteObjects b' ks) \<longleftrightarrow> b' = b \<and> (\<forall>k \<in> set ks. base_key p k)"
| "call_in_base b p _ = True"

lemma map_of_without:
  "map_of (filter (\<lambda>((b', k), _). b' = b \<longrightarrow> k \<notin> set ks) os) (c, k) =
     (if c = b \<and> k \<in> set ks then None else map_of os (c, k))"
  by (induction os) auto

lemma s3_effect_in_base:
  "call_in_base b p c \<Longrightarrow> map_of (s3_effect c os) (b', k) \<noteq> map_of os (b', k) \<Longrightarrow> b' = b \<and> base_key p k"
  by (cases c) (auto simp: AList.update_conv' AList.delete_conv' map_of_without split: if_splits option.splits)

lemma s3_do_in_base: "call_in_base b p c \<Longrightarrow> stays_in (in_base b p) (s3_do ps c)"
  by (rule stays_inI, erule s3_do_cases) (auto simp: in_base_def dest: s3_effect_in_base)

definition base_of :: "knowledge_base \<Rightarrow> 'w platform \<Rightarrow> 'w platform \<Rightarrow> bool" where
  "base_of kb =
     (if truthy (kn_bucket kb) \<and> truthy (kn_prefix kb)
      then in_base (get_or [] (kn_bucket kb)) (get_or [] (kn_prefix kb)) else same pl_objects)"

lemma base_of_frame: "frame (base_of kb)"
  by (simp add: base_of_def in_base_frame.frame_axioms same_frame.frame_axioms)

interpretation base_of: frame "base_of kb" for kb
  by (rule base_of_frame)

lemma same_objects_base_of: "stays_in (same pl_objects) m \<Longrightarrow> stays_in (base_of kb) m"
  by (simp add: base_of_def same_objects_in_base)

lemma provisioned_base_of:
  "truthy (kn_bucket kb) \<Longrightarrow> truthy (kn_prefix kb) \<Longrightarrow>
    base_of kb = in_base (get_or [] (kn_bucket kb)) (get_or [] (kn_prefix kb))"
  by (simp add: base_of_def)

lemma base_keys [simp]:
  "starts_with p k \<Longrightarrow> base_key p k" "base_key p (quarantine_prefix p @ name)"
  "starts_with p (p @ name)"
  by (simp_all add: base_key_def starts_with_prefix)

lemma listed_in_base:
  assumes "truthy (kn_bucket kb)" and "truthy (kn_prefix kb)"
  shows "stays_in (base_of kb) (list_objects ps (get_or [] (kn_bucket kb)) (get_or [] (kn_prefix kb)))"
    and "stays_in (base_of kb) (delete_all_under_prefix ps (get_or [] (kn_bucket kb)) (get_or [] (kn_prefix kb)))"
proof -
  let ?b = "get_or [] (kn_bucket kb)" and ?p = "get_or [] (kn_prefix kb)"
  show l: "stays_in (base_of kb) (list_objects ps ?b ?p)"
    by (rule same_objects_base_of, rule stays_inI) (auto simp: same_def dest: list_objects_cases)
  show "stays_in (base_of kb) (delete_all_under_prefix ps ?b ?p)"
    unfolding delete_all_under_prefix_def
  proof (rule stays_inI, erule andthen_cases)
    fix s t e assume "list_objects ps ?b ?p s = (Inl e, t)"
    from stays_inD [OF l this] show "base_of kb s t" .
  next
    fix s r t os u
    assume run: "list_objects ps ?b ?p s = (Inr os, u)"
      and d: "(if os = [] then ret () else s3_do ps (DeleteObjects ?b (map fst os))) u = (r, t)"
    have "call_in_base ?b ?p (DeleteObjects ?b (map fst os))"
      using list_objects_cases [OF run] by (auto simp: set_objects_under dest!: in_set_takeD)
    from s3_do_in_base [OF this] have "stays_in (base_of kb) (if os = [] then ret () else s3_do ps (DeleteObjects ?b (map fst os)))"
      using assms by (intro base_of.stays_if base_of.stays_ret) (simp add: provisioned_base_of)
    from stays_inD [OF this d] stays_inD [OF l run] show "base_of kb s t" by (rule base_of.frame_trans [rotated])
  qed
qed

lemma call_base_of:
  "truthy (kn_bucket kb) \<Longrightarrow> truthy (kn_prefix kb) \<Longrightarrow>
    call_in_base (get_or [] (kn_bucket kb)) (get_or [] (kn_prefix kb)) c \<Longrightarrow> stays_in (base_of kb) (s3_do ps c)"
  by (simp add: provisioned_base_of s3_do_in_base)

lemma loops_in_base:
  assumes "truthy (kn_bucket kb)" and "truthy (kn_prefix kb)"
  shows "stays_in (base_of kb) (upload_files ps u kb d fs r)"
    and "\<forall>k \<in> set ks. starts_with (get_or [] (kn_prefix kb)) k \<Longrightarrow> stays_in (base_of kb)
      (quarantine_objects ps u i (get_or [] (kn_bucket kb)) (get_or [] (kn_prefix kb)) ks)"
proof -
  note call = call_base_of [OF assms]
  show "stays_in (base_of kb) (upload_files ps u kb d fs r)"
  proof (induction fs arbitrary: r)
    case (Cons x fs)
    have p: "stays_in (base_of kb) (s3_do ps (PutObject (get_or [] (kn_bucket kb)) (document_key kb d n) body))" for n body
      by (rule call) (simp add: document_key_def)
    show ?case
      by (cases x) (auto simp: Let_def intro!: frame_intros Cons p quiet_objects.quiet_scan [THEN same_objects_base_of])
  qed (auto intro!: frame_intros)
  show "stays_in (base_of kb) (quarantine_objects ps u i (get_or [] (kn_bucket kb)) (get_or [] (kn_prefix kb)) ks)"
    if "\<forall>k \<in> set ks. starts_with (get_or [] (kn_prefix kb)) k"
    using that
  proof (induction ks)
    case (Cons k ks)
    then have "starts_with (get_or [] (kn_prefix kb)) k" by simp
    with Cons show ?case
      by (auto simp: Let_def intro!: frame_intros call quiet_objects.quiet_scan [THEN same_objects_base_of])
  qed (auto intro!: frame_intros)
qed

text \<open>
  The objects a request changes are at keys of one of the tenant's own bases, as the row of that
  base has them when the request starts.
\<close>

definition own_objects :: "string \<Rightarrow> 'w platform \<Rightarrow> 'w platform \<Rightarrow> bool" where
  "own_objects tenant s t \<longleftrightarrow>
     (\<forall>b k. map_of (pl_objects t) (b, k) \<noteq> map_of (pl_objects s) (b, k) \<longrightarrow>
        (\<exists>i kb p. map_of (pl_kbs s) (tenant, i) = Some kb \<and> kn_bucket kb = Some b \<and> kn_prefix kb = Some p \<and>
           p \<noteq> [] \<and> base_key p k))"

lemma base_own_objects:
  assumes "base_of kb s t" and "map_of (pl_kbs s) (tenant, i) = Some kb"
  shows "own_objects tenant s t"
proof (cases "truthy (kn_bucket kb) \<and> truthy (kn_prefix kb)")
  case True
  then obtain b p where p: "kn_bucket kb = Some b" "kn_prefix kb = Some p" "p \<noteq> []"
    by (auto simp: truthy_def split: option.splits)
  with assms(1) True have "in_base b p s t" by (simp add: base_of_def)
  with assms(2) p show ?thesis unfolding own_objects_def in_base_def by blast
next
  case False
  then have "base_of kb s t \<longleftrightarrow> same pl_objects s t" by (auto simp: base_of_def)
  with assms(1) show ?thesis by (simp add: same_def own_objects_def)
qed

lemma looked_up_objects:
  assumes run: "andthen m f s = (r, t)" and quiet: "stays_in (same pl_objects) m"
    and row: "\<And>kb u. m s = (Inr kb, u) \<Longrightarrow> map_of (pl_kbs s) (tenant, i) = Some kb \<and> u = s"
    and rest: "\<And>kb. m s = (Inr kb, s) \<Longrightarrow> stays_in (base_of kb) (f kb)"
  shows "own_objects tenant s t"
  using run
proof (cases rule: andthen_cases)
  case (stop e)
  with quiet have "pl_objects t = pl_objects s" by (blast intro: same_outcome)
  then show ?thesis by (simp add: own_objects_def)
next
  case (step kb u)
  with row have "map_of (pl_kbs s) (tenant, i) = Some kb" "u = s" by blast+
  with step rest [of kb] base_own_objects show ?thesis by (blast dest: stays_inD)
qed

lemma quiet_objects: "stays_in (same pl_objects) m \<Longrightarrow> m s = (r, t) \<Longrightarrow> own_objects tenant s t"
  by (auto simp: own_objects_def dest: same_outcome)

lemma delete_kb_objects: "delete_kb_route ps u i s = (r, t) \<Longrightarrow> own_objects (us_tenant u) s t"
  unfolding delete_kb_route_def
  by (erule looked_up_objects [of _ _ _ _ _ "us_tenant u" i])
    (auto intro!: frame_intros listed_in_base same_objects_base_of [OF quiet_objects.quiet_lookups(3)]
      same_objects_base_of [OF quiet_objects.quiet_errors(1)] same_objects_base_of [OF quiet_objects.quiet_provisioner(3)]
      same_objects_base_of [OF quiet_objects.quiet_parts(5)] dest: get_kb_or_404_Inr)

lemma upload_documents_objects: "upload_documents_route ps u i d fs s = (r, t) \<Longrightarrow> own_objects (us_tenant u) s t"
  unfolding upload_documents_route_def
  by (erule looked_up_objects [of _ _ _ _ _ "us_tenant u" i])
    (auto intro!: frame_intros loops_in_base same_objects_base_of [OF quiet_objects.quiet_lookups(5)]
      same_objects_base_of [OF quiet_objects.quiet_time(1)] same_objects_base_of [OF quiet_objects.quiet_errors(1)]
      same_objects_base_of [OF quiet_objects.quiet_parts(5)] dest: provisioned_kb_Inr split: pyexn.split)

lemma delete_document_objects: "delete_document_route ps u i key s = (r, t) \<Longrightarrow> own_objects (us_tenant u) s t"
  unfolding delete_document_route_def
proof (erule looked_up_objects [of _ _ _ _ _ "us_tenant u" i])
  fix kb assume "provisioned_kb (us_tenant u) i s = (Inr kb, s)"
  with provisioned_kb_Inr have kb: "truthy (kn_bucket kb)" "truthy (kn_prefix kb)" by blast+
  show "stays_in (base_of kb) (if \<not> starts_with (get_or [] (kn_prefix kb)) (unquote key) then http_error 404 ''Document not found''
       else andthen (s3_do ps (DeleteObject (get_or [] (kn_bucket kb)) (unquote key))) (\<lambda>_.
         andthen (the_time ps) (\<lambda>now.
         andthen (on_kbs (set_document_count now (us_tenant u) i (max 0 (kn_documents kb - 1)))) (\<lambda>_. ret ()))))"
    by (auto intro!: frame_intros call_base_of kb same_objects_base_of [OF quiet_objects.quiet_time(1)] same_objects_base_of [OF quiet_objects.quiet_errors(1)]
        same_objects_base_of [OF quiet_objects.quiet_parts(5)])
qed (auto intro!: frame_intros dest: provisioned_kb_Inr)

lemma scan_base_of:
  assumes "truthy (kn_bucket kb)" and "truthy (kn_prefix kb)"
  shows "stays_in (base_of kb) (scan_and_quarantine ps u kb)"
  unfolding scan_and_quarantine_def Let_def
proof (rule stays_inI, erule andthen_cases)
  let ?b = "get_or [] (kn_bucket kb)" and ?p = "get_or [] (kn_prefix kb)"
  fix s r t os v
  assume l: "list_objects ps ?b ?p s = (Inr os, v)" and q: "quarantine_objects ps u (kn_id kb) ?b ?p (map fst os) v = (r, t)"
  have "\<forall>k \<in> set (map fst os). starts_with ?p k"
    using list_objects_cases [OF l] by (auto simp: set_objects_under dest!: in_set_takeD)
  from stays_inD [OF loops_in_base(2) [OF assms this] q] stays_inD [OF listed_in_base(1) [OF assms] l]
  show "base_of kb s t" by (rule base_of.frame_trans [rotated])
next
  fix s t e assume "list_objects ps (get_or [] (kn_bucket kb)) (get_or [] (kn_prefix kb)) s = (Inl e, t)"
  with listed_in_base(1) [OF assms] show "base_of kb s t" by (rule stays_inD)
qed

lemma trigger_sync_objects: "trigger_sync_route ps u i s = (r, t) \<Longrightarrow> own_objects (us_tenant u) s t"
  unfolding trigger_sync_route_def
  by (erule looked_up_objects [of _ _ _ _ _ "us_tenant u" i])
    (auto intro!: frame_intros scan_base_of same_objects_base_of [OF quiet_objects.quiet_time(1)]
      same_objects_base_of [OF quiet_objects.quiet_errors(1)] same_objects_base_of [OF quiet_objects.quiet_mapping [OF quiet_objects.quiet_provisioner(4)]]
      same_objects_base_of [OF quiet_objects.quiet_parts(5)] dest: provisioned_kb_Inr)

lemma quiet_calls [frame_intros]:
  "stays_in (same pl_objects) (s3_do ps (ListObjects b p))" "stays_in (same pl_objects) (s3_do ps (Presign b k))"
  "stays_in (same pl_objects) (s3_do ps (HeadBucket b))" "stays_in (same pl_objects) (list_objects ps b p)"
proof -
  have q: "stays_in (same pl_objects) (s3_do ps c)" if "\<And>os. s3_effect c os = os" for c
    by (rule stays_inI, erule s3_do_cases) (simp_all add: same_def that)
  show "stays_in (same pl_objects) (s3_do ps (ListObjects b p))" "stays_in (same pl_objects) (s3_do ps (Presign b k))"
    "stays_in (same pl_objects) (s3_do ps (HeadBucket b))"
    by (rule q, simp)+
  then show "stays_in (same pl_objects) (list_objects ps b p)" unfolding list_objects_def by (intro frame_intros)
qed

lemma presign_objects [frame_intros]: "stays_in (same pl_objects) (presign_files ps kb d ns)"
  by (induction ns) (auto simp: Let_def intro!: frame_intros)

lemma answered_objects: "stays_in (own_objects tenant) m \<Longrightarrow> stays_in (own_objects tenant) (kb_answer f m)"
  by (rule stays_inI) (auto simp: kb_answer_def ret_def elim!: andthen_cases dest: stays_inD)

lemma quiet_answer: "stays_in (same pl_objects) m \<Longrightarrow> stays_in (own_objects tenant) (kb_answer f m)"
  by (rule answered_objects, rule stays_inI, rule quiet_objects)

lemma changing_answers:
  "stays_in (own_objects (us_tenant u)) (kb_answer f1 (delete_kb_route ps u i))"
  "stays_in (own_objects (us_tenant u)) (kb_answer f2 (upload_documents_route ps u i d fs))"
  "stays_in (own_objects (us_tenant u)) (kb_answer f3 (delete_document_route ps u i k))"
  "stays_in (own_objects (us_tenant u)) (kb_answer f4 (trigger_sync_route ps u i))"
  by (rule answered_objects, rule stays_inI,
      erule delete_kb_objects upload_documents_objects delete_document_objects trigger_sync_objects)+

lemma quiet_kb_routes [frame_intros]:
  "stays_in (same pl_objects) (list_documents_route ps u i)"
  "stays_in (same pl_objects) (presigned_upload_route ps u i d ns)"
  "stays_in (same pl_objects) (validate_s3_route ps u i b)"
  unfolding list_documents_route_def presigned_upload_route_def validate_s3_route_def by (intro frame_intros)+

lemma handle_kb_objects: "stays_in (own_objects (us_tenant u)) (handle_kb ps u d)"
  by (cases d) (simp_all add: changing_answers quiet_answer quiet_objects.plain_kb_routes quiet_kb_routes)

end
