(* ===== verification/BuildRules.thy ===== *)
theory BuildRules
  imports QuietParts CatalogRules
begin

text \<open>
  What Build with AI keeps: an approval stays with its caller's tenant, creates what was approved
  and happens once.
\<close>

section \<open>The tenant's rows\<close>

lemma catalog_own [frame_intros]:
  "stays_in (own_rows tenant) (catalog_of u)" "stays_in (own_rows tenant) (architecture_for ps u d)"
  unfolding catalog_of_def architecture_for_def by (intro frame_intros)+

lemma put_session_own: "bs_tenant b = tenant \<Longrightarrow> stays_in (tenant_only tenant) (put_session b)"
  by (auto simp: put_session_def intro: frame_intros)

lemma require_session_quiet [frame_intros]:
  fixes obs :: "build_session table \<Rightarrow> 'b"
  shows "stays_in (same obs) (require_session u i)" "stays_in (tenant_only tenant) (require_session u i)"
  unfolding require_session_def by (intro frame_intros)+

lemma session_own [frame_intros]: "stays_in (own_rows tenant) (session_or_404 u i)"
  unfolding session_or_404_def by (intro frame_intros)

lemma create_missing_own [frame_intros]: "stays_in (own_rows (us_tenant u)) (create_missing ps u cfg m)"
  unfolding create_missing_def Let_def by (intro frame_intros)

lemma create_missing_resources_own [frame_intros]:
  "stays_in (own_rows (us_tenant u)) (create_missing_resources ps u skip edited ms)"
  by (induction ms) (auto intro!: frame_intros)

lemma build_agent_own [frame_intros]: "stays_in (own_rows (us_tenant u)) (build_agent ps u cfg p)"
  unfolding build_agent_def by (intro frame_intros)

lemma build_subs_own [frame_intros]: "stays_in (own_rows (us_tenant u)) (build_subs ps u made rest)"
  by (induction rest) (auto intro!: frame_intros)

lemma execute_approval_own [frame_intros]:
  "stays_in (own_rows (us_tenant u)) (execute_approval ps u b skip edited)"
  unfolding execute_approval_def Let_def by (intro frame_intros)

section \<open>A session is approved once\<close>

definition session_row :: "string \<Rightarrow> string \<Rightarrow> 'w platform \<Rightarrow> build_session option" where
  "session_row tenant i s = map_of (pl_builds s) (tenant, i)"

lemma session_or_404_run:
  "session_or_404 tenant i s =
     (case session_row tenant i s of
        None \<Rightarrow> (Inl (HttpError 404 (''Build with AI session '' @ repr_str i @ '' not found'')), s)
      | Some b \<Rightarrow> (Inr b, s))"
proof -
  have run: "on_builds (require_session tenant i) s =
      (case session_row tenant i s of None \<Rightarrow> (Inl (session_not_found i), s) | Some b \<Rightarrow> (Inr b, s))"
    by (cases "map_of (pl_builds s) (tenant, i)")
      (simp_all add: on_builds_def on_part_def require_session_def find_row_def andthen_def reads_def raising_def
        ret_def session_row_def)
  show ?thesis
    by (cases "session_row tenant i s")
      (simp_all add: session_or_404_def mapping_def catching_def run session_not_found_def http_error_def raising_def)
qed

lemma the_time_run: "\<exists>now. the_time ps s = (Inr now, s)"
  by (simp add: the_time_def on_factory_def on_part_def now_at_def reads_def)

lemma put_session_run:
  "on_builds (put_session b) s = (Inr (), t) \<Longrightarrow> session_row (bs_tenant b) (bs_id b) t = Some b"
  "on_builds (put_session b) s \<noteq> (Inl e, t)"
  by (auto simp: on_builds_def on_part_def put_session_def put_row_def modifies_def session_row_def AList.update_conv')

lemma approve_refused:
  assumes "session_row (us_tenant u) i s = Some b" and "bs_status b \<noteq> ''proposed''"
  shows "\<exists>d. approve_build ps u i skip edited s = (Inl (HttpError 409 d), s)"
  using assms by (simp add: approve_build_def approve_session_def andthen_Inr session_or_404_run http_error_def raising_def)

lemma approve_settles:
  assumes run: "approve_build ps u i skip edited s = (r, t)" and row: "session_row (us_tenant u) i s = Some b"
    and key: "bs_tenant b = us_tenant u" "bs_id b = i"
  shows "\<exists>b'. session_row (us_tenant u) i t = Some b' \<and> bs_status b' \<noteq> ''proposed''"
proof (cases "bs_status b = ''proposed''")
  case False
  with approve_refused [OF row] run row show ?thesis by (metis prod.inject)
next
  case True
  obtain q v where ex: "execute_approval ps u b skip edited s = (q, v)" by (cases rule: prod.exhaust)
  obtain now where now: "the_time ps v = (Inr now, v)" using the_time_run by blast
  have put: "\<exists>w. on_builds (put_session b') v = (Inr (), w) \<and> session_row (us_tenant u) i w = Some b'"
    if "bs_tenant b' = us_tenant u" "bs_id b' = i" for b'
    using that put_session_run [of b' v] by (cases "on_builds (put_session b') v") (metis old.unit.exhaust sum.exhaust)
  show ?thesis
  proof (cases q)
    case (Inl e)
    let ?b = "b\<lparr>bs_status := ''failed'', bs_error := Some (registry_error_text e), bs_updated := now\<rparr>"
    from put [of ?b] key obtain w where w: "on_builds (put_session ?b) v = (Inr (), w)"
      "session_row (us_tenant u) i w = Some ?b" by auto
    with run row True ex Inl now have "t = w"
      by (simp add: approve_build_def approve_session_def andthen_Inr session_or_404_run catching_def andthen_def http_error_def raising_def)
    with w show ?thesis by simp
  next
    case (Inr x)
    obtain rs sk ags where x: "x = (rs, sk, ags)" by (cases x)
    let ?b = "b\<lparr>bs_status := ''completed'', bs_resources := rs, bs_agents := ags, bs_updated := now\<rparr>"
    from put [of ?b] key obtain w where w: "on_builds (put_session ?b) v = (Inr (), w)"
      "session_row (us_tenant u) i w = Some ?b" by auto
    with run row True ex Inr x now have "t = w"
      by (simp add: approve_build_def approve_session_def andthen_Inr session_or_404_run catching_def andthen_def ret_def)
    with w show ?thesis by simp
  qed
qed

text \<open>After any approval of a session, a second one is refused and changes nothing.\<close>

lemma approve_once:
  assumes "approve_build ps u i skip edited s = (r, t)" and "session_row (us_tenant u) i s = Some b"
    and "bs_tenant b = us_tenant u" and "bs_id b = i"
  shows "\<exists>d. approve_build ps' u i skip' edited' t = (Inl (HttpError 409 d), t)"
  using approve_settles [OF assms] approve_refused by blast

section \<open>What an approval creates\<close>

lemma create_missing_resources_run:
  assumes "create_missing_resources ps u skip edited ms s = (Inr (made, rs, sk), t)"
  shows "map (\<lambda>r. (cs_type r, cs_name r)) rs = map (\<lambda>m. (mr_type m, mr_name m)) (filter (\<lambda>m. mr_key m \<notin> set skip) ms) \<and>
    sk = filter (\<lambda>k. k \<in> set skip) (map mr_key ms) \<and> map snd made = map cs_id rs \<and>
    map fst made = filter (\<lambda>k. k \<notin> set skip) (map mr_key ms)"
  using assms
  by (induction ms arbitrary: s made rs sk) (auto simp: ret_def elim!: andthen_InrE split: if_splits)

lemma build_subs_run:
  assumes "build_subs ps u made ps' s = (Inr (refs, ags), t)"
  shows "map (\<lambda>a. (ca_name a, ca_role a)) ags = map (\<lambda>p. (ap_name p, ap_type p)) ps' \<and> map fst refs = map ca_id ags"
  using assms
  by (induction ps' arbitrary: s refs ags) (auto simp: ret_def elim!: andthen_InrE)

lemma execute_approval_run:
  assumes "execute_approval ps u b skip edited s = (Inr (rs, sk, ags), t)"
  shows "map (\<lambda>r. (cs_type r, cs_name r)) rs =
      map (\<lambda>m. (mr_type m, mr_name m)) (filter (\<lambda>m. mr_key m \<notin> set skip) (bs_missing b)) \<and>
    sk = filter (\<lambda>k. k \<in> set skip) (map mr_key (bs_missing b)) \<and>
    map (\<lambda>a. (ca_name a, ca_role a)) ags =
      map (\<lambda>p. (ap_name p, ap_type p)) (ar_subs (bs_architecture b) @ [ar_orchestrator (bs_architecture b)])"
  using assms
  by (auto simp: execute_approval_def Let_def ret_def elim!: andthen_InrE
      dest!: create_missing_resources_run build_subs_run)

text \<open>A built agent names its skills where the guard of a skill's deletion does not look.\<close>

lemma built_skills_unseen: "vr_config v = build_configuration made refs p \<Longrightarrow> \<not> uses_skill i v"
  by (simp add: uses_skill_def build_configuration_def agent_configuration_def Let_def dict_get_def items_of_def dict_of_def)

end
