(* ===== verification/PlatformServer.thy ===== *)
theory PlatformServer
  imports KnowledgeBaseRules BuildRules
begin

text \<open>
  The routes of the libraries, of knowledge bases and of Build with AI behind one guard, and what
  holds of them all.
\<close>

datatype platform_request = Library catalog_request | Bases kb_demand | Builds build_demand

datatype platform_reply = LibraryReply catalog_reply | BasesReply kb_reply | BuildsReply build_reply

fun request_roles :: "platform_request \<Rightarrow> string list" where
  "request_roles (Library rq) = route_roles rq"
| "request_roles (Bases rq) = kb_roles rq"
| "request_roles (Builds rq) = build_roles rq"

definition reply_with :: "('a \<Rightarrow> platform_reply) \<Rightarrow> ('w, 'a) platform_action \<Rightarrow> ('w, platform_reply) platform_action" where
  "reply_with f m = andthen m (\<lambda>x. ret (f x))"

fun handle_request :: "'w platform_services \<Rightarrow> user_row \<Rightarrow> platform_request \<Rightarrow> ('w, platform_reply) platform_action" where
  "handle_request ps u (Library rq) = reply_with LibraryReply (handle_catalog ps u rq)"
| "handle_request ps u (Bases rq) = reply_with BasesReply (handle_kb ps u rq)"
| "handle_request ps u (Builds rq) = reply_with BuildsReply (handle_build ps u rq)"

definition serve_platform ::
  "'w platform_services \<Rightarrow> string option \<Rightarrow> platform_request \<Rightarrow> ('w, platform_reply) platform_action" where
  "serve_platform ps bearer rq = guarded ps bearer (request_roles rq) (\<lambda>u. handle_request ps u rq)"

section \<open>Every request stays with its caller's tenant\<close>

text \<open>A session's row is stored under its own tenant and id.\<close>

definition sessions_keyed :: "'w platform \<Rightarrow> bool" where
  "sessions_keyed s \<longleftrightarrow>
     (\<forall>tenant i b. session_row tenant i s = Some b \<longrightarrow> bs_tenant b = tenant \<and> bs_id b = i)"

definition keeps_keys :: "'w platform \<Rightarrow> 'w platform \<Rightarrow> bool" where
  "keeps_keys s t \<longleftrightarrow> (sessions_keyed s \<longrightarrow> sessions_keyed t)"

interpretation keeps_keys: frame keeps_keys
  by unfold_locales (auto simp: keeps_keys_def)

lemma quiet_keys: "stays_in (same pl_builds) m \<Longrightarrow> stays_in keeps_keys m"
  by (auto simp: stays_in_def same_def keeps_keys_def sessions_keyed_def session_row_def)

lemma put_session_keys [frame_intros]: "stays_in keeps_keys (on_builds (put_session b))"
  by (auto simp: stays_in_def keeps_keys_def sessions_keyed_def session_row_def on_builds_def on_part_def put_session_def
      put_row_def modifies_def AList.update_conv')

lemma builds_objects [frame_intros]: "stays_in (same pl_objects) (on_builds m)"
  by (simp add: stays_in_def same_def on_builds_def on_part_def split: prod.splits)

lemma session_quiet [frame_intros]: "stays_in (same pl_objects) (session_or_404 tenant i)"
  unfolding session_or_404_def by (intro frame_intros)

lemma session_keys [frame_intros]: "stays_in keeps_keys (session_or_404 tenant i)"
  by (rule stays_inI) (auto simp: session_or_404_run keeps_keys_def split: option.splits)

lemma handle_build_objects: "stays_in (same pl_objects) (handle_build ps u rq)"
  by (cases rq; simp add: build_answer_def;
      (unfold planning_def propose_build_def approve_build_def approve_session_def build_status_route_def)?; intro frame_intros)

lemmas quiet_for_keys [frame_intros] =
  quiet_keys [OF quiet_sessions.quiet_build(1)] quiet_keys [OF quiet_sessions.quiet_build(2)]
  quiet_keys [OF quiet_sessions.quiet_build(3)] quiet_keys [OF quiet_sessions.quiet_build(4)]
  quiet_keys [OF quiet_sessions.execute_approval_quiet] quiet_keys [OF quiet_sessions.quiet_time(1)]
  quiet_keys [OF quiet_sessions.quiet_time(2)] quiet_keys [OF quiet_sessions.quiet_errors(1)]

lemma propose_keys [frame_intros]: "stays_in keeps_keys (propose_build ps u d p)"
proof -
  have "stays_in (same pl_builds) (planning (andthen (architecture_for ps tenant d) (\<lambda>a.
       andthen (on_world (propose_missing_resource_configs (ps_llm ps) a)) (\<lambda>missing. ret (a, missing)))))" for tenant
    unfolding planning_def by (intro frame_intros)
  then show ?thesis unfolding propose_build_def by (intro frame_intros quiet_keys)
qed

lemma handle_build_keys: "stays_in keeps_keys (handle_build ps u rq)"
  by (cases rq; simp add: build_answer_def; (unfold approve_build_def approve_session_def build_status_route_def)?; intro frame_intros)

lemma propose_own [frame_intros]: "stays_in (own_rows (us_tenant u)) (propose_build ps u d p)"
  unfolding propose_build_def planning_def by (intro frame_intros put_session_own) simp

lemma approve_own:
  assumes "approve_build ps u i skip edited s = (r, t)" and "sessions_keyed s"
  shows "own_rows (us_tenant u) s t"
proof (cases "session_row (us_tenant u) i s")
  case None
  with assms(1) have "t = s" by (simp add: approve_build_def andthen_def session_or_404_run)
  then show ?thesis by (simp add: own_rows_frame.frame_refl)
next
  case (Some b)
  with assms(2) have b: "bs_tenant b = us_tenant u" by (simp add: sessions_keyed_def)
  have "stays_in (own_rows (us_tenant u)) (approve_session ps u i skip edited b)"
    unfolding approve_session_def by (intro frame_intros put_session_own) (simp_all add: b)
  moreover from assms(1) Some have "approve_session ps u i skip edited b s = (r, t)"
    by (simp add: approve_build_def andthen_Inr session_or_404_run)
  ultimately show ?thesis by (rule stays_inD)
qed

lemma handle_build_own:
  assumes "handle_build ps u rq s = (r, t)" and "sessions_keyed s"
  shows "own_rows (us_tenant u) s t"
proof (cases rq)
  case (Approve i skip edited)
  with assms(1) obtain q where "approve_build ps u i skip edited s = (q, t)"
    by (auto simp: build_answer_def ret_def elim!: andthen_cases)
  then show ?thesis using assms(2) by (rule approve_own)
next
  case (BuildStatus i)
  have "stays_in (own_rows (us_tenant u)) (handle_build ps u rq)"
    unfolding BuildStatus handle_build.simps build_answer_def build_status_route_def by (intro frame_intros)
  from stays_inD [OF this assms(1)] show ?thesis .
next
  case (Propose d p)
  have "stays_in (own_rows (us_tenant u)) (handle_build ps u rq)"
    unfolding Propose handle_build.simps build_answer_def by (intro frame_intros)
  from stays_inD [OF this assms(1)] show ?thesis .
next
  case (AnalyzeTask d)
  have "stays_in (own_rows (us_tenant u)) (handle_build ps u rq)"
    unfolding AnalyzeTask handle_build.simps build_answer_def analyze_route_def planning_def by (intro frame_intros)
  from stays_inD [OF this assms(1)] show ?thesis .
next
  case (AnalyzeArchitecture d)
  have "stays_in (own_rows (us_tenant u)) (handle_build ps u rq)"
    unfolding AnalyzeArchitecture handle_build.simps build_answer_def architecture_route_def planning_def
    by (intro frame_intros)
  from stays_inD [OF this assms(1)] show ?thesis .
qed

text \<open>What a handler may change: rows of the tenant, objects of its bases; the sessions stay keyed.\<close>

definition stays_with :: "string \<Rightarrow> 'w platform \<Rightarrow> 'w platform \<Rightarrow> bool" where
  "stays_with tenant s t \<longleftrightarrow> own_rows tenant s t \<and> own_objects tenant s t \<and> sessions_keyed t"

lemma stays_with_refl: "sessions_keyed s \<Longrightarrow> stays_with tenant s s"
  by (simp add: stays_with_def own_rows_frame.frame_refl own_objects_def)

lemma handle_request_stays:
  assumes run: "handle_request ps u rq s = (r, t)" and keyed: "sessions_keyed s"
  shows "stays_with (us_tenant u) s t"
proof (cases rq)
  case (Library c)
  with run obtain q where c: "handle_catalog ps u c s = (q, t)"
    by (auto simp: reply_with_def ret_def elim!: andthen_cases)
  from stays_inD [OF handle_catalog_own c] quiet_objects [OF quiet_objects.handle_catalog_quiet c]
    stays_inD [OF quiet_keys [OF quiet_sessions.handle_catalog_quiet] c] keyed
  show ?thesis by (simp add: stays_with_def keeps_keys_def)
next
  case (Bases d)
  with run obtain q where d: "handle_kb ps u d s = (q, t)"
    by (auto simp: reply_with_def ret_def elim!: andthen_cases)
  from stays_inD [OF handle_kb_own d] stays_inD [OF handle_kb_objects d]
    stays_inD [OF quiet_keys [OF quiet_sessions.handle_kb_quiet] d] keyed
  show ?thesis by (simp add: stays_with_def keeps_keys_def)
next
  case (Builds b)
  with run obtain q where b: "handle_build ps u b s = (q, t)"
    by (auto simp: reply_with_def ret_def elim!: andthen_cases)
  from handle_build_own [OF b keyed] quiet_objects [OF handle_build_objects b]
    stays_inD [OF handle_build_keys b] keyed
  show ?thesis by (simp add: stays_with_def keeps_keys_def)
qed

lemma serve_platform_stays:
  assumes "sessions_keyed s"
  shows "case fst (get_current_user ps bearer s) of
     Inl e \<Rightarrow> serve_platform ps bearer rq s = (Inl e, s)
   | Inr u \<Rightarrow> stays_with (us_tenant u) s (snd (serve_platform ps bearer rq s))"
proof (cases "get_current_user ps bearer s")
  case (Pair q v)
  then have v: "v = s" by (rule get_current_user_state)
  show ?thesis
  proof (cases q)
    case (Inl e)
    with Pair v show ?thesis by (simp add: serve_platform_def guarded_def andthen_def)
  next
    case (Inr u)
    with Pair v have run: "serve_platform ps bearer rq s =
        andthen (require_role (request_roles rq) u) (\<lambda>_. handle_request ps u rq) s"
      by (simp add: serve_platform_def guarded_def andthen_Inr)
    have "stays_with (us_tenant u) s (snd (serve_platform ps bearer rq s))"
    proof (cases "us_role u = ''admin'' \<or> us_role u \<in> set (request_roles rq)")
      case True
      with run have "serve_platform ps bearer rq s = handle_request ps u rq s" by (simp add: require_role_def)
      then show ?thesis using handle_request_stays [OF _ assms] by (metis prod.collapse)
    next
      case False
      with run have "snd (serve_platform ps bearer rq s) = s"
        by (simp add: require_role_def http_error_def andthen_def raising_def)
      then show ?thesis using stays_with_refl [OF assms] by simp
    qed
    with Pair Inr show ?thesis by simp
  qed
qed

end
