(* ===== verification/SamplePlatform.thy ===== *)
theory SamplePlatform
  imports SampleFactory PlatformServer
begin

text \<open>
  A sample of the platform: a developer with a token, an agent that uses a guardrail policy, a
  knowledge base whose folder holds a text and a program, and a proposed session of Build with AI.
\<close>

section \<open>The services\<close>

definition sample_user :: user_row where
  "sample_user =
     \<lparr>us_id = ''000000000000000000000000000000a1'', us_email = ''me'', us_hash = ''h'', us_role = ''developer'',
      us_tenant = ''t'', us_active = True\<rparr>"

definition sample_engine :: "unit engine" where
  "sample_engine = \<lparr>en_score = \<lambda>_ _ _. Inr 0, en_mock = True, en_apply = \<lambda>_ _ _ _ w. (Inl ''none'', w)\<rparr>"

definition sample_platform_services :: "unit platform_services" where
  "sample_platform_services =
     \<lparr>ps_cloud = sample_cloud, ps_uuid = \<lambda>w. (''0123456789abcdef'', w), ps_llm = \<lambda>_ _ w. (Inl ''down'', w),
      ps_co = \<lparr>co_bool = \<lambda>_. None, co_float = \<lambda>_. None\<rparr>, ps_sha256 = \<lambda>_. ''h'', ps_version = ''1'',
      ps_jwt_decode = \<lambda>_ _ token. if token = ''good''
        then Claims [(''type'', PStr ''access''), (''sub'', PStr (us_id sample_user))] else TokenInvalid ''bad'',
      ps_jwt_encode = \<lambda>_ _. ''good'', ps_checkpw = \<lambda>_ _. True, ps_assume = \<lambda>_ _ w. (Inr ''c'', w),
      ps_put_guardrail = \<lambda>_ _ w. (Inr (''g'', ''1''), w), ps_delete_guardrail = \<lambda>_ _ w. (Inr (), w),
      ps_s3 = \<lambda>_ w. (None, w), ps_kb_call = \<lambda>_ w. (Inl ''none'', w), ps_kb_job = \<lambda>_ _ _ w. (Inl ''none'', w),
      ps_presigned = \<lambda>_ _. ''url'', ps_mock_kb = True, ps_kb_role = ''role'', ps_kb_collection = ''c'',
      ps_region = ''r'', ps_engine = sample_engine, ps_jwt_secret = ''s'', ps_access_minutes = 60,
      ps_refresh_days = 7, ps_mock_guardrails = True, ps_kb_bucket = None\<rparr>"

section \<open>The tables\<close>

definition using_version :: version_record where
  "using_version =
     (sample_version 2)\<lparr>vr_config := PDict [(''guardrail_policy_id'', PStr ''g''), (''skill_ids'', PList [PStr ''k''])]\<rparr>"

definition using_registry :: registry where
  "using_registry =
     sample_registry\<lparr>rg_versions := [((''a'', 1), FullVersion (sample_version 1)), ((''a'', 2), FullVersion using_version)]\<rparr>"

definition sample_kb :: knowledge_base where
  "sample_kb =
     (new_kb 0 ''t'' ''b'' ''me'' (default_kb_fields ''B'' ''a base'' ''manual'') (Some ''bucket'', Some ''f/b/raw/'') True)"

definition lone_agent :: agent_proposal where
  "lone_agent =
     \<lparr>ap_name = ''L'', ap_description = ''d'', ap_type = ''standard'', ap_persona = None, ap_prompt = ''p'',
      ap_capability = [], ap_tools = [], ap_kbs = [], ap_policy = None, ap_skills = []\<rparr>"

definition sample_session :: build_session where
  "sample_session =
     \<lparr>bs_id = ''n'', bs_tenant = ''t'', bs_project = None, bs_description = ''d'',
      bs_architecture = \<lparr>ar_orchestrator = lone_agent, ar_subs = [], ar_resources = build_resource_proposal [lone_agent],
                         ar_output = None, ar_confidence = ''0.5'', ar_reasoning = []\<rparr>,
      bs_missing = [], bs_status = ''proposed'', bs_resources = [], bs_agents = [], bs_error = None,
      bs_created = 0, bs_updated = 0\<rparr>"

definition sample_platform :: "unit platform" where
  "sample_platform =
     \<lparr>pl_factory = (sample_factory clean_scan)\<lparr>fc_registry := using_registry\<rparr>,
      pl_connectors = [], pl_kbs = [((''t'', ''b''), sample_kb)], pl_policies = [], pl_credentials = [], pl_skills = [],
      pl_prompts = [], pl_projects = [], pl_tools = [], pl_builds = [((''t'', ''n''), sample_session)],
      pl_users = [sample_user], pl_settings = [],
      pl_objects = [((''bucket'', ''f/b/raw/x.txt''), ''hi''), ((''bucket'', ''f/b/raw/y.exe''), ''mz'')]\<rparr>"

section \<open>What it is\<close>

lemma sample_user_tenant [simp]: "us_tenant sample_user = ''t''"
  by (simp add: sample_user_def)

lemma sample_caller: "fst (get_current_user sample_platform_services (Some ''good'') sample_platform) = Inr sample_user"
  by code_simp

lemma sample_platform_tables: "tables_ok (fc_registry (pl_factory sample_platform))"
  using sample_registry_ok
  by (simp add: sample_platform_def using_registry_def tables_ok_def keyed_def)

lemma sample_policy_used: "in_use ''t'' (DeletePolicy ''g'') sample_platform"
  by (auto simp: tenant_refers_def sample_platform_def using_registry_def sample_registry_def sample_record_def
      sample_agent_def blank_record_def using_version_def uses_policy_def dict_get_def)

lemma sample_sessions_keyed: "sessions_keyed sample_platform"
  by (simp add: sessions_keyed_def session_row_def sample_platform_def sample_session_def)

lemma sample_session_found: "session_row (us_tenant sample_user) ''n'' sample_platform = Some sample_session"
  by (simp add: session_row_def sample_platform_def sample_user_def)

lemma sample_folder: "folder ''f/b/raw/''"
  unfolding folder_def by (rule exI [of _ "''f/b/raw''"]) simp

lemma sample_row:
  "map_of (pl_kbs sample_platform) (us_tenant sample_user, ''b'') = Some sample_kb"
  "kn_bucket sample_kb = Some ''bucket''" "kn_prefix sample_kb = Some ''f/b/raw/''"
  by (simp_all add: sample_platform_def sample_user_def sample_kb_def new_kb_def)

text \<open>A sync of the sample base: the program is quarantined, the text is left.\<close>

lemma sample_suffixes: "suffix_of ''x.txt'' = ''.txt''" "suffix_of ''y.exe'' = ''.exe''"
  by code_simp+

lemma sample_listed:
  "objects_under ''bucket'' ''f/b/raw/'' (pl_objects sample_platform)
     = [(''f/b/raw/x.txt'', ''hi''), (''f/b/raw/y.exe'', ''mz'')]"
  by code_simp

lemma sample_verdicts:
  "scan_document sample_platform_services ''t'' ''y.exe'' body s = (Inr (Some ''validation''), s)"
  "scan_document sample_platform_services ''t'' ''x.txt'' ''hi'' s = (Inr None, s)"
proof -
  show "scan_document sample_platform_services ''t'' ''y.exe'' body s = (Inr (Some ''validation''), s)"
    by (simp add: scan_document_def validate_document_def sample_suffixes allowed_document_extensions_def ret_def)
  have "validate_document ''x.txt'' ''hi'' = None"
    by (simp add: validate_document_def sample_suffixes allowed_document_extensions_def max_document_size_def)
  moreover have "check_input sample_engine ''hi'' (injection_only_policy ''t'') w =
      (Inr (decision False [layer ''bert'' ''pass'' (Some 0) ''prompt_injection'']), w)" for w :: unit
    by (cases w) code_simp
  moreover have "py_strip ''hi'' \<noteq> []" by code_simp
  ultimately show "scan_document sample_platform_services ''t'' ''x.txt'' ''hi'' s = (Inr None, s)"
    by (simp add: scan_document_def scan_for_prompt_injection_def sample_suffixes text_extractable_extensions_def
        on_world_def on_part_def andthen_def ret_def decision_def sample_platform_services_def)
qed

lemma sample_calls: "s3_do sample_platform_services c s = (Inr (), s\<lparr>pl_objects := s3_effect c (pl_objects s)\<rparr>)"
  by (simp add: s3_do_def on_world_def on_part_def andthen_def modifies_def sample_platform_services_def)

lemma sample_synced:
  "\<exists>job rejected. fst (trigger_sync_route sample_platform_services sample_user ''b'' sample_platform) = Inr (job, rejected)"
proof -
  have k: "provisioned_kb ''t'' ''b'' sample_platform = (Inr sample_kb, sample_platform)"
    by (simp add: provisioned_kb_def get_kb_or_404_def found_or_404_def get_kb_def find_row_def on_kbs_def on_part_def
        reads_def andthen_def ret_def sample_platform_def sample_kb_def new_kb_def)
  have o: "list_objects sample_platform_services ''bucket'' ''f/b/raw/'' sample_platform
      = (Inr [(''f/b/raw/x.txt'', ''hi''), (''f/b/raw/y.exe'', ''mz'')], sample_platform)"
    by (simp add: list_objects_def sample_calls andthen_def reads_def sample_listed)
  have "map_of (pl_objects sample_platform) (''bucket'', ''f/b/raw/x.txt'') = Some ''hi''"
    by (simp add: sample_platform_def)
  with o obtain rej t where q: "scan_and_quarantine sample_platform_services ''t'' sample_kb sample_platform = (Inr rej, t)"
    and kbs: "pl_kbs t = pl_kbs sample_platform"
    by (simp add: scan_and_quarantine_def sample_row Let_def andthen_def reads_def sample_calls sample_verdicts
        audit_rejection_def on_factory_def on_part_def modifies_def ret_def)
  from kbs have "map_of (pl_kbs t) (''t'', ''b'') = Some sample_kb" by (simp add: sample_platform_def)
  then have up: "\<exists>x w. on_kbs (update_sync_state now ''t'' ''b'' ''IN_PROGRESS'' None False) t = (Inr x, w)" for now
    by (simp add: on_kbs_def on_part_def update_sync_state_def amend_row_def find_row_def put_row_def prog_simps)
  obtain now where now: "the_time sample_platform_services t = (Inr now, t)" using the_time_run by blast
  from up obtain x w where "on_kbs (update_sync_state now ''t'' ''b'' ''IN_PROGRESS'' None False) t = (Inr x, w)" by blast
  with k q now show ?thesis
    by (simp add: trigger_sync_route_def andthen_Inr sample_user_def start_sync_def sample_platform_services_def mapping_def
        catching_def ret_def) (simp add: sample_kb_def new_kb_def)
qed

lemma sample_program_rejected: "\<not> passed_scan sample_platform_services ''t'' ''y.exe'' body"
  by (simp add: passed_scan_def sample_verdicts)

end
