(* ===== verification/SecurityLog.thy ===== *)
theory SecurityLog
  imports JsonRoundtrip RuntimeState Tables
begin

text \<open>
  The security log (app/modules/audit/security_log.py): one row for each event and one for the end
  of a tenant's chain. Each event carries the hash of the event before it and its own; the calls to
  DynamoDB may fail, a failure is logged and passed over.
\<close>

datatype log_call = ReadTail | WriteEvent | AdvanceTail

record 'w log_services =
  lg_clock :: "'w \<Rightarrow> int"
  lg_iso :: "int \<Rightarrow> string"
  lg_uuid :: "'w \<Rightarrow> string \<times> 'w"
  lg_sha256 :: "string \<Rightarrow> string"
  lg_call :: "log_call \<Rightarrow> 'w \<Rightarrow> string option \<times> 'w"

record 'w security_log =
  al_world :: 'w
  al_rows :: "pyval table"

type_synonym ('w, 'a) log_action = "('w security_log, 'a) prog"

record security_event =
  se_type :: string
  se_agent :: string
  se_principal :: string
  se_action :: string
  se_resource :: string
  se_result :: string
  se_request :: string
  se_ip :: string
  se_extra :: "(string \<times> pyval) list"

definition security_ttl_days :: int where "security_ttl_days = 90"

definition chain_tail_id :: string where "chain_tail_id = ''_CHAIN_TAIL_''"

definition log_calls :: "'w log_services \<Rightarrow> log_call \<Rightarrow> ('w, unit) log_action" where
  "log_calls lg c s =
     (case lg_call lg c (al_world s) of
        (Some e, w) \<Rightarrow> (Inl (ExternalError e), s\<lparr>al_world := w\<rparr>)
      | (None, w) \<Rightarrow> (Inr (), s\<lparr>al_world := w\<rparr>))"

definition get_chain_tail_hash :: "'w log_services \<Rightarrow> string \<Rightarrow> ('w, pyval) log_action" where
  "get_chain_tail_hash lg tenant =
     andthen (log_calls lg ReadTail) (\<lambda>_.
       reads (\<lambda>s. case map_of (al_rows s) (tenant, chain_tail_id) of
                    None \<Rightarrow> PNone | Some row \<Rightarrow> dict_get ''latest_hash'' row))"

definition advance_chain_tail :: "'w log_services \<Rightarrow> string \<Rightarrow> string \<Rightarrow> ('w, unit) log_action" where
  "advance_chain_tail lg tenant hash =
     andthen (log_calls lg AdvanceTail) (\<lambda>_.
       modifies (\<lambda>s. s\<lparr>al_rows := AList.update (tenant, chain_tail_id)
         (PDict [(''tenant_id'', PStr tenant), (''event_id'', PStr chain_tail_id), (''latest_hash'', PStr hash)])
         (al_rows s)\<rparr>))"

definition merged :: "(string \<times> pyval) list \<Rightarrow> (string \<times> pyval) list \<Rightarrow> (string \<times> pyval) list" where
  "merged base extra = foldl (\<lambda>d (k, v). dict_set k v d) base extra"

definition event_item :: "'w log_services \<Rightarrow> int \<Rightarrow> string \<Rightarrow> string \<Rightarrow> security_event \<Rightarrow> (string \<times> pyval) list" where
  "event_item lg now uuid tenant e =
     merged
       [(''tenant_id'', PStr tenant), (''event_id'', PStr uuid), (''timestamp'', PStr (lg_iso lg now)),
        (''event_type'', PStr (se_type e)), (''agent_id'', PStr (se_agent e)), (''principal_id'', PStr (se_principal e)),
        (''action'', PStr (se_action e)), (''resource'', PStr (se_resource e)), (''result'', PStr (se_result e)),
        (''request_id'', PStr (se_request e)), (''source_ip'', PStr (se_ip e)),
        (''expires_at'', PInt ((now + security_ttl_days * 86400000000) div 1000000))]
       (se_extra e)"

text \<open>The row is stored under the item's own tenant and id; a float in it is refused.\<close>

definition put_event_row :: "'w log_services \<Rightarrow> (string \<times> pyval) list \<Rightarrow> ('w, unit) log_action" where
  "put_event_row lg item =
     (if has_float (PDict item) then raising float_refused
      else
        andthen (log_calls lg WriteEvent) (\<lambda>_.
          modifies (\<lambda>s. s\<lparr>al_rows := AList.update
            (text_of (dict_get ''tenant_id'' (PDict item)), text_of (dict_get ''event_id'' (PDict item)))
            (PDict item) (al_rows s)\<rparr>)))"

definition write_event :: "'w log_services \<Rightarrow> string \<Rightarrow> security_event \<Rightarrow> ('w, unit) log_action" where
  "write_event lg tenant e =
     andthen (reads (\<lambda>s. lg_clock lg (al_world s))) (\<lambda>now.
     andthen (\<lambda>s. let (u, w) = lg_uuid lg (al_world s) in (Inr u, s\<lparr>al_world := w\<rparr>)) (\<lambda>uuid.
       catching
         (andthen (get_chain_tail_hash lg tenant) (\<lambda>prev.
            let item = dict_set ''prev_hash'' prev (event_item lg now uuid tenant e);
                hash = lg_sha256 lg (json_canonical (PDict item))
            in andthen (put_event_row lg (dict_set ''event_hash'' (PStr hash) item)) (\<lambda>_.
                 advance_chain_tail lg tenant hash)))
         (\<lambda>_. ret ())))"

section \<open>The chain\<close>

text \<open>The content of a stored event is all of it but its own hash.\<close>

definition content :: "pyval \<Rightarrow> pyval" where
  "content v = (case v of PDict kvs \<Rightarrow> PDict (filter (\<lambda>(k, _). k \<noteq> ''event_hash'') kvs) | _ \<Rightarrow> v)"

fun chained :: "(string \<Rightarrow> string) \<Rightarrow> pyval \<Rightarrow> pyval list \<Rightarrow> bool" where
  "chained sha prev [] \<longleftrightarrow> True"
| "chained sha prev (v # vs) \<longleftrightarrow>
     dict_get ''prev_hash'' v = prev \<and> dict_get ''event_hash'' v = PStr (sha (json_canonical (content v))) \<and>
     chained sha (dict_get ''event_hash'' v) vs"

definition chain_head :: "pyval list \<Rightarrow> pyval" where
  "chain_head vs = (if vs = [] then PNone else dict_get ''event_hash'' (last vs))"

definition events_of :: "string \<Rightarrow> pyval table \<Rightarrow> pyval list" where
  "events_of tenant rows = [v. ((t, i), v) \<leftarrow> rows, t = tenant, i \<noteq> chain_tail_id]"

definition tail_of :: "string \<Rightarrow> pyval table \<Rightarrow> pyval" where
  "tail_of tenant rows =
     (case map_of rows (tenant, chain_tail_id) of None \<Rightarrow> PNone | Some row \<Rightarrow> dict_get ''latest_hash'' row)"

text \<open>The events of a tenant in the order they were written form a chain whose head is the tail's hash.\<close>

definition chain_ok :: "(string \<Rightarrow> string) \<Rightarrow> string \<Rightarrow> pyval table \<Rightarrow> bool" where
  "chain_ok sha tenant rows \<longleftrightarrow>
     chained sha PNone (events_of tenant rows) \<and> tail_of tenant rows = chain_head (events_of tenant rows)"

lemma chained_append:
  "chained sha p (vs @ [v]) \<longleftrightarrow>
     chained sha p vs \<and> dict_get ''prev_hash'' v = (if vs = [] then p else dict_get ''event_hash'' (last vs)) \<and>
     dict_get ''event_hash'' v = PStr (sha (json_canonical (content v)))"
  by (induction vs arbitrary: p) auto

lemma update_fresh: "k \<notin> fst ` set rows \<Longrightarrow> AList.update k v rows = rows @ [(k, v)]"
  by (induction rows) auto

lemma events_of_update_tail [simp]:
  "events_of tenant (AList.update (t, chain_tail_id) v rows) = events_of tenant rows"
  by (induction rows) (auto simp: events_of_def)

lemma events_of_fresh:
  assumes "(t, i) \<notin> fst ` set rows" and "i \<noteq> chain_tail_id"
  shows "events_of tenant (AList.update (t, i) v rows) = events_of tenant rows @ (if t = tenant then [v] else [])"
  using assms by (simp add: update_fresh events_of_def)

lemma tail_of_update [simp]:
  "i \<noteq> chain_tail_id \<Longrightarrow> tail_of tenant (AList.update (t, i) v rows) = tail_of tenant rows"
  "tail_of tenant (AList.update (t, chain_tail_id) v rows) = (if t = tenant then dict_get ''latest_hash'' v else tail_of tenant rows)"
  by (auto simp: tail_of_def AList.update_conv')

section \<open>What a write leaves\<close>

text \<open>
  An event whose further fields are its own: they do not name the fields the log fills in, and
  carry no float.
\<close>

definition plain_event :: "security_event \<Rightarrow> bool" where
  "plain_event e \<longleftrightarrow>
     fst ` set (se_extra e) \<inter> {''tenant_id'', ''event_id'', ''prev_hash'', ''event_hash''} = {}"

lemma dict_get_set [simp]:
  "dict_get k (PDict (dict_set k' v kvs)) = (if k = k' then v else dict_get k (PDict kvs))"
  by (simp add: dict_get_def map_of_dict_set)

lemma keys_dict_set [simp]: "fst ` set (dict_set k v kvs) = insert k (fst ` set kvs)"
proof (induction kvs)
  case (Cons x kvs)
  then show ?case by (cases x) (simp add: insert_commute)
qed simp

lemma merged_other: "k \<notin> fst ` set extra \<Longrightarrow> map_of (merged base extra) k = map_of base k"
  unfolding merged_def by (induction extra arbitrary: base) (auto simp: map_of_dict_set)

lemma merged_keys: "fst ` set (merged base extra) = fst ` set base \<union> fst ` set extra"
  unfolding merged_def
proof (induction extra arbitrary: base)
  case (Cons x extra)
  then show ?case by (cases x) (simp del: set_map)
qed simp

lemma event_item_facts:
  assumes "plain_event e"
  shows "dict_get ''tenant_id'' (PDict (event_item lg now uuid tenant e)) = PStr tenant"
    and "dict_get ''event_id'' (PDict (event_item lg now uuid tenant e)) = PStr uuid"
    and "''event_hash'' \<notin> fst ` set (event_item lg now uuid tenant e)"
proof -
  have k: "''tenant_id'' \<notin> fst ` set (se_extra e)" "''event_id'' \<notin> fst ` set (se_extra e)"
    "''event_hash'' \<notin> fst ` set (se_extra e)"
    using assms unfolding plain_event_def by blast+
  show "dict_get ''tenant_id'' (PDict (event_item lg now uuid tenant e)) = PStr tenant"
    "dict_get ''event_id'' (PDict (event_item lg now uuid tenant e)) = PStr uuid"
    by (simp_all add: event_item_def dict_get_def merged_other k del: image_iff)
  show "''event_hash'' \<notin> fst ` set (event_item lg now uuid tenant e)"
    unfolding event_item_def merged_keys using k(3) by simp
qed

lemma content_hashed: "''event_hash'' \<notin> fst ` set kvs \<Longrightarrow> content (PDict (dict_set ''event_hash'' h kvs)) = PDict kvs"
  by (force simp: content_def dict_set_fresh intro!: filter_True)

definition linked_to :: "(string \<Rightarrow> string) \<Rightarrow> pyval \<Rightarrow> pyval \<Rightarrow> bool" where
  "linked_to sha prev v \<longleftrightarrow>
     dict_get ''prev_hash'' v = prev \<and> dict_get ''event_hash'' v = PStr (sha (json_canonical (content v)))"

lemma write_event_rows:
  assumes "write_event lg tenant e s = (r, t)" and "plain_event e"
  defines "uuid \<equiv> fst (lg_uuid lg (al_world s))"
  obtains (lost) "al_rows t = al_rows s"
    | (kept) v where "linked_to (lg_sha256 lg) (tail_of tenant (al_rows s)) v"
        "al_rows t = AList.update (tenant, uuid) v (al_rows s)" "\<exists>w. fst (lg_call lg AdvanceTail w) \<noteq> None"
    | (chained) v tl where "linked_to (lg_sha256 lg) (tail_of tenant (al_rows s)) v"
        "al_rows t = AList.update (tenant, chain_tail_id) tl (AList.update (tenant, uuid) v (al_rows s))"
        "dict_get ''latest_hash'' tl = dict_get ''event_hash'' v"
proof -
  let ?now = "lg_clock lg (al_world s)"
  obtain w where u: "lg_uuid lg (al_world s) = (uuid, w)" unfolding uuid_def by (cases "lg_uuid lg (al_world s)") simp
  obtain q1 w1 where c1: "lg_call lg ReadTail w = (q1, w1)" by (cases rule: prod.exhaust)
  obtain q2 w2 where c2: "lg_call lg WriteEvent w1 = (q2, w2)" by (cases rule: prod.exhaust)
  obtain q3 w3 where c3: "lg_call lg AdvanceTail w2 = (q3, w3)" by (cases rule: prod.exhaust)
  let ?prev = "tail_of tenant (al_rows s)"
  define item where "item = dict_set ''prev_hash'' ?prev (event_item lg ?now uuid tenant e)"
  define hash where "hash = lg_sha256 lg (json_canonical (PDict item))"
  define v where "v = PDict (dict_set ''event_hash'' (PStr hash) item)"
  have fresh: "''event_hash'' \<notin> fst ` set item"
    using event_item_facts(3) [OF assms(2)] by (simp add: item_def)
  have link: "linked_to (lg_sha256 lg) ?prev v"
    using content_hashed [OF fresh] by (simp add: linked_to_def v_def hash_def) (simp add: item_def)
  have key: "dict_get ''tenant_id'' v = PStr tenant" "dict_get ''event_id'' v = PStr uuid"
    using event_item_facts(1,2) [OF assms(2)] by (simp_all add: v_def item_def)
  note run = assms(1) [unfolded write_event_def get_chain_tail_hash_def put_event_row_def advance_chain_tail_def
      log_calls_def prog_simps Let_def]
  show ?thesis
  proof (cases "q1 \<noteq> None \<or> has_float v \<or> q2 \<noteq> None")
    case True
    with run u c1 c2 have "al_rows t = al_rows s"
      by (auto simp: text_of_def tail_of_def [symmetric] item_def [symmetric] hash_def [symmetric] v_def [symmetric]
          split: option.splits if_splits)
    then show ?thesis by (rule lost)
  next
    case False
    then have ok: "q1 = None" "\<not> has_float v" "q2 = None" by auto
    show ?thesis
    proof (cases q3)
      case (Some x)
      with run u c1 c2 c3 ok key have "al_rows t = AList.update (tenant, uuid) v (al_rows s)"
        by (auto simp: text_of_def tail_of_def [symmetric] item_def [symmetric] hash_def [symmetric] v_def [symmetric])
      moreover have "\<exists>w. fst (lg_call lg AdvanceTail w) \<noteq> None" using c3 Some by (intro exI [of _ w2]) simp
      ultimately show ?thesis using link by (intro kept)
    next
      case None
      let ?tl = "PDict [(''tenant_id'', PStr tenant), (''event_id'', PStr chain_tail_id), (''latest_hash'', PStr hash)]"
      from run u c1 c2 c3 ok key None
      have "al_rows t = AList.update (tenant, chain_tail_id) ?tl (AList.update (tenant, uuid) v (al_rows s))"
        by (auto simp: text_of_def tail_of_def [symmetric] item_def [symmetric] hash_def [symmetric] v_def [symmetric])
      moreover have "dict_get ''latest_hash'' ?tl = dict_get ''event_hash'' v" by (simp add: v_def) (simp add: dict_get_def)
      ultimately show ?thesis using link by (intro chained)
    qed
  qed
qed

lemma write_event_total: "\<exists>t. write_event lg tenant e s = (Inr (), t)"
proof -
  obtain w u where "lg_uuid lg (al_world s) = (u, w)" by (cases rule: prod.exhaust)
  then show ?thesis
    by (auto simp: write_event_def andthen_def reads_def catching_def ret_def split: prod.splits sum.splits)
qed

section \<open>The log is a chain\<close>

text \<open>The writes of a log: any event of any tenant, with a fresh id, in any order.\<close>

inductive log_reaches :: "'w log_services \<Rightarrow> 'w security_log \<Rightarrow> bool" for lg where
  log_empty: "al_rows s = [] \<Longrightarrow> log_reaches lg s"
| log_step: "log_reaches lg s \<Longrightarrow> plain_event e \<Longrightarrow> (tenant, fst (lg_uuid lg (al_world s))) \<notin> fst ` set (al_rows s) \<Longrightarrow>
    fst (lg_uuid lg (al_world s)) \<noteq> chain_tail_id \<Longrightarrow> write_event lg tenant e s = (Inr (), t) \<Longrightarrow> log_reaches lg t"

lemma chain_head_linked: "chain_head (vs @ [v]) = dict_get ''event_hash'' v"
  by (simp add: chain_head_def)

lemma write_event_chain:
  assumes run: "write_event lg tenant e s = (r, t)" and e: "plain_event e"
    and fresh: "(tenant, fst (lg_uuid lg (al_world s))) \<notin> fst ` set (al_rows s)"
    and id: "fst (lg_uuid lg (al_world s)) \<noteq> chain_tail_id"
    and up: "\<forall>w. fst (lg_call lg AdvanceTail w) = None" and ok: "chain_ok (lg_sha256 lg) u (al_rows s)"
  shows "chain_ok (lg_sha256 lg) u (al_rows t)"
  using run e
proof (cases rule: write_event_rows)
  case lost
  with ok show ?thesis by simp
next
  case (kept v)
  with up show ?thesis by simp
next
  case (chained v tl)
  note rows = events_of_fresh [OF fresh id, of u v] and tail = tail_of_update(1) [OF id]
  show ?thesis
  proof (cases "u = tenant")
    case True
    with ok chained(1) have "linked_to (lg_sha256 lg) (chain_head (events_of u (al_rows s))) v" by (simp add: chain_ok_def)
    with ok True chained(2,3) rows show ?thesis
      by (auto simp: chain_ok_def linked_to_def chained_append chain_head_def)
  next
    case False
    with ok chained(2) rows tail show ?thesis by (simp add: chain_ok_def)
  qed
qed

lemma log_is_chained:
  assumes "log_reaches lg s" and "\<forall>w. fst (lg_call lg AdvanceTail w) = None"
  shows "chain_ok (lg_sha256 lg) tenant (al_rows s)"
  using assms(1)
proof (induction rule: log_reaches.induct)
  case (log_empty s)
  then show ?case by (simp add: chain_ok_def events_of_def tail_of_def chain_head_def)
next
  case (log_step s e tenant' t)
  from write_event_chain [OF log_step(5,2,3,4) assms(2) log_step.IH] show ?case .
qed

section \<open>Tampering shows\<close>

lemma map_of_sort_items: "distinct (map fst kvs) \<Longrightarrow> map_of (sort_items kvs) = map_of kvs"
  by (rule map_of_eqI) (auto simp: distinct_sort_items map_of_eq_Some_iff)

lemma dict_get_sort_keys:
  assumes "json_ok (PDict kvs)"
  shows "dict_get k (sort_keys (PDict kvs)) = sort_keys (dict_get k (PDict kvs))"
proof -
  have "map fst (map (\<lambda>(k, v). (k, sort_keys v)) kvs) = map fst kvs" by (induction kvs) auto
  moreover from assms have "distinct (map fst kvs)" by simp
  ultimately have "distinct (map fst (map (\<lambda>(k, v). (k, sort_keys v)) kvs))" by (simp only:)
  then have "map_of (sort_items (map (\<lambda>(k, v). (k, sort_keys v)) kvs)) = map_of (map (\<lambda>(k, v). (k, sort_keys v)) kvs)"
    by (rule map_of_sort_items)
  then show ?thesis by (simp add: dict_get_def map_of_map split: option.split)
qed

definition event_ok :: "pyval \<Rightarrow> bool" where
  "event_ok v \<longleftrightarrow>
     (case v of PDict _ \<Rightarrow> json_ok v | _ \<Rightarrow> False) \<and>
     (case dict_get ''prev_hash'' v of PNone \<Rightarrow> True | PStr _ \<Rightarrow> True | _ \<Rightarrow> False)"

lemma event_okD:
  assumes "event_ok v"
  shows "json_ok v" and "\<exists>kvs. v = PDict kvs" and "sort_keys (dict_get ''prev_hash'' v) = dict_get ''prev_hash'' v"
  using assms by (auto simp: event_ok_def split: pyval.splits)

lemma content_prev: "dict_get ''prev_hash'' (content v) = dict_get ''prev_hash'' v"
proof (cases v)
  case (PDict kvs)
  have "map_of (filter (\<lambda>(k, _). k \<noteq> ''event_hash'') kvs) ''prev_hash'' = map_of kvs ''prev_hash''" by (induction kvs) auto
  with PDict show ?thesis by (simp add: content_def dict_get_def)
qed (simp_all add: content_def)

lemma content_ok:
  assumes "json_ok v" shows "json_ok (content v)"
proof (cases v)
  case (PDict kvs)
  with assms show ?thesis
    by (auto simp: content_def list_all_iff distinct_map intro: inj_on_subset)
qed (use assms in \<open>simp_all add: content_def\<close>)

text \<open>Two events whose texts differ and have the same digest.\<close>

definition collides :: "(string \<Rightarrow> string) \<Rightarrow> pyval \<Rightarrow> pyval \<Rightarrow> bool" where
  "collides sha v w \<longleftrightarrow>
     json_canonical (content v) \<noteq> json_canonical (content w) \<and>
     sha (json_canonical (content v)) = sha (json_canonical (content w))"

text \<open>Events of the same hash have the same content, and so the same predecessor, or they collide.\<close>

lemma same_hash_same_event:
  assumes "\<not> collides sha v w" and "sha (json_canonical (content v)) = sha (json_canonical (content w))" and "event_ok v" and "event_ok w"
  shows "sort_keys (content v) = sort_keys (content w)" and "dict_get ''prev_hash'' v = dict_get ''prev_hash'' w"
proof -
  from assms(1,2) have "json_canonical (content v) = json_canonical (content w)" by (simp add: collides_def)
  with assms(3,4) show same: "sort_keys (content v) = sort_keys (content w)"
    by (intro json_canonical_inj content_ok) (simp_all add: event_okD)
  have d: "dict_get ''prev_hash'' (sort_keys (content x)) = dict_get ''prev_hash'' x" if "event_ok x" for x
  proof -
    from that obtain kvs where x: "content x = PDict kvs"
      by (auto simp: content_def dest: event_okD(2))
    with that content_ok [of x] have "dict_get ''prev_hash'' (sort_keys (PDict kvs)) = sort_keys (dict_get ''prev_hash'' (PDict kvs))"
      by (intro dict_get_sort_keys) (simp add: event_okD)
    moreover have "dict_get ''prev_hash'' (PDict kvs) = dict_get ''prev_hash'' x" using content_prev [of x] x by simp
    moreover have "sort_keys (dict_get ''prev_hash'' x) = dict_get ''prev_hash'' x" using that by (rule event_okD(3))
    ultimately show ?thesis by (simp only: x)
  qed
  from d [OF assms(3)] d [OF assms(4)] same show "dict_get ''prev_hash'' v = dict_get ''prev_hash'' w" by simp
qed

lemma chain_head_identifies:
  "chained sha PNone vs \<Longrightarrow> chained sha PNone ws \<Longrightarrow> chain_head vs = chain_head ws \<Longrightarrow>
    list_all event_ok vs \<Longrightarrow> list_all event_ok ws \<Longrightarrow>
    \<forall>v \<in> set vs. \<forall>w \<in> set ws. \<not> collides sha v w \<Longrightarrow>
    map (\<lambda>v. sort_keys (content v)) vs = map (\<lambda>v. sort_keys (content v)) ws"
proof (induction vs arbitrary: ws rule: rev_induct)
  case Nil
  show ?case
  proof (cases ws rule: rev_cases)
    case (snoc ws' w)
    with Nil show ?thesis by (simp add: chained_append chain_head_def)
  qed simp
next
  case (snoc v vs)
  show ?case
  proof (cases ws rule: rev_cases)
    case Nil
    with snoc.prems show ?thesis by (simp add: chained_append chain_head_def)
  next
    case ws: (snoc ws' w)
    from snoc.prems ws have hash: "sha (json_canonical (content v)) = sha (json_canonical (content w))"
      by (simp add: chained_append chain_head_def)
    from snoc.prems ws have "event_ok v" "event_ok w" by simp_all
    moreover from snoc.prems(6) ws have "\<not> collides sha v w" by simp
    ultimately have same: "sort_keys (content v) = sort_keys (content w)" "dict_get ''prev_hash'' v = dict_get ''prev_hash'' w"
      using same_hash_same_event [OF _ hash] by blast+
    have "chain_head vs = chain_head ws'"
      using snoc.prems(1,2) ws same(2) by (simp add: chained_append chain_head_def)
    with snoc.IH [of ws'] snoc.prems ws have "map (\<lambda>v. sort_keys (content v)) vs = map (\<lambda>v. sort_keys (content v)) ws'"
      by (simp add: chained_append)
    with same(1) ws show ?thesis by simp
  qed
qed

section \<open>A sample\<close>

text \<open>Ids are numbered, the hash is the text itself, no call fails.\<close>

definition sample_log_services :: "nat log_services" where
  "sample_log_services =
     \<lparr>lg_clock = \<lambda>_. 0, lg_iso = \<lambda>_. ''now'', lg_uuid = \<lambda>w. (replicate w CHR ''i'', Suc w), lg_sha256 = id,
      lg_call = \<lambda>_ w. (None, w)\<rparr>"

definition sample_security_event :: security_event where
  "sample_security_event =
     \<lparr>se_type = ''agent.created'', se_agent = ''a'', se_principal = ''me'', se_action = ''create'', se_resource = ''a'',
      se_result = ''success'', se_request = [], se_ip = [], se_extra = [(''note'', PInt 1)]\<rparr>"

definition sample_log :: "nat security_log" where
  "sample_log = snd (write_event sample_log_services ''t'' sample_security_event \<lparr>al_world = 0, al_rows = []\<rparr>)"

lemma sample_log_reached: "log_reaches sample_log_services sample_log"
proof -
  let ?s = "\<lparr>al_world = 0, al_rows = []\<rparr> :: nat security_log"
  obtain t where t: "write_event sample_log_services ''t'' sample_security_event ?s = (Inr (), t)"
    using write_event_total by blast
  have "log_reaches sample_log_services ?s" by (rule log_empty) simp
  moreover have "plain_event sample_security_event" by (simp add: plain_event_def sample_security_event_def)
  ultimately have "log_reaches sample_log_services t"
    by (rule log_step [OF _ _ _ _ t]) (simp_all add: sample_log_services_def chain_tail_id_def)
  with t show ?thesis by (simp add: sample_log_def)
qed

lemma sample_log_events:
  "list_all event_ok (events_of ''t'' (al_rows sample_log)) \<and> length (events_of ''t'' (al_rows sample_log)) = 1"
  by (simp add: sample_log_def write_event_def get_chain_tail_hash_def put_event_row_def advance_chain_tail_def
      log_calls_def prog_simps Let_def sample_log_services_def sample_security_event_def event_item_def merged_def
      dict_get_def text_of_def events_of_def chain_tail_id_def event_ok_def security_ttl_days_def)

end
