(* ===== verification/SecurityWriters.thy ===== *)
theory SecurityWriters
  imports SecurityLog
begin

text \<open>
  The security log under concurrent writers, call by call: several writes of one tenant may read
  the same end of the chain and fork it, a write may stop between its calls, and the containers'
  own audit.py stores rows that are in no chain. The stored end of the chain still ends a chain of
  stored events.
\<close>

section \<open>Writers side by side\<close>

text \<open>
  A write between its calls: it holds the hashed event that it has not stored yet, or the hash to
  which the end of the chain is still to be moved.
\<close>

datatype log_write =
    Storing string string "(string \<times> pyval) list" string
  | Moving string string

type_synonym 'w shared_log = "'w security_log \<times> log_write list"

definition hashed_event :: "'w log_services \<Rightarrow> (string \<times> pyval) list \<Rightarrow> string" where
  "hashed_event lg item = lg_sha256 lg (json_canonical (PDict item))"

text \<open>
  The calls of any number of writers in any order, with the other rows of the table (the containers
  write theirs unchained), failures at any point, and a world that moves on. Ids are fresh.
\<close>

inductive log_access :: "'w log_services \<Rightarrow> 'w shared_log \<Rightarrow> 'w shared_log \<Rightarrow> bool" for lg where
  read_tail: "get_chain_tail_hash lg tenant s = (Inr prev, t) \<Longrightarrow> plain_event e \<Longrightarrow> uuid \<noteq> chain_tail_id \<Longrightarrow>
    item = dict_set ''prev_hash'' prev (event_item lg now uuid tenant e) \<Longrightarrow>
    log_access lg (s, ps)
      (t, Storing tenant uuid (dict_set ''event_hash'' (PStr (hashed_event lg item)) item) (hashed_event lg item) # ps)"
| store_event: "Storing tenant uuid item hash \<in> set ps \<Longrightarrow> (tenant, uuid) \<notin> fst ` set (al_rows s) \<Longrightarrow>
    put_event_row lg item s = (Inr (), t) \<Longrightarrow>
    log_access lg (s, ps) (t, Moving tenant hash # remove1 (Storing tenant uuid item hash) ps)"
| move_tail: "Moving tenant hash \<in> set ps \<Longrightarrow> advance_chain_tail lg tenant hash s = (Inr (), t) \<Longrightarrow>
    log_access lg (s, ps) (t, remove1 (Moving tenant hash) ps)"
| give_up: "log_access lg (s, ps) (s, remove1 p ps)"
| other_row: "(tenant, i) \<notin> fst ` set (al_rows s) \<Longrightarrow> i \<noteq> chain_tail_id \<Longrightarrow>
    log_access lg (s, ps) (s\<lparr>al_rows := AList.update (tenant, i) v (al_rows s)\<rparr>, ps)"
| world: "log_access lg (s, ps) (s\<lparr>al_world := w\<rparr>, ps)"

definition shared_log :: "'w log_services \<Rightarrow> 'w shared_log \<Rightarrow> bool" where
  "shared_log lg sp \<longleftrightarrow> (\<exists>s. al_rows s = [] \<and> (log_access lg)\<^sup>*\<^sup>* (s, []) sp)"

text \<open>A hash that ends a chain of stored events.\<close>

definition stored_head :: "(string \<Rightarrow> string) \<Rightarrow> pyval table \<Rightarrow> string \<Rightarrow> pyval \<Rightarrow> bool" where
  "stored_head sha rows tenant h \<longleftrightarrow>
     (\<exists>vs. chained sha PNone vs \<and> set vs \<subseteq> set (events_of tenant rows) \<and> chain_head vs = h)"

fun write_ok :: "(string \<Rightarrow> string) \<Rightarrow> pyval table \<Rightarrow> log_write \<Rightarrow> bool" where
  "write_ok sha rows (Storing tenant uuid item hash) \<longleftrightarrow>
     (\<exists>prev. stored_head sha rows tenant prev \<and> linked_to sha prev (PDict item)) \<and> uuid \<noteq> chain_tail_id \<and>
     dict_get ''event_hash'' (PDict item) = PStr hash \<and>
     dict_get ''tenant_id'' (PDict item) = PStr tenant \<and> dict_get ''event_id'' (PDict item) = PStr uuid"
| "write_ok sha rows (Moving tenant hash) \<longleftrightarrow> stored_head sha rows tenant (PStr hash)"

definition shared_ok :: "'w log_services \<Rightarrow> 'w shared_log \<Rightarrow> bool" where
  "shared_ok lg = (\<lambda>(s, ps).
     (\<forall>tenant. stored_head (lg_sha256 lg) (al_rows s) tenant (tail_of tenant (al_rows s))) \<and>
     list_all (write_ok (lg_sha256 lg) (al_rows s)) ps)"

lemma stored_head_mono:
  "stored_head sha rows tenant h \<Longrightarrow> set (events_of tenant rows) \<subseteq> set (events_of tenant rows') \<Longrightarrow>
     stored_head sha rows' tenant h"
  unfolding stored_head_def by blast

lemma write_ok_mono:
  assumes "write_ok sha rows p" and "\<And>tenant. set (events_of tenant rows) \<subseteq> set (events_of tenant rows')"
  shows "write_ok sha rows' p"
proof (cases p)
  case (Storing tenant uuid item hash)
  from assms(1) [unfolded Storing write_ok.simps] stored_head_mono [OF _ assms(2)] show ?thesis
    unfolding Storing write_ok.simps by blast
next
  case (Moving tenant hash)
  with assms(1) stored_head_mono [OF _ assms(2)] show ?thesis by simp
qed

lemma stored_head_next:
  assumes "stored_head sha rows tenant prev" and "linked_to sha prev v" and "v \<in> set (events_of tenant rows')"
    and "set (events_of tenant rows) \<subseteq> set (events_of tenant rows')"
  shows "stored_head sha rows' tenant (dict_get ''event_hash'' v)"
proof -
  from assms(1) obtain vs where "chained sha PNone vs" "set vs \<subseteq> set (events_of tenant rows)" "chain_head vs = prev"
    unfolding stored_head_def by blast
  with assms show ?thesis
    unfolding stored_head_def
    by (intro exI [of _ "vs @ [v]"]) (auto simp: chained_append linked_to_def chain_head_def)
qed

lemma shared_ok_tenants:
  assumes "shared_ok lg (s, ps)" and "\<And>tenant. set (events_of tenant (al_rows s)) \<subseteq> set (events_of tenant (al_rows t))"
    and "\<And>tenant. stored_head (lg_sha256 lg) (al_rows t) tenant (tail_of tenant (al_rows t))"
    and "\<And>p. p \<in> set qs \<Longrightarrow> p \<in> set ps \<or> write_ok (lg_sha256 lg) (al_rows t) p"
  shows "shared_ok lg (t, qs)"
  using assms write_ok_mono [OF _ assms(2)] unfolding shared_ok_def list_all_iff by blast

lemma log_calls_rows: "log_calls lg c s = (q, t) \<Longrightarrow> al_rows t = al_rows s"
  by (auto simp: log_calls_def split: prod.splits option.splits)

lemma get_chain_tail_Inr:
  "get_chain_tail_hash lg tenant s = (Inr prev, t) \<Longrightarrow> prev = tail_of tenant (al_rows s) \<and> al_rows t = al_rows s"
  by (auto simp: get_chain_tail_hash_def reads_def tail_of_def elim!: andthen_InrE dest!: log_calls_rows)

lemma put_event_row_Inr:
  "put_event_row lg item s = (Inr (), t) \<Longrightarrow> al_rows t = AList.update
     (text_of (dict_get ''tenant_id'' (PDict item)), text_of (dict_get ''event_id'' (PDict item))) (PDict item) (al_rows s)"
  by (auto simp: put_event_row_def modifies_def raising_def elim!: andthen_InrE dest!: log_calls_rows split: if_splits)

lemma advance_chain_tail_Inr:
  "advance_chain_tail lg tenant hash s = (Inr (), t) \<Longrightarrow> \<exists>tl. al_rows t = AList.update (tenant, chain_tail_id) tl (al_rows s) \<and>
     dict_get ''latest_hash'' tl = PStr hash"
  by (auto simp: advance_chain_tail_def modifies_def elim!: andthen_InrE dest!: log_calls_rows intro!: exI conjI [OF refl])
    (simp add: dict_get_def)

lemma new_event_linked:
  assumes "plain_event e" and item: "item = dict_set ''prev_hash'' prev (event_item lg now uuid tenant e)"
    and v: "v = PDict (dict_set ''event_hash'' (PStr (hashed_event lg item)) item)"
  shows "linked_to (lg_sha256 lg) prev v" and "dict_get ''tenant_id'' v = PStr tenant" and "dict_get ''event_id'' v = PStr uuid"
    and "dict_get ''event_hash'' v = PStr (hashed_event lg item)"
proof -
  have fresh: "''event_hash'' \<notin> fst ` set item"
    using event_item_facts(3) [OF assms(1)] by (simp add: item)
  show "linked_to (lg_sha256 lg) prev v"
    using content_hashed [OF fresh] by (simp add: linked_to_def v hashed_event_def) (simp add: item)
  show "dict_get ''tenant_id'' v = PStr tenant" "dict_get ''event_id'' v = PStr uuid"
    "dict_get ''event_hash'' v = PStr (hashed_event lg item)"
    using event_item_facts(1,2) [OF assms(1)] by (simp_all add: v item)
qed

lemma log_access_ok:
  assumes "log_access lg x y" and "shared_ok lg x"
  shows "shared_ok lg y"
  using assms(1)
proof (cases rule: log_access.cases)
  case (read_tail tenant s prev t e uuid item now ps)
  from get_chain_tail_Inr [OF read_tail(3)] have prev: "prev = tail_of tenant (al_rows s)" and t: "al_rows t = al_rows s" by auto
  have ok: "shared_ok lg (s, ps)" using assms(2) read_tail(1) by simp
  then have "stored_head (lg_sha256 lg) (al_rows s) tenant prev" by (simp add: shared_ok_def prev)
  with new_event_linked [OF read_tail(4,6) refl] read_tail(5)
  have "write_ok (lg_sha256 lg) (al_rows t)
      (Storing tenant uuid (dict_set ''event_hash'' (PStr (hashed_event lg item)) item) (hashed_event lg item))"
    unfolding write_ok.simps t by blast
  with ok show ?thesis
    unfolding read_tail(2) by (intro shared_ok_tenants [OF ok]) (auto simp: t shared_ok_def)
next
  case (store_event tenant uuid item hash ps s t)
  have ok: "shared_ok lg (s, ps)" using assms(2) store_event(1) by simp
  with store_event(3) have w: "write_ok (lg_sha256 lg) (al_rows s) (Storing tenant uuid item hash)"
    by (auto simp: shared_ok_def list_all_iff)
  from put_event_row_Inr [OF store_event(5)] w have t: "al_rows t = AList.update (tenant, uuid) (PDict item) (al_rows s)"
    by (simp add: text_of_def)
  have ev: "events_of u (al_rows t) = events_of u (al_rows s) @ (if tenant = u then [PDict item] else [])" for u
    unfolding t using events_of_fresh [OF store_event(4)] w by simp
  have sub: "set (events_of u (al_rows s)) \<subseteq> set (events_of u (al_rows t))" for u by (simp add: ev)
  have tail: "tail_of u (al_rows t) = tail_of u (al_rows s)" for u unfolding t using w by simp
  have "stored_head (lg_sha256 lg) (al_rows t) tenant (PStr hash)"
    using w stored_head_next [OF _ _ _ sub, of "lg_sha256 lg" tenant _ "PDict item"] by (auto simp: ev)
  then show ?thesis
    unfolding store_event(2)
    by (intro shared_ok_tenants [OF ok sub])
      (use ok sub in \<open>auto simp: tail shared_ok_def intro: stored_head_mono dest: set_remove1_subset [THEN subsetD]\<close>)
next
  case (move_tail tenant hash ps s t)
  have ok: "shared_ok lg (s, ps)" using assms(2) move_tail(1) by simp
  with move_tail(3) have w: "stored_head (lg_sha256 lg) (al_rows s) tenant (PStr hash)"
    by (auto simp: shared_ok_def list_all_iff)
  from advance_chain_tail_Inr [OF move_tail(4)] obtain tl where
    t: "al_rows t = AList.update (tenant, chain_tail_id) tl (al_rows s)" "dict_get ''latest_hash'' tl = PStr hash" by blast
  have ev: "events_of u (al_rows t) = events_of u (al_rows s)" for u by (simp add: t)
  have "stored_head (lg_sha256 lg) (al_rows t) u (tail_of u (al_rows t))" for u
    using ok w by (auto simp: t stored_head_def shared_ok_def)
  then show ?thesis
    unfolding move_tail(2)
    by (intro shared_ok_tenants [OF ok]) (auto simp: ev dest: set_remove1_subset [THEN subsetD])
next
  case (give_up s ps p)
  then show ?thesis
    using assms(2) shared_ok_tenants [of lg s ps s "remove1 p ps"]
    by (auto simp: shared_ok_def dest: set_remove1_subset [THEN subsetD])
next
  case (other_row tenant i s ps v)
  have ok: "shared_ok lg (s, ps)" using assms(2) other_row(1) by simp
  have sub: "set (events_of u (al_rows s)) \<subseteq> set (events_of u (AList.update (tenant, i) v (al_rows s)))" for u
    by (simp add: events_of_fresh [OF other_row(3,4)])
  show ?thesis
    unfolding other_row(2)
    by (intro shared_ok_tenants [OF ok]) (use ok sub other_row(4) in \<open>auto simp: shared_ok_def intro: stored_head_mono\<close>)
next
  case (world s ps w)
  then show ?thesis using assms(2) by (simp add: shared_ok_def)
qed

lemma shared_log_ok:
  assumes "shared_log lg sp"
  shows "shared_ok lg sp"
proof -
  from assms obtain s where s: "al_rows s = []" and r: "(log_access lg)\<^sup>*\<^sup>* (s, []) sp" by (auto simp: shared_log_def)
  have "shared_ok lg (s, [])"
    using s by (auto simp: shared_ok_def stored_head_def tail_of_def chain_head_def intro!: exI [of _ "[]"])
  from r this show ?thesis by (induction rule: rtranclp_induct) (auto intro: log_access_ok)
qed

section \<open>A write is its calls\<close>

lemma log_calls_world: "log_calls lg c s = (q, t) \<Longrightarrow> \<exists>w. t = s\<lparr>al_world := w\<rparr>"
  by (auto simp: log_calls_def split: prod.splits option.splits)

lemma advance_chain_tail_Inl: "advance_chain_tail lg tenant hash s = (Inl e, t) \<Longrightarrow> \<exists>w. t = s\<lparr>al_world := w\<rparr>"
  by (auto simp: advance_chain_tail_def modifies_def elim!: andthen_cases dest: log_calls_world)

lemma put_event_row_Inl: "put_event_row lg item s = (Inl e, t) \<Longrightarrow> \<exists>w. t = s\<lparr>al_world := w\<rparr>"
  by (auto simp: put_event_row_def modifies_def raising_def elim!: andthen_cases dest: log_calls_world
      split: if_splits intro: exI [of _ "al_world s"])

lemma get_chain_tail_Inl: "get_chain_tail_hash lg tenant s = (Inl e, t) \<Longrightarrow> \<exists>w. t = s\<lparr>al_world := w\<rparr>"
  by (auto simp: get_chain_tail_hash_def reads_def elim!: andthen_cases dest: log_calls_world)

lemma shared_access: "shared_log lg x \<Longrightarrow> log_access lg x y \<Longrightarrow> shared_log lg y"
  unfolding shared_log_def by (blast intro: rtranclp.rtrancl_into_rtrancl)

lemma shared_world: "shared_log lg (s, ps) \<Longrightarrow> shared_log lg (s\<lparr>al_world := w\<rparr>, ps)"
  by (erule shared_access) (rule log_access.world)

lemma shared_moved: "shared_log lg (s, ps) \<Longrightarrow> \<exists>w. t = s\<lparr>al_world := w\<rparr> \<Longrightarrow> shared_log lg (t, ps)"
  by (auto intro: shared_world)

lemma write_event_shared:
  assumes "shared_log lg (s, [])" and "write_event lg tenant e s = (Inr (), t)" and "plain_event e"
    and "(tenant, fst (lg_uuid lg (al_world s))) \<notin> fst ` set (al_rows s)" and "fst (lg_uuid lg (al_world s)) \<noteq> chain_tail_id"
  shows "shared_log lg (t, [])"
proof -
  obtain uuid w where u: "lg_uuid lg (al_world s) = (uuid, w)" by (cases rule: prod.exhaust)
  let ?now = "lg_clock lg (al_world s)" and ?s = "s\<lparr>al_world := w\<rparr>"
  let ?item = "\<lambda>prev. dict_set ''prev_hash'' prev (event_item lg ?now uuid tenant e)"
  let ?stored = "\<lambda>prev. dict_set ''event_hash'' (PStr (hashed_event lg (?item prev))) (?item prev)"
  have start: "shared_log lg (?s, [])" using assms(1) by (rule shared_world)
  define calls where "calls = andthen (get_chain_tail_hash lg tenant) (\<lambda>prev.
      andthen (put_event_row lg (?stored prev)) (\<lambda>_. advance_chain_tail lg tenant (hashed_event lg (?item prev))))"
  obtain q v where q: "calls ?s = (q, v)" by (cases rule: prod.exhaust)
  have "t = v"
    using assms(2) u q by (auto simp: write_event_def reads_def andthen_def catching_def ret_def calls_def hashed_event_def
        Let_def split: prod.splits sum.splits)
  moreover have "shared_log lg (v, [])"
    using q unfolding calls_def
  proof (cases rule: andthen_cases)
    case (stop x)
    show ?thesis by (rule shared_moved [OF start get_chain_tail_Inl [OF stop(1)]])
  next
    case (step prev s1)
    let ?p = "Storing tenant uuid (?stored prev) (hashed_event lg (?item prev))"
    have one: "shared_log lg (s1, [?p])"
      using start log_access.read_tail [OF step(1) assms(3) _ refl, where uuid = uuid and now = ?now and ps = "[]"] assms(5) u
      by (auto intro: shared_access)
    have rows: "al_rows s1 = al_rows s" using get_chain_tail_Inr [OF step(1)] by simp
    from step(2) show ?thesis
    proof (cases rule: andthen_cases)
      case (stop x)
      have "shared_log lg (v, [?p])" by (rule shared_moved [OF one put_event_row_Inl [OF stop(1)]])
      from shared_access [OF this log_access.give_up [of lg v "[?p]" ?p]] show ?thesis by simp
    next
      case (step x s2)
      have "(tenant, uuid) \<notin> fst ` set (al_rows s1)" using assms(4) u rows by simp
      from shared_access [OF one log_access.store_event [OF _ this, of "?stored prev" "hashed_event lg (?item prev)" "[?p]" lg s2]] step(1)
      have two: "shared_log lg (s2, [Moving tenant (hashed_event lg (?item prev))])" by simp
      show ?thesis
      proof (cases q)
        case (Inl x)
        have "shared_log lg (v, [Moving tenant (hashed_event lg (?item prev))])"
          by (rule shared_moved [OF two advance_chain_tail_Inl [OF step(2) [unfolded Inl]]])
        from shared_access [OF this log_access.give_up [of lg v _ "Moving tenant (hashed_event lg (?item prev))"]] show ?thesis by simp
      next
        case (Inr x)
        with shared_access [OF two log_access.move_tail [of tenant "hashed_event lg (?item prev)" _ lg s2 v]] step(2) show ?thesis
          by simp
      qed
    qed
  qed
  ultimately show ?thesis by simp
qed

lemma log_reaches_shared: "log_reaches lg s \<Longrightarrow> shared_log lg (s, [])"
proof (induction rule: log_reaches.induct)
  case (log_empty s)
  then show ?case by (auto simp: shared_log_def)
next
  case (log_step s e tenant t)
  from write_event_shared [OF log_step.IH log_step(5,2,3,4)] show ?case .
qed

end
