(* ===== verification/IacChecks.thy ===== *)
theory IacChecks
  imports ScanRunner Naming Planner
begin

text \<open>
  The checks of generated Terraform (app/modules/iac_generator/validator.py) and their copy for the
  customer's pipeline (policy_check_script.py). \<open>hcl2\<close>, the Terraform program, SHA-1 and the order
  in which a set is iterated are arguments. A long dash in a message is written \<open>--\<close>.
\<close>

section \<open>What the checks call\<close>

datatype cli_run = CliMissing | CliTimeout | Exited int string string

record 'w iac_tools =
  it_hcl :: "string \<Rightarrow> string + pyval"
  it_sha1 :: "string \<Rightarrow> string"
  it_order :: "string list \<Rightarrow> string list"
  it_cli :: "string list \<Rightarrow> (string \<times> string) list \<Rightarrow> 'w \<Rightarrow> cli_run \<times> 'w"
  it_clock :: "'w \<Rightarrow> int"
  it_iso :: "int \<Rightarrow> string"

text \<open>A set of texts is a list without duplicates; \<open>it_order\<close> gives the order of its iteration.\<close>

definition set_order_ok :: "'w iac_tools \<Rightarrow> bool" where
  "set_order_ok it \<longleftrightarrow> (\<forall>xs. set (it_order it xs) = set xs)"

section \<open>Tables\<close>

definition lambda_assume_service :: string where "lambda_assume_service = ''lambda.amazonaws.com''"

definition resource_wildcard_exempt_actions :: "string list" where
  "resource_wildcard_exempt_actions =
     [''xray:PutTraceSegments'', ''xray:PutTelemetryRecords'', ''ecr:GetAuthorizationToken'',
      ''ecr:BatchCheckLayerAvailability'', ''ecr:GetDownloadUrlForLayer'', ''ecr:BatchGetImage'',
      ''bedrock:InvokeModel'', ''bedrock:InvokeModelWithResponseStream'']"

definition nameable_resource_types :: "(string \<times> string) list" where
  "nameable_resource_types =
     [(''aws_apigatewayv2_api'', ''name''), (''aws_s3_bucket'', ''bucket''), (''aws_iam_role_policy'', ''name''),
      (''aws_iam_role'', ''name''), (''aws_security_group'', ''name''), (''aws_bedrock_guardrail'', ''name''),
      (''aws_sns_topic'', ''name''), (''aws_sqs_queue'', ''name''), (''aws_sfn_state_machine'', ''name''),
      (''aws_cloudwatch_log_group'', ''name''), (''aws_ecs_task_definition'', ''family''), (''aws_ecs_service'', ''name''),
      (''aws_opensearchserverless_collection'', ''name''), (''aws_bedrockagent_knowledge_base'', ''name''),
      (''aws_lambda_function'', ''function_name''), (''aws_lb'', ''name''), (''aws_lb_target_group'', ''name'')]"

definition taggable_resource_types :: "string list" where
  "taggable_resource_types =
     [''aws_apigatewayv2_api'', ''aws_apigatewayv2_stage'', ''aws_s3_bucket'', ''aws_iam_role'', ''aws_security_group'',
      ''aws_bedrock_guardrail'', ''aws_sns_topic'', ''aws_sqs_queue'', ''aws_sfn_state_machine'',
      ''aws_cloudwatch_log_group'', ''aws_ecs_task_definition'', ''aws_ecs_service'', ''aws_opensearchserverless_collection'',
      ''aws_bedrockagent_knowledge_base'', ''aws_lambda_function'', ''aws_lb'', ''aws_lb_target_group'']"

definition required_tag_keys :: "string list" where
  "required_tag_keys = [''agent_id'', ''tenant_id'', ''version'', ''managed_by'']"

definition kb_resource_types :: "string list" where
  "kb_resource_types = [''aws_opensearchserverless_collection'', ''aws_opensearch_domain'']"

definition secret_shaped_key_markers :: "string list" where
  "secret_shaped_key_markers = [''password'', ''secret'', ''api_key'', ''access_key'', ''private_key'', ''token'']"

section \<open>Patterns\<close>

text \<open>A pattern anchored at the front of a text gives what follows it; \<open>search\<close> tries every position.\<close>

definition after_text :: "string \<Rightarrow> string \<Rightarrow> string option" where
  "after_text p s = (if starts_with p s then Some (drop (length p) s) else None)"

fun somewhere :: "(string \<Rightarrow> bool) \<Rightarrow> string \<Rightarrow> bool" where
  "somewhere f [] = f []"
| "somewhere f (c # cs) = (f (c # cs) \<or> somewhere f cs)"

definition skip_space :: "string \<Rightarrow> string" where "skip_space = dropWhile is_space"

text \<open>\<open>word\s*=\s*\<close>.\<close>

definition after_assign :: "string \<Rightarrow> string \<Rightarrow> string option" where
  "after_assign word s =
     (case after_text word s of
        None \<Rightarrow> None
      | Some t \<Rightarrow> map_option skip_space (after_text ''='' (skip_space t)))"

text \<open>\<open>word\s*=\s*(?:\[\s*)?"\*"\<close>.\<close>

definition wildcard_here :: "string \<Rightarrow> string \<Rightarrow> bool" where
  "wildcard_here word s =
     (case after_assign word s of
        None \<Rightarrow> False
      | Some t \<Rightarrow> starts_with [CHR 0x22, CHR ''*'', CHR 0x22]
                     (case after_text ''['' t of None \<Rightarrow> t | Some u \<Rightarrow> skip_space u))"

definition action_wildcard :: "string \<Rightarrow> bool" where "action_wildcard = somewhere (wildcard_here ''Action'')"
definition resource_wildcard :: "string \<Rightarrow> bool" where "resource_wildcard = somewhere (wildcard_here ''Resource'')"

text \<open>\<open>Action\s*=\s*\[([^\]]*)\]\<close> and \<open>Action\s*=\s*"([^"]*)"\<close>: the group and what follows the match.\<close>

definition up_to :: "char \<Rightarrow> string \<Rightarrow> (string \<times> string) option" where
  "up_to d s =
     (case dropWhile (\<lambda>c. c \<noteq> d) s of [] \<Rightarrow> None | _ # rest \<Rightarrow> Some (takeWhile (\<lambda>c. c \<noteq> d) s, rest))"

definition group_after :: "string \<Rightarrow> char \<Rightarrow> string \<Rightarrow> (string \<times> string) option" where
  "group_after open_text close s =
     (case after_assign ''Action'' s of
        None \<Rightarrow> None
      | Some t \<Rightarrow> (case after_text open_text t of None \<Rightarrow> None | Some u \<Rightarrow> up_to close u))"

definition actions_list :: "string \<Rightarrow> (string \<times> string) option" where "actions_list = group_after ''['' (CHR '']'')"
definition action_scalar :: "string \<Rightarrow> (string \<times> string) option" where
  "action_scalar = group_after [CHR 0x22] (CHR 0x22)"

text \<open>\<open>"([^"]+)"\<close>.\<close>

definition quoted :: "string \<Rightarrow> (string \<times> string) option" where
  "quoted s =
     (case after_text [CHR 0x22] s of
        None \<Rightarrow> None
      | Some t \<Rightarrow> (case up_to (CHR 0x22) t of Some ([], _) \<Rightarrow> None | r \<Rightarrow> r))"

text \<open>\<open>finditer\<close>: the groups of the matches from left to right, none overlapping another.\<close>

fun all_matches :: "nat \<Rightarrow> (string \<Rightarrow> (string \<times> string) option) \<Rightarrow> string \<Rightarrow> string list" where
  "all_matches 0 m s = []"
| "all_matches (Suc n) m [] = []"
| "all_matches (Suc n) m (c # cs) =
     (case m (c # cs) of Some (g, rest) \<Rightarrow> g # all_matches n m rest | None \<Rightarrow> all_matches n m cs)"

definition find_all :: "(string \<Rightarrow> (string \<times> string) option) \<Rightarrow> string \<Rightarrow> string list" where
  "find_all m s = all_matches (length s) m s"

definition aws_access_key_here :: "string \<Rightarrow> bool" where
  "aws_access_key_here s =
     (case after_text ''AKIA'' s of
        None \<Rightarrow> False
      | Some t \<Rightarrow> length t \<ge> 16 \<and>
          list_all (\<lambda>c. let n = (of_char c :: nat) in (48 \<le> n \<and> n \<le> 57) \<or> (65 \<le> n \<and> n \<le> 90)) (take 16 t))"

definition pem_header_here :: "string \<Rightarrow> bool" where
  "pem_header_here s =
     (case after_text ''-----BEGIN '' s of
        None \<Rightarrow> False
      | Some t \<Rightarrow>
          (let k = length (takeWhile (\<lambda>c. let n = (of_char c :: nat) in (65 \<le> n \<and> n \<le> 90) \<or> n = 32) t)
           in list_ex (\<lambda>i. starts_with ''PRIVATE KEY-----'' (drop i t)) [0..<Suc k]))"

definition looks_like_credential :: "string \<Rightarrow> bool" where
  "looks_like_credential s \<longleftrightarrow> somewhere aws_access_key_here s \<or> somewhere pem_header_here s"

section \<open>Resources\<close>

record resource_block =
  rb_file :: string
  rb_type :: string
  rb_name :: string
  rb_attrs :: "(string \<times> pyval) list"

definition attr :: "string \<Rightarrow> resource_block \<Rightarrow> pyval" where
  "attr k b = dict_get k (PDict (rb_attrs b))"

definition attr_or :: "pyval \<Rightarrow> string \<Rightarrow> resource_block \<Rightarrow> pyval" where
  "attr_or v k b = (if has_key k (PDict (rb_attrs b)) then attr k b else v)"

definition hcl_unquote :: "string \<Rightarrow> string" where
  "hcl_unquote s =
     (if length s \<ge> 2 \<and> hd s = CHR 0x22 \<and> last s = CHR 0x22 then butlast (tl s) else s)"

fun normalize_value :: "pyval \<Rightarrow> pyval" where
  "normalize_value (PStr s) = PStr (hcl_unquote s)"
| "normalize_value (PList xs) = PList (map normalize_value xs)"
| "normalize_value (PDict kvs) =
     PDict (dict_collapse (map (\<lambda>(k, v). (hcl_unquote k, normalize_value v)) (filter (\<lambda>(k, _). k \<noteq> ''__is_block__'') kvs)))"
| "normalize_value v = v"

text \<open>\<open>v.items()\<close> and \<open>for x in v\<close>.\<close>

definition items_call :: "pyval \<Rightarrow> pyexn + (string \<times> pyval) list" where
  "items_call v = (case v of PDict kvs \<Rightarrow> Inr kvs | _ \<Rightarrow> Inl (AttributeError ''items''))"

definition iterated :: "pyval \<Rightarrow> pyexn + pyval list" where
  "iterated v =
     (case v of
        PList xs \<Rightarrow> Inr xs
      | PDict kvs \<Rightarrow> Inr (map (\<lambda>(k, _). PStr k) kvs)
      | PStr s \<Rightarrow> Inr (map (\<lambda>c. PStr [c]) s)
      | _ \<Rightarrow> Inl (TypeError ''not iterable''))"

fun collect :: "('a \<Rightarrow> pyexn + 'b list) \<Rightarrow> 'a list \<Rightarrow> pyexn + 'b list" where
  "collect f [] = Inr []"
| "collect f (x # xs) =
     (case f x of
        Inl e \<Rightarrow> Inl e
      | Inr ys \<Rightarrow> (case collect f xs of Inl e \<Rightarrow> Inl e | Inr zs \<Rightarrow> Inr (ys @ zs)))"

definition blocks_of_entry :: "string \<Rightarrow> pyval \<Rightarrow> pyexn + resource_block list" where
  "blocks_of_entry file item =
     (case items_call (normalize_value item) of
        Inl e \<Rightarrow> Inl e
      | Inr types \<Rightarrow>
          collect (\<lambda>(ty, named).
            case items_call named of
              Inl e \<Rightarrow> Inl e
            | Inr bodies \<Rightarrow>
                Inr (map (\<lambda>(n, body). \<lparr>rb_file = file, rb_type = ty, rb_name = n,
                       rb_attrs = (case body of PDict kvs \<Rightarrow> kvs | _ \<Rightarrow> [])\<rparr>) bodies)) types)"

definition hcl_parse_error :: "string \<Rightarrow> string \<Rightarrow> pyexn" where
  "hcl_parse_error file reason = Raised ''HCLParseError'' (''Failed to parse '' @ file @ '': '' @ reason)"

definition blocks_of_file :: "'w iac_tools \<Rightarrow> string \<times> string \<Rightarrow> pyexn + resource_block list" where
  "blocks_of_file it = (\<lambda>(file, content).
     case it_hcl it content of
       Inl reason \<Rightarrow> Inl (hcl_parse_error file reason)
     | Inr parsed \<Rightarrow>
         (if \<not> has_key ''resource'' parsed then Inr []
          else (case iterated (dict_get ''resource'' parsed) of
                  Inl e \<Rightarrow> Inl e
                | Inr entries \<Rightarrow> collect (blocks_of_entry file) entries)))"

definition parse_all_resources :: "'w iac_tools \<Rightarrow> (string \<times> string) list \<Rightarrow> pyexn + resource_block list" where
  "parse_all_resources it = collect (blocks_of_file it)"

fun flatten_attrs :: "string \<Rightarrow> pyval \<Rightarrow> (string \<times> pyval) list" where
  "flatten_attrs p (PDict kvs) =
     concat (map (\<lambda>(k, v). flatten_attrs (if p = [] then k else p @ ''.'' @ k) v) kvs)"
| "flatten_attrs p (PList xs) = concat (map (flatten_attrs p) xs)"
| "flatten_attrs p v = [(p, v)]"

definition of_type :: "string \<Rightarrow> resource_block list \<Rightarrow> resource_block list" where
  "of_type ty = filter (\<lambda>b. rb_type b = ty)"

definition types_present :: "resource_block list \<Rightarrow> string set" where
  "types_present bs = set (map rb_type bs)"

definition label :: "resource_block \<Rightarrow> string" where
  "label b = rb_type b @ ''.'' @ rb_name b"

text \<open>A check collects violations; it passes when there is none.\<close>

definition check_of :: "string \<Rightarrow> string \<Rightarrow> string \<Rightarrow> string \<Rightarrow> string list \<Rightarrow> validation_check" where
  "check_of name good bad sep violations =
     \<lparr>vc_name = name, vc_passed = (violations = []),
      vc_detail = (if violations = [] then good else bad @ join_with sep violations)\<rparr>"

definition count_text :: "'a list \<Rightarrow> string" where "count_text xs = nat_text (length xs)"

section \<open>IAM\<close>

definition policy_text :: "resource_block \<Rightarrow> string" where
  "policy_text b = text_of (attr ''policy'' b)"

definition extract_actions :: "string \<Rightarrow> string list" where
  "extract_actions text =
     concat (map (find_all quoted) (find_all actions_list text)) @ find_all action_scalar text"

definition policy_violation :: "string \<Rightarrow> string option" where
  "policy_violation text =
     (if action_wildcard text then Some (''Action = '' @ [CHR 0x22, CHR ''*'', CHR 0x22])
      else if resource_wildcard text then
        (let actions = extract_actions text
         in if actions = [] \<or> \<not> set actions \<subseteq> set resource_wildcard_exempt_actions
            then Some (''Resource = '' @ [CHR 0x22, CHR ''*'', CHR 0x22] @ '' on action(s) ''
                   @ py_repr (PList (map PStr (if actions = [] then [''<unknown>''] else actions))))
            else None)
      else None)"

definition is_iam_policy :: "resource_block \<Rightarrow> bool" where
  "is_iam_policy b \<longleftrightarrow> rb_type b \<in> {''aws_iam_role_policy'', ''aws_iam_policy''}"

definition iam_policy_blocks :: "resource_block list \<Rightarrow> resource_block list" where
  "iam_policy_blocks = filter is_iam_policy"

definition check_iam_no_wildcards :: "resource_block list \<Rightarrow> validation_check" where
  "check_iam_no_wildcards bs =
     check_of ''iam_no_wildcard_actions_or_resources'' ''No wildcard Action/Resource found in any IAM policy''
       ''Wildcard IAM permissions found: '' ''; ''
       (concat (map (\<lambda>b. case policy_violation (policy_text b) of None \<Rightarrow> [] | Some r \<Rightarrow> [label b @ '': '' @ r])
          (iam_policy_blocks bs)))"

definition lambda_role_names :: "resource_block list \<Rightarrow> string list" where
  "lambda_role_names bs =
     remdups (map rb_name (filter (\<lambda>b. contains_text lambda_assume_service
       (py_str (attr_or (PStr []) ''assume_role_policy'' b))) (of_type ''aws_iam_role'' bs)))"

definition owning_role :: "string list \<Rightarrow> resource_block \<Rightarrow> string option" where
  "owning_role names b =
     find (\<lambda>n. contains_text (''aws_iam_role.'' @ n @ ''.'') (py_str (attr_or (PStr []) ''role'' b))) names"

definition check_lambda_role_least_privilege :: "'w iac_tools \<Rightarrow> resource_block list \<Rightarrow> validation_check" where
  "check_lambda_role_least_privilege it bs =
     (let names = it_order it (lambda_role_names bs)
      in if names = []
         then \<lparr>vc_name = ''iam_least_privilege_lambda_roles'', vc_passed = True,
               vc_detail = ''No Lambda execution roles in this configuration''\<rparr>
         else check_of ''iam_least_privilege_lambda_roles''
                (''All '' @ count_text names @ '' Lambda execution role(s) have least-privilege policies'')
                ''Overly permissive Lambda execution role polic(ies): '' ''; ''
                (concat (map (\<lambda>b. case owning_role names b of
                   None \<Rightarrow> []
                 | Some n \<Rightarrow> (case policy_violation (policy_text b) of
                     None \<Rightarrow> [] | Some r \<Rightarrow> [''role '' @ repr_str n @ '' via '' @ rb_name b @ '': '' @ r]))
                 (iam_policy_blocks bs))))"

section \<open>Names and tags\<close>

definition expected_truncated_names :: "'w iac_tools \<Rightarrow> string \<Rightarrow> (string \<times> string) list" where
  "expected_truncated_names it agent =
     [(''aws_bedrock_guardrail'', bedrock_guardrail_name (it_sha1 it) agent), (''aws_lb'', alb_name (it_sha1 it) agent),
      (''aws_lb_target_group'', target_group_name (it_sha1 it) agent),
      (''aws_opensearchserverless_collection'', opensearch_collection_name (it_sha1 it) agent)]"

definition name_prefix :: "string \<Rightarrow> string" where "name_prefix agent = ''panasa-'' @ agent @ ''-''"

definition naming_violation :: "'w iac_tools \<Rightarrow> string \<Rightarrow> resource_block \<Rightarrow> string option" where
  "naming_violation it agent b =
     (case map_of nameable_resource_types (rb_type b) of
        None \<Rightarrow> None
      | Some a \<Rightarrow>
          (case attr a b of
             PStr v \<Rightarrow>
               (case map_of (expected_truncated_names it agent) (rb_type b) of
                  Some expected \<Rightarrow>
                    (if v \<noteq> expected
                     then Some (label b @ ''.'' @ a @ '' = '' @ repr_str v @ '' (expected '' @ repr_str expected @ '')'')
                     else None)
                | None \<Rightarrow>
                    (if \<not> starts_with (name_prefix agent) v then Some (label b @ ''.'' @ a @ '' = '' @ repr_str v)
                     else None))
           | _ \<Rightarrow> None))"

definition given :: "'a option list \<Rightarrow> 'a list" where
  "given os = concat (map (\<lambda>x. case x of None \<Rightarrow> [] | Some v \<Rightarrow> [v]) os)"

definition check_naming_convention :: "'w iac_tools \<Rightarrow> resource_block list \<Rightarrow> string \<Rightarrow> validation_check" where
  "check_naming_convention it bs agent =
     check_of ''naming_convention'' (''All nameable resources use the '' @ repr_str (name_prefix agent) @ '' prefix'')
       ''Naming violations: '' ''; '' (given (map (naming_violation it agent) bs))"

definition expected_tags :: "string \<Rightarrow> string \<Rightarrow> string \<Rightarrow> (string \<times> string) list" where
  "expected_tags agent tenant version =
     [(''agent_id'', agent), (''tenant_id'', tenant), (''version'', version), (''managed_by'', ''panasa'')]"

definition has_required_tags :: "pyval \<Rightarrow> bool" where
  "has_required_tags tags \<longleftrightarrow> list_all (\<lambda>k. has_key k tags) required_tag_keys"

definition mismatched_tags :: "(string \<times> string) list \<Rightarrow> pyval \<Rightarrow> (string \<times> pyval) list" where
  "mismatched_tags expected tags =
     map (\<lambda>(k, _). (k, dict_get k tags)) (filter (\<lambda>(k, v). py_str (dict_get k tags) \<noteq> v) expected)"

definition tag_violation :: "(string \<times> string) list \<Rightarrow> resource_block \<Rightarrow> string option" where
  "tag_violation expected b =
     (let tags = attr ''tags'' b
      in if rb_type b \<notin> set taggable_resource_types then None
         else if \<not> has_required_tags tags then Some (label b @ '' is missing one or more required tags'')
         else (let bad = mismatched_tags expected tags
               in if bad = [] then None else Some (label b @ '' has incorrect tag values: '' @ py_repr (PDict bad))))"

definition check_tagging :: "resource_block list \<Rightarrow> string \<Rightarrow> string \<Rightarrow> string \<Rightarrow> validation_check" where
  "check_tagging bs agent tenant version =
     check_of ''tagging''
       (''All '' @ count_text (filter (\<lambda>b. rb_type b \<in> set taggable_resource_types) bs) @
        '' taggable resource(s) have correct agent_id/tenant_id/version/managed_by tags'')
       ''Tagging violations: '' ''; '' (given (map (tag_violation (expected_tags agent tenant version)) bs))"

section \<open>Conditional resources\<close>

definition kb_enabled :: "pyval \<Rightarrow> bool" where
  "kb_enabled cfg = py_truthy (dict_get ''enabled'' (dict_get ''knowledge_base'' cfg))"

definition review_enabled :: "pyval \<Rightarrow> bool" where
  "review_enabled cfg = py_truthy (dict_get ''enabled'' (dict_get ''human_review'' cfg))"

definition tools_of :: "pyval \<Rightarrow> pyval list" where
  "tools_of cfg = items_of (dict_get ''tools'' cfg)"

definition lambda_count :: "resource_block list \<Rightarrow> nat" where
  "lambda_count bs = length (of_type ''aws_lambda_function'' bs)"

definition kb_types_found :: "'w iac_tools \<Rightarrow> resource_block list \<Rightarrow> string" where
  "kb_types_found it bs =
     ''{'' @ join_with '', '' (map repr_str (it_order it (filter (\<lambda>t. t \<in> types_present bs) kb_resource_types))) @ ''}''"

definition presence_problem :: "bool \<Rightarrow> string \<Rightarrow> string list" where
  "presence_problem wrong text = (if wrong then [text] else [])"

definition check_resource_presence :: "'w iac_tools \<Rightarrow> pyval \<Rightarrow> resource_block list \<Rightarrow> validation_check" where
  "check_resource_presence it cfg bs =
     (let kb = kb_enabled cfg; tools = tools_of cfg; review = review_enabled cfg; n = lambda_count bs;
          types = types_present bs
      in check_of ''resource_presence'' ''All conditional resources present/absent as expected'' [] ''; ''
           (presence_problem (kb \<and> ''aws_opensearchserverless_collection'' \<notin> types)
              ''knowledge_base.enabled=true but no aws_opensearchserverless_collection'' @
            presence_problem (\<not> kb \<and> types \<inter> set kb_resource_types \<noteq> {})
              (''knowledge_base disabled but found '' @ kb_types_found it bs) @
            presence_problem (tools \<noteq> [] \<and> n < length tools)
              (count_text tools @ '' tool(s) configured but only '' @ nat_text n @ '' aws_lambda_function resource(s) found'') @
            presence_problem (tools = [] \<and> n > 0)
              (''no tools configured but found '' @ nat_text n @ '' aws_lambda_function resource(s)'') @
            presence_problem (review \<and> ''aws_sqs_queue'' \<notin> types) ''human_review.enabled=true but no aws_sqs_queue'' @
            presence_problem (\<not> review \<and> ''aws_sqs_queue'' \<in> types) ''human_review disabled but found aws_sqs_queue''))"

section \<open>Networks, buckets, tables\<close>

definition port_is_443 :: "pyval \<Rightarrow> bool" where
  "port_is_443 v \<longleftrightarrow> v = PInt 443 \<or> v = PFloat ''443.0''"

text \<open>\<open>"0.0.0.0/0" in (rule.get("cidr_blocks") or [])\<close>.\<close>

definition opens_to_all :: "pyval \<Rightarrow> pyexn + bool" where
  "opens_to_all rule =
     (let cidrs = dict_get ''cidr_blocks'' rule
      in if \<not> py_truthy cidrs then Inr False
         else (case cidrs of
                 PList xs \<Rightarrow> Inr (PStr ''0.0.0.0/0'' \<in> set xs)
               | PDict kvs \<Rightarrow> Inr (''0.0.0.0/0'' \<in> fst ` set kvs)
               | PStr s \<Rightarrow> Inr (contains_text ''0.0.0.0/0'' s)
               | _ \<Rightarrow> Inl (TypeError ''not iterable'')))"

definition rule_violation :: "resource_block \<Rightarrow> pyval \<Rightarrow> pyexn + string list" where
  "rule_violation b rule =
     (if \<not> is_object rule then Inr []
      else (case opens_to_all rule of
              Inl e \<Rightarrow> Inl e
            | Inr open_rule \<Rightarrow>
                (let f = dict_get ''from_port'' rule; t = dict_get ''to_port'' rule
                 in Inr (if open_rule \<and> \<not> (port_is_443 f \<and> port_is_443 t)
                         then [rb_name b @ '': 0.0.0.0/0 ingress on port(s) '' @ py_str f @ ''-'' @ py_str t] else []))))"

definition ingress_rules :: "resource_block \<Rightarrow> pyexn + pyval list" where
  "ingress_rules b =
     (let v = attr_or (PList []) ''ingress'' b in if is_object v then Inr [v] else iterated v)"

definition ingress_violations :: "resource_block \<Rightarrow> pyexn + string list" where
  "ingress_violations b =
     (case ingress_rules b of Inl e \<Rightarrow> Inl e | Inr rules \<Rightarrow> collect (rule_violation b) rules)"

definition check_security_group_ingress :: "resource_block list \<Rightarrow> pyexn + validation_check" where
  "check_security_group_ingress bs =
     map_sum id (check_of ''security_group_ingress'' ''No security group allows 0.0.0.0/0 ingress on a non-443 port''
                   ''Open ingress found: '' ''; '')
       (collect ingress_violations (of_type ''aws_security_group'' bs))"

definition required_flags :: "string list" where
  "required_flags = [''block_public_acls'', ''block_public_policy'', ''ignore_public_acls'', ''restrict_public_buckets'']"

definition blocks_public :: "resource_block \<Rightarrow> bool" where
  "blocks_public p \<longleftrightarrow> list_all (\<lambda>f. attr f p = PBool True) required_flags"

definition access_block_of :: "string \<Rightarrow> resource_block list \<Rightarrow> resource_block option" where
  "access_block_of bucket pabs =
     find (\<lambda>p. contains_text (''aws_s3_bucket.'' @ bucket @ ''.'') (py_str (attr_or (PStr []) ''bucket'' p))) pabs"

definition bucket_violation :: "resource_block list \<Rightarrow> string \<Rightarrow> string option" where
  "bucket_violation pabs bucket =
     (case access_block_of bucket pabs of
        None \<Rightarrow> Some (''aws_s3_bucket.'' @ bucket @ '' has no aws_s3_bucket_public_access_block'')
      | Some p \<Rightarrow>
          (if blocks_public p then None
           else Some (''aws_s3_bucket_public_access_block.'' @ rb_name p @ '' does not set all four block-public flags to true'')))"

definition bucket_names :: "resource_block list \<Rightarrow> string list" where
  "bucket_names bs = remdups (map rb_name (of_type ''aws_s3_bucket'' bs))"

definition check_s3_public_access_block :: "'w iac_tools \<Rightarrow> resource_block list \<Rightarrow> validation_check" where
  "check_s3_public_access_block it bs =
     (let names = it_order it (bucket_names bs)
      in check_of ''s3_block_public_access'' (''All '' @ count_text names @ '' S3 bucket(s) fully block public access'')
           ''S3 public access violations: '' ''; ''
           (given (map (bucket_violation (of_type ''aws_s3_bucket_public_access_block'' bs)) names)))"

definition has_pitr :: "resource_block \<Rightarrow> bool" where
  "has_pitr b =
     (let v = attr ''point_in_time_recovery'' b;
          p = (case v of PList [] \<Rightarrow> PDict [] | PList (x # _) \<Rightarrow> x | _ \<Rightarrow> v)
      in is_object p \<and> dict_get ''enabled'' p = PBool True)"

definition check_dynamodb_pitr :: "resource_block list \<Rightarrow> validation_check" where
  "check_dynamodb_pitr bs =
     (let tables = of_type ''aws_dynamodb_table'' bs
      in if tables = []
         then \<lparr>vc_name = ''dynamodb_pitr'', vc_passed = True, vc_detail = ''No aws_dynamodb_table resources in this configuration''\<rparr>
         else check_of ''dynamodb_pitr''
                (''All '' @ count_text tables @ '' DynamoDB table(s) have point_in_time_recovery enabled'')
                ''Tables missing point_in_time_recovery: '' '', ''
                (map (\<lambda>b. ''aws_dynamodb_table.'' @ rb_name b) (filter (\<lambda>b. \<not> has_pitr b) tables)))"

section \<open>Secrets\<close>

definition looks_like_reference :: "string \<Rightarrow> bool" where
  "looks_like_reference v \<longleftrightarrow>
     starts_with ''${'' v \<or> starts_with ''var.'' v \<or> starts_with ''data.'' v \<or> starts_with ''aws_'' v \<or>
     contains_text ''arn:aws:secretsmanager'' v \<or> v = []"

text \<open>\<open>key.rsplit(".", 1)[-1].lower()\<close>.\<close>

definition key_leaf :: "string \<Rightarrow> string" where
  "key_leaf k = py_lower (rev (takeWhile (\<lambda>c. c \<noteq> CHR ''.'') (rev k)))"

definition secret_shaped :: "string \<Rightarrow> bool" where
  "secret_shaped k \<longleftrightarrow> list_ex (\<lambda>m. contains_text m (key_leaf k)) secret_shaped_key_markers"

definition secret_violation :: "resource_block \<Rightarrow> string \<times> pyval \<Rightarrow> string option" where
  "secret_violation b = (\<lambda>(k, value).
     case value of
       PStr v \<Rightarrow>
         (if looks_like_credential v
          then Some (label b @ ''.'' @ k @ '' contains what looks like a hardcoded credential'')
          else if secret_shaped k \<and> \<not> looks_like_reference v
          then Some (label b @ ''.'' @ k @ '' assigns a literal value to a secret-shaped attribute'')
          else None)
     | _ \<Rightarrow> None)"

definition check_no_hardcoded_secrets :: "resource_block list \<Rightarrow> validation_check" where
  "check_no_hardcoded_secrets bs =
     check_of ''no_hardcoded_secrets'' ''No hardcoded secrets found in any resource attribute''
       ''Possible hardcoded secrets: '' ''; ''
       (concat (map (\<lambda>b. given (map (secret_violation b) (flatten_attrs [] (PDict (rb_attrs b))))) bs))"

section \<open>The Terraform program\<close>

text \<open>\<open>Path(p).parts\<close> and \<open>Path(p).name\<close>.\<close>

definition path_parts :: "string \<Rightarrow> string list" where
  "path_parts p =
     (let parts = filter (\<lambda>x. x \<noteq> [] \<and> x \<noteq> ''.'') (split_on (CHR ''/'') p)
      in if starts_with ''/'' p then ''/'' # parts else parts)"

definition path_last :: "string \<Rightarrow> string" where
  "path_last p = (let parts = path_parts p in if parts = [] \<or> parts = [''/''] then [] else last parts)"

definition flat_name :: "string \<Rightarrow> string" where
  "flat_name p =
     (let n = join_with ''__'' (drop 3 (path_parts p)) in if n = [] then path_last p else n)"

definition flatten_for_terraform_cli :: "(string \<times> string) list \<Rightarrow> (string \<times> string) list" where
  "flatten_for_terraform_cli files = foldl (\<lambda>d (p, content). dict_set (flat_name p) content d) [] files"

definition skipped :: "string \<Rightarrow> string \<Rightarrow> validation_check" where
  "skipped name why = \<lparr>vc_name = name, vc_passed = True, vc_detail = ''Skipped -- '' @ why\<rparr>"

definition newline :: string where "newline = [CHR 0x0A]"

definition cli :: "'w iac_tools \<Rightarrow> string list \<Rightarrow> (string \<times> string) list \<Rightarrow> ('w, cli_run) prog" where
  "cli it argv files w = (let (r, w') = it_cli it argv files w in (Inr r, w'))"

definition timeout_expired :: pyexn where "timeout_expired = Raised ''TimeoutExpired'' []"

definition run_terraform_fmt :: "'w iac_tools \<Rightarrow> (string \<times> string) list \<Rightarrow> ('w, validation_check) prog" where
  "run_terraform_fmt it files =
     andthen (cli it [''fmt'', ''-check'', ''-diff''] files) (\<lambda>r.
       case r of
         CliMissing \<Rightarrow> ret (skipped ''terraform_fmt'' ''terraform CLI not installed'')
       | CliTimeout \<Rightarrow> raising timeout_expired
       | Exited code out err \<Rightarrow>
           (if code = 0 then ret \<lparr>vc_name = ''terraform_fmt'', vc_passed = True, vc_detail = ''All files correctly formatted''\<rparr>
            else ret \<lparr>vc_name = ''terraform_fmt'', vc_passed = False,
                   vc_detail = take 2000 (''terraform fmt found formatting issues:'' @ newline @ out @ err)\<rparr>))"

text \<open>The lines of the diagnostics of \<open>terraform validate -json\<close>; the raw output when they are not as expected.\<close>

definition diagnostic_line :: "pyval \<Rightarrow> string" where
  "diagnostic_line d =
     (let summary = dict_get ''summary'' d; detail = dict_get ''detail'' d;
          file = (let r = dict_get ''range'' d in if is_object r then dict_get ''filename'' r else PNone)
      in py_str (if py_truthy summary then summary else PStr ''Unknown error'')
         @ (if py_truthy detail then '' -- '' @ py_str detail else [])
         @ (if py_truthy file then '' ('' @ py_str file @ '')'' else []))"

definition parse_diagnostics :: "string \<Rightarrow> string \<Rightarrow> string" where
  "parse_diagnostics out err =
     (let fallback = take 2000 (''terraform validate failed:'' @ newline @ out @ err)
      in case json_loads out of
           None \<Rightarrow> fallback
         | Some v \<Rightarrow>
             (case dict_get ''diagnostics'' v of
                PList ds \<Rightarrow>
                  (let lines = map diagnostic_line (filter is_object ds)
                   in if lines = [] then fallback else take 2000 (join_with newline lines))
              | _ \<Rightarrow> fallback))"

definition validate_after_init :: "'w iac_tools \<Rightarrow> (string \<times> string) list \<Rightarrow> ('w, validation_check) prog" where
  "validate_after_init it files =
     andthen (cli it [''validate'', ''-json''] files) (\<lambda>r.
       case r of
         CliMissing \<Rightarrow> raising (Raised ''FileNotFoundError'' [])
       | CliTimeout \<Rightarrow> raising timeout_expired
       | Exited code out err \<Rightarrow>
           (if code = 0
            then ret \<lparr>vc_name = ''terraform_validate'', vc_passed = True, vc_detail = ''Configuration is syntactically valid''\<rparr>
            else ret \<lparr>vc_name = ''terraform_validate'', vc_passed = False, vc_detail = parse_diagnostics out err\<rparr>))"

definition init_arguments :: "string list" where "init_arguments = [''init'', ''-backend=false'', ''-input=false'']"

definition run_terraform_validate :: "'w iac_tools \<Rightarrow> (string \<times> string) list \<Rightarrow> ('w, validation_check) prog" where
  "run_terraform_validate it files =
     andthen (cli it init_arguments files) (\<lambda>r.
       case r of
         CliMissing \<Rightarrow> ret (skipped ''terraform_validate'' ''terraform CLI not installed'')
       | CliTimeout \<Rightarrow> raising timeout_expired
       | Exited code _ _ \<Rightarrow>
           (if code \<noteq> 0
            then ret (skipped ''terraform_validate'' ''terraform init failed (provider download likely unavailable)'')
            else validate_after_init it files))"

section \<open>The validator\<close>

record iac_report =
  ir_passed :: bool
  ir_tool :: string
  ir_at :: int
  ir_checks :: "validation_check list"

definition raises_or :: "pyexn + 'a \<Rightarrow> ('s, 'a) prog" where
  "raises_or r = (case r of Inl e \<Rightarrow> raising e | Inr x \<Rightarrow> ret x)"

definition report_of :: "'w iac_tools \<Rightarrow> string \<Rightarrow> validation_check list \<Rightarrow> ('w, iac_report) prog" where
  "report_of it tool checks =
     reads (\<lambda>w. \<lparr>ir_passed = list_all vc_passed checks, ir_tool = tool, ir_at = it_clock it w, ir_checks = checks\<rparr>)"

text \<open>The nine checks of the resources: those before and after the one that may raise.\<close>

definition checks_before_ingress ::
  "'w iac_tools \<Rightarrow> validation_check \<Rightarrow> resource_block list \<Rightarrow> string \<Rightarrow> string \<Rightarrow> string \<Rightarrow> validation_check list" where
  "checks_before_ingress it presence bs agent tenant version =
     [presence, check_naming_convention it bs agent, check_tagging bs agent tenant version,
      check_iam_no_wildcards bs, check_lambda_role_least_privilege it bs]"

definition checks_after_ingress :: "'w iac_tools \<Rightarrow> resource_block list \<Rightarrow> validation_check list" where
  "checks_after_ingress it bs =
     [check_s3_public_access_block it bs, check_no_hardcoded_secrets bs, check_dynamodb_pitr bs]"

definition static_checks ::
  "'w iac_tools \<Rightarrow> validation_check \<Rightarrow> resource_block list \<Rightarrow> string \<Rightarrow> string \<Rightarrow> string \<Rightarrow> pyexn + validation_check list" where
  "static_checks it presence bs agent tenant version =
     map_sum id (\<lambda>ingress. checks_before_ingress it presence bs agent tenant version @ [ingress] @ checks_after_ingress it bs)
       (check_security_group_ingress bs)"

definition tf_files_of :: "(string \<times> string) list \<Rightarrow> (string \<times> string) list" where
  "tf_files_of = filter (\<lambda>(p, _). ends_with ''.tf'' p)"

definition not_terraform :: "string \<Rightarrow> validation_check" where
  "not_terraform tool =
     \<lparr>vc_name = ''terraform_only'', vc_passed = True,
      vc_detail = ''IaC validation suite only covers the terraform backend; '' @ repr_str tool @ '' was not checked''\<rparr>"

definition validate_iac ::
  "'w iac_tools \<Rightarrow> string \<Rightarrow> string \<Rightarrow> int \<Rightarrow> pyval \<Rightarrow> (string \<times> string) list \<Rightarrow> string \<Rightarrow> ('w, iac_report) prog" where
  "validate_iac it agent tenant version cfg files tool =
     (if tool \<noteq> ''terraform'' then report_of it tool [not_terraform tool]
      else
        (let tf = tf_files_of files
         in case parse_all_resources it tf of
              Inl (Raised class reason) \<Rightarrow>
                (if class = ''HCLParseError''
                 then report_of it tool [\<lparr>vc_name = ''hcl_parse'', vc_passed = False, vc_detail = reason\<rparr>]
                 else raising (Raised class reason))
            | Inl e \<Rightarrow> raising e
            | Inr bs \<Rightarrow>
                andthen (raises_or (static_checks it (check_resource_presence it cfg bs) bs agent tenant (int_text version)))
                  (\<lambda>static.
                andthen (run_terraform_fmt it (flatten_for_terraform_cli tf)) (\<lambda>fmt.
                andthen (run_terraform_validate it (flatten_for_terraform_cli tf)) (\<lambda>val.
                  report_of it tool (static @ [fmt, val]))))))"

section \<open>The customer's copy\<close>

definition script_resource_presence :: "'w iac_tools \<Rightarrow> string list \<Rightarrow> resource_block list \<Rightarrow> validation_check" where
  "script_resource_presence it file_names bs =
     (let kb = list_ex (starts_with ''rag__'') file_names; tools = list_ex (starts_with ''tools__'') file_names;
          review = list_ex (starts_with ''human_loop__'') file_names; n = lambda_count bs; types = types_present bs
      in check_of ''resource_presence'' ''All conditional resources present/absent as expected'' [] ''; ''
           (presence_problem (kb \<and> ''aws_opensearchserverless_collection'' \<notin> types)
              ''rag module present but no aws_opensearchserverless_collection'' @
            presence_problem (\<not> kb \<and> types \<inter> set kb_resource_types \<noteq> {}) (''no rag module but found '' @ kb_types_found it bs) @
            presence_problem (tools \<and> n < 1) ''tools module present but no aws_lambda_function resource(s) found'' @
            presence_problem (\<not> tools \<and> n > 0)
              (''no tools module but found '' @ nat_text n @ '' aws_lambda_function resource(s)'') @
            presence_problem (review \<and> ''aws_sqs_queue'' \<notin> types) ''human_loop module present but no aws_sqs_queue'' @
            presence_problem (\<not> review \<and> ''aws_sqs_queue'' \<in> types) ''no human_loop module but found aws_sqs_queue''))"

definition script_terraform_validate :: "'w iac_tools \<Rightarrow> (string \<times> string) list \<Rightarrow> ('w, validation_check) prog" where
  "script_terraform_validate it files =
     andthen (cli it init_arguments files) (\<lambda>r.
       case r of
         CliMissing \<Rightarrow> ret (skipped ''terraform_validate'' ''terraform CLI not installed'')
       | CliTimeout \<Rightarrow> raising timeout_expired
       | Exited code _ err \<Rightarrow>
           (if code \<noteq> 0
            then ret \<lparr>vc_name = ''terraform_validate'', vc_passed = False,
                   vc_detail = ''terraform init failed:'' @ newline @ take 1500 err\<rparr>
            else validate_after_init it files))"

text \<open>\<open>main\<close>: the printed lines and the exit code; \<open>files\<close> are the files of the directory by their names.\<close>

definition script_lines :: "validation_check list \<Rightarrow> string list" where
  "script_lines checks =
     map (\<lambda>c. (if vc_passed c then ''PASS '' else ''FAIL '') @ vc_name c @ '': '' @ vc_detail c) checks
     @ [[], if list_all vc_passed checks then ''Policy check PASSED'' else ''Policy check FAILED'']"

definition script_metadata :: "string \<Rightarrow> pyexn + string \<times> string \<times> string" where
  "script_metadata text =
     (case json_loads text of
        None \<Rightarrow> Inl (ValueError ''json'')
      | Some m \<Rightarrow>
          (if \<not> is_object m then Inl (TypeError ''metadata'')
           else (case find (\<lambda>k. \<not> has_key k m) [''agent_id'', ''tenant_id'', ''version''] of
                   Some k \<Rightarrow> Inl (KeyError k)
                 | None \<Rightarrow> Inr (py_str (dict_get ''agent_id'' m), py_str (dict_get ''tenant_id'' m), py_str (dict_get ''version'' m)))))"

definition script_main :: "'w iac_tools \<Rightarrow> (string \<times> string) list \<Rightarrow> ('w, string list \<times> int) prog" where
  "script_main it files =
     (case map_of files ''deployment-metadata.json'' of
        None \<Rightarrow> ret ([''FAIL: deployment-metadata.json not found -- was this run from the right directory?''], 1)
      | Some text \<Rightarrow>
          andthen (raises_or (script_metadata text)) (\<lambda>(agent, tenant, version).
            let tf = sort_items (tf_files_of files)
            in case parse_all_resources it tf of
                 Inl (Raised class reason) \<Rightarrow>
                   (if class = ''HCLParseError'' then ret ([''FAIL hcl_parse: '' @ reason], 1) else raising (Raised class reason))
               | Inl e \<Rightarrow> raising e
               | Inr bs \<Rightarrow>
                   andthen (raises_or (static_checks it (script_resource_presence it (map fst tf) bs) bs agent tenant version))
                     (\<lambda>static.
                   andthen (run_terraform_fmt it files) (\<lambda>fmt.
                   andthen (script_terraform_validate it files) (\<lambda>val.
                     let checks = static @ [fmt, val]
                     in ret (script_lines checks, if list_all vc_passed checks then 0 else 1))))))"

section \<open>The patterns, as languages\<close>

definition blanks :: "string \<Rightarrow> bool" where "blanks = list_all is_space"

lemma after_text_Some [simp]: "after_text p s = Some t \<longleftrightarrow> s = p @ t"
  by (auto simp: after_text_def starts_with_def) (metis append_take_drop_id)

lemma somewhere_iff: "somewhere f s \<longleftrightarrow> (\<exists>p q. s = p @ q \<and> f q)"
proof (induction s)
  case (Cons c cs)
  have "(\<exists>p q. c # cs = p @ q \<and> f q) \<longleftrightarrow> f (c # cs) \<or> (\<exists>p q. cs = p @ q \<and> f q)"
    by (metis append_Cons append_Nil append_eq_Cons_conv)
  with Cons show ?case by simp
qed simp

lemma dropWhile_blanks: "blanks w \<Longrightarrow> (t = [] \<or> \<not> is_space (hd t)) \<Longrightarrow> dropWhile is_space (w @ t) = t"
  by (induction w) (auto simp: blanks_def dropWhile_eq_self_iff)

lemma skip_space_split: obtains w where "s = w @ skip_space s" and "blanks w" and "skip_space s = [] \<or> \<not> is_space (hd (skip_space s))"
proof
  show "s = takeWhile is_space s @ skip_space s" by (simp add: skip_space_def)
  show "blanks (takeWhile is_space s)" by (auto simp: blanks_def list_all_iff dest: set_takeWhileD)
  show "skip_space s = [] \<or> \<not> is_space (hd (skip_space s))" by (cases "skip_space s = []") (auto simp: skip_space_def dest: hd_dropWhile simp del: dropWhile_eq_Nil_conv)
qed

lemma skip_space_append: "blanks w \<Longrightarrow> (t = [] \<or> \<not> is_space (hd t)) \<Longrightarrow> skip_space (w @ t) = t"
  by (simp add: skip_space_def dropWhile_blanks)

text \<open>\<open>word\<close>, an equals sign and \<open>"*"\<close>, perhaps as the first of a list, with blanks between.\<close>

definition star_text :: string where "star_text = [CHR 0x22, CHR ''*'', CHR 0x22]"

definition assigns_star :: "string \<Rightarrow> string \<Rightarrow> bool" where
  "assigns_star word s \<longleftrightarrow>
     (\<exists>w v q. s = word @ w @ ''='' @ v @ star_text @ q \<and> blanks w \<and> blanks v) \<or>
     (\<exists>w v u q. s = word @ w @ ''='' @ v @ ''['' @ u @ star_text @ q \<and> blanks w \<and> blanks v \<and> blanks u)"

lemma not_blank [simp]: "\<not> is_space (CHR ''='')" "\<not> is_space (CHR ''['')" "\<not> is_space (CHR 0x22)"
  by (simp_all add: is_space_def)

lemma after_assign_iff:
  "after_assign word s = Some t \<longleftrightarrow>
     (t = [] \<or> \<not> is_space (hd t)) \<and> (\<exists>w v. s = word @ w @ ''='' @ v @ t \<and> blanks w \<and> blanks v)" (is "?l \<longleftrightarrow> ?r")
proof
  assume ?l
  then obtain a b where s: "s = word @ a" and b: "skip_space a = ''='' @ b" and t: "t = skip_space b"
    by (auto simp: after_assign_def split: option.splits)
  obtain w where "a = w @ skip_space a" "blanks w" by (rule skip_space_split)
  moreover obtain v where "b = v @ skip_space b" "blanks v" "skip_space b = [] \<or> \<not> is_space (hd (skip_space b))"
    by (rule skip_space_split)
  ultimately show ?r using s b t by (metis append.assoc)
next
  assume ?r
  then obtain w v where s: "s = word @ w @ ''='' @ v @ t" "blanks w" "blanks v" and t: "t = [] \<or> \<not> is_space (hd t)" by blast
  then have "skip_space (w @ ''='' @ v @ t) = ''='' @ v @ t" "skip_space (v @ t) = t"
    by (simp_all add: skip_space_append)
  with s show ?l by (auto simp: after_assign_def after_text_def starts_with_def)
qed

lemma wildcard_here_iff: "wildcard_here word s \<longleftrightarrow> (\<exists>q. \<exists>t. s = t @ q \<and> assigns_star word t)"
proof
  assume "wildcard_here word s"
  then obtain t where t: "after_assign word s = Some t"
    and st: "starts_with star_text (case after_text ''['' t of None \<Rightarrow> t | Some u \<Rightarrow> skip_space u)"
    by (auto simp: wildcard_here_def star_text_def split: option.splits)
  from t obtain w v where s: "s = word @ w @ ''='' @ v @ t" "blanks w" "blanks v" by (auto simp: after_assign_iff)
  have "assigns_star word s"
  proof (cases "after_text ''['' t")
    case None
    with st obtain q where "t = star_text @ q" by (auto simp: starts_with_def) (metis append_take_drop_id)
    with s show ?thesis unfolding assigns_star_def by blast
  next
    case (Some u)
    with st obtain q where "skip_space u = star_text @ q" by (auto simp: starts_with_def) (metis append_take_drop_id)
    moreover obtain x where "u = x @ skip_space u" "blanks x" by (rule skip_space_split)
    moreover from Some have "t = ''['' @ u" by simp
    ultimately show ?thesis using s unfolding assigns_star_def by (metis append.assoc)
  qed
  then show "\<exists>q t. s = t @ q \<and> assigns_star word t" by (intro exI [of _ "[]"] exI [of _ s]) simp
next
  assume "\<exists>q t. s = t @ q \<and> assigns_star word t"
  then obtain q t where s: "s = t @ q" and "assigns_star word t" by blast
  then consider (plain) w v r where "s = word @ w @ ''='' @ v @ star_text @ r" "blanks w" "blanks v"
    | (list) w v u r where "s = word @ w @ ''='' @ v @ ''['' @ u @ star_text @ r" "blanks w" "blanks v" "blanks u"
    unfolding assigns_star_def s by (metis append.assoc)
  then show "wildcard_here word s"
  proof cases
    case plain
    then have "after_assign word s = Some (star_text @ r)" unfolding after_assign_iff by (auto simp: star_text_def)
    then show ?thesis by (simp add: wildcard_here_def star_text_def after_text_def starts_with_def)
  next
    case list
    then have "after_assign word s = Some (''['' @ u @ star_text @ r)" unfolding after_assign_iff by auto
    moreover have "skip_space (u @ star_text @ r) = star_text @ r" using list(4) by (intro skip_space_append) (simp_all add: star_text_def)
    ultimately show ?thesis by (simp add: wildcard_here_def star_text_def after_text_def starts_with_def)
  qed
qed

text \<open>Somewhere in the text everything is allowed.\<close>

definition grants_all :: "string \<Rightarrow> string \<Rightarrow> bool" where
  "grants_all word text \<longleftrightarrow> (\<exists>p t q. text = p @ t @ q \<and> assigns_star word t)"

lemma wildcards_iff: "action_wildcard s \<longleftrightarrow> grants_all ''Action'' s" "resource_wildcard s \<longleftrightarrow> grants_all ''Resource'' s"
  unfolding action_wildcard_def resource_wildcard_def somewhere_iff wildcard_here_iff grants_all_def by auto

section \<open>What passing means\<close>

definition sound_policy :: "string \<Rightarrow> bool" where
  "sound_policy text \<longleftrightarrow>
     \<not> grants_all ''Action'' text \<and>
     (grants_all ''Resource'' text \<longrightarrow>
        extract_actions text \<noteq> [] \<and> set (extract_actions text) \<subseteq> set resource_wildcard_exempt_actions)"

definition correctly_named :: "'w iac_tools \<Rightarrow> string \<Rightarrow> resource_block \<Rightarrow> bool" where
  "correctly_named it agent b \<longleftrightarrow>
     (\<forall>a v. map_of nameable_resource_types (rb_type b) = Some a \<and> attr a b = PStr v \<longrightarrow>
        (case map_of (expected_truncated_names it agent) (rb_type b) of
           Some expected \<Rightarrow> v = expected | None \<Rightarrow> starts_with (name_prefix agent) v))"

definition correctly_tagged :: "(string \<times> string) list \<Rightarrow> resource_block \<Rightarrow> bool" where
  "correctly_tagged expected b \<longleftrightarrow>
     (\<forall>(k, v) \<in> set expected. has_key k (attr ''tags'' b) \<and> py_str (dict_get k (attr ''tags'' b)) = v)"

definition closed_rule :: "pyval \<Rightarrow> bool" where
  "closed_rule rule \<longleftrightarrow>
     (is_object rule \<and> opens_to_all rule = Inr True \<longrightarrow>
        port_is_443 (dict_get ''from_port'' rule) \<and> port_is_443 (dict_get ''to_port'' rule))"

definition closed_group :: "resource_block \<Rightarrow> bool" where
  "closed_group b \<longleftrightarrow> (\<exists>rules. ingress_rules b = Inr rules \<and> (\<forall>r \<in> set rules. closed_rule r))"

definition covers_bucket :: "string \<Rightarrow> resource_block \<Rightarrow> bool" where
  "covers_bucket bucket p \<longleftrightarrow>
     rb_type p = ''aws_s3_bucket_public_access_block'' \<and>
     contains_text (''aws_s3_bucket.'' @ bucket @ ''.'') (py_str (attr_or (PStr []) ''bucket'' p))"

definition shut_bucket :: "resource_block set \<Rightarrow> string \<Rightarrow> bool" where
  "shut_bucket B bucket \<longleftrightarrow> (\<exists>p \<in> B. covers_bucket bucket p \<and> blocks_public p)"

definition keeps_secrets :: "resource_block \<Rightarrow> bool" where
  "keeps_secrets b \<longleftrightarrow>
     (\<forall>(k, value) \<in> set (flatten_attrs [] (PDict (rb_attrs b))). \<forall>s. value = PStr s \<longrightarrow>
        \<not> looks_like_credential s \<and> (secret_shaped k \<longrightarrow> looks_like_reference s))"

definition sound_resource ::
  "'w iac_tools \<Rightarrow> string \<Rightarrow> string \<Rightarrow> string \<Rightarrow> resource_block set \<Rightarrow> resource_block \<Rightarrow> bool" where
  "sound_resource it agent tenant version B b \<longleftrightarrow>
     (is_iam_policy b \<longrightarrow> sound_policy (policy_text b)) \<and> correctly_named it agent b \<and>
     (rb_type b \<in> set taggable_resource_types \<longrightarrow> correctly_tagged (expected_tags agent tenant version) b) \<and>
     (rb_type b = ''aws_security_group'' \<longrightarrow> closed_group b) \<and>
     (rb_type b = ''aws_s3_bucket'' \<longrightarrow> shut_bucket B (rb_name b)) \<and>
     (rb_type b = ''aws_dynamodb_table'' \<longrightarrow> has_pitr b) \<and> keeps_secrets b"

lemma check_of_passed [simp]: "vc_passed (check_of n g b s vs) \<longleftrightarrow> vs = []"
  by (simp add: check_of_def)

lemma given_empty: "given (map f xs) = [] \<longleftrightarrow> (\<forall>x \<in> set xs. f x = None)"
  by (auto simp: given_def split: option.splits)

lemma policy_violation_None: "policy_violation text = None \<longleftrightarrow> sound_policy text"
  by (auto simp: policy_violation_def sound_policy_def wildcards_iff Let_def)

lemma of_type_set: "b \<in> set (of_type ty bs) \<longleftrightarrow> b \<in> set bs \<and> rb_type b = ty"
  by (auto simp: of_type_def)

lemma iam_check: "vc_passed (check_iam_no_wildcards bs) \<longleftrightarrow> (\<forall>b \<in> set bs. is_iam_policy b \<longrightarrow> sound_policy (policy_text b))"
  by (auto simp: check_iam_no_wildcards_def iam_policy_blocks_def policy_violation_None [symmetric] split: option.splits)

text \<open>The pattern sees the star only where it comes first in a list.\<close>

lemma wildcard_after_another:
  "policy_violation (''Action = ['' @ [CHR 0x22] @ ''s3:GetObject'' @ [CHR 0x22] @ '', '' @ star_text @ '']'') = None"
  "policy_violation (''Action = ['' @ star_text @ '', '' @ [CHR 0x22] @ ''s3:GetObject'' @ [CHR 0x22] @ '']'') \<noteq> None"
  by code_simp+

text \<open>The check of the Lambda roles adds nothing to the one of all policies.\<close>

lemma lambda_check: "vc_passed (check_iam_no_wildcards bs) \<Longrightarrow> vc_passed (check_lambda_role_least_privilege it bs)"
  by (auto simp: iam_check check_lambda_role_least_privilege_def iam_policy_blocks_def policy_violation_None Let_def split: option.splits)

lemma naming_check: "vc_passed (check_naming_convention it bs agent) \<longleftrightarrow> (\<forall>b \<in> set bs. correctly_named it agent b)"
proof -
  have "naming_violation it agent b = None \<longleftrightarrow> correctly_named it agent b" for b
    by (auto simp: naming_violation_def correctly_named_def split: option.splits pyval.splits)
  then show ?thesis by (simp add: check_naming_convention_def given_empty)
qed

lemma tag_check:
  "vc_passed (check_tagging bs agent tenant version) \<longleftrightarrow>
     (\<forall>b \<in> set bs. rb_type b \<in> set taggable_resource_types \<longrightarrow> correctly_tagged (expected_tags agent tenant version) b)"
proof -
  have "tag_violation (expected_tags agent tenant version) b = None \<longleftrightarrow>
      (rb_type b \<in> set taggable_resource_types \<longrightarrow> correctly_tagged (expected_tags agent tenant version) b)" for b
    by (auto simp: tag_violation_def correctly_tagged_def has_required_tags_def required_tag_keys_def expected_tags_def
        mismatched_tags_def Let_def)
  then show ?thesis by (simp add: check_tagging_def given_empty)
qed

lemma secrets_check: "vc_passed (check_no_hardcoded_secrets bs) \<longleftrightarrow> (\<forall>b \<in> set bs. keeps_secrets b)"
proof -
  have "secret_violation b x = None \<longleftrightarrow>
      (\<forall>s. snd x = PStr s \<longrightarrow> \<not> looks_like_credential s \<and> (secret_shaped (fst x) \<longrightarrow> looks_like_reference s))" for b x
    by (cases "snd x") (auto simp: secret_violation_def split_beta)
  then show ?thesis by (simp add: check_no_hardcoded_secrets_def given_empty keeps_secrets_def split_beta)
qed

lemma pitr_check:
  "vc_passed (check_dynamodb_pitr bs) \<longleftrightarrow> (\<forall>b \<in> set bs. rb_type b = ''aws_dynamodb_table'' \<longrightarrow> has_pitr b)"
proof (cases "of_type ''aws_dynamodb_table'' bs = []")
  case True
  then have "\<forall>b \<in> set bs. rb_type b \<noteq> ''aws_dynamodb_table''" by (simp add: of_type_def filter_empty_conv)
  with True show ?thesis by (simp add: check_dynamodb_pitr_def)
next
  case False
  then show ?thesis by (auto simp: check_dynamodb_pitr_def filter_empty_conv of_type_set Let_def)
qed

lemma collect_empty:
  "collect f xs = Inr ys \<Longrightarrow> ys = [] \<longleftrightarrow> (\<forall>x \<in> set xs. f x = Inr [])"
  by (induction xs arbitrary: ys) (auto split: sum.splits)

lemma rule_violation_none: "rule_violation b r = Inr vs \<Longrightarrow> vs = [] \<longleftrightarrow> closed_rule r"
  by (auto simp: rule_violation_def closed_rule_def Let_def split: if_splits sum.splits)

lemma collect_Inr: "collect f xs = Inr ys \<Longrightarrow> x \<in> set xs \<Longrightarrow> \<exists>zs. f x = Inr zs"
  by (induction xs arbitrary: ys) (auto split: sum.splits)

lemma ingress_none: "ingress_violations b = Inr vs \<Longrightarrow> vs = [] \<longleftrightarrow> closed_group b"
proof -
  assume v: "ingress_violations b = Inr vs"
  then obtain rules where r: "ingress_rules b = Inr rules" "collect (rule_violation b) rules = Inr vs"
    by (auto simp: ingress_violations_def split: sum.splits)
  then have "vs = [] \<longleftrightarrow> (\<forall>x \<in> set rules. rule_violation b x = Inr [])" by (intro collect_empty)
  also have "\<dots> \<longleftrightarrow> (\<forall>x \<in> set rules. closed_rule x)"
    using collect_Inr [OF r(2)] rule_violation_none by (metis)
  finally show ?thesis using r(1) by (simp add: closed_group_def)
qed

lemma ingress_check:
  assumes "check_security_group_ingress bs = Inr c"
  shows "vc_passed c \<longleftrightarrow> (\<forall>b \<in> set bs. rb_type b = ''aws_security_group'' \<longrightarrow> closed_group b)"
proof -
  from assms obtain vs where vs: "collect ingress_violations (of_type ''aws_security_group'' bs) = Inr vs"
    and c: "vc_passed c \<longleftrightarrow> vs = []"
    by (auto simp: check_security_group_ingress_def map_sum_def split: sum.splits)
  have "vs = [] \<longleftrightarrow> (\<forall>b \<in> set (of_type ''aws_security_group'' bs). closed_group b)"
    using collect_empty [OF vs] collect_Inr [OF vs] ingress_none by metis
  with c show ?thesis by (auto simp: of_type_set)
qed

text \<open>No bucket is named by two access blocks that differ.\<close>

definition single_access_blocks :: "resource_block set \<Rightarrow> bool" where
  "single_access_blocks B \<longleftrightarrow>
     (\<forall>p \<in> B. \<forall>q \<in> B. \<forall>n. covers_bucket n p \<longrightarrow> covers_bucket n q \<longrightarrow> blocks_public p = blocks_public q)"

lemma access_block_of_Some:
  "access_block_of n (of_type ''aws_s3_bucket_public_access_block'' bs) = Some p \<Longrightarrow> p \<in> set bs \<and> covers_bucket n p"
  by (auto simp: access_block_of_def covers_bucket_def find_Some_iff of_type_def dest!: nth_mem)

lemma access_block_of_None:
  "access_block_of n (of_type ''aws_s3_bucket_public_access_block'' bs) = None \<Longrightarrow> p \<in> set bs \<Longrightarrow> \<not> covers_bucket n p"
  by (auto simp: access_block_of_def covers_bucket_def find_None_iff of_type_def)

lemma bucket_none:
  "bucket_violation (of_type ''aws_s3_bucket_public_access_block'' bs) n = None \<Longrightarrow> shut_bucket (set bs) n"
  by (auto simp: bucket_violation_def shut_bucket_def split: option.splits if_splits dest: access_block_of_Some)

lemma bucket_single:
  assumes "single_access_blocks (set bs)" and "shut_bucket (set bs) n"
  shows "bucket_violation (of_type ''aws_s3_bucket_public_access_block'' bs) n = None"
proof -
  from assms(2) obtain p where p: "p \<in> set bs" "covers_bucket n p" "blocks_public p" by (auto simp: shut_bucket_def)
  show ?thesis
  proof (cases "access_block_of n (of_type ''aws_s3_bucket_public_access_block'' bs)")
    case None
    from access_block_of_None [OF this p(1)] p(2) show ?thesis by simp
  next
    case (Some q)
    from access_block_of_Some [OF this] have "q \<in> set bs" "covers_bucket n q" by simp_all
    with assms(1) p have "blocks_public q" unfolding single_access_blocks_def by blast
    with Some show ?thesis by (simp add: bucket_violation_def)
  qed
qed

lemma bucket_check:
  assumes "set_order_ok it"
  shows "vc_passed (check_s3_public_access_block it bs) \<Longrightarrow>
      \<forall>b \<in> set bs. rb_type b = ''aws_s3_bucket'' \<longrightarrow> shut_bucket (set bs) (rb_name b)"
    and "single_access_blocks (set bs) \<Longrightarrow> \<forall>b \<in> set bs. rb_type b = ''aws_s3_bucket'' \<longrightarrow> shut_bucket (set bs) (rb_name b) \<Longrightarrow>
      vc_passed (check_s3_public_access_block it bs)"
  using assms bucket_none bucket_single
  by (auto simp: check_s3_public_access_block_def Let_def given_empty set_order_ok_def bucket_names_def of_type_set)

lemma static_checks_passed:
  assumes "static_checks it presence bs agent tenant version = Inr cs" and "set_order_ok it"
  shows "list_all vc_passed cs \<Longrightarrow> vc_passed presence \<and> (\<forall>b \<in> set bs. sound_resource it agent tenant version (set bs) b)"
    and "single_access_blocks (set bs) \<Longrightarrow> vc_passed presence \<Longrightarrow>
      \<forall>b \<in> set bs. sound_resource it agent tenant version (set bs) b \<Longrightarrow> list_all vc_passed cs"
proof -
  from assms(1) obtain c where c: "check_security_group_ingress bs = Inr c"
    and cs: "cs = checks_before_ingress it presence bs agent tenant version @ [c] @ checks_after_ingress it bs"
    by (auto simp: static_checks_def map_sum_def split: sum.splits)
  note facts = cs checks_before_ingress_def checks_after_ingress_def iam_check naming_check tag_check secrets_check
    pitr_check ingress_check [OF c] sound_resource_def
  show "list_all vc_passed cs \<Longrightarrow> vc_passed presence \<and> (\<forall>b \<in> set bs. sound_resource it agent tenant version (set bs) b)"
    using bucket_check(1) [OF assms(2)] by (simp add: facts)
  show "single_access_blocks (set bs) \<Longrightarrow> vc_passed presence \<Longrightarrow>
      \<forall>b \<in> set bs. sound_resource it agent tenant version (set bs) b \<Longrightarrow> list_all vc_passed cs"
    using bucket_check(2) [OF assms(2)] lambda_check [of bs it] by (simp add: facts)
qed

text \<open>The conditional resources are there exactly when they are wanted, and a Lambda for every tool.\<close>

definition resources_wanted :: "bool \<Rightarrow> nat \<Rightarrow> bool \<Rightarrow> resource_block list \<Rightarrow> bool" where
  "resources_wanted kb tools review bs \<longleftrightarrow>
     (if kb then ''aws_opensearchserverless_collection'' \<in> types_present bs else types_present bs \<inter> set kb_resource_types = {}) \<and>
     (if tools = 0 then lambda_count bs = 0 else tools \<le> lambda_count bs) \<and>
     (review \<longleftrightarrow> ''aws_sqs_queue'' \<in> types_present bs)"

lemma presence_problem_empty [simp]: "presence_problem wrong text = [] \<longleftrightarrow> \<not> wrong"
  by (simp add: presence_problem_def)

lemma presence_check:
  "vc_passed (check_resource_presence it cfg bs) \<longleftrightarrow>
     resources_wanted (kb_enabled cfg) (length (tools_of cfg)) (review_enabled cfg) bs"
  by (auto simp: check_resource_presence_def resources_wanted_def Let_def not_less)

lemma script_presence_check:
  "vc_passed (script_resource_presence it names bs) \<longleftrightarrow>
     resources_wanted (list_ex (starts_with ''rag__'') names) (if list_ex (starts_with ''tools__'') names then 1 else 0)
       (list_ex (starts_with ''human_loop__'') names) bs"
  by (auto simp: script_resource_presence_def resources_wanted_def Let_def Suc_le_eq)

lemma cli_run [simp]: "cli it argv files w = (Inr (fst (it_cli it argv files w)), snd (it_cli it argv files w))"
  by (simp add: cli_def split: prod.split)

lemma validate_iac_run:
  assumes "validate_iac it agent tenant version cfg files ''terraform'' w = (Inr r, w')" and "ir_passed r"
  obtains bs static w1 fmt val where
    "parse_all_resources it (tf_files_of files) = Inr bs"
    and "static_checks it (check_resource_presence it cfg bs) bs agent tenant (int_text version) = Inr static"
    and "list_all vc_passed static"
    and "run_terraform_fmt it (flatten_for_terraform_cli (tf_files_of files)) w = (Inr fmt, w1)" and "vc_passed fmt"
    and "run_terraform_validate it (flatten_for_terraform_cli (tf_files_of files)) w1 = (Inr val, w')" and "vc_passed val"
proof -
  let ?p = "parse_all_resources it (tf_files_of files)"
  show ?thesis
  proof (cases ?p)
    case (Inl e)
    with assms show ?thesis
      by (cases e) (auto simp: validate_iac_def report_of_def reads_def raising_def Let_def split: if_splits)
  next
    case (Inr bs)
    let ?s = "static_checks it (check_resource_presence it cfg bs) bs agent tenant (int_text version)"
    let ?flat = "flatten_for_terraform_cli (tf_files_of files)"
    note run = assms(1) [unfolded validate_iac_def Let_def Inr]
    obtain static where static: "?s = Inr static"
      using run by (cases ?s) (auto simp: raises_or_def andthen_def raising_def)
    obtain f w1 where f: "run_terraform_fmt it ?flat w = (f, w1)" by (cases rule: prod.exhaust)
    obtain v w2 where v: "run_terraform_validate it ?flat w1 = (v, w2)" by (cases rule: prod.exhaust)
    from run static f v obtain fmt val where r: "f = Inr fmt" "v = Inr val" "w2 = w'"
      "r = \<lparr>ir_passed = list_all vc_passed (static @ [fmt, val]), ir_tool = ''terraform'', ir_at = it_clock it w2, ir_checks = static @ [fmt, val]\<rparr>"
      by (cases f; cases v) (auto simp: raises_or_def andthen_def ret_def report_of_def reads_def)
    with assms(2) have "list_all vc_passed static" "vc_passed fmt" "vc_passed val" by simp_all
    with that Inr static f v r show ?thesis by blast
  qed
qed

end
