(* ===== verification/IacGenerator.thy ===== *)
theory IacGenerator
  imports IacChecks KnowledgeBases
begin

text \<open>
  Generating the infrastructure of an agent (app/modules/iac_generator: conditional.py, generator.py,
  backends, tfvars.py). Jinja and the zip format are arguments; the names of the templates are those
  of the repository.
\<close>

section \<open>Modules\<close>

definition always_on_modules :: "string list" where
  "always_on_modules = [''base'', ''api_gateway'', ''authentication'', ''compute'', ''observability'']"

definition module_if :: "bool \<Rightarrow> string \<Rightarrow> string list" where
  "module_if b m = (if b then [m] else [])"

definition resolve_required_modules :: "pyval \<Rightarrow> string list" where
  "resolve_required_modules cfg =
     (let g = dict_get ''guardrails'' cfg
      in always_on_modules
         @ module_if (py_truthy g \<and> list_ex (\<lambda>k. py_truthy (dict_get k g)) [''prompt_injection'', ''pii_detection'', ''toxicity_filter''])
             ''guardrails''
         @ module_if (kb_enabled cfg) ''rag'' @ module_if (tools_of cfg \<noteq> []) ''tools''
         @ module_if (review_enabled cfg) ''human_loop'' @ module_if (py_truthy (dict_get ''audit_enabled'' cfg)) ''audit'')"

section \<open>Rendering\<close>

record iac_settings =
  is_bucket :: "string option"
  is_tool :: string
  is_jinja :: "string \<Rightarrow> (string \<times> pyval) list \<Rightarrow> string"
  is_zip :: "(string \<times> string) list \<Rightarrow> string"
  is_tables :: "(string \<times> string) list"

definition table_names :: "string list" where
  "table_names =
     [''dynamodb_agents_table'', ''dynamodb_versions_table'', ''dynamodb_memory_table'',
      ''dynamodb_guardrail_policies_table'', ''dynamodb_knowledge_bases_table'', ''dynamodb_hitl_reviews_table'']"

definition terraform_context ::
  "iac_settings \<Rightarrow> (string \<Rightarrow> string) \<Rightarrow> string \<Rightarrow> string \<Rightarrow> int \<Rightarrow> pyval \<Rightarrow> (string \<times> pyval) list" where
  "terraform_context gs sha256 agent tenant version cfg =
     [(''agent_id'', PStr agent), (''tenant_id'', PStr tenant), (''version'', PInt version), (''agent'', cfg),
      (''config_hash'', PStr (compute_config_hash_factory sha256 id cfg))]
     @ map (\<lambda>k. (k, PStr (get_or [] (map_of (is_tables gs) k)))) table_names"

text \<open>\<open>sorted(module_dir.glob("*.tf.j2"))\<close>, without the last suffix; a module without a directory has none.\<close>

definition terraform_templates :: "string \<Rightarrow> string list" where
  "terraform_templates m =
     (if m = ''base'' then [''network.tf'', ''versions.tf'']
      else if m \<in> {''api_gateway'', ''audit'', ''authentication'', ''compute'', ''guardrails'', ''human_loop'',
                   ''observability'', ''rag'', ''tools''}
      then [m @ ''.tf''] else [])"

definition agent_directory :: "string \<Rightarrow> string" where
  "agent_directory agent = ''terraform/agents/'' @ agent @ ''/''"

definition render_terraform ::
  "iac_settings \<Rightarrow> (string \<times> pyval) list \<Rightarrow> string \<Rightarrow> string list \<Rightarrow> (string \<times> string) list" where
  "render_terraform gs ctx agent modules =
     foldl (\<lambda>d (p, content). dict_set p content d) []
       (concat (map (\<lambda>m. map (\<lambda>n. (agent_directory agent @ m @ ''__'' @ n, is_jinja gs (m @ ''/'' @ n @ ''.j2'') ctx))
          (terraform_templates m)) modules))"

definition cdk_stacks :: "string list" where
  "cdk_stacks = [''api_gateway'', ''audit'', ''authentication'', ''base'', ''compute'', ''guardrails'', ''human_loop'',
     ''observability'', ''rag'', ''tools'']"

definition render_cdk ::
  "iac_settings \<Rightarrow> string \<Rightarrow> int \<Rightarrow> pyval \<Rightarrow> string list \<Rightarrow> (string \<times> string) list" where
  "render_cdk gs agent version cfg modules =
     (let root = ''cdk/agents/'' @ agent @ ''/''; ms = filter (\<lambda>m. m \<in> set cdk_stacks) modules;
          ctx = [(''agent_id'', PStr agent), (''version'', PInt version), (''agent'', cfg)]
      in foldl (\<lambda>d (p, content). dict_set p content d) []
           (map (\<lambda>m. (root @ ''stacks/'' @ m @ ''_stack.py'', is_jinja gs (m @ ''/stack.py.j2'') ctx)) ms
            @ [(root @ ''stacks/__init__.py'', []),
               (root @ ''app.py'', is_jinja gs ''app.py.j2''
                  [(''agent_id'', PStr agent), (''version'', PInt version), (''modules'', PList (map PStr ms))]),
               (root @ ''cdk.json'', is_jinja gs ''cdk.json.j2'' [(''agent_id'', PStr agent)]),
               (root @ ''requirements.txt'', ''aws-cdk-lib>=2.150.0'' @ newline @ ''constructs>=10.0.0'' @ newline)]))"

section \<open>Generation\<close>

record iac_result =
  gr_tool :: string
  gr_version :: string
  gr_key :: string
  gr_modules :: "string list"
  gr_files :: "(string \<times> string) list"

definition render_files ::
  "iac_settings \<Rightarrow> (string \<Rightarrow> string) \<Rightarrow> string \<Rightarrow> string \<Rightarrow> int \<Rightarrow> pyval \<Rightarrow> pyexn + (string \<times> string) list" where
  "render_files gs sha256 agent tenant version cfg =
     (if is_tool gs = ''terraform''
      then Inr (render_terraform gs (terraform_context gs sha256 agent tenant version cfg) agent (resolve_required_modules cfg))
      else if is_tool gs = ''cdk'' then Inr (render_cdk gs agent version cfg (resolve_required_modules cfg))
      else Inl (KeyError (is_tool gs)))"

definition iac_key :: "string \<Rightarrow> string \<Rightarrow> int \<Rightarrow> string \<Rightarrow> string" where
  "iac_key tool agent version iac_version =
     ''iac/'' @ tool @ ''/'' @ agent @ ''/v'' @ int_text version @ ''/'' @ agent @ ''-v'' @ int_text version @ ''-'' @ iac_version @ ''.zip''"

definition generate_iac ::
  "'w platform_services \<Rightarrow> iac_settings \<Rightarrow> string \<Rightarrow> string \<Rightarrow> int \<Rightarrow> pyval \<Rightarrow> ('w, iac_result) platform_action" where
  "generate_iac ps gs agent tenant version cfg =
     (if \<not> truthy (is_bucket gs) then raising (RuntimeError ''IAC_OUTPUT_BUCKET is not configured'')
      else andthen (raises_or (render_files gs (ps_sha256 ps) agent tenant version cfg)) (\<lambda>files.
        let v = ''1.0.'' @ int_text version; k = iac_key (is_tool gs) agent version v
        in andthen (s3_do ps (PutObject (get_or [] (is_bucket gs)) k (is_zip gs (sort_items files)))) (\<lambda>_.
             ret \<lparr>gr_tool = is_tool gs, gr_version = v, gr_key = k, gr_modules = resolve_required_modules cfg,
                  gr_files = files\<rparr>)))"

section \<open>The values of the Terraform variables\<close>

text \<open>\<open>json.dumps(v, indent=2)\<close> from an indentation on.\<close>

fun json_indented :: "nat \<Rightarrow> pyval \<Rightarrow> string" where
  "json_indented n (PDict kvs) =
     (if kvs = [] then ''{}''
      else ''{'' @ newline @ join_with ('','' @ newline)
             (map (\<lambda>(k, v). replicate (n + 2) CHR '' '' @ json_text k @ '': '' @ json_indented (n + 2) v) kvs)
           @ newline @ replicate n CHR '' '' @ ''}'')"
| "json_indented n (PList xs) =
     (if xs = [] then ''[]''
      else ''['' @ newline @ join_with ('','' @ newline)
             (map (\<lambda>v. replicate (n + 2) CHR '' '' @ json_indented (n + 2) v) xs)
           @ newline @ replicate n CHR '' '' @ '']'')"
| "json_indented n v = json_dumps v"

definition opt_text :: "string option \<Rightarrow> pyval" where
  "opt_text x = (case x of None \<Rightarrow> PNone | Some s \<Rightarrow> PStr s)"

definition runtime_image :: "tenant_settings \<Rightarrow> pyval" where
  "runtime_image ts =
     (if truthy (ts_ecr_registry ts) then PStr (get_or [] (ts_ecr_registry ts) @ '':latest'') else PNone)"

definition tool_cidr_key :: "string \<Rightarrow> string" where
  "tool_cidr_key tool = ''tool_'' @ replace_char (CHR ''-'') (CHR ''_'') tool @ ''_cidr''"

definition tool_cidrs :: "pyval list \<Rightarrow> (string \<times> pyval) list" where
  "tool_cidrs tools =
     map (\<lambda>t. (tool_cidr_key (text_of (dict_get ''tool_id'' t)), dict_get ''endpoint_cidr'' t))
       (filter (\<lambda>t. py_truthy (dict_get ''endpoint'' t) \<and> py_truthy (dict_get ''endpoint_cidr'' t)) tools)"

definition tfvars :: "tenant_settings \<Rightarrow> string \<Rightarrow> pyval \<Rightarrow> string list \<Rightarrow> (string \<times> pyval) list" where
  "tfvars ts region cfg modules =
     foldl (\<lambda>d (k, v). dict_set k v d)
       ([(''aws_region'', PStr (if truthy (ts_aws_region ts) then get_or [] (ts_aws_region ts) else region)),
         (''vpc_id'', opt_text (ts_vpc_id ts)), (''bedrock_endpoint_cidr'', opt_text (ts_bedrock_cidr ts)),
         (''dynamodb_endpoint_cidr'', opt_text (ts_dynamodb_cidr ts)), (''ecs_cluster_arn'', opt_text (ts_cluster_arn ts)),
         (''subnet_ids'', PList (map PStr (ts_subnet_ids ts))), (''runtime_image'', runtime_image ts)]
        @ (if ''rag'' \<in> set modules then [(''opensearch_endpoint_cidr'', opt_text (ts_opensearch_cidr ts))] else [])
        @ (if py_truthy (dict_get ''audit_enabled'' cfg) then [(''s3_endpoint_cidr'', opt_text (ts_s3_cidr ts))] else [])
        @ (if py_truthy (dict_get ''observability_enabled'' cfg) then [(''cloudwatch_endpoint_cidr'', opt_text (ts_cloudwatch_cidr ts))]
           else []))
       (tool_cidrs (tools_of cfg))"

definition render_terraform_tfvars :: "tenant_settings \<Rightarrow> string \<Rightarrow> pyval \<Rightarrow> string list \<Rightarrow> string" where
  "render_terraform_tfvars ts region cfg modules =
     json_indented 0 (PDict (sort_items (tfvars ts region cfg modules))) @ newline"

section \<open>What a deployment commits beside the Terraform\<close>

definition deployment_metadata :: "string \<Rightarrow> string \<Rightarrow> string \<Rightarrow> int \<Rightarrow> pyval" where
  "deployment_metadata agent tenant did version =
     PDict [(''agent_id'', PStr agent), (''tenant_id'', PStr tenant), (''deployment_id'', PStr did),
       (''version'', PInt version), (''status'', PStr ''ACTIVE'')]"

end
