(* ===== verification/IacRules.thy ===== *)
theory IacRules
  imports IacGenerator "HOL-Library.Multiset"
begin

text \<open>
  The customer's copy of the checks against the validator: what the pipeline lets pass on the
  committed directory of an agent, the validator lets pass on the files it was made from.
\<close>

section \<open>Paths\<close>

text \<open>A name that is one component of a path.\<close>

definition path_component :: "string \<Rightarrow> bool" where
  "path_component n \<longleftrightarrow> CHR ''/'' \<notin> set n \<and> n \<noteq> [] \<and> n \<noteq> ''.''"

lemma split_on_last: "d \<notin> set w \<Longrightarrow> split_on d w = [w]"
  by (induction w) auto

lemma split_on_Cons: "d \<notin> set w \<Longrightarrow> split_on d (w @ d # v) = w # split_on d v"
  by (induction w) auto

lemma path_parts_agent:
  assumes "path_component agent" and "path_component n"
  shows "path_parts (agent_directory agent @ n) = [''terraform'', ''agents'', agent, n]"
proof -
  have "agent_directory agent @ n = ''terraform'' @ CHR ''/'' # ''agents'' @ CHR ''/'' # agent @ CHR ''/'' # n"
    by (simp add: agent_directory_def)
  moreover have "split_on (CHR ''/'') (''terraform'' @ CHR ''/'' # ''agents'' @ CHR ''/'' # agent @ CHR ''/'' # n)
      = [''terraform'', ''agents'', agent, n]"
    using assms by (simp add: split_on_Cons split_on_last path_component_def del: append.simps)
  ultimately have "split_on (CHR ''/'') (agent_directory agent @ n) = [''terraform'', ''agents'', agent, n]" by (simp only:)
  moreover have "\<not> starts_with ''/'' (agent_directory agent @ n)" by (simp add: agent_directory_def starts_with_def)
  ultimately show ?thesis using assms by (simp add: path_parts_def path_component_def)
qed

lemma flat_name_agent: "path_component agent \<Longrightarrow> path_component n \<Longrightarrow> flat_name (agent_directory agent @ n) = n"
  by (simp add: flat_name_def path_parts_agent path_component_def)

section \<open>Rendered files\<close>

definition template_outputs :: "string list \<Rightarrow> (string \<times> string) list" where
  "template_outputs modules = concat (map (\<lambda>m. map (\<lambda>n. (m, n)) (terraform_templates m)) modules)"

definition output_name :: "string \<times> string \<Rightarrow> string" where
  "output_name mn = fst mn @ ''__'' @ snd mn"

definition all_modules :: "string list" where
  "all_modules = always_on_modules @ [''guardrails'', ''rag'', ''tools'', ''human_loop'', ''audit'']"

lemma resolved_filter: "resolve_required_modules cfg = filter (\<lambda>m. m \<in> set (resolve_required_modules cfg)) all_modules"
  by (simp add: resolve_required_modules_def all_modules_def always_on_modules_def module_if_def Let_def)

lemma resolved_known: "m \<in> set (resolve_required_modules cfg) \<Longrightarrow> m \<in> set all_modules"
  by (subst (asm) resolved_filter) simp

lemma filter_concat_distinct: "distinct (concat (map f xs)) \<Longrightarrow> distinct (concat (map f (filter P xs)))"
  by (induction xs) auto

lemma outputs_of_all: "distinct (map output_name (template_outputs all_modules)) \<and>
    list_all (\<lambda>x. path_component (output_name x) \<and> ends_with ''.tf'' (output_name x)) (template_outputs all_modules)"
  by code_simp

lemma outputs_distinct: "distinct (map output_name (template_outputs (resolve_required_modules cfg)))"
proof -
  let ?f = "\<lambda>m. map (\<lambda>n. output_name (m, n)) (terraform_templates m)"
  have names: "map output_name (template_outputs ms) = concat (map ?f ms)" for ms
    by (simp add: template_outputs_def map_concat o_def)
  from outputs_of_all have "distinct (concat (map ?f all_modules))" by (simp add: names)
  then have "distinct (concat (map ?f (filter (\<lambda>m. m \<in> set (resolve_required_modules cfg)) all_modules)))"
    by (rule filter_concat_distinct)
  then show ?thesis by (simp only: names resolved_filter [symmetric])
qed

lemma outputs_plain:
  assumes "x \<in> set (template_outputs (resolve_required_modules cfg))"
  shows "path_component (output_name x)" and "ends_with ''.tf'' (output_name x)"
proof -
  from assms have "x \<in> set (template_outputs all_modules)"
    by (subst (asm) resolved_filter) (auto simp: template_outputs_def)
  with outputs_of_all show "path_component (output_name x)" "ends_with ''.tf'' (output_name x)" by (auto simp: list_all_iff)
qed

lemma foldl_dict_set: "distinct (map fst kvs) \<Longrightarrow> foldl (\<lambda>d (k, v). dict_set k v d) [] kvs = kvs"
  using dict_collapse_distinct by (simp add: dict_collapse_def)

definition rendered_names :: "iac_settings \<Rightarrow> (string \<times> pyval) list \<Rightarrow> pyval \<Rightarrow> (string \<times> string) list" where
  "rendered_names gs ctx cfg =
     map (\<lambda>(m, n). (output_name (m, n), is_jinja gs (m @ ''/'' @ n @ ''.j2'') ctx)) (template_outputs (resolve_required_modules cfg))"

lemma rendered_names_distinct: "distinct (map fst (rendered_names gs ctx cfg))"
proof -
  have "map fst (rendered_names gs ctx cfg) = map output_name (template_outputs (resolve_required_modules cfg))"
    by (simp add: rendered_names_def split_beta)
  with outputs_distinct show ?thesis by simp
qed

lemma rendered_names_plain: "(n, c) \<in> set (rendered_names gs ctx cfg) \<Longrightarrow> path_component n \<and> ends_with ''.tf'' n"
  using outputs_plain by (fastforce simp: rendered_names_def)

definition in_agent_directory :: "string \<Rightarrow> (string \<times> string) list \<Rightarrow> (string \<times> string) list" where
  "in_agent_directory agent = map (\<lambda>(n, c). (agent_directory agent @ n, c))"

lemma render_terraform_files:
  "render_terraform gs ctx agent (resolve_required_modules cfg) = in_agent_directory agent (rendered_names gs ctx cfg)"
proof -
  let ?L = "in_agent_directory agent (rendered_names gs ctx cfg)"
  have "concat (map (\<lambda>m. map (\<lambda>n. (agent_directory agent @ m @ ''__'' @ n, is_jinja gs (m @ ''/'' @ n @ ''.j2'') ctx))
          (terraform_templates m)) (resolve_required_modules cfg)) = ?L"
    by (simp add: in_agent_directory_def rendered_names_def template_outputs_def output_name_def map_concat o_def split_beta)
  moreover have "map fst ?L = map ((@) (agent_directory agent)) (map fst (rendered_names gs ctx cfg))"
    by (simp add: in_agent_directory_def split_beta)
  then have "distinct (map fst ?L)" using rendered_names_distinct [of gs ctx cfg]
    by (simp only: distinct_map) (auto simp: inj_on_def)
  ultimately show ?thesis by (simp add: render_terraform_def foldl_dict_set)
qed

lemma flattened_files:
  assumes "path_component agent"
  shows "flatten_for_terraform_cli (in_agent_directory agent (rendered_names gs ctx cfg)) = rendered_names gs ctx cfg"
proof -
  let ?N = "rendered_names gs ctx cfg"
  have flat: "flat_name (agent_directory agent @ n) = n" if "(n, c) \<in> set ?N" for n c
    using flat_name_agent [OF assms] rendered_names_plain [OF that] by simp
  have "foldl (\<lambda>d (p, content). dict_set (flat_name p) content d) d (in_agent_directory agent xs)
      = foldl (\<lambda>d (k, v). dict_set k v d) d xs" if "set xs \<subseteq> set ?N" for xs d
    using that
  proof (induction xs arbitrary: d)
    case (Cons x xs)
    then show ?case using flat by (cases x) (auto simp: in_agent_directory_def)
  qed (simp add: in_agent_directory_def)
  from this [of ?N "[]"] show ?thesis
    by (simp add: flatten_for_terraform_cli_def foldl_dict_set rendered_names_distinct)
qed

lemma ends_with_append: "ends_with p n \<Longrightarrow> ends_with p (a @ n)"
  by (metis append.assoc append_take_drop_id ends_with_def rev_append starts_with_def append_eq_conv_conj)

lemma tf_files_rendered: "tf_files_of (in_agent_directory agent (rendered_names gs ctx cfg)) = in_agent_directory agent (rendered_names gs ctx cfg)"
proof -
  have "ends_with ''.tf'' (agent_directory agent @ n)" if "(n, c) \<in> set (rendered_names gs ctx cfg)" for n c
    using rendered_names_plain [OF that] by (simp add: ends_with_append)
  then show ?thesis by (auto simp: tf_files_of_def in_agent_directory_def intro!: filter_True)
qed

section \<open>Resources do not depend on their file\<close>

definition bare :: "resource_block \<Rightarrow> resource_block" where "bare b = b\<lparr>rb_file := []\<rparr>"

lemma bare_simps [simp]:
  "rb_type (bare b) = rb_type b" "rb_name (bare b) = rb_name b" "rb_attrs (bare b) = rb_attrs b"
  "attr k (bare b) = attr k b" "attr_or v k (bare b) = attr_or v k b"
  by (simp_all add: bare_def attr_def attr_or_def)

lemma shut_bucket_bare: "shut_bucket (bare ` B) n \<longleftrightarrow> shut_bucket B n"
  by (simp add: shut_bucket_def covers_bucket_def blocks_public_def)

lemma sound_resource_bare: "sound_resource it agent tenant version (bare ` B) (bare b) \<longleftrightarrow> sound_resource it agent tenant version B b"
  unfolding sound_resource_def shut_bucket_bare is_iam_policy_def policy_text_def correctly_named_def correctly_tagged_def
    closed_group_def ingress_rules_def has_pitr_def keeps_secrets_def bare_simps ..

lemma single_access_blocks_bare: "single_access_blocks (bare ` B) \<longleftrightarrow> single_access_blocks B"
  by (simp add: single_access_blocks_def covers_bucket_def blocks_public_def)

lemma of_type_bare: "length (of_type ty (map bare bs)) = length (of_type ty bs)"
  by (simp add: of_type_def filter_map o_def)

text \<open>Blocks with the same content, in any order and from any file.\<close>

definition same_blocks :: "resource_block list \<Rightarrow> resource_block list \<Rightarrow> bool" where
  "same_blocks bs cs \<longleftrightarrow> mset (map bare bs) = mset (map bare cs)"

lemma same_blocks_set: "same_blocks bs cs \<Longrightarrow> bare ` set bs = bare ` set cs"
  by (metis same_blocks_def set_mset_mset image_set)

lemma same_blocks_sound:
  assumes "same_blocks bs cs" and "\<forall>b \<in> set bs. sound_resource it agent tenant version (set bs) b"
  shows "\<forall>b \<in> set cs. sound_resource it agent tenant version (set cs) b"
proof
  fix c assume "c \<in> set cs"
  then have "bare c \<in> bare ` set bs" using same_blocks_set [OF assms(1)] by simp
  then obtain b where b: "b \<in> set bs" "bare c = bare b" by auto
  with assms(2) have "sound_resource it agent tenant version (bare ` set bs) (bare b)" by (simp add: sound_resource_bare)
  with b(2) show "sound_resource it agent tenant version (set cs) c"
    using sound_resource_bare same_blocks_set [OF assms(1)] by metis
qed

lemma same_blocks_counts:
  assumes "same_blocks bs cs"
  shows "lambda_count bs = lambda_count cs" and "types_present bs = types_present cs"
proof -
  from assms have "mset (of_type ty (map bare bs)) = mset (of_type ty (map bare cs))" for ty
    by (simp add: same_blocks_def of_type_def)
  from this [of "''aws_lambda_function''"] show "lambda_count bs = lambda_count cs"
    unfolding lambda_count_def by (metis of_type_bare size_mset)
  have "types_present bs = rb_type ` bare ` set bs" "types_present cs = rb_type ` bare ` set cs"
    by (simp_all add: types_present_def image_image)
  with same_blocks_set [OF assms] show "types_present bs = types_present cs" by simp
qed

section \<open>Parsing in another order, under other names\<close>

definition gathered :: "('a \<Rightarrow> pyexn + resource_block list) \<Rightarrow> 'a \<Rightarrow> resource_block multiset" where
  "gathered f x = (case f x of Inl _ \<Rightarrow> {#} | Inr bs \<Rightarrow> image_mset bare (mset bs))"

lemma collect_gathered:
  "collect f xs = Inr bs \<Longrightarrow> image_mset bare (mset bs) = (\<Sum>x \<in># mset xs. gathered f x) \<and> (\<forall>x \<in> set xs. \<exists>cs. f x = Inr cs)"
  by (induction xs arbitrary: bs) (auto simp: gathered_def split: sum.splits)

lemma collect_all_Inr: "\<forall>x \<in> set xs. \<exists>cs. f x = Inr cs \<Longrightarrow> \<exists>bs. collect f xs = Inr bs"
  by (induction xs) fastforce+

lemma collect_other:
  assumes "collect f xs = Inr bs" and "mset (map h xs) = mset ys"
    and "\<And>x cs. f x = Inr cs \<Longrightarrow> \<exists>ds. g (h x) = Inr ds \<and> image_mset bare (mset ds) = image_mset bare (mset cs)"
  shows "\<exists>cs. collect g ys = Inr cs \<and> same_blocks bs cs"
proof -
  have ys: "set ys = h ` set xs" using assms(2) by (metis set_mset_mset image_set)
  from collect_gathered [OF assms(1)] have bs: "image_mset bare (mset bs) = (\<Sum>x \<in># mset xs. gathered f x)"
    and each: "\<And>x. x \<in> set xs \<Longrightarrow> \<exists>cs. f x = Inr cs" by auto
  have eq: "gathered g (h x) = gathered f x" if "x \<in> set xs" for x
    using each [OF that] assms(3) by (fastforce simp: gathered_def)
  have "\<forall>y \<in> set ys. \<exists>cs. g y = Inr cs" using each assms(3) unfolding ys by blast
  then obtain cs where cs: "collect g ys = Inr cs" using collect_all_Inr by blast
  from collect_gathered [OF this] have "image_mset bare (mset cs) = (\<Sum>y \<in># mset ys. gathered g y)" by simp
  also have "\<dots> = (\<Sum>x \<in># mset xs. gathered g (h x))" by (simp add: assms(2) [symmetric] image_mset.compositionality o_def)
  also have "\<dots> = (\<Sum>x \<in># mset xs. gathered f x)" using eq by (intro arg_cong [where f = sum_mset] image_mset_cong) simp
  finally show ?thesis using cs bs by (simp add: same_blocks_def)
qed

lemma entry_other:
  "blocks_of_entry p v = Inr cs \<Longrightarrow> \<exists>ds. blocks_of_entry q v = Inr ds \<and> map bare ds = map bare cs"
proof -
  let ?F = "\<lambda>file (ty, named). case items_call named of Inl e \<Rightarrow> Inl e
     | Inr bodies \<Rightarrow> Inr (map (\<lambda>(n, body). \<lparr>rb_file = file, rb_type = ty, rb_name = n,
         rb_attrs = (case body of PDict kvs \<Rightarrow> kvs | _ \<Rightarrow> [])\<rparr>) bodies)"
  have "collect (?F p) xs = Inr cs \<Longrightarrow> \<exists>ds. collect (?F q) xs = Inr ds \<and> map bare ds = map bare cs" for xs cs
    by (induction xs arbitrary: cs) (fastforce simp: bare_def split: sum.splits prod.splits)+
  then show "blocks_of_entry p v = Inr cs \<Longrightarrow> \<exists>ds. blocks_of_entry q v = Inr ds \<and> map bare ds = map bare cs"
    unfolding blocks_of_entry_def by (auto split: sum.splits)
qed

lemma entries_other:
  "collect (blocks_of_entry p) vs = Inr cs \<Longrightarrow> \<exists>ds. collect (blocks_of_entry q) vs = Inr ds \<and> map bare ds = map bare cs"
proof (induction vs arbitrary: cs)
  case (Cons v vs)
  then obtain as bs where a: "blocks_of_entry p v = Inr as" and b: "collect (blocks_of_entry p) vs = Inr bs" and cs: "cs = as @ bs"
    by (auto split: sum.splits)
  from entry_other [OF a, of q] Cons.IH [OF b] cs show ?case by fastforce
qed simp

lemma file_other:
  assumes "blocks_of_file it (p, c) = Inr cs"
  shows "\<exists>ds. blocks_of_file it (q, c) = Inr ds \<and> image_mset bare (mset ds) = image_mset bare (mset cs)"
proof -
  from assms have "\<exists>ds. blocks_of_file it (q, c) = Inr ds \<and> map bare ds = map bare cs"
    using entries_other [of p _ cs q] by (fastforce simp: blocks_of_file_def split: sum.splits if_splits)
  then show ?thesis by (metis mset_map)
qed

section \<open>From the pipeline's answer to the validator's\<close>

text \<open>\<open>terraform\<close> reads the \<open>.tf\<close> files of its directory and no other.\<close>

definition terraform_reads_tf :: "'w iac_tools \<Rightarrow> bool" where
  "terraform_reads_tf it \<longleftrightarrow>
     (\<forall>argv fs gs w. tf_files_of fs = tf_files_of gs \<longrightarrow> it_cli it argv fs w = it_cli it argv gs w)"

lemma ingress_bare: "ingress_violations (bare b) = ingress_violations b"
proof -
  have "rule_violation (bare b) = rule_violation b" by (intro ext) (simp add: rule_violation_def Let_def split: sum.split)
  then show ?thesis unfolding ingress_violations_def ingress_rules_def bare_simps by (rule ssubst) (rule refl)
qed

lemma ingress_check_other:
  assumes "check_security_group_ingress bs = Inr c" and "same_blocks bs cs"
  shows "\<exists>d. check_security_group_ingress cs = Inr d"
proof -
  from assms(1) obtain vs where vs: "collect ingress_violations (of_type ''aws_security_group'' bs) = Inr vs"
    by (auto simp: check_security_group_ingress_def map_sum_def split: sum.splits)
  have "\<exists>ws. ingress_violations x = Inr ws" if x: "x \<in> set (of_type ''aws_security_group'' cs)" for x
  proof -
    from x have "bare x \<in> bare ` set bs" using same_blocks_set [OF assms(2)] by (simp add: of_type_set)
    then obtain b where b: "b \<in> set bs" "bare x = bare b" by auto
    then have "rb_type b = rb_type x" by (metis bare_simps(1))
    with b x have "b \<in> set (of_type ''aws_security_group'' bs)" by (simp add: of_type_set)
    from collect_Inr [OF vs this] b(2) show ?thesis by (metis ingress_bare)
  qed
  then obtain ws where "collect ingress_violations (of_type ''aws_security_group'' cs) = Inr ws"
    using collect_all_Inr [of "of_type ''aws_security_group'' cs" ingress_violations] by blast
  then show ?thesis by (simp add: check_security_group_ingress_def)
qed

lemma template_outputs_iff: "x \<in> set (template_outputs ms) \<longleftrightarrow> fst x \<in> set ms \<and> snd x \<in> set (terraform_templates (fst x))"
  by (cases x) (auto simp: template_outputs_def)

lemma module_prefixes:
  "list_all (\<lambda>x. list_all (\<lambda>m. starts_with (m @ ''__'') (output_name x) = (fst x = m)) [''rag'', ''tools'', ''human_loop''])
     (template_outputs all_modules)"
  by code_simp

lemma names_show_module:
  assumes "m \<in> {''rag'', ''tools'', ''human_loop''}"
  shows "list_ex (starts_with (m @ ''__'')) (map output_name (template_outputs (resolve_required_modules cfg)))
     \<longleftrightarrow> m \<in> set (resolve_required_modules cfg)"
proof -
  have sub: "x \<in> set (template_outputs all_modules)" if "x \<in> set (template_outputs (resolve_required_modules cfg))" for x
    using that resolved_known unfolding template_outputs_iff by blast
  have pre: "starts_with (m @ ''__'') (output_name x) \<longleftrightarrow> fst x = m" if "x \<in> set (template_outputs (resolve_required_modules cfg))" for x
  proof -
    from module_prefixes sub [OF that]
    have "\<forall>m \<in> set [''rag'', ''tools'', ''human_loop'']. starts_with (m @ ''__'') (output_name x) = (fst x = m)"
      unfolding list_all_iff by (rule bspec)
    moreover from assms have "m \<in> set [''rag'', ''tools'', ''human_loop'']" by (simp only: list.set)
    ultimately show ?thesis by (rule bspec)
  qed
  have "list_ex (starts_with (m @ ''__'')) (map output_name (template_outputs (resolve_required_modules cfg)))
      \<longleftrightarrow> (\<exists>x \<in> set (template_outputs (resolve_required_modules cfg)). starts_with (m @ ''__'') (output_name x))"
    by (simp only: list_ex_iff set_map bex_simps)
  also have "\<dots> \<longleftrightarrow> (\<exists>x \<in> set (template_outputs (resolve_required_modules cfg)). fst x = m)"
    by (rule bex_cong [OF refl pre])
  also have "\<dots> \<longleftrightarrow> m \<in> set (resolve_required_modules cfg)"
  proof -
    have "terraform_templates m \<noteq> []" using assms by (auto simp: terraform_templates_def)
    then obtain n where "n \<in> set (terraform_templates m)" using list.set_sel(1) by blast
    then have "m \<in> set (resolve_required_modules cfg) \<Longrightarrow> (m, n) \<in> set (template_outputs (resolve_required_modules cfg))"
      by (simp add: template_outputs_iff)
    moreover have "x \<in> set (template_outputs (resolve_required_modules cfg)) \<Longrightarrow> fst x \<in> set (resolve_required_modules cfg)" for x
      by (simp add: template_outputs_iff)
    ultimately show ?thesis by (metis fst_conv)
  qed
  finally show ?thesis .
qed

lemma resolved_members:
  "''rag'' \<in> set (resolve_required_modules cfg) \<longleftrightarrow> kb_enabled cfg"
  "''tools'' \<in> set (resolve_required_modules cfg) \<longleftrightarrow> tools_of cfg \<noteq> []"
  "''human_loop'' \<in> set (resolve_required_modules cfg) \<longleftrightarrow> review_enabled cfg"
  by (auto simp: resolve_required_modules_def always_on_modules_def module_if_def Let_def)

text \<open>The directory of an agent, as a deployment commits it.\<close>

definition committed_directory ::
  "(string \<times> string) list \<Rightarrow> string \<Rightarrow> pyval \<Rightarrow> (string \<times> string) list" where
  "committed_directory named vars metadata =
     named @ [(''terraform.auto.tfvars.json'', vars), (''deployment-metadata.json'', json_dumps metadata)]"

lemma rendered_tf: "tf_files_of (rendered_names gs ctx cfg) = rendered_names gs ctx cfg"
  using rendered_names_plain by (fastforce simp: tf_files_of_def intro!: filter_True)

lemma committed_tf: "tf_files_of (committed_directory (rendered_names gs ctx cfg) vars metadata) = rendered_names gs ctx cfg"
  using rendered_tf [of gs ctx cfg] by (simp add: committed_directory_def tf_files_of_def ends_with_def starts_with_def)

lemma committed_metadata:
  "map_of (committed_directory (rendered_names gs ctx cfg) vars metadata) ''deployment-metadata.json'' = Some (json_dumps metadata)"
proof -
  have "''deployment-metadata.json'' \<notin> fst ` set (rendered_names gs ctx cfg)"
    using rendered_names_plain by (fastforce simp: ends_with_def starts_with_def)
  then have "map_of (rendered_names gs ctx cfg) ''deployment-metadata.json'' = None" by (simp add: map_of_eq_None_iff)
  then show ?thesis by (simp add: committed_directory_def map_add_def)
qed

lemma metadata_reads_back: "script_metadata (json_dumps (deployment_metadata agent tenant did version)) = Inr (agent, tenant, int_text version)"
proof -
  have "json_ok (deployment_metadata agent tenant did version)" by (simp add: deployment_metadata_def)
  from json_loads_dumps [OF this] show ?thesis
    by (simp add: script_metadata_def deployment_metadata_def is_object_def has_key_def dict_get_def py_str_def)
qed

lemma script_main_run:
  assumes "script_main it dir w = (Inr (lines, 0), w')" and "map_of dir ''deployment-metadata.json'' = Some text"
    and "script_metadata text = Inr (agent, tenant, version)"
  obtains bs static w1 fmt val where
    "parse_all_resources it (sort_items (tf_files_of dir)) = Inr bs"
    and "static_checks it (script_resource_presence it (map fst (sort_items (tf_files_of dir))) bs) bs agent tenant version = Inr static"
    and "list_all vc_passed static"
    and "run_terraform_fmt it dir w = (Inr fmt, w1)" and "vc_passed fmt"
    and "script_terraform_validate it dir w1 = (Inr val, w')" and "vc_passed val"
proof -
  let ?tf = "sort_items (tf_files_of dir)"
  note run = assms(1) [unfolded script_main_def Let_def assms(2) option.case]
  show ?thesis
  proof (cases "parse_all_resources it ?tf")
    case (Inl e)
    with run assms(3) show ?thesis
      by (cases e) (auto simp: raises_or_def andthen_def ret_def raising_def split: if_splits)
  next
    case (Inr bs)
    let ?s = "static_checks it (script_resource_presence it (map fst ?tf) bs) bs agent tenant version"
    obtain static where static: "?s = Inr static"
      using run Inr assms(3) by (cases ?s) (auto simp: raises_or_def andthen_def ret_def raising_def)
    obtain f w1 where f: "run_terraform_fmt it dir w = (f, w1)" by (cases rule: prod.exhaust)
    obtain v w2 where v: "script_terraform_validate it dir w1 = (v, w2)" by (cases rule: prod.exhaust)
    from run Inr assms(3) static f v obtain fmt val where r: "f = Inr fmt" "v = Inr val" "w2 = w'"
      "list_all vc_passed static \<and> vc_passed fmt \<and> vc_passed val"
      by (cases f; cases v) (simp_all add: raises_or_def andthen_def ret_def Let_def split: if_split_asm)
    from r(4) have ok: "list_all vc_passed static" "vc_passed fmt" "vc_passed val" by simp_all
    show ?thesis by (rule that [OF Inr static ok(1) _ ok(2) _ ok(3)]) (use f v r(1-3) in simp_all)
  qed
qed

lemma validate_of_script:
  "script_terraform_validate it dir w = (Inr val, w') \<Longrightarrow> vc_passed val \<Longrightarrow> run_terraform_validate it dir w = (Inr val, w')"
  by (auto simp: script_terraform_validate_def run_terraform_validate_def andthen_def ret_def skipped_def split: cli_run.splits if_splits)

lemma cli_reads_tf:
  assumes "terraform_reads_tf it" and "tf_files_of fs = tf_files_of gs"
  shows "run_terraform_fmt it fs = run_terraform_fmt it gs" and "run_terraform_validate it fs = run_terraform_validate it gs"
proof -
  have "it_cli it argv fs w = it_cli it argv gs w" for argv w
    using assms unfolding terraform_reads_tf_def by blast
  then have c: "cli it argv fs = cli it argv gs" for argv by (intro ext) simp
  show "run_terraform_fmt it fs = run_terraform_fmt it gs" "run_terraform_validate it fs = run_terraform_validate it gs"
    unfolding run_terraform_fmt_def run_terraform_validate_def validate_after_init_def c by (rule refl)+
qed

lemma pipeline_implies_validation:
  fixes it :: "'w iac_tools"
  assumes agent: "path_component agent" and order: "set_order_ok it" and reads_tf: "terraform_reads_tf it"
    and run: "script_main it (committed_directory (rendered_names gs ctx cfg) vars (deployment_metadata agent tenant did version)) w
        = (Inr (lines, 0), w')"
    and tools: "\<And>bs. parse_all_resources it (in_agent_directory agent (rendered_names gs ctx cfg)) = Inr bs \<Longrightarrow>
        length (tools_of cfg) \<le> lambda_count bs \<and> single_access_blocks (set bs)"
  shows "\<exists>r. validate_iac it agent tenant version cfg (in_agent_directory agent (rendered_names gs ctx cfg)) ''terraform'' w = (Inr r, w')
      \<and> ir_passed r"
proof -
  let ?N = "rendered_names gs ctx cfg" and ?D = "in_agent_directory agent (rendered_names gs ctx cfg)"
  let ?dir = "committed_directory ?N vars (deployment_metadata agent tenant did version)"
  obtain bs static w1 fmt val where bs: "parse_all_resources it (sort_items ?N) = Inr bs"
    and static: "static_checks it (script_resource_presence it (map fst (sort_items ?N)) bs) bs agent tenant (int_text version) = Inr static"
    and passed: "list_all vc_passed static"
    and fmt: "run_terraform_fmt it ?dir w = (Inr fmt, w1)" "vc_passed fmt"
    and val: "script_terraform_validate it ?dir w1 = (Inr val, w')" "vc_passed val"
    by (rule script_main_run [OF run committed_metadata metadata_reads_back]) (simp only: committed_tf)
  have "mset (sort_items ?N) = mset ?N"
    using rendered_names_distinct [of gs ctx cfg] distinct_sort_items [OF rendered_names_distinct [of gs ctx cfg]]
    by (intro iffD1 [OF set_eq_iff_mset_eq_distinct]) (auto simp: distinct_map)
  then have "mset (map (\<lambda>(n, c). (agent_directory agent @ n, c)) (sort_items ?N)) = mset ?D"
    by (simp add: in_agent_directory_def)
  from collect_other [OF bs [unfolded parse_all_resources_def] this, of "blocks_of_file it"]
  obtain cs where cs: "parse_all_resources it ?D = Inr cs" and same: "same_blocks bs cs"
    using file_other by (fastforce simp: parse_all_resources_def)
  from tools [OF cs] have enough: "length (tools_of cfg) \<le> lambda_count cs" and single: "single_access_blocks (set cs)" by simp_all
  from static_checks_passed(1) [OF static order passed]
  have presence: "vc_passed (script_resource_presence it (map fst (sort_items ?N)) bs)"
    and sound: "\<forall>b \<in> set bs. sound_resource it agent tenant (int_text version) (set bs) b" by simp_all
  have names: "list_ex (starts_with (m @ ''__'')) (map fst (sort_items ?N)) \<longleftrightarrow> m \<in> set (resolve_required_modules cfg)"
    if "m \<in> {''rag'', ''tools'', ''human_loop''}" for m
  proof -
    have "set (map fst (sort_items ?N)) = set (map output_name (template_outputs (resolve_required_modules cfg)))"
      by (force simp: rendered_names_def)
    then have "list_ex (starts_with (m @ ''__'')) (map fst (sort_items ?N))
        \<longleftrightarrow> list_ex (starts_with (m @ ''__'')) (map output_name (template_outputs (resolve_required_modules cfg)))"
      by (simp only: list_ex_iff)
    with names_show_module [OF that] show ?thesis by simp
  qed
  have "vc_passed (check_resource_presence it cfg cs)"
    using presence enough names [of "''rag''"] names [of "''tools''"] names [of "''human_loop''"]
    unfolding presence_check script_presence_check resources_wanted_def resolved_members same_blocks_counts [OF same]
    by (auto simp: resolved_members split: if_splits)
  moreover obtain c where "check_security_group_ingress bs = Inr c"
    using static by (auto simp: static_checks_def map_sum_def split: sum.splits)
  then obtain d where "check_security_group_ingress cs = Inr d" using ingress_check_other same by blast
  then obtain static' where static': "static_checks it (check_resource_presence it cfg cs) cs agent tenant (int_text version) = Inr static'"
    by (auto simp: static_checks_def)
  ultimately have "list_all vc_passed static'"
    using static_checks_passed(2) [OF static' order single] same_blocks_sound [OF same sound] by blast
  moreover have "tf_files_of ?dir = tf_files_of ?N"
    by (simp only: committed_tf rendered_tf)
  note cli_reads_tf [OF reads_tf this]
  ultimately show ?thesis
    using fmt val validate_of_script [OF val] static' cs
    by (simp add: validate_iac_def tf_files_rendered flattened_files [OF agent] raises_or_def andthen_def ret_def report_of_def reads_def)
qed

section \<open>A sample\<close>

text \<open>An agent without tools whose one resource is a security group open on port 443.\<close>

definition sample_group :: pyval where
  "sample_group = PDict [(''resource'', PList [PDict [(''aws_security_group'', PDict [(''sg'', PDict
     [(''name'', PStr ''panasa-a-sg''),
      (''ingress'', PList [PDict [(''from_port'', PInt 443), (''to_port'', PInt 443), (''cidr_blocks'', PList [PStr ''0.0.0.0/0''])]]),
      (''tags'', PDict [(''agent_id'', PStr ''a''), (''tenant_id'', PStr ''t''), (''version'', PStr ''2''), (''managed_by'', PStr ''panasa'')])])])]])]"

definition sample_iac_tools :: "unit iac_tools" where
  "sample_iac_tools =
     \<lparr>it_hcl = \<lambda>c. Inr (if c = ''compute/compute.tf.j2'' then sample_group else PDict []),
      it_sha1 = id, it_order = id, it_cli = \<lambda>_ _ w. (Exited 0 [] [], w), it_clock = \<lambda>_. 0, it_iso = \<lambda>_. []\<rparr>"

definition sample_iac_settings :: iac_settings where
  "sample_iac_settings = \<lparr>is_bucket = Some ''b'', is_tool = ''terraform'', is_jinja = \<lambda>p _. p, is_zip = \<lambda>_. [], is_tables = []\<rparr>"

definition sample_committed :: "(string \<times> string) list" where
  "sample_committed =
     committed_directory (rendered_names sample_iac_settings [] (PDict [])) ''{}'' (deployment_metadata ''a'' ''t'' ''d'' 2)"

lemma sample_order: "set_order_ok sample_iac_tools" "terraform_reads_tf sample_iac_tools" "path_component ''a''"
  by (simp_all add: set_order_ok_def sample_iac_tools_def terraform_reads_tf_def path_component_def)

lemma sample_passes: "case script_main sample_iac_tools sample_committed () of (Inr (_, c), _) \<Rightarrow> c = 0 | _ \<Rightarrow> False"
  by code_simp

definition sample_files :: "(string \<times> string) list" where
  "sample_files = render_terraform sample_iac_settings [] ''a'' (resolve_required_modules (PDict []))"

lemma sample_blocks:
  assumes "parse_all_resources sample_iac_tools sample_files = Inr bs"
  shows "length (tools_of (PDict [])) \<le> lambda_count bs" and "single_access_blocks (set bs)"
proof -
  have "case parse_all_resources sample_iac_tools sample_files of Inl _ \<Rightarrow> False
      | Inr bs \<Rightarrow> list_all (\<lambda>b. rb_type b \<noteq> ''aws_s3_bucket_public_access_block'') bs" by code_simp
  with assms have "\<forall>b \<in> set bs. rb_type b \<noteq> ''aws_s3_bucket_public_access_block''" by (simp add: list_all_iff)
  then show "single_access_blocks (set bs)" by (auto simp: single_access_blocks_def covers_bucket_def)
  show "length (tools_of (PDict [])) \<le> lambda_count bs" by (simp add: tools_of_def dict_get_def items_of_def)
qed

lemma sample_directory: "committed_directory (flatten_for_terraform_cli sample_files) ''{}'' (deployment_metadata ''a'' ''t'' ''d'' 2) = sample_committed"
  using flattened_files [OF sample_order(3)]
  by (simp add: sample_files_def render_terraform_files sample_committed_def)

lemma sample_validates:
  "case validate_iac sample_iac_tools ''a'' ''t'' 2 (PDict []) sample_files ''terraform'' () of (Inr r, _) \<Rightarrow> ir_passed r | _ \<Rightarrow> False"
  by code_simp

end
