(* ===== verification/CicdTemplates.thy ===== *)
theory CicdTemplates
  imports Prelude "HOL-Library.Sublist"
begin

text \<open>
  The workflow files of the five CI/CD providers (app/modules/iac_generator/cicd_templates.py), line
  by line; a long dash is written \<open>--\<close>. What a workflow must have: the policy check before the
  plan, the plan before the apply, and the approval of a person before the apply of a manual deployment.
\<close>

section \<open>Commands\<close>

definition scan_commands :: "(string \<times> string) list" where
  "scan_commands =
     [(''SAST'', ''semgrep --config auto .''), (''Secret scan'', ''trufflehog filesystem . --fail''),
      (''IaC scan'', ''checkov -d . && tfsec .''), (''Dependency scan'', ''safety check --full-report''),
      (''SBOM'', ''syft . -o spdx-json=sbom.json''),
      (''Container scan'', ''trivy fs --exit-code 1 --severity HIGH,CRITICAL .'')]"

definition policy_check_command :: string where "policy_check_command = ''panasa-policy-check .''"

definition policy_check_script_path :: string where
  "policy_check_script_path = ''scripts/panasa_policy_check.py''"

definition notify_curl :: string where
  \<open>notify_curl = ''curl -sS -f -X POST "$PANASA_WEBHOOK_URL/api/v1/internal/deployment-complete" -H "Authorization: Bearer $PANASA_WEBHOOK_SECRET" -H "Content-Type: application/json" --data-binary @deployment-metadata.json''\<close>

definition deploy_role_name :: string where "deploy_role_name = ''panasa-deploy-role''"

definition aws_credentials_step :: "string list" where
  \<open>aws_credentials_step =
     [''      - name: Configure AWS credentials'',
      ''        uses: aws-actions/configure-aws-credentials@v4'', ''        with:'',
      ''          role-to-assume: arn:aws:iam::${{ secrets.AWS_ACCOUNT_ID }}:role/'' @ deploy_role_name,
      ''          aws-region: ${{ secrets.AWS_REGION }}'']\<close>

definition github_scan_steps :: "(string \<times> string option \<times> string) list" where
  \<open>github_scan_steps =
     [(''SAST'', Some (''pip install semgrep safety''), ''semgrep --config auto .''),
      (''Secret scan'', Some (''sudo apt-get update -qq && sudo apt-get install -y curl && curl -sSfL https://raw.githubusercontent.com/trufflesecurity/trufflehog/main/scripts/install.sh | sh -s -- -b /usr/local/bin''), ''trufflehog filesystem . --fail''),
      (''IaC scan'', None, ''checkov -d . && tfsec .''),
      (''Dependency scan'', Some (''pip install semgrep safety''), ''safety check --full-report''),
      (''SBOM'', Some (''curl -sSfL https://raw.githubusercontent.com/anchore/syft/main/install.sh | sh''), ''syft . -o spdx-json=sbom.json''),
      (''Container scan'', Some (''curl -sfL https://raw.githubusercontent.com/aquasecurity/trivy/main/contrib/install.sh | sh -s -- -b /usr/local/bin''), ''trivy fs --exit-code 1 --severity HIGH,CRITICAL .'')]\<close>

section \<open>GitHub Actions\<close>

definition github_steps :: "string list" where
  "github_steps =
     concat (map (\<lambda>(n, install, command).
       (case install of None \<Rightarrow> [] | Some i \<Rightarrow> [''      - name: Install tooling for '' @ n, ''        run: '' @ i])
       @ [''      - name: '' @ n, ''        run: '' @ command]) github_scan_steps)"

definition github_scan_job :: "string list" where
  \<open>github_scan_job =
     [''name: Panasa Deploy'',
      [],
      ''on:'',
      ''  pull_request:'',
      ''    branches: [main]'',
      ''  push:'',
      ''    branches: [main]'',
      [],
      ''# Sprint 3 Phase 6 (S-04) -- required once, at workflow level, for'',
      ''# aws-actions/configure-aws-credentials@v4'' @ [CHR 0x27] @ ''s OIDC token exchange'',
      ''# (bootstrap/stage1/github_oidc.tf'' @ [CHR 0x27] @ ''s IAM OIDC provider trusts this'',
      ''# token). Applies to every job below by default; a job would need its'',
      ''# own `permissions:` block to narrow this further, none currently do.'',
      ''permissions:'',
      ''  id-token: write'',
      ''  contents: read'',
      [],
      ''jobs:'',
      ''  security_scan:'',
      ''    name: "Stage 1 -- Source & security scanning"'',
      ''    runs-on: ubuntu-latest'',
      ''    steps:'',
      ''      - uses: actions/checkout@v4'']
     @ github_steps
     @ [[]]\<close>

definition github_checks_job :: "string \<Rightarrow> string list" where
  \<open>github_checks_job tf_dir =
     [''  terraform_checks:'',
      ''    name: "Stage 2 -- Terraform checks"'',
      ''    needs: security_scan'',
      ''    runs-on: ubuntu-latest'',
      ''    defaults:'',
      ''      run:'',
      ''        working-directory: '' @ tf_dir,
      ''    steps:'',
      ''      - uses: actions/checkout@v4'',
      ''      - uses: hashicorp/setup-terraform@v3'']
     @ aws_credentials_step
     @ [''      - run: terraform fmt -check'',
      ''      - run: terraform init'',
      ''      - run: terraform validate'',
      []]\<close>

definition github_policy_job :: "string \<Rightarrow> string list" where
  \<open>github_policy_job tf_dir =
     [''  policy_check:'',
      ''    name: "Stage 3 -- Panasa policy checks"'',
      ''    needs: terraform_checks'',
      ''    runs-on: ubuntu-latest'',
      ''    steps:'',
      ''      - uses: actions/checkout@v4'',
      ''      - uses: actions/setup-python@v5'',
      ''        with:'',
      ''          python-version: "3.12"'',
      ''      - uses: hashicorp/setup-terraform@v3'',
      ''      - run: pip install python-hcl2'',
      ''      - name: Run Panasa policy checks'',
      ''        run: python '' @ policy_check_script_path @ '' '' @ tf_dir,
      []]\<close>

definition github_plan_job :: "string \<Rightarrow> string list" where
  \<open>github_plan_job tf_dir =
     [''  terraform_plan:'',
      ''    name: "Stage 4 -- Terraform plan"'',
      ''    needs: policy_check'',
      ''    runs-on: ubuntu-latest'',
      ''    defaults:'',
      ''      run:'',
      ''        working-directory: '' @ tf_dir,
      ''    steps:'',
      ''      - uses: actions/checkout@v4'',
      ''      - uses: hashicorp/setup-terraform@v3'']
     @ aws_credentials_step
     @ [''      - run: terraform init'',
      ''      - run: terraform plan -out=tfplan'',
      ''      - name: Post plan as PR comment'',
      ''        if: github.event_name == '' @ [CHR 0x27] @ ''pull_request'' @ [CHR 0x27],
      ''        run: gh pr comment ${{ github.event.pull_request.number }} --body-file tfplan.txt'',
      ''        env:'',
      ''          GH_TOKEN: ${{ github.token }}'',
      ''      - uses: actions/upload-artifact@v4'',
      ''        with:'',
      ''          name: tfplan'',
      ''          path: '' @ tf_dir @ ''/tfplan'',
      []]\<close>

definition github_apply_job :: "string \<Rightarrow> string list" where
  \<open>github_apply_job tf_dir =
     [''  terraform_apply:'',
      ''    name: "Stage 6 -- Terraform apply"'',
      ''    needs: terraform_plan'',
      ''    if: github.ref == '' @ [CHR 0x27] @ ''refs/heads/main'' @ [CHR 0x27],
      ''    runs-on: ubuntu-latest'',
      ''    # R50 human approval gate -- set a required reviewer on this GitHub Environment'',
      ''    environment: production'',
      ''    defaults:'',
      ''      run:'',
      ''        working-directory: '' @ tf_dir,
      ''    steps:'',
      ''      - uses: actions/checkout@v4'',
      ''      - uses: hashicorp/setup-terraform@v3'']
     @ aws_credentials_step
     @ [''      - uses: actions/download-artifact@v4'',
      ''        with:'',
      ''          name: tfplan'',
      ''          path: '' @ tf_dir,
      ''      - run: terraform init'',
      ''      - run: terraform apply tfplan'',
      []]\<close>

definition github_notify_job :: "string \<Rightarrow> string list" where
  \<open>github_notify_job tf_dir =
     [''  notify_panasa:'',
      ''    name: "Stage 7 -- Notify Panasa (deployment complete)"'',
      ''    needs: terraform_apply'',
      ''    runs-on: ubuntu-latest'',
      ''    defaults:'',
      ''      run:'',
      ''        working-directory: '' @ tf_dir,
      ''    steps:'',
      ''      - uses: actions/checkout@v4'',
      ''      - run: |'',
      ''          '' @ notify_curl,
      ''        env:'',
      ''          PANASA_WEBHOOK_URL: ${{ secrets.PANASA_WEBHOOK_URL }}'',
      ''          PANASA_WEBHOOK_SECRET: ${{ secrets.PANASA_WEBHOOK_SECRET }}'',
      []]\<close>

definition github_actions :: "string \<Rightarrow> string list" where
  "github_actions tf_dir =
     github_scan_job @ github_checks_job tf_dir @ github_policy_job tf_dir @ github_plan_job tf_dir @ github_apply_job tf_dir
     @ github_notify_job tf_dir"

section \<open>GitLab\<close>

definition manual_only :: "string \<Rightarrow> 'a list \<Rightarrow> 'a list" where
  "manual_only approval_mode xs = (if approval_mode = ''manual'' then xs else [])"

definition gitlab_gate :: "string list" where
  \<open>gitlab_gate =
     [[], ''gate:  # Stage 5 -- Approval gate'', ''  stage: gate'', ''  script:'',
      ''    - echo "Awaiting manual approval."'', ''  when: manual'', ''  needs: ["terraform_plan"]'']\<close>

definition gitlab_ci :: "string \<Rightarrow> string \<Rightarrow> string list" where
  \<open>gitlab_ci approval_mode tf_dir =
     (let scan_script = map (\<lambda>(_, command). ''    - '' @ command) scan_commands;
          gate_stage = manual_only approval_mode [''  - gate'']; gate_job = manual_only approval_mode gitlab_gate;
          apply_needs = (if approval_mode = ''manual'' then ''["gate"]'' else ''["terraform_plan"]'') in
      [''stages:'',
       ''  - security_scan'',
       ''  - terraform_checks'',
       ''  - policy_check'',
       ''  - terraform_plan'']
      @ gate_stage
      @ [''  - terraform_apply'',
       ''  - notify_panasa'',
       [],
       ''security_scan:  # Stage 1 -- Source & security scanning'',
       ''  stage: security_scan'',
       ''  script:'']
      @ scan_script
      @ [[],
       ''terraform_checks:  # Stage 2 -- Terraform checks'',
       ''  stage: terraform_checks'',
       ''  needs: ["security_scan"]'',
       ''  script:'',
       ''    - cd '' @ tf_dir,
       ''    - terraform fmt -check'',
       ''    - terraform init'',
       ''    - terraform validate'',
       [],
       ''policy_check:  # Stage 3 -- Panasa policy checks'',
       ''  stage: policy_check'',
       ''  needs: ["terraform_checks"]'',
       ''  script:'',
       ''    - '' @ policy_check_command,
       ''  # approval_mode=automated: GitLab auto-merges an MR that passed every'',
       ''  # required pipeline stage when "merge when pipeline succeeds" (or an'',
       ''  # equivalent merge-train setting) is enabled on the project -- configure'',
       ''  # that once per project rather than scripting a merge here; no'',
       ''  # equivalent of GitHub CLI'' @ [CHR 0x27] @ ''s `gh pr merge --auto` step is needed.'',
       [],
       ''terraform_plan:  # Stage 4 -- Terraform plan'',
       ''  stage: terraform_plan'',
       ''  needs: ["policy_check"]'',
       ''  script:'',
       ''    - cd '' @ tf_dir,
       ''    - terraform init'',
       ''    - terraform plan -out=tfplan'',
       ''  artifacts:'',
       ''    paths:'',
       ''      - '' @ tf_dir @ ''/tfplan'']
      @ gate_job
      @ [[],
       ''terraform_apply:  # Stage 6 -- Terraform apply'',
       ''  stage: terraform_apply'',
       ''  needs: '' @ apply_needs,
       ''  rules:'',
       ''    - if: '' @ [CHR 0x27] @ ''$CI_COMMIT_BRANCH == "main"'' @ [CHR 0x27],
       ''  script:'',
       ''    - cd '' @ tf_dir,
       ''    - terraform init'',
       ''    - terraform apply tfplan'',
       [],
       ''notify_panasa:  # Stage 7 -- Notify Panasa (deployment complete)'',
       ''  stage: notify_panasa'',
       ''  needs: ["terraform_apply"]'',
       ''  rules:'',
       ''    - if: '' @ [CHR 0x27] @ ''$CI_COMMIT_BRANCH == "main"'' @ [CHR 0x27],
       ''  script:'',
       ''    - cd '' @ tf_dir,
       ''    - '' @ [CHR 0x27] @ notify_curl @ [CHR 0x27],
       []])\<close>

section \<open>Azure DevOps\<close>

definition azure_gate_note :: "string \<Rightarrow> string" where
  \<open>azure_gate_note approval_mode =
     (if approval_mode = ''manual''
      then ''    # '' @ [CHR 0x27] @ ''production'' @ [CHR 0x27] @ '' environment has a required-approver check configured in Azure DevOps -- that check IS Stage 5.''
      else ''    # approval_mode=automated: no environment approval check configured; POLICY_CHECK below is the only gate. Configure branch policy '' @ [CHR 0x27] @ ''Build must succeed'' @ [CHR 0x27] @ '' + auto-complete on the PR to replicate GitHub Actions'' @ [CHR 0x27] @ '' auto-merge step -- not expressible inside this YAML file itself.'')\<close>

definition azure_scan_steps :: "string list" where
  \<open>azure_scan_steps =
     concat (map (\<lambda>(n, command). [''      - script: '' @ command, ''        displayName: "'' @ n @ ''"'']) scan_commands)\<close>

definition azure_scan_stage :: "string list" where
  \<open>azure_scan_stage =
     [''trigger:'',
      ''  branches:'',
      ''    include: [main]'',
      [],
      ''stages:'',
      ''  - stage: SecurityScan'',
      ''    displayName: "Stage 1 -- Source & security scanning"'',
      ''    jobs:'',
      ''      - job: Scan'',
      ''        steps:'']
     @ azure_scan_steps
     @ [[]]\<close>

definition azure_checks_stage :: "string \<Rightarrow> string list" where
  \<open>azure_checks_stage tf_dir =
     [''  - stage: TerraformChecks'',
      ''    displayName: "Stage 2 -- Terraform checks"'',
      ''    dependsOn: SecurityScan'',
      ''    jobs:'',
      ''      - job: Checks'',
      ''        steps:'',
      ''          - script: terraform fmt -check'',
      ''            workingDirectory: '' @ tf_dir,
      ''          - script: terraform init'',
      ''            workingDirectory: '' @ tf_dir,
      ''          - script: terraform validate'',
      ''            workingDirectory: '' @ tf_dir,
      []]\<close>

definition azure_policy_stage :: "string list" where
  \<open>azure_policy_stage =
     [''  - stage: PolicyCheck'',
      ''    displayName: "Stage 3 -- Panasa policy checks"'',
      ''    dependsOn: TerraformChecks'',
      ''    jobs:'',
      ''      - job: Policy'',
      ''        steps:'',
      ''          - script: '' @ policy_check_command,
      []]\<close>

definition azure_plan_stage :: "string \<Rightarrow> string list" where
  \<open>azure_plan_stage tf_dir =
     [''  - stage: TerraformPlan'',
      ''    displayName: "Stage 4 -- Terraform plan"'',
      ''    dependsOn: PolicyCheck'',
      ''    jobs:'',
      ''      - job: Plan'',
      ''        steps:'',
      ''          - script: terraform init'',
      ''            workingDirectory: '' @ tf_dir,
      ''          - script: terraform plan -out=tfplan'',
      ''            workingDirectory: '' @ tf_dir,
      ''          - script: az repos pr comment --content "$(cat tfplan.txt)" || true'',
      ''          - publish: '' @ tf_dir @ ''/tfplan'',
      ''            artifact: tfplan'',
      []]\<close>

definition azure_apply_stage :: "string \<Rightarrow> string \<Rightarrow> string \<Rightarrow> string list" where
  \<open>azure_apply_stage apply_env gate_note tf_dir =
     [''  - stage: TerraformApply'',
      ''    displayName: "Stage 6 -- Terraform apply"'',
      ''    dependsOn: TerraformPlan'',
      ''    condition: eq(variables['' @ [CHR 0x27] @ ''Build.SourceBranch'' @ [CHR 0x27] @ ''], '' @ [CHR 0x27] @ ''refs/heads/main'' @ [CHR 0x27] @ '')'',
      ''    jobs:'',
      ''      - deployment: Apply'',
      ''        environment: '' @ apply_env]
     @ [gate_note]
     @ [''        strategy:'',
      ''          runOnce:'',
      ''            deploy:'',
      ''              steps:'',
      ''                - download: current'',
      ''                  artifact: tfplan'',
      ''                - script: cp $(Pipeline.Workspace)/tfplan/tfplan '' @ tf_dir @ ''/tfplan'',
      ''                - script: terraform init'',
      ''                  workingDirectory: '' @ tf_dir,
      ''                - script: terraform apply tfplan'',
      ''                  workingDirectory: '' @ tf_dir,
      []]\<close>

definition azure_notify_stage :: "string \<Rightarrow> string list" where
  \<open>azure_notify_stage tf_dir =
     [''  - stage: NotifyPanasa'',
      ''    displayName: "Stage 7 -- Notify Panasa (deployment complete)"'',
      ''    dependsOn: TerraformApply'',
      ''    jobs:'',
      ''      - job: Notify'',
      ''        steps:'',
      ''          - script: '' @ [CHR 0x27] @ notify_curl @ [CHR 0x27],
      ''            workingDirectory: '' @ tf_dir,
      ''            env:'',
      ''              PANASA_WEBHOOK_URL: $(PANASA_WEBHOOK_URL)'',
      ''              PANASA_WEBHOOK_SECRET: $(PANASA_WEBHOOK_SECRET)'',
      []]\<close>

definition azure_devops :: "string \<Rightarrow> string \<Rightarrow> string list" where
  "azure_devops approval_mode tf_dir =
     azure_scan_stage @ azure_checks_stage tf_dir @ azure_policy_stage @ azure_plan_stage tf_dir
     @ azure_apply_stage (if approval_mode = ''manual'' then ''production'' else ''production-auto'') (azure_gate_note approval_mode) tf_dir
     @ azure_notify_stage tf_dir"

section \<open>CodeBuild\<close>

definition codebuild_gate_note :: "string \<Rightarrow> string" where
  \<open>codebuild_gate_note approval_mode =
     (if approval_mode = ''manual''
      then ''  # Stage 5 (manual approval): configure a Manual Approval action between the Plan and Apply stages in the CodePipeline definition -- not expressible inside buildspec.yml itself.''
      else ''  # approval_mode=automated: no Manual Approval action in the CodePipeline definition; POLICY_CHECK below is the only gate.'')\<close>

definition codebuild :: "string \<Rightarrow> string \<Rightarrow> string list" where
  \<open>codebuild approval_mode tf_dir =
     (let scan_commands = map (\<lambda>(_, command). ''      - '' @ command) scan_commands;
          gate_note = [codebuild_gate_note approval_mode] in
      [''version: 0.2'',
       [],
       ''# Section 45.5'' @ [CHR 0x27] @ ''s 6 stages (+ Stage 7 notify) map onto CodeBuild'' @ [CHR 0x27] @ ''s phases'',
       ''# below; the approval gate (manual mode only) is a CodePipeline-level'',
       ''# Manual Approval action around this build project, not something'',
       ''# buildspec.yml expresses on its own -- see the note ahead of the apply'',
       ''# phase. All terraform/tfplan commands run from '' @ tf_dir @ '' -- a single'',
       ''# CodeBuild job'' @ [CHR 0x27] @ ''s phases share one filesystem, so the plan file left'',
       ''# there by the plan phase is still there for the apply phase with no'',
       ''# artifact-passing step needed (unlike GitHub Actions'' @ [CHR 0x27] @ '' separate jobs).'',
       [],
       ''phases:'',
       ''  install:'',
       ''    commands:'',
       ''      - echo "Stage 1 -- Source & security scanning"'']
      @ scan_commands
      @ [''  pre_build:'',
       ''    commands:'',
       ''      - echo "Stage 2 -- Terraform checks"'',
       ''      - cd '' @ tf_dir @ '' && terraform fmt -check && cd -'',
       ''      - cd '' @ tf_dir @ '' && terraform init && cd -'',
       ''      - cd '' @ tf_dir @ '' && terraform validate && cd -'',
       ''      - echo "Stage 3 -- Panasa policy checks"'',
       ''      - '' @ policy_check_command,
       ''  build:'',
       ''    commands:'',
       ''      - echo "Stage 4 -- Terraform plan"'',
       ''      - cd '' @ tf_dir @ '' && terraform plan -out=tfplan && cd -'']
      @ gate_note
      @ [''      - echo "Stage 6 -- Terraform apply"'',
       ''      - cd '' @ tf_dir @ '' && terraform apply tfplan && cd -'',
       ''      - echo "Stage 7 -- Notify Panasa (deployment complete)"'',
       ''      - '' @ [CHR 0x27] @ ''cd '' @ tf_dir @ '' && '' @ notify_curl @ '' && cd -'' @ [CHR 0x27],
       []])\<close>

section \<open>Bitbucket\<close>

definition bitbucket_gate :: "string list" where
  \<open>bitbucket_gate =
     [''      - step:'', ''          name: "Stage 5 -- Approval gate"'', ''          trigger: manual'', ''          script:'',
      ''            - echo "Manually triggered -- this step itself is the approval gate."'']\<close>

definition bitbucket :: "string \<Rightarrow> string \<Rightarrow> string list" where
  \<open>bitbucket approval_mode tf_dir =
     (let scan_steps = map (\<lambda>(_, command). ''          - '' @ command) scan_commands;
          gate_step = manual_only approval_mode bitbucket_gate in
      [''pipelines:'',
       ''  branches:'',
       ''    main:'',
       ''      - step:'',
       ''          name: "Stage 1 -- Source & security scanning"'',
       ''          script:'']
      @ scan_steps
      @ [''      - step:'',
       ''          name: "Stage 2 -- Terraform checks"'',
       ''          script:'',
       ''            - cd '' @ tf_dir,
       ''            - terraform fmt -check'',
       ''            - terraform init'',
       ''            - terraform validate'',
       ''      - step:'',
       ''          name: "Stage 3 -- Panasa policy checks"'',
       ''          script:'',
       ''            - '' @ policy_check_command,
       ''      - step:'',
       ''          name: "Stage 4 -- Terraform plan"'',
       ''          script:'',
       ''            - cd '' @ tf_dir,
       ''            - terraform init'',
       ''            - terraform plan -out=tfplan'',
       ''          artifacts:'',
       ''            - '' @ tf_dir @ ''/tfplan'']
      @ gate_step
      @ [''      - step:'',
       ''          name: "Stage 6 -- Terraform apply"'',
       ''          script:'',
       ''            - cd '' @ tf_dir,
       ''            - terraform init'',
       ''            - terraform apply tfplan'',
       ''      - step:'',
       ''          name: "Stage 7 -- Notify Panasa (deployment complete)"'',
       ''          script:'',
       ''            - cd '' @ tf_dir,
       ''            - '' @ [CHR 0x27] @ notify_curl @ [CHR 0x27],
       []])\<close>

section \<open>The file of a provider\<close>

definition workflow_lines :: "string \<Rightarrow> string \<Rightarrow> string \<Rightarrow> (string \<times> string list) option" where
  "workflow_lines provider approval_mode tf_dir =
     (if provider = ''github_actions'' then Some (''.github/workflows/panasa-deploy.yml'', github_actions tf_dir)
      else if provider = ''gitlab_ci'' then Some (''.gitlab-ci.yml'', gitlab_ci approval_mode tf_dir)
      else if provider = ''azure_devops'' then Some (''azure-pipelines.yml'', azure_devops approval_mode tf_dir)
      else if provider = ''codebuild'' then Some (''buildspec.yml'', codebuild approval_mode tf_dir)
      else if provider = ''bitbucket'' then Some (''bitbucket-pipelines.yml'', bitbucket approval_mode tf_dir)
      else None)"

definition generate_cicd_workflow :: "string \<Rightarrow> string \<Rightarrow> string \<Rightarrow> pyexn + string \<times> string" where
  "generate_cicd_workflow provider approval_mode agent =
     (case workflow_lines provider approval_mode (''terraform/agents/'' @ agent) of
        None \<Rightarrow> Inl (KeyError provider)
      | Some (p, ls) \<Rightarrow> Inr (p, join_with [CHR 0x0A] ls))"

section \<open>The order of the stages\<close>

text \<open>The lines that check the policy, plan, wait for a person and apply; CodeBuild can only remark on the third.\<close>

definition policy_line :: "string \<Rightarrow> string \<Rightarrow> string" where
  "policy_line provider tf_dir =
     (if provider = ''github_actions'' then ''        run: python '' @ policy_check_script_path @ '' '' @ tf_dir
      else if provider = ''gitlab_ci'' then ''    - '' @ policy_check_command
      else if provider = ''azure_devops'' then ''          - script: '' @ policy_check_command
      else if provider = ''codebuild'' then ''      - '' @ policy_check_command
      else ''            - '' @ policy_check_command)"

definition plan_line :: "string \<Rightarrow> string \<Rightarrow> string" where
  "plan_line provider tf_dir =
     (if provider = ''github_actions'' then ''      - run: terraform plan -out=tfplan''
      else if provider = ''gitlab_ci'' then ''    - terraform plan -out=tfplan''
      else if provider = ''azure_devops'' then ''          - script: terraform plan -out=tfplan''
      else if provider = ''codebuild'' then ''      - cd '' @ tf_dir @ '' && terraform plan -out=tfplan && cd -''
      else ''            - terraform plan -out=tfplan'')"

definition approval_lines :: "string \<Rightarrow> string list" where
  "approval_lines provider =
     (if provider = ''github_actions'' then [''    environment: production'']
      else if provider = ''gitlab_ci'' then [''  when: manual'']
      else if provider = ''azure_devops'' then [''        environment: production'']
      else if provider = ''bitbucket'' then [''          trigger: manual''] else [])"

definition apply_line :: "string \<Rightarrow> string \<Rightarrow> string" where
  "apply_line provider tf_dir =
     (if provider = ''github_actions'' then ''      - run: terraform apply tfplan''
      else if provider = ''gitlab_ci'' then ''    - terraform apply tfplan''
      else if provider = ''azure_devops'' then ''                - script: terraform apply tfplan''
      else if provider = ''codebuild'' then ''      - cd '' @ tf_dir @ '' && terraform apply tfplan && cd -''
      else ''            - terraform apply tfplan'')"

definition stages_in_order :: "string \<Rightarrow> string \<Rightarrow> string \<Rightarrow> string list \<Rightarrow> bool" where
  "stages_in_order provider approval_mode tf_dir ls \<longleftrightarrow>
     subseq ([policy_line provider tf_dir, plan_line provider tf_dir]
       @ (if approval_mode = ''manual'' then approval_lines provider else []) @ [apply_line provider tf_dir]) ls \<and>
     length (filter (\<lambda>l. l = apply_line provider tf_dir) ls) = 1"

lemmas line_defs = policy_line_def plan_line_def approval_lines_def apply_line_def policy_check_command_def
  policy_check_script_path_def manual_only_def scan_commands_def subseq_Cons2_iff aws_credentials_step_def deploy_role_name_def

lemma stages_of_parts:
  assumes "policy_line p d \<in> set P" and "plan_line p d \<in> set Q"
    and "subseq ((if m = ''manual'' then approval_lines p else []) @ [apply_line p d]) R"
    and "apply_line p d \<notin> set A" and "apply_line p d \<notin> set P" and "apply_line p d \<notin> set Q" and "apply_line p d \<notin> set B"
    and "length (filter (\<lambda>l. l = apply_line p d) R) = 1"
  shows "stages_in_order p m d (A @ P @ Q @ R @ B)"
proof -
  have none: "x \<notin> set xs \<Longrightarrow> filter (\<lambda>l. l = x) xs = []" for x :: string and xs by (auto simp: filter_empty_conv)
  have "subseq ([] @ [policy_line p d] @ [plan_line p d]
      @ ((if m = ''manual'' then approval_lines p else []) @ [apply_line p d]) @ []) (A @ P @ Q @ R @ B)"
    using assms(1-3) by (intro list_emb_append_mono) (simp_all add: subseq_singleton_left)
  then show ?thesis using assms(4-8) by (simp add: stages_in_order_def none)
qed

lemma github_stages: "stages_in_order ''github_actions'' m tf_dir (github_actions tf_dir)"
proof -
  have "stages_in_order ''github_actions'' m tf_dir ((github_scan_job @ github_checks_job tf_dir)
      @ github_policy_job tf_dir @ github_plan_job tf_dir @ github_apply_job tf_dir @ github_notify_job tf_dir)"
  proof (rule stages_of_parts)
    show "apply_line ''github_actions'' tf_dir \<notin> set (github_scan_job @ github_checks_job tf_dir)"
      by (simp add: line_defs github_scan_job_def github_checks_job_def github_steps_def github_scan_steps_def)
  qed (simp_all add: line_defs github_policy_job_def github_plan_job_def github_apply_job_def github_notify_job_def notify_curl_def)
  then show ?thesis by (simp add: github_actions_def)
qed

lemma gitlab_stages: "stages_in_order ''gitlab_ci'' m tf_dir (gitlab_ci m tf_dir)"
  by (simp add: stages_in_order_def line_defs gitlab_ci_def gitlab_gate_def notify_curl_def)

lemma azure_stages: "stages_in_order ''azure_devops'' m tf_dir (azure_devops m tf_dir)"
proof -
  let ?env = "if m = ''manual'' then ''production'' else ''production-auto''"
  have "stages_in_order ''azure_devops'' m tf_dir ((azure_scan_stage @ azure_checks_stage tf_dir)
      @ azure_policy_stage @ azure_plan_stage tf_dir @ azure_apply_stage ?env (azure_gate_note m) tf_dir @ azure_notify_stage tf_dir)"
  proof (rule stages_of_parts)
    show "apply_line ''azure_devops'' tf_dir \<notin> set (azure_scan_stage @ azure_checks_stage tf_dir)"
      by (simp add: line_defs azure_scan_stage_def azure_checks_stage_def azure_scan_steps_def)
    show "subseq ((if m = ''manual'' then approval_lines ''azure_devops'' else []) @ [apply_line ''azure_devops'' tf_dir])
        (azure_apply_stage ?env (azure_gate_note m) tf_dir)"
      by (cases "m = ''manual''") (simp_all add: line_defs azure_apply_stage_def azure_gate_note_def)
    show "length (filter (\<lambda>l. l = apply_line ''azure_devops'' tf_dir) (azure_apply_stage ?env (azure_gate_note m) tf_dir)) = 1"
      by (cases "m = ''manual''") (simp_all add: line_defs azure_apply_stage_def azure_gate_note_def)
  qed (simp_all add: line_defs azure_policy_stage_def azure_plan_stage_def azure_notify_stage_def notify_curl_def)
  then show ?thesis by (simp add: azure_devops_def)
qed

lemma codebuild_stages: "stages_in_order ''codebuild'' m tf_dir (codebuild m tf_dir)"
  by (cases "m = ''manual''") (simp_all add: stages_in_order_def line_defs codebuild_def codebuild_gate_note_def notify_curl_def)

lemma bitbucket_stages: "stages_in_order ''bitbucket'' m tf_dir (bitbucket m tf_dir)"
  by (simp add: stages_in_order_def line_defs bitbucket_def bitbucket_gate_def notify_curl_def)

lemma workflow_stages:
  "workflow_lines provider m tf_dir = Some (p, ls) \<Longrightarrow> stages_in_order provider m tf_dir ls"
  using github_stages gitlab_stages azure_stages codebuild_stages bitbucket_stages
  by (auto simp: workflow_lines_def split: if_splits)

end
