(* ===== verification/AuditTrail.thy ===== *)
theory AuditTrail
  imports KnowledgeBases
begin

text \<open>
  The audit trail (app/modules/audit/writer.py, app/api/v1/audit_log.py): one object of S3 for each
  event. Pydantic's text of an event and its reading are arguments.
\<close>

record trail_event =
  ae_type :: string
  ae_tenant :: string
  ae_agent :: "string option"
  ae_actor :: string
  ae_summary :: string
  ae_at :: string

record trail =
  tr_bucket :: "string option"
  tr_dump :: "trail_event \<Rightarrow> string"
  tr_load :: "string \<Rightarrow> trail_event option"

definition event_key :: "trail_event \<Rightarrow> string \<Rightarrow> string" where
  "event_key e hex =
     ''audit/'' @ ae_tenant e @ ''/'' @ ae_type e @ ''/'' @ take 10 (ae_at e) @ ''/'' @ hex @ ''.json''"

text \<open>A failed write is logged and passed over.\<close>

definition write_audit :: "'w platform_services \<Rightarrow> trail \<Rightarrow> trail_event \<Rightarrow> ('w, string option) platform_action" where
  "write_audit ps tr e =
     (if \<not> truthy (tr_bucket tr) then ret None
      else andthen (draw_hex ps) (\<lambda>hex.
        catching (andthen (s3_do ps (PutObject (get_or [] (tr_bucket tr)) (event_key e hex) (tr_dump tr e))) (\<lambda>_.
                    ret (Some (event_key e hex))))
          (\<lambda>_. ret None)))"

text \<open>
  The keys whose date lies in the range, of the first page of the listing: a page that is not the
  last one has more keys than the scan is allowed.
\<close>

definition audit_prefix :: "string \<Rightarrow> string option \<Rightarrow> string" where
  "audit_prefix tenant ty =
     (case ty of None \<Rightarrow> ''audit/'' @ tenant @ ''/'' | Some t \<Rightarrow> ''audit/'' @ tenant @ ''/'' @ t @ ''/'')"

definition dated_within :: "string \<Rightarrow> string \<Rightarrow> string \<Rightarrow> bool" where
  "dated_within from_date to_date k =
     (let parts = split_on (CHR ''/'') k
      in length parts \<ge> 4 \<and> text_le from_date (parts ! 3) \<and> text_le (parts ! 3) to_date)"

definition wanted_event :: "string option \<Rightarrow> string option \<Rightarrow> trail_event \<Rightarrow> bool" where
  "wanted_event actor agent e \<longleftrightarrow>
     (actor = None \<or> actor = Some (ae_actor e)) \<and> (agent = None \<or> ae_agent e = agent)"

text \<open>Reading the objects until enough events are found; an object that cannot be read is passed over.\<close>

definition read_event :: "'w platform_services \<Rightarrow> trail \<Rightarrow> string \<Rightarrow> ('w, trail_event option) platform_action" where
  "read_event ps tr k =
     catching
       (andthen (s3_do ps (GetObject (get_or [] (tr_bucket tr)) k)) (\<lambda>_.
          reads (\<lambda>s. case map_of (pl_objects s) (get_or [] (tr_bucket tr), k) of
                       None \<Rightarrow> None | Some body \<Rightarrow> tr_load tr body)))
       (\<lambda>_. ret None)"

fun read_events ::
  "'w platform_services \<Rightarrow> trail \<Rightarrow> (trail_event \<Rightarrow> bool) \<Rightarrow> nat \<Rightarrow> string list \<Rightarrow> ('w, trail_event list) platform_action" where
  "read_events ps tr keep 0 ks = ret []"
| "read_events ps tr keep (Suc n) [] = ret []"
| "read_events ps tr keep (Suc n) (k # ks) =
     andthen (read_event ps tr k) (\<lambda>found.
       case found of
         None \<Rightarrow> read_events ps tr keep (Suc n) ks
       | Some e \<Rightarrow>
           (if keep e then andthen (read_events ps tr keep n ks) (\<lambda>es. ret (e # es))
            else read_events ps tr keep (Suc n) ks))"

fun insert_newest :: "trail_event \<Rightarrow> trail_event list \<Rightarrow> trail_event list" where
  "insert_newest e [] = [e]"
| "insert_newest e (x # xs) = (if text_le (ae_at x) (ae_at e) then e # x # xs else x # insert_newest e xs)"

definition newest_first :: "trail_event list \<Rightarrow> trail_event list" where
  "newest_first es = foldr insert_newest es []"

definition list_events ::
  "'w platform_services \<Rightarrow> trail \<Rightarrow> string \<Rightarrow> string \<Rightarrow> string \<Rightarrow> string option \<Rightarrow> string option \<Rightarrow> string option \<Rightarrow> nat
     \<Rightarrow> ('w, trail_event list) platform_action" where
  "list_events ps tr tenant from_date to_date ty actor agent limit =
     (if \<not> truthy (tr_bucket tr) then ret []
      else
        andthen (catching (andthen (list_objects ps (get_or [] (tr_bucket tr)) (audit_prefix tenant ty)) (\<lambda>os. ret (Some (map fst os))))
                   (\<lambda>_. ret None)) (\<lambda>listed.
          case listed of
            None \<Rightarrow> ret []
          | Some ks \<Rightarrow>
              andthen (read_events ps tr (wanted_event actor agent) limit (filter (dated_within from_date to_date) ks)) (\<lambda>es.
                ret (newest_first es))))"

text \<open>The admin's audit page (app/api/v1/audit_log.py): the last seven days where no range is given.\<close>

record audit_query =
  aq_from :: "string option"
  aq_to :: "string option"
  aq_event :: "string option"
  aq_actor :: "string option"
  aq_resource :: "string option"
  aq_limit :: nat

definition day_of :: "'w platform_services \<Rightarrow> int \<Rightarrow> string" where
  "day_of ps t = take 10 (cl_iso (ps_cloud ps) t)"

definition week_before :: "int \<Rightarrow> int" where "week_before t = t - 7 * 86400 * 1000000"

definition list_audit_log_route ::
  "'w platform_services \<Rightarrow> trail \<Rightarrow> user_row \<Rightarrow> audit_query \<Rightarrow> ('w, trail_event list) platform_action" where
  "list_audit_log_route ps tr u q =
     andthen (the_time ps) (\<lambda>now.
       list_events ps tr (us_tenant u)
         (if truthy (aq_from q) then get_or [] (aq_from q) else day_of ps (week_before now))
         (if truthy (aq_to q) then get_or [] (aq_to q) else day_of ps now)
         (aq_event q) (aq_actor q) (aq_resource q) (aq_limit q))"

definition serve_audit_log ::
  "'w platform_services \<Rightarrow> trail \<Rightarrow> string option \<Rightarrow> audit_query \<Rightarrow> ('w, trail_event list) platform_action" where
  "serve_audit_log ps tr token q = guarded ps token [] (\<lambda>u. list_audit_log_route ps tr u q)"

end
