(* ===== verification/Runs.thy ===== *)
theory Runs
  imports CatalogRules
begin

text \<open>
  The runs of generated agents (app/modules/runs/: models, store, error messages; app/api/v1/runs.py).
  Times are texts as the clock prints them. A query answers with one page: at most its limit, and no
  more rows than the service puts on a page.
\<close>

section \<open>Records\<close>

record activity_event =
  ac_level :: string
  ac_message :: string
  ac_at :: string
  ac_elapsed :: "int option"

record step_error =
  er_reason :: string
  er_action :: string
  er_code :: string
  er_request :: "string option"
  er_trace :: "string option"
  er_region :: "string option"
  er_at :: string

record rag_detail =
  rd_query :: string
  rd_returned :: int
  rd_relevant :: int
  rd_threshold :: rat
  rd_latency :: int
  rd_documents :: "(string \<times> rat) list"

record run_step =
  sp_id :: string
  sp_name :: string
  sp_component :: string
  sp_status :: string
  sp_start :: int
  sp_duration :: "int option"
  sp_model :: "string option"
  sp_input :: "int option"
  sp_output :: "int option"
  sp_cost :: "rat option"
  sp_retries :: "int option"
  sp_error :: "step_error option"
  sp_rag :: "rag_detail option"

record trace_span =
  sn_id :: string
  sn_parent :: "string option"
  sn_name :: string
  sn_start :: int
  sn_duration :: "int option"
  sn_status :: string
  sn_attributes :: "(string \<times> string) list"
  sn_tags :: "(string \<times> string) list"

record run_record =
  ru_id :: string
  ru_agent :: string
  ru_tenant :: string
  ru_version :: int
  ru_status :: string
  ru_trigger :: string
  ru_schedule :: "string option"
  ru_started :: string
  ru_duration :: "int option"
  ru_cost :: "rat option"
  ru_activity :: "activity_event list"
  ru_steps :: "run_step list"
  ru_spans :: "trace_span list"
  ru_ragas :: "(string \<times> rat) list option"
  ru_error :: "string option"
  ru_seed :: bool

record run_summary =
  sm_window :: int
  sm_runs :: nat
  sm_success :: "rat option"
  sm_latency :: "rat option"
  sm_errors :: nat
  sm_tokens :: int
  sm_cost :: rat

section \<open>Error messages\<close>

definition default_error :: "string \<times> string" where
  "default_error = (''An unexpected error occurred.'', ''Reference the error ID when contacting support.'')"

definition error_messages :: "(string \<times> string \<times> string) list" where
  "error_messages =
     [(''UnrecognizedClientException'', ''AWS credentials are invalid or not configured.'',
       ''Verify Bedrock IAM permissions and confirm the model is enabled in the customer'' @ [CHR 0x27] @ ''s AWS account and region.''),
      (''ResourceNotFoundException'', ''The model or guardrail was not found in this region.'',
       ''Confirm the model ID and guardrail are correct and available in the deployed region.''),
      (''ThrottlingException'', ''Request rate limit exceeded.'',
       ''Retry in a few seconds. If this recurs, request a Bedrock quota increase.''),
      (''ValidationException'', ''The request payload was invalid.'',
       ''Check the agent configuration -- a field is likely missing or malformed.''),
      (''ServiceUnavailableException'', ''AWS service is temporarily unavailable.'',
       ''Retry shortly. If this persists, check the AWS Service Health Dashboard.''),
      (''ConnectTimeoutError'', ''Could not reach the tool endpoint.'',
       ''Check network connectivity and the tool endpoint'' @ [CHR 0x27] @ ''s availability.'')]"

definition map_error :: "string \<Rightarrow> string \<times> string" where
  "map_error code = get_or default_error (map_of error_messages code)"

text \<open>\<open>re.sub\<close> of the boundary before every capital that is not the first character.\<close>

definition is_capital :: "char \<Rightarrow> bool" where
  "is_capital c = (let n = (of_char c :: nat) in 65 \<le> n \<and> n \<le> 90)"

definition split_camel :: "string \<Rightarrow> string" where
  "split_camel s = take 1 s @ concat (map (\<lambda>c. if is_capital c then [CHR ''_'', c] else [c]) (drop 1 s))"

definition category_suffixes :: "string list" where
  "category_suffixes = [''_exception'', ''_error'']"

definition error_category :: "string \<Rightarrow> string" where
  "error_category code =
     (let slug = py_lower (split_camel code)
      in case find (\<lambda>x. ends_with x slug) category_suffixes of
           None \<Rightarrow> slug
         | Some x \<Rightarrow> take (length slug - length x) slug)"

section \<open>The store\<close>

type_synonym run_table = "((string \<times> string) \<times> run_record) list"
type_synonym 'a runs_action = "(run_table, 'a) prog"

text \<open>The rows of an agent's partition, oldest first.\<close>

definition partition_runs :: "string \<Rightarrow> run_table \<Rightarrow> (string \<times> run_record) list" where
  "partition_runs agent rows = sort_items [(w, r). ((a, w), r) \<leftarrow> rows, a = agent]"

definition since :: "string option \<Rightarrow> (string \<times> run_record) list \<Rightarrow> (string \<times> run_record) list" where
  "since from_time rows = (case from_time of None \<Rightarrow> rows | Some f \<Rightarrow> filter (\<lambda>(w, _). text_le f w) rows)"

record run_filter =
  rf_status :: "string option"
  rf_trigger :: "string option"
  rf_version :: "int option"

definition wanted_run :: "run_filter \<Rightarrow> run_record \<Rightarrow> bool" where
  "wanted_run f r \<longleftrightarrow>
     (rf_status f = None \<or> rf_status f = Some (ru_status r)) \<and>
     (rf_trigger f = None \<or> rf_trigger f = Some (ru_trigger r)) \<and>
     (rf_version f = None \<or> rf_version f = Some (ru_version r))"

text \<open>How many of the remaining rows the service puts on a page of a megabyte: at least one.\<close>

type_synonym paging = "run_record list \<Rightarrow> nat"

definition page_rows :: "paging \<Rightarrow> (string \<times> run_record) list \<Rightarrow> nat" where
  "page_rows pg rows = max 1 (pg (map snd rows))"

text \<open>The limit counts the rows read, before the filter.\<close>

definition list_runs ::
  "paging \<Rightarrow> string \<Rightarrow> string \<Rightarrow> run_filter \<Rightarrow> string option \<Rightarrow> nat \<Rightarrow> run_record list runs_action" where
  "list_runs pg tenant agent f from_time limit =
     reads (\<lambda>s. let rows = rev (since from_time (partition_runs agent s))
       in filter (\<lambda>r. ru_tenant r = tenant) (filter (wanted_run f) (map snd (take (min limit (page_rows pg rows)) rows))))"

text \<open>Page after page, each from behind the last key of the one before.\<close>

function all_pages :: "paging \<Rightarrow> (string \<times> run_record) list \<Rightarrow> run_record list" where
  "all_pages pg rows =
     (let n = page_rows pg rows
      in map snd (take n rows) @ (if n < length rows then all_pages pg (drop n rows) else []))"
  by auto
termination
  by (relation "measure (\<lambda>(pg, rows). length rows)") (auto simp: page_rows_def)

definition list_all_runs_since :: "paging \<Rightarrow> string \<Rightarrow> string \<Rightarrow> string \<Rightarrow> run_record list runs_action" where
  "list_all_runs_since pg tenant agent from_time =
     reads (\<lambda>s. filter (\<lambda>r. ru_tenant r = tenant) (all_pages pg (rev (since (Some from_time) (partition_runs agent s)))))"

text \<open>\<open>round(x, 4)\<close>: to the nearest, halves to the even neighbour.\<close>

definition round_half_even :: "rat \<Rightarrow> int" where
  "round_half_even x =
     (let f = \<lfloor>x\<rfloor>; d = x - of_int f
      in if d < 1/2 then f else if d > 1/2 then f + 1 else if even f then f else f + 1)"

definition round4 :: "rat \<Rightarrow> rat" where
  "round4 x = of_int (round_half_even (x * 10000)) / 10000"

definition run_tokens :: "run_record \<Rightarrow> int" where
  "run_tokens r = sum_list (map (\<lambda>st. get_or 0 (sp_input st) + get_or 0 (sp_output st)) (ru_steps r))"

definition summarise_runs :: "int \<Rightarrow> run_record list \<Rightarrow> run_summary" where
  "summarise_runs window runs =
     (let ended = filter (\<lambda>r. ru_duration r \<noteq> None) runs
      in \<lparr>sm_window = window, sm_runs = length runs,
          sm_success = (if runs = [] then None
             else Some (of_nat (length (filter (\<lambda>r. ru_status r = ''SUCCESS'') runs)) / of_nat (length runs))),
          sm_latency = (if ended = [] then None
             else Some (of_int (sum_list (map (\<lambda>r. get_or 0 (ru_duration r)) ended)) / of_nat (length ended))),
          sm_errors = length (filter (\<lambda>r. ru_status r = ''FAILED'') runs),
          sm_tokens = sum_list (map run_tokens runs),
          sm_cost = round4 (sum_list (map (\<lambda>r. get_or 0 (ru_cost r)) runs))\<rparr>)"

definition days_before :: "int \<Rightarrow> int \<Rightarrow> int" where
  "days_before now days = now - days * 86400 * 1000000"

definition get_summary ::
  "(int \<Rightarrow> string) \<Rightarrow> int \<Rightarrow> paging \<Rightarrow> string \<Rightarrow> string \<Rightarrow> int \<Rightarrow> run_summary runs_action" where
  "get_summary iso_text now pg tenant agent window =
     andthen (list_all_runs_since pg tenant agent (iso_text (days_before now window))) (\<lambda>runs.
       ret (summarise_runs window runs))"

text \<open>One page of the partition, oldest first; the first row with the id.\<close>

definition get_run :: "paging \<Rightarrow> string \<Rightarrow> string \<Rightarrow> string \<Rightarrow> run_record option runs_action" where
  "get_run pg tenant agent i =
     reads (\<lambda>s. let rows = partition_runs agent s
       in find (\<lambda>r. ru_id r = i \<and> ru_tenant r = tenant) (map snd (take (page_rows pg rows) rows)))"

definition get_logs :: "paging \<Rightarrow> string \<Rightarrow> string \<Rightarrow> string \<Rightarrow> (string \<times> string \<times> string) list option runs_action" where
  "get_logs pg tenant agent i =
     andthen (get_run pg tenant agent i) (\<lambda>r.
       ret (map_option (\<lambda>x. map (\<lambda>e. (ac_at e, ac_level e, ac_message e)) (ru_activity x)) r))"

definition put_run :: "run_record \<Rightarrow> unit runs_action" where
  "put_run r = modifies (AList.update (ru_agent r, ru_started r) r)"

section \<open>Demonstration data\<close>

text \<open>Times are given as seconds before now by \<open>ago\<close>; \<open>hs\<close> are the random parts of the ids, in the order they are drawn.\<close>

definition run_id_of :: "string \<Rightarrow> string" where "run_id_of h = ''RUN-'' @ upper (take 8 h)"
definition step_id_of :: "string \<Rightarrow> string" where "step_id_of h = ''step-'' @ take 8 h"

definition activity_of :: "string \<Rightarrow> string \<Rightarrow> string \<Rightarrow> int option \<Rightarrow> activity_event" where
  "activity_of level message w elapsed = \<lparr>ac_level = level, ac_message = message, ac_at = w, ac_elapsed = elapsed\<rparr>"

definition step_of :: "string \<Rightarrow> string \<Rightarrow> string \<Rightarrow> string \<Rightarrow> int \<Rightarrow> int option \<Rightarrow> run_step" where
  "step_of h name component status start duration =
     \<lparr>sp_id = step_id_of h, sp_name = name, sp_component = component, sp_status = status, sp_start = start,
      sp_duration = duration, sp_model = None, sp_input = None, sp_output = None, sp_cost = None, sp_retries = None,
      sp_error = None, sp_rag = None\<rparr>"

definition span_of :: "string \<Rightarrow> string option \<Rightarrow> string \<Rightarrow> int \<Rightarrow> int \<Rightarrow> (string \<times> string) list \<Rightarrow> (string \<times> string) list \<Rightarrow> trace_span" where
  "span_of i parent name start duration attributes tags =
     \<lparr>sn_id = i, sn_parent = parent, sn_name = name, sn_start = start, sn_duration = Some duration, sn_status = ''SUCCESS'',
      sn_attributes = attributes, sn_tags = tags\<rparr>"

definition success_activity :: "(int \<Rightarrow> string) \<Rightarrow> activity_event list" where
  "success_activity ago =
     [activity_of ''INFO'' ''Request received'' (ago 180) None,
      activity_of ''INFO'' ''Guardrail check passed'' (ago 180) (Some 42),
      activity_of ''INFO'' ''Orchestrator routing completed'' (ago 179) (Some 180),
      activity_of ''INFO'' ''Knowledge base retrieval completed'' (ago 179) (Some 620),
      activity_of ''INFO'' ''LLM call completed -- 1,245 in / 318 out'' (ago 177) (Some 2900),
      activity_of ''INFO'' ''Tool call completed -- HTTP 200'' (ago 176) (Some 3740),
      activity_of ''INFO'' ''Response returned to caller'' (ago 175) (Some 4800)]"

definition success_steps :: "string list \<Rightarrow> run_step list" where
  "success_steps hs =
     [step_of (hs ! 0) ''Guardrail check'' ''Guardrail Engine'' ''SUCCESS'' 0 (Some 42),
      step_of (hs ! 1) ''Orchestrator routing'' ''Orchestrator'' ''SUCCESS'' 42 (Some 180),
      (step_of (hs ! 2) ''Knowledge Base'' ''Knowledge Base'' ''SUCCESS'' 222 (Some 620))
        \<lparr>sp_rag := Some \<lparr>rd_query = ''[REDACTED]'', rd_returned = 5, rd_relevant = 4, rd_threshold = 80 / 100, rd_latency = 620,
           rd_documents = [(''Document 1'', 94 / 100), (''Document 2'', 91 / 100), (''Document 3'', 87 / 100),
                           (''Document 4'', 81 / 100), (''Document 5'', 42 / 100)]\<rparr>\<rparr>,
      (step_of (hs ! 3) ''Claude 3.5 Sonnet'' ''Amazon Bedrock'' ''SUCCESS'' 842 (Some 2900))
        \<lparr>sp_model := Some ''claude-3-5-sonnet-20241022'', sp_input := Some 1245, sp_output := Some 318,
         sp_cost := Some (14 / 1000), sp_retries := Some 0\<rparr>,
      (step_of (hs ! 4) ''Payroll API tool'' ''Tool: payroll_api'' ''SUCCESS'' 3742 (Some 840))\<lparr>sp_retries := Some 0\<rparr>,
      step_of (hs ! 5) ''Response assembly'' ''Agent Runtime'' ''SUCCESS'' 4582 (Some 210)]"

definition success_spans :: "string \<Rightarrow> int \<Rightarrow> trace_span list" where
  "success_spans agent version =
     [span_of ''span-root'' None agent 0 4800 []
        [(''agent_id'', agent), (''version'', int_text version), (''trigger'', ''API'')],
      span_of ''span-orchestration'' (Some ''span-root'') ''Agent Orchestration'' 42 4758 [] [],
      span_of ''span-guardrail'' (Some ''span-orchestration'') ''Guardrail Check'' 0 42 [] [],
      span_of ''span-llm'' (Some ''span-orchestration'') ''Generate AI Response'' 842 2900
        [(''model_id'', ''claude-3-5-sonnet-20241022''), (''token_count_input'', ''1245''), (''token_count_output'', ''318'')] [],
      span_of ''span-tool-dispatch'' (Some ''span-orchestration'') ''Tool Dispatch'' 3742 840 [] [],
      span_of ''span-payroll-tool'' (Some ''span-tool-dispatch'') ''payroll_api'' 0 840 [(''status_code'', ''200'')] []]"

definition seed_run :: "string \<Rightarrow> string \<Rightarrow> string \<Rightarrow> int \<Rightarrow> string \<Rightarrow> string \<Rightarrow> string \<Rightarrow> run_record" where
  "seed_run h tenant agent version status trigger started_at =
     \<lparr>ru_id = run_id_of h, ru_agent = agent, ru_tenant = tenant, ru_version = version, ru_status = status, ru_trigger = trigger,
      ru_schedule = None, ru_started = started_at, ru_duration = None, ru_cost = None, ru_activity = [], ru_steps = [],
      ru_spans = [], ru_ragas = None, ru_error = None, ru_seed = True\<rparr>"

definition success_run :: "string list \<Rightarrow> (int \<Rightarrow> string) \<Rightarrow> string \<Rightarrow> string \<Rightarrow> int \<Rightarrow> run_record" where
  "success_run hs ago tenant agent version =
     (seed_run (hs ! 0) tenant agent version ''SUCCESS'' ''API'' (ago 180))
       \<lparr>ru_duration := Some 4800, ru_cost := Some (3 / 100), ru_activity := success_activity ago,
        ru_steps := success_steps (drop 1 hs), ru_spans := success_spans agent version,
        ru_ragas := Some [(''faithfulness'', 94 / 100), (''answer_relevance'', 91 / 100), (''context_precision'', 89 / 100),
                          (''context_recall'', 86 / 100), (''context_relevance'', 92 / 100)]\<rparr>"

definition failed_run :: "string list \<Rightarrow> (int \<Rightarrow> string) \<Rightarrow> string \<Rightarrow> string \<Rightarrow> int \<Rightarrow> run_record" where
  "failed_run hs ago tenant agent version =
     (seed_run (hs ! 0) tenant agent version ''FAILED'' ''MANUAL'' (ago 600))
       \<lparr>ru_duration := Some 1200, ru_cost := Some 0, ru_error := Some (error_category ''UnrecognizedClientException''),
        ru_activity :=
          [activity_of ''INFO'' ''Request received'' (ago 600) None,
           activity_of ''INFO'' ''Guardrail check passed'' (ago 600) (Some 38),
           activity_of ''ERROR'' (''Model invocation failed -- AWS credentials are invalid or the model ''
             @ ''is not enabled in this region'') (ago 599) (Some 1200)],
        ru_steps :=
          [step_of (hs ! 1) ''Guardrail check'' ''Guardrail Engine'' ''SUCCESS'' 0 (Some 38),
           (step_of (hs ! 2) ''Model invocation'' ''Amazon Bedrock'' ''FAILED'' 38 (Some 1162))
             \<lparr>sp_model := Some ''claude-3-5-sonnet-20241022'', sp_retries := Some 0,
              sp_error := Some \<lparr>er_reason = fst (map_error ''UnrecognizedClientException''),
                er_action = snd (map_error ''UnrecognizedClientException''), er_code = ''UnrecognizedClientException'',
                er_request = Some ''req_abc123'', er_trace = Some ''tr_def456'', er_region = Some ''eu-west-1'',
                er_at = ago 599\<rparr>\<rparr>]\<rparr>"

definition running_run :: "string list \<Rightarrow> (int \<Rightarrow> string) \<Rightarrow> string \<Rightarrow> string \<Rightarrow> int \<Rightarrow> run_record" where
  "running_run hs ago tenant agent version =
     (seed_run (hs ! 0) tenant agent version ''RUNNING'' ''HITL'' (ago 3))
       \<lparr>ru_activity :=
          [activity_of ''INFO'' ''Request received'' (ago 3) None,
           activity_of ''INFO'' ''Guardrail check passed'' (ago 3) (Some 40),
           activity_of ''WARNING'' ''Awaiting human review before proceeding'' (ago 2) (Some 1500)],
        ru_steps :=
          [step_of (hs ! 1) ''Guardrail check'' ''Guardrail Engine'' ''SUCCESS'' 0 (Some 40),
           step_of (hs ! 2) ''Human review'' ''HITL Review Queue'' ''RUNNING'' 40 None]\<rparr>"

definition scheduled_run :: "string list \<Rightarrow> (int \<Rightarrow> string) \<Rightarrow> string \<Rightarrow> string \<Rightarrow> int \<Rightarrow> run_record" where
  "scheduled_run hs ago tenant agent version =
     (seed_run (hs ! 0) tenant agent version ''SUCCESS'' ''SCHEDULER'' (ago 3600))
       \<lparr>ru_schedule := Some ''cron(0 * * * ? *)'', ru_duration := Some 4200, ru_cost := Some (2 / 100),
        ru_activity :=
          [activity_of ''INFO'' ''Triggered by schedule cron(0 * * * ? *)'' (ago 3600) None,
           activity_of ''INFO'' ''LLM call completed -- 890 in / 210 out'' (ago 3597) (Some 3600),
           activity_of ''INFO'' ''Response dispatched'' (ago 3596) (Some 4200)],
        ru_steps :=
          [(step_of (hs ! 1) ''Claude 3.5 Haiku'' ''Amazon Bedrock'' ''SUCCESS'' 0 (Some 3600))
             \<lparr>sp_model := Some ''claude-3-5-haiku-20241022'', sp_input := Some 890, sp_output := Some 210,
              sp_cost := Some (2 / 1000), sp_retries := Some 0\<rparr>,
           step_of (hs ! 2) ''Response assembly'' ''Agent Runtime'' ''SUCCESS'' 3600 (Some 600)]\<rparr>"

definition demo_runs :: "string list \<Rightarrow> (int \<Rightarrow> string) \<Rightarrow> string \<Rightarrow> string \<Rightarrow> int \<Rightarrow> run_record list" where
  "demo_runs hs ago tenant agent version =
     [success_run hs ago tenant agent version, failed_run (drop 7 hs) ago tenant agent version,
      running_run (drop 10 hs) ago tenant agent version, scheduled_run (drop 13 hs) ago tenant agent version]"

fun put_runs :: "run_record list \<Rightarrow> unit runs_action" where
  "put_runs [] = ret ()"
| "put_runs (r # rs) = andthen (put_run r) (\<lambda>_. put_runs rs)"

definition seed_demo_runs ::
  "(int \<Rightarrow> string) \<Rightarrow> int \<Rightarrow> string list \<Rightarrow> string \<Rightarrow> string \<Rightarrow> int \<Rightarrow> run_record list runs_action" where
  "seed_demo_runs iso_text now hexes tenant agent version =
     (let rs = demo_runs hexes (\<lambda>k. iso_text (now - k * 1000000)) tenant agent version
      in andthen (put_runs rs) (\<lambda>_. ret rs))"

section \<open>Routes\<close>

record 'w observed =
  ob_platform :: "'w platform"
  ob_runs :: run_table

type_synonym ('w, 'a) observed_action = "('w observed, 'a) prog"

definition of_platform :: "('w, 'a) platform_action \<Rightarrow> ('w, 'a) observed_action" where
  "of_platform = on_part ob_platform (\<lambda>t s. s\<lparr>ob_platform := t\<rparr>)"

definition of_runs :: "'a runs_action \<Rightarrow> ('w, 'a) observed_action" where
  "of_runs = on_part ob_runs (\<lambda>t s. s\<lparr>ob_runs := t\<rparr>)"

definition require_run_agent :: "user_row \<Rightarrow> string \<Rightarrow> ('w, agent_record) observed_action" where
  "require_run_agent u agent =
     andthen (of_platform (on_agents (get_agent (us_tenant u) agent))) (\<lambda>found.
       case found of None \<Rightarrow> of_platform (not_found_404 ''Agent'' agent) | Some r \<Rightarrow> ret r)"

datatype runs_request =
    ListRuns string run_filter nat | RunsSummary string int | GetRun string string | RunLogs string string | SeedRuns string

datatype runs_reply =
    RunPage "run_record list" | Summary run_summary | ARun run_record | LogLines "(string \<times> string \<times> string) list"

definition run_not_found :: "string \<Rightarrow> ('w, 'a) observed_action" where
  "run_not_found i = of_platform (not_found_404 ''Run'' i)"

fun handle_runs ::
  "'w platform_services \<Rightarrow> paging \<Rightarrow> bool \<Rightarrow> user_row \<Rightarrow> runs_request \<Rightarrow> ('w, runs_reply) observed_action" where
  "handle_runs ps pg seeding u (ListRuns agent f limit) =
     andthen (require_run_agent u agent) (\<lambda>_.
     andthen (of_runs (list_runs pg (us_tenant u) agent f None limit)) (\<lambda>rs. ret (RunPage rs)))"
| "handle_runs ps pg seeding u (RunsSummary agent window) =
     andthen (require_run_agent u agent) (\<lambda>_.
     andthen (of_platform (the_time ps)) (\<lambda>now.
     andthen (of_runs (get_summary (cl_iso (ps_cloud ps)) now pg (us_tenant u) agent window)) (\<lambda>x. ret (Summary x))))"
| "handle_runs ps pg seeding u (GetRun agent i) =
     andthen (require_run_agent u agent) (\<lambda>_.
     andthen (of_runs (get_run pg (us_tenant u) agent i)) (\<lambda>r.
       case r of None \<Rightarrow> run_not_found i | Some x \<Rightarrow> ret (ARun x)))"
| "handle_runs ps pg seeding u (RunLogs agent i) =
     andthen (require_run_agent u agent) (\<lambda>_.
     andthen (of_runs (get_logs pg (us_tenant u) agent i)) (\<lambda>ls.
       case ls of None \<Rightarrow> run_not_found i | Some x \<Rightarrow> ret (LogLines x)))"
| "handle_runs ps pg seeding u (SeedRuns agent) =
     (if \<not> seeding then of_platform (http_error 403 ''Demo run seeding is disabled on this deployment.'')
      else andthen (require_run_agent u agent) (\<lambda>r.
        andthen (of_platform (the_time ps)) (\<lambda>now.
        andthen (of_platform (draw_hexes ps 16)) (\<lambda>hexes.
        andthen (of_runs (seed_demo_runs (cl_iso (ps_cloud ps)) now hexes (us_tenant u) agent (ag_current_version r))) (\<lambda>rs.
          ret (RunPage rs))))))"

fun runs_roles :: "runs_request \<Rightarrow> string list" where
  "runs_roles (SeedRuns agent) = write_roles" | "runs_roles rq = read_roles"

definition serve_runs ::
  "'w platform_services \<Rightarrow> paging \<Rightarrow> bool \<Rightarrow> string option \<Rightarrow> runs_request \<Rightarrow> ('w, runs_reply) observed_action" where
  "serve_runs ps pg seeding token rq =
     andthen (of_platform (get_current_user ps token)) (\<lambda>u.
     andthen (of_platform (require_role (runs_roles rq) u)) (\<lambda>_. handle_runs ps pg seeding u rq))"

section \<open>What the answers cover\<close>

declare all_pages.simps [simp del]

lemma all_pages_all: "all_pages pg rows = map snd rows"
proof (induction pg rows rule: all_pages.induct)
  case (1 pg rows)
  define n where "n = page_rows pg rows"
  show ?case
  proof (cases "n < length rows")
    case True
    with 1 [OF n_def] have "all_pages pg (drop n rows) = map snd (drop n rows)" by simp
    with True show ?thesis
      by (simp add: all_pages.simps [of pg rows] n_def [symmetric] Let_def flip: map_append)
  qed (simp add: all_pages.simps [of pg rows] n_def [symmetric] Let_def)
qed

text \<open>The tenant's runs of an agent from a time on, newest first: what a summary is about.\<close>

definition runs_from :: "string \<Rightarrow> string \<Rightarrow> string \<Rightarrow> run_table \<Rightarrow> run_record list" where
  "runs_from tenant agent from_time s =
     filter (\<lambda>r. ru_tenant r = tenant) (map snd (rev (since (Some from_time) (partition_runs agent s))))"

lemma get_summary_run:
  "get_summary iso_text now pg tenant agent window s =
     (Inr (summarise_runs window (runs_from tenant agent (iso_text (days_before now window)) s)), s)"
  by (simp add: get_summary_def list_all_runs_since_def all_pages_all runs_from_def prog_simps)

lemma set_runs_from:
  assumes "distinct (map fst s)"
  shows "set (runs_from tenant agent from_time s) =
    {r. \<exists>w. map_of s (agent, w) = Some r \<and> ru_tenant r = tenant \<and> text_le from_time w}"
  using assms
  by (force simp: runs_from_def since_def partition_runs_def set_sort_items image_def)

lemma status_counts:
  "length (filter (\<lambda>r. ru_status r = ''SUCCESS'') rs) + length (filter (\<lambda>r. ru_status r = ''FAILED'') rs) \<le> length rs"
  by (induction rs) auto

lemma summary_bounds:
  assumes "sm_success (summarise_runs window rs) = Some p"
  shows "0 \<le> p \<and> p \<le> 1" "rs \<noteq> []" "p * of_nat (sm_runs (summarise_runs window rs)) + of_nat (sm_errors (summarise_runs window rs)) \<le> of_nat (length rs)"
proof -
  define k where "k = length (filter (\<lambda>r. ru_status r = ''SUCCESS'') rs)"
  have rs: "rs \<noteq> []" and p: "p = of_nat k / of_nat (length rs)"
    using assms by (auto simp: summarise_runs_def Let_def k_def split: if_splits)
  then show "rs \<noteq> []" by simp
  from rs have l: "0 < (of_nat (length rs) :: rat)" by simp
  have k: "k \<le> length rs" by (simp add: k_def)
  with l show "0 \<le> p \<and> p \<le> 1" by (simp add: p)
  have "p * of_nat (length rs) = of_nat k" using l by (simp add: p)
  moreover have "k + sm_errors (summarise_runs window rs) \<le> length rs"
    using status_counts [of rs] by (simp add: k_def summarise_runs_def Let_def)
  then have "(of_nat (k + sm_errors (summarise_runs window rs)) :: rat) \<le> of_nat (length rs)" by (rule of_nat_mono)
  ultimately show "p * of_nat (sm_runs (summarise_runs window rs)) + of_nat (sm_errors (summarise_runs window rs)) \<le> of_nat (length rs)"
    by (simp add: summarise_runs_def Let_def)
qed

text \<open>The limit is spent on the newest runs whatever their status: an older match is not looked for.\<close>

lemma newest_without_match:
  assumes "\<And>r. r \<in> set (take limit (map snd (rev (partition_runs agent s)))) \<Longrightarrow> \<not> wanted_run f r"
  shows "list_runs pg tenant agent f None limit s = (Inr [], s)"
proof -
  have "\<not> wanted_run f r" if "r \<in> set (map snd (take (min limit n) (rev (partition_runs agent s))))" for r n
  proof -
    have "set (take (min limit n) xs) \<subseteq> set (take limit xs)" for xs :: "(string \<times> run_record) list"
      by (rule set_take_subset_set_take) simp
    with that have "r \<in> set (map snd (take limit (rev (partition_runs agent s))))" by auto
    then show ?thesis using assms by (simp add: take_map)
  qed
  then show ?thesis
    by (simp add: list_runs_def since_def Let_def reads_def filter_empty_conv)
qed

end
