(* ===== verification/Playground.thy ===== *)
theory Playground
  imports Runs AuditTrail
begin

text \<open>
  The playground (app/api/v1/playground.py, app/modules/playground/) and the model router
  (app/services/model_router.py): a test conversation with an agent's current draft. The state
  records every call to the model.
\<close>

section \<open>Sessions\<close>

record play_turn =
  pn_id :: nat
  pn_role :: string
  pn_content :: string
  pn_at :: int

record play_session =
  py_id :: string
  py_agent :: string
  py_tenant :: string
  py_turns :: "play_turn list"
  py_created :: int
  py_updated :: int

text \<open>One request to LiteLLM.\<close>

record completion =
  cp_model :: string
  cp_messages :: "(string \<times> string) list"
  cp_max_tokens :: pyval
  cp_temperature :: pyval
  cp_fallbacks :: "(string \<times> string list) list option"

record 'w play_state =
  pg_platform :: "'w platform"
  pg_sessions :: "((string \<times> string) \<times> play_session) list"
  pg_calls :: "completion list"

type_synonym ('w, 'a) play_action = "('w play_state, 'a) prog"

definition in_platform :: "('w, 'a) platform_action \<Rightarrow> ('w, 'a) play_action" where
  "in_platform = on_part pg_platform (\<lambda>t s. s\<lparr>pg_platform := t\<rparr>)"

text \<open>How a completion fails: by its class in LiteLLM's taxonomy, with its text.\<close>

datatype llm_failure = LlmAuthentication string | LlmUnreachable string | LlmOther string

record usage =
  us_input :: int
  us_output :: int
  us_total :: int

record 'w play_services =
  pv_platform :: "'w platform_services"
  pv_trail :: trail
  pv_mock :: bool
  pv_complete :: "completion \<Rightarrow> 'w \<Rightarrow> (llm_failure + string \<times> rat option \<times> usage option) \<times> 'w"
  pv_perf :: "'w \<Rightarrow> rat"

definition play_time :: "'w play_services \<Rightarrow> ('w, int) play_action" where
  "play_time pv = in_platform (the_time (pv_platform pv))"

definition empty_key :: pyexn where "empty_key = ClientError ''ValidationException''"

definition play_session_not_found :: "string \<Rightarrow> pyexn" where
  "play_session_not_found i = Raised ''PlaygroundSessionNotFoundError'' (''Playground session '' @ repr_str i @ '' not found'')"

definition get_session :: "string \<Rightarrow> string \<Rightarrow> ('w, play_session option) play_action" where
  "get_session agent i = (if i = [] then raising empty_key else reads (\<lambda>s. map_of (pg_sessions s) (agent, i)))"

definition put_session_row :: "play_session \<Rightarrow> ('w, unit) play_action" where
  "put_session_row r = modifies (\<lambda>s. s\<lparr>pg_sessions := AList.update (py_agent r, py_id r) r (pg_sessions s)\<rparr>)"

definition create_session :: "'w play_services \<Rightarrow> string \<Rightarrow> string \<Rightarrow> string option \<Rightarrow> ('w, play_session) play_action" where
  "create_session pv tenant agent i =
     andthen (play_time pv) (\<lambda>now.
     andthen (case i of
                Some x \<Rightarrow> ret x
              | None \<Rightarrow> andthen (in_platform (draw_hex (pv_platform pv))) (\<lambda>h. ret (''pg-'' @ take 12 h))) (\<lambda>sid.
       let r = \<lparr>py_id = sid, py_agent = agent, py_tenant = tenant, py_turns = [], py_created = now, py_updated = now\<rparr>
       in andthen (put_session_row r) (\<lambda>_. ret r)))"

definition get_or_create_session ::
  "'w play_services \<Rightarrow> string \<Rightarrow> string \<Rightarrow> string option \<Rightarrow> ('w, play_session) play_action" where
  "get_or_create_session pv tenant agent i =
     (case i of
        None \<Rightarrow> create_session pv tenant agent None
      | Some x \<Rightarrow>
          andthen (get_session agent x) (\<lambda>found.
            case found of Some r \<Rightarrow> ret r | None \<Rightarrow> create_session pv tenant agent (Some x)))"

definition append_turns :: "'w play_services \<Rightarrow> string \<Rightarrow> string \<Rightarrow> play_turn list \<Rightarrow> ('w, play_session) play_action" where
  "append_turns pv agent i new =
     andthen (get_session agent i) (\<lambda>found.
       case found of
         None \<Rightarrow> raising (play_session_not_found i)
       | Some r \<Rightarrow>
           andthen (play_time pv) (\<lambda>now.
             let r' = r\<lparr>py_turns := py_turns r @ new, py_updated := now\<rparr>
             in andthen (put_session_row r') (\<lambda>_. ret r')))"

section \<open>The model router\<close>

definition provider_prefixes :: "(string \<times> string) list" where
  "provider_prefixes = [(''bedrock'', ''bedrock/''), (''azure_openai'', ''azure/''), (''self_hosted'', ''openai/'')]"

definition unsupported_provider :: "string \<Rightarrow> pyexn" where
  "unsupported_provider p =
     ValueError (''Unsupported model_provider '' @ repr_str p @ ''; expected one of ['' @ [CHR 0x27] @ ''azure_openai'' @ [CHR 0x27]
       @ '', '' @ [CHR 0x27] @ ''bedrock'' @ [CHR 0x27] @ '', '' @ [CHR 0x27] @ ''self_hosted'' @ [CHR 0x27] @ '']'')"

definition completion_of :: "pyval \<Rightarrow> pyval \<Rightarrow> (string \<times> string) list \<Rightarrow> string \<Rightarrow> completion" where
  "completion_of cfg temperature messages prefix_text =
     (let m = prefix_text @ text_of (dict_get ''model_id'' cfg); fb = dict_get ''fallback_model_string'' cfg
      in \<lparr>cp_model = m, cp_messages = messages, cp_max_tokens = dict_get ''max_tokens'' cfg, cp_temperature = temperature,
          cp_fallbacks = (if py_truthy fb then Some [(m, [text_of fb])] else None)\<rparr>)"

datatype model_failure = Provider pyexn | Completion llm_failure

definition call_model ::
  "'w play_services \<Rightarrow> pyval \<Rightarrow> pyval \<Rightarrow> (string \<times> string) list
     \<Rightarrow> ('w, model_failure + string \<times> rat option \<times> usage option) play_action" where
  "call_model pv cfg temperature messages =
     (let p = text_of (dict_get ''model_provider'' cfg)
      in case map_of provider_prefixes p of
           None \<Rightarrow> ret (Inl (Provider (unsupported_provider p)))
         | Some x \<Rightarrow>
             (let c = completion_of cfg temperature messages x
              in andthen (modifies (\<lambda>s. s\<lparr>pg_calls := pg_calls s @ [c]\<rparr>)) (\<lambda>_.
                   in_platform (on_world (\<lambda>w. case pv_complete pv c w of
                       (Inl e, w') \<Rightarrow> (Inr (Inl (Completion e)), w') | (Inr a, w') \<Rightarrow> (Inr (Inr a), w'))))))"

text \<open>The class of a failed call and what is said of it; the whole is the body of the answer, here as its JSON.\<close>

definition model_error_class :: "model_failure \<Rightarrow> string \<times> string" where
  "model_error_class f =
     (case f of
        Provider e \<Rightarrow> (''llm_unknown'', case e of ValueError m \<Rightarrow> m | _ \<Rightarrow> [])
      | Completion (LlmAuthentication m) \<Rightarrow>
          (''llm_auth_failed'', ''Model provider credentials are invalid or the model is not enabled.'')
      | Completion (LlmUnreachable m) \<Rightarrow> (''llm_timeout'', ''Model provider did not respond in time.'')
      | Completion (LlmOther m) \<Rightarrow> (''llm_unknown'', m))"

definition classify_llm_error :: "pyval \<Rightarrow> model_failure \<Rightarrow> string" where
  "classify_llm_error cfg f =
     json_dumps (PDict [(''error'', PStr (fst (model_error_class f))), (''message'', PStr (snd (model_error_class f))),
       (''provider'', dict_get ''model_provider'' cfg), (''model_id'', dict_get ''model_id'' cfg)])"

section \<open>Mock mode\<close>

definition mock_value :: "pyval \<Rightarrow> pyval" where
  "mock_value schema =
     (let t = dict_get ''title'' schema; d = dict_get ''description'' schema
      in if py_truthy t then t else if py_truthy d then d else PStr ''mock value'')"

definition first_item :: "pyval \<Rightarrow> pyexn + pyval" where
  "first_item v =
     (case v of
        PList (x # xs) \<Rightarrow> Inr x
      | PStr (c # cs) \<Rightarrow> Inr (PStr [c])
      | PDict kvs \<Rightarrow> Inl (KeyError ''0'')
      | _ \<Rightarrow> Inl (TypeError ''object is not subscriptable''))"

text \<open>The fields of a schema's \<open>properties\<close> are looked at in place, so that the recursion is structural.\<close>

fun mock_example :: "pyval \<Rightarrow> pyexn + pyval"
  and mock_properties :: "(string \<times> pyval) list \<Rightarrow> pyexn + (string \<times> pyval) list"
  and mock_fields :: "pyval \<Rightarrow> pyexn + (string \<times> pyval) list"
  and mock_entries :: "(string \<times> pyval) list \<Rightarrow> pyexn + (string \<times> pyval) list" where
  "mock_example (PDict kvs) =
     (let schema = PDict kvs; e = dict_get ''enum'' schema; t = dict_get ''type'' schema
      in if py_truthy e then first_item e
         else if t = PStr ''object'' \<or> (t = PNone \<and> map_of kvs ''properties'' \<noteq> None)
         then (case mock_properties kvs of Inl err \<Rightarrow> Inl err | Inr fs \<Rightarrow> Inr (PDict fs))
         else if t = PStr ''array'' then Inr (PList [])
         else if t = PStr ''integer'' then Inr (PInt 0)
         else if t = PStr ''number'' then Inr (PFloat ''0.0'')
         else if t = PStr ''boolean'' then Inr (PBool False)
         else if t = PStr ''string'' then Inr (mock_value schema)
         else Inr PNone)"
| "mock_example v = Inl (AttributeError ''get'')"
| "mock_properties [] = Inr []"
| "mock_properties ((k, v) # kvs) = (if k = ''properties'' then mock_fields v else mock_properties kvs)"
| "mock_fields (PDict kvs) = mock_entries kvs"
| "mock_fields v = Inl (AttributeError ''items'')"
| "mock_entries [] = Inr []"
| "mock_entries ((k, v) # kvs) =
     (case mock_example v of
        Inl err \<Rightarrow> Inl err
      | Inr x \<Rightarrow> (case mock_entries kvs of Inl err \<Rightarrow> Inl err | Inr xs \<Rightarrow> Inr ((k, x) # xs)))"

definition mock_reply :: "pyval \<Rightarrow> pyexn + string" where
  "mock_reply cfg =
     (let os = dict_get ''output_schema'' cfg; sd = dict_get ''schema_definition'' os
      in if os \<noteq> PNone \<and> dict_get ''format'' os = PStr ''json'' \<and> py_truthy sd
         then (case mock_example sd of Inl e \<Rightarrow> Inl e | Inr v \<Rightarrow> Inr (json_dumps v))
         else Inr ''Mock response -- LLM not called.'')"

definition memory_entries :: "pyval \<Rightarrow> nat \<Rightarrow> nat" where
  "memory_entries cfg n = (if dict_get ''memory_type'' (dict_get ''memory'' cfg) = PStr ''none'' then 0 else n)"

definition risk_keywords :: "string list" where
  "risk_keywords = [''risk'', ''score'', ''transfer'', ''aml'', ''financial crime'']"

definition identity_keywords :: "string list" where
  "identity_keywords = [''identity'', ''name'', ''dob'', ''passport'', ''verify'']"

text \<open>\<open>\bid\b\<close> in a lower-case text.\<close>

definition word_character :: "char \<Rightarrow> bool" where
  "word_character c =
     (let n = (of_char c :: nat)
      in 48 \<le> n \<and> n \<le> 57 \<or> 65 \<le> n \<and> n \<le> 90 \<or> 97 \<le> n \<and> n \<le> 122 \<or> n = 95 \<or> 192 \<le> n \<and> n \<noteq> 215 \<and> n \<noteq> 247)"

fun has_id_word :: "bool \<Rightarrow> string \<Rightarrow> bool" where
  "has_id_word inside [] = False"
| "has_id_word inside (c # cs) =
     ((\<not> inside \<and> starts_with ''id'' (c # cs) \<and> (case drop 1 cs of [] \<Rightarrow> True | d # ds \<Rightarrow> \<not> word_character d))
      \<or> has_id_word (word_character c) cs)"

definition find_sub_agent :: "string list \<Rightarrow> string \<Rightarrow> string option" where
  "find_sub_agent names fragment = find (\<lambda>n. contains_text (py_lower fragment) (py_lower n)) names"

definition routing_note :: string where
  "routing_note = ''Routing is simulated in mock mode -- no real LLM-based dispatch occurred.''"

definition sub_agent_names :: "pyval \<Rightarrow> string list" where
  "sub_agent_names cfg = map (\<lambda>a. text_of (dict_get ''agent_name'' a)) (items_of (dict_get ''sub_agents'' (dict_get ''orchestration'' cfg)))"

definition mock_routing_decision :: "string \<Rightarrow> pyval \<Rightarrow> string \<Rightarrow> (string \<times> string) option" where
  "mock_routing_decision agent_type cfg message =
     (let names = sub_agent_names cfg; l = py_lower message
      in if agent_type \<noteq> ''orchestrator'' \<or> names = [] then None
         else
           (let by_risk = (if list_ex (\<lambda>k. contains_text k l) risk_keywords then find_sub_agent names ''risk'' else None);
                chosen = (case by_risk of
                  Some n \<Rightarrow> Some n
                | None \<Rightarrow> if list_ex (\<lambda>k. contains_text k l) identity_keywords \<or> has_id_word False l
                          then find_sub_agent names ''identity'' else None)
            in Some (''Orchestrator selected: '' @ get_or (hd names) chosen, routing_note)))"

text \<open>The score after the word: at most ten characters that are no digits, then 0 or 1 with its decimals.\<close>

definition digits_value :: "string \<Rightarrow> rat" where
  "digits_value ds = foldl (\<lambda>n c. n * 10 + of_nat (of_char c - 48)) 0 ds"

definition decimals_value :: "string \<Rightarrow> rat" where
  "decimals_value ds = digits_value ds / 10 ^ length ds"

definition score_after :: "string \<Rightarrow> rat option" where
  "score_after s =
     (let gap = takeWhile (\<lambda>c. \<not> is_digit c) s
      in if length gap > 10 then None
         else case drop (length gap) s of
           [] \<Rightarrow> None
         | d # ds \<Rightarrow>
             (if d \<noteq> CHR ''0'' \<and> d \<noteq> CHR ''1'' then None
              else Some (digits_value [d] + (case ds of
                [] \<Rightarrow> 0
              | p # fs \<Rightarrow> if p = CHR ''.'' then decimals_value (takeWhile is_digit fs) else 0))))"

fun extract_score :: "string \<Rightarrow> rat option" where
  "extract_score [] = None"
| "extract_score (c # cs) =
     (case (if starts_with ''score'' (py_lower (c # cs)) then score_after (drop 4 cs)
            else if starts_with ''risk'' (py_lower (c # cs)) then score_after (drop 3 cs) else None) of
        Some x \<Rightarrow> Some x
      | None \<Rightarrow> extract_score cs)"

text \<open>The value of a stored number: an integer, or a float by its text.\<close>

definition plain_value :: "string \<Rightarrow> rat" where
  "plain_value s = (let i = takeWhile (\<lambda>c. c \<noteq> CHR ''.'') s in digits_value i + decimals_value (drop (Suc (length i)) s))"

definition float_value :: "string \<Rightarrow> rat" where
  "float_value s =
     (let sg = (if starts_with ''-'' s then -1 else 1); u = (if starts_with ''-'' s then drop 1 s else s);
          m = takeWhile (\<lambda>c. c \<noteq> CHR ''e'') u; e = drop (Suc (length m)) u
      in sg * plain_value m *
         (if e = [] then 1
          else if starts_with ''-'' e then 1 / 10 ^ nat \<lfloor>digits_value (drop 1 e)\<rfloor>
          else 10 ^ nat \<lfloor>digits_value (drop 1 e)\<rfloor>))"

definition number_value :: "pyval \<Rightarrow> rat" where
  "number_value v = (case v of PInt i \<Rightarrow> of_int i | PFloat s \<Rightarrow> float_value s | _ \<Rightarrow> 0)"

definition mock_hitl_status :: "pyval \<Rightarrow> string \<Rightarrow> string" where
  "mock_hitl_status cfg message =
     (let h = dict_get ''hitl'' cfg; th = dict_get ''threshold'' h
      in if h = PNone \<or> \<not> py_truthy (dict_get ''enabled'' h) \<or> th = PNone then ''SUCCESS''
         else (case extract_score message of
                 None \<Rightarrow> ''SUCCESS''
               | Some x \<Rightarrow> if x \<ge> number_value th then ''HITL_PENDING'' else ''SUCCESS''))"

section \<open>A turn\<close>

record play_overrides =
  po_disable_guardrails :: bool
  po_temperature :: "pyval option"
  po_clear_memory :: bool

definition no_overrides :: play_overrides where
  "no_overrides = \<lparr>po_disable_guardrails = False, po_temperature = None, po_clear_memory = False\<rparr>"

record play_request =
  pq_message :: string
  pq_session :: "string option"
  pq_overrides :: play_overrides

record play_metrics =
  pm_guardrail_ms :: int
  pm_retrieval_ms :: int
  pm_llm_ms :: int
  pm_total_ms :: int
  pm_input :: "int option"
  pm_output :: "int option"
  pm_cost :: "rat option"
  pm_layers :: "(string \<times> string \<times> rat option) list"
  pm_kb_chunks :: "nat option"
  pm_memory :: nat
  pm_routing :: "(string \<times> string) option"

record play_reply =
  pr_session :: string
  pr_blocked :: bool
  pr_message :: string
  pr_status :: string
  pr_metrics :: play_metrics

definition play_error :: "int \<Rightarrow> string \<Rightarrow> ('w, 'a) play_action" where
  "play_error n d = raising (HttpError n d)"

definition reject_overrides_if_not_admin :: "play_overrides \<Rightarrow> user_row \<Rightarrow> ('w, unit) play_action" where
  "reject_overrides_if_not_admin ov u =
     (if us_role u = ''admin'' then ret ()
      else if ov \<noteq> no_overrides
      then play_error 403 ''Playground overrides (disable_guardrails, temperature, clear_memory) are admin-only''
      else ret ())"

definition turn_pair :: "play_session \<Rightarrow> int \<Rightarrow> string \<Rightarrow> string \<Rightarrow> play_turn list" where
  "turn_pair s now message reply =
     [\<lparr>pn_id = length (py_turns s), pn_role = ''user'', pn_content = message, pn_at = now\<rparr>,
      \<lparr>pn_id = length (py_turns s) + 1, pn_role = ''assistant'', pn_content = reply, pn_at = now\<rparr>]"

definition mock_turn ::
  "'w play_services \<Rightarrow> agent_record \<Rightarrow> pyval \<Rightarrow> play_session \<Rightarrow> string \<Rightarrow> ('w, play_reply) play_action" where
  "mock_turn pv r cfg s message =
     (case mock_reply cfg of
        Inl e \<Rightarrow> raising e
      | Inr text \<Rightarrow>
          andthen (play_time pv) (\<lambda>now.
          andthen (append_turns pv (ag_id r) (py_id s) (turn_pair s now message text)) (\<lambda>s'.
            ret \<lparr>pr_session = py_id s', pr_blocked = False, pr_message = text, pr_status = mock_hitl_status cfg message,
                 pr_metrics = \<lparr>pm_guardrail_ms = 0, pm_retrieval_ms = 0, pm_llm_ms = 0, pm_total_ms = 0, pm_input = Some 120,
                   pm_output = Some 64, pm_cost = Some 0, pm_layers = [], pm_kb_chunks = None,
                   pm_memory = memory_entries cfg (length (py_turns s')),
                   pm_routing = mock_routing_decision (ag_type r) cfg message\<rparr>\<rparr>)))"

text \<open>The elapsed milliseconds of a program, by the performance counter before and after it.\<close>

definition timed :: "'w play_services \<Rightarrow> ('w, 'a) play_action \<Rightarrow> ('w, 'a \<times> rat) play_action" where
  "timed pv m =
     andthen (reads (\<lambda>s. pv_perf pv (fc_world (pl_factory (pg_platform s))))) (\<lambda>before.
     andthen m (\<lambda>x.
     andthen (reads (\<lambda>s. pv_perf pv (fc_world (pl_factory (pg_platform s))))) (\<lambda>after. ret (x, (after - before) * 1000))))"

definition layer_summaries :: "guardrail_decision \<Rightarrow> (string \<times> string \<times> rat option) list" where
  "layer_summaries d = map (\<lambda>l. (ly_layer l, ly_action l, ly_confidence l)) (gn_layers d)"

text \<open>What the guardrail says of a text; without a policy it is not asked.\<close>

definition judged ::
  "'w play_services \<Rightarrow> (guardrail_policy \<Rightarrow> ('w, guardrail_decision) prog) \<Rightarrow> guardrail_policy option
     \<Rightarrow> ('w, guardrail_decision option \<times> rat) play_action" where
  "judged pv check policy =
     (case policy of
        None \<Rightarrow> ret (None, 0)
      | Some p \<Rightarrow> andthen (timed pv (in_platform (on_world (check p)))) (\<lambda>(d, ms). ret (Some d, ms)))"

definition blocked_by :: "guardrail_decision option \<Rightarrow> bool" where
  "blocked_by d = (case d of None \<Rightarrow> False | Some x \<Rightarrow> gn_blocked x)"

definition layers_by :: "guardrail_decision option \<Rightarrow> (string \<times> string \<times> rat option) list" where
  "layers_by d = (case d of None \<Rightarrow> [] | Some x \<Rightarrow> layer_summaries x)"

definition blocked_text :: "guardrail_policy option \<Rightarrow> string" where
  "blocked_text policy =
     (case policy of None \<Rightarrow> ''This message was blocked by a guardrail policy.'' | Some p \<Rightarrow> bm_content (gp_messages p))"

definition cleared_text :: "guardrail_decision option \<Rightarrow> string \<Rightarrow> string" where
  "cleared_text d text = (case d of None \<Rightarrow> text | Some x \<Rightarrow> get_or text (gn_text x))"

record play_result =
  tr_blocked :: bool
  tr_text :: string
  tr_cost :: "rat option"
  tr_usage :: "usage option"
  tr_guard_ms :: rat
  tr_llm_ms :: rat
  tr_layers :: "(string \<times> string \<times> rat option) list"

definition answer_turn ::
  "'w play_services \<Rightarrow> pyval \<Rightarrow> guardrail_policy option \<Rightarrow> pyval \<Rightarrow> string \<Rightarrow> ('w, play_result) play_action" where
  "answer_turn pv cfg policy temperature message =
     andthen (judged pv (check_input (ps_engine (pv_platform pv)) message) policy) (\<lambda>(asked, ms_in).
       if blocked_by asked
       then ret \<lparr>tr_blocked = True, tr_text = blocked_text policy, tr_cost = None, tr_usage = None, tr_guard_ms = ms_in,
                 tr_llm_ms = 0, tr_layers = layers_by asked\<rparr>
       else
         andthen (timed pv (call_model pv cfg temperature
             [(''system'', text_of (dict_get ''system_prompt'' cfg)), (''user'', message)])) (\<lambda>(answer, ms_llm).
           case answer of
             Inl f \<Rightarrow> play_error 502 (classify_llm_error cfg f)
           | Inr (text, cost, us) \<Rightarrow>
               andthen (judged pv (check_output (ps_engine (pv_platform pv)) text) policy) (\<lambda>(said, ms_out).
                 ret \<lparr>tr_blocked = blocked_by said,
                      tr_text = (if blocked_by said then blocked_text policy else cleared_text said text),
                      tr_cost = cost, tr_usage = us, tr_guard_ms = ms_in + ms_out, tr_llm_ms = ms_llm,
                      tr_layers = layers_by asked @ layers_by said\<rparr>)))"

definition audit_turn ::
  "'w play_services \<Rightarrow> user_row \<Rightarrow> string \<Rightarrow> int \<Rightarrow> play_result \<Rightarrow> ('w, unit) play_action" where
  "audit_turn pv u agent now x =
     (if tr_layers x = [] then ret ()
      else andthen (in_platform (write_audit (pv_platform pv) (pv_trail pv)
             \<lparr>ae_type = ''guardrail_decision'', ae_tenant = us_tenant u, ae_agent = Some agent, ae_actor = us_email u,
              ae_summary = ''playground: '' @ nat_text (length (tr_layers x)) @ '' guardrail layer(s) evaluated, blocked=''
                @ (if tr_blocked x then ''True'' else ''False''),
              ae_at = cl_iso (ps_cloud (pv_platform pv)) now\<rparr>)) (\<lambda>_. ret ()))"

definition policy_of_turn :: "user_row \<Rightarrow> pyval \<Rightarrow> play_overrides \<Rightarrow> ('w, guardrail_policy option) play_action" where
  "policy_of_turn u cfg ov =
     (let i = dict_get ''guardrail_policy_id'' cfg
      in if py_truthy i \<and> \<not> po_disable_guardrails ov
         then in_platform (on_policies (get_policy (us_tenant u) (text_of i)))
         else ret None)"

definition live_turn ::
  "'w play_services \<Rightarrow> user_row \<Rightarrow> agent_record \<Rightarrow> pyval \<Rightarrow> play_session \<Rightarrow> play_request \<Rightarrow> ('w, play_reply) play_action" where
  "live_turn pv u r cfg s q =
     andthen (policy_of_turn u cfg (pq_overrides q)) (\<lambda>policy.
     andthen (answer_turn pv cfg policy (get_or (dict_get ''temperature'' cfg) (po_temperature (pq_overrides q))) (pq_message q)) (\<lambda>x.
     andthen (timed pv (ret (if dict_get ''kb_id'' cfg = PNone then None else Some 0))) (\<lambda>(kb, ms_kb).
     andthen (play_time pv) (\<lambda>now.
     andthen (append_turns pv (ag_id r) (py_id s) (turn_pair s now (pq_message q) (tr_text x))) (\<lambda>s'.
     andthen (audit_turn pv u (ag_id r) now x) (\<lambda>_.
       ret \<lparr>pr_session = py_id s', pr_blocked = tr_blocked x, pr_message = tr_text x, pr_status = ''SUCCESS'',
            pr_metrics = \<lparr>pm_guardrail_ms = round_half_even (tr_guard_ms x), pm_retrieval_ms = round_half_even ms_kb,
              pm_llm_ms = round_half_even (tr_llm_ms x), pm_total_ms = round_half_even (tr_guard_ms x + ms_kb + tr_llm_ms x),
              pm_input = map_option us_input (tr_usage x), pm_output = map_option us_output (tr_usage x), pm_cost = tr_cost x,
              pm_layers = tr_layers x, pm_kb_chunks = kb, pm_memory = memory_entries cfg (length (py_turns s')),
              pm_routing = None\<rparr>\<rparr>))))))"

definition run_playground_turn ::
  "'w play_services \<Rightarrow> user_row \<Rightarrow> string \<Rightarrow> bool \<Rightarrow> play_request \<Rightarrow> ('w, play_reply) play_action" where
  "run_playground_turn pv u agent mock q =
     andthen (reject_overrides_if_not_admin (pq_overrides q) u) (\<lambda>_.
     andthen (in_platform (on_agents (get_agent (us_tenant u) agent))) (\<lambda>found.
       case found of
         None \<Rightarrow> play_error 404 (''Agent '' @ repr_str agent @ '' not found'')
       | Some r \<Rightarrow>
           andthen (in_platform (on_agents (get_version agent (ag_current_version r)))) (\<lambda>v.
             case v of
               None \<Rightarrow> play_error 500 (''Current version '' @ int_text (ag_current_version r) @ '' missing for agent '' @ repr_str agent)
             | Some w \<Rightarrow>
                 andthen (get_or_create_session pv (us_tenant u) agent
                     (if po_clear_memory (pq_overrides q) then None else pq_session q)) (\<lambda>s.
                   if mock \<or> pv_mock pv then mock_turn pv r (vr_config w) s (pq_message q)
                   else live_turn pv u r (vr_config w) s q))))"

definition serve_playground ::
  "'w play_services \<Rightarrow> string option \<Rightarrow> string \<Rightarrow> bool \<Rightarrow> play_request \<Rightarrow> ('w, play_reply) play_action" where
  "serve_playground pv token agent mock q =
     andthen (in_platform (get_current_user (pv_platform pv) token)) (\<lambda>u.
     andthen (in_platform (require_role read_roles u)) (\<lambda>_. run_playground_turn pv u agent mock q))"

section \<open>What a turn may do\<close>

text \<open>The sessions and the calls to the model.\<close>

definition play_view :: "'w play_state \<Rightarrow> ((string \<times> string) \<times> play_session) list \<times> completion list" where
  "play_view s = (pg_sessions s, pg_calls s)"

lemma platform_play_view [frame_intros]: "stays_in (same play_view) (in_platform m)"
  by (auto simp: stays_in_def same_def in_platform_def on_part_def play_view_def split: prod.splits)

lemma quiet_play_view [frame_intros]:
  "stays_in (same play_view) (play_time pv)" "stays_in (same play_view) (play_error n d)"
  "stays_in (same play_view) (get_session agent i)" "stays_in (same play_view) (audit_turn pv u agent now x)"
  "stays_in (same play_view) (policy_of_turn u cfg ov)" "stays_in (same play_view) (reject_overrides_if_not_admin ov u)"
  unfolding play_time_def play_error_def get_session_def audit_turn_def policy_of_turn_def Let_def
    reject_overrides_if_not_admin_def
  by (intro frame_intros)+

lemma timed_play_view [frame_intros]: "stays_in (same play_view) m \<Longrightarrow> stays_in (same play_view) (timed pv m)"
  unfolding timed_def by (intro frame_intros)

lemma judged_play_view [frame_intros]: "stays_in (same play_view) (judged pv check policy)"
  unfolding judged_def by (intro frame_intros)

lemma timed_run:
  assumes "timed pv m s = (Inr (x, ms), t)"
  shows "m s = (Inr x, t)"
  using assms by (auto simp: timed_def prog_simps split: prod.splits sum.splits)

text \<open>A text the guardrail let pass, in some state of the world, and the text it made of it.\<close>

definition let_pass :: "(guardrail_policy \<Rightarrow> ('w, guardrail_decision) prog) \<Rightarrow> guardrail_policy option \<Rightarrow> string \<Rightarrow> string \<Rightarrow> bool" where
  "let_pass check policy text text' \<longleftrightarrow>
     (case policy of
        None \<Rightarrow> text' = text
      | Some p \<Rightarrow> \<exists>w d w'. check p w = (Inr d, w') \<and> \<not> gn_blocked d \<and> text' = get_or text (gn_text d))"

lemma judged_run:
  assumes "judged pv check policy s = (Inr (d, ms), t)"
  shows "play_view t = play_view s" "\<not> blocked_by d \<Longrightarrow> let_pass check policy text (cleared_text d text)"
    "blocked_by d \<Longrightarrow> policy \<noteq> None"
proof -
  show "play_view t = play_view s"
    using assms by (rule same_outcome [rotated]) (intro frame_intros)
  show "\<not> blocked_by d \<Longrightarrow> let_pass check policy text (cleared_text d text)"
  proof (cases policy)
    case (Some p)
    assume nb: "\<not> blocked_by d"
    from assms Some obtain x where d: "d = Some x" and run: "timed pv (in_platform (on_world (check p))) s = (Inr (x, ms), t)"
      by (auto simp: judged_def ret_def elim!: andthen_cases split: prod.splits)
    from timed_run [OF run] obtain w w' where "check p w = (Inr x, w')"
      by (auto simp: in_platform_def on_world_def on_part_def split: prod.splits)
    with d nb Some show ?thesis by (auto simp: let_pass_def cleared_text_def blocked_by_def)
  qed (use assms in \<open>simp add: judged_def let_pass_def cleared_text_def ret_def\<close>)
  show "blocked_by d \<Longrightarrow> policy \<noteq> None"
    using assms by (cases policy) (auto simp: judged_def blocked_by_def ret_def)
qed

lemma call_model_run:
  assumes "call_model pv cfg temperature ms s = (q, t)"
  shows "pg_sessions t = pg_sessions s \<and> (\<exists>cs. pg_calls t = pg_calls s @ cs \<and> length cs \<le> 1 \<and> (\<forall>c \<in> set cs. cp_messages c = ms))"
proof (cases "map_of provider_prefixes (text_of (dict_get ''model_provider'' cfg))")
  case None
  with assms show ?thesis by (auto simp: call_model_def ret_def Let_def)
next
  case (Some x)
  define c where "c = completion_of cfg temperature ms x"
  from assms Some have "in_platform (on_world (\<lambda>w. case pv_complete pv c w of
      (Inl e, w') \<Rightarrow> (Inr (Inl (Completion e)), w') | (Inr a, w') \<Rightarrow> (Inr (Inr a), w'))) (s\<lparr>pg_calls := pg_calls s @ [c]\<rparr>) = (q, t)"
    by (simp add: call_model_def c_def Let_def andthen_def modifies_def)
  then have "play_view t = play_view (s\<lparr>pg_calls := pg_calls s @ [c]\<rparr>)"
    by (rule same_outcome [rotated]) (intro frame_intros)
  moreover have "cp_messages c = ms" by (simp add: c_def completion_of_def Let_def)
  ultimately show ?thesis by (auto simp: play_view_def)
qed

definition guarded_result ::
  "'w play_services \<Rightarrow> guardrail_policy option \<Rightarrow> string \<Rightarrow> play_result \<Rightarrow> 'w play_state \<Rightarrow> 'w play_state \<Rightarrow> bool" where
  "guarded_result pv policy message x s t \<longleftrightarrow>
     (let en = ps_engine (pv_platform pv) in
      (tr_blocked x \<and> policy \<noteq> None \<and> tr_text x = blocked_text policy \<or>
       \<not> tr_blocked x \<and> (\<exists>text. let_pass (check_output en text) policy text (tr_text x))) \<and>
      (pg_calls t \<noteq> pg_calls s \<longrightarrow> (\<exists>m. let_pass (check_input en message) policy message m)) \<and>
      length (pg_calls t) \<le> Suc (length (pg_calls s)))"

lemma answer_turn_run:
  assumes "answer_turn pv cfg policy temperature message s = (Inr x, t)"
  shows "pg_sessions t = pg_sessions s" "guarded_result pv policy message x s t"
proof -
  define en where "en = ps_engine (pv_platform pv)"
  from assms obtain asked ms1 s1 where j: "judged pv (check_input en message) policy s = (Inr (asked, ms1), s1)"
    and rest: "(if blocked_by asked
       then ret \<lparr>tr_blocked = True, tr_text = blocked_text policy, tr_cost = None, tr_usage = None, tr_guard_ms = ms1,
                 tr_llm_ms = 0, tr_layers = layers_by asked\<rparr>
       else
         andthen (timed pv (call_model pv cfg temperature
             [(''system'', text_of (dict_get ''system_prompt'' cfg)), (''user'', message)])) (\<lambda>(answer, ms_llm).
           case answer of
             Inl f \<Rightarrow> play_error 502 (classify_llm_error cfg f)
           | Inr (text, cost, us) \<Rightarrow>
               andthen (judged pv (check_output en text) policy) (\<lambda>(said, ms_out).
                 ret \<lparr>tr_blocked = blocked_by said,
                      tr_text = (if blocked_by said then blocked_text policy else cleared_text said text),
                      tr_cost = cost, tr_usage = us, tr_guard_ms = ms1 + ms_out, tr_llm_ms = ms_llm,
                      tr_layers = layers_by asked @ layers_by said\<rparr>))) s1 = (Inr x, t)"
    unfolding answer_turn_def en_def by (auto elim!: andthen_cases)
  note j1 = judged_run(1) [OF j] judged_run(2) [OF j, of message] judged_run(3) [OF j]
  show "pg_sessions t = pg_sessions s" "guarded_result pv policy message x s t"
  proof (atomize (full), cases "blocked_by asked")
    case True
    with rest j1 show "pg_sessions t = pg_sessions s \<and> guarded_result pv policy message x s t"
      by (auto simp: ret_def guarded_result_def play_view_def Let_def)
  next
    case False
    with rest obtain answer ms2 s2 where c: "timed pv (call_model pv cfg temperature
        [(''system'', text_of (dict_get ''system_prompt'' cfg)), (''user'', message)]) s1 = (Inr (answer, ms2), s2)"
      and r2: "(case answer of
             Inl f \<Rightarrow> play_error 502 (classify_llm_error cfg f)
           | Inr (text, cost, us) \<Rightarrow>
               andthen (judged pv (check_output en text) policy) (\<lambda>(said, ms_out).
                 ret \<lparr>tr_blocked = blocked_by said,
                      tr_text = (if blocked_by said then blocked_text policy else cleared_text said text),
                      tr_cost = cost, tr_usage = us, tr_guard_ms = ms1 + ms_out, tr_llm_ms = ms2,
                      tr_layers = layers_by asked @ layers_by said\<rparr>)) s2 = (Inr x, t)"
      by (auto elim!: andthen_cases)
    note called = call_model_run [OF timed_run [OF c]]
    from r2 obtain words cost us said ms3 where o: "judged pv (check_output en words) policy s2 = (Inr (said, ms3), t)"
      and x: "tr_blocked x = blocked_by said" "tr_text x = (if blocked_by said then blocked_text policy else cleared_text said words)"
      by (cases answer) (auto simp: play_error_def raising_def ret_def elim!: andthen_cases split: prod.splits)
    note j2 = judged_run(1) [OF o] judged_run(2) [OF o, of words] judged_run(3) [OF o]
    from j1 j2 called x False show "pg_sessions t = pg_sessions s \<and> guarded_result pv policy message x s t"
      unfolding guarded_result_def Let_def en_def [symmetric] play_view_def by fastforce
  qed
qed


lemma append_turns_run:
  assumes "append_turns pv agent i new s = (Inr r, t)"
  shows "pg_calls t = pg_calls s" "map_of (pg_sessions t) (py_agent r, py_id r) = Some r"
    "drop (length (py_turns r) - length new) (py_turns r) = new"
proof -
  from assms obtain r0 s1 now s2 where g: "get_session agent i s = (Inr (Some r0), s1)" and n: "play_time pv s1 = (Inr now, s2)"
    and r: "r = r0\<lparr>py_turns := py_turns r0 @ new, py_updated := now\<rparr>" and p: "put_session_row r s2 = (Inr (), t)"
    by (auto simp: append_turns_def Let_def raising_def ret_def elim!: andthen_cases split: option.splits)
  have "play_view s1 = play_view s" using g by (rule same_outcome [rotated]) (intro frame_intros)
  moreover have "play_view s2 = play_view s1" using n by (rule same_outcome [rotated]) (intro frame_intros)
  ultimately have v: "play_view s2 = play_view s" by simp
  from p v show "pg_calls t = pg_calls s" by (auto simp: put_session_row_def modifies_def play_view_def)
  from p show "map_of (pg_sessions t) (py_agent r, py_id r) = Some r"
    by (auto simp: put_session_row_def modifies_def update_conv')
  show "drop (length (py_turns r) - length new) (py_turns r) = new" by (simp add: r)
qed

lemma quiet_play_calls [frame_intros]:
  "stays_in (same pg_calls) (get_or_create_session pv tenant agent i)"
proof -
  have p: "stays_in (same pg_calls) (in_platform m)" for m :: "('w, 'b) platform_action"
    by (auto simp: stays_in_def same_def in_platform_def on_part_def split: prod.splits)
  have r: "stays_in (same pg_calls) (put_session_row r)" for r
    by (auto simp: stays_in_def same_def put_session_row_def modifies_def)
  have t: "stays_in (same pg_calls) (play_time pv)" by (simp add: play_time_def p)
  show ?thesis
    unfolding get_or_create_session_def create_session_def get_session_def Let_def
    by (intro frame_intros p r t)
qed

text \<open>The last two turns of a conversation: what was asked and what was answered.\<close>

definition turn_recorded :: "'w play_state \<Rightarrow> string \<Rightarrow> string \<Rightarrow> string \<Rightarrow> bool" where
  "turn_recorded t i message reply \<longleftrightarrow>
     (\<exists>a r. map_of (pg_sessions t) (a, i) = Some r \<and>
        map (\<lambda>n. (pn_role n, pn_content n)) (drop (length (py_turns r) - 2) (py_turns r))
          = [(''user'', message), (''assistant'', reply)])"

lemma pair_recorded:
  assumes "append_turns pv agent i (turn_pair s0 now message reply) s = (Inr r, t)"
  shows "turn_recorded t (py_id r) message reply" "pg_calls t = pg_calls s"
proof -
  show "turn_recorded t (py_id r) message reply"
    unfolding turn_recorded_def
    by (rule exI [of _ "py_agent r"], rule exI [of _ r])
       (use append_turns_run(2,3) [OF assms] in \<open>simp add: turn_pair_def numeral_2_eq_2\<close>)
  show "pg_calls t = pg_calls s" by (rule append_turns_run(1) [OF assms])
qed

lemma mock_turn_run:
  assumes "mock_turn pv r cfg s0 message s = (Inr reply, t)"
  shows "pg_calls t = pg_calls s" "turn_recorded t (pr_session reply) message (pr_message reply)" "\<not> pr_blocked reply"
proof -
  from assms obtain words now s1 s' where n: "play_time pv s = (Inr now, s1)"
    and a: "append_turns pv (ag_id r) (py_id s0) (turn_pair s0 now message words) s1 = (Inr s', t)"
    and x: "pr_session reply = py_id s'" "pr_message reply = words" "\<not> pr_blocked reply"
    by (auto simp: mock_turn_def raising_def ret_def elim!: andthen_cases split: sum.splits)
  have "play_view s1 = play_view s" using n by (rule same_outcome [rotated]) (intro frame_intros)
  with pair_recorded [OF a] x show "pg_calls t = pg_calls s" "turn_recorded t (pr_session reply) message (pr_message reply)"
      "\<not> pr_blocked reply"
    by (auto simp: play_view_def)
qed

lemma live_turn_run:
  assumes "live_turn pv u r cfg s0 q s = (Inr reply, t)"
  obtains policy s1 x t1 where "policy_of_turn u cfg (pq_overrides q) s = (Inr policy, s1)" "pg_calls s1 = pg_calls s"
    "guarded_result pv policy (pq_message q) x s t1" "pg_calls t1 = pg_calls t"
    "pr_blocked reply = tr_blocked x" "pr_message reply = tr_text x"
    "turn_recorded t (pr_session reply) (pq_message q) (pr_message reply)"
proof -
  from assms obtain policy s1 x t1 kb t2 now t3 s' t4 where p: "policy_of_turn u cfg (pq_overrides q) s = (Inr policy, s1)"
    and a: "answer_turn pv cfg policy (get_or (dict_get ''temperature'' cfg) (po_temperature (pq_overrides q))) (pq_message q) s1
          = (Inr x, t1)"
    and k: "timed pv (ret (if dict_get ''kb_id'' cfg = PNone then None else Some (0::nat))) t1 = (Inr kb, t2)"
    and n: "play_time pv t2 = (Inr now, t3)"
    and w: "append_turns pv (ag_id r) (py_id s0) (turn_pair s0 now (pq_message q) (tr_text x)) t3 = (Inr s', t4)"
    and d: "audit_turn pv u (ag_id r) now x t4 = (Inr (), t)"
    and x: "pr_session reply = py_id s'" "pr_blocked reply = tr_blocked x" "pr_message reply = tr_text x"
    unfolding live_turn_def by (auto simp: ret_def elim!: andthen_cases split: prod.splits)
  have v1: "play_view s1 = play_view s" using p by (rule same_outcome [rotated]) (intro frame_intros)
  have v2: "play_view t2 = play_view t1" using k by (rule same_outcome [rotated]) (intro frame_intros)
  have v3: "play_view t3 = play_view t2" using n by (rule same_outcome [rotated]) (intro frame_intros)
  have v4: "play_view t = play_view t4" using d by (rule same_outcome [rotated]) (intro frame_intros)
  note done_turn = pair_recorded [OF w]
  show thesis
  proof (rule that [OF p])
    show "pg_calls s1 = pg_calls s" using v1 by (simp add: play_view_def)
    show "guarded_result pv policy (pq_message q) x s t1"
      using answer_turn_run(2) [OF a] v1 by (simp add: guarded_result_def play_view_def)
    show "pg_calls t1 = pg_calls t" using v2 v3 v4 done_turn(2) by (simp add: play_view_def)
    show "turn_recorded t (pr_session reply) (pq_message q) (pr_message reply)"
      using done_turn(1) v4 x by (simp add: turn_recorded_def play_view_def)
  qed (use x in simp_all)
qed

text \<open>The answer of a served turn, and how it was judged.\<close>

definition answered_under ::
  "'w play_services \<Rightarrow> user_row \<Rightarrow> pyval \<Rightarrow> play_request \<Rightarrow> play_reply \<Rightarrow> 'w play_state \<Rightarrow> 'w play_state \<Rightarrow> bool" where
  "answered_under pv u cfg q reply s t \<longleftrightarrow>
     (\<exists>policy x (s1 :: 'w play_state) s2. policy_of_turn u cfg (pq_overrides q) s1 = (Inr policy, s2) \<and>
        guarded_result pv policy (pq_message q) x s t \<and> pr_blocked reply = tr_blocked x \<and> pr_message reply = tr_text x)"

lemma answered_under_calls:
  "answered_under pv u cfg q reply s t \<Longrightarrow> pg_calls s = pg_calls s' \<Longrightarrow> answered_under pv u cfg q reply s' t"
  unfolding answered_under_def guarded_result_def by simp

lemma overrides_need_admin:
  assumes "reject_overrides_if_not_admin ov u s = (Inr (), t)"
  shows "t = s" "ov \<noteq> no_overrides \<Longrightarrow> us_role u = ''admin''"
  using assms by (auto simp: reject_overrides_if_not_admin_def play_error_def raising_def ret_def split: if_splits)

lemma playground_turn_run:
  fixes pv :: "'w play_services"
  assumes "run_playground_turn pv u agent mock q s = (Inr reply, t)"
  shows "(pq_overrides q \<noteq> no_overrides \<longrightarrow> us_role u = ''admin'') \<and>
     turn_recorded t (pr_session reply) (pq_message q) (pr_message reply) \<and>
     (\<exists>(r :: agent_record) v (s1 :: 'w play_state) s2. in_platform (on_agents (get_version agent (ag_current_version r))) s1 = (Inr (Some v), s2) \<and>
        (if mock \<or> pv_mock pv then pg_calls t = pg_calls s \<and> \<not> pr_blocked reply
         else answered_under pv u (vr_config v) q reply s t))"
proof -
  from assms obtain r v s0 s1 s2 s3 where o: "reject_overrides_if_not_admin (pq_overrides q) u s = (Inr (), s0)"
    and a: "in_platform (on_agents (get_agent (us_tenant u) agent)) s0 = (Inr (Some r), s1)"
    and g: "in_platform (on_agents (get_version agent (ag_current_version r))) s1 = (Inr (Some v), s2)"
    and rest: "andthen (get_or_create_session pv (us_tenant u) agent
           (if po_clear_memory (pq_overrides q) then None else pq_session q)) (\<lambda>x.
         if mock \<or> pv_mock pv then mock_turn pv r (vr_config v) x (pq_message q)
         else live_turn pv u r (vr_config v) x q) s2 = (Inr reply, t)"
    unfolding run_playground_turn_def
    by (auto simp: play_error_def raising_def elim!: andthen_cases split: option.splits)
  from rest obtain x s4 where c: "get_or_create_session pv (us_tenant u) agent
           (if po_clear_memory (pq_overrides q) then None else pq_session q) s2 = (Inr x, s4)"
    and turn: "(if mock \<or> pv_mock pv then mock_turn pv r (vr_config v) x (pq_message q)
         else live_turn pv u r (vr_config v) x q) s4 = (Inr reply, t)"
    by (auto elim!: andthen_cases)
  have "play_view s1 = play_view s0" using a by (rule same_outcome [rotated]) (intro frame_intros)
  moreover have "play_view s2 = play_view s1" using g by (rule same_outcome [rotated]) (intro frame_intros)
  moreover have "pg_calls s4 = pg_calls s2" using c by (rule same_outcome [rotated]) (intro frame_intros)
  ultimately have calls: "pg_calls s4 = pg_calls s" using overrides_need_admin(1) [OF o] by (simp add: play_view_def)
  have "turn_recorded t (pr_session reply) (pq_message q) (pr_message reply) \<and>
      (if mock \<or> pv_mock pv then pg_calls t = pg_calls s \<and> \<not> pr_blocked reply
       else answered_under pv u (vr_config v) q reply s t)"
  proof (cases "mock \<or> pv_mock pv")
    case True
    with turn have "mock_turn pv r (vr_config v) x (pq_message q) s4 = (Inr reply, t)" by simp
    from mock_turn_run [OF this] True calls show ?thesis by simp
  next
    case False
    with turn have "live_turn pv u r (vr_config v) x q s4 = (Inr reply, t)" by simp
    then show ?thesis
    proof (rule live_turn_run)
      fix policy s5 y t1
      assume p: "policy_of_turn u (vr_config v) (pq_overrides q) s4 = (Inr policy, s5)"
        and gd: "guarded_result pv policy (pq_message q) y s4 t1" "pg_calls t1 = pg_calls t"
        and y: "pr_blocked reply = tr_blocked y" "pr_message reply = tr_text y"
        and rec: "turn_recorded t (pr_session reply) (pq_message q) (pr_message reply)"
      from gd calls have "guarded_result pv policy (pq_message q) y s t" by (simp add: guarded_result_def)
      with p y have "answered_under pv u (vr_config v) q reply s t" unfolding answered_under_def by blast
      with rec False show ?thesis by simp
    qed
  qed
  with overrides_need_admin(2) [OF o] g show ?thesis by blast
qed

end
