(* ===== verification/Agents.thy ===== *)
theory Agents
  imports SecurityLog AuditTrail IacRules CicdTemplates PlatformServer
begin

text \<open>
  The agents API (app/api/v1/agents.py): creation, versions, deployment, rollback, credentials; with
  the configuration validator (registry/config_validator.py), the secrets manager (secrets/manager.py)
  and the limit on revealing keys (middleware/rate_limit.py).
\<close>

section \<open>State\<close>

datatype git_call =
    RepositoryExists string | CreateRepository string | FileExists string string string
  | CreateBranch string string string | CommitFiles string string "(string \<times> string) list" string bool
  | CreatePullRequest string string string string

text \<open>How a call to the git host fails: httpx's two kinds of errors, a token without the workflow scope, anything else.\<close>

datatype git_failure = MissingScope string | HttpStatus int string | HttpDown string | OtherFailure pyexn

text \<open>A simulated run gets the configuration and the files that were pushed.\<close>

datatype background =
    SimulateRun string string string pyval "(string \<times> string) list" | ResumeRun string string string

record 'w backend =
  bk_platform :: "'w platform"
  bk_secrets :: "(string \<times> string) list"
  bk_reveals :: "((string \<times> string \<times> int) \<times> int) list"
  bk_log :: "pyval table"
  bk_git :: "git_call list"
  bk_tasks :: "background list"

type_synonym ('w, 'a) backend_action = "('w backend, 'a) prog"

record 'w agent_services =
  av_platform :: "'w platform_services"
  av_log :: "'w log_services"
  av_trail :: trail
  av_iac :: iac_settings
  av_checks :: "'w iac_tools"
  av_settings :: factory_settings
  av_mode :: string
  av_branch :: string
  av_region :: string
  av_extended :: bool
  av_simulate :: bool
  av_token :: "'w \<Rightarrow> string \<times> 'w"
  av_create_secret :: "string \<Rightarrow> 'w \<Rightarrow> (pyexn + string) \<times> 'w"
  av_read_secret :: "string \<Rightarrow> 'w \<Rightarrow> pyexn option \<times> 'w"
  av_redis :: "'w \<Rightarrow> bool \<times> 'w"
  av_git_asks :: "git_call \<Rightarrow> 'w \<Rightarrow> (git_failure + bool) \<times> 'w"
  av_git_does :: "git_call \<Rightarrow> 'w \<Rightarrow> (git_failure + string) \<times> 'w"
  av_publish :: "'w \<Rightarrow> pyexn option \<times> 'w"
  av_script :: string
  av_text :: "pyexn \<Rightarrow> string"

section \<open>Programs over a part\<close>

definition on_platform :: "('w, 'a) platform_action \<Rightarrow> ('w, 'a) backend_action" where
  "on_platform = on_part bk_platform (\<lambda>t s. s\<lparr>bk_platform := t\<rparr>)"

definition in_world :: "('w, 'a) prog \<Rightarrow> ('w, 'a) backend_action" where
  "in_world m = on_platform (on_world m)"

definition on_log :: "('w, 'a) log_action \<Rightarrow> ('w, 'a) backend_action" where
  "on_log = on_part (\<lambda>s. \<lparr>al_world = fc_world (pl_factory (bk_platform s)), al_rows = bk_log s\<rparr>)
     (\<lambda>l s. s\<lparr>bk_platform := (bk_platform s)\<lparr>pl_factory := (pl_factory (bk_platform s))\<lparr>fc_world := al_world l\<rparr>\<rparr>,
             bk_log := al_rows l\<rparr>)"

definition on_registry_of :: "'a reg_action \<Rightarrow> ('w, 'a) backend_action" where
  "on_registry_of m = on_platform (on_agents m)"

definition on_factory_of :: "('w, 'a) factory_action \<Rightarrow> ('w, 'a) backend_action" where
  "on_factory_of m = on_platform (on_factory m)"

definition time_now :: "'w agent_services \<Rightarrow> ('w, int) backend_action" where
  "time_now av = on_platform (the_time (av_platform av))"

text \<open>\<open>settings\<close> of the platform part.\<close>

definition cloud_of :: "'w agent_services \<Rightarrow> 'w cloud" where
  "cloud_of av = ps_cloud (av_platform av)"

definition sha_of :: "'w agent_services \<Rightarrow> string \<Rightarrow> string" where
  "sha_of av = ps_sha256 (av_platform av)"

definition iso_of :: "'w agent_services \<Rightarrow> int \<Rightarrow> string" where
  "iso_of av = cl_iso (cloud_of av)"

definition fails_with :: "int \<Rightarrow> string \<Rightarrow> ('w, 'a) backend_action" where
  "fails_with code detail = raising (HttpError code detail)"

definition no_agent :: "string \<Rightarrow> ('w, 'a) backend_action" where
  "no_agent agent = fails_with 404 (''Agent '' @ repr_str agent @ '' not found'')"

text \<open>\<open>except <class> as exc: raise HTTPException(code, detail=str(exc))\<close> for the registry's errors.\<close>

definition answering :: "(pyexn \<Rightarrow> int option) \<Rightarrow> ('w, 'a) backend_action \<Rightarrow> ('w, 'a) backend_action" where
  "answering code m =
     catching m (\<lambda>e. case code e of None \<Rightarrow> raising e | Some n \<Rightarrow> fails_with n (registry_error_text e))"

definition not_found_code :: "pyexn \<Rightarrow> int option" where
  "not_found_code e = (case e of UnknownAgentError _ \<Rightarrow> Some 404 | _ \<Rightarrow> None)"

definition rollback_route_code :: "pyexn \<Rightarrow> int option" where
  "rollback_route_code e =
     (case e of UnknownAgentError _ \<Rightarrow> Some 404 | VersionNotFoundError _ _ \<Rightarrow> Some 404
      | InvalidRollbackError _ \<Rightarrow> Some 400 | CircularDependencyError _ \<Rightarrow> Some 409 | _ \<Rightarrow> None)"

section \<open>Events\<close>

text \<open>
  \<open>_record_event\<close>: an audit event and a metric, and for some operations an event of the security
  log. None of the three raises.
\<close>

record route_event =
  ev_type :: string
  ev_metric :: string
  ev_summary :: string
  ev_security :: "(string \<times> string) option"
  ev_ip :: string

definition emit_to_metrics :: "string \<Rightarrow> string \<Rightarrow> ('w, unit) backend_action" where
  "emit_to_metrics name tenant = on_factory_of (emit_metric name tenant)"

definition record_event ::
  "'w agent_services \<Rightarrow> user_row \<Rightarrow> string \<Rightarrow> route_event \<Rightarrow> ('w, unit) backend_action" where
  "record_event av u agent ev =
     andthen (time_now av) (\<lambda>now.
     andthen (on_platform (write_audit (av_platform av) (av_trail av)
                \<lparr>ae_type = ev_type ev, ae_tenant = us_tenant u, ae_agent = Some agent, ae_actor = us_email u,
                 ae_summary = ev_summary ev, ae_at = iso_of av now\<rparr>)) (\<lambda>_.
     andthen (emit_to_metrics (ev_metric ev) (us_tenant u)) (\<lambda>_.
       case ev_security ev of
         None \<Rightarrow> ret ()
       | Some (ty, action) \<Rightarrow>
           on_log (write_event (av_log av) (us_tenant u)
             \<lparr>se_type = ty, se_agent = agent, se_principal = us_email u, se_action = action, se_resource = agent,
              se_result = ''success'', se_request = [], se_ip = ev_ip ev, se_extra = []\<rparr>))))"

definition change_event :: "string \<Rightarrow> string \<Rightarrow> string \<Rightarrow> string \<Rightarrow> route_event" where
  "change_event metric summary ty action =
     \<lparr>ev_type = ''config_change'', ev_metric = metric, ev_summary = summary, ev_security = Some (ty, action), ev_ip = []\<rparr>"

section \<open>Secrets\<close>

definition generate_api_key :: "'w agent_services \<Rightarrow> ('w, string) backend_action" where
  "generate_api_key av = in_world (\<lambda>w. let (t, w') = av_token av w in (Inr (''sk-'' @ t), w'))"

definition create_secret :: "'w agent_services \<Rightarrow> string \<Rightarrow> string \<Rightarrow> ('w, string) backend_action" where
  "create_secret av name v =
     andthen (in_world (av_create_secret av name)) (\<lambda>arn.
     andthen (modifies (\<lambda>s. s\<lparr>bk_secrets := AList.update arn v (bk_secrets s)\<rparr>)) (\<lambda>_. ret arn))"

definition secret_not_found :: "string \<Rightarrow> pyexn" where
  "secret_not_found arn = Raised ''SecretNotFoundError'' (''Secret '' @ repr_str arn @ '' not found'')"

definition get_secret_value_of :: "'w agent_services \<Rightarrow> string \<Rightarrow> ('w, string) backend_action" where
  "get_secret_value_of av arn =
     andthen (in_world (\<lambda>w. case av_read_secret av arn w of (Some e, w') \<Rightarrow> (Inl e, w') | (None, w') \<Rightarrow> (Inr (), w'))) (\<lambda>_.
     andthen (reads (\<lambda>s. map_of (bk_secrets s) arn)) (\<lambda>found.
       case found of None \<Rightarrow> raising (secret_not_found arn) | Some v \<Rightarrow> ret v))"

section \<open>The limit on revealing a key\<close>

definition reveal_window :: int where "reveal_window = 3600"
definition max_reveals :: int where "max_reveals = 3"

text \<open>An atomic count in Redis for each hour; without Redis the call is let through.\<close>

definition check_reveal_rate_limit :: "'w agent_services \<Rightarrow> string \<Rightarrow> string \<Rightarrow> ('w, bool) backend_action" where
  "check_reveal_rate_limit av tenant agent =
     andthen (time_now av) (\<lambda>now.
     andthen (in_world (\<lambda>w. let (up, w') = av_redis av w in (Inr up, w'))) (\<lambda>up.
       if \<not> up then ret True
       else
         (let k = (tenant, agent, now div 1000000 div reveal_window)
          in andthen (reads (\<lambda>s. get_or 0 (map_of (bk_reveals s) k) + 1)) (\<lambda>count.
             andthen (modifies (\<lambda>s. s\<lparr>bk_reveals := AList.update k count (bk_reveals s)\<rparr>)) (\<lambda>_.
               ret (count \<le> max_reveals))))))"

section \<open>The configuration validator\<close>

definition wildcard_scopes :: "string list" where "wildcard_scopes = [''*'', ''all'', ''admin'']"

definition credential_key_markers :: "string list" where
  "credential_key_markers = [''password'', ''secret'', ''token'', ''api_key'', ''credential'']"

definition looks_like_embedded_credential :: "string \<Rightarrow> string \<Rightarrow> bool" where
  "looks_like_embedded_credential k v =
     (let l = py_lower k
      in v \<noteq> [] \<and> \<not> ends_with ''_arn'' l \<and> l \<noteq> ''arn'' \<and> list_ex (\<lambda>m. contains_text m l) credential_key_markers)"

fun embedded_credentials :: "string \<Rightarrow> pyval \<Rightarrow> string list"
  and embedded_in_fields :: "string \<Rightarrow> (string \<times> pyval) list \<Rightarrow> string list"
  and embedded_in_items :: "string \<Rightarrow> nat \<Rightarrow> pyval list \<Rightarrow> string list" where
  "embedded_credentials p (PDict kvs) = embedded_in_fields p kvs"
| "embedded_credentials p (PList xs) = embedded_in_items p 0 xs"
| "embedded_credentials p v = []"
| "embedded_in_fields p [] = []"
| "embedded_in_fields p ((k, v) # kvs) =
     (let q = (if p = [] then k else p @ ''.'' @ k)
      in (case v of
            PStr s \<Rightarrow> if looks_like_embedded_credential k s then [q] else []
          | _ \<Rightarrow> embedded_credentials q v) @ embedded_in_fields p kvs)"
| "embedded_in_items p i [] = []"
| "embedded_in_items p i (x # xs) = embedded_credentials (p @ ''['' @ nat_text i @ '']'') x @ embedded_in_items p (Suc i) xs"

definition tool_ids :: "pyval \<Rightarrow> string list" where
  "tool_ids cfg = map (\<lambda>t. text_of (dict_get ''tool_id'' t)) (tools_of cfg)"

definition tool_policies :: "pyval \<Rightarrow> pyval list" where
  "tool_policies cfg = items_of (dict_get ''tool_policies'' cfg)"

definition wildcard_scope :: "pyval \<Rightarrow> bool" where
  "wildcard_scope p = (case dict_get ''scope'' p of PStr s \<Rightarrow> py_lower s \<in> set wildcard_scopes | _ \<Rightarrow> False)"

definition validate_agent_config :: "tool_registry \<Rightarrow> pyval \<Rightarrow> string list" where
  "validate_agent_config registry cfg =
     (let policed = map (\<lambda>p. text_of (dict_get ''tool'' p)) (tool_policies cfg)
      in map (\<lambda>t. ''Tool '' @ repr_str t @ '' is not in the approved tool registry'')
           (filter (\<lambda>t. tool_status registry t \<noteq> Some ''APPROVED'') (tool_ids cfg))
         @ map (\<lambda>t. ''Tool '' @ repr_str t @ '' has no policy entry -- add to tool_policies'')
             (filter (\<lambda>t. t \<notin> set policed) (tool_ids cfg))
         @ map (\<lambda>p. ''Wildcard scope not allowed on tool '' @ repr_str (text_of (dict_get ''tool'' p)))
             (filter wildcard_scope (tool_policies cfg))
         @ map (\<lambda>q. ''Config field '' @ repr_str q @ '' looks like it contains credential data. Use a Secrets Manager ARN reference instead.'')
             (embedded_credentials [] cfg))"

text \<open>The structured detail of an answer is given by its text.\<close>

definition require_valid_config :: "pyval \<Rightarrow> ('w, unit) backend_action" where
  "require_valid_config cfg =
     andthen (reads (\<lambda>s. validate_agent_config (pl_tools (bk_platform s)) cfg)) (\<lambda>errors.
       if errors \<noteq> [] then fails_with 422 (join_with newline errors) else ret ())"

section \<open>Creation and versions\<close>

definition clone_agent_route :: "'w agent_services \<Rightarrow> user_row \<Rightarrow> string \<Rightarrow> string \<Rightarrow> ('w, agent_record \<times> version_record) backend_action" where
  "clone_agent_route av u source new_name =
     andthen (on_platform (draw_hexes (av_platform av) 5)) (\<lambda>hexes.
     andthen (time_now av) (\<lambda>now.
     andthen (answering update_error_code
                (on_registry_of (clone_agent (sha_of av) (ps_version (av_platform av)) (At now) hexes (us_tenant u) source
                   new_name (us_email u)))) (\<lambda>(r, v).
     andthen (record_event av u (ag_id r)
                \<lparr>ev_type = ''config_change'', ev_metric = ''AgentCloned'',
                 ev_summary = ''Agent '' @ repr_str (ag_id r) @ '' cloned from '' @ repr_str source, ev_security = None, ev_ip = []\<rparr>)
       (\<lambda>_. ret (r, v)))))"

definition circular_code :: "pyexn \<Rightarrow> int option" where
  "circular_code e = (case e of CircularDependencyError _ \<Rightarrow> Some 409 | _ \<Rightarrow> None)"

text \<open>The key of a new agent, in the prototype mode.\<close>

definition provision_first_key :: "'w agent_services \<Rightarrow> user_row \<Rightarrow> agent_record \<Rightarrow> ('w, agent_record \<times> string option) backend_action" where
  "provision_first_key av u r =
     (if av_mode av \<noteq> ''prototype'' then ret (r, None)
      else
        andthen (generate_api_key av) (\<lambda>raw.
        andthen (create_secret av (''panasa-'' @ ag_id r @ ''-api-key'') raw) (\<lambda>arn.
        andthen (time_now av) (\<lambda>now.
        andthen (on_registry_of (provision_api_key (At now) (us_tenant u) (ag_id r) arn (us_email u))) (\<lambda>r'.
        andthen (record_event av u (ag_id r')
                   (change_event ''AgentCredentialCreated'' (''API key provisioned for agent '' @ repr_str (ag_id r'))
                      ''credential.created'' ''create'')) (\<lambda>_.
          ret (r', Some raw)))))))"

record agent_request =
  aq_name :: string
  aq_description :: string
  aq_purpose :: string
  aq_type :: string
  aq_config :: pyval
  aq_tags :: "(string \<times> string) list"
  aq_changelog :: "string option"

definition create_agent_route ::
  "'w agent_services \<Rightarrow> user_row \<Rightarrow> agent_request \<Rightarrow> ('w, agent_record \<times> string option) backend_action" where
  "create_agent_route av u q =
     andthen (require_valid_config (aq_config q)) (\<lambda>_.
     andthen (on_platform (draw_hexes (av_platform av) 5)) (\<lambda>hexes.
     andthen (time_now av) (\<lambda>now.
     andthen (answering circular_code
                (on_registry_of (create_agent (sha_of av) (ps_version (av_platform av)) (At now) hexes (us_tenant u)
                   \<lparr>na_name = aq_name q, na_description = aq_description q, na_purpose = aq_purpose q, na_type = aq_type q,
                    na_config = aq_config q, na_by = us_email u, na_project = None, na_owner = None, na_tags = aq_tags q,
                    na_changelog = aq_changelog q\<rparr>))) (\<lambda>(r, v).
     andthen (record_event av u (ag_id r)
                (change_event ''AgentCreated''
                   (''Agent '' @ repr_str (ag_id r) @ '' created (v'' @ int_text (ag_current_version r) @ '')'')
                   ''agent.created'' ''create'')) (\<lambda>_.
       provision_first_key av u r)))))"

definition list_agents_route ::
  "user_row \<Rightarrow> string option \<Rightarrow> nat \<Rightarrow> string option \<Rightarrow> ('w, agent_record list \<times> string option) backend_action" where
  "list_agents_route u status limit cursor = on_registry_of (list_agents (us_tenant u) status limit cursor)"

definition require_agent_row :: "user_row \<Rightarrow> string \<Rightarrow> ('w, agent_record) backend_action" where
  "require_agent_row u agent =
     andthen (on_registry_of (get_agent (us_tenant u) agent)) (\<lambda>found.
       case found of None \<Rightarrow> no_agent agent | Some r \<Rightarrow> ret r)"

definition require_current_version :: "string \<Rightarrow> agent_record \<Rightarrow> ('w, version_record) backend_action" where
  "require_current_version agent r =
     andthen (on_registry_of (get_version agent (ag_current_version r))) (\<lambda>found.
       case found of
         None \<Rightarrow> fails_with 500 (''Current version '' @ int_text (ag_current_version r) @ '' missing for agent '' @ repr_str agent)
       | Some v \<Rightarrow> ret v)"

definition get_agent_route :: "user_row \<Rightarrow> string \<Rightarrow> ('w, agent_record \<times> version_record) backend_action" where
  "get_agent_route u agent =
     andthen (require_agent_row u agent) (\<lambda>r. andthen (require_current_version agent r) (\<lambda>v. ret (r, v)))"

definition update_agent_route ::
  "'w agent_services \<Rightarrow> user_row \<Rightarrow> string \<Rightarrow> pyval \<Rightarrow> string \<Rightarrow> identity_updates \<Rightarrow> ('w, agent_record) backend_action" where
  "update_agent_route av u agent cfg change iu =
     andthen (require_valid_config cfg) (\<lambda>_.
     andthen (time_now av) (\<lambda>now.
     andthen (answering update_error_code
                (on_registry_of (update_agent (sha_of av) (At now) (us_tenant u) agent cfg (us_email u) change iu))) (\<lambda>(r, v).
     andthen (record_event av u agent
                (change_event ''AgentUpdated''
                   (''Agent '' @ repr_str agent @ '' updated to v'' @ int_text (ag_current_version r) @ '': '' @ change)
                   ''agent.updated'' ''update'')) (\<lambda>_. ret r))))"

definition delete_agent_route :: "'w agent_services \<Rightarrow> user_row \<Rightarrow> string \<Rightarrow> ('w, agent_record) backend_action" where
  "delete_agent_route av u agent =
     andthen (time_now av) (\<lambda>now.
     andthen (answering not_found_code (on_registry_of (soft_delete_agent (At now) (us_tenant u) agent (us_email u)))) (\<lambda>r.
     andthen (record_event av u agent
                (change_event ''AgentDeprecated''
                   (''Agent '' @ repr_str agent @ '' soft-deleted (status='' @ ag_status r @ '')'') ''agent.deleted'' ''delete'')) (\<lambda>_.
       ret r)))"

definition list_versions_route :: "user_row \<Rightarrow> string \<Rightarrow> ('w, version_record list) backend_action" where
  "list_versions_route u agent = answering not_found_code (on_registry_of (list_versions_of (us_tenant u) agent))"

definition get_version_route :: "user_row \<Rightarrow> string \<Rightarrow> int \<Rightarrow> ('w, version_record) backend_action" where
  "get_version_route u agent n =
     andthen (answering not_found_code (on_registry_of (get_version_detail (us_tenant u) agent n))) (\<lambda>found.
       case found of
         None \<Rightarrow> fails_with 404 (''Version '' @ int_text n @ '' of agent '' @ repr_str agent @ '' not found'')
       | Some v \<Rightarrow> ret v)"

definition get_version_diff_route ::
  "user_row \<Rightarrow> string \<Rightarrow> int \<Rightarrow> ('w, int option \<times> diff_entry list \<times> impact_analysis) backend_action" where
  "get_version_diff_route u agent n =
     andthen (get_version_route u agent n) (\<lambda>new.
       let before = (if n > 1 then Some (n - 1) else None)
       in andthen (case before of None \<Rightarrow> ret None | Some k \<Rightarrow> on_registry_of (get_version_detail (us_tenant u) agent k)) (\<lambda>old.
            let d = compute_config_diff (map_option vr_config old) (vr_config new)
            in ret (before, d, analyze_diff d)))"

section \<open>The git host\<close>

text \<open>A call is made, then answered; a failure is a value, so that the deployment can be marked.\<close>

definition git_asks :: "'w agent_services \<Rightarrow> git_call \<Rightarrow> ('w, git_failure + bool) backend_action" where
  "git_asks av c =
     andthen (modifies (\<lambda>s. s\<lparr>bk_git := bk_git s @ [c]\<rparr>)) (\<lambda>_.
       in_world (\<lambda>w. let (r, w') = av_git_asks av c w in (Inr r, w')))"

definition git_does :: "'w agent_services \<Rightarrow> git_call \<Rightarrow> ('w, git_failure + string) backend_action" where
  "git_does av c =
     andthen (modifies (\<lambda>s. s\<lparr>bk_git := bk_git s @ [c]\<rparr>)) (\<lambda>_.
       in_world (\<lambda>w. let (r, w') = av_git_does av c w in (Inr r, w')))"

definition git_then ::
  "('w, git_failure + 'a) backend_action \<Rightarrow> ('a \<Rightarrow> ('w, git_failure + 'b) backend_action) \<Rightarrow> ('w, git_failure + 'b) backend_action" where
  "git_then m f = andthen m (\<lambda>r. case r of Inl e \<Rightarrow> ret (Inl e) | Inr x \<Rightarrow> f x)"

definition agent_repo_readme :: "string \<Rightarrow> int \<Rightarrow> string \<Rightarrow> string" where
  "agent_repo_readme agent version did =
     ''# '' @ agent @ newline @ newline
     @ ''Generated Terraform for Panasa agent `'' @ agent @ ''`.'' @ newline @ newline
     @ ''- Current version: '' @ int_text version @ newline
     @ ''- Last deployment: '' @ did @ newline @ newline
     @ ''This repository is managed entirely by the Panasa Agent Builder ''
     @ ''Runtime (CLAUDE.md Section 45.2). Its Terraform is always ''
     @ ''generated from the agent'' @ [CHR 0x27] @ ''s configuration and pushed here ''
     @ ''automatically on every deploy -- do not edit it by hand.'' @ newline"

definition deployment_files ::
  "'w agent_services \<Rightarrow> string \<Rightarrow> string \<Rightarrow> int \<Rightarrow> pyval \<Rightarrow> tenant_settings \<Rightarrow> iac_result \<Rightarrow> string \<Rightarrow> (string \<times> string) option
     \<Rightarrow> (string \<times> string) list" where
  "deployment_files av tenant agent version cfg ts iac did workflow =
     foldl (\<lambda>d (p, c). dict_set p c d) (gr_files iac)
       ([(''README.md'', agent_repo_readme agent version did)]
        @ (case workflow of None \<Rightarrow> [] | Some w \<Rightarrow> [w])
        @ [(agent_directory agent @ ''terraform.auto.tfvars.json'', render_terraform_tfvars ts (av_region av) cfg (gr_modules iac)),
           (agent_directory agent @ ''deployment-metadata.json'', json_dumps (deployment_metadata agent tenant did version)),
           (policy_check_script_path, av_script av)])"

text \<open>
  A repository that did not exist is filled on its default branch; one that did gets a branch and a
  pull request. The workflow file is committed when the default branch has none.
\<close>

definition push_to_repository ::
  "'w agent_services \<Rightarrow> string \<Rightarrow> string \<Rightarrow> int \<Rightarrow> pyval \<Rightarrow> tenant_settings \<Rightarrow> iac_result \<Rightarrow> string \<Rightarrow> string
     \<Rightarrow> ('w, git_failure + string \<times> string option) backend_action" where
  "push_to_repository av tenant agent version cfg ts iac did repo =
     git_then (git_asks av (RepositoryExists repo)) (\<lambda>existed.
     git_then (if existed then ret (Inr []) else git_does av (CreateRepository repo)) (\<lambda>_.
       case generate_cicd_workflow (ts_cicd_provider ts) (ts_approval_mode ts) agent of
         Inl e \<Rightarrow> ret (Inl (OtherFailure e))
       | Inr (wpath, wtext) \<Rightarrow>
           git_then (if existed then git_asks av (FileExists repo wpath (av_branch av)) else ret (Inr False)) (\<lambda>committed.
             let files = deployment_files av tenant agent version cfg ts iac did (if committed then None else Some (wpath, wtext));
                 msg = ''Agent '' @ agent @ '' v'' @ int_text version @ '' -- generated '' @ gr_tool iac @ '' IaC'';
                 branch = (if existed then ''deploy/v'' @ int_text version @ ''-'' @ did else av_branch av)
             in if existed then
                  git_then (git_does av (CreateBranch repo branch (av_branch av))) (\<lambda>_.
                  git_then (git_does av (CommitFiles repo branch files msg (\<not> committed))) (\<lambda>_.
                  git_then (git_does av (CreatePullRequest repo branch
                      (''[Panasa Auto] '' @ agent @ '' v'' @ int_text version @ '' -- Deploy'')
                      (''Agent: '' @ agent @ '' | Version: '' @ int_text version @ '' | Impact: PENDING'' @ newline
                       @ ''Security: pending | RAGAS: pending''))) (\<lambda>pr.
                    ret (Inr (branch, Some pr)))))
                else
                  git_then (git_does av (CommitFiles repo branch files msg True)) (\<lambda>_. ret (Inr (branch, None))))))"

section \<open>Triggering a deployment\<close>

text \<open>The deployment is marked as failed in its first stage and the request answered with 502.\<close>

definition fail_deployment :: "'w agent_services \<Rightarrow> string \<Rightarrow> string \<Rightarrow> string \<Rightarrow> ('w, 'a) backend_action" where
  "fail_deployment av agent did message =
     andthen (on_factory_of (update_stage (cloud_of av) agent did ''GENERATING_IAC'' ''FAILED''
                \<lparr>su_summary = Some message, su_blocking = None, su_overall = Some ''FAILED'', su_failure = Some message,
                 su_failed_stage = Some ''GENERATING_IAC''\<rparr>)) (\<lambda>_.
       fails_with 502 message)"

definition git_failure_message :: "git_failure \<Rightarrow> string option" where
  "git_failure_message e =
     (case e of
        MissingScope m \<Rightarrow> Some m
      | HttpStatus code m \<Rightarrow>
          Some (if code = 401 \<or> code = 403
                then ''Git provider rejected the request ('' @ int_text code @ ''). Check that GIT_CREDENTIALS_SECRET holds a valid, ''
                     @ ''unexpired token with write access to the configured repository.''
                else ''Git provider request failed: '' @ m)
      | HttpDown m \<Rightarrow> Some (''Could not reach the git provider: '' @ m)
      | OtherFailure _ \<Rightarrow> None)"

definition git_failed :: "'w agent_services \<Rightarrow> string \<Rightarrow> string \<Rightarrow> git_failure \<Rightarrow> ('w, 'a) backend_action" where
  "git_failed av agent did e =
     (case git_failure_message e of
        Some m \<Rightarrow> fail_deployment av agent did m
      | None \<Rightarrow> (case e of OtherFailure x \<Rightarrow> raising x | _ \<Rightarrow> raising (RuntimeError [])))"

definition new_deployment :: "string \<Rightarrow> string \<Rightarrow> int \<Rightarrow> string \<Rightarrow> int \<Rightarrow> string \<Rightarrow> string \<Rightarrow> deployment" where
  "new_deployment agent did version who now mode key =
     \<lparr>dp_agent = agent, dp_id = did, dp_version = version, dp_triggered_by = who, dp_triggered_at = now, dp_status = ''PENDING'',
      dp_current = hd deployment_stage_order, dp_mode = mode, dp_approved_by = None, dp_approved_at = None,
      dp_stages = initial_stages, dp_iac_key = Some key, dp_branch = None, dp_pr = None, dp_health_url = None,
      dp_failure = None, dp_failed_stage = None, dp_updated_at = now\<rparr>"

record triggered =
  tg_deployment :: string
  tg_branch :: string
  tg_pr :: "string option"
  tg_record :: agent_record

definition draw_deployment_id :: "'w agent_services \<Rightarrow> ('w, string) backend_action" where
  "draw_deployment_id av = andthen (on_platform (draw_hex (av_platform av))) (\<lambda>h. ret (''DEP-'' @ upper (take 8 h)))"

text \<open>Any exception of the generator is answered with 502 before a deployment exists.\<close>

definition generate_or_502 :: "'w agent_services \<Rightarrow> string \<Rightarrow> string \<Rightarrow> int \<Rightarrow> pyval \<Rightarrow> ('w, iac_result) backend_action" where
  "generate_or_502 av tenant agent version cfg =
     catching (on_platform (generate_iac (av_platform av) (av_iac av) agent tenant version cfg))
       (\<lambda>e. fails_with 502 (''Could not generate infrastructure for deployment: '' @ av_text av e))"

definition publish_deployment :: "'w agent_services \<Rightarrow> string \<Rightarrow> string \<Rightarrow> int \<Rightarrow> string \<Rightarrow> ('w, unit) backend_action" where
  "publish_deployment av tenant agent version did =
     catching
       (andthen (in_world (\<lambda>w. case av_publish av w of (Some e, w') \<Rightarrow> (Inl e, w') | (None, w') \<Rightarrow> (Inr (), w'))) (\<lambda>_.
          on_factory_of (trigger_deployment (cloud_of av) agent version did tenant)))
       (\<lambda>e. fail_deployment av agent did (''Could not start the deployment pipeline: '' @ av_text av e))"

text \<open>From the pushed branch on: the reference, the event, the agent's status, the simulated run.\<close>

definition start_pipeline ::
  "'w agent_services \<Rightarrow> string \<Rightarrow> string \<Rightarrow> string \<Rightarrow> int \<Rightarrow> string \<Rightarrow> pyval \<Rightarrow> iac_result
     \<Rightarrow> string \<times> string option \<Rightarrow> ('w, triggered) backend_action" where
  "start_pipeline av tenant who agent version did cfg iac = (\<lambda>(branch, pr).
     andthen (on_factory_of (record_git_reference (cloud_of av) agent did branch pr)) (\<lambda>_.
     andthen (publish_deployment av tenant agent version did) (\<lambda>_.
     andthen (time_now av) (\<lambda>now.
     andthen (on_registry_of (record_deployment_trigger (At now) tenant agent version did who)) (\<lambda>r.
     andthen (if av_simulate av then modifies (\<lambda>s. s\<lparr>bk_tasks := bk_tasks s @ [SimulateRun tenant agent did cfg (gr_files iac)]\<rparr>) else ret ()) (\<lambda>_.
       ret \<lparr>tg_deployment = did, tg_branch = branch, tg_pr = pr, tg_record = r\<rparr>))))))"

definition trigger_agent_deployment ::
  "'w agent_services \<Rightarrow> string \<Rightarrow> string \<Rightarrow> string \<Rightarrow> int \<Rightarrow> pyval \<Rightarrow> ('w, triggered) backend_action" where
  "trigger_agent_deployment av tenant who agent version cfg =
     (case agent_repo_identifier (st_git_provider (av_settings av)) (st_git_org (av_settings av)) agent of
        None \<Rightarrow> fails_with 500 ''GIT_ORG is not configured''
      | Some repo \<Rightarrow>
          andthen (draw_deployment_id av) (\<lambda>did.
          andthen (time_now av) (\<lambda>asked.
          andthen (on_platform (on_settings (get_or_create_settings asked tenant who))) (\<lambda>ts.
          andthen (generate_or_502 av tenant agent version cfg) (\<lambda>iac.
          andthen (on_registry_of (record_iac_artifact tenant agent version (gr_version iac) (gr_key iac) None None)) (\<lambda>_.
          andthen (time_now av) (\<lambda>now.
          andthen (on_factory_of (create_deployment
                     (new_deployment agent did version who now (ts_approval_mode ts) (gr_key iac)))) (\<lambda>_.
          andthen (push_to_repository av tenant agent version cfg ts iac did repo) (\<lambda>pushed.
            case pushed of
              Inl e \<Rightarrow> git_failed av agent did e
            | Inr ref \<Rightarrow> start_pipeline av tenant who agent version did cfg iac ref)))))))))"

definition deploy_agent_route :: "'w agent_services \<Rightarrow> user_row \<Rightarrow> string \<Rightarrow> ('w, triggered) backend_action" where
  "deploy_agent_route av u agent =
     andthen (require_agent_row u agent) (\<lambda>r.
     andthen (require_current_version agent r) (\<lambda>v.
     andthen (trigger_agent_deployment av (us_tenant u) (us_email u) agent (ag_current_version r) (vr_config v)) (\<lambda>tg.
     andthen (record_event av u agent
                \<lparr>ev_type = ''deploy'', ev_metric = ''AgentDeployTriggered'',
                 ev_summary = ''Agent '' @ repr_str agent @ '' v'' @ int_text (ag_current_version r) @ '' deployment ''
                   @ tg_deployment tg @ '' triggered'', ev_security = None, ev_ip = []\<rparr>) (\<lambda>_. ret tg))))"

definition rollback_agent_route ::
  "'w agent_services \<Rightarrow> user_row \<Rightarrow> string \<Rightarrow> int \<Rightarrow> string \<Rightarrow> ('w, triggered \<times> int option) backend_action" where
  "rollback_agent_route av u agent target reason =
     andthen (time_now av) (\<lambda>now.
     andthen (answering rollback_route_code
                (on_registry_of (rollback_agent (sha_of av) (At now) (us_tenant u) agent target reason (us_email u)))) (\<lambda>(r, v).
     andthen (trigger_agent_deployment av (us_tenant u) (us_email u) agent (ag_current_version r) (vr_config v)) (\<lambda>tg.
     andthen (record_event av u agent
                \<lparr>ev_type = ''rollback'', ev_metric = ''AgentRolledBack'',
                 ev_summary = ''Agent '' @ repr_str agent @ '' rolled back to v'' @ int_text target @ '' (new v''
                   @ int_text (ag_current_version (tg_record tg)) @ ''): '' @ reason,
                 ev_security = Some (''agent.version_rolled_back'', ''rollback''), ev_ip = []\<rparr>) (\<lambda>_.
       ret (tg, vr_rolled_from v)))))"

section \<open>Generated infrastructure\<close>

definition report_value :: "'w agent_services \<Rightarrow> iac_report \<Rightarrow> pyval" where
  "report_value av r =
     PDict [(''passed'', PBool (ir_passed r)),
       (''checks'', PList (map (\<lambda>c. PDict [(''name'', PStr (vc_name c)), (''passed'', PBool (vc_passed c)), (''detail'', PStr (vc_detail c))])
          (ir_checks r))),
       (''tool'', PStr (ir_tool r)), (''generated_at'', PStr (iso_of av (ir_at r)))]"

definition environment_note :: "string \<Rightarrow> string option" where
  "environment_note mode =
     (if mode = ''local'' then None
      else Some (''Real deployment to '' @ repr_str mode @ '' is not implemented in Stage 1. This response reflects local ''
             @ ''generation and validation only -- no AWS account was contacted.''))"

definition require_validation_mode :: "'w agent_services \<Rightarrow> user_row \<Rightarrow> string \<Rightarrow> ('w, unit) backend_action" where
  "require_validation_mode av u mode =
     (if mode = ''local'' then ret ()
      else if \<not> av_extended av
      then fails_with 403 (''Validation mode '' @ repr_str mode @ '' is disabled on this deployment. Only ''
             @ [CHR 0x27] @ ''local'' @ [CHR 0x27] @ '' validation is available.'')
      else if us_role u \<notin> {''developer'', ''admin''}
      then fails_with 403 (''Validation mode '' @ repr_str mode @ '' requires the developer or admin role.'')
      else ret ())"

definition generate_iac_route ::
  "'w agent_services \<Rightarrow> user_row \<Rightarrow> string \<Rightarrow> string \<Rightarrow> ('w, int \<times> iac_result \<times> iac_report \<times> string option) backend_action" where
  "generate_iac_route av u agent mode =
     andthen (require_validation_mode av u mode) (\<lambda>_.
     andthen (require_agent_row u agent) (\<lambda>r.
     andthen (require_current_version agent r) (\<lambda>v.
     andthen (on_platform (generate_iac (av_platform av) (av_iac av) agent (us_tenant u) (ag_current_version r) (vr_config v))) (\<lambda>iac.
     andthen (in_world (validate_iac (av_checks av) agent (us_tenant u) (ag_current_version r) (vr_config v) (gr_files iac) (gr_tool iac)))
       (\<lambda>report.
     andthen (on_registry_of (record_iac_artifact (us_tenant u) agent (ag_current_version r) (gr_version iac) (gr_key iac)
                (Some (gr_modules iac)) (Some (report_value av report)))) (\<lambda>_.
       if \<not> ir_passed report then fails_with 422 (json_dumps (report_value av report))
       else ret (ag_current_version r, iac, report, environment_note mode)))))))"

datatype iac_status = NotStarted | Generated bool "string list" pyval

definition derived :: "string \<Rightarrow> version_record \<Rightarrow> pyval" where
  "derived k v = dict_get k (PDict (vr_derived v))"

text \<open>The modules and the report of the last generation, as they are stored.\<close>

definition iac_status_of :: "version_record \<Rightarrow> iac_status" where
  "iac_status_of v =
     (if derived ''iac_version'' v = PNone then NotStarted
      else
        (let report = (case derived ''iac_validation_report'' v of PStr t \<Rightarrow> get_or PNone (json_loads t) | _ \<Rightarrow> PNone)
         in Generated (dict_get ''passed'' report = PBool True) (map text_of (items_of (derived ''iac_modules'' v))) report))"

definition iac_status_route :: "user_row \<Rightarrow> string \<Rightarrow> ('w, int \<times> iac_status) backend_action" where
  "iac_status_route u agent =
     andthen (require_agent_row u agent) (\<lambda>r.
     andthen (require_current_version agent r) (\<lambda>v. ret (ag_current_version r, iac_status_of v)))"

section \<open>Deployments and their approval\<close>

definition list_deployments_route :: "user_row \<Rightarrow> string \<Rightarrow> ('w, deployment list) backend_action" where
  "list_deployments_route u agent =
     andthen (require_agent_row u agent) (\<lambda>_. on_factory_of (list_deployments agent))"

definition require_approvable :: "'w agent_services \<Rightarrow> string \<Rightarrow> deployment \<Rightarrow> ('w, unit) backend_action" where
  "require_approvable av did d =
     (if dp_mode d \<noteq> ''manual''
      then fails_with 409 (''Deployment '' @ repr_str did @ '' runs the automated pipeline (approval_mode='' @ [CHR 0x27]
             @ ''automated'' @ [CHR 0x27] @ '') -- POLICY_CHECK already decided PASS/BLOCK automatically. There is nothing to approve.'')
      else if dp_status d \<noteq> ''PENDING_APPROVAL''
      then fails_with 409 (''Deployment '' @ repr_str did @ '' is in status '' @ repr_str (dp_status d) @ '', not PENDING_APPROVAL.'')
      else (case dp_approved_by d of
              None \<Rightarrow> ret ()
            | Some who \<Rightarrow>
                fails_with 409 (''Deployment '' @ repr_str did @ '' was already approved by '' @ repr_str who @ '' at ''
                  @ (case dp_approved_at d of None \<Rightarrow> ''None'' | Some t \<Rightarrow> iso_of av t) @ ''.'')))"

definition approve_deployment_route ::
  "'w agent_services \<Rightarrow> user_row \<Rightarrow> string \<Rightarrow> string \<Rightarrow> ('w, deployment) backend_action" where
  "approve_deployment_route av u agent did =
     andthen (require_agent_row u agent) (\<lambda>_.
     andthen (on_factory_of (get_deployment agent did)) (\<lambda>found.
       case found of
         None \<Rightarrow> fails_with 404 (''Deployment '' @ repr_str did @ '' not found for agent '' @ repr_str agent)
       | Some d \<Rightarrow>
           andthen (require_approvable av did d) (\<lambda>_.
           andthen (on_factory_of (record_approval (cloud_of av) agent did (us_email u))) (\<lambda>d'.
           andthen (in_world (\<lambda>w. case av_publish av w of (Some e, w') \<Rightarrow> (Inl e, w') | (None, w') \<Rightarrow> (Inr (), w'))) (\<lambda>_.
           andthen (on_factory_of (notify_deployment_approved (cloud_of av) agent did (us_tenant u) (us_email u))) (\<lambda>_.
           andthen (if av_simulate av then modifies (\<lambda>s. s\<lparr>bk_tasks := bk_tasks s @ [ResumeRun (us_tenant u) agent did]\<rparr>) else ret ())
             (\<lambda>_. ret d')))))))"

section \<open>Credentials\<close>

definition rotate_code :: "pyexn \<Rightarrow> int option" where
  "rotate_code e = (case e of UnknownAgentError _ \<Rightarrow> Some 404 | NoApiKeyProvisionedError _ \<Rightarrow> Some 409 | _ \<Rightarrow> None)"

definition seconds :: "int \<Rightarrow> int" where "seconds now = now div 1000000"

definition grace_period :: int where "grace_period = 24 * 3600"

text \<open>The new secret is made before the agent is looked up. The answer has the key's ARN, the key and the end of the old one.\<close>

definition rotate_key_route ::
  "'w agent_services \<Rightarrow> user_row \<Rightarrow> string \<Rightarrow> ('w, string \<times> string \<times> int) backend_action" where
  "rotate_key_route av u agent =
     (if av_mode av \<noteq> ''prototype''
      then fails_with 403 (''API key rotation for enterprise-mode agents is managed by your own Terraform/CI-CD (R60) ''
             @ ''-- not available via this endpoint.'')
      else
        andthen (generate_api_key av) (\<lambda>raw.
        andthen (time_now av) (\<lambda>named.
        andthen (create_secret av (''panasa-'' @ agent @ ''-api-key-'' @ int_text (seconds named)) raw) (\<lambda>arn.
        andthen (time_now av) (\<lambda>now.
        andthen (answering rotate_code
                   (on_registry_of (rotate_api_key (At now) (us_tenant u) agent arn (seconds now + grace_period) (us_email u)))) (\<lambda>_.
        andthen (record_event av u agent
                   (change_event ''AgentCredentialRotated'' (''API key rotated for agent '' @ repr_str agent)
                      ''credential.rotated'' ''rotate'')) (\<lambda>_.
          ret (arn, raw, seconds now + grace_period))))))))"

definition revoke_key_route :: "'w agent_services \<Rightarrow> user_row \<Rightarrow> string \<Rightarrow> ('w, agent_record) backend_action" where
  "revoke_key_route av u agent =
     andthen (time_now av) (\<lambda>now.
     andthen (answering not_found_code (on_registry_of (revoke_api_key (At now) (us_tenant u) agent (us_email u)))) (\<lambda>r.
     andthen (record_event av u agent
                (change_event ''AgentCredentialRevoked'' (''API key revoked for agent '' @ repr_str agent)
                   ''credential.revoked'' ''revoke'')) (\<lambda>_. ret r)))"

record jwt_request =
  jq_issuer :: "string option"
  jq_audience :: "string option"
  jq_jwks :: "string option"
  jq_claim :: string

definition set_jwt_route :: "'w agent_services \<Rightarrow> user_row \<Rightarrow> string \<Rightarrow> jwt_request \<Rightarrow> ('w, agent_record) backend_action" where
  "set_jwt_route av u agent q =
     (if truthy (jq_issuer q) \<noteq> truthy (jq_jwks q)
      then fails_with 422 ''jwt_issuer and jwt_jwks_url must be set together, or both left unset.''
      else if jq_jwks q \<noteq> None \<and> \<not> starts_with ''https://'' (get_or [] (jq_jwks q))
      then fails_with 422 ''jwt_jwks_url must be an https:// URL.''
      else
        andthen (time_now av) (\<lambda>now.
        andthen (answering not_found_code
                   (on_registry_of (set_jwt_config (At now) (us_tenant u) agent (jq_issuer q) (jq_audience q) (jq_jwks q)
                      (jq_claim q) (us_email u)))) (\<lambda>r.
        andthen (record_event av u agent
                   (change_event ''AgentJwtConfigUpdated'' (''JWT auth config updated for agent '' @ repr_str agent)
                      ''agent.updated'' ''update'')) (\<lambda>_. ret r))))"

text \<open>The call is recorded before anything else can refuse it.\<close>

definition reveal_key_route :: "'w agent_services \<Rightarrow> user_row \<Rightarrow> string \<Rightarrow> string \<Rightarrow> ('w, string) backend_action" where
  "reveal_key_route av u ip agent =
     (if av_mode av \<noteq> ''prototype''
      then fails_with 403 (''API key reveal is not available for enterprise-mode agents (R62) -- the key is managed ''
             @ ''entirely in your own AWS account'' @ [CHR 0x27] @ ''s Secrets Manager.'')
      else
        andthen (require_agent_row u agent) (\<lambda>r.
        andthen (record_event av u agent
                   ((change_event ''AgentCredentialRevealed'' (''API key reveal requested for agent '' @ repr_str agent)
                      ''credential.revealed'' ''reveal'')\<lparr>ev_ip := ip\<rparr>)) (\<lambda>_.
          case ag_key_arn r of
            None \<Rightarrow> fails_with 409 (''Agent '' @ repr_str agent @ '' has no API key provisioned to reveal'')
          | Some arn \<Rightarrow>
              andthen (check_reveal_rate_limit av (us_tenant u) agent) (\<lambda>allowed.
                if \<not> allowed then fails_with 429 ''Reveal rate limit exceeded. Max 3 per hour.''
                else
                  catching (get_secret_value_of av arn)
                    (\<lambda>e. case e of
                       Raised c m \<Rightarrow>
                         (if c = ''SecretNotFoundError''
                          then fails_with 500 (''This agent'' @ [CHR 0x27] @ ''s API key secret could not be found'')
                          else raising e)
                     | _ \<Rightarrow> raising e)))))"

section \<open>The routes behind the guard\<close>

datatype agents_request =
    CloneAgent string string | CreateAgent agent_request | ListAgents "string option" nat "string option" | GetAgent string
  | UpdateAgent string pyval string identity_updates | DeleteAgent string | ListVersions string | GetVersion string int
  | GetVersionDiff string int | RollbackVersion string int string | GenerateIac string string | IacStatus string
  | DeployAgent string | ListDeployments string | ApproveDeployment string string | RotateKey string | RevokeKey string
  | SetJwt string jwt_request | RevealKey string string

datatype agents_reply =
    AgentAndVersion agent_record version_record | CreatedAgent agent_record "string option"
  | AgentPage "agent_record list" "string option" | AgentRow agent_record | Versions "version_record list"
  | AVersion version_record | ADiff "int option" "diff_entry list" impact_analysis | RolledBack triggered "int option"
  | GeneratedIac int iac_result iac_report "string option" | AnIacStatus int iac_status | Triggered triggered
  | Deployments "deployment list" | ADeployment deployment | RotatedKey string string int | RevealedKey string

definition answer_as :: "('a \<Rightarrow> agents_reply) \<Rightarrow> ('w, 'a) backend_action \<Rightarrow> ('w, agents_reply) backend_action" where
  "answer_as f m = andthen m (\<lambda>x. ret (f x))"

fun agents_roles :: "agents_request \<Rightarrow> string list" where
  "agents_roles (ListAgents _ _ _) = read_roles" | "agents_roles (GetAgent _) = read_roles"
| "agents_roles (ListVersions _) = read_roles" | "agents_roles (GetVersion _ _) = read_roles"
| "agents_roles (GetVersionDiff _ _) = read_roles" | "agents_roles (IacStatus _) = read_roles"
| "agents_roles (ListDeployments _) = read_roles"
| "agents_roles _ = write_roles"

fun handle_agents :: "'w agent_services \<Rightarrow> user_row \<Rightarrow> agents_request \<Rightarrow> ('w, agents_reply) backend_action" where
  "handle_agents av u (CloneAgent a n) = answer_as (\<lambda>(r, v). AgentAndVersion r v) (clone_agent_route av u a n)"
| "handle_agents av u (CreateAgent q) = answer_as (\<lambda>(r, k). CreatedAgent r k) (create_agent_route av u q)"
| "handle_agents av u (ListAgents st n c) = answer_as (\<lambda>(rs, k). AgentPage rs k) (list_agents_route u st n c)"
| "handle_agents av u (GetAgent a) = answer_as (\<lambda>(r, v). AgentAndVersion r v) (get_agent_route u a)"
| "handle_agents av u (UpdateAgent a cfg c iu) = answer_as AgentRow (update_agent_route av u a cfg c iu)"
| "handle_agents av u (DeleteAgent a) = answer_as AgentRow (delete_agent_route av u a)"
| "handle_agents av u (ListVersions a) = answer_as Versions (list_versions_route u a)"
| "handle_agents av u (GetVersion a n) = answer_as AVersion (get_version_route u a n)"
| "handle_agents av u (GetVersionDiff a n) = answer_as (\<lambda>(b, d, i). ADiff b d i) (get_version_diff_route u a n)"
| "handle_agents av u (RollbackVersion a n why) = answer_as (\<lambda>(tg, n). RolledBack tg n) (rollback_agent_route av u a n why)"
| "handle_agents av u (GenerateIac a m) = answer_as (\<lambda>(n, g, r, e). GeneratedIac n g r e) (generate_iac_route av u a m)"
| "handle_agents av u (IacStatus a) = answer_as (\<lambda>(n, st). AnIacStatus n st) (iac_status_route u a)"
| "handle_agents av u (DeployAgent a) = answer_as Triggered (deploy_agent_route av u a)"
| "handle_agents av u (ListDeployments a) = answer_as Deployments (list_deployments_route u a)"
| "handle_agents av u (ApproveDeployment a d) = answer_as ADeployment (approve_deployment_route av u a d)"
| "handle_agents av u (RotateKey a) = answer_as (\<lambda>(arn, k, e). RotatedKey arn k e) (rotate_key_route av u a)"
| "handle_agents av u (RevokeKey a) = answer_as AgentRow (revoke_key_route av u a)"
| "handle_agents av u (SetJwt a q) = answer_as AgentRow (set_jwt_route av u a q)"
| "handle_agents av u (RevealKey ip a) = answer_as RevealedKey (reveal_key_route av u ip a)"

definition serve_agents ::
  "'w agent_services \<Rightarrow> string option \<Rightarrow> agents_request \<Rightarrow> ('w, agents_reply) backend_action" where
  "serve_agents av token rq =
     andthen (on_platform (get_current_user (av_platform av) token)) (\<lambda>u.
     andthen (on_platform (require_role (agents_roles rq) u)) (\<lambda>_. handle_agents av u rq))"

end
