(* ===== verification/AgentRules.thy ===== *)
theory AgentRules
  imports Agents
begin

text \<open>
  What the agents API keeps of the registry: one request changes its caller's agents only, leaves
  the version each agent runs live, never restores a revoked key, and writes only rows that can be
  read back. A deployment that fails is marked as failed and starts nothing.
\<close>

section \<open>How an agent's row may change\<close>

definition successor :: "agent_record \<Rightarrow> agent_record \<Rightarrow> bool" where
  "successor x y \<longleftrightarrow>
     ag_tenant y = ag_tenant x \<and> ag_id y = ag_id x \<and> ag_created_by y = ag_created_by x \<and> ag_created_at y = ag_created_at x \<and>
     ag_live_version y = ag_live_version x \<and> ag_current_version x \<le> ag_current_version y \<and>
     (ag_key_revoked x \<longrightarrow> ag_key_revoked y)"

lemma successor_refl [simp]: "successor x x" by (simp add: successor_def)

lemma successor_trans: "successor x y \<Longrightarrow> successor y z \<Longrightarrow> successor x z" by (auto simp: successor_def)

lemma successor_retyped [simp]: "successor (x\<lparr>ag_type := ty\<rparr>) y \<longleftrightarrow> successor x y" by (simp add: successor_def)

definition row_readable :: "agent_row \<Rightarrow> bool" where
  "row_readable row \<longleftrightarrow> (\<exists>r. row = Whole r \<and> valid_record (r\<lparr>ag_type := normalise_agent_type (ag_type r)\<rparr>))"

definition rows_readable :: "registry \<Rightarrow> bool" where
  "rows_readable s \<longleftrightarrow> (\<forall>k row. map_of (rg_agents s) k = Some row \<longrightarrow> row_readable row)"

lemma normalised_types: "ty \<in> set agent_types \<Longrightarrow> normalise_agent_type ty = ty"
  by (auto simp: agent_types_def normalise_agent_type_def legacy_agent_types_def)

lemma valid_row [simp]: "valid_record r \<Longrightarrow> row_readable (Whole r)"
  by (auto simp: row_readable_def valid_record_def normalised_types)

text \<open>
  On a registry whose records carry their keys: rows of one tenant only change, each to a successor
  of itself (where no agent is created), and a readable registry stays readable.
\<close>

definition evolves :: "bool \<Rightarrow> string \<Rightarrow> registry \<Rightarrow> registry \<Rightarrow> bool" where
  "evolves creating tenant s t \<longleftrightarrow>
     (keyed s \<longrightarrow> keyed t \<and> (rows_readable s \<longrightarrow> rows_readable t) \<and>
       (\<forall>u a. u \<noteq> tenant \<longrightarrow> map_of (rg_agents t) (u, a) = map_of (rg_agents s) (u, a)) \<and>
       (\<not> creating \<longrightarrow> (\<forall>k x. map_of (rg_agents s) k = Some (Whole x) \<longrightarrow>
          (\<exists>y. map_of (rg_agents t) k = Some (Whole y) \<and> successor x y))))"

interpretation evolves_frame: frame "evolves creating tenant" for creating tenant
proof
  show "evolves creating tenant s s" for s by (auto simp: evolves_def)
  show "evolves creating tenant s u" if st: "evolves creating tenant s t" and tu: "evolves creating tenant t u" for s t u
    unfolding evolves_def
  proof (intro impI conjI allI)
    assume "keyed s"
    with st have t: "keyed t" "rows_readable s \<Longrightarrow> rows_readable t"
      "\<And>v a. v \<noteq> tenant \<Longrightarrow> map_of (rg_agents t) (v, a) = map_of (rg_agents s) (v, a)"
      "\<And>k x. \<not> creating \<Longrightarrow> map_of (rg_agents s) k = Some (Whole x) \<Longrightarrow> \<exists>y. map_of (rg_agents t) k = Some (Whole y) \<and> successor x y"
      unfolding evolves_def by blast+
    with tu have u: "keyed u" "rows_readable t \<Longrightarrow> rows_readable u"
      "\<And>v a. v \<noteq> tenant \<Longrightarrow> map_of (rg_agents u) (v, a) = map_of (rg_agents t) (v, a)"
      "\<And>k x. \<not> creating \<Longrightarrow> map_of (rg_agents t) k = Some (Whole x) \<Longrightarrow> \<exists>y. map_of (rg_agents u) k = Some (Whole y) \<and> successor x y"
      unfolding evolves_def by blast+
    show "keyed u" "rows_readable s \<Longrightarrow> rows_readable u" using t u by blast+
    show "v \<noteq> tenant \<Longrightarrow> map_of (rg_agents u) (v, a) = map_of (rg_agents s) (v, a)" for v a using t(3) u(3) by simp
    show "\<exists>y. map_of (rg_agents u) k = Some (Whole y) \<and> successor x y"
      if "\<not> creating" "map_of (rg_agents s) k = Some (Whole x)" for k x
      using t(4) [OF that] u(4) [OF that(1)] successor_trans by blast
  qed
qed

lemma evolves_reads: "stays_in (same rg_agents) m \<Longrightarrow> stays_in (evolves creating tenant) m"
  by (auto simp: stays_in_def same_def evolves_def keyed_def rows_readable_def)

text \<open>After \<open>require_agent\<close> the tenant's own valid record is at hand; it may be written back amended.\<close>

definition amends :: "agent_record \<Rightarrow> registry \<Rightarrow> registry \<Rightarrow> bool" where
  "amends r s t \<longleftrightarrow>
     rg_agents t = rg_agents s \<or>
     (\<exists>y. successor r y \<and> valid_record y \<and> rg_agents t = AList.update (ag_tenant r, ag_id r) (Whole y) (rg_agents s))"

lemma amends_quiet: "stays_in (same rg_agents) m \<Longrightarrow> stays_in (amends r) m"
  by (simp add: stays_in_def same_def amends_def)

lemma amends_after:
  assumes "stays_in (same rg_agents) m" and "\<And>x. stays_in (amends r) (f x)"
  shows "stays_in (amends r) (andthen m f)"
proof (rule stays_inI, erule andthen_cases)
  fix s q t e
  assume "m s = (Inl e, t)"
  with assms(1) show "amends r s t" by (auto simp: amends_def dest: same_outcome)
next
  fix s q t x u
  assume "m s = (Inr x, u)" and f: "f x u = (q, t)"
  with assms(1) have "rg_agents u = rg_agents s" by (auto dest: same_outcome)
  with stays_inD [OF assms(2) f] show "amends r s t" by (simp add: amends_def)
qed

lemma amends_put:
  "successor r y \<Longrightarrow> valid_record y \<Longrightarrow> stays_in (amends r) (andthen (put_agent y) (\<lambda>_. ret z))"
  by (auto simp: stays_in_def amends_def put_agent_def prog_simps successor_def)

lemma amends_choice:
  "stays_in (amends r) m \<Longrightarrow> stays_in (amends r) n \<Longrightarrow> stays_in (amends r) (if b then m else n)"
  "stays_in (amends r) m \<Longrightarrow> (\<And>x. stays_in (amends r) (f x)) \<Longrightarrow> stays_in (amends r) (case v of None \<Rightarrow> m | Some x \<Rightarrow> f x)"
  by (simp_all split: option.split)

lemma required_evolves:
  assumes f: "\<And>r. valid_record r \<Longrightarrow> stays_in (amends r) (f r)"
  shows "stays_in (evolves creating tenant) (andthen (require_agent tenant agent) f)"
proof (rule stays_inI, erule andthen_cases)
  fix s q t e
  assume "require_agent tenant agent s = (Inl e, t)"
  then have "t = s" by (rule reading_state) (intro frame_intros)
  then show "evolves creating tenant s t" by (simp add: evolves_frame.frame_refl)
next
  fix s q t r u
  assume "require_agent tenant agent s = (Inr r, u)" and run: "f r u = (q, t)"
  then have r: "readable s tenant agent r" and u: "u = s" by (simp_all add: require_agent_Inr)
  then obtain x where x: "map_of (rg_agents s) (tenant, agent) = Some (Whole x)"
    and rx: "r = x\<lparr>ag_type := normalise_agent_type (ag_type x)\<rparr>" and v: "valid_record r" by (auto simp: readable_def)
  from stays_inD [OF f [OF v] run] u have w: "amends r s t" by simp
  show "evolves creating tenant s t"
  proof (cases "rg_agents t = rg_agents s")
    case True then show ?thesis by (simp add: evolves_def keyed_def rows_readable_def)
  next
    case False
    with w obtain y where y: "successor r y" "valid_record y"
      and t: "rg_agents t = AList.update (ag_tenant r, ag_id r) (Whole y) (rg_agents s)" by (auto simp: amends_def)
    show ?thesis
    proof (cases "keyed s")
      case True
      with r have k: "ag_tenant r = tenant" "ag_id r = agent" by (simp_all add: readable_key)
      have m: "map_of (rg_agents t) = (map_of (rg_agents s))((tenant, agent) \<mapsto> Whole y)"
        using t k by (simp add: AList.update_conv')
      have s: "successor x y" using y(1) rx by simp
      have "ag_tenant y = tenant" "ag_id y = agent" using y(1) k by (simp_all add: successor_def)
      with True have "keyed t" by (simp add: keyed_def m)
      moreover have "rows_readable s \<Longrightarrow> rows_readable t" using y(2) by (simp add: rows_readable_def m)
      ultimately show ?thesis using s x by (auto simp: evolves_def m)
    qed (simp add: evolves_def)
  qed
qed

lemma amend_evolves:
  "(\<And>r. valid_record r \<Longrightarrow> successor r (f r) \<and> valid_record (f r)) \<Longrightarrow>
   stays_in (evolves creating tenant) (amend_agent tenant agent f)"
  unfolding amend_agent_def by (intro required_evolves amends_put) simp_all

section \<open>The registry's operations\<close>

lemma agents_table_reads [frame_intros]:
  "stays_in (same rg_agents) (write_version v)" "stays_in (same rg_agents) (record_derived_fields a n fs)"
  by (auto simp: stays_in_def same_def write_version_def record_derived_fields_def prog_simps)

lemma stamped_row [simp]:
  "successor r (stamped who now x) \<longleftrightarrow> successor r x" "valid_record (stamped who now x) \<longleftrightarrow> valid_record x"
  by (simp_all add: stamped_def successor_def valid_record_def stamped_def)

lemma amendments_evolve [frame_intros]:
  "stays_in (evolves creating tenant) (soft_delete_agent now tenant agent who)"
  "stays_in (evolves creating tenant) (provision_api_key now tenant agent arn who)"
  "stays_in (evolves creating tenant) (revoke_api_key now tenant agent who)"
  "stays_in (evolves creating tenant) (set_jwt_config now tenant agent issuer audience jwks claim who)"
  unfolding soft_delete_agent_def provision_api_key_def revoke_api_key_def set_jwt_config_def
  by (rule amend_evolves; simp add: successor_def valid_record_def stamped_def agent_statuses_def)+

lemma rotate_evolves [frame_intros]:
  "stays_in (evolves creating tenant) (rotate_api_key now tenant agent arn expires who)"
  unfolding rotate_api_key_def Let_def
  by (intro required_evolves amends_choice amends_put amends_quiet frame_intros)
    (simp_all add: successor_def valid_record_def stamped_def)

lemma trigger_evolves [frame_intros]:
  "stays_in (evolves creating tenant) (record_deployment_trigger now tenant agent version did who)"
  "stays_in (evolves creating tenant) (record_iac_artifact tenant agent version v k ms rep)"
  unfolding record_deployment_trigger_def record_iac_artifact_def Let_def
  by (intro required_evolves amends_after amends_put frame_intros amends_quiet;
      simp add: successor_def valid_record_def stamped_def agent_statuses_def)+

lemma new_version_rewrites:
  assumes "valid_record r" and "\<And>st. status = Some st \<Longrightarrow> st \<in> set agent_statuses"
  shows "stays_in (amends r) (create_new_version sha now tenant agent cfg who change rf (Some r) iu status)"
  unfolding create_new_version_def Let_def option.case andthen_ret
  using assms
  by (intro amends_after amends_put frame_intros)
    (auto simp: successor_def valid_record_def stamped_def apply_identity_def get_or_def split: option.split)

lemma new_version_required:
  "create_new_version sha now tenant agent cfg who change rf None iu status =
     andthen (require_agent tenant agent) (\<lambda>r. create_new_version sha now tenant agent cfg who change rf (Some r) iu status)"
  by (simp add: create_new_version_def)

lemma versions_evolve [frame_intros]:
  "stays_in (evolves creating tenant) (update_agent sha now tenant agent cfg who change iu)"
  "stays_in (evolves creating tenant) (rollback_agent sha now tenant agent target reason who)"
  unfolding update_agent_def rollback_agent_def new_version_required
  by (intro required_evolves amends_after amends_choice new_version_rewrites amends_quiet frame_intros;
      simp add: agent_statuses_def)+


section \<open>Creation\<close>

lemma registry_queries_evolve [frame_intros]:
  "stays_in (evolves creating tenant) (get_agent u a)" "stays_in (evolves creating tenant) (get_version a n)"
  "stays_in (evolves creating tenant) (list_versions_of u a)" "stays_in (evolves creating tenant) (get_version_detail u a n)"
  "stays_in (evolves creating tenant) (list_agents u st k c)" "stays_in (evolves creating tenant) (validate_no_cycle u ag cfg)"
  "stays_in (evolves creating tenant) (require_agent u a)" "stays_in (evolves creating tenant) (write_version v)"
  unfolding list_versions_of_def get_version_detail_def list_agents_def
  by (rule evolves_reads, intro frame_intros)+

lemma allocate_evolves [frame_intros]: "stays_in (evolves creating tenant) (allocate_agent_id name hs)"
  by (induction hs) (auto intro!: frame_intros)

lemma put_new_evolves:
  assumes "ag_tenant r = tenant" and "valid_record r"
  shows "stays_in (evolves True tenant) (put_agent r)"
  using assms
  by (auto simp: stays_in_def evolves_def put_agent_def modifies_def keyed_def rows_readable_def AList.update_conv')

lemma create_evolves:
  assumes "na_type na \<in> set agent_types"
  shows "stays_in (evolves True tenant) (create_agent sha pv now hs tenant na)"
  unfolding create_agent_def Let_def
  by (intro frame_intros put_new_evolves)
    (simp_all add: initial_record_def valid_record_def agent_statuses_def lifecycle_statuses_def assms)

lemma clone_evolves: "stays_in (evolves True tenant) (clone_agent sha pv now hs tenant src nm who)"
proof (rule stays_inI)
  fix s q t
  assume run: "clone_agent sha pv now hs tenant src nm who s = (q, t)"
  then show "evolves True tenant s t"
    unfolding clone_agent_def
  proof (cases rule: andthen_cases)
    case (stop e)
    then have "t = s" by (auto elim: reading_state intro!: frame_intros)
    then show ?thesis by (simp add: evolves_frame.frame_refl)
  next
    case (step r u)
    then have u: "u = s" and ty: "ag_type r \<in> set agent_types"
      by (auto simp: require_agent_Inr readable_def valid_record_def)
    have "stays_in (evolves True tenant) (andthen (get_version src (ag_current_version r)) (\<lambda>v.
        case v of None \<Rightarrow> raising (UnknownAgentError src) | Some sv \<Rightarrow> create_agent sha pv now hs tenant
             \<lparr>na_name = nm, na_description = ag_description r, na_purpose = ag_purpose r,
              na_type = ag_type r, na_config = vr_config sv, na_by = who, na_project = None,
              na_owner = None, na_tags = ag_tags r,
              na_changelog = Some (''Cloned from '' @ repr_str src @ '' (v'' @ int_text (ag_current_version r) @ '')'')\<rparr>))"
      by (intro frame_intros create_evolves) (simp add: ty)
    from stays_inD [OF this] step(2) u show ?thesis by blast
  qed
qed

section \<open>The whole state\<close>

definition registry_of :: "'w backend \<Rightarrow> registry" where
  "registry_of s = fc_registry (pl_factory (bk_platform s))"

text \<open>
  A request to the agents API changes the registry as above, and beside it only the tenant's settings
  row, the deployments, the stored objects, the secrets, the counters, the logs and the world.
\<close>

definition tended :: "bool \<Rightarrow> string \<Rightarrow> 'w backend \<Rightarrow> 'w backend \<Rightarrow> bool" where
  "tended creating tenant s t \<longleftrightarrow>
     evolves creating tenant (registry_of s) (registry_of t) \<and>
     (let p = bk_platform s; q = bk_platform t in
        pl_connectors q = pl_connectors p \<and> pl_kbs q = pl_kbs p \<and> pl_policies q = pl_policies p \<and>
        pl_credentials q = pl_credentials p \<and> pl_skills q = pl_skills p \<and> pl_prompts q = pl_prompts p \<and>
        pl_projects q = pl_projects p \<and> pl_builds q = pl_builds p \<and> pl_tools q = pl_tools p \<and> pl_users q = pl_users p \<and>
        tenant_only tenant (pl_settings p) (pl_settings q))"

interpretation tended_frame: frame "tended creating tenant" for creating tenant
  by unfold_locales
    (auto simp: tended_def Let_def evolves_frame.frame_refl tenant_frame.frame_refl
      intro: evolves_frame.frame_trans tenant_frame.frame_trans)

lemma modifies_tended:
  "(\<And>s. bk_platform (f s) = bk_platform s) \<Longrightarrow> stays_in (tended creating tenant) (modifies f)"
  by (simp add: stays_in_def modifies_def tended_def registry_of_def Let_def evolves_frame.frame_refl tenant_frame.frame_refl)

lemma registry_tended [frame_intros]:
  assumes "stays_in (evolves creating tenant) m"
  shows "stays_in (tended creating tenant) (on_registry_of m)"
  using assms
  by (auto simp: stays_in_def on_registry_of_def on_platform_def on_agents_def on_factory_def on_part_def on_registry_def
      tended_def registry_of_def Let_def tenant_frame.frame_refl split: prod.splits) (metis snd_conv)

lemma factory_tended [frame_intros]:
  assumes "stays_in (same fc_registry) m"
  shows "stays_in (tended creating tenant) (on_factory_of m)"
  using assms
  by (auto simp: stays_in_def same_def on_factory_of_def on_platform_def on_factory_def on_part_def
      tended_def registry_of_def Let_def tenant_frame.frame_refl split: prod.splits)
    (metis evolves_frame.frame_refl snd_conv)

lemma world_tended [frame_intros]:
  "stays_in (tended creating tenant) (in_world m)" "stays_in (tended creating tenant) (time_now av)"
  "stays_in (tended creating tenant) (on_log l)"
  by (auto simp: stays_in_def in_world_def on_platform_def on_world_def on_part_def time_now_def the_time_def on_factory_def
      now_at_def reads_def on_log_def tended_def registry_of_def Let_def evolves_frame.frame_refl tenant_frame.frame_refl
      split: prod.splits)

text \<open>Calls that leave the platform's tables alone: only the world and the stored objects move.\<close>

definition undisturbed :: "'w platform \<Rightarrow> 'w platform \<Rightarrow> bool" where
  "undisturbed p q \<longleftrightarrow>
     fc_registry (pl_factory q) = fc_registry (pl_factory p) \<and> fc_deployments (pl_factory q) = fc_deployments (pl_factory p) \<and>
     fc_events (pl_factory q) = fc_events (pl_factory p) \<and>
     pl_connectors q = pl_connectors p \<and> pl_kbs q = pl_kbs p \<and> pl_policies q = pl_policies p \<and>
     pl_credentials q = pl_credentials p \<and> pl_skills q = pl_skills p \<and> pl_prompts q = pl_prompts p \<and>
     pl_projects q = pl_projects p \<and> pl_builds q = pl_builds p \<and> pl_tools q = pl_tools p \<and> pl_users q = pl_users p \<and>
     pl_settings q = pl_settings p"

interpretation undisturbed_frame: frame undisturbed
  by unfold_locales (auto simp: undisturbed_def)

lemma platform_tended [frame_intros]:
  assumes "stays_in undisturbed m"
  shows "stays_in (tended creating tenant) (on_platform m)"
proof (rule stays_inI)
  fix s q t
  assume "on_platform m s = (q, t)"
  then obtain p where p: "m (bk_platform s) = (q, p)" and t: "t = s\<lparr>bk_platform := p\<rparr>"
    by (auto simp: on_platform_def on_part_def split: prod.splits)
  from stays_inD [OF assms p] t show "tended creating tenant s t"
    by (auto simp: undisturbed_def tended_def registry_of_def Let_def evolves_frame.frame_refl tenant_frame.frame_refl)
qed

lemma world_undisturbed [frame_intros]: "stays_in undisturbed (on_world m)" "stays_in undisturbed (the_time ps)"
  by (auto simp: stays_in_def on_world_def on_part_def undisturbed_def the_time_def on_factory_def now_at_def reads_def
      split: prod.splits)

lemma platform_calls_undisturbed [frame_intros]:
  "stays_in undisturbed (draw_hex ps)" "stays_in undisturbed (draw_hexes ps n)" "stays_in undisturbed (s3_do ps c)"
  "stays_in undisturbed (write_audit ps tr e)" "stays_in undisturbed (generate_iac ps gs agent tenant version cfg)"
proof -
  show d: "stays_in undisturbed (draw_hex ps)" unfolding draw_hex_def by (intro frame_intros)
  show "stays_in undisturbed (draw_hexes ps n)" by (induction n) (auto intro!: frame_intros d)
  have m: "stays_in undisturbed (modifies (\<lambda>s. s\<lparr>pl_objects := f s\<rparr>))" for f :: "'a platform \<Rightarrow> objects"
    by (simp add: stays_in_def modifies_def undisturbed_def)
  show s: "stays_in undisturbed (s3_do ps c)" for c unfolding s3_do_def by (intro frame_intros m)
  show "stays_in undisturbed (write_audit ps tr e)" unfolding write_audit_def by (intro frame_intros d s)
  show "stays_in undisturbed (generate_iac ps gs agent tenant version cfg)"
    unfolding generate_iac_def raises_or_def Let_def by (intro frame_intros s)
qed

lemma settings_tended [frame_intros]:
  "stays_in (tended creating tenant) (on_platform (on_settings (get_or_create_settings now tenant who)))"
proof (rule stays_inI)
  fix s q t
  assume "on_platform (on_settings (get_or_create_settings now tenant who)) s = (q, t)"
  then obtain ts where g: "get_or_create_settings now tenant who (pl_settings (bk_platform s)) = (q, ts)"
    and t: "t = s\<lparr>bk_platform := (bk_platform s)\<lparr>pl_settings := ts\<rparr>\<rparr>"
    by (auto simp: on_platform_def on_settings_def on_part_def split: prod.splits)
  have "tenant_only tenant (pl_settings (bk_platform s)) ts"
    using g by (rule stays_inD [rotated]) (intro frame_intros)
  with t show "tended creating tenant s t" by (simp add: tended_def registry_of_def Let_def evolves_frame.frame_refl)
qed

lemma deployments_keep_registry [frame_intros]:
  "stays_in (same fc_registry) (get_deployment agent did)" "stays_in (same fc_registry) (list_deployments agent)"
  "stays_in (same fc_registry) (create_deployment d)" "stays_in (same fc_registry) (update_stage cl agent did stage status up)"
  "stays_in (same fc_registry) (record_git_reference cl agent did branch pr)"
  "stays_in (same fc_registry) (record_approval cl agent did who)"
  "stays_in (same fc_registry) (trigger_deployment cl agent version did tenant)"
  "stays_in (same fc_registry) (notify_deployment_approved cl agent did tenant who)"
  "stays_in (same fc_registry) (emit_metric name tenant)"
  by (auto simp: stays_in_def same_def get_deployment_def list_deployments_def create_deployment_def put_deployment_def
      update_stage_def require_deployment_def record_git_reference_def record_approval_def trigger_deployment_def
      notify_deployment_approved_def put_event_def emit_metric_def now_at_def Let_def prog_simps split: option.splits)

section \<open>Every route is within the frame\<close>

lemma errors_tended [frame_intros]:
  "stays_in (tended creating tenant) (fails_with n d)" "stays_in (tended creating tenant) (no_agent a)"
  unfolding no_agent_def fails_with_def by (intro frame_intros)+

lemma answering_tended [frame_intros]:
  "stays_in (tended creating tenant) m \<Longrightarrow> stays_in (tended creating tenant) (answering code m)"
  unfolding answering_def by (intro frame_intros)

lemma event_tended [frame_intros]: "stays_in (tended creating tenant) (record_event av u agent ev)"
  unfolding record_event_def emit_to_metrics_def
  by (intro frame_intros)

lemma secrets_tended [frame_intros]:
  "stays_in (tended creating tenant) (generate_api_key av)" "stays_in (tended creating tenant) (create_secret av n v)"
  "stays_in (tended creating tenant) (get_secret_value_of av arn)"
  "stays_in (tended creating tenant) (check_reveal_rate_limit av u agent)"
  unfolding generate_api_key_def create_secret_def get_secret_value_of_def check_reveal_rate_limit_def Let_def
  by (intro frame_intros modifies_tended; simp)+

lemma requires_tended [frame_intros]:
  "stays_in (tended creating tenant) (require_valid_config cfg)" "stays_in (tended creating tenant) (require_agent_row u agent)"
  "stays_in (tended creating tenant) (require_current_version agent r)"
  "stays_in (tended creating tenant) (require_validation_mode av u mode)"
  "stays_in (tended creating tenant) (require_approvable av did d)"
  unfolding require_valid_config_def require_agent_row_def require_current_version_def require_validation_mode_def
    require_approvable_def
  by (intro frame_intros)+

lemma git_tended [frame_intros]:
  "stays_in (tended creating tenant) (git_asks av c)" "stays_in (tended creating tenant) (git_does av c)"
  "stays_in (tended creating tenant) m \<Longrightarrow> (\<And>x. stays_in (tended creating tenant) (f x)) \<Longrightarrow> stays_in (tended creating tenant) (git_then m f)"
  "stays_in (tended creating tenant) (push_to_repository av tn agent version cfg ts iac did repo)"
proof -
  show a: "stays_in (tended creating tenant) (git_asks av c)" and d: "stays_in (tended creating tenant) (git_does av c)" for c
    unfolding git_asks_def git_does_def by (intro frame_intros modifies_tended; simp)+
  have th: "stays_in (tended creating tenant) m \<Longrightarrow> (\<And>x. stays_in (tended creating tenant) (f x)) \<Longrightarrow>
      stays_in (tended creating tenant) (git_then m f)" for m :: "('w, git_failure + 'q) backend_action"
      and f :: "'q \<Rightarrow> ('w, git_failure + 'r) backend_action"
    unfolding git_then_def by (intro frame_intros)
  show "stays_in (tended creating tenant) m \<Longrightarrow> (\<And>x. stays_in (tended creating tenant) (f x)) \<Longrightarrow> stays_in (tended creating tenant) (git_then m f)"
    unfolding git_then_def by (intro frame_intros)
  show "stays_in (tended creating tenant) (push_to_repository av tn agent version cfg ts iac did repo)"
    unfolding push_to_repository_def Let_def git_then_def by (intro frame_intros a d)
qed

lemma pipeline_tended [frame_intros]:
  "stays_in (tended creating tenant) (fail_deployment av agent did m)" "stays_in (tended creating tenant) (git_failed av agent did e)"
  "stays_in (tended creating tenant) (publish_deployment av tn agent version did)"
  "stays_in (tended creating tenant) (start_pipeline av tenant who agent version did cfg iac ref)"
proof -
  show f: "stays_in (tended creating tenant) (fail_deployment av agent did m)" for m
    unfolding fail_deployment_def by (intro frame_intros)
  show "stays_in (tended creating tenant) (git_failed av agent did e)"
    unfolding git_failed_def by (intro frame_intros f) (auto intro!: frame_intros split: git_failure.split)
  show p: "stays_in (tended creating tenant) (publish_deployment av tn agent version did)" for tn
    unfolding publish_deployment_def by (intro frame_intros f)
  show "stays_in (tended creating tenant) (start_pipeline av tenant who agent version did cfg iac ref)"
    unfolding start_pipeline_def by (intro frame_intros p modifies_tended) simp
qed

lemma trigger_deployment_tended [frame_intros]:
  "stays_in (tended creating tenant) (trigger_agent_deployment av tenant who agent version cfg)"
  unfolding trigger_agent_deployment_def draw_deployment_id_def generate_or_502_def by (intro frame_intros)

lemma read_routes_tended [frame_intros]:
  "stays_in (tended creating (us_tenant u)) (list_agents_route u st n c)"
  "stays_in (tended creating (us_tenant u)) (get_agent_route u agent)"
  "stays_in (tended creating (us_tenant u)) (list_versions_route u agent)"
  "stays_in (tended creating (us_tenant u)) (get_version_route u agent v)"
  "stays_in (tended creating (us_tenant u)) (get_version_diff_route u agent v)"
  "stays_in (tended creating (us_tenant u)) (iac_status_route u agent)"
  "stays_in (tended creating (us_tenant u)) (list_deployments_route u agent)"
proof -
  show v: "stays_in (tended creating (us_tenant u)) (get_version_route u agent v)" for v
    unfolding get_version_route_def by (intro frame_intros)
  show "stays_in (tended creating (us_tenant u)) (get_version_diff_route u agent v)"
    unfolding get_version_diff_route_def Let_def by (intro frame_intros v)
qed (unfold list_agents_route_def get_agent_route_def list_versions_route_def iac_status_route_def
      list_deployments_route_def, (intro frame_intros)+)

lemma write_routes_tended [frame_intros]:
  "stays_in (tended creating (us_tenant u)) (update_agent_route av u agent cfg change iu)"
  "stays_in (tended creating (us_tenant u)) (delete_agent_route av u agent)"
  "stays_in (tended creating (us_tenant u)) (rollback_agent_route av u agent target reason)"
  "stays_in (tended creating (us_tenant u)) (generate_iac_route av u agent mode)"
  "stays_in (tended creating (us_tenant u)) (deploy_agent_route av u agent)"
  "stays_in (tended creating (us_tenant u)) (approve_deployment_route av u agent did)"
  unfolding update_agent_route_def delete_agent_route_def rollback_agent_route_def generate_iac_route_def
    deploy_agent_route_def approve_deployment_route_def
  by (intro frame_intros modifies_tended; simp)+

lemma credential_routes_tended [frame_intros]:
  "stays_in (tended creating (us_tenant u)) (rotate_key_route av u agent)"
  "stays_in (tended creating (us_tenant u)) (revoke_key_route av u agent)"
  "stays_in (tended creating (us_tenant u)) (set_jwt_route av u agent q)"
  "stays_in (tended creating (us_tenant u)) (reveal_key_route av u ip agent)"
proof -
  show "stays_in (tended creating (us_tenant u)) (reveal_key_route av u ip agent)"
    unfolding reveal_key_route_def by (intro frame_intros) (auto intro!: frame_intros split: pyexn.split)
qed (unfold rotate_key_route_def revoke_key_route_def set_jwt_route_def, (intro frame_intros)+)

text \<open>A creation is well formed when its type is one of the two, as the request's model demands.\<close>

fun creates :: "agents_request \<Rightarrow> bool" where
  "creates (CloneAgent a n) = True" | "creates (CreateAgent q) = True" | "creates rq = False"

fun well_formed :: "agents_request \<Rightarrow> bool" where
  "well_formed (CreateAgent q) \<longleftrightarrow> aq_type q \<in> set agent_types" | "well_formed rq \<longleftrightarrow> True"

lemma creating_routes_tended:
  "aq_type q \<in> set agent_types \<Longrightarrow> stays_in (tended True (us_tenant u)) (create_agent_route av u q)"
  "stays_in (tended True (us_tenant u)) (clone_agent_route av u source n)"
proof -
  have p: "stays_in (tended True (us_tenant u)) (provision_first_key av u r)" for r
    unfolding provision_first_key_def by (intro frame_intros)
  show "aq_type q \<in> set agent_types \<Longrightarrow> stays_in (tended True (us_tenant u)) (create_agent_route av u q)"
    unfolding create_agent_route_def by (intro frame_intros p create_evolves) simp
  show "stays_in (tended True (us_tenant u)) (clone_agent_route av u source n)"
    unfolding clone_agent_route_def by (intro frame_intros clone_evolves)
qed

lemma handle_agents_tended:
  assumes "well_formed rq"
  shows "stays_in (tended (creates rq) (us_tenant u)) (handle_agents av u rq)"
proof -
  have a: "stays_in (tended c (us_tenant u)) m \<Longrightarrow> stays_in (tended c (us_tenant u)) (answer_as f m)"
    for c and m :: "('w, 'b) backend_action" and f
    unfolding answer_as_def by (intro frame_intros)
  show ?thesis
    using assms by (cases rq) (auto simp: answer_as_def intro!: frame_intros creating_routes_tended)
qed

text \<open>A request whose caller is not known changes nothing; any other is within its caller's frame.\<close>

lemma on_platform_reading:
  assumes "m (bk_platform s) = (q, bk_platform s)"
  shows "on_platform m s = (q, s)"
  using assms by (simp add: on_platform_def on_part_def)

lemma serve_agents_tended:
  assumes "well_formed rq"
  shows "case fst (get_current_user (av_platform av) token (bk_platform s)) of
     Inl e \<Rightarrow> serve_agents av token rq s = (Inl e, s)
   | Inr u \<Rightarrow> tended (creates rq) (us_tenant u) s (snd (serve_agents av token rq s))"
proof (cases "get_current_user (av_platform av) token (bk_platform s)")
  case (Pair q p)
  then have p: "p = bk_platform s" by (rule get_current_user_state)
  with Pair have run: "on_platform (get_current_user (av_platform av) token) s = (q, s)"
    by (simp add: on_platform_reading)
  show ?thesis
  proof (cases q)
    case (Inl e)
    with Pair run show ?thesis by (simp add: serve_agents_def andthen_Inl)
  next
    case (Inr u)
    have "stays_in undisturbed (require_role (agents_roles rq) u)"
      unfolding require_role_def http_error_def by (intro frame_intros)
    then have "stays_in (tended (creates rq) (us_tenant u))
        (andthen (on_platform (require_role (agents_roles rq) u)) (\<lambda>_. handle_agents av u rq))" (is "stays_in ?R ?m")
      by (intro frame_intros handle_agents_tended assms)
    from stays_inD [OF this, of s "fst (?m s)" "snd (?m s)"] Pair run Inr show ?thesis
      by (simp add: serve_agents_def andthen_Inr)
  qed
qed

section \<open>Runs of requests\<close>

text \<open>Every agent of the registry can be read.\<close>

definition reads_every :: "registry \<Rightarrow> bool" where
  "reads_every s \<longleftrightarrow> (\<forall>tenant agent. \<exists>r. get_agent tenant agent s = (Inr r, s))"

lemma readable_reads_every: "rows_readable s \<Longrightarrow> reads_every s"
  by (fastforce simp: reads_every_def rows_readable_def row_readable_def get_agent_def read_record_def prog_simps Let_def
      split: option.split)

fun serve_run :: "'w agent_services \<Rightarrow> (string option \<times> agents_request) list \<Rightarrow> 'w backend \<Rightarrow> 'w backend" where
  "serve_run av [] s = s"
| "serve_run av ((token, rq) # rqs) s = serve_run av rqs (snd (serve_agents av token rq s))"

definition rows_succeed :: "'w backend \<Rightarrow> 'w backend \<Rightarrow> bool" where
  "rows_succeed s t \<longleftrightarrow>
     (keyed (registry_of s) \<longrightarrow> keyed (registry_of t) \<and>
       (\<forall>k x. map_of (rg_agents (registry_of s)) k = Some (Whole x) \<longrightarrow>
          (\<exists>y. map_of (rg_agents (registry_of t)) k = Some (Whole y) \<and> successor x y)))"

lemma rows_succeed_trans: "rows_succeed s t \<Longrightarrow> rows_succeed t u \<Longrightarrow> rows_succeed s u"
  unfolding rows_succeed_def by (meson successor_trans)

lemma not_creating_well_formed: "\<not> creates rq \<Longrightarrow> well_formed rq"
  by (cases rq) auto

lemma serve_rows_succeed:
  assumes "\<not> creates rq"
  shows "rows_succeed s (snd (serve_agents av token rq s))"
proof (cases "fst (get_current_user (av_platform av) token (bk_platform s))")
  case (Inl e)
  with serve_agents_tended [OF not_creating_well_formed [OF assms], of av token s] show ?thesis
    by (auto simp: rows_succeed_def)
next
  case (Inr u)
  with serve_agents_tended [OF not_creating_well_formed [OF assms], of av token s] assms
  have "evolves False (us_tenant u) (registry_of s) (registry_of (snd (serve_agents av token rq s)))"
    by (simp add: tended_def)
  then show ?thesis unfolding rows_succeed_def evolves_def by blast
qed

lemma serve_run_rows_succeed:
  assumes "\<And>token rq. (token, rq) \<in> set rqs \<Longrightarrow> \<not> creates rq"
  shows "rows_succeed s (serve_run av rqs s)"
  using assms
proof (induction rqs arbitrary: s)
  case Nil
  show ?case by (auto simp: rows_succeed_def)
next
  case (Cons p rqs)
  obtain token rq where p: "p = (token, rq)" by (cases p)
  with Cons.prems have "\<not> creates rq" by auto
  then have "rows_succeed s (snd (serve_agents av token rq s))" by (rule serve_rows_succeed)
  moreover have "rows_succeed (snd (serve_agents av token rq s)) (serve_run av rqs (snd (serve_agents av token rq s)))"
    using Cons by auto
  ultimately show ?case unfolding p serve_run.simps by (rule rows_succeed_trans)
qed

end
