(* ===== verification/Deploying.thy ===== *)
theory Deploying
  imports AgentRules
begin

text \<open>
  What triggering a deployment of an agent leaves behind: one deployment that was started, or, where
  the git host or the event bus refused, one that is marked as failed and started nothing.
\<close>

section \<open>What a deployment changes\<close>

type_synonym deployments = "((string \<times> string) \<times> deployment) list"

definition deployments_of :: "'w backend \<Rightarrow> deployments" where
  "deployments_of s = fc_deployments (pl_factory (bk_platform s))"

definition published :: "'w backend \<Rightarrow> (string \<times> pyval) list" where
  "published s = fc_events (pl_factory (bk_platform s))"

text \<open>The agents' rows, the events and the background tasks; and these with the deployments.\<close>

definition started :: "'w backend \<Rightarrow> ((string \<times> string) \<times> agent_row) list \<times> (string \<times> pyval) list \<times> background list" where
  "started s = (rg_agents (registry_of s), published s, bk_tasks s)"

definition pipeline_view :: "'w backend \<Rightarrow> _" where
  "pipeline_view s = (started s, deployments_of s)"

lemma world_view [frame_intros]:
  "stays_in (same pipeline_view) (in_world m)" "stays_in (same pipeline_view) (time_now av)"
  by (auto simp: stays_in_def same_def in_world_def on_platform_def on_world_def on_part_def time_now_def the_time_def
      on_factory_def now_at_def reads_def pipeline_view_def started_def registry_of_def deployments_of_def published_def
      split: prod.splits)

lemma platform_view [frame_intros]:
  assumes "stays_in undisturbed m"
  shows "stays_in (same pipeline_view) (on_platform m)"
proof (rule stays_inI)
  fix s q t
  assume "on_platform m s = (q, t)"
  then obtain p where p: "m (bk_platform s) = (q, p)" and t: "t = s\<lparr>bk_platform := p\<rparr>"
    by (auto simp: on_platform_def on_part_def split: prod.splits)
  from stays_inD [OF assms p] t show "same pipeline_view s t"
    by (auto simp: undisturbed_def same_def pipeline_view_def started_def registry_of_def deployments_of_def published_def)
qed

lemma settings_view [frame_intros]: "stays_in (same pipeline_view) (on_platform (on_settings m))"
  by (auto simp: stays_in_def same_def on_platform_def on_settings_def on_part_def pipeline_view_def started_def
      registry_of_def deployments_of_def published_def split: prod.splits)

lemma registry_view [frame_intros]:
  assumes "stays_in (same rg_agents) m"
  shows "stays_in (same pipeline_view) (on_registry_of m)"
  using assms
  by (auto simp: stays_in_def same_def on_registry_of_def on_platform_def on_agents_def on_factory_def on_part_def
      on_registry_def pipeline_view_def started_def registry_of_def deployments_of_def published_def split: prod.splits)
    (metis snd_conv)

lemma git_view [frame_intros]:
  "stays_in (same pipeline_view) (git_asks av c)" "stays_in (same pipeline_view) (git_does av c)"
  "stays_in (same pipeline_view) (push_to_repository av tn agent version cfg ts iac did repo)"
proof -
  have m: "stays_in (same pipeline_view) (modifies (\<lambda>s. s\<lparr>bk_git := f s\<rparr>))" for f :: "'w backend \<Rightarrow> git_call list"
    by (simp add: stays_in_def same_def modifies_def pipeline_view_def started_def registry_of_def deployments_of_def published_def)
  show a: "stays_in (same pipeline_view) (git_asks av c)" and d: "stays_in (same pipeline_view) (git_does av c)" for c
    unfolding git_asks_def git_does_def by (intro frame_intros m)+
  show "stays_in (same pipeline_view) (push_to_repository av tn agent version cfg ts iac did repo)"
    unfolding push_to_repository_def Let_def git_then_def by (intro frame_intros a d)
qed

section \<open>A failure after the deployment exists\<close>

definition recorded :: "string \<Rightarrow> string \<Rightarrow> deployment \<Rightarrow> 'w backend \<Rightarrow> bool" where
  "recorded agent did d s \<longleftrightarrow> map_of (deployments_of s) (agent, did) = Some d \<and> dp_agent d = agent \<and> dp_id d = did"

definition failed_with :: "string \<Rightarrow> deployment \<Rightarrow> bool" where
  "failed_with m d \<longleftrightarrow> dp_status d = ''FAILED'' \<and> dp_failure d = Some m \<and> dp_failed_stage d = Some ''GENERATING_IAC''"

text \<open>The deployments of two states agree except, where it may differ, at one key.\<close>

definition elsewhere_same :: "string \<times> string \<Rightarrow> 'w backend \<Rightarrow> 'w backend \<Rightarrow> bool" where
  "elsewhere_same k s t \<longleftrightarrow> (\<forall>k'. k' \<noteq> k \<longrightarrow> map_of (deployments_of t) k' = map_of (deployments_of s) k')"

lemma fail_deployment_marks:
  assumes "recorded agent did d s"
  shows "\<exists>t d'. fail_deployment av agent did m s = (Inl (HttpError 502 m), t) \<and>
     recorded agent did d' t \<and> failed_with m d' \<and> started t = started s \<and> elsewhere_same (agent, did) s t"
  using assms
  by (auto simp: fail_deployment_def fails_with_def on_factory_of_def on_platform_def on_factory_def on_part_def
      update_stage_def require_deployment_def get_deployment_def now_at_def put_deployment_def with_stage_def
      recorded_def failed_with_def started_def registry_of_def deployments_of_def published_def elsewhere_same_def
      keep_unless_def AList.update_conv' Let_def prog_simps)

lemma fail_deployment_run:
  assumes "recorded agent did d s" and "fail_deployment av agent did m s = (q :: pyexn + 'b, t)"
  shows "q = Inl (HttpError 502 m) \<and> started t = started s \<and> elsewhere_same (agent, did) s t \<and>
     (\<exists>d'. recorded agent did d' t \<and> failed_with m d')"
proof -
  obtain u d' where "fail_deployment av agent did m s = (Inl (HttpError 502 m) :: pyexn + 'b, u)"
    "recorded agent did d' u" "failed_with m d'" "started u = started s" "elsewhere_same (agent, did) s u"
    using fail_deployment_marks [OF assms(1)] by blast
  with assms(2) show ?thesis by auto
qed

lemma record_git_reference_run:
  assumes "recorded agent did d s"
  shows "\<exists>t d'. on_factory_of (record_git_reference cl agent did branch pr) s = (Inr d', t) \<and>
     recorded agent did d' t \<and> dp_branch d' = Some branch \<and> dp_pr d' = pr \<and> dp_status d' = dp_status d \<and>
     dp_version d' = dp_version d \<and> started t = started s \<and> elsewhere_same (agent, did) s t"
  using assms
  by (auto simp: on_factory_of_def on_platform_def on_factory_def on_part_def
      record_git_reference_def require_deployment_def get_deployment_def now_at_def put_deployment_def
      recorded_def started_def registry_of_def deployments_of_def published_def elsewhere_same_def
      AList.update_conv' Let_def prog_simps)

text \<open>The event bus takes the event, or the deployment is marked.\<close>

definition requested :: "string \<Rightarrow> int \<Rightarrow> string \<Rightarrow> string \<Rightarrow> string \<times> pyval \<Rightarrow> bool" where
  "requested agent version did tenant ev \<longleftrightarrow>
     (\<exists>now. ev = (''AgentDeploymentRequested'', PDict
        [(''deploymentId'', PStr did), (''agentId'', PStr agent), (''version'', PInt version),
         (''tenantId'', PStr tenant), (''triggeredAt'', PStr now)]))"

lemma trigger_event_run:
  "\<exists>t ev. on_factory_of (trigger_deployment cl agent version did tenant) s = (Inr (), t) \<and>
     requested agent version did tenant ev \<and> published t = published s @ [ev] \<and>
     rg_agents (registry_of t) = rg_agents (registry_of s) \<and> bk_tasks t = bk_tasks s \<and> deployments_of t = deployments_of s"
  by (simp add: on_factory_of_def on_platform_def on_factory_def on_part_def trigger_deployment_def put_event_def
      now_at_def requested_def registry_of_def deployments_of_def published_def prog_simps)

lemma same_pipeline:
  "same pipeline_view s t \<Longrightarrow> started t = started s \<and> deployments_of t = deployments_of s"
  by (simp add: same_def pipeline_view_def)

lemma publish_deployment_run:
  assumes r: "recorded agent did d s" and run: "publish_deployment av tenant agent version did s = (q, t)"
  shows "case q of
      Inr u \<Rightarrow> recorded agent did d t \<and> deployments_of t = deployments_of s \<and> bk_tasks t = bk_tasks s \<and>
        rg_agents (registry_of t) = rg_agents (registry_of s) \<and>
        (\<exists>ev. requested agent version did tenant ev \<and> published t = published s @ [ev])
    | Inl e \<Rightarrow> \<exists>m d'. e = HttpError 502 m \<and> recorded agent did d' t \<and> failed_with m d' \<and> started t = started s \<and>
        elsewhere_same (agent, did) s t"
proof -
  define msg where "msg e = ''Could not start the deployment pipeline: '' @ av_text av e" for e
  define pub :: "('a, unit) backend_action" where
    "pub = in_world (\<lambda>w. case av_publish av w of (Some e, w') \<Rightarrow> (Inl e, w') | (None, w') \<Rightarrow> (Inr (), w'))"
  obtain w q1 where p: "pub s = (q1, w)" by fastforce
  from run have run': "catching (andthen pub (\<lambda>_. on_factory_of (trigger_deployment (cloud_of av) agent version did tenant)))
      (\<lambda>e. fail_deployment av agent did (msg e)) s = (q, t)"
    unfolding publish_deployment_def pub_def msg_def .
  have "stays_in (same pipeline_view) pub" unfolding pub_def by (intro frame_intros)
  from stays_inD [OF this p] have w: "started w = started s" "deployments_of w = deployments_of s" by (simp_all add: same_pipeline)
  show ?thesis
  proof (cases q1)
    case (Inr u)
    obtain t' ev where e: "on_factory_of (trigger_deployment (cloud_of av) agent version did tenant) w = (Inr (), t')"
      "requested agent version did tenant ev" "published t' = published w @ [ev]"
      "rg_agents (registry_of t') = rg_agents (registry_of w)" "bk_tasks t' = bk_tasks w" "deployments_of t' = deployments_of w"
      using trigger_event_run [of "cloud_of av" agent version did tenant w] by blast
    with run' p Inr have "q = Inr ()" "t = t'" by (simp_all add: catching_def andthen_def)
    with e w r have "recorded agent did d t" by (simp add: recorded_def)
    with e w \<open>q = Inr ()\<close> \<open>t = t'\<close> show ?thesis by (cases ev) (auto simp: started_def)
  next
    case (Inl e)
    from w r have "recorded agent did d w" by (simp add: recorded_def)
    moreover have "fail_deployment av agent did (msg e) w = (q, t)"
      using run' p Inl by (simp add: catching_def andthen_def)
    ultimately have f: "q = Inl (HttpError 502 (msg e))" "started t = started w" "elsewhere_same (agent, did) w t"
      "\<exists>d'. recorded agent did d' t \<and> failed_with (msg e) d'"
      by (auto dest: fail_deployment_run)
    with f w show ?thesis by (auto simp: elsewhere_same_def)
  qed
qed

lemma registry_keeps_rest:
  assumes "on_registry_of m s = (q, t)"
  shows "published t = published s" "deployments_of t = deployments_of s" "bk_tasks t = bk_tasks s"
    "m (registry_of s) = (q, registry_of t)"
  using assms
  by (auto simp: on_registry_of_def on_platform_def on_agents_def on_factory_def on_part_def on_registry_def
      published_def deployments_of_def registry_of_def split: prod.splits)

lemma record_deployment_trigger_run:
  assumes "record_deployment_trigger now tenant agent version did who s = (q, t)"
  shows "case q of
      Inr r \<Rightarrow> rg_agents t = AList.update (ag_tenant r, ag_id r) (Whole r) (rg_agents s) \<and> ag_status r = ''DEPLOYING'' \<and>
        (keyed s \<longrightarrow> (ag_tenant r, ag_id r) = (tenant, agent))
    | Inl e \<Rightarrow> rg_agents t = rg_agents s \<and> (\<forall>n m. e \<noteq> HttpError n m)"
  using assms unfolding record_deployment_trigger_def
proof (cases rule: andthen_cases)
  case (stop e)
  have "require_agent tenant agent s = (Inl e, t) \<Longrightarrow> rg_agents t = rg_agents s \<and> (\<forall>n m. e \<noteq> HttpError n m)"
    by (auto simp: require_agent_def get_agent_def read_record_def prog_simps Let_def
        split: option.splits agent_row.splits if_splits)
  with stop show ?thesis by simp
next
  case (step r u)
  then have u: "u = s" and r: "readable s tenant agent r" by (simp_all add: require_agent_Inr)
  from step(2) show ?thesis
  proof (cases rule: andthen_cases)
    case (stop e)
    have "require_version agent version s = (Inl e, t) \<Longrightarrow> rg_agents t = rg_agents s \<and> (\<forall>n m. e \<noteq> HttpError n m)"
      by (auto simp: require_version_def get_version_def from_row_def prog_simps Let_def
          split: option.splits version_row.splits if_splits)
    with stop u show ?thesis by simp
  next
    case (step v w)
    then have "w = s" using u by (auto dest: require_version_Inr)
    with step(2) have "q = Inr (stamped who now (r\<lparr>ag_status := ''DEPLOYING''\<rparr>))"
      "rg_agents t = AList.update (ag_tenant r, ag_id r) (Whole (stamped who now (r\<lparr>ag_status := ''DEPLOYING''\<rparr>))) (rg_agents s)"
      by (auto simp: record_derived_fields_def mutable_derived_fields_def put_agent_def prog_simps Let_def stamped_def)
    with readable_key [OF _ r] show ?thesis by (auto simp: stamped_def)
  qed
qed

section \<open>The outcome\<close>

definition running :: "string \<Rightarrow> int \<Rightarrow> triggered \<Rightarrow> deployment \<Rightarrow> bool" where
  "running agent version tg d \<longleftrightarrow>
     dp_agent d = agent \<and> dp_id d = tg_deployment tg \<and> dp_version d = version \<and> dp_status d = ''PENDING'' \<and>
     dp_branch d = Some (tg_branch tg) \<and> dp_pr d = tg_pr tg"

definition started_once :: "string \<Rightarrow> string \<Rightarrow> int \<Rightarrow> triggered \<Rightarrow> 'w backend \<Rightarrow> 'w backend \<Rightarrow> bool" where
  "started_once tenant agent version tg s t \<longleftrightarrow>
     (\<exists>ev. requested agent version (tg_deployment tg) tenant ev \<and> published t = published s @ [ev]) \<and>
     map_of (rg_agents (registry_of t)) = (map_of (rg_agents (registry_of s)))((tenant, agent) \<mapsto> Whole (tg_record tg)) \<and>
     ag_status (tg_record tg) = ''DEPLOYING''"

lemma started_eq:
  "started t = started s \<longleftrightarrow>
     rg_agents (registry_of t) = rg_agents (registry_of s) \<and> published t = published s \<and> bk_tasks t = bk_tasks s"
  by (simp add: started_def)

lemma start_pipeline_run:
  assumes r: "recorded agent did d s" "dp_status d = ''PENDING''" "dp_version d = version"
    and run: "start_pipeline av tenant who agent version did cfg iac (branch, pr) s = (q, t)"
    and k: "keyed (registry_of s)"
  shows "elsewhere_same (agent, did) s t \<and> (case q of
      Inr tg \<Rightarrow> tg_deployment tg = did \<and> tg_branch tg = branch \<and> tg_pr tg = pr \<and> started_once tenant agent version tg s t \<and>
        (\<exists>d'. recorded agent did d' t \<and> running agent version tg d')
    | Inl e \<Rightarrow> rg_agents (registry_of t) = rg_agents (registry_of s) \<and> bk_tasks t = bk_tasks s \<and>
        (\<forall>m. e = HttpError 502 m \<longrightarrow> published t = published s \<and> (\<exists>d'. recorded agent did d' t \<and> failed_with m d')))"
proof -
  obtain s1 d1 where g: "on_factory_of (record_git_reference (cloud_of av) agent did branch pr) s = (Inr d1, s1)"
    and d1: "recorded agent did d1 s1" "dp_branch d1 = Some branch" "dp_pr d1 = pr" "dp_status d1 = ''PENDING''" "dp_version d1 = version"
    and s1: "started s1 = started s" "elsewhere_same (agent, did) s s1"
    using record_git_reference_run [OF r(1), of "cloud_of av" branch pr] r by metis
  from run g have "andthen (publish_deployment av tenant agent version did) (\<lambda>_.
     andthen (time_now av) (\<lambda>now.
     andthen (on_registry_of (record_deployment_trigger (At now) tenant agent version did who)) (\<lambda>r.
     andthen (if av_simulate av then modifies (\<lambda>s. s\<lparr>bk_tasks := bk_tasks s @ [SimulateRun tenant agent did cfg (gr_files iac)]\<rparr>) else ret ()) (\<lambda>_.
       ret \<lparr>tg_deployment = did, tg_branch = branch, tg_pr = pr, tg_record = r\<rparr>)))) s1 = (q, t)"
    unfolding start_pipeline_def by (simp add: andthen_Inr)
  then show ?thesis
  proof (cases rule: andthen_cases)
    case (stop e)
    from publish_deployment_run [OF d1(1) stop(1)] stop(2) s1 show ?thesis
      by (auto simp: started_eq elsewhere_same_def)
  next
    case (step x s2)
    from publish_deployment_run [OF d1(1) step(1)] obtain ev where
      s2: "recorded agent did d1 s2" "deployments_of s2 = deployments_of s1" "bk_tasks s2 = bk_tasks s1"
        "rg_agents (registry_of s2) = rg_agents (registry_of s1)" "requested agent version did tenant ev"
        "published s2 = published s1 @ [ev]" by auto
    from step(2) show ?thesis
    proof (cases rule: andthen_cases)
      case (stop e)
      then show ?thesis
        by (simp add: time_now_def on_platform_def on_part_def the_time_def on_factory_def now_at_def reads_def)
    next
      case (step now s3)
      have "stays_in (same pipeline_view) (time_now av)" by (intro frame_intros)
      from stays_inD [OF this step(1)] have s3: "started s3 = started s2" "deployments_of s3 = deployments_of s2"
        by (simp_all add: same_pipeline)
      have k3: "keyed (registry_of s3)" using k s1 s2 s3 by (simp add: keyed_def started_eq)
      from step(2) show ?thesis
      proof (cases rule: andthen_cases)
        case (stop e)
        note reg = registry_keeps_rest [OF stop(1)]
        from record_deployment_trigger_run [OF reg(4)] reg stop(2) s1 s2 s3 show ?thesis
          by (auto simp: started_eq elsewhere_same_def)
      next
        case (step r s4)
        note reg = registry_keeps_rest [OF step(1)]
        from record_deployment_trigger_run [OF reg(4)] k3 have
          s4: "rg_agents (registry_of s4) = AList.update (tenant, agent) (Whole r) (rg_agents (registry_of s3))" "ag_status r = ''DEPLOYING''"
          by auto
        from step(2) have q: "q = Inr \<lparr>tg_deployment = did, tg_branch = branch, tg_pr = pr, tg_record = r\<rparr>"
          "registry_of t = registry_of s4" "published t = published s4" "deployments_of t = deployments_of s4"
          by (auto simp: prog_simps registry_of_def published_def deployments_of_def split: if_splits)
        have dep: "deployments_of t = deployments_of s1" using q reg s3 s2 by simp
        then have "recorded agent did d1 t" "elsewhere_same (agent, did) s t"
          using d1(1) s1(2) by (simp_all add: recorded_def elsewhere_same_def)
        moreover have "running agent version \<lparr>tg_deployment = did, tg_branch = branch, tg_pr = pr, tg_record = r\<rparr> d1"
          using d1 by (simp add: running_def recorded_def)
        moreover have "published t = published s @ [ev]" using q reg s1 s2 s3 by (simp add: started_eq)
        ultimately show ?thesis
          using q s4 s1 s2 s3 by (cases ev) (auto simp: started_once_def AList.update_conv' started_eq)
      qed
    qed
  qed
qed

text \<open>
  The clients of the git hosts raise httpx's errors and a few of their own, no answer of the API.
\<close>

definition git_errors :: "'w agent_services \<Rightarrow> bool" where
  "git_errors av \<longleftrightarrow>
     (\<forall>c w n m. fst (av_git_asks av c w) \<noteq> Inl (OtherFailure (HttpError n m)) \<and>
       fst (av_git_does av c w) \<noteq> Inl (OtherFailure (HttpError n m)))"

text \<open>The deployments are as before, or one new one is marked as failed.\<close>

definition stopped :: "string \<Rightarrow> string \<Rightarrow> 'w backend \<Rightarrow> 'w backend \<Rightarrow> bool" where
  "stopped agent m s t \<longleftrightarrow>
     published t = published s \<and>
     (deployments_of t = deployments_of s \<or>
      (\<exists>did d. elsewhere_same (agent, did) s t \<and> recorded agent did d t \<and> failed_with m d))"

definition outcome :: "string \<Rightarrow> string \<Rightarrow> int \<Rightarrow> 'w backend \<Rightarrow> pyexn + triggered \<Rightarrow> 'w backend \<Rightarrow> bool" where
  "outcome tenant agent version s q t \<longleftrightarrow>
     (case q of
        Inr tg \<Rightarrow> started_once tenant agent version tg s t \<and> elsewhere_same (agent, tg_deployment tg) s t \<and>
          (\<exists>d. map_of (deployments_of t) (agent, tg_deployment tg) = Some d \<and> running agent version tg d)
      | Inl e \<Rightarrow> rg_agents (registry_of t) = rg_agents (registry_of s) \<and> bk_tasks t = bk_tasks s \<and>
          (\<forall>m. e = HttpError 502 m \<longrightarrow> stopped agent m s t))"

lemma outcome_unchanged: "same pipeline_view s t \<Longrightarrow> outcome tenant agent version s (Inl e) t"
  by (auto simp: outcome_def stopped_def same_def pipeline_view_def started_def)

lemma outcome_after:
  assumes "started u = started s" "deployments_of u = deployments_of s" "outcome tenant agent version u q t"
  shows "outcome tenant agent version s q t"
  using assms
  by (auto simp: outcome_def stopped_def started_once_def started_eq elsewhere_same_def split: sum.splits)

text \<open>A program all of whose runs, from a registry whose records carry their keys, have such an outcome.\<close>

definition settles :: "string \<Rightarrow> string \<Rightarrow> int \<Rightarrow> ('w, triggered) backend_action \<Rightarrow> bool" where
  "settles tenant agent version m \<longleftrightarrow>
     (\<forall>s q t. keyed (registry_of s) \<longrightarrow> m s = (q, t) \<longrightarrow> outcome tenant agent version s q t)"

lemma started_keyed: "started u = started s \<Longrightarrow> keyed (registry_of s) \<Longrightarrow> keyed (registry_of u)"
  by (simp add: started_eq keyed_def)

lemma settles_after:
  assumes m: "stays_in (same pipeline_view) m" and f: "\<And>x. settles tenant agent version (f x)"
  shows "settles tenant agent version (andthen m f)"
  unfolding settles_def
proof (intro allI impI)
  fix s q t
  assume k: "keyed (registry_of s)" and "andthen m f s = (q, t)"
  from this(2) show "outcome tenant agent version s q t"
  proof (cases rule: andthen_cases)
    case (stop e)
    with stays_inD [OF m stop(1)] show ?thesis by (simp add: outcome_unchanged)
  next
    case (step x u)
    note v = same_pipeline [OF stays_inD [OF m step(1)]]
    with k have "keyed (registry_of u)" by (blast intro: started_keyed)
    with f step(2) have "outcome tenant agent version u q t" by (auto simp: settles_def)
    with v show ?thesis by (blast intro: outcome_after)
  qed
qed

text \<open>A program over the git host raises nothing (its failures are values) and never fails with an answer of the API.\<close>

definition clean :: "('w, git_failure + 'a) backend_action \<Rightarrow> bool" where
  "clean m \<longleftrightarrow> (\<forall>s t. (\<forall>e. m s \<noteq> (Inl e, t)) \<and> (\<forall>n d. m s \<noteq> (Inr (Inl (OtherFailure (HttpError n d))), t)))"

lemma clean_calls:
  assumes "git_errors av"
  shows "clean (git_asks av c)" "clean (git_does av c)"
proof -
  have a: "fst (av_git_asks av c w) \<noteq> Inl (OtherFailure (HttpError n m))"
    "fst (av_git_does av c w) \<noteq> Inl (OtherFailure (HttpError n m))" for w n m
    using assms by (simp_all add: git_errors_def)
  show "clean (git_asks av c)"
    using a(1) unfolding clean_def git_asks_def in_world_def on_platform_def on_world_def on_part_def prog_simps Let_def
    by (auto split: prod.splits) (metis fst_conv)
  show "clean (git_does av c)"
    using a(2) unfolding clean_def git_does_def in_world_def on_platform_def on_world_def on_part_def prog_simps Let_def
    by (auto split: prod.splits) (metis fst_conv)
qed

lemma clean_then: "clean m \<Longrightarrow> (\<And>x. clean (f x)) \<Longrightarrow> clean (git_then m f)"
  unfolding git_then_def clean_def
  by (auto elim!: andthen_cases simp: ret_def split: sum.splits)

lemma clean_ret: "clean (ret (Inr x))" "clean (ret (Inl (OtherFailure (ValueError v))))" "clean (ret (Inl (OtherFailure (KeyError v))))"
  by (simp_all add: clean_def ret_def)

lemma clean_if: "clean m \<Longrightarrow> clean n \<Longrightarrow> clean (if b then m else n)" by simp

lemma workflow_errors: "generate_cicd_workflow provider m agent = Inl e \<Longrightarrow> e \<noteq> HttpError n d"
  by (auto simp: generate_cicd_workflow_def Let_def split: if_splits option.splits)

lemma clean_push:
  assumes "git_errors av"
  shows "clean (push_to_repository av tn agent version cfg ts iac did repo)"
proof -
  have w: "clean (case generate_cicd_workflow p m agent of Inl e \<Rightarrow> ret (Inl (OtherFailure e)) | Inr (x, y) \<Rightarrow> f x y)"
    if "\<And>x y. clean (f x y)" for p m and f :: "string \<Rightarrow> string \<Rightarrow> ('w, git_failure + string \<times> string option) backend_action"
    using that by (auto simp: clean_def ret_def split: sum.splits dest: workflow_errors)
  show ?thesis
    unfolding push_to_repository_def Let_def
    by (intro clean_then clean_calls clean_if clean_ret w assms)
qed

lemma git_failed_run:
  assumes "recorded agent did d s" and "\<And>x n m. e = OtherFailure x \<Longrightarrow> x \<noteq> HttpError n m"
    and "git_failed av agent did e s = (q, t)"
  shows "elsewhere_same (agent, did) s t \<and> started t = started s \<and>
     (\<exists>x. q = Inl x \<and> (\<forall>m. x = HttpError 502 m \<longrightarrow> (\<exists>d'. recorded agent did d' t \<and> failed_with m d')))"
proof (cases "git_failure_message e")
  case None
  with assms(2,3) show ?thesis
    by (cases e) (auto simp: git_failed_def git_failure_message_def raising_def elsewhere_same_def)
next
  case (Some m)
  with assms(3) have "fail_deployment av agent did m s = (q, t)" by (simp add: git_failed_def)
  from fail_deployment_run [OF assms(1) this] show ?thesis by auto
qed

lemma create_deployment_run:
  "\<exists>t. on_factory_of (create_deployment d) s = (Inr (), t) \<and> started t = started s \<and>
     elsewhere_same (dp_agent d, dp_id d) s t \<and> recorded (dp_agent d) (dp_id d) d t"
  by (simp add: on_factory_of_def on_platform_def on_factory_def on_part_def create_deployment_def put_deployment_def
      modifies_def recorded_def started_def registry_of_def deployments_of_def published_def elsewhere_same_def AList.update_conv')

lemma elsewhere_trans: "elsewhere_same k s t \<Longrightarrow> elsewhere_same k t u \<Longrightarrow> elsewhere_same k s u"
  by (simp add: elsewhere_same_def)

lemma pushed_outcome:
  assumes g: "git_errors av" and k: "keyed (registry_of s)"
    and run: "andthen (on_factory_of (create_deployment (new_deployment agent did version who now mode key))) (\<lambda>_.
      andthen (push_to_repository av tn agent version cfg ts iac did repo) (\<lambda>pushed.
        case pushed of Inl e \<Rightarrow> git_failed av agent did e
        | Inr ref \<Rightarrow> start_pipeline av tenant who agent version did cfg iac ref)) s = (q, t)"
  shows "outcome tenant agent version s q t"
proof -
  define d where "d = new_deployment agent did version who now mode key"
  have d: "dp_agent d = agent" "dp_id d = did" "dp_version d = version" "dp_status d = ''PENDING''"
    by (simp_all add: d_def new_deployment_def)
  obtain s1 where c: "on_factory_of (create_deployment d) s = (Inr (), s1)" "started s1 = started s"
    "elsewhere_same (agent, did) s s1" "recorded agent did d s1"
    using create_deployment_run [of d s] d by auto
  from run c(1) have "andthen (push_to_repository av tn agent version cfg ts iac did repo) (\<lambda>pushed.
        case pushed of Inl e \<Rightarrow> git_failed av agent did e
        | Inr ref \<Rightarrow> start_pipeline av tenant who agent version did cfg iac ref) s1 = (q, t)"
    by (simp add: andthen_Inr d_def)
  then show ?thesis
  proof (cases rule: andthen_cases)
    case (stop e)
    with clean_push [OF g] show ?thesis unfolding clean_def by blast
  next
    case (step pushed s2)
    have "stays_in (same pipeline_view) (push_to_repository av tn agent version cfg ts iac did repo)" by (intro frame_intros)
    from same_pipeline [OF stays_inD [OF this step(1)]] have s2: "started s2 = started s1" "deployments_of s2 = deployments_of s1"
      by simp_all
    then have r: "recorded agent did d s2" and e2: "elsewhere_same (agent, did) s s2"
      using c by (simp_all add: recorded_def elsewhere_same_def)
    have k2: "keyed (registry_of s2)" using k c(2) s2(1) by (simp add: started_eq keyed_def)
    show ?thesis
    proof (cases pushed)
      case (Inl e)
      have cl: "x \<noteq> HttpError n m" if "e = OtherFailure x" for x n m
        using clean_push [OF g] step(1) Inl that unfolding clean_def by blast
      from step(2) Inl have "git_failed av agent did e s2 = (q, t)" by simp
      note failed = git_failed_run [OF r cl this]
      then have e: "elsewhere_same (agent, did) s t" using e2 elsewhere_trans by blast
      from failed c s2 have "rg_agents (registry_of t) = rg_agents (registry_of s)" "bk_tasks t = bk_tasks s"
        "published t = published s" by (simp_all add: started_eq)
      with failed e show ?thesis unfolding outcome_def stopped_def by force
    next
      case (Inr ref)
      obtain branch pr where ref: "ref = (branch, pr)" by (cases ref)
      with step(2) Inr have "start_pipeline av tenant who agent version did cfg iac (branch, pr) s2 = (q, t)" by simp
      note went = start_pipeline_run [OF r d(4,3) this k2]
      then have e: "elsewhere_same (agent, did) s t" using e2 elsewhere_trans by blast
      have v: "rg_agents (registry_of s2) = rg_agents (registry_of s)" "bk_tasks s2 = bk_tasks s" "published s2 = published s"
        using c(2) s2(1) by (simp_all add: started_eq)
      show ?thesis
      proof (cases q)
        case (Inl x)
        with went e v show ?thesis unfolding outcome_def stopped_def by force
      next
        case (Inr tg)
        with went e v show ?thesis by (auto simp: outcome_def started_once_def recorded_def)
      qed
    qed
  qed
qed

lemma artifact_keeps_agents: "stays_in (same rg_agents) (record_iac_artifact tenant agent n v k ms rep)"
  unfolding record_iac_artifact_def by (intro frame_intros)

lemma trigger_outcome:
  assumes g: "git_errors av"
  shows "settles tenant agent version (trigger_agent_deployment av tenant who agent version cfg)"
proof (cases "agent_repo_identifier (st_git_provider (av_settings av)) (st_git_org (av_settings av)) agent")
  case None
  then show ?thesis
    by (auto simp: settles_def trigger_agent_deployment_def fails_with_def raising_def same_def intro!: outcome_unchanged)
next
  case (Some repo)
  have gen: "stays_in (same pipeline_view) (generate_or_502 av tenant agent version cfg)"
    unfolding generate_or_502_def fails_with_def by (intro frame_intros)
  have draw: "stays_in (same pipeline_view) (draw_deployment_id av)"
    unfolding draw_deployment_id_def by (intro frame_intros)
  have created: "settles tenant agent version
      (andthen (on_factory_of (create_deployment (new_deployment agent did version who now mode key))) (\<lambda>_.
       andthen (push_to_repository av tn agent version cfg ts iac did repo) (\<lambda>pushed.
        case pushed of Inl e \<Rightarrow> git_failed av agent did e
        | Inr ref \<Rightarrow> start_pipeline av tenant who agent version did cfg iac ref)))" for did now mode key tn ts iac
    unfolding settles_def by (intro allI impI) (rule pushed_outcome [OF g])
  show ?thesis
    unfolding trigger_agent_deployment_def Some option.case
    by (rule settles_after, rule draw, (rule settles_after, intro frame_intros gen artifact_keeps_agents)+, rule created)
qed

end
