(* ===== verification/AdminSettings.thy ===== *)
theory AdminSettings
  imports Deploying
begin

text \<open>
  The administrator's settings (app/api/v1/admin_settings.py) with the discovery of observability
  capabilities and the scrubbing of span attributes (app/modules/observability/: capabilities.py,
  scrubber.py) and the rest of the secrets manager (app/modules/secrets/manager.py).
\<close>

section \<open>Capabilities\<close>

record capability =
  cb_kind :: string
  cb_status :: string
  cb_detail :: string
  cb_adapters :: "string list"

definition status_rank :: "string \<Rightarrow> nat" where
  "status_rank st = get_or 0 (map_of [(''active'', 2), (''unknown'', 1), (''inactive'', 0)] st)"

definition capability_order :: "string list" where
  "capability_order = [''logs'', ''metrics'', ''distributed_tracing'', ''opentelemetry'']"

text \<open>An adapter: its id, the capability it feeds, and what it contributes under given settings.\<close>

type_synonym adapter = "string \<times> string \<times> (tenant_settings \<Rightarrow> (string \<times> string) option)"

definition cloudwatch_logs_adapter :: adapter where
  "cloudwatch_logs_adapter = (''cloudwatch_logs'', ''logs'', \<lambda>_. Some (''active'',
     ''Structured JSON logs from every agent container, routed via the ECS log driver.''))"

definition cloudwatch_metrics_adapter :: adapter where
  "cloudwatch_metrics_adapter = (''cloudwatch_metrics'', ''metrics'', \<lambda>_. Some (''active'',
     ''Request, latency, and cost metrics emitted by the agent runtime.''))"

definition xray_adapter :: adapter where
  "xray_adapter = (''aws_xray'', ''distributed_tracing'', \<lambda>_. Some (''active'',
     ''Distributed traces across agent runtime, Lambda, and Step Functions.''))"

definition otel_collector_adapter :: adapter where
  "otel_collector_adapter = (''otel_collector'', ''opentelemetry'', \<lambda>ts.
     if \<not> truthy (ts_otel_endpoint ts) then Some (''inactive'', ''No OpenTelemetry collector endpoint configured.'')
     else Some (''unknown'', ''Spans are routed to the configured collector ('' @ get_or [] (ts_otel_endpoint ts)
       @ ''); reachability isn'' @ [CHR 0x27] @ ''t actively health-probed.''))"

definition enabled_adapter :: "string \<Rightarrow> string \<Rightarrow> (tenant_settings \<Rightarrow> bool) \<Rightarrow> string \<Rightarrow> adapter" where
  "enabled_adapter i kind enabled detail =
     (i, kind, \<lambda>ts. if \<not> enabled ts then None else Some (''unknown'', detail))"

definition adapters :: "adapter list" where
  "adapters =
     [cloudwatch_logs_adapter, cloudwatch_metrics_adapter, xray_adapter, otel_collector_adapter,
      enabled_adapter ''langfuse'' ''distributed_tracing'' ts_langfuse_enabled
        ''Also exported to your self-hosted Langfuse instance for LLM-specific tracing.'',
      enabled_adapter ''datadog'' ''opentelemetry'' ts_datadog_enabled ''Also routed to Datadog APM via your OTel collector.'',
      enabled_adapter ''grafana'' ''opentelemetry'' ts_grafana_enabled ''Also routed to Grafana/Loki via your OTel collector.'',
      enabled_adapter ''new_relic'' ''opentelemetry'' ts_new_relic_enabled ''Also routed to New Relic via your OTel collector.'',
      enabled_adapter ''dynatrace'' ''opentelemetry'' ts_dynatrace_enabled ''Also routed to Dynatrace via your OTel collector.'']"

definition add_adapter :: "tenant_settings \<Rightarrow> (string \<times> capability) list \<Rightarrow> adapter \<Rightarrow> (string \<times> capability) list" where
  "add_adapter ts found = (\<lambda>(i, kind, resolve).
     case resolve ts of
       None \<Rightarrow> found
     | Some (status, detail) \<Rightarrow>
         (case map_of found kind of
            None \<Rightarrow> dict_set kind \<lparr>cb_kind = kind, cb_status = status, cb_detail = detail, cb_adapters = [i]\<rparr> found
          | Some c \<Rightarrow>
              dict_set kind
                (c\<lparr>cb_status := (if status_rank status > status_rank (cb_status c) then status else cb_status c),
                   cb_adapters := cb_adapters c @ [i], cb_detail := cb_detail c @ '' '' @ detail\<rparr>) found))"

definition discover_capabilities :: "tenant_settings \<Rightarrow> capability list" where
  "discover_capabilities ts =
     (let found = foldl (add_adapter ts) [] adapters
      in List.map_filter (map_of found) capability_order)"

section \<open>Span attributes\<close>

definition blocked_span_keys :: "string list" where
  "blocked_span_keys =
     [''prompt'', ''message'', ''response'', ''content'', ''text'', ''tool_input'', ''tool_output'', ''tool_payload'', ''chunk'',
      ''document'', ''memory'', ''transcript'', ''api_key'', ''secret'', ''credential'', ''token'', ''authorization'']"

definition allowed_span_keys :: "string list" where
  "allowed_span_keys =
     [''agent_id'', ''tenant_id'', ''project_id'', ''stage_name'', ''pipeline_step'', ''status_code'', ''token_count_input'',
      ''token_count_output'', ''duration_ms'', ''model_id'', ''tool_name'', ''kb_id'']"

definition safe_span_attributes :: "(string \<times> 'v) list \<Rightarrow> (string \<times> 'v) list" where
  "safe_span_attributes attrs =
     filter (\<lambda>(k, v). k \<in> set allowed_span_keys \<or> \<not> list_ex (\<lambda>b. contains_text b (py_lower k)) blocked_span_keys) attrs"

section \<open>Secrets\<close>

record 'w admin_services =
  ad_agents :: "'w agent_services"
  ad_put_secret :: "string \<Rightarrow> 'w \<Rightarrow> pyexn option \<times> 'w"
  ad_delete_secret :: "string \<Rightarrow> bool \<Rightarrow> 'w \<Rightarrow> pyexn option \<times> 'w"
  ad_head_bucket :: "string \<Rightarrow> 'w \<Rightarrow> pyexn option \<times> 'w"
  ad_error_code :: "string \<Rightarrow> string"
  ad_org :: "string option"
  ad_region :: string

definition service_call :: "('w \<Rightarrow> pyexn option \<times> 'w) \<Rightarrow> ('w, unit) backend_action" where
  "service_call f = in_world (\<lambda>w. case f w of (Some e, w') \<Rightarrow> (Inl e, w') | (None, w') \<Rightarrow> (Inr (), w'))"

definition require_secret :: "string \<Rightarrow> ('w, unit) backend_action" where
  "require_secret arn =
     andthen (reads (\<lambda>s. map_of (bk_secrets s) arn)) (\<lambda>found.
       if found = None then raising (secret_not_found arn) else ret ())"

definition update_secret :: "'w admin_services \<Rightarrow> string \<Rightarrow> string \<Rightarrow> ('w, unit) backend_action" where
  "update_secret ad arn v =
     andthen (service_call (ad_put_secret ad arn)) (\<lambda>_.
     andthen (require_secret arn) (\<lambda>_.
       modifies (\<lambda>s. s\<lparr>bk_secrets := AList.update arn v (bk_secrets s)\<rparr>)))"

definition create_or_update_secret ::
  "'w admin_services \<Rightarrow> string \<Rightarrow> string \<Rightarrow> string option \<Rightarrow> ('w, string) backend_action" where
  "create_or_update_secret ad name v existing =
     (case existing of
        Some arn \<Rightarrow> andthen (update_secret ad arn v) (\<lambda>_. ret arn)
      | None \<Rightarrow> create_secret (ad_agents ad) name v)"

definition delete_secret :: "'w admin_services \<Rightarrow> string \<Rightarrow> bool \<Rightarrow> ('w, unit) backend_action" where
  "delete_secret ad arn force =
     andthen (service_call (ad_delete_secret ad arn force)) (\<lambda>_.
     andthen (require_secret arn) (\<lambda>_.
       modifies (\<lambda>s. s\<lparr>bk_secrets := AList.delete arn (bk_secrets s)\<rparr>)))"

section \<open>Reading the settings\<close>

definition settings_row :: "'w admin_services \<Rightarrow> user_row \<Rightarrow> ('w, tenant_settings) backend_action" where
  "settings_row ad u =
     andthen (time_now (ad_agents ad)) (\<lambda>now.
       on_platform (on_settings (get_or_create_settings now (us_tenant u) (us_email u))))"

definition mask :: string where "mask = ''****''"

definition masked :: "string option \<Rightarrow> string option" where
  "masked arn = (if truthy arn then Some mask else None)"

record langfuse_config =
  lf_enabled :: bool
  lf_public_key :: "string option"
  lf_secret_key :: "string option"
  lf_host :: "string option"

record datadog_config =
  dd_enabled :: bool
  dd_api_key :: "string option"
  dd_site :: "string option"

record endpoint_config =
  ep_enabled :: bool
  ep_endpoint :: "string option"

record new_relic_config =
  nr_enabled :: bool
  nr_api_key :: "string option"

record observability_config =
  oy_default :: "(string \<times> string) list"
  oy_otel :: "string option"
  oy_langfuse :: langfuse_config
  oy_datadog :: datadog_config
  oy_grafana :: endpoint_config
  oy_new_relic :: new_relic_config
  oy_dynatrace :: endpoint_config

definition default_stack :: "(string \<times> string) list" where
  "default_stack = [(''cloudwatch'', ''active''), (''xray'', ''active''), (''otel_sdk'', ''deferred'')]"

definition langfuse_of :: "tenant_settings \<Rightarrow> langfuse_config" where
  "langfuse_of ts = \<lparr>lf_enabled = ts_langfuse_enabled ts, lf_public_key = ts_langfuse_public_key ts,
     lf_secret_key = masked (ts_langfuse_secret_arn ts), lf_host = ts_langfuse_host ts\<rparr>"

definition datadog_of :: "tenant_settings \<Rightarrow> datadog_config" where
  "datadog_of ts = \<lparr>dd_enabled = ts_datadog_enabled ts, dd_api_key = masked (ts_datadog_api_key_arn ts), dd_site = ts_datadog_site ts\<rparr>"

definition grafana_of :: "tenant_settings \<Rightarrow> endpoint_config" where
  "grafana_of ts = \<lparr>ep_enabled = ts_grafana_enabled ts, ep_endpoint = ts_grafana_endpoint ts\<rparr>"

definition new_relic_of :: "tenant_settings \<Rightarrow> new_relic_config" where
  "new_relic_of ts = \<lparr>nr_enabled = ts_new_relic_enabled ts, nr_api_key = masked (ts_new_relic_api_key_arn ts)\<rparr>"

definition dynatrace_of :: "tenant_settings \<Rightarrow> endpoint_config" where
  "dynatrace_of ts = \<lparr>ep_enabled = ts_dynatrace_enabled ts, ep_endpoint = ts_dynatrace_endpoint ts\<rparr>"

definition load_response :: "'w admin_services \<Rightarrow> user_row \<Rightarrow> ('w, observability_config) backend_action" where
  "load_response ad u =
     andthen (settings_row ad u) (\<lambda>ts.
       ret \<lparr>oy_default = default_stack, oy_otel = ts_otel_endpoint ts, oy_langfuse = langfuse_of ts, oy_datadog = datadog_of ts,
            oy_grafana = grafana_of ts, oy_new_relic = new_relic_of ts, oy_dynatrace = dynatrace_of ts\<rparr>)"

section \<open>Saving the settings\<close>

definition save_row :: "'w admin_services \<Rightarrow> user_row \<Rightarrow> (tenant_settings \<Rightarrow> tenant_settings) \<Rightarrow> tenant_settings
     \<Rightarrow> ('w, tenant_settings) backend_action" where
  "save_row ad u change ts =
     andthen (time_now (ad_agents ad)) (\<lambda>now.
       on_platform (on_settings (save_settings ((change ts)\<lparr>ts_updated_by := us_email u, ts_updated_at := now\<rparr>))))"

definition given :: "'a option \<Rightarrow> 'a option \<Rightarrow> 'a option" where
  "given new old = (if new \<noteq> None then new else old)"

definition cleared :: "string option \<Rightarrow> string option \<Rightarrow> string option" where
  "cleared new old = (case new of None \<Rightarrow> old | Some v \<Rightarrow> if v = [] then None else Some v)"

definition save_otel_endpoint :: "'w admin_services \<Rightarrow> user_row \<Rightarrow> string \<Rightarrow> ('w, string option) backend_action" where
  "save_otel_endpoint ad u endpoint =
     andthen (settings_row ad u) (\<lambda>ts.
     andthen (save_row ad u (\<lambda>r. r\<lparr>ts_otel_endpoint := Some endpoint\<rparr>) ts) (\<lambda>r. ret (ts_otel_endpoint r)))"

text \<open>The stored secret of a field: a given non-empty value is written to the secrets manager.\<close>

definition stored_secret ::
  "'w admin_services \<Rightarrow> user_row \<Rightarrow> string \<Rightarrow> string option \<Rightarrow> string option \<Rightarrow> ('w, string option) backend_action" where
  "stored_secret ad u name v existing =
     (if \<not> truthy v then ret existing
      else andthen (create_or_update_secret ad (''panasa/'' @ us_tenant u @ ''/'' @ name) (get_or [] v) existing) (\<lambda>arn.
        ret (Some arn)))"

record langfuse_request =
  lq_enabled :: bool
  lq_public_key :: "string option"
  lq_secret_key :: "string option"
  lq_host :: "string option"

definition save_langfuse_config :: "'w admin_services \<Rightarrow> user_row \<Rightarrow> langfuse_request \<Rightarrow> ('w, langfuse_config) backend_action" where
  "save_langfuse_config ad u q =
     andthen (settings_row ad u) (\<lambda>ts.
     andthen (stored_secret ad u ''langfuse-secret-key'' (lq_secret_key q) (ts_langfuse_secret_arn ts)) (\<lambda>arn.
     andthen (save_row ad u (\<lambda>r. r\<lparr>ts_langfuse_enabled := lq_enabled q,
         ts_langfuse_public_key := given (lq_public_key q) (ts_langfuse_public_key r), ts_langfuse_secret_arn := arn,
         ts_langfuse_host := given (lq_host q) (ts_langfuse_host r)\<rparr>) ts) (\<lambda>r. ret (langfuse_of r))))"

definition save_datadog_config ::
  "'w admin_services \<Rightarrow> user_row \<Rightarrow> bool \<Rightarrow> string option \<Rightarrow> string option \<Rightarrow> ('w, datadog_config) backend_action" where
  "save_datadog_config ad u enabled key site =
     andthen (settings_row ad u) (\<lambda>ts.
     andthen (stored_secret ad u ''datadog-api-key'' key (ts_datadog_api_key_arn ts)) (\<lambda>arn.
     andthen (save_row ad u (\<lambda>r. r\<lparr>ts_datadog_enabled := enabled, ts_datadog_api_key_arn := arn,
         ts_datadog_site := given site (ts_datadog_site r)\<rparr>) ts) (\<lambda>r. ret (datadog_of r))))"

definition save_grafana_config ::
  "'w admin_services \<Rightarrow> user_row \<Rightarrow> bool \<Rightarrow> string option \<Rightarrow> ('w, endpoint_config) backend_action" where
  "save_grafana_config ad u enabled endpoint =
     andthen (settings_row ad u) (\<lambda>ts.
     andthen (save_row ad u (\<lambda>r. r\<lparr>ts_grafana_enabled := enabled,
         ts_grafana_endpoint := given endpoint (ts_grafana_endpoint r)\<rparr>) ts) (\<lambda>r. ret (grafana_of r)))"

definition save_new_relic_config ::
  "'w admin_services \<Rightarrow> user_row \<Rightarrow> bool \<Rightarrow> string option \<Rightarrow> ('w, new_relic_config) backend_action" where
  "save_new_relic_config ad u enabled key =
     andthen (settings_row ad u) (\<lambda>ts.
     andthen (stored_secret ad u ''new-relic-api-key'' key (ts_new_relic_api_key_arn ts)) (\<lambda>arn.
     andthen (save_row ad u (\<lambda>r. r\<lparr>ts_new_relic_enabled := enabled, ts_new_relic_api_key_arn := arn\<rparr>) ts) (\<lambda>r.
       ret (new_relic_of r))))"

definition save_dynatrace_config ::
  "'w admin_services \<Rightarrow> user_row \<Rightarrow> bool \<Rightarrow> string option \<Rightarrow> ('w, endpoint_config) backend_action" where
  "save_dynatrace_config ad u enabled endpoint =
     andthen (settings_row ad u) (\<lambda>ts.
     andthen (save_row ad u (\<lambda>r. r\<lparr>ts_dynatrace_enabled := enabled,
         ts_dynatrace_endpoint := given endpoint (ts_dynatrace_endpoint r)\<rparr>) ts) (\<lambda>r. ret (dynatrace_of r)))"

record deployment_settings =
  sd_mode :: string
  sd_provider :: "string option"
  sd_bucket :: "string option"
  sd_prefix :: "string option"
  sd_org :: "string option"
  sd_region :: "string option"
  sd_vpc :: "string option"
  sd_subnets :: "string list option"
  sd_cluster :: "string option"
  sd_registry :: "string option"
  sd_bedrock :: "string option"
  sd_opensearch :: "string option"
  sd_dynamodb :: "string option"
  sd_s3 :: "string option"
  sd_cloudwatch :: "string option"

definition with_deployment_settings :: "deployment_settings \<Rightarrow> tenant_settings \<Rightarrow> tenant_settings" where
  "with_deployment_settings q r =
     r\<lparr>ts_approval_mode := sd_mode q,
       ts_cicd_provider := get_or (ts_cicd_provider r) (sd_provider q),
       ts_kb_bucket := cleared (sd_bucket q) (ts_kb_bucket r),
       ts_kb_prefix := (if truthy (sd_prefix q) then get_or [] (sd_prefix q) else ts_kb_prefix r),
       ts_git_organisation := cleared (sd_org q) (ts_git_organisation r),
       ts_aws_region := cleared (sd_region q) (ts_aws_region r),
       ts_vpc_id := cleared (sd_vpc q) (ts_vpc_id r),
       ts_subnet_ids := get_or (ts_subnet_ids r) (sd_subnets q),
       ts_cluster_arn := cleared (sd_cluster q) (ts_cluster_arn r),
       ts_ecr_registry := cleared (sd_registry q) (ts_ecr_registry r),
       ts_bedrock_cidr := cleared (sd_bedrock q) (ts_bedrock_cidr r),
       ts_opensearch_cidr := cleared (sd_opensearch q) (ts_opensearch_cidr r),
       ts_dynamodb_cidr := cleared (sd_dynamodb q) (ts_dynamodb_cidr r),
       ts_s3_cidr := cleared (sd_s3 q) (ts_s3_cidr r),
       ts_cloudwatch_cidr := cleared (sd_cloudwatch q) (ts_cloudwatch_cidr r)\<rparr>"

text \<open>The answer: the row's fields, with the organisation and the region that apply.\<close>

definition or_default :: "string option \<Rightarrow> string option \<Rightarrow> string option" where
  "or_default v d = (if truthy v then v else d)"

definition deployment_settings_response :: "'w admin_services \<Rightarrow> tenant_settings \<Rightarrow> deployment_settings" where
  "deployment_settings_response ad r =
     \<lparr>sd_mode = ts_approval_mode r, sd_provider = Some (ts_cicd_provider r), sd_bucket = ts_kb_bucket r,
      sd_prefix = Some (ts_kb_prefix r), sd_org = or_default (ts_git_organisation r) (ad_org ad),
      sd_region = or_default (ts_aws_region r) (Some (ad_region ad)), sd_vpc = ts_vpc_id r, sd_subnets = Some (ts_subnet_ids r),
      sd_cluster = ts_cluster_arn r, sd_registry = ts_ecr_registry r, sd_bedrock = ts_bedrock_cidr r,
      sd_opensearch = ts_opensearch_cidr r, sd_dynamodb = ts_dynamodb_cidr r, sd_s3 = ts_s3_cidr r,
      sd_cloudwatch = ts_cloudwatch_cidr r\<rparr>"

definition save_deployment_settings ::
  "'w admin_services \<Rightarrow> user_row \<Rightarrow> deployment_settings \<Rightarrow> ('w, deployment_settings) backend_action" where
  "save_deployment_settings ad u q =
     andthen (settings_row ad u) (\<lambda>ts.
     andthen (save_row ad u (with_deployment_settings q) ts) (\<lambda>r. ret (deployment_settings_response ad r)))"

definition bucket_reason :: "string \<Rightarrow> string" where
  "bucket_reason code =
     get_or (''Bucket is not accessible ('' @ code @ '').'')
       (map_of [(''404'', ''Bucket does not exist.''),
                (''403'', ''This bucket is not accessible with the Runtime'' @ [CHR 0x27] @ ''s current AWS credentials.'')] code)"

text \<open>A \<open>ClientError\<close> is answered by its code; any other error by its text.\<close>

definition validate_s3_bucket :: "'w admin_services \<Rightarrow> string \<Rightarrow> ('w, bool \<times> string) backend_action" where
  "validate_s3_bucket ad bucket =
     andthen
       (catching (service_call (ad_head_bucket ad bucket))
         (\<lambda>e. case e of
            ClientError c \<Rightarrow> fails_with 422 (bucket_reason (ad_error_code ad c))
          | _ \<Rightarrow> fails_with 422 (''Could not validate bucket: '' @ av_text (ad_agents ad) e)))
       (\<lambda>_. ret (True, bucket))"

section \<open>Routes, for administrators only\<close>

datatype admin_request =
    GetObservability | GetCapabilities | SaveOtel string | GetDeploymentSettings | SaveDeploymentSettings deployment_settings
  | ValidateBucket string | GetLangfuse | SaveLangfuse langfuse_request | GetDatadog | SaveDatadog bool "string option" "string option"
  | GetGrafana | SaveGrafana bool "string option" | GetNewRelic | SaveNewRelic bool "string option"
  | GetDynatrace | SaveDynatrace bool "string option"

datatype admin_reply =
    Observability observability_config | Capabilities "capability list" | OtelEndpoint "string option"
  | DeploymentSettings deployment_settings | BucketReply bool string | LangfuseReply langfuse_config | DatadogReply datadog_config
  | EndpointReply endpoint_config | NewRelicReply new_relic_config

definition admin_answer :: "('a \<Rightarrow> admin_reply) \<Rightarrow> ('w, 'a) backend_action \<Rightarrow> ('w, admin_reply) backend_action" where
  "admin_answer f m = andthen m (\<lambda>x. ret (f x))"

fun handle_admin :: "'w admin_services \<Rightarrow> user_row \<Rightarrow> admin_request \<Rightarrow> ('w, admin_reply) backend_action" where
  "handle_admin ad u GetObservability = admin_answer Observability (load_response ad u)"
| "handle_admin ad u GetCapabilities = admin_answer (\<lambda>ts. Capabilities (discover_capabilities ts)) (settings_row ad u)"
| "handle_admin ad u (SaveOtel e) = admin_answer OtelEndpoint (save_otel_endpoint ad u e)"
| "handle_admin ad u GetDeploymentSettings =
     admin_answer (\<lambda>ts. DeploymentSettings (deployment_settings_response ad ts)) (settings_row ad u)"
| "handle_admin ad u (SaveDeploymentSettings q) = admin_answer DeploymentSettings (save_deployment_settings ad u q)"
| "handle_admin ad u (ValidateBucket b) = admin_answer (\<lambda>(ok, n). BucketReply ok n) (validate_s3_bucket ad b)"
| "handle_admin ad u GetLangfuse = admin_answer (\<lambda>r. LangfuseReply (oy_langfuse r)) (load_response ad u)"
| "handle_admin ad u (SaveLangfuse q) = admin_answer LangfuseReply (save_langfuse_config ad u q)"
| "handle_admin ad u GetDatadog = admin_answer (\<lambda>r. DatadogReply (oy_datadog r)) (load_response ad u)"
| "handle_admin ad u (SaveDatadog en k st) = admin_answer DatadogReply (save_datadog_config ad u en k st)"
| "handle_admin ad u GetGrafana = admin_answer (\<lambda>r. EndpointReply (oy_grafana r)) (load_response ad u)"
| "handle_admin ad u (SaveGrafana en e) = admin_answer EndpointReply (save_grafana_config ad u en e)"
| "handle_admin ad u GetNewRelic = admin_answer (\<lambda>r. NewRelicReply (oy_new_relic r)) (load_response ad u)"
| "handle_admin ad u (SaveNewRelic en k) = admin_answer NewRelicReply (save_new_relic_config ad u en k)"
| "handle_admin ad u GetDynatrace = admin_answer (\<lambda>r. EndpointReply (oy_dynatrace r)) (load_response ad u)"
| "handle_admin ad u (SaveDynatrace en e) = admin_answer EndpointReply (save_dynatrace_config ad u en e)"

definition serve_admin ::
  "'w admin_services \<Rightarrow> string option \<Rightarrow> admin_request \<Rightarrow> ('w, admin_reply) backend_action" where
  "serve_admin ad token rq =
     andthen (on_platform (get_current_user (av_platform (ad_agents ad)) token)) (\<lambda>u.
     andthen (on_platform (require_role [] u)) (\<lambda>_. handle_admin ad u rq))"

section \<open>Capabilities are complete\<close>

lemma add_adapter_map:
  "map_of (add_adapter ts found (i, kind, resolve)) =
     (case resolve ts of None \<Rightarrow> map_of found
      | Some (status, detail) \<Rightarrow> (map_of found)(kind \<mapsto>
          (case map_of found kind of
             None \<Rightarrow> \<lparr>cb_kind = kind, cb_status = status, cb_detail = detail, cb_adapters = [i]\<rparr>
           | Some c \<Rightarrow> c\<lparr>cb_status := (if status_rank status > status_rank (cb_status c) then status else cb_status c),
                            cb_adapters := cb_adapters c @ [i], cb_detail := cb_detail c @ '' '' @ detail\<rparr>)))"
  by (simp add: add_adapter_def map_of_dict_set split: option.split)

definition kinds_kept :: "(string \<times> capability) list \<Rightarrow> bool" where
  "kinds_kept found \<longleftrightarrow> (\<forall>k c. map_of found k = Some c \<longrightarrow> cb_kind c = k)"

lemma add_adapter_keeps:
  "kinds_kept found \<Longrightarrow> kinds_kept (add_adapter ts found a)"
  by (cases a) (auto simp: kinds_kept_def add_adapter_map split: option.splits if_splits)

lemma adapters_keep: "kinds_kept found \<Longrightarrow> kinds_kept (foldl (add_adapter ts) found as)"
  by (induction as arbitrary: found) (auto intro: add_adapter_keeps)

lemma adapters_keep_keys: "map_of found k \<noteq> None \<Longrightarrow> map_of (foldl (add_adapter ts) found as) k \<noteq> None"
proof (induction as arbitrary: found)
  case (Cons a as)
  have "map_of (add_adapter ts found a) k \<noteq> None"
    using Cons.prems by (cases a) (auto simp: add_adapter_map split: option.split)
  with Cons.IH show ?case by simp
qed simp

lemma adapter_contributes:
  assumes "(i, kind, resolve) \<in> set as" and "resolve ts \<noteq> None"
  shows "map_of (foldl (add_adapter ts) found as) kind \<noteq> None"
  using assms(1)
proof (induction as arbitrary: found)
  case (Cons a as)
  show ?case
  proof (cases "a = (i, kind, resolve)")
    case True
    have "map_of (add_adapter ts found a) kind \<noteq> None"
      using assms(2) by (auto simp: True add_adapter_map split: option.split)
    then show ?thesis by (simp add: adapters_keep_keys)
  next
    case False
    with Cons show ?thesis by simp
  qed
qed simp

lemma discovered_kinds: "map cb_kind (discover_capabilities ts) = capability_order"
proof -
  define found where "found = foldl (add_adapter ts) [] adapters"
  have k: "kinds_kept found" unfolding found_def by (rule adapters_keep) (simp add: kinds_kept_def)
  have "cloudwatch_logs_adapter \<in> set adapters" "cloudwatch_metrics_adapter \<in> set adapters" "xray_adapter \<in> set adapters"
    "otel_collector_adapter \<in> set adapters" by (simp_all add: adapters_def)
  then have "map_of found kind \<noteq> None" if "kind \<in> set capability_order" for kind
    using that unfolding found_def capability_order_def
    by (auto simp: cloudwatch_logs_adapter_def cloudwatch_metrics_adapter_def xray_adapter_def otel_collector_adapter_def
        dest!: adapter_contributes [where ts = ts and found = "[]"] split: if_splits simp del: not_None_eq)
  then have "map cb_kind (List.map_filter (map_of found) ks) = ks" if "set ks \<subseteq> set capability_order" for ks
    using that k by (induction ks) (auto simp: List.map_filter_def kinds_kept_def)
  then show ?thesis by (simp add: discover_capabilities_def found_def)
qed

lemma safe_attributes_keys:
  "(k, v) \<in> set (safe_span_attributes attrs) \<Longrightarrow> k \<in> set allowed_span_keys \<or> (\<forall>b \<in> set blocked_span_keys. \<not> contains_text b (py_lower k))"
  by (auto simp: safe_span_attributes_def list_ex_iff)

text \<open>An empty folder prefix is neither taken nor refused: the stored one stays.\<close>

lemma empty_prefix_is_ignored: "sd_prefix q = Some [] \<Longrightarrow> ts_kb_prefix (with_deployment_settings q r) = ts_kb_prefix r"
  by (simp add: with_deployment_settings_def truthy_def)

section \<open>Secret values stay in the secrets manager\<close>

text \<open>Two states that differ in the values of secrets only.\<close>

definition blind :: "'w backend \<Rightarrow> 'w backend \<Rightarrow> bool" where
  "blind s t \<longleftrightarrow> map fst (bk_secrets s) = map fst (bk_secrets t) \<and> t = s\<lparr>bk_secrets := bk_secrets t\<rparr>"

definition alike :: "('w, 'a) backend_action \<Rightarrow> ('w, 'a) backend_action \<Rightarrow> bool" where
  "alike m n \<longleftrightarrow> (\<forall>s t. blind s t \<longrightarrow> fst (m s) = fst (n t) \<and> blind (snd (m s)) (snd (n t)))"

lemma alikeD: "alike m n \<Longrightarrow> blind s t \<Longrightarrow> fst (m s) = fst (n t) \<and> blind (snd (m s)) (snd (n t))"
  by (simp add: alike_def)

named_theorems alike_intros \<open>programs that treat secrets alike\<close>

lemma alike_basic [alike_intros]: "alike (ret x) (ret x)" "alike (raising e) (raising e)"
  by (simp_all add: alike_def ret_def raising_def)

lemma alike_andthen [alike_intros]:
  fixes m n :: "('w, 'a) backend_action"
  assumes "alike m n" and "\<And>x. alike (f x) (g x)"
  shows "alike (andthen m f) (andthen n g)"
  unfolding alike_def
proof (intro allI impI)
  fix s t :: "'w backend"
  assume "blind s t"
  with alikeD [OF assms(1)] have e: "fst (m s) = fst (n t)" "blind (snd (m s)) (snd (n t))" by blast+
  show "fst (andthen m f s) = fst (andthen n g t) \<and> blind (snd (andthen m f s)) (snd (andthen n g t))"
  proof (cases "fst (m s)")
    case (Inl err)
    with e show ?thesis by (cases "m s"; cases "n t") (auto simp: andthen_def)
  next
    case (Inr x)
    with e alikeD [OF assms(2) e(2)] show ?thesis by (cases "m s"; cases "n t") (auto simp: andthen_def)
  qed
qed

lemma alike_catching [alike_intros]:
  fixes m n :: "('w, 'a) backend_action"
  assumes "alike m n" and "\<And>e. alike (h e) (k e)"
  shows "alike (catching m h) (catching n k)"
  unfolding alike_def
proof (intro allI impI)
  fix s t :: "'w backend"
  assume "blind s t"
  with alikeD [OF assms(1)] have e: "fst (m s) = fst (n t)" "blind (snd (m s)) (snd (n t))" by blast+
  show "fst (catching m h s) = fst (catching n k t) \<and> blind (snd (catching m h s)) (snd (catching n k t))"
  proof (cases "fst (m s)")
    case (Inl err)
    with e alikeD [OF assms(2) e(2)] show ?thesis by (cases "m s"; cases "n t") (auto simp: catching_def)
  next
    case (Inr x)
    with e show ?thesis by (cases "m s"; cases "n t") (auto simp: catching_def)
  qed
qed

lemma alike_cases [alike_intros]:
  "alike m n \<Longrightarrow> alike m' n' \<Longrightarrow> alike (if b then m else m') (if b then n else n')"
  "alike p q \<Longrightarrow> (\<And>x. alike (f x) (g x)) \<Longrightarrow> alike (case v of None \<Rightarrow> p | Some x \<Rightarrow> f x) (case v of None \<Rightarrow> q | Some x \<Rightarrow> g x)"
  by (simp_all split: option.split)

lemma alike_platform [alike_intros]: "alike (on_platform m) (on_platform m)"
proof -
  have "blind (s\<lparr>bk_platform := p\<rparr>) (t\<lparr>bk_platform := p\<rparr>)" if "blind s t" for s t :: "'a backend" and p
    using that by (cases s; cases t) (simp add: blind_def)
  moreover have "bk_platform t = bk_platform s" if "blind s t" for s t :: "'a backend"
    using that by (metis backend.ext_inject backend.surjective backend.update_convs(2) blind_def)
  ultimately show ?thesis
    by (auto simp: alike_def on_platform_def on_part_def split: prod.splits)
qed

lemma alike_world [alike_intros]: "alike (in_world m) (in_world m)" "alike (time_now av) (time_now av)"
  "alike (service_call f) (service_call f)" "alike (fails_with n d) (fails_with n d)"
  unfolding in_world_def time_now_def service_call_def fails_with_def by (intro alike_intros)+

lemma alike_store [alike_intros]:
  "alike (modifies (\<lambda>s. s\<lparr>bk_secrets := AList.update arn v (bk_secrets s)\<rparr>))
     (modifies (\<lambda>s. s\<lparr>bk_secrets := AList.update arn v' (bk_secrets s)\<rparr>))"
proof -
  have "blind (s\<lparr>bk_secrets := AList.update arn v (bk_secrets s)\<rparr>) (t\<lparr>bk_secrets := AList.update arn v' (bk_secrets t)\<rparr>)"
    if "blind s t" for s t :: "'a backend"
    using that by (cases s; cases t) (simp add: blind_def AList.update_keys flip: set_map)
  then show ?thesis by (simp add: alike_def modifies_def)
qed

lemma alike_require [alike_intros]: "alike (require_secret arn) (require_secret arn)"
proof -
  have "map_of (bk_secrets s) arn = None \<longleftrightarrow> map_of (bk_secrets t) arn = None" if "blind s t" for s t :: "'a backend"
    using that unfolding map_of_eq_None_iff blind_def by (metis set_map)
  then show ?thesis by (auto simp: alike_def require_secret_def prog_simps)
qed

lemma alike_secret [alike_intros]:
  "alike (create_or_update_secret ad name v existing) (create_or_update_secret ad name v' existing)"
  unfolding create_or_update_secret_def update_secret_def create_secret_def by (intro alike_intros)

lemma alike_stored [alike_intros]:
  assumes "truthy v \<longleftrightarrow> truthy v'"
  shows "alike (stored_secret ad u name v existing) (stored_secret ad u name v' existing)"
  unfolding stored_secret_def assms by (intro alike_intros)

lemma alike_rows [alike_intros]: "alike (settings_row ad u) (settings_row ad u)" "alike (save_row ad u change ts) (save_row ad u change ts)"
  unfolding settings_row_def save_row_def by (intro alike_intros)+

text \<open>Requests that differ at most in a non-empty secret.\<close>

fun same_request :: "admin_request \<Rightarrow> admin_request \<Rightarrow> bool" where
  "same_request (SaveLangfuse q) (SaveLangfuse q') \<longleftrightarrow>
     q' = q\<lparr>lq_secret_key := lq_secret_key q'\<rparr> \<and> (truthy (lq_secret_key q) \<longleftrightarrow> truthy (lq_secret_key q'))"
| "same_request (SaveDatadog en k st) (SaveDatadog en' k' st') \<longleftrightarrow> en = en' \<and> st = st' \<and> (truthy k \<longleftrightarrow> truthy k')"
| "same_request (SaveNewRelic en k) (SaveNewRelic en' k') \<longleftrightarrow> en = en' \<and> (truthy k \<longleftrightarrow> truthy k')"
| "same_request rq rq' \<longleftrightarrow> rq = rq'"

lemma alike_saves:
  assumes "q' = q\<lparr>lq_secret_key := lq_secret_key q'\<rparr>" and "truthy (lq_secret_key q) \<longleftrightarrow> truthy (lq_secret_key q')"
  shows "alike (save_langfuse_config ad u q) (save_langfuse_config ad u q')"
proof -
  have "lq_enabled q' = lq_enabled q" "lq_public_key q' = lq_public_key q" "lq_host q' = lq_host q"
    by (subst assms(1), simp)+
  then show ?thesis unfolding save_langfuse_config_def by (simp only:) (intro alike_intros assms(2))
qed

lemma alike_head: "alike (validate_s3_bucket ad b) (validate_s3_bucket ad b)"
  unfolding validate_s3_bucket_def by (intro alike_intros) (auto intro!: alike_intros split: pyexn.split)

lemma alike_handle:
  assumes "same_request rq rq'"
  shows "alike (handle_admin ad u rq) (handle_admin ad u rq')"
proof -
  have same: "alike (handle_admin ad u r) (handle_admin ad u r)"
    if "\<And>q en k st. r \<noteq> SaveLangfuse q \<and> r \<noteq> SaveDatadog en k st \<and> r \<noteq> SaveNewRelic en k" for r
    using that
    by (cases r)
      (auto simp: admin_answer_def load_response_def save_otel_endpoint_def save_grafana_config_def
        save_dynatrace_config_def save_deployment_settings_def intro!: alike_intros alike_head)
  from assms same show ?thesis
    by (cases rq; cases rq')
      (auto simp: admin_answer_def save_datadog_config_def save_new_relic_config_def intro!: alike_intros alike_saves
        simp del: handle_admin.simps(1,2,3,4,5,6,7,9,11,12,13,15,16))
qed

lemma alike_serve:
  assumes "same_request rq rq'"
  shows "alike (serve_admin ad token rq) (serve_admin ad token rq')"
  unfolding serve_admin_def by (intro alike_intros alike_handle assms)

end
