(* ===== verification/SampleBackend.thy ===== *)
theory SampleBackend
  imports AdminSettings SamplePlatform
begin

text \<open>A backend with one agent, a git host that takes every call and an event bus that is up.\<close>

definition sample_log_of_backend :: "unit log_services" where
  "sample_log_of_backend =
     \<lparr>lg_clock = \<lambda>_. 0, lg_iso = \<lambda>_. ''now'', lg_uuid = \<lambda>w. (''i'', w), lg_sha256 = id, lg_call = \<lambda>_ w. (None, w)\<rparr>"

definition sample_trail :: trail where
  "sample_trail = \<lparr>tr_bucket = Some ''audit'', tr_dump = ae_summary, tr_load = \<lambda>_. None\<rparr>"

definition sample_agent_services :: "unit agent_services" where
  "sample_agent_services =
     \<lparr>av_platform = sample_platform_services, av_log = sample_log_of_backend, av_trail = sample_trail,
      av_iac = sample_iac_settings, av_checks = sample_iac_tools, av_settings = sample_settings, av_mode = ''prototype'',
      av_branch = ''main'', av_region = ''r'', av_extended = False, av_simulate = True,
      av_token = \<lambda>w. (''token'', w), av_create_secret = \<lambda>n w. (Inr (''arn:'' @ n), w), av_read_secret = \<lambda>_ w. (None, w),
      av_redis = \<lambda>w. (True, w), av_git_asks = \<lambda>_ w. (Inr False, w), av_git_does = \<lambda>_ w. (Inr ''1'', w),
      av_publish = \<lambda>w. (None, w), av_script = ''script'', av_text = \<lambda>_. ''error''\<rparr>"

definition sample_backend :: "unit backend" where
  "sample_backend =
     \<lparr>bk_platform = sample_platform, bk_secrets = [(''arn'', ''sk-old'')], bk_reveals = [], bk_log = [], bk_git = [],
      bk_tasks = []\<rparr>"

definition sample_admin_services :: "unit admin_services" where
  "sample_admin_services =
     \<lparr>ad_agents = sample_agent_services, ad_put_secret = \<lambda>_ w. (None, w), ad_delete_secret = \<lambda>_ _ w. (None, w),
      ad_head_bucket = \<lambda>_ w. (None, w), ad_error_code = \<lambda>_. ''403'', ad_org = None, ad_region = ''r''\<rparr>"

lemma sample_git_errors: "git_errors sample_agent_services"
  by (simp add: git_errors_def sample_agent_services_def)

lemma sample_agents_rows: "map_of (rg_agents (registry_of sample_backend)) k = (if k = (''t'', ''a'') then Some (Whole sample_record) else None)"
  by (auto simp: registry_of_def sample_backend_def sample_platform_def using_registry_def sample_registry_def)

lemma sample_backend_keyed: "keyed (registry_of sample_backend)"
  by (auto simp: keyed_def sample_agents_rows sample_record_def sample_agent_def blank_record_def split: if_splits)

lemma sample_backend_readable: "rows_readable (registry_of sample_backend)"
  by (auto simp: rows_readable_def sample_agents_rows row_readable_def valid_record_def sample_record_def sample_agent_def
      blank_record_def agent_types_def normalise_agent_type_def legacy_agent_types_def agent_statuses_def split: if_splits)

lemma sample_backend_caller:
  "fst (get_current_user (av_platform sample_agent_services) (Some ''good'') (bk_platform sample_backend)) = Inr sample_user"
  using sample_caller by (simp add: sample_agent_services_def sample_backend_def)

end
