(* ===== verification/SamplePlay.thy ===== *)
theory SamplePlay
  imports Playground SampleBackend
begin

text \<open>A playground whose agent calls a Bedrock model under a guardrail policy.\<close>

definition play_version :: version_record where
  "play_version =
     (sample_version 2)\<lparr>vr_config := PDict [(''guardrail_policy_id'', PStr ''g''), (''model_provider'', PStr ''bedrock''),
       (''model_id'', PStr ''m''), (''system_prompt'', PStr ''p''), (''max_tokens'', PInt 10), (''temperature'', PInt 0)]\<rparr>"

definition sample_play :: "unit play_state" where
  "sample_play =
     \<lparr>pg_platform = sample_platform\<lparr>
        pl_factory := (sample_factory clean_scan)\<lparr>fc_registry :=
          sample_registry\<lparr>rg_versions := [((''a'', 1), FullVersion (sample_version 1)), ((''a'', 2), FullVersion play_version)]\<rparr>\<rparr>,
        pl_policies := [((''t'', ''g''), Policy (injection_only_policy ''t''))]\<rparr>,
      pg_sessions = [], pg_calls = []\<rparr>"

definition sample_play_services :: "unit play_services" where
  "sample_play_services =
     \<lparr>pv_platform = sample_platform_services, pv_trail = sample_trail, pv_mock = False,
      pv_complete = \<lambda>c w. (Inr (''hello'', Some (1 / 100), None), w), pv_perf = \<lambda>_. 0\<rparr>"

definition sample_question :: play_request where
  "sample_question = \<lparr>pq_message = ''hi'', pq_session = None, pq_overrides = no_overrides\<rparr>"

lemma sample_play_answers:
  "case serve_playground sample_play_services (Some ''good'') ''a'' False sample_question sample_play of
     (Inr r, t) \<Rightarrow> pr_message r = ''hello'' \<and> map cp_model (pg_calls t) = [''bedrock/m'']
   | (Inl e, t) \<Rightarrow> False"
  by code_simp

end
