(* ===== verification/Upgrade.thy ===== *)
theory Upgrade
  imports Playground Handlers
begin

text \<open>
  The upgrade of the Factory's own service: app/modules/platform/ (upgrade_models.py,
  upgrade_store.py, upgrade_orchestrator.py, version_service.py, health.py), the handlers
  lambda_handlers/platform_*.py, the state machine step_functions/platform_upgrade_workflow.json and
  the routes of app/api/v1/platform.py. ECS is modelled by what its documentation says of the calls
  used here: the service points at a task definition, which a successful update_service sets and
  describe_services reports; a registered task definition never changes. A call that fails changes
  nothing. Which calls fail, the number of running tasks and packaging.version are parameters.
\<close>

section \<open>Upgrade records\<close>

record upgrade_stage =
  gs_stage :: string
  gs_status :: string
  gs_started :: "int option"
  gs_completed :: "int option"
  gs_summary :: "string option"

record upgrade =
  gu_id :: string
  gu_from :: string
  gu_target :: string
  gu_image :: string
  gu_previous :: "string option"
  gu_new :: "string option"
  gu_status :: string
  gu_current :: string
  gu_stages :: "(string \<times> upgrade_stage) list"
  gu_by :: string
  gu_at :: int
  gu_reason :: "string option"
  gu_failed :: "string option"
  gu_updated :: int

definition upgrade_stage_order :: "string list" where
  "upgrade_stage_order = [''PULLING_IMAGE'', ''REGISTERING_TASK_DEFINITION'', ''UPDATING_SERVICE'', ''HEALTH_CHECK'']"

definition new_stage :: "string \<Rightarrow> upgrade_stage" where
  "new_stage k = \<lparr>gs_stage = k, gs_status = ''PENDING'', gs_started = None, gs_completed = None, gs_summary = None\<rparr>"

definition initial_upgrade_stages :: "(string \<times> upgrade_stage) list" where
  "initial_upgrade_stages = map (\<lambda>k. (k, new_stage k)) upgrade_stage_order"

section \<open>The state and the services\<close>

type_synonym task_definition = "(string \<times> pyval) list"

record telemetry_config =
  tm_enabled :: bool
  tm_usage :: bool
  tm_performance :: bool
  tm_cost :: bool
  tm_errors :: bool

record 'w upgrades =
  ug_platform :: "'w platform"
  ug_table :: "(string \<times> upgrade) list"
  ug_service :: string
  ug_definitions :: "(string \<times> task_definition) list"
  ug_executions :: "(string \<times> pyval) list"
  ug_telemetry :: telemetry_config
  ug_sent :: "(string \<times> pyval) list list"

type_synonym ('w, 'a) upgrade_action = "('w upgrades, 'a) prog"

datatype aws_call =
    DescribeServices | DescribeTaskDefinition string | RegisterTaskDefinition | UpdateService string
  | DescribeImages string "string option" | StartExecution string

text \<open>packaging.version: which texts are versions, their order, and how one is written.\<close>

record versions =
  vl_valid :: "string \<Rightarrow> bool"
  vl_less :: "string \<Rightarrow> string \<Rightarrow> bool"
  vl_str :: "string \<Rightarrow> string"

record 'w upgrade_services =
  uv_platform :: "'w platform_services"
  uv_cluster :: string
  uv_service :: string
  uv_runtime_image :: string
  uv_version :: string
  uv_mode :: string
  uv_state_machine :: string
  uv_health_url :: string
  uv_telemetry_url :: string
  uv_call :: "aws_call \<Rightarrow> 'w \<Rightarrow> pyexn option \<times> 'w"
  uv_exists :: "'w \<Rightarrow> bool"
  uv_counts :: "'w \<Rightarrow> int \<times> int"
  uv_sleep :: "'w \<Rightarrow> 'w"
  uv_arn :: "'w \<Rightarrow> string \<times> 'w"
  uv_images :: "string \<Rightarrow> 'w \<Rightarrow> string list list"
  uv_versions :: versions
  uv_get :: "string \<Rightarrow> 'w \<Rightarrow> (pyexn + int \<times> pyval option) \<times> 'w"
  uv_post :: "string \<Rightarrow> (string \<times> pyval) list \<Rightarrow> 'w \<Rightarrow> pyexn option \<times> 'w"
  uv_text :: "pyexn \<Rightarrow> string"
  uv_probe :: "string \<Rightarrow> 'w \<Rightarrow> bool \<times> 'w"

definition in_api :: "('w, 'a) platform_action \<Rightarrow> ('w, 'a) upgrade_action" where
  "in_api = on_part ug_platform (\<lambda>t s. s\<lparr>ug_platform := t\<rparr>)"

definition outside :: "('w, 'a) prog \<Rightarrow> ('w, 'a) upgrade_action" where
  "outside m = in_api (on_world m)"

definition upgrade_time :: "'w upgrade_services \<Rightarrow> ('w, int) upgrade_action" where
  "upgrade_time uv = in_api (the_time (uv_platform uv))"

definition aws :: "'w upgrade_services \<Rightarrow> aws_call \<Rightarrow> ('w, unit) upgrade_action" where
  "aws uv c =
     outside (\<lambda>w. case uv_call uv c w of (None, w') \<Rightarrow> (Inr (), w') | (Some e, w') \<Rightarrow> (Inl e, w'))"

section \<open>The status store\<close>

definition upgrade_not_found :: "string \<Rightarrow> pyexn" where
  "upgrade_not_found i = Raised ''UpgradeNotFoundError'' (''Platform upgrade '' @ repr_str i @ '' not found'')"

definition create_upgrade :: "upgrade \<Rightarrow> ('w, unit) upgrade_action" where
  "create_upgrade u = modifies (\<lambda>s. s\<lparr>ug_table := AList.update (gu_id u) u (ug_table s)\<rparr>)"

definition get_upgrade :: "string \<Rightarrow> ('w, upgrade option) upgrade_action" where
  "get_upgrade i = reads (\<lambda>s. map_of (ug_table s) i)"

definition list_upgrades :: "('w, upgrade list) upgrade_action" where
  "list_upgrades = reads (\<lambda>s. sort_key (\<lambda>u. - gu_at u) (map snd (ug_table s)))"

record upgrade_update =
  uu_summary :: "string option"
  uu_overall :: "string option"
  uu_reason :: "string option"
  uu_failed :: "string option"
  uu_previous :: "string option"
  uu_new :: "string option"

definition no_upgrade_update :: upgrade_update where
  "no_upgrade_update =
     \<lparr>uu_summary = None, uu_overall = None, uu_reason = None, uu_failed = None, uu_previous = None, uu_new = None\<rparr>"

text \<open>An argument that is not None replaces the field.\<close>

definition replaced :: "'a option \<Rightarrow> 'a option \<Rightarrow> 'a option" where
  "replaced new old = (case new of None \<Rightarrow> old | Some x \<Rightarrow> Some x)"

definition advanced_stage :: "int \<Rightarrow> string \<Rightarrow> upgrade_update \<Rightarrow> upgrade_stage \<Rightarrow> upgrade_stage" where
  "advanced_stage now status x g =
     g\<lparr>gs_status := status, gs_summary := replaced (uu_summary x) (gs_summary g),
       gs_started := (case gs_started g of Some n \<Rightarrow> Some n | None \<Rightarrow> if status = ''RUNNING'' then Some now else None),
       gs_completed := (if status \<in> {''PASSED'', ''FAILED''} then Some now else gs_completed g)\<rparr>"

definition updated_upgrade :: "int \<Rightarrow> string \<Rightarrow> string \<Rightarrow> upgrade_update \<Rightarrow> upgrade \<Rightarrow> upgrade" where
  "updated_upgrade now stage status x u =
     u\<lparr>gu_stages := AList.update stage (advanced_stage now status x (get_or (new_stage stage) (map_of (gu_stages u) stage))) (gu_stages u),
       gu_current := stage, gu_updated := now, gu_status := get_or (gu_status u) (uu_overall x),
       gu_reason := replaced (uu_reason x) (gu_reason u), gu_failed := replaced (uu_failed x) (gu_failed u),
       gu_previous := replaced (uu_previous x) (gu_previous u), gu_new := replaced (uu_new x) (gu_new u)\<rparr>"

definition update_upgrade ::
  "'w upgrade_services \<Rightarrow> string \<Rightarrow> string \<Rightarrow> string \<Rightarrow> upgrade_update \<Rightarrow> ('w, upgrade) upgrade_action" where
  "update_upgrade uv i stage status x =
     andthen (get_upgrade i) (\<lambda>found.
       case found of
         None \<Rightarrow> raising (upgrade_not_found i)
       | Some u \<Rightarrow>
           andthen (upgrade_time uv) (\<lambda>now.
             let u' = updated_upgrade now stage status x u in andthen (create_upgrade u') (\<lambda>_. ret u')))"

section \<open>Versions\<close>

definition rsplit_colon :: "string \<Rightarrow> string \<times> string option" where
  "rsplit_colon s =
     (let r = rev s; tag = takeWhile (\<lambda>c. c \<noteq> CHR '':'') r
      in if length tag = length s then (s, None) else (rev (drop (Suc (length tag)) r), Some (rev tag)))"

definition repo_name_from_image_uri :: "string \<Rightarrow> string option" where
  "repo_name_from_image_uri uri =
     (let h = takeWhile (\<lambda>c. c \<noteq> CHR '':'') uri
      in if CHR ''/'' \<notin> set h \<or> \<not> contains_text ''.dkr.ecr.'' h then None
         else Some (tl (dropWhile (\<lambda>c. c \<noteq> CHR ''/'') h)))"

text \<open>Python's max: the first of the greatest.\<close>

fun greatest :: "('a \<Rightarrow> 'a \<Rightarrow> bool) \<Rightarrow> 'a \<Rightarrow> 'a list \<Rightarrow> 'a" where
  "greatest below m [] = m"
| "greatest below m (x # xs) = greatest below (if below m x then x else m) xs"

definition highest_available_version :: "'w upgrade_services \<Rightarrow> ('w, string option) upgrade_action" where
  "highest_available_version uv =
     (case (if uv_runtime_image uv = [] then None else repo_name_from_image_uri (uv_runtime_image uv)) of
        None \<Rightarrow> ret None
      | Some repo \<Rightarrow>
          andthen (catching (andthen (aws uv (DescribeImages repo None)) (\<lambda>_.
                     outside (\<lambda>w. (Inr (Some (concat (uv_images uv repo w))), w))))
                   (\<lambda>e. case e of ClientError c \<Rightarrow> ret None | _ \<Rightarrow> raising e)) (\<lambda>tags.
            case filter (vl_valid (uv_versions uv)) (get_or [] tags) of
              [] \<Rightarrow> ret None
            | t # ts \<Rightarrow> ret (Some (vl_str (uv_versions uv) (greatest (vl_less (uv_versions uv)) t ts)))))"

definition is_newer :: "versions \<Rightarrow> string \<Rightarrow> string \<Rightarrow> bool" where
  "is_newer vl candidate current = (vl_valid vl candidate \<and> vl_valid vl current \<and> vl_less vl current candidate)"

record version_info =
  vi_version :: string
  vi_runtime :: string
  vi_available :: "string option"
  vi_newer :: bool

definition get_version_info :: "'w upgrade_services \<Rightarrow> ('w, version_info) upgrade_action" where
  "get_version_info uv =
     andthen (highest_available_version uv) (\<lambda>latest.
       let newer = (case latest of None \<Rightarrow> False | Some v \<Rightarrow> is_newer (uv_versions uv) v (uv_version uv))
       in ret \<lparr>vi_version = uv_version uv, vi_runtime = uv_version uv,
               vi_available = (if newer then latest else None), vi_newer = newer\<rparr>)"

section \<open>The handlers\<close>

record upgrade_event =
  ue_id :: string
  ue_from :: string
  ue_target :: string
  ue_image :: string

text \<open>\<open>require\<close>: an absent field and an empty one are the same.\<close>

definition require_fields :: "(string \<times> string) list \<Rightarrow> ('w, unit) upgrade_action" where
  "require_fields kvs =
     (let missing = map fst (filter (\<lambda>(k, v). v = []) kvs)
      in if missing \<noteq> [] then stage_failure (''Missing required event field(s): '' @ py_repr (PList (map PStr missing)))
         else ret ())"

definition stage_failed :: "string \<Rightarrow> string \<Rightarrow> upgrade_update" where
  "stage_failed stage reason =
     \<lparr>uu_summary = Some reason, uu_overall = Some ''FAILED'', uu_reason = Some reason, uu_failed = Some stage,
      uu_previous = None, uu_new = None\<rparr>"

definition stage_passed :: "string \<Rightarrow> string \<Rightarrow> upgrade_update" where
  "stage_passed stage summary = no_upgrade_update\<lparr>uu_summary := Some summary, uu_overall := Some stage\<rparr>"

text \<open>The frame of the four stages: a failure is recorded and raised again, a success is recorded.\<close>

definition run_stage ::
  "'w upgrade_services \<Rightarrow> string \<Rightarrow> string \<Rightarrow> ('w, 'a) upgrade_action \<Rightarrow> ('a \<Rightarrow> upgrade_update) \<Rightarrow> ('w, 'a) upgrade_action" where
  "run_stage uv i stage work upd =
     andthen (catching work (\<lambda>e.
         andthen (update_upgrade uv i stage ''FAILED'' (stage_failed stage (uv_text uv e))) (\<lambda>_. raising e))) (\<lambda>x.
     andthen (update_upgrade uv i stage ''PASSED'' (upd x)) (\<lambda>_. ret x))"

definition confirm_image_exists :: "'w upgrade_services \<Rightarrow> string \<Rightarrow> ('w, string) upgrade_action" where
  "confirm_image_exists uv img =
     (case repo_name_from_image_uri img of
        None \<Rightarrow> raising (RuntimeError (''Not a recognizable ECR image URI: '' @ repr_str img))
      | Some repo \<Rightarrow>
          (case snd (rsplit_colon img) of
             None \<Rightarrow> raising (Raised ''IndexError'' ''list index out of range'')
           | Some tag \<Rightarrow>
               andthen (catching (aws uv (DescribeImages repo (Some tag))) (\<lambda>e.
                 case e of
                   ClientError c \<Rightarrow> raising (RuntimeError (''Image '' @ repr_str img @ '' not found in ECR: '' @ uv_text uv e))
                 | _ \<Rightarrow> raising e)) (\<lambda>_. ret (''Confirmed '' @ img @ '' exists in ECR''))))"

definition pull_image_handler :: "'w upgrade_services \<Rightarrow> upgrade_event \<Rightarrow> ('w, unit) upgrade_action" where
  "pull_image_handler uv ev =
     andthen (require_fields [(''upgradeId'', ue_id ev), (''targetImage'', ue_image ev)]) (\<lambda>_.
     andthen (run_stage uv (ue_id ev) ''PULLING_IMAGE'' (confirm_image_exists uv (ue_image ev)) (stage_passed ''PULLING_IMAGE''))
       (\<lambda>_. ret ()))"

definition runtime_container_name :: string where "runtime_container_name = ''agent-builder-runtime''"

definition task_def_copy_keys :: "string list" where
  "task_def_copy_keys =
     [''family'', ''taskRoleArn'', ''executionRoleArn'', ''networkMode'', ''containerDefinitions'', ''requiresCompatibilities'',
      ''cpu'', ''memory'']"

definition renamed_variable :: "string \<Rightarrow> pyval \<Rightarrow> pyexn + pyval" where
  "renamed_variable version v =
     (case v of
        PDict kvs \<Rightarrow>
          (case map_of kvs ''name'' of
             None \<Rightarrow> Inl (KeyError ''name'')
           | Some n \<Rightarrow> Inr (PDict (if n = PStr ''PLATFORM_VERSION'' then AList.update ''value'' (PStr version) kvs else kvs)))
      | _ \<Rightarrow> Inl (TypeError ''dict''))"

fun all_of :: "('a \<Rightarrow> pyexn + 'b) \<Rightarrow> 'a list \<Rightarrow> pyexn + 'b list" where
  "all_of f [] = Inr []"
| "all_of f (x # xs) = (case f x of Inl e \<Rightarrow> Inl e | Inr y \<Rightarrow> (case all_of f xs of Inl e \<Rightarrow> Inl e | Inr ys \<Rightarrow> Inr (y # ys)))"

definition renewed_container :: "string \<Rightarrow> string \<Rightarrow> pyval \<Rightarrow> pyexn + pyval" where
  "renewed_container img version v =
     (case v of
        PDict kvs \<Rightarrow>
          (case map_of kvs ''name'' of
             None \<Rightarrow> Inl (KeyError ''name'')
           | Some n \<Rightarrow>
               (if n \<noteq> PStr runtime_container_name then Inr v
                else (case all_of (renamed_variable version) (items_of (get_or (PList []) (map_of kvs ''environment''))) of
                  Inl e \<Rightarrow> Inl e
                | Inr vars \<Rightarrow>
                    Inr (PDict (AList.update ''environment'' (PList vars) (AList.update ''image'' (PStr img) kvs))))))
      | _ \<Rightarrow> Inl (TypeError ''dict''))"

text \<open>The new revision: the copied fields, with the containers renewed.\<close>

definition renewed_definition :: "string \<Rightarrow> string \<Rightarrow> task_definition \<Rightarrow> pyexn + task_definition" where
  "renewed_definition img version d =
     (case map_of d ''containerDefinitions'' of
        None \<Rightarrow> Inl (KeyError ''containerDefinitions'')
      | Some cs \<Rightarrow>
          (case all_of (renewed_container img version) (items_of cs) of
             Inl e \<Rightarrow> Inl e
           | Inr cs' \<Rightarrow>
               Inr (map (\<lambda>k. (k, if k = ''containerDefinitions'' then PList cs' else the (map_of d k)))
                        (filter (\<lambda>k. map_of d k \<noteq> None) task_def_copy_keys))))"

definition require_cluster :: "'w upgrade_services \<Rightarrow> ('w, unit) upgrade_action" where
  "require_cluster uv = (if uv_cluster uv = [] then raising (RuntimeError ''ECS_CLUSTER_NAME is not configured'') else ret ())"

text \<open>describe_services: the task definition of the service, if the cluster has it.\<close>

definition described_service :: "'w upgrade_services \<Rightarrow> ('w, string option) upgrade_action" where
  "described_service uv =
     andthen (aws uv DescribeServices) (\<lambda>_.
       reads (\<lambda>s. if uv_exists uv (fc_world (pl_factory (ug_platform s))) then Some (ug_service s) else None))"

definition described_definition :: "'w upgrade_services \<Rightarrow> string \<Rightarrow> ('w, task_definition) upgrade_action" where
  "described_definition uv arn =
     andthen (aws uv (DescribeTaskDefinition arn)) (\<lambda>_.
     andthen (reads (\<lambda>s. map_of (ug_definitions s) arn)) (\<lambda>d.
       case d of None \<Rightarrow> raising (ClientError ''ClientException'') | Some x \<Rightarrow> ret x))"

definition register_definition :: "'w upgrade_services \<Rightarrow> task_definition \<Rightarrow> ('w, string) upgrade_action" where
  "register_definition uv d =
     andthen (aws uv RegisterTaskDefinition) (\<lambda>_.
     andthen (outside (\<lambda>w. let (a, w') = uv_arn uv w in (Inr a, w'))) (\<lambda>arn.
     andthen (modifies (\<lambda>s. s\<lparr>ug_definitions := ug_definitions s @ [(arn, d)]\<rparr>)) (\<lambda>_. ret arn)))"

definition update_service :: "'w upgrade_services \<Rightarrow> string \<Rightarrow> ('w, unit) upgrade_action" where
  "update_service uv arn = andthen (aws uv (UpdateService arn)) (\<lambda>_. modifies (\<lambda>s. s\<lparr>ug_service := arn\<rparr>))"

definition register_new_revision :: "'w upgrade_services \<Rightarrow> string \<Rightarrow> string \<Rightarrow> ('w, string \<times> string) upgrade_action" where
  "register_new_revision uv img version =
     andthen (require_cluster uv) (\<lambda>_.
     andthen (described_service uv) (\<lambda>found.
       case found of
         None \<Rightarrow> raising (RuntimeError (''ECS service '' @ repr_str (uv_service uv) @ '' not found in cluster '' @ repr_str (uv_cluster uv)))
       | Some previous \<Rightarrow>
           andthen (described_definition uv previous) (\<lambda>d.
             case renewed_definition img version d of
               Inl e \<Rightarrow> raising e
             | Inr d' \<Rightarrow> andthen (register_definition uv d') (\<lambda>arn. ret (previous, arn)))))"

definition registered_update :: "string \<times> string \<Rightarrow> upgrade_update" where
  "registered_update = (\<lambda>(previous, new).
     (stage_passed ''REGISTERING_TASK_DEFINITION'' (''Registered '' @ new @ '' (previous: '' @ previous @ '')''))
       \<lparr>uu_previous := Some previous, uu_new := Some new\<rparr>)"

definition register_task_definition_handler :: "'w upgrade_services \<Rightarrow> upgrade_event \<Rightarrow> ('w, string) upgrade_action" where
  "register_task_definition_handler uv ev =
     andthen (require_fields [(''upgradeId'', ue_id ev), (''targetImage'', ue_image ev), (''targetVersion'', ue_target ev)]) (\<lambda>_.
     andthen (run_stage uv (ue_id ev) ''REGISTERING_TASK_DEFINITION''
                (register_new_revision uv (ue_image ev) (ue_target ev)) registered_update)
       (\<lambda>(previous, new). ret new))"

definition poll_attempts :: nat where "poll_attempts = 20"

fun wait_stable :: "'w upgrade_services \<Rightarrow> string \<Rightarrow> nat \<Rightarrow> ('w, string) upgrade_action" where
  "wait_stable uv arn 0 =
     raising (RuntimeError (''Service did not stabilize on '' @ arn @ '' after '' @ nat_text poll_attempts @ '' attempts''))"
| "wait_stable uv arn (Suc n) =
     andthen (described_service uv) (\<lambda>found.
       case found of
         None \<Rightarrow> raising (Raised ''IndexError'' ''list index out of range'')
       | Some current \<Rightarrow>
           andthen (reads (\<lambda>s. uv_counts uv (fc_world (pl_factory (ug_platform s))))) (\<lambda>(running, desired).
             if current = arn \<and> running = desired
             then ret (''Service stable on '' @ arn @ '' ('' @ int_text running @ ''/'' @ int_text desired @ '' tasks)'')
             else andthen (if 0 < n then outside (\<lambda>w. (Inr (), uv_sleep uv w)) else ret ()) (\<lambda>_. wait_stable uv arn n)))"

definition update_and_wait_stable :: "'w upgrade_services \<Rightarrow> string \<Rightarrow> ('w, string) upgrade_action" where
  "update_and_wait_stable uv arn =
     andthen (require_cluster uv) (\<lambda>_. andthen (update_service uv arn) (\<lambda>_. wait_stable uv arn poll_attempts))"

definition update_service_handler :: "'w upgrade_services \<Rightarrow> upgrade_event \<Rightarrow> string option \<Rightarrow> ('w, unit) upgrade_action" where
  "update_service_handler uv ev new =
     andthen (require_fields [(''upgradeId'', ue_id ev)]) (\<lambda>_.
       case new of
         None \<Rightarrow> raising (KeyError ''registeringTaskDefinition'')
       | Some arn \<Rightarrow>
           andthen (run_stage uv (ue_id ev) ''UPDATING_SERVICE'' (update_and_wait_stable uv arn) (stage_passed ''UPDATING_SERVICE''))
             (\<lambda>_. ret ()))"

definition check_upgraded :: "'w upgrade_services \<Rightarrow> string \<Rightarrow> ('w, string) upgrade_action" where
  "check_upgraded uv target =
     (if uv_health_url uv = [] then raising (RuntimeError ''PLATFORM_HEALTH_CHECK_URL is not configured'')
      else
        andthen (outside (\<lambda>w. case uv_get uv (uv_health_url uv) w of (Inl e, w') \<Rightarrow> (Inl e, w') | (Inr a, w') \<Rightarrow> (Inr a, w')))
          (\<lambda>(status, body).
          if status \<noteq> 200 then raising (RuntimeError (''GET '' @ uv_health_url uv @ '' -> '' @ int_text status))
          else case body of
            None \<Rightarrow> raising (Raised ''JSONDecodeError'' ''Expecting value'')
          | Some v \<Rightarrow>
              (if \<not> is_object v then raising (AttributeError ''get'')
               else (let actual = dict_get ''version'' v
                     in if py_str actual \<noteq> target
                        then raising (RuntimeError (''Version mismatch after upgrade: expected '' @ repr_str target @ '', got '' @ py_repr actual))
                        else ret (''GET '' @ uv_health_url uv @ '' -> 200, version '' @ target @ '' confirmed'')))))"

definition upgrade_health_handler :: "'w upgrade_services \<Rightarrow> upgrade_event \<Rightarrow> ('w, unit) upgrade_action" where
  "upgrade_health_handler uv ev =
     andthen (require_fields [(''upgradeId'', ue_id ev), (''targetVersion'', ue_target ev)]) (\<lambda>_.
     andthen (run_stage uv (ue_id ev) ''HEALTH_CHECK'' (check_upgraded uv (ue_target ev)) (stage_passed ''HEALTH_CHECK''))
       (\<lambda>_. ret ()))"

definition mark_upgraded_handler :: "'w upgrade_services \<Rightarrow> upgrade_event \<Rightarrow> ('w, unit) upgrade_action" where
  "mark_upgraded_handler uv ev =
     andthen (require_fields [(''upgradeId'', ue_id ev)]) (\<lambda>_.
     andthen (update_upgrade uv (ue_id ev) ''HEALTH_CHECK'' ''PASSED'' (no_upgrade_update\<lparr>uu_overall := Some ''ACTIVE''\<rparr>))
       (\<lambda>_. ret ()))"

definition roll_back :: "'w upgrade_services \<Rightarrow> string \<Rightarrow> ('w, unit) upgrade_action" where
  "roll_back uv previous = andthen (require_cluster uv) (\<lambda>_. update_service uv previous)"

text \<open>The cause is what the machine caught; \<open>failedStage\<close> is a field of the event.\<close>

definition mark_upgrade_failed_handler ::
  "'w upgrade_services \<Rightarrow> upgrade_event \<Rightarrow> string option \<Rightarrow> string option \<Rightarrow> ('w, string) upgrade_action" where
  "mark_upgrade_failed_handler uv ev cause stage =
     andthen (require_fields [(''upgradeId'', ue_id ev)]) (\<lambda>_.
       let reason = (if truthy cause then get_or [] cause else ''Platform upgrade failed''); failed = get_or ''UNKNOWN'' stage
       in andthen (get_upgrade (ue_id ev)) (\<lambda>found.
          andthen (case found of
                     None \<Rightarrow> ret False
                   | Some u \<Rightarrow> (if truthy (gu_previous u) then andthen (roll_back uv (get_or [] (gu_previous u))) (\<lambda>_. ret True)
                               else ret False)) (\<lambda>rolled_back.
            let outcome = (if rolled_back then ''ROLLED_BACK'' else ''FAILED'')
            in andthen (update_upgrade uv (ue_id ev) failed ''FAILED''
                 \<lparr>uu_summary = Some (take 2000 reason), uu_overall = Some outcome, uu_reason = Some (take 2000 reason),
                  uu_failed = Some failed, uu_previous = None, uu_new = None\<rparr>) (\<lambda>_. ret outcome))))"

section \<open>The state machine\<close>

text \<open>
  \<open>Upgraded\<close> and \<open>Reverted\<close> are the two ends of the machine; \<open>Broken\<close> is an execution that fails in a
  terminal handler, which has no Catch.
\<close>

datatype upgrade_state =
    PullingImage | RegisteringTaskDefinition | UpdatingService | PlatformHealthCheck | MarkUpgraded | MarkUpgradeFailed
  | Upgraded | Reverted | Broken

record upgrade_execution =
  ux_state :: upgrade_state
  ux_new :: "string option"
  ux_cause :: "string option"

definition upgrade_start :: upgrade_execution where
  "upgrade_start = \<lparr>ux_state = PullingImage, ux_new = None, ux_cause = None\<rparr>"

text \<open>A task: its answer goes into the data and the next state is entered, or its error is caught.\<close>

definition caught_by ::
  "'w upgrade_services \<Rightarrow> ('w, unit) upgrade_action \<Rightarrow> upgrade_state \<Rightarrow> upgrade_execution \<Rightarrow> 'w upgrades \<Rightarrow> upgrade_execution \<times> 'w upgrades" where
  "caught_by uv m q x s =
     (case m s of
        (Inr _, t) \<Rightarrow> (x\<lparr>ux_state := q\<rparr>, t)
      | (Inl e, t) \<Rightarrow> (x\<lparr>ux_state := MarkUpgradeFailed, ux_cause := Some (uv_text uv e)\<rparr>, t))"

definition upgrade_step ::
  "'w upgrade_services \<Rightarrow> upgrade_event \<Rightarrow> upgrade_execution \<Rightarrow> 'w upgrades \<Rightarrow> upgrade_execution \<times> 'w upgrades" where
  "upgrade_step uv ev x s =
     (case ux_state x of
        PullingImage \<Rightarrow> caught_by uv (pull_image_handler uv ev) RegisteringTaskDefinition x s
      | RegisteringTaskDefinition \<Rightarrow>
          (case register_task_definition_handler uv ev s of
             (Inr arn, t) \<Rightarrow> (x\<lparr>ux_state := UpdatingService, ux_new := Some arn\<rparr>, t)
           | (Inl e, t) \<Rightarrow> (x\<lparr>ux_state := MarkUpgradeFailed, ux_cause := Some (uv_text uv e)\<rparr>, t))
      | UpdatingService \<Rightarrow> caught_by uv (update_service_handler uv ev (ux_new x)) PlatformHealthCheck x s
      | PlatformHealthCheck \<Rightarrow> caught_by uv (upgrade_health_handler uv ev) MarkUpgraded x s
      | MarkUpgraded \<Rightarrow>
          (case mark_upgraded_handler uv ev s of
             (Inr _, t) \<Rightarrow> (x\<lparr>ux_state := Upgraded\<rparr>, t) | (Inl e, t) \<Rightarrow> (x\<lparr>ux_state := Broken\<rparr>, t))
      | MarkUpgradeFailed \<Rightarrow>
          (case mark_upgrade_failed_handler uv ev (ux_cause x) None s of
             (Inr _, t) \<Rightarrow> (x\<lparr>ux_state := Reverted\<rparr>, t) | (Inl e, t) \<Rightarrow> (x\<lparr>ux_state := Broken\<rparr>, t))
      | _ \<Rightarrow> (x, s))"

fun upgrade_steps ::
  "'w upgrade_services \<Rightarrow> upgrade_event \<Rightarrow> nat \<Rightarrow> upgrade_execution \<Rightarrow> 'w upgrades \<Rightarrow> upgrade_execution \<times> 'w upgrades" where
  "upgrade_steps uv ev 0 x s = (x, s)"
| "upgrade_steps uv ev (Suc n) x s = (let (y, t) = upgrade_step uv ev x s in upgrade_steps uv ev n y t)"

text \<open>Two executions on the same tables, stepped as the schedule says.\<close>

fun two_upgrades ::
  "'w upgrade_services \<Rightarrow> upgrade_event \<Rightarrow> upgrade_event \<Rightarrow> bool list \<Rightarrow> upgrade_execution \<Rightarrow> upgrade_execution \<Rightarrow> 'w upgrades
     \<Rightarrow> upgrade_execution \<times> upgrade_execution \<times> 'w upgrades" where
  "two_upgrades uv e1 e2 [] x y s = (x, y, s)"
| "two_upgrades uv e1 e2 (b # bs) x y s =
     (if b then (let (x', t) = upgrade_step uv e1 x s in two_upgrades uv e1 e2 bs x' y t)
      else (let (y', t) = upgrade_step uv e2 y s in two_upgrades uv e1 e2 bs x y' t))"

section \<open>The routes\<close>

definition start_upgrade :: "'w upgrade_services \<Rightarrow> upgrade_event \<Rightarrow> ('w, string) upgrade_action" where
  "start_upgrade uv ev =
     (if uv_state_machine uv = []
      then raising (Raised ''PlatformUpgradeNotConfiguredError'' ''PLATFORM_UPGRADE_STATE_MACHINE_ARN is not configured'')
      else
        andthen (aws uv (StartExecution (ue_id ev))) (\<lambda>_.
        andthen (outside (\<lambda>w. let (a, w') = uv_arn uv w in (Inr a, w'))) (\<lambda>arn.
        andthen (modifies (\<lambda>s. s\<lparr>ug_executions := ug_executions s @ [(ue_id ev, PDict
            [(''upgradeId'', PStr (ue_id ev)), (''fromVersion'', PStr (ue_from ev)), (''targetVersion'', PStr (ue_target ev)),
             (''targetImage'', PStr (ue_image ev))])]\<rparr>)) (\<lambda>_. ret arn))))"

definition new_upgrade :: "int \<Rightarrow> upgrade_event \<Rightarrow> string \<Rightarrow> upgrade" where
  "new_upgrade now ev who =
     \<lparr>gu_id = ue_id ev, gu_from = ue_from ev, gu_target = ue_target ev, gu_image = ue_image ev, gu_previous = None,
      gu_new = None, gu_status = ''PENDING'', gu_current = hd upgrade_stage_order, gu_stages = initial_upgrade_stages,
      gu_by = who, gu_at = now, gu_reason = None, gu_failed = None, gu_updated = now\<rparr>"

definition chosen_version :: "'w upgrade_services \<Rightarrow> string option \<Rightarrow> ('w, string) upgrade_action" where
  "chosen_version uv given =
     (case given of
        Some v \<Rightarrow> ret v
      | None \<Rightarrow>
          andthen (get_version_info uv) (\<lambda>vi.
            case vi_available vi of
              None \<Rightarrow> raising (HttpError 400 ''No target_version given and no newer version is available in ECR'')
            | Some v \<Rightarrow> ret v))"

definition py_upper :: "string \<Rightarrow> string" where
  "py_upper = map (\<lambda>c. let n = (of_char c :: nat) in if 97 \<le> n \<and> n \<le> 122 then char_of (n - 32) else c)"

definition trigger_upgrade :: "'w upgrade_services \<Rightarrow> user_row \<Rightarrow> string option \<Rightarrow> ('w, upgrade_event \<times> string) upgrade_action" where
  "trigger_upgrade uv u given =
     andthen (chosen_version uv given) (\<lambda>target.
       if uv_runtime_image uv = [] then raising (HttpError 500 ''RUNTIME_IMAGE is not configured'')
       else
         andthen (in_api (draw_hex (uv_platform uv))) (\<lambda>h.
         andthen (upgrade_time uv) (\<lambda>now.
           let ev = \<lparr>ue_id = ''UPG-'' @ py_upper (take 8 h), ue_from = uv_version uv, ue_target = target,
                     ue_image = fst (rsplit_colon (uv_runtime_image uv)) @ '':'' @ target\<rparr>
           in andthen (create_upgrade (new_upgrade now ev (us_email u))) (\<lambda>_.
              andthen (catching (start_upgrade uv ev) (\<lambda>e.
                case e of
                  Raised c m \<Rightarrow> (if c = ''PlatformUpgradeNotConfiguredError'' then raising (HttpError 500 m) else raising e)
                | _ \<Rightarrow> raising e)) (\<lambda>arn. ret (ev, arn))))))"

definition get_upgrade_route :: "string \<Rightarrow> ('w, upgrade) upgrade_action" where
  "get_upgrade_route i =
     andthen (get_upgrade i) (\<lambda>found.
       case found of
         None \<Rightarrow> raising (HttpError 404 (''Platform upgrade '' @ repr_str i @ '' not found''))
       | Some u \<Rightarrow> ret u)"

definition recent_upgrades_limit :: nat where "recent_upgrades_limit = 5"

definition list_recent_upgrades :: "('w, upgrade list) upgrade_action" where
  "list_recent_upgrades = andthen list_upgrades (\<lambda>us. ret (take recent_upgrades_limit us))"

section \<open>Health\<close>

text \<open>A dependency's check: whether its probe came back, which is tried only when it is configured.\<close>

definition probe :: "'w upgrade_services \<Rightarrow> string \<Rightarrow> ('w, string) upgrade_action" where
  "probe uv k = outside (\<lambda>w. let (ok, w') = uv_probe uv k w in (Inr (if ok then ''ok'' else ''error''), w'))"

definition check_storage :: "'w upgrade_services \<Rightarrow> string \<Rightarrow> ('w, string) upgrade_action" where
  "check_storage uv bucket = (if bucket = [] then ret ''error'' else probe uv ''storage'')"

definition check_observability :: "'w upgrade_services \<Rightarrow> bool \<Rightarrow> string \<Rightarrow> ('w, string) upgrade_action" where
  "check_observability uv enabled host = (if \<not> enabled \<or> host = [] then ret ''disabled'' else probe uv ''observability'')"

record health_response =
  hs_status :: string
  hs_version :: string
  hs_mode :: string
  hs_services :: "(string \<times> string) list"

definition platform_health :: "'w upgrade_services \<Rightarrow> bool \<Rightarrow> string \<Rightarrow> bool \<Rightarrow> string \<Rightarrow> ('w, health_response) upgrade_action" where
  "platform_health uv router bucket langfuse host =
     andthen (probe uv ''database'') (\<lambda>db.
     andthen (probe uv ''cache'') (\<lambda>ca.
     andthen (check_storage uv bucket) (\<lambda>st.
     andthen (check_observability uv langfuse host) (\<lambda>ob.
       ret \<lparr>hs_status = ''ok'', hs_version = uv_version uv, hs_mode = uv_mode uv,
            hs_services = [(''database'', db), (''cache'', ca), (''storage'', st),
              (''model_router'', if router then ''ok'' else ''error''), (''observability'', ob)]\<rparr>))))"

section \<open>The model catalog\<close>

record model_info =
  mi_id :: string
  mi_provider :: string
  mi_name :: string
  mi_kb :: bool

definition model_catalog :: "model_info list" where
  "model_catalog =
     [\<lparr>mi_id = ''anthropic.claude-3-5-sonnet-20241022-v2:0'', mi_provider = ''bedrock'', mi_name = ''Claude 3.5 Sonnet (Bedrock)'', mi_kb = True\<rparr>,
      \<lparr>mi_id = ''anthropic.claude-3-5-haiku-20241022-v1:0'', mi_provider = ''bedrock'', mi_name = ''Claude 3.5 Haiku (Bedrock)'', mi_kb = True\<rparr>,
      \<lparr>mi_id = ''amazon.titan-text-premier-v1:0'', mi_provider = ''bedrock'', mi_name = ''Amazon Titan Text Premier (Bedrock)'', mi_kb = True\<rparr>,
      \<lparr>mi_id = ''gpt-4o'', mi_provider = ''azure_openai'', mi_name = ''GPT-4o (Azure OpenAI)'', mi_kb = True\<rparr>,
      \<lparr>mi_id = ''gpt-4o-mini'', mi_provider = ''azure_openai'', mi_name = ''GPT-4o mini (Azure OpenAI)'', mi_kb = True\<rparr>,
      \<lparr>mi_id = ''llama-3-70b'', mi_provider = ''self_hosted'', mi_name = ''Llama 3 70B (self-hosted)'', mi_kb = False\<rparr>]"

text \<open>Every model that is offered has a provider the router knows.\<close>

lemma catalog_is_routable: "list_all (\<lambda>m. map_of provider_prefixes (mi_provider m) \<noteq> None) model_catalog"
  by code_simp

section \<open>Telemetry\<close>

definition category_fields :: "(string \<times> string list) list" where
  "category_fields =
     [(''usage'', [''agent_id'', ''deployment_id'', ''deployment_status'', ''version'', ''request_id'', ''trace_id'', ''model_id'',
         ''model_provider'', ''platform_version'', ''runtime_version'', ''status'']),
      (''performance'', [''latency_ms'', ''p95_latency_ms'', ''p99_latency_ms'', ''throughput_rps'']),
      (''cost'', [''request_count'', ''input_token_count'', ''output_token_count'', ''total_token_count'', ''estimated_cost_usd'',
         ''tool_execution_ms'']),
      (''errors'', [''error_count'', ''error_code'', ''error_category''])]"

definition allowed_telemetry_fields :: "string list" where
  "allowed_telemetry_fields = concat (map snd category_fields)"

definition blocked_telemetry_fields :: "string list" where
  "blocked_telemetry_fields =
     [''prompt'', ''response'', ''system_prompt'', ''conversation_history'', ''user_message'', ''assistant_message'',
      ''session_history'', ''transcript'', ''tool_arguments'', ''tool_response'', ''skill_input'', ''skill_output'',
      ''kb_content'', ''retrieved_chunks'', ''embeddings'', ''documents'', ''memory_content'', ''persistent_memory'', ''pii'',
      ''user_id_hash'', ''user_data'', ''name'', ''email'', ''phone'', ''secret_arn'', ''access_token'', ''terraform_state'',
      ''security_findings_detail'', ''iam_policy'']"

definition toggled :: "telemetry_config \<Rightarrow> string \<Rightarrow> bool" where
  "toggled c k =
     get_or False (map_of [(''usage'', tm_usage c), (''performance'', tm_performance c), (''cost'', tm_cost c), (''errors'', tm_errors c)] k)"

definition enabled_fields :: "telemetry_config \<Rightarrow> string list" where
  "enabled_fields c = concat (map snd (filter (\<lambda>(k, fs). toggled c k) category_fields))"

text \<open>The fields that go out, and those a warning names.\<close>

definition sanitise :: "telemetry_config \<Rightarrow> (string \<times> pyval) list \<Rightarrow> (string \<times> pyval) list \<times> string list" where
  "sanitise c raw =
     (filter (\<lambda>(k, v). k \<in> set (enabled_fields c)) raw,
      map fst (filter (\<lambda>(k, v). k \<notin> set (enabled_fields c) \<and> k \<in> set blocked_telemetry_fields) raw))"

definition emit :: "'w upgrade_services \<Rightarrow> (string \<times> pyval) list \<Rightarrow> ('w, unit) upgrade_action" where
  "emit uv raw =
     andthen (reads ug_telemetry) (\<lambda>c.
       let payload = fst (sanitise c raw)
       in if \<not> tm_enabled c \<or> uv_telemetry_url uv = [] \<or> payload = [] then ret ()
          else andthen (modifies (\<lambda>s. s\<lparr>ug_sent := ug_sent s @ [payload]\<rparr>)) (\<lambda>_.
                 outside (\<lambda>w. (Inr (), snd (uv_post uv (uv_telemetry_url uv) payload w)))))"

record telemetry_update =
  tu_enabled :: "bool option"
  tu_categories :: "(bool \<times> bool \<times> bool \<times> bool) option"

definition update_telemetry_config :: "telemetry_update \<Rightarrow> ('w, telemetry_config) upgrade_action" where
  "update_telemetry_config x =
     andthen (modifies (\<lambda>s.
       let c = ug_telemetry s; c1 = (case tu_enabled x of None \<Rightarrow> c | Some b \<Rightarrow> c\<lparr>tm_enabled := b\<rparr>)
       in s\<lparr>ug_telemetry := (case tu_categories x of
              None \<Rightarrow> c1
            | Some (us, pe, co, er) \<Rightarrow> c1\<lparr>tm_usage := us, tm_performance := pe, tm_cost := co, tm_errors := er\<rparr>)\<rparr>))
       (\<lambda>_. reads ug_telemetry)"

section \<open>The requests\<close>

datatype upgrade_request =
    PlatformVersion | ListModels | TriggerUpgrade "string option" | ListUpgrades | GetUpgrade string
  | GetTelemetry | UpdateTelemetry telemetry_update

datatype upgrade_answer =
    VersionAnswer version_info | ModelsAnswer "model_info list" | Triggered upgrade_event string | UpgradesAnswer "upgrade list" | UpgradeAnswer upgrade
  | TelemetryAnswer telemetry_config

definition answered_by :: "('a \<Rightarrow> upgrade_answer) \<Rightarrow> ('w, 'a) upgrade_action \<Rightarrow> ('w, upgrade_answer) upgrade_action" where
  "answered_by f m = andthen m (\<lambda>x. ret (f x))"

definition admin_only ::
  "'w upgrade_services \<Rightarrow> string option \<Rightarrow> (user_row \<Rightarrow> ('w, upgrade_answer) upgrade_action) \<Rightarrow> ('w, upgrade_answer) upgrade_action" where
  "admin_only uv token handler =
     andthen (in_api (get_current_user (uv_platform uv) token)) (\<lambda>u.
     andthen (in_api (require_role [] u)) (\<lambda>_. handler u))"

definition serve_upgrades ::
  "'w upgrade_services \<Rightarrow> string option \<Rightarrow> upgrade_request \<Rightarrow> ('w, upgrade_answer) upgrade_action" where
  "serve_upgrades uv token rq =
     (case rq of
        PlatformVersion \<Rightarrow> answered_by VersionAnswer (get_version_info uv)
      | ListModels \<Rightarrow> ret (ModelsAnswer model_catalog)
      | TriggerUpgrade v \<Rightarrow> admin_only uv token (\<lambda>u. answered_by (\<lambda>(ev, arn). Triggered ev arn) (trigger_upgrade uv u v))
      | ListUpgrades \<Rightarrow> admin_only uv token (\<lambda>_. answered_by UpgradesAnswer list_recent_upgrades)
      | GetUpgrade i \<Rightarrow> admin_only uv token (\<lambda>_. answered_by UpgradeAnswer (get_upgrade_route i))
      | GetTelemetry \<Rightarrow> answered_by TelemetryAnswer (reads ug_telemetry)
      | UpdateTelemetry x \<Rightarrow> admin_only uv token (\<lambda>_. answered_by TelemetryAnswer (update_telemetry_config x)))"

end
