(* ===== verification/UpgradeRules.thy ===== *)
theory UpgradeRules
  imports Upgrade
begin

text \<open>
  What an upgrade leaves: the service on the revision that was confirmed, or on the one it had.
\<close>

definition upgrade_view :: "'w upgrades \<Rightarrow> (string \<times> upgrade) list \<times> string \<times> (string \<times> task_definition) list" where
  "upgrade_view s = (ug_table s, ug_service s, ug_definitions s)"

lemma view_simps: "upgrade_view t = upgrade_view s \<longleftrightarrow>
    ug_table t = ug_table s \<and> ug_service t = ug_service s \<and> ug_definitions t = ug_definitions s"
  by (simp add: upgrade_view_def)

lemma in_api_view [frame_intros]: "stays_in (same upgrade_view) (in_api m)" "stays_in (same upgrade_view) (outside n)"
  by (auto simp: stays_in_def same_def in_api_def outside_def on_part_def upgrade_view_def split: prod.splits)

lemma quiet_view [frame_intros]:
  "stays_in (same upgrade_view) (upgrade_time uv)" "stays_in (same upgrade_view) (aws uv c)"
  "stays_in (same upgrade_view) (require_cluster uv)" "stays_in (same upgrade_view) (described_service uv)"
  "stays_in (same upgrade_view) (described_definition uv arn)" "stays_in (same upgrade_view) (get_upgrade i)"
  unfolding upgrade_time_def aws_def require_cluster_def described_service_def described_definition_def get_upgrade_def
  by (intro frame_intros)+

lemma confirm_view [frame_intros]: "stays_in (same upgrade_view) (confirm_image_exists uv img)"
proof -
  have "stays_in (same upgrade_view) (case e of ClientError c \<Rightarrow> raising (g c) | _ \<Rightarrow> raising e)" for e and g :: "string \<Rightarrow> pyexn"
    by (cases e) (auto intro: frame_intros)
  then show ?thesis unfolding confirm_image_exists_def by (intro frame_intros)
qed

lemma check_view [frame_intros]: "stays_in (same upgrade_view) (check_upgraded uv target)"
  unfolding check_upgraded_def Let_def by (intro frame_intros)

lemma wait_view: "stays_in (same upgrade_view) (wait_stable uv arn n)"
proof (induction n)
  case (Suc n)
  show ?case unfolding wait_stable.simps by (intro frame_intros Suc)
qed (simp, intro frame_intros)

lemma require_view [frame_intros]: "stays_in (same upgrade_view) (require_fields kvs)"
  unfolding require_fields_def stage_failure_def Let_def by (intro frame_intros)

text \<open>The parts that do change the tables.\<close>

lemma upgrade_time_run: "\<exists>now. upgrade_time uv s = (Inr now, s)"
  by (simp add: upgrade_time_def in_api_def on_part_def the_time_def on_factory_def now_at_def reads_def)

definition row :: "string \<Rightarrow> 'w upgrades \<Rightarrow> upgrade option" where
  "row i s = map_of (ug_table s) i"

lemma update_upgrade_run:
  assumes "row i s = Some u" and "gu_id u = i" and "update_upgrade uv i stage st x s = (r, t)"
  obtains now where "r = Inr (updated_upgrade now stage st x u)" "row i t = Some (updated_upgrade now stage st x u)"
    "ug_service t = ug_service s" "ug_definitions t = ug_definitions s"
proof -
  obtain now where "upgrade_time uv s = (Inr now, s)" using upgrade_time_run by blast
  with assms that [of now] show thesis
    by (auto simp: update_upgrade_def get_upgrade_def row_def prog_simps create_upgrade_def Let_def updated_upgrade_def update_conv')
qed

lemma run_stage_run:
  assumes "run_stage uv i stage work upd s = (r, t)" and w: "work s = (q, v)" and "row i v = Some u" and "gu_id u = i"
  shows "case q of
      Inl e \<Rightarrow> r = Inl e \<and> (\<exists>now. row i t = Some (updated_upgrade now stage ''FAILED'' (stage_failed stage (uv_text uv e)) u))
    | Inr x \<Rightarrow> r = Inr x \<and> (\<exists>now. row i t = Some (updated_upgrade now stage ''PASSED'' (upd x) u))"
    and "ug_service t = ug_service v" "ug_definitions t = ug_definitions v"
proof -
  have "(case q of
      Inl e \<Rightarrow> r = Inl e \<and> (\<exists>now. row i t = Some (updated_upgrade now stage ''FAILED'' (stage_failed stage (uv_text uv e)) u))
    | Inr x \<Rightarrow> r = Inr x \<and> (\<exists>now. row i t = Some (updated_upgrade now stage ''PASSED'' (upd x) u))) \<and>
    ug_service t = ug_service v \<and> ug_definitions t = ug_definitions v"
  proof (cases q)
    case (Inl e)
    obtain r1 v1 where u1: "update_upgrade uv i stage ''FAILED'' (stage_failed stage (uv_text uv e)) v = (r1, v1)" by fastforce
    from assms(3,4) u1 show ?thesis
      by (rule update_upgrade_run) (use assms(1) w u1 Inl in \<open>auto simp: run_stage_def prog_simps\<close>)
  next
    case (Inr x)
    obtain r1 v1 where u1: "update_upgrade uv i stage ''PASSED'' (upd x) v = (r1, v1)" by fastforce
    from assms(3,4) u1 show ?thesis
      by (rule update_upgrade_run) (use assms(1) w u1 Inr in \<open>auto simp: run_stage_def prog_simps\<close>)
  qed
  then show "case q of
      Inl e \<Rightarrow> r = Inl e \<and> (\<exists>now. row i t = Some (updated_upgrade now stage ''FAILED'' (stage_failed stage (uv_text uv e)) u))
    | Inr x \<Rightarrow> r = Inr x \<and> (\<exists>now. row i t = Some (updated_upgrade now stage ''PASSED'' (upd x) u))"
    and "ug_service t = ug_service v" "ug_definitions t = ug_definitions v" by simp_all
qed

section \<open>What the stages do to the service\<close>

lemma register_definition_run:
  assumes "register_definition uv d s = (r, t)"
  shows "case r of Inl e \<Rightarrow> upgrade_view t = upgrade_view s
    | Inr arn \<Rightarrow> ug_table t = ug_table s \<and> ug_service t = ug_service s \<and> ug_definitions t = ug_definitions s @ [(arn, d)]"
proof -
  have v: "upgrade_view v = upgrade_view s" if "aws uv RegisterTaskDefinition s = (q, v)" for q v
    using that by (rule same_outcome [rotated]) (intro frame_intros)
  show ?thesis
  proof (cases "aws uv RegisterTaskDefinition s")
    case (Pair q v)
    note vs = v [OF Pair]
    show ?thesis
    proof (cases q)
      case (Inl e)
      with assms Pair vs show ?thesis by (auto simp: register_definition_def andthen_def)
    next
      case (Inr x)
      obtain a z where o: "outside (\<lambda>w. let (a, w') = uv_arn uv w in (Inr a, w')) v = (Inr a, z)"
        by (cases "uv_arn uv (fc_world (pl_factory (ug_platform v)))")
          (simp add: outside_def in_api_def on_world_def on_part_def Let_def)
      have "upgrade_view z = upgrade_view v" using o by (rule same_outcome [rotated]) (intro frame_intros)
      with assms Pair Inr vs o show ?thesis
        by (auto simp: register_definition_def andthen_def modifies_def ret_def view_simps)
    qed
  qed
qed

definition revision_of :: "upgrade_event \<Rightarrow> string \<Rightarrow> string \<Rightarrow> 'w upgrades \<Rightarrow> bool" where
  "revision_of ev old new s \<longleftrightarrow>
     (\<exists>d d'. map_of (ug_definitions s) old = Some d \<and> renewed_definition (ue_image ev) (ue_target ev) d = Inr d' \<and>
        (new, d') \<in> set (ug_definitions s))"

lemma register_new_revision_run:
  assumes "register_new_revision uv (ue_image ev) (ue_target ev) s = (r, t)"
  shows "ug_table t = ug_table s" "ug_service t = ug_service s"
    "r = Inr (old, new) \<Longrightarrow> old = ug_service s \<and> uv_cluster uv \<noteq> [] \<and> revision_of ev old new t"
proof -
  have all: "ug_table t = ug_table s \<and> ug_service t = ug_service s \<and>
      (\<forall>old new. r = Inr (old, new) \<longrightarrow> old = ug_service s \<and> uv_cluster uv \<noteq> [] \<and> revision_of ev old new t)"
    using assms unfolding register_new_revision_def
  proof (cases rule: andthen_cases)
    case (stop e)
    have "upgrade_view t = upgrade_view s" using stop(1) by (rule same_outcome [rotated]) (intro frame_intros)
    with stop show ?thesis by (simp add: view_simps)
  next
    case (step x v)
    have c: "uv_cluster uv \<noteq> []" and v: "v = s" using step(1) by (auto simp: require_cluster_def ret_def raising_def split: if_splits)
    from step(2) show ?thesis unfolding v
    proof (cases rule: andthen_cases)
      case (stop e)
      have "upgrade_view t = upgrade_view s" using stop(1) by (rule same_outcome [rotated]) (intro frame_intros)
      with stop show ?thesis by (simp add: view_simps)
    next
      case (step found v1)
      have v1: "upgrade_view v1 = upgrade_view s" using step(1) by (rule same_outcome [rotated]) (intro frame_intros)
      show ?thesis
      proof (cases found)
        case None
        with step(2) v1 show ?thesis by (auto simp: raising_def view_simps)
      next
        case (Some previous)
        have "previous = ug_service s"
          using step(1) v1 Some by (auto simp: described_service_def reads_def view_simps elim!: andthen_cases split: if_splits)
        note prev = this
        from step(2) Some have "andthen (described_definition uv previous) (\<lambda>d.
             case renewed_definition (ue_image ev) (ue_target ev) d of
               Inl e \<Rightarrow> raising e
             | Inr d' \<Rightarrow> andthen (register_definition uv d') (\<lambda>arn. ret (previous, arn))) v1 = (r, t)" by simp
        then show ?thesis
        proof (cases rule: andthen_cases)
          case (stop e)
          have "upgrade_view t = upgrade_view v1" using stop(1) by (rule same_outcome [rotated]) (intro frame_intros)
          with stop v1 show ?thesis by (simp add: view_simps)
        next
          case (step d v2)
          have v2: "upgrade_view v2 = upgrade_view v1" using step(1) by (rule same_outcome [rotated]) (intro frame_intros)
          have d: "map_of (ug_definitions v2) previous = Some d"
            using step(1) by (auto simp: described_definition_def reads_def raising_def ret_def elim!: andthen_cases split: option.splits)
          show ?thesis
          proof (cases "renewed_definition (ue_image ev) (ue_target ev) d")
            case (Inl e)
            with step(2) v1 v2 show ?thesis by (auto simp: raising_def view_simps)
          next
            case (Inr d')
            obtain q v3 where g: "register_definition uv d' v2 = (q, v3)" by fastforce
            note g' = register_definition_run [OF g]
            show ?thesis
            proof (cases q)
              case (Inl e)
              with g g' step(2) Inr v1 v2 show ?thesis by (auto simp: andthen_def view_simps)
            next
              case (Inr arn)
              with g step(2) \<open>renewed_definition _ _ _ = _\<close> have rt: "r = Inr (previous, arn)" "t = v3" by (auto simp: andthen_def ret_def)
              from g' Inr rt v1 v2 have t: "ug_table t = ug_table s" "ug_service t = ug_service s" "ug_definitions t = ug_definitions v2 @ [(arn, d')]"
                by (auto simp: view_simps)
              from d t(3) \<open>renewed_definition _ _ _ = _\<close> have "revision_of ev previous arn t" by (auto simp: revision_of_def)
              with rt t prev c show ?thesis by simp
            qed
          qed
        qed
      qed
    qed
  qed
  then show "ug_table t = ug_table s" "ug_service t = ug_service s"
    "r = Inr (old, new) \<Longrightarrow> old = ug_service s \<and> uv_cluster uv \<noteq> [] \<and> revision_of ev old new t" by auto
qed

lemma update_service_run:
  assumes "update_service uv arn s = (r, t)"
  shows "ug_table t = ug_table s" "ug_definitions t = ug_definitions s"
    "case r of Inl e \<Rightarrow> ug_service t = ug_service s \<and> (\<exists>w e w'. uv_call uv (UpdateService arn) w = (Some e, w')) | Inr _ \<Rightarrow> ug_service t = arn"
proof -
  obtain q v where a: "aws uv (UpdateService arn) s = (q, v)" by fastforce
  have v: "upgrade_view v = upgrade_view s" using a by (rule same_outcome [rotated]) (intro frame_intros)
  have "\<exists>w e w'. uv_call uv (UpdateService arn) w = (Some e, w')" if "q = Inl e'" for e'
    using a that by (auto simp: aws_def outside_def in_api_def on_world_def on_part_def split: prod.splits option.splits)
  with a v assms show "ug_table t = ug_table s" "ug_definitions t = ug_definitions s"
    "case r of Inl e \<Rightarrow> ug_service t = ug_service s \<and> (\<exists>w e w'. uv_call uv (UpdateService arn) w = (Some e, w')) | Inr _ \<Rightarrow> ug_service t = arn"
    by (cases q; auto simp: update_service_def andthen_def modifies_def view_simps)+
qed

lemma wait_stable_run:
  assumes "wait_stable uv arn n s = (r, t)"
  shows "upgrade_view t = upgrade_view s" "r = Inr x \<Longrightarrow> ug_service t = arn"
proof -
  show v: "upgrade_view t = upgrade_view s" using wait_view assms by (rule same_outcome)
  show "r = Inr x \<Longrightarrow> ug_service t = arn" using assms
  proof (induction n arbitrary: s)
    case (Suc n)
    from Suc.prems(2) obtain found s1 where f: "described_service uv s = (Inr found, s1)"
      and rest: "(case found of
         None \<Rightarrow> raising (Raised ''IndexError'' ''list index out of range'')
       | Some current \<Rightarrow>
           andthen (reads (\<lambda>s. uv_counts uv (fc_world (pl_factory (ug_platform s))))) (\<lambda>(running, desired).
             if current = arn \<and> running = desired
             then ret (''Service stable on '' @ arn @ '' ('' @ int_text running @ ''/'' @ int_text desired @ '' tasks)'')
             else andthen (if 0 < n then outside (\<lambda>w. (Inr (), uv_sleep uv w)) else ret ()) (\<lambda>_. wait_stable uv arn n))) s1 = (Inr x, t)"
      using Suc.prems(1) by (auto elim!: andthen_cases)
    from f have cur: "found = Some c \<Longrightarrow> c = ug_service s1" for c
      by (auto simp: described_service_def reads_def elim!: andthen_cases split: if_splits)
    from rest cur show ?case
      by (auto simp: raising_def reads_def ret_def split: option.splits prod.splits if_splits elim!: andthen_cases
          intro: Suc.IH [OF Suc.prems(1)] Suc.IH [unfolded Suc.prems(1)])
  qed (simp add: raising_def)
qed

section \<open>The invariant of an execution\<close>

text \<open>The health endpoint answered, at some moment, with the version that was asked for.\<close>

definition version_confirmed :: "'w upgrade_services \<Rightarrow> string \<Rightarrow> bool" where
  "version_confirmed uv target \<longleftrightarrow>
     (\<exists>w w' v. uv_get uv (uv_health_url uv) w = (Inr (200, Some v), w') \<and> py_str (dict_get ''version'' v) = target)"

definition recorded_previous :: "string \<Rightarrow> string option \<Rightarrow> 'w upgrades \<Rightarrow> bool" where
  "recorded_previous i previous s \<longleftrightarrow> (\<exists>u. row i s = Some u \<and> gu_id u = i \<and> gu_previous u = previous)"

definition on_new_revision :: "'w upgrade_services \<Rightarrow> upgrade_event \<Rightarrow> string \<Rightarrow> upgrade_execution \<Rightarrow> 'w upgrades \<Rightarrow> bool" where
  "on_new_revision uv ev old x s \<longleftrightarrow> ux_new x = Some (ug_service s) \<and> revision_of ev old (ug_service s) s"

definition upgrade_invariant :: "'w upgrade_services \<Rightarrow> upgrade_event \<Rightarrow> string \<Rightarrow> upgrade_execution \<Rightarrow> 'w upgrades \<Rightarrow> bool" where
  "upgrade_invariant uv ev old x s \<longleftrightarrow>
     (let i = ue_id ev; registered = (recorded_previous i (Some old) s \<and> uv_cluster uv \<noteq> [])
      in case ux_state x of
           PullingImage \<Rightarrow> ug_service s = old \<and> recorded_previous i None s
         | RegisteringTaskDefinition \<Rightarrow> ug_service s = old \<and> recorded_previous i None s
         | UpdatingService \<Rightarrow> ug_service s = old \<and> registered \<and> (\<exists>arn. ux_new x = Some arn \<and> revision_of ev old arn s)
         | PlatformHealthCheck \<Rightarrow> registered \<and> on_new_revision uv ev old x s
         | MarkUpgraded \<Rightarrow> registered \<and> on_new_revision uv ev old x s \<and> version_confirmed uv (ue_target ev)
         | MarkUpgradeFailed \<Rightarrow> ug_service s = old \<and> recorded_previous i None s \<or> registered
         | Upgraded \<Rightarrow> on_new_revision uv ev old x s \<and> version_confirmed uv (ue_target ev) \<and>
             (\<exists>u. row i s = Some u \<and> gu_status u = ''ACTIVE'')
         | Reverted \<Rightarrow> ug_service s = old \<and>
             (\<exists>u. row i s = Some u \<and> gu_status u \<in> {''FAILED'', ''ROLLED_BACK''} \<and> gu_failed u = Some ''UNKNOWN'')
         | Broken \<Rightarrow> (\<exists>w e w'. uv_call uv (UpdateService old) w = (Some e, w')))"

lemma updated_fields [simp]:
  "gu_id (updated_upgrade now stage st x u) = gu_id u"
  "gu_previous (updated_upgrade now stage st x u) = replaced (uu_previous x) (gu_previous u)"
  "gu_status (updated_upgrade now stage st x u) = get_or (gu_status u) (uu_overall x)"
  "gu_failed (updated_upgrade now stage st x u) = replaced (uu_failed x) (gu_failed u)"
  by (simp_all add: updated_upgrade_def)

lemma update_values [simp]:
  "uu_previous (stage_failed stage reason) = None" "uu_previous (stage_passed stage m) = None"
  "uu_previous (registered_update (a, b)) = Some a" "uu_previous no_upgrade_update = None"
  "replaced None z = z" "replaced (Some y) z = Some y"
  by (simp_all add: stage_failed_def stage_passed_def registered_update_def no_upgrade_update_def replaced_def)

text \<open>A stage that leaves the tables alone keeps what is recorded.\<close>

lemma quiet_stage:
  assumes "recorded_previous i p s" and run: "run_stage uv i stage work (stage_passed k) s = (r, t)"
    and w: "stays_in (same upgrade_view) work"
  shows "recorded_previous i p t" "ug_service t = ug_service s" "ug_definitions t = ug_definitions s"
    "\<exists>v. work s = (r, v)"
proof -
  obtain q v where v: "work s = (q, v)" by fastforce
  have vs: "upgrade_view v = upgrade_view s" using w v by (rule same_outcome)
  from assms(1) vs obtain u where u: "row i v = Some u" "gu_id u = i" "gu_previous u = p"
    by (auto simp: recorded_previous_def row_def view_simps)
  note rs = run_stage_run [OF run v u(1,2)]
  show "recorded_previous i p t" using rs(1) u by (auto simp: recorded_previous_def split: sum.splits)
  show "ug_service t = ug_service s" "ug_definitions t = ug_definitions s" using rs(2,3) vs by (simp_all add: view_simps)
  show "\<exists>v. work s = (r, v)" using rs(1) v by (cases q) auto
qed

lemma require_fields_run: "require_fields kvs s = (r, t) \<Longrightarrow> t = s"
  by (auto simp: require_fields_def stage_failure_def raising_def ret_def Let_def split: if_splits)

lemma quiet_handler:
  assumes "recorded_previous i p s" and w: "stays_in (same upgrade_view) work"
    and run: "andthen (require_fields kvs) (\<lambda>_. andthen (run_stage uv i stage work (stage_passed k)) (\<lambda>_. ret ())) s = (r, t)"
  shows "recorded_previous i p t" "ug_service t = ug_service s" "ug_definitions t = ug_definitions s"
    "r = Inr () \<Longrightarrow> \<exists>y v. work s = (Inr y, v)"
proof -
  have "recorded_previous i p t \<and> ug_service t = ug_service s \<and> ug_definitions t = ug_definitions s \<and>
      (r = Inr () \<longrightarrow> (\<exists>y v. work s = (Inr y, v)))"
    using run
  proof (cases rule: andthen_cases)
    case (stop e)
    with assms(1) show ?thesis by (auto dest: require_fields_run)
  next
    case (step x v)
    then have v: "v = s" by (auto dest: require_fields_run)
    from step(2) show ?thesis unfolding v
      by (cases rule: andthen_cases) (auto simp: ret_def dest: quiet_stage [OF assms(1) _ w])
  qed
  then show "recorded_previous i p t" "ug_service t = ug_service s" "ug_definitions t = ug_definitions s"
    "r = Inr () \<Longrightarrow> \<exists>y v. work s = (Inr y, v)" by auto
qed

lemma pull_image_run:
  assumes "pull_image_handler uv ev s = (r, t)" and "recorded_previous (ue_id ev) p s"
  shows "recorded_previous (ue_id ev) p t" "ug_service t = ug_service s"
  using quiet_handler(1,2) [OF assms(2) confirm_view assms(1) [unfolded pull_image_handler_def]] by auto

lemma upgrade_health_run:
  assumes "upgrade_health_handler uv ev s = (r, t)" and "recorded_previous (ue_id ev) p s"
  shows "recorded_previous (ue_id ev) p t" "ug_service t = ug_service s" "ug_definitions t = ug_definitions s"
    "r = Inr () \<Longrightarrow> version_confirmed uv (ue_target ev)"
proof -
  note q = quiet_handler [OF assms(2) check_view assms(1) [unfolded upgrade_health_handler_def]]
  show "recorded_previous (ue_id ev) p t" "ug_service t = ug_service s" "ug_definitions t = ug_definitions s"
    using q(1,2,3) by auto
  assume "r = Inr ()"
  from q(4) [OF this] show "version_confirmed uv (ue_target ev)"
    by (fastforce simp: check_upgraded_def version_confirmed_def raising_def ret_def Let_def outside_def in_api_def on_world_def on_part_def
        split: if_splits prod.splits sum.splits option.splits elim!: andthen_cases)
qed

lemma register_run:
  assumes "register_task_definition_handler uv ev s = (r, t)" and rec: "recorded_previous (ue_id ev) None s"
  shows "ug_service t = ug_service s"
    "r = Inl e \<Longrightarrow> recorded_previous (ue_id ev) None t"
    "r = Inr arn \<Longrightarrow> recorded_previous (ue_id ev) (Some (ug_service s)) t \<and> uv_cluster uv \<noteq> [] \<and> revision_of ev (ug_service s) arn t"
proof -
  have "ug_service t = ug_service s \<and> (case r of
      Inl e \<Rightarrow> recorded_previous (ue_id ev) None t
    | Inr arn \<Rightarrow> recorded_previous (ue_id ev) (Some (ug_service s)) t \<and> uv_cluster uv \<noteq> [] \<and> revision_of ev (ug_service s) arn t)"
    using assms(1) unfolding register_task_definition_handler_def
  proof (cases rule: andthen_cases)
    case (stop e)
    with rec show ?thesis by (auto dest: require_fields_run)
  next
    case (step x v)
    then have v: "v = s" by (auto dest: require_fields_run)
    obtain q z where w: "register_new_revision uv (ue_image ev) (ue_target ev) s = (q, z)" by fastforce
    obtain p y where rs: "run_stage uv (ue_id ev) ''REGISTERING_TASK_DEFINITION''
        (register_new_revision uv (ue_image ev) (ue_target ev)) registered_update s = (p, y)" by fastforce
    from rec register_new_revision_run(1) [OF w] obtain u where u: "row (ue_id ev) z = Some u" "gu_id u = ue_id ev" "gu_previous u = None"
      by (auto simp: recorded_previous_def row_def)
    note st = run_stage_run [OF rs w u(1,2)]
    have y: "ug_service y = ug_service s" "ug_definitions y = ug_definitions z"
      using st(2,3) register_new_revision_run(2) [OF w] by simp_all
    show ?thesis
    proof (cases q)
      case (Inl e)
      with st(1) u step(2) rs v y show ?thesis by (auto simp: andthen_def recorded_previous_def)
    next
      case (Inr pa)
      obtain old arn where pa: "pa = (old, arn)" by fastforce
      with register_new_revision_run(3) [OF w, of old arn] Inr
      have f: "old = ug_service s" "uv_cluster uv \<noteq> []" "revision_of ev old arn z" by auto
      from st(1) u step(2) rs v y Inr pa f show ?thesis
        by (auto simp: andthen_def ret_def recorded_previous_def revision_of_def)
    qed
  qed
  then show "ug_service t = ug_service s" "r = Inl e \<Longrightarrow> recorded_previous (ue_id ev) None t"
    "r = Inr arn \<Longrightarrow> recorded_previous (ue_id ev) (Some (ug_service s)) t \<and> uv_cluster uv \<noteq> [] \<and> revision_of ev (ug_service s) arn t"
    by auto
qed

lemma update_and_wait_run:
  assumes "update_and_wait_stable uv arn s = (r, t)"
  shows "ug_table t = ug_table s" "ug_definitions t = ug_definitions s" "r = Inr x \<Longrightarrow> ug_service t = arn"
proof -
  have "ug_table t = ug_table s \<and> ug_definitions t = ug_definitions s \<and> (\<forall>x. r = Inr x \<longrightarrow> ug_service t = arn)"
    using assms unfolding update_and_wait_stable_def
  proof (cases rule: andthen_cases)
    case (stop e)
    then show ?thesis by (auto simp: require_cluster_def raising_def ret_def split: if_splits)
  next
    case (step y v)
    then have v: "v = s" by (auto simp: require_cluster_def raising_def ret_def split: if_splits)
    from step(2) show ?thesis unfolding v
    proof (cases rule: andthen_cases)
      case (stop e)
      with update_service_run [OF stop(1)] show ?thesis by auto
    next
      case (step z v2)
      with update_service_run [OF step(1)] wait_stable_run [OF step(2)] show ?thesis by (auto simp: view_simps)
    qed
  qed
  then show "ug_table t = ug_table s" "ug_definitions t = ug_definitions s" "r = Inr x \<Longrightarrow> ug_service t = arn" by auto
qed

lemma update_service_handler_run:
  assumes "update_service_handler uv ev (Some arn) s = (r, t)" and rec: "recorded_previous (ue_id ev) p s"
  shows "recorded_previous (ue_id ev) p t" "ug_definitions t = ug_definitions s" "r = Inr () \<Longrightarrow> ug_service t = arn"
proof -
  have "recorded_previous (ue_id ev) p t \<and> ug_definitions t = ug_definitions s \<and> (r = Inr () \<longrightarrow> ug_service t = arn)"
    using assms(1) unfolding update_service_handler_def
  proof (cases rule: andthen_cases)
    case (stop e)
    with rec show ?thesis by (auto dest: require_fields_run)
  next
    case (step x v)
    then have v: "v = s" by (auto dest: require_fields_run)
    obtain q z where w: "update_and_wait_stable uv arn s = (q, z)" by fastforce
    obtain p' y where rs: "run_stage uv (ue_id ev) ''UPDATING_SERVICE'' (update_and_wait_stable uv arn)
        (stage_passed ''UPDATING_SERVICE'') s = (p', y)" by fastforce
    from rec update_and_wait_run(1) [OF w] obtain u where u: "row (ue_id ev) z = Some u" "gu_id u = ue_id ev" "gu_previous u = p"
      by (auto simp: recorded_previous_def row_def)
    note st = run_stage_run [OF rs w u(1,2)]
    from st u step(2) rs v update_and_wait_run [OF w] show ?thesis
      by (cases q) (auto simp: andthen_def ret_def recorded_previous_def)
  qed
  then show "recorded_previous (ue_id ev) p t" "ug_definitions t = ug_definitions s" "r = Inr () \<Longrightarrow> ug_service t = arn" by auto
qed

lemma mark_upgraded_run:
  assumes "recorded_previous (ue_id ev) p s" and "ue_id ev \<noteq> []"
  shows "\<exists>t u. mark_upgraded_handler uv ev s = (Inr (), t) \<and> row (ue_id ev) t = Some u \<and> gu_status u = ''ACTIVE'' \<and>
     ug_service t = ug_service s \<and> ug_definitions t = ug_definitions s"
proof -
  from assms(1) obtain u where u: "row (ue_id ev) s = Some u" "gu_id u = ue_id ev" by (auto simp: recorded_previous_def)
  obtain r t where run: "update_upgrade uv (ue_id ev) ''HEALTH_CHECK'' ''PASSED'' (no_upgrade_update\<lparr>uu_overall := Some ''ACTIVE''\<rparr>) s = (r, t)"
    by fastforce
  from u run show ?thesis
    by (rule update_upgrade_run)
       (use assms(2) run in \<open>auto simp: mark_upgraded_handler_def require_fields_def andthen_def ret_def\<close>)
qed

lemma roll_back_run:
  assumes "roll_back uv old s = (r, t)" and "uv_cluster uv \<noteq> []"
  shows "ug_table t = ug_table s"
    "case r of Inl e \<Rightarrow> \<exists>w e w'. uv_call uv (UpdateService old) w = (Some e, w') | Inr _ \<Rightarrow> ug_service t = old"
  using assms update_service_run [of uv old s r t]
  by (auto simp: roll_back_def require_cluster_def andthen_def ret_def split: sum.splits)

lemma mark_failed_run:
  assumes "mark_upgrade_failed_handler uv ev cause None s = (r, t)" and id: "ue_id ev \<noteq> []" and old: "old \<noteq> []"
    and rec: "ug_service s = old \<and> recorded_previous (ue_id ev) None s \<or>
        recorded_previous (ue_id ev) (Some old) s \<and> uv_cluster uv \<noteq> []"
  shows "case r of
      Inl e \<Rightarrow> \<exists>w e w'. uv_call uv (UpdateService old) w = (Some e, w')
    | Inr _ \<Rightarrow> ug_service t = old \<and>
        (\<exists>u. row (ue_id ev) t = Some u \<and> gu_status u \<in> {''FAILED'', ''ROLLED_BACK''} \<and> gu_failed u = Some ''UNKNOWN'')"
proof -
  define reason where "reason = (if truthy cause then get_or [] cause else ''Platform upgrade failed'')"
  define upd where "upd outcome = \<lparr>uu_summary = Some (take 2000 reason), uu_overall = Some outcome, uu_reason = Some (take 2000 reason),
      uu_failed = Some ''UNKNOWN'', uu_previous = None, uu_new = None\<rparr>" for outcome
  have upd: "uu_overall (upd z) = Some z" "uu_failed (upd z) = Some ''UNKNOWN''" for z by (simp_all add: upd_def)
  from rec obtain u where u: "row (ue_id ev) s = Some u" "gu_id u = ue_id ev"
    and prev: "gu_previous u = None \<and> ug_service s = old \<or> gu_previous u = Some old \<and> uv_cluster uv \<noteq> []"
    by (auto simp: recorded_previous_def)
  have handler: "mark_upgrade_failed_handler uv ev cause None s =
      andthen (if truthy (gu_previous u) then andthen (roll_back uv (get_or [] (gu_previous u))) (\<lambda>_. ret True) else ret False) (\<lambda>b.
        andthen (update_upgrade uv (ue_id ev) ''UNKNOWN'' ''FAILED'' (upd (if b then ''ROLLED_BACK'' else ''FAILED'')))
          (\<lambda>_. ret (if b then ''ROLLED_BACK'' else ''FAILED''))) s"
    using id u by (simp add: mark_upgrade_failed_handler_def require_fields_def reason_def upd_def get_upgrade_def row_def Let_def
        andthen_def reads_def ret_def)
  have recorded_end: "case q of Inl e \<Rightarrow> \<exists>w e w'. uv_call uv (UpdateService old) w = (Some e, w')
      | Inr _ \<Rightarrow> ug_service y = old \<and>
        (\<exists>u. row (ue_id ev) y = Some u \<and> gu_status u \<in> {''FAILED'', ''ROLLED_BACK''} \<and> gu_failed u = Some ''UNKNOWN'')"
    if v: "row (ue_id ev) v = Some u" "ug_service v = old" and b: "outcome \<in> {''FAILED'', ''ROLLED_BACK''}"
      and run: "andthen (update_upgrade uv (ue_id ev) ''UNKNOWN'' ''FAILED'' (upd outcome)) (\<lambda>_. ret outcome) v = (q, y)" for v outcome q y
  proof -
    obtain p z where up: "update_upgrade uv (ue_id ev) ''UNKNOWN'' ''FAILED'' (upd outcome) v = (p, z)" by fastforce
    from v(1) u(2) up show ?thesis
      by (rule update_upgrade_run) (use run up v(2) b in \<open>auto simp: andthen_def ret_def upd\<close>)
  qed
  show ?thesis
  proof (cases "truthy (gu_previous u)")
    case False
    with prev old have "ug_service s = old" by auto
    from recorded_end [OF u(1) this, of "''FAILED''"] handler False assms(1) show ?thesis by simp
  next
    case True
    with prev have p: "gu_previous u = Some old" "uv_cluster uv \<noteq> []" by auto
    obtain q v where rb: "roll_back uv old s = (q, v)" by fastforce
    note rr = roll_back_run [OF rb p(2)]
    show ?thesis
    proof (cases q)
      case (Inl e)
      with handler True p rb rr(2) assms(1) show ?thesis by (auto simp: andthen_def)
    next
      case (Inr z)
      from rr Inr u(1) have v: "row (ue_id ev) v = Some u" "ug_service v = old" by (simp_all add: row_def)
      from recorded_end [OF v, of "''ROLLED_BACK''"] handler True p rb Inr assms(1) show ?thesis by (simp add: andthen_def ret_def)
    qed
  qed
qed

lemma upgrade_step_invariant:
  assumes "upgrade_invariant uv ev old x s" and "ue_id ev \<noteq> []" and "old \<noteq> []" and "upgrade_step uv ev x s = (y, t)"
  shows "upgrade_invariant uv ev old y t"
proof (cases "ux_state x")
  case PullingImage
  with assms pull_image_run [of uv ev s] show ?thesis
    by (auto simp: upgrade_invariant_def upgrade_step_def caught_by_def split: prod.splits sum.splits)
next
  case RegisteringTaskDefinition
  with assms register_run [of uv ev s] show ?thesis
    by (fastforce simp: upgrade_invariant_def upgrade_step_def Let_def split: prod.splits sum.splits)
next
  case UpdatingService
  with assms(1) obtain arn where arn: "ux_new x = Some arn" "revision_of ev old arn s" "recorded_previous (ue_id ev) (Some old) s"
      "uv_cluster uv \<noteq> []"
    by (auto simp: upgrade_invariant_def)
  obtain r v where run: "update_service_handler uv ev (Some arn) s = (r, v)" by fastforce
  from update_service_handler_run [OF run arn(3)] run arn assms(4) UpdatingService show ?thesis
    by (cases r) (auto simp: upgrade_invariant_def upgrade_step_def caught_by_def on_new_revision_def revision_of_def)
next
  case PlatformHealthCheck
  with assms(1) have h: "recorded_previous (ue_id ev) (Some old) s" "uv_cluster uv \<noteq> []" "on_new_revision uv ev old x s"
    by (auto simp: upgrade_invariant_def)
  obtain r v where run: "upgrade_health_handler uv ev s = (r, v)" by fastforce
  from upgrade_health_run [OF run h(1)] run h assms(4) PlatformHealthCheck show ?thesis
    by (cases r) (auto simp: upgrade_invariant_def upgrade_step_def caught_by_def on_new_revision_def revision_of_def)
next
  case MarkUpgraded
  with assms(1) have h: "recorded_previous (ue_id ev) (Some old) s" "on_new_revision uv ev old x s" "version_confirmed uv (ue_target ev)"
    by (auto simp: upgrade_invariant_def)
  from mark_upgraded_run [OF h(1) assms(2), of uv] h assms(4) MarkUpgraded show ?thesis
    by (auto simp: upgrade_invariant_def upgrade_step_def on_new_revision_def revision_of_def)
next
  case MarkUpgradeFailed
  obtain r v where run: "mark_upgrade_failed_handler uv ev (ux_cause x) None s = (r, v)" by fastforce
  from MarkUpgradeFailed assms(1) have "ug_service s = old \<and> recorded_previous (ue_id ev) None s \<or>
      recorded_previous (ue_id ev) (Some old) s \<and> uv_cluster uv \<noteq> []"
    by (simp add: upgrade_invariant_def Let_def)
  note ending = mark_failed_run [OF run assms(2,3) this]
  show ?thesis
  proof (cases r)
    case (Inl e)
    with MarkUpgradeFailed run assms(4) have "ux_state y = Broken" by (auto simp: upgrade_step_def)
    moreover from ending Inl have "\<exists>w e w'. uv_call uv (UpdateService old) w = (Some e, w')" by simp
    ultimately show ?thesis by (simp add: upgrade_invariant_def)
  next
    case (Inr z)
    with MarkUpgradeFailed run ending assms(4) show ?thesis by (auto simp: upgrade_invariant_def upgrade_step_def)
  qed
qed (use assms in \<open>simp_all add: upgrade_step_def\<close>)

section \<open>An execution ends\<close>

definition upgrade_rank :: "upgrade_state \<Rightarrow> nat" where
  "upgrade_rank q =
     (case q of PullingImage \<Rightarrow> 6 | RegisteringTaskDefinition \<Rightarrow> 5 | UpdatingService \<Rightarrow> 4 | PlatformHealthCheck \<Rightarrow> 3
      | MarkUpgraded \<Rightarrow> 2 | MarkUpgradeFailed \<Rightarrow> 1 | Upgraded \<Rightarrow> 0 | Reverted \<Rightarrow> 0 | Broken \<Rightarrow> 0)"

lemma upgrade_step_rank:
  "upgrade_step uv ev x s = (y, t) \<Longrightarrow> upgrade_rank (ux_state y) \<le> upgrade_rank (ux_state x) - 1"
  by (cases "ux_state x") (auto simp: upgrade_step_def caught_by_def upgrade_rank_def split: prod.splits sum.splits)

lemma upgrade_steps_rank:
  "upgrade_steps uv ev n x s = (y, t) \<Longrightarrow> upgrade_rank (ux_state y) \<le> upgrade_rank (ux_state x) - n"
proof (induction n arbitrary: x s)
  case (Suc n)
  obtain z v where z: "upgrade_step uv ev x s = (z, v)" by fastforce
  with Suc.prems have "upgrade_steps uv ev n z v = (y, t)" by simp
  from Suc.IH [OF this] upgrade_step_rank [OF z] show ?case by linarith
qed simp

lemma upgrade_steps_invariant:
  assumes "upgrade_invariant uv ev old x s" and "ue_id ev \<noteq> []" and "old \<noteq> []" and "upgrade_steps uv ev n x s = (y, t)"
  shows "upgrade_invariant uv ev old y t"
  using assms(1,4)
proof (induction n arbitrary: x s)
  case (Suc n)
  obtain z v where z: "upgrade_step uv ev x s = (z, v)" by fastforce
  with Suc.prems have "upgrade_steps uv ev n z v = (y, t)" by simp
  with Suc.IH upgrade_step_invariant [OF Suc.prems(1) assms(2,3) z] show ?case by blast
qed simp

lemma upgrade_ended: "upgrade_rank q = 0 \<Longrightarrow> q \<in> {Upgraded, Reverted, Broken}"
  by (cases q) (simp_all add: upgrade_rank_def)

text \<open>What registering changes of a task definition.\<close>

lemma all_of_Inr: "all_of f xs = Inr ys \<Longrightarrow> length ys = length xs \<and> (\<forall>i < length xs. f (xs ! i) = Inr (ys ! i))"
proof (induction xs arbitrary: ys)
  case (Cons x xs)
  then obtain z zs where "f x = Inr z" "all_of f xs = Inr zs" "ys = z # zs" by (auto split: sum.splits)
  with Cons.IH [of zs] show ?case by (auto simp: nth_Cons')
qed simp

lemma renewed_container_other:
  "renewed_container img version (PDict kvs) = Inr v \<Longrightarrow> map_of kvs ''name'' \<noteq> Some (PStr runtime_container_name) \<Longrightarrow> v = PDict kvs"
  by (auto simp: renewed_container_def split: option.splits if_splits sum.splits)

lemma renewed_container_runtime:
  assumes "renewed_container img version (PDict kvs) = Inr v" and "map_of kvs ''name'' = Some (PStr runtime_container_name)"
  shows "\<exists>kvs'. v = PDict kvs' \<and> map_of kvs' ''image'' = Some (PStr img) \<and>
     (\<forall>k. k \<notin> {''image'', ''environment''} \<longrightarrow> map_of kvs' k = map_of kvs k)"
  using assms by (auto simp: renewed_container_def update_conv' split: sum.splits)

lemma renewed_definition_fields:
  assumes "renewed_definition img version d = Inr d'"
  shows "k \<in> set task_def_copy_keys \<Longrightarrow> k \<noteq> ''containerDefinitions'' \<Longrightarrow> map_of d' k = map_of d k"
    "k \<notin> set task_def_copy_keys \<Longrightarrow> map_of d' k = None"
proof -
  from assms obtain cs' where d': "d' = map (\<lambda>k. (k, if k = ''containerDefinitions'' then PList cs' else the (map_of d k)))
      (filter (\<lambda>k. map_of d k \<noteq> None) task_def_copy_keys)"
    by (auto simp: renewed_definition_def split: option.splits sum.splits)
  have m: "map_of (map (\<lambda>k. (k, f k)) ks) k = (if k \<in> set ks then Some (f k) else None)" for f :: "string \<Rightarrow> pyval" and ks k
    by (induction ks) auto
  show "k \<in> set task_def_copy_keys \<Longrightarrow> k \<noteq> ''containerDefinitions'' \<Longrightarrow> map_of d' k = map_of d k"
    unfolding d' m by auto
  show "k \<notin> set task_def_copy_keys \<Longrightarrow> map_of d' k = None" unfolding d' m by auto
qed

section \<open>Telemetry\<close>

lemma telemetry_fields_disjoint: "set allowed_telemetry_fields \<inter> set blocked_telemetry_fields = {}"
  by code_simp

lemma sanitised_is_allowed:
  assumes "(k, v) \<in> set (fst (sanitise c raw))"
  shows "(k, v) \<in> set raw" "k \<in> set allowed_telemetry_fields" "k \<notin> set blocked_telemetry_fields"
proof -
  from assms show "(k, v) \<in> set raw" by (simp add: sanitise_def)
  from assms show a: "k \<in> set allowed_telemetry_fields"
    by (force simp: sanitise_def enabled_fields_def allowed_telemetry_fields_def)
  with telemetry_fields_disjoint show "k \<notin> set blocked_telemetry_fields" by blast
qed

lemma disabled_telemetry_sends_nothing: "\<not> tm_enabled (ug_telemetry s) \<Longrightarrow> emit uv raw s = (Inr (), s)"
  by (simp add: emit_def andthen_def reads_def ret_def Let_def)

end
