(* ===== verification/SampleUpgrade.thy ===== *)
theory SampleUpgrade
  imports UpgradeRules SamplePlatform
begin

text \<open>
  A sample of the upgrade: a service on one revision, whose registered revisions are numbered by the
  world, and a health endpoint that reports a given version.
\<close>

definition counting_platform :: "nat platform" where
  "counting_platform =
     \<lparr>pl_factory = \<lparr>fc_world = 0, fc_registry = \<lparr>rg_agents = [], rg_versions = []\<rparr>, fc_deployments = [], fc_git = [],
                    fc_events = [], fc_audit = [], fc_metrics = []\<rparr>,
      pl_connectors = [], pl_kbs = [], pl_policies = [], pl_credentials = [], pl_skills = [], pl_prompts = [],
      pl_projects = [], pl_tools = [], pl_builds = [], pl_users = [sample_user\<lparr>us_role := ''admin''\<rparr>], pl_settings = [],
      pl_objects = []\<rparr>"

definition counting_services :: "nat platform_services" where
  "counting_services =
     \<lparr>ps_cloud = \<lparr>cl_clock = int, cl_iso = int_text, cl_git = \<lambda>_ w. (Inr (), w), cl_codebuild = \<lambda>_ _ w. (Inr ''b'', w),
                  cl_post = \<lambda>_ w. (Inr (200, None), w)\<rparr>,
      ps_uuid = \<lambda>w. (''0123456789abcdef'', w), ps_llm = \<lambda>_ _ w. (Inl ''down'', w),
      ps_co = \<lparr>co_bool = \<lambda>_. None, co_float = \<lambda>_. None\<rparr>, ps_sha256 = \<lambda>_. ''h'', ps_version = ''1'',
      ps_jwt_decode = \<lambda>_ _ token. if token = ''good''
        then Claims [(''type'', PStr ''access''), (''sub'', PStr (us_id sample_user))] else TokenInvalid ''bad'',
      ps_jwt_encode = \<lambda>_ _. ''good'', ps_checkpw = \<lambda>_ _. True, ps_assume = \<lambda>_ _ w. (Inr ''c'', w),
      ps_put_guardrail = \<lambda>_ _ w. (Inr (''g'', ''1''), w), ps_delete_guardrail = \<lambda>_ _ w. (Inr (), w),
      ps_s3 = \<lambda>_ w. (None, w), ps_kb_call = \<lambda>_ w. (Inl ''none'', w), ps_kb_job = \<lambda>_ _ _ w. (Inl ''none'', w),
      ps_presigned = \<lambda>_ _. ''url'', ps_mock_kb = True, ps_kb_role = ''role'', ps_kb_collection = ''c'',
      ps_region = ''r'', ps_engine = \<lparr>en_score = \<lambda>_ _ _. Inr 0, en_mock = True, en_apply = \<lambda>_ _ _ _ w. (Inl ''none'', w)\<rparr>,
      ps_jwt_secret = ''s'', ps_access_minutes = 60, ps_refresh_days = 7, ps_mock_guardrails = True, ps_kb_bucket = None\<rparr>"

definition sample_upgrade_services :: "string \<Rightarrow> nat upgrade_services" where
  "sample_upgrade_services reported =
     \<lparr>uv_platform = counting_services, uv_cluster = ''cluster'', uv_service = ''factory'',
      uv_runtime_image = ''1.dkr.ecr.r.amazonaws.com/factory:1.0'', uv_version = ''1.0'', uv_mode = ''prototype'',
      uv_state_machine = ''machine'', uv_health_url = ''http://factory'', uv_telemetry_url = [],
      uv_call = \<lambda>_ w. (None, w), uv_exists = \<lambda>_. True, uv_counts = \<lambda>_. (1, 1), uv_sleep = id,
      uv_arn = \<lambda>w. (''revision-'' @ nat_text (Suc w), Suc w), uv_images = \<lambda>_ _. [[''1.0'', ''latest''], [''v2.0'']],
      uv_versions = \<lparr>vl_valid = \<lambda>v. v \<noteq> ''latest'', vl_less = \<lambda>a b. a = ''1.0'' \<and> b \<noteq> ''1.0'',
                     vl_str = \<lambda>v. if v = ''v2.0'' then ''2.0'' else v\<rparr>,
      uv_get = \<lambda>_ w. (Inr (200, Some (PDict [(''version'', PStr reported)])), w), uv_post = \<lambda>_ _ w. (None, w),
      uv_text = \<lambda>_. ''error'', uv_probe = \<lambda>_ w. (True, w)\<rparr>"

definition runtime_definition :: task_definition where
  "runtime_definition =
     [(''family'', PStr ''factory''), (''volumes'', PList []),
      (''containerDefinitions'', PList [PDict [(''name'', PStr ''agent-builder-runtime''), (''image'', PStr ''old''),
        (''environment'', PList [PDict [(''name'', PStr ''PLATFORM_VERSION''), (''value'', PStr ''1.0'')]])]])]"

definition sample_upgrade_event :: "string \<Rightarrow> string \<Rightarrow> upgrade_event" where
  "sample_upgrade_event i version =
     \<lparr>ue_id = i, ue_from = ''1.0'', ue_target = version, ue_image = ''1.dkr.ecr.r.amazonaws.com/factory:'' @ version\<rparr>"

definition sample_upgrades :: "nat upgrades" where
  "sample_upgrades =
     \<lparr>ug_platform = counting_platform,
      ug_table = [(''one'', new_upgrade 0 (sample_upgrade_event ''one'' ''2.0'') ''me''),
                  (''two'', new_upgrade 0 (sample_upgrade_event ''two'' ''3.0'') ''me'')],
      ug_service = ''revision-0'', ug_definitions = [(''revision-0'', runtime_definition)], ug_executions = [],
      ug_telemetry = \<lparr>tm_enabled = False, tm_usage = True, tm_performance = True, tm_cost = True, tm_errors = True\<rparr>, ug_sent = []\<rparr>"

lemma sample_upgrade_start:
  "upgrade_invariant (sample_upgrade_services v) (sample_upgrade_event ''one'' ''2.0'') ''revision-0'' upgrade_start sample_upgrades"
  by (simp add: upgrade_invariant_def upgrade_start_def sample_upgrades_def recorded_previous_def row_def sample_upgrade_event_def
      new_upgrade_def Let_def)

lemma sample_upgrade_ends:
  "ux_state (fst (upgrade_steps (sample_upgrade_services ''2.0'') (sample_upgrade_event ''one'' ''2.0'') 6 upgrade_start sample_upgrades))
     = Upgraded"
  by code_simp

text \<open>Two upgrades at once, neither of which comes up.\<close>

definition overlapping :: "bool list" where
  "overlapping = [True, True, True, False, False, False, True, True, False, False]"

lemma overlapping_upgrades:
  "case two_upgrades (sample_upgrade_services ''1.0'') (sample_upgrade_event ''one'' ''2.0'') (sample_upgrade_event ''two'' ''3.0'')
      overlapping upgrade_start upgrade_start sample_upgrades of
     (x, y, t) \<Rightarrow> ux_state x = Reverted \<and> ux_state y = Reverted \<and> ug_service t = ''revision-1'' \<and>
       map_option gu_status (row ''one'' t) = Some ''ROLLED_BACK'' \<and> map_option gu_new (row ''one'' t) = Some (Some ''revision-1'')"
  by code_simp

text \<open>The version that is offered is a tag's normal form, which need not be a tag.\<close>

lemma offered_version_is_no_tag:
  "case fst (get_version_info (sample_upgrade_services v) sample_upgrades) of
     Inr i \<Rightarrow> vi_available i = Some ''2.0'' \<and> ''2.0'' \<notin> set (concat (uv_images (sample_upgrade_services v) ''factory'' 0))
   | Inl e \<Rightarrow> False"
  by code_simp

end
