(* ===== verification/Spec2Isabelle.thy ===== *)
theory Spec2Isabelle
  imports TurnRules ChangeImpact RegistryGraph SamplePlatform SecurityWriters IacRules CicdTemplates AuditTrail SamplePlay SampleUpgrade
begin

text \<open>
  A verification library for the Agent Builder Factory: the FastAPI application under \<open>app/\<close>
  that designs, reviews and deploys agents, the agent container under
  \<open>services/agent-runtime/\<close> that runs one of them, and the deployment handlers under
  \<open>lambda_handlers/\<close>. Paths are relative to the repository's root.

  \<^bold>\<open>The agent container.\<close> \<open>Sample\<close> applies everything below to one concrete container.
  \<^item> \<open>RuntimeState\<close>: the tables, logs and caches a container works on, as one record \<open>runtime\<close>
    over a world \<open>'w\<close>, and the record \<open>services\<close> of everything behind the network (DynamoDB's
    availability, Lambda, Bedrock, LiteLLM, Secrets Manager, PyJWT, digests, the clock). Programs
    are \<open>Prelude\<close>'s state and exception programs: the effects made before a raise stay.
  \<^item> \<open>ToolPolicy\<close> (tool_policy.py), \<open>ToolExecutor\<close> (tool_executor.py), \<open>Guardrail\<close>
    (guardrail.py), \<open>Memory\<close> (memory.py), \<open>Prompting\<close> (prompt_builder.py, rag_client.py,
    llm_client.py), \<open>Quota\<close> (quota.py), \<open>Auth\<close> (auth.py), \<open>ConfigLoader\<close> (config_loader.py,
    config_hash.py): one definition per method, composed as the code composes them.
  \<^item> \<open>HitlReviews\<close>: the reviews table, shared by the container (hitl.py, tool_approval.py) and the
    Factory (app/modules/hitl).
  \<^item> \<open>Orchestrator\<close> (orchestrator.py): a turn, its pause and its resume. \<open>ApprovalProtocol\<close>: the
    abstract protocol of requests, decisions and claims, the invariant that nothing runs twice,
    the refinement of the container's resume, and the interleaving of the Factory's read and
    write halves that breaks it.
  \<^item> \<open>RuntimeMain\<close> (main.py): the middleware's gates in front of the routes, and start-up.

  \<^bold>\<open>The Factory.\<close>
  \<^item> \<open>RegistryModels\<close>, \<open>RegistryStore\<close>, \<open>RegistryGraph\<close>: the agent registry
    (app/modules/registry: models, contract generator, versioner, store) over its two tables as
    association lists, every operation, and the delegation graph it keeps acyclic with
    \<open>DependencyValidator\<close>. The recursion of the cycle search takes fuel; one unit per mentioned
    agent and one more are enough, as \<open>has_cycle_exact\<close> shows.
  \<^item> \<open>ConfigDiff\<close> (registry/diff.py) and \<open>ChangeImpact\<close> (change_impact): what an edit changes and
    what validation it needs.
  \<^item> \<open>Naming\<close> (iac_generator/naming.py): resource names and their limits.

  \<^bold>\<open>Shared.\<close> \<open>Prelude\<close>: Python text, tables, programs, and frames (what part of the state a
  program leaves alone), with the interfaces \<open>keyed_table\<close> and \<open>frame\<close>. \<open>PyValue\<close> and
  \<open>JsonRoundtrip\<close>: JSON values, Python's equality, \<open>json.dumps\<close>, \<open>json.loads\<close> with fuel
  bounded by the text's length, and the round trip.

  \<^bold>\<open>Conventions.\<close> Text is Latin-1. Times are microseconds; an ISO text stands for its instant.
  DynamoDB numbers are rationals. A dict is an association list where its order or its text
  matters and a map otherwise. Logging is left out, and so are the DDL methods that create tables.

  \<^bold>\<open>Not modelled.\<close> The component list of the manifest names every part that is left out, and why.
\<close>

section \<open>A turn of the agent\<close>

text \<open>
  C1. Whatever a user writes, whatever the model answers and whatever fails on the way, what a turn
  sends to Lambda is, in order, a part of the tool calls of the answer to its first model call. Each
  of them names a configured tool, has arguments that parse, and the agent's policies let the tool
  run without a human (LOW or MEDIUM risk, explicitly allowed); only a call that carries no id at
  all skips the policies, as the findings say.
\<close>

theorem turn_invokes_cleared_tools:
  "case run_turn sv oc ids message session user s of (r, t) \<Rightarrow>
     rt_invocations t = rt_invocations s \<or>
     (\<exists>rq reply w w' more ds. rt_llm_calls t = rt_llm_calls s @ rq # more \<and> sv_llm sv rq w = (Inr reply, w') \<and>
        rt_invocations t = rt_invocations s @ map (invocation_of sv (oc_tools oc)) ds \<and> subseq ds (rp_tool_calls reply) \<and>
        list_all (\<lambda>c. tool_index (oc_tools oc) (tc_name c) \<noteq> None \<and> call_arguments c \<noteq> None \<and>
          (tc_id c = None \<or> runs_freely (ex_policies (oc_tools oc)) (tc_name c))) ds)"
proof (cases "run_turn sv oc ids message session user s")
  case (Pair r t)
  have "ToolExecutor.cleared (oc_tools oc) None = (\<lambda>c. tool_index (oc_tools oc) (tc_name c) \<noteq> None \<and> call_arguments c \<noteq> None \<and>
          (tc_id c = None \<or> runs_freely (ex_policies (oc_tools oc)) (tc_name c)))"
    by (intro ext) (simp add: ToolExecutor.cleared_def)
  with run_turn_ran [OF Pair] Pair show ?thesis
    unfolding ran_reply_def ran_cleared_def by simp
qed

text \<open>
  C2. Every model call of a turn has exactly one system message, the configured prompt, in front;
  retrieved text, memory, tool results and the user's text only ever appear in other roles.
\<close>

theorem turn_has_one_system_prompt:
  "stays_in (adds rt_llm_calls (one_system_prompt oc)) (run_turn sv oc ids message session user)"
  by (rule run_turn_prompts)

text \<open>
  C3. With a guardrail policy configured, a turn that reached the model, a tool or the reviews
  table had Bedrock asked about exactly the user's message, and Bedrock did not block it. The gate
  fails closed.
\<close>

theorem turn_effects_pass_guardrail:
  assumes "effects (snd (run_turn sv oc ids message session user s)) \<noteq> effects s"
    and "guardrail_enabled (oc_guardrail oc)"
  shows "\<exists>gid ver w reply w'. sv_guardrail sv gid ver ''INPUT'' message w = (Inr reply, w')
           \<and> \<not> gd_blocked (judge_reply reply)"
  using run_turn_gate [OF _ assms] by (metis prod.collapse)

theorem turn_effects_pass_guardrail_witness:
  "\<exists>gid ver w reply w'. sv_guardrail (sample_services ''look'') gid ver ''INPUT'' ''hi'' w = (Inr reply, w')
           \<and> \<not> gd_blocked (judge_reply reply)"
proof (rule turn_effects_pass_guardrail [of _ sample_orchestrator "\<lambda>_. []" _ "''s''" None "sample_state None"])
  have "length (rt_llm_calls (snd (run_turn (sample_services ''look'') sample_orchestrator (\<lambda>_. []) ''hi'' ''s'' None
          (sample_state None)))) = 2"
    by code_simp
  then show "effects (snd (run_turn (sample_services ''look'') sample_orchestrator (\<lambda>_. []) ''hi'' ''s'' None
          (sample_state None))) \<noteq> effects (sample_state None)"
    by (auto simp: effects_def sample_state_def)
  show "guardrail_enabled (oc_guardrail sample_orchestrator)"
    by code_simp
qed

text \<open>
  C4. A turn that ends waiting for an approval has persisted a claimable pending review whose
  context is the turn itself: the session and the user, the message the guardrail let pass, the
  messages of the one model call it made, that answer's content and calls, and the id of the first
  call of the tool that waits. Resuming on a row with that context reads back exactly this turn,
  sends to Lambda only its calls, each cleared or the approved one, and asks the model at most
  once, with its messages, its answer, its calls and their results.
\<close>

theorem paused_turn_is_recoverable:
  fixes s :: "'w runtime"
  assumes "run_turn sv oc ids message session user s = (Inr res, t)" and "tr_review res = Some rid"
  shows "\<exists>w chk u p. check_guardrail sv (oc_guardrail oc) message ''INPUT'' (s\<lparr>rt_world := w\<rparr>) = (Inr chk, u) \<and>
     \<not> gd_blocked chk \<and> persisted oc rid p t \<and>
     holds_turn sv oc (if truthy (gd_sanitised chk) then get_or [] (gd_sanitised chk) else message) session user p s t \<and>
     (\<forall>(v :: 'w runtime) row.
        andthen (context_dict sv (Some (resume_context p))) read_paused v = (Inr p, v) \<and>
        (rt_reviews v (am_tenant (oc_approval oc), rid) = Some row \<and> rv_context row = Some (resume_context p) \<longrightarrow>
         carries_on sv oc p v (snd (resume_after_approval sv oc rid v))))"
proof -
  from run_turn_paused [OF assms] obtain w chk u p
    where c: "check_guardrail sv (oc_guardrail oc) message ''INPUT'' (s\<lparr>rt_world := w\<rparr>) = (Inr chk, u)" "\<not> gd_blocked chk"
      "persisted oc rid p t"
      and h: "holds_turn sv oc (if truthy (gd_sanitised chk) then get_or [] (gd_sanitised chk) else message) session user p s t"
    by blast
  from h have ok: "list_all json_ok (pt_initial p)" by (simp add: holds_turn_def)
  have "andthen (context_dict sv (Some (resume_context p))) read_paused v = (Inr p, v)" for v :: "'w runtime"
    by (simp add: andthen_def context_dict_resume_context [OF ok] read_paused_items)
  moreover have "carries_on sv oc p v (snd (resume_after_approval sv oc rid v))"
    if "rt_reviews v (am_tenant (oc_approval oc), rid) = Some row" "rv_context row = Some (resume_context p)"
    for v :: "'w runtime" and row
    using resume_carries_on [OF _ ok that] by (metis prod.collapse)
  ultimately show ?thesis using c h by blast
qed

theorem paused_turn_is_recoverable_witness:
  "\<exists>p (t :: unit runtime). persisted sample_orchestrator ''TAPR-U'' p t \<and>
     holds_turn (sample_services ''wipe'') sample_orchestrator ''hi'' ''s'' None p (sample_state None) t"
proof -
  let ?run = "run_turn (sample_services ''wipe'') sample_orchestrator (\<lambda>_. []) ''hi'' ''s'' None (sample_state None)"
  have "(case fst ?run of Inr res \<Rightarrow> tr_review res = Some ''TAPR-U'' | Inl _ \<Rightarrow> False)"
    by code_simp
  then obtain res where run: "?run = (Inr res, snd ?run)" and res: "tr_review res = Some ''TAPR-U''"
    by (cases "fst ?run") (auto simp: prod_eq_iff)
  from paused_turn_is_recoverable [OF run res] obtain w chk u p
    where c: "check_guardrail (sample_services ''wipe'') (oc_guardrail sample_orchestrator) ''hi'' ''INPUT''
        ((sample_state None)\<lparr>rt_world := w\<rparr>) = (Inr chk, u)"
      and p: "persisted sample_orchestrator ''TAPR-U'' p (snd ?run)" "holds_turn (sample_services ''wipe'') sample_orchestrator
        (if truthy (gd_sanitised chk) then get_or [] (gd_sanitised chk) else ''hi'') ''s'' None p (sample_state None) (snd ?run)"
    by blast
  have "(case fst (check_guardrail (sample_services ''wipe'') (oc_guardrail sample_orchestrator) ''hi'' ''INPUT''
      ((sample_state None)\<lparr>rt_world := ()\<rparr>)) of Inr chk \<Rightarrow> gd_sanitised chk = None | Inl _ \<Rightarrow> False)"
    by code_simp
  with c have "gd_sanitised chk = None" by simp
  with p show ?thesis by (auto simp: truthy_def)
qed

section \<open>Resuming after an approval\<close>

text \<open>
  C5. Resuming runs tools or calls the model only for a review of the container's tenant that
  exists, is neither pending nor rejected, and has not been claimed; and it claims the row first,
  so the same row cannot be claimed again.
\<close>

theorem resume_runs_only_decided_reviews:
  assumes "turn_logs (snd (resume_after_approval sv oc rid s)) \<noteq> turn_logs s"
  shows "\<exists>row st. rt_reviews s (am_tenant (oc_approval oc), rid) = Some row \<and> rv_status row = Some st
     \<and> st \<notin> {''pending'', ''rejected''} \<and> claimable (Some row)
     \<and> \<not> claimable (rt_reviews (snd (resume_after_approval sv oc rid s)) (am_tenant (oc_approval oc), rid))"
  using resume_ran [OF _ assms] by (metis prod.collapse)

lemma sample_resumed:
  "turn_logs (snd (resume_after_approval (sample_services ''wipe'') sample_orchestrator ''r''
     (sample_state (Some (sample_review ''approved''))))) \<noteq> turn_logs (sample_state (Some (sample_review ''approved'')))"
proof -
  have "length (rt_invocations (snd (resume_after_approval (sample_services ''wipe'') sample_orchestrator ''r''
     (sample_state (Some (sample_review ''approved'')))))) = 1"
    by code_simp
  then show ?thesis by (auto simp: turn_logs_def sample_state_def)
qed

theorem resume_runs_only_decided_reviews_witness:
  "claimable (rt_reviews (sample_state (Some (sample_review ''approved''))) (''t'', ''r''))"
  using resume_runs_only_decided_reviews [OF sample_resumed] by (auto simp: sample_orchestrator_def)

text \<open>
  C6. A review that is already claimed is never run again: resuming it invokes no tool and calls no
  model, whatever its status.
\<close>

theorem claimed_review_is_not_rerun:
  assumes "\<not> claimable (rt_reviews s (am_tenant (oc_approval oc), rid))"
  shows "turn_logs (snd (resume_after_approval sv oc rid s)) = turn_logs s"
  using resume_claimed_quiet [OF _ assms] by (metis prod.collapse)

theorem claimed_review_is_not_rerun_witness:
  "rt_invocations (snd (resume_after_approval (sample_services ''wipe'') sample_orchestrator ''r''
     (sample_state (Some ((sample_review ''approved'')\<lparr>rv_resumed_at := Some (Some (At 5))\<rparr>))))) = []"
proof -
  have "\<not> claimable (rt_reviews (sample_state (Some ((sample_review ''approved'')\<lparr>rv_resumed_at := Some (Some (At 5))\<rparr>)))
          (am_tenant (oc_approval sample_orchestrator), ''r''))"
    by code_simp
  from claimed_review_is_not_rerun [OF this, of "sample_services ''wipe''"] show ?thesis
    by (simp add: turn_logs_def sample_state_def)
qed

text \<open>
  C7. The container's resume refines the approval protocol: whenever it runs anything, the
  shared reviews table makes the protocol's claim-and-run step.
\<close>

theorem resume_refines_protocol:
  assumes "turn_logs (snd (resume_after_approval sv oc rid s)) \<noteq> turn_logs s"
  shows "atomic_step (protocol_of s runs)
           (protocol_of (snd (resume_after_approval sv oc rid s)) (runs @ [(am_tenant (oc_approval oc), rid)]))"
  using resume_simulated [OF _ assms] by (metis prod.collapse)

theorem resume_refines_protocol_witness:
  "\<exists>t. atomic_step (protocol_of (sample_state (Some (sample_review ''approved''))) [])
          (protocol_of (t :: unit runtime) [(''t'', ''r'')])"
  using resume_refines_protocol [OF sample_resumed, of "[]"] by (auto simp: sample_orchestrator_def)



text \<open>
  C9. The Factory's decision reads the row and then writes the whole item. With those two halves
  apart, as two concurrent requests make them, one review is run twice: the second approver's
  write puts the claim back.
\<close>

theorem concurrent_decisions_run_a_call_twice:
  "\<exists>s. reaches split_step empty_protocol s \<and> pr_runs s = [(''t'', ''r''), (''t'', ''r'')]"
  by (rule split_decisions_run_twice)

text \<open>
  A decision is final: deciding a review that is not pending is refused with an error and
  leaves the table as it was.
\<close>

theorem decisions_are_final:
  assumes "tab (tenant, rid) = Some r" and "rv_status r \<noteq> Some ''pending''"
  shows "\<exists>e. hitl_decide now tenant rid st who reason tab = (Inl e, tab)"
  using assms by (rule hitl_decide_final)

theorem decisions_are_final_witness:
  "\<exists>e. hitl_decide (At 9) ''t'' ''r'' ''rejected'' ''bob'' None [(''t'', ''r'') \<mapsto> approved_row] =
     (Inl e, [(''t'', ''r'') \<mapsto> approved_row])"
  by (rule decisions_are_final [of _ _ _ approved_row]) (simp_all add: approved_row_def decided_def)

section \<open>In front of a turn\<close>

text \<open>
  C10. A request that reached the model, a tool or the reviews was made by a caller the
  authentication chain accepted against the agent's record as it was in the table at that moment,
  and the caller's tenant is the record's tenant.
\<close>

theorem served_effects_are_authenticated:
  assumes "effects (snd (serve sv app rq s)) \<noteq> effects s"
  shows "\<exists>rec c u v. get_current_agent_record sv (ap_env app) s = (Inr rec, u) \<and>
     auth_chain sv (rq_authorization rq) rec u = (Inr (Some c), v) \<and> ag_tenant rec = au_tenant c"
  using serve_authenticated_trace [OF _ assms] by (metis prod.collapse)

lemma sample_served:
  "effects (snd (serve (sample_services ''look'') sample_app sample_request (sample_state None)))
     \<noteq> effects (sample_state None)"
proof -
  have "length (rt_llm_calls (snd (serve (sample_services ''look'') sample_app sample_request (sample_state None)))) = 2"
    by code_simp
  then show ?thesis by (auto simp: effects_def sample_state_def)
qed

theorem served_effects_are_authenticated_witness:
  "\<exists>rec c u v. get_current_agent_record (sample_services ''look'') sample_env (sample_state None) = (Inr rec, u) \<and>
     auth_chain (sample_services ''look'') ''Bearer k'' rec u = (Inr (Some c), v) \<and> ag_tenant rec = au_tenant c"
  using served_effects_are_authenticated [OF sample_served] by (simp add: sample_app_def sample_request_def)

text \<open>
  C11. An API key is accepted only when the agent's key is not revoked and the presented text is
  non-empty and equal to the current secret, or to the previous secret inside its overlap window.
\<close>

theorem accepted_key_is_a_known_secret:
  assumes "fst (api_key_authenticate sv a rec s) = Inr (Some c)"
  shows "\<not> ag_key_revoked rec \<and> presented a \<noteq> [] \<and> c = api_key_context rec \<and>
     (secret_known sv s (get_or [] (ag_key_arn rec)) (presented a) \<or>
      (\<exists>w. sv_clock sv w < get_or 0 (ag_prev_key_expires rec) * 1000000 \<and>
           secret_known sv s (get_or [] (ag_prev_key_arn rec)) (presented a)))"
  using assms api_key_accepted by (metis prod.collapse)

theorem accepted_key_is_a_known_secret_witness:
  "secret_known (sample_services ''look'') (sample_state None) ''arn'' ''k''"
proof -
  have "fst (api_key_authenticate (sample_services ''look'') ''Bearer k'' sample_agent (sample_state None)) =
      Inr (Some (api_key_context sample_agent))"
    by code_simp
  from accepted_key_is_a_known_secret [OF this] show ?thesis
    by (simp add: sample_agent_def blank_record_def presented_def bearer_def starts_with_def py_strip_def is_space_def
        sample_services_def)
qed

text \<open>
  C12. Once the month's recorded spend is above the configured budget, no chat and no resume has
  any effect: no model call, no tool, no review.
\<close>

theorem overspent_agent_does_nothing:
  assumes "metered (rq_endpoint rq)"
    and "env_agent (ap_env app) = Some agent" and "env_tenant (ap_env app) = Some tenant"
    and "rt_agents s (tenant, agent) = Some (Whole rec)"
    and "budget_of sv app = Some b" and "b < ag_spend rec"
    and "\<And>w. ag_spend_period rec = Some (current_period (sv_clock sv w))"
  shows "effects (snd (serve sv app rq s)) = effects s"
  using serve_over_budget [OF _ assms] by (metis prod.collapse)

theorem overspent_agent_does_nothing_witness:
  "rt_llm_calls (snd (serve (sample_services ''look'') sample_app sample_request
     ((sample_state None)\<lparr>rt_agents := [(''t'', ''a'') \<mapsto> Whole overspent_agent]\<rparr>))) = []"
proof -
  let ?s = "(sample_state None)\<lparr>rt_agents := [(''t'', ''a'') \<mapsto> Whole overspent_agent]\<rparr>"
  have "effects (snd (serve (sample_services ''look'') sample_app sample_request ?s)) = effects ?s"
    by (rule overspent_agent_does_nothing [where agent = "''a''" and tenant = "''t''" and rec = overspent_agent and b = 5])
      (simp_all add: metered_def path_of_def sample_request_def sample_app_def sample_env_def budget_of_def
        config_get_def want_def overspent_agent_def sample_services_def)
  then show ?thesis by (simp add: effects_def sample_state_def)
qed

text \<open>
  C13. A container whose task definition pins a configuration hash starts only on a stored
  configuration with that hash: the version its record names as live (or as current, before the
  first deployment is live), merged with the agent's own identity.
\<close>

theorem container_starts_on_pinned_config:
  assumes "fst (start_container sv env ids s) = Inr app" and "env_config_hash env = Some h" and "h \<noteq> []"
  shows "\<exists>agent tenant row v item kvs.
     env_agent env = Some agent \<and> env_tenant env = Some tenant \<and> rt_agents s (tenant, agent) = Some row \<and>
     version_to_load row = Some v \<and> rt_versions s (agent, v) = Some (Some item) \<and>
     (case item of AStr text \<Rightarrow> json_loads text | _ \<Rightarrow> Some (decimal_to_native (sv_float_text sv) item)) = Some (PDict kvs) \<and>
     compute_config_hash (sv_sha256 sv) (PDict kvs) = h \<and>
     ap_config app = merged_config agent tenant (name_of_row agent row) v kvs"
proof -
  obtain u where "load_agent_config sv env s = (Inr (ap_config app), u)"
    using assms(1) start_container_trace by (metis prod.collapse)
  then show ?thesis
  proof (rule load_agent_config_trace)
    fix agent tenant row v cfg kvs
    assume "env_agent env = Some agent" "env_tenant env = Some tenant" "rt_agents s (tenant, agent) = Some row"
      "version_to_load row = Some v" and stored: "rt_versions s (agent, v) = Some cfg"
      "(\<exists>text. cfg = Some (AStr text) \<and> json_loads text = Some (PDict kvs)) \<or>
       (\<exists>a. cfg = Some a \<and> PDict kvs = decimal_to_native (sv_float_text sv) a)"
      and "truthy (env_config_hash env) \<longrightarrow>
        env_config_hash env = Some (compute_config_hash (sv_sha256 sv) (PDict kvs))"
      "ap_config app = merged_config agent tenant (name_of_row agent row) v kvs"
    moreover from stored(2) obtain item where "cfg = Some item"
      "(case item of AStr text \<Rightarrow> json_loads text | _ \<Rightarrow> Some (decimal_to_native (sv_float_text sv) item)) = Some (PDict kvs)"
    proof (elim disjE exE conjE)
      fix a
      assume a: "cfg = Some a" "PDict kvs = decimal_to_native (sv_float_text sv) a"
      then show ?thesis by (intro that [of a]) (cases a; simp)+
    qed (auto intro: that)
    ultimately show ?thesis using assms(2,3) by (auto simp: truthy_def)
  qed
qed

theorem container_starts_on_pinned_config_witness:
  "\<exists>v. version_to_load (Whole sample_agent) = Some v \<and> rt_versions (sample_state None) (''a'', v) \<noteq> None"
proof -
  have "(case fst (start_container (sample_services ''look'') sample_env (\<lambda>_. []) (sample_state None)) of
            Inr _ \<Rightarrow> True | Inl _ \<Rightarrow> False)"
    by code_simp
  then obtain app where app: "fst (start_container (sample_services ''look'') sample_env (\<lambda>_. []) (sample_state None)) = Inr app"
    by (auto split: sum.splits)
  have h: "env_config_hash sample_env = Some ''h''" "''h'' \<noteq> ([] :: string)"
    by (simp_all add: sample_env_def)
  from container_starts_on_pinned_config [OF app h] show ?thesis
    by (auto simp: sample_env_def sample_state_def split: if_splits)
qed

text \<open>
  C14. The Factory's hash of a configuration (with any dump of its model) and the runtime's hash of
  a dict agree exactly when the two are the same up to the order of their keys, or their canonical
  texts differ and collide under the digest. In particular the runtime, which reads the stored JSON
  text back, always recomputes the hash the Factory pinned.
\<close>

theorem config_hash_identifies_config:
  assumes "json_ok (dump m)" and "json_ok w"
  shows "(compute_config_hash_factory digest dump m = compute_config_hash digest w) =
      (sort_keys (dump m) = sort_keys w \<or>
       (json_canonical (dump m) \<noteq> json_canonical w \<and> digest (json_canonical (dump m)) = digest (json_canonical w))) \<and>
    map_option (compute_config_hash digest) (json_loads (json_dumps (dump m))) = Some (compute_config_hash_factory digest dump m)"
proof -
  have "sort_keys (dump m) = sort_keys w \<longleftrightarrow> json_canonical (dump m) = json_canonical w"
    using json_canonical_inj [OF assms] by (auto simp: json_canonical_def)
  moreover have "json_loads (json_dumps (dump m)) = Some (dump m)" using assms(1) by (rule json_loads_dumps)
  ultimately show ?thesis by (auto simp: config_hash_copies compute_config_hash_def)
qed

theorem config_hash_identifies_config_witness:
  "compute_config_hash_factory id id (PDict [(''b'', PInt 1), (''a'', PNone)]) =
     compute_config_hash id (PDict [(''a'', PNone), (''b'', PInt 1)])"
proof -
  have ok: "json_ok (id (PDict [(''b'', PInt 1), (''a'', PNone)]))" "json_ok (PDict [(''a'', PNone), (''b'', PInt 1)])"
    by simp_all
  have "sort_keys (id (PDict [(''b'', PInt 1), (''a'', PNone)])) = sort_keys (PDict [(''a'', PNone), (''b'', PInt 1)])"
    by code_simp
  then show ?thesis
    by (intro conjunct1 [OF config_hash_identifies_config [where dump = id and digest = id, OF ok], THEN iffD2] disjI1)
qed

section \<open>Quotas\<close>

text \<open>
  C15. While Redis answers, whatever the daily limit, the times of the requests and everything else
  in the container, at most the configured number of the requests made in one minute passes the
  rate check. (When Redis is down every request passes: the limits fail open.)
\<close>

theorem minute_limit_holds:
  assumes "redis_up sv"
    and "list_all (\<lambda>u. 60000000 * k \<le> sv_clock sv (rt_world u) \<and> sv_clock sv (rt_world u) < 60000000 * (k + 1)) us"
    and "cs (rate_key ''rpm'' tenant agent k) = None"
  shows "count_list (limit_run (check_rate_limit sv tenant agent (Some l) rpd) cs us) True \<le> nat l"
  unfolding limit_run_decisions [OF assms(1)]
  using rpm_limit.allowed_at_most [where n = 0 and ts = "map (\<lambda>u. sv_clock sv (rt_world u)) us"] assms(2,3)
  by (simp add: counts_def list_all_iff)

theorem minute_limit_holds_witness:
  "count_list (limit_run (check_rate_limit (sample_services ''look'') ''t'' ''a'' (Some 2) None) Map.empty
     [sample_state None, sample_state None, sample_state None]) True \<le> nat 2"
  by (rule minute_limit_holds [where k = 0]) (simp_all add: redis_up_def sample_services_def sample_state_def)

text \<open>
  The same for one day, whatever the minute limit.
\<close>

theorem day_limit_holds:
  assumes "redis_up sv"
    and "list_all (\<lambda>u. 86400000000 * k \<le> sv_clock sv (rt_world u) \<and> sv_clock sv (rt_world u) < 86400000000 * (k + 1)) us"
    and "cs (rate_key ''rpd'' tenant agent k) = None"
  shows "count_list (limit_run (check_rate_limit sv tenant agent rpm (Some l)) cs us) True \<le> nat l"
  unfolding limit_run_decisions [OF assms(1)]
  using rpd_limit.allowed_at_most [where n = 0 and ts = "map (\<lambda>u. sv_clock sv (rt_world u)) us"] assms(2,3)
  by (simp add: counts_def list_all_iff)

theorem day_limit_holds_witness:
  "count_list (limit_run (check_rate_limit (sample_services ''look'') ''t'' ''a'' (Some 5) (Some 1)) Map.empty
     [sample_state None, sample_state None]) True \<le> nat 1"
  by (rule day_limit_holds [where k = 0]) (simp_all add: redis_up_def sample_services_def sample_state_def)

text \<open>
  While Redis answers, the check of a request is the pure decision the two limits are stated
  about, on the counters Redis holds at that moment.
\<close>

theorem rate_check_is_the_decision:
  assumes "redis_up sv"
  shows "\<exists>w. check_rate_limit sv tenant agent rpm rpd s =
    (let d = rate_step tenant agent rpm rpd (sv_clock sv (rt_world s)) (rt_counters s)
     in (Inr (fst d), s\<lparr>rt_world := w, rt_counters := snd d\<rparr>))"
  using check_rate_limit_pure [OF assms] by (simp add: rate_step_def Let_def)

theorem rate_check_is_the_decision_witness:
  "\<exists>w. check_rate_limit (sample_services ''look'') ''t'' ''a'' (Some 1) None (sample_state None) =
    (let d = rate_step ''t'' ''a'' (Some 1) None 0 Map.empty
     in (Inr (fst d), (sample_state None)\<lparr>rt_world := w, rt_counters := snd d\<rparr>))"
  using rate_check_is_the_decision [of "sample_services ''look''" "''t''" "''a''" "Some 1" None "sample_state None"]
  by (simp add: redis_up_def sample_services_def sample_state_def)

text \<open>
  When Redis is down every request is allowed: the rate limits fail open.
\<close>

theorem rate_check_fails_open:
  assumes "\<forall>w. \<not> fst (sv_db sv ''redis'' w)"
  shows "fst (check_rate_limit sv tenant agent rpm rpd s) = Inr (True, None)"
  using assms by (rule redis_down)

theorem rate_check_fails_open_witness:
  "fst (check_rate_limit ((sample_services ''look'')\<lparr>sv_db := \<lambda>_ _. (False, ())\<rparr>) ''t'' ''a'' (Some 0) None
     (sample_state None)) = Inr (True, None)"
  by (rule rate_check_fails_open) simp

text \<open>
  A recorded cost is added exactly once: to the month's total when the record is in the
  current month, and as the new month's total otherwise; no other row or field changes.
\<close>

theorem recorded_cost_is_added_once:
  assumes "\<forall>w. fst (sv_db sv ''agents'' w)" and "0 < c"
    and "rt_agents s (tenant, agent) = Some (Whole r)"
  shows "\<exists>w. record_llm_cost sv tenant agent (Some c) s =
    (Inr (), s\<lparr>rt_world := w, rt_agents := (rt_agents s)((tenant, agent) \<mapsto>
       Whole (spent (current_period (sv_clock sv (rt_world s))) c r))\<rparr>)"
  using assms by (rule record_llm_cost_effect)

theorem recorded_cost_is_added_once_witness:
  "\<exists>w. record_llm_cost (sample_services ''look'') ''t'' ''a'' (Some 2) (sample_state None) =
    (Inr (), (sample_state None)\<lparr>rt_world := w, rt_agents := (rt_agents (sample_state None))((''t'', ''a'') \<mapsto>
       Whole (spent (current_period 0) 2 sample_agent))\<rparr>)"
  using recorded_cost_is_added_once [of "sample_services ''look''" 2 "sample_state None" "''t''" "''a''" sample_agent]
  by (simp add: sample_services_def sample_state_def)

section \<open>Memory and names\<close>

text \<open>
  C16. Turn after turn, a session holds exactly its last \<open>max_turns\<close> turns, in order.
\<close>

theorem session_holds_last_turns:
  assumes "0 < m"
  shows "foldl (\<lambda>xs x. save_turn m x xs) [] turns = drop (length turns - nat m) turns"
  using assms by (rule save_turns_last)

theorem session_holds_last_turns_witness:
  "foldl (\<lambda>xs x. save_turn 2 x xs) [] [(''a'', ''1''), (''b'', ''2''), (''c'', ''3'')] = [(''b'', ''2''), (''c'', ''3'')]"
  using session_holds_last_turns [of 2 "[(''a'', ''1''), (''b'', ''2''), (''c'', ''3'')]"] by simp

text \<open>
  Every generated resource name keeps its service's limit for every agent and tool id, and
  the name the runtime invokes is the name the Factory created.
\<close>

theorem resource_names_fit:
  "int (length (tool_lambda_name sha1 agent tool)) \<le> 64 \<and> int (length (tool_role_name sha1 agent tool)) \<le> 64 \<and>
   int (length (bedrock_guardrail_name sha1 agent)) \<le> 50 \<and> int (length (alb_name sha1 agent)) \<le> 32 \<and>
   int (length (target_group_name sha1 agent)) \<le> 32 \<and> int (length (opensearch_collection_name sha1 agent)) \<le> 32 \<and>
   runtime_tool_lambda_name sha1 agent tool = tool_lambda_name sha1 agent tool"
proof -
  have "runtime_tool_lambda_name sha1 agent tool = tool_lambda_name sha1 agent tool"
    by (simp add: runtime_tool_lambda_name_def tool_lambda_name_def truncated_name_def tool_identifier_def
        lambda_name_max_def Let_def)
  then show ?thesis
    unfolding tool_lambda_name_def tool_role_name_def bedrock_guardrail_name_def alb_name_def
      target_group_name_def opensearch_collection_name_def
    by (intro conjI length_truncated_name) (simp_all add: id_hash_len_def)
qed

section \<open>The registry\<close>

text \<open>
  C17. The search of the cycle check always returns once its depth bound exceeds the agents the
  graph mentions, whatever the bound then is, and finds a cycle exactly when one is reachable from
  the agent in the graph with its new sub-agents; the check refuses the change with the reason
  exactly then.
\<close>

theorem cycle_check_is_exact:
  "\<exists>found st. has_cycle (Suc (length (mentioned (with_edges agent proposed agents))) + extra)
       (with_edges agent proposed agents) agent ({}, {}) = Some (found, st) \<and>
     (found = (\<exists>u. (agent, u) \<in> (edges (with_edges agent proposed agents))\<^sup>* \<and>
                  (u, u) \<in> (edges (with_edges agent proposed agents))\<^sup>+)) \<and>
     validate_graph agent proposed agents = (if found then InvalidGraph (cycle_reason agent) else ValidGraph)"
proof -
  obtain found st where "has_cycle (Suc (length (mentioned (with_edges agent proposed agents))) + extra)
       (with_edges agent proposed agents) agent ({}, {}) = Some (found, st)"
    and "found = (\<exists>u. (agent, u) \<in> (edges (with_edges agent proposed agents))\<^sup>* \<and>
                  (u, u) \<in> (edges (with_edges agent proposed agents))\<^sup>+)"
    using agent_mentioned by (rule has_cycle_exact)
  then show ?thesis by (simp add: validate_graph_cases)
qed

text \<open>
  C18. An update keeps the delegation graph of the tenant acyclic: the check sees every agent of
  the tenant, over all pages of the table, with its current version's sub-agents.
\<close>

theorem update_keeps_delegation_acyclic:
  assumes "update_agent sha now tenant agent cfg who change iu s = (Inr (r', v), t)"
    and "tables_ok s" and "acyclic (tenant_edges tenant s)"
  shows "acyclic (tenant_edges tenant t)"
  using assms by (rule update_keeps_acyclic)

lemma sample_updated:
  "\<exists>r v t. update_agent (\<lambda>_. ''h'') (At 1) ''t'' ''a''
     (PDict [(''orchestration'', PDict [(''sub_agents'', PList [PDict [(''agent_id'', PStr ''b'')]])])])
     ''me'' ''second'' no_identity_updates sample_registry = (Inr (r, v), t)"
proof -
  have "(case fst (update_agent (\<lambda>_. ''h'') (At 1) ''t'' ''a''
     (PDict [(''orchestration'', PDict [(''sub_agents'', PList [PDict [(''agent_id'', PStr ''b'')]])])])
     ''me'' ''second'' no_identity_updates sample_registry) of Inr _ \<Rightarrow> True | Inl _ \<Rightarrow> False)"
    by code_simp
  then show ?thesis by (auto simp: prod_eq_iff split: sum.splits)
qed

theorem update_keeps_delegation_acyclic_witness:
  "\<exists>t. acyclic (tenant_edges ''t'' t) \<and> map_of (rg_versions t) (''a'', 3) \<noteq> None"
proof -
  obtain r v t where u: "update_agent (\<lambda>_. ''h'') (At 1) ''t'' ''a''
     (PDict [(''orchestration'', PDict [(''sub_agents'', PList [PDict [(''agent_id'', PStr ''b'')]])])])
     ''me'' ''second'' no_identity_updates sample_registry = (Inr (r, v), t)"
    using sample_updated by blast
  have "acyclic (tenant_edges ''t'' t)"
    by (rule update_keeps_delegation_acyclic [OF u sample_registry_ok]) (simp add: sample_registry_edges acyclic_def)
  moreover have "map_of (rg_versions t) (''a'', 3) \<noteq> None"
    using update_agent_effect [OF u sample_registry_keyed]
    by (auto simp: readable_def sample_registry_def sample_record_def)
  ultimately show ?thesis by blast
qed

text \<open>
  C19. A version's snapshot (configuration, hash, contract, author, number) is immutable: no
  operation of the registry but the hard delete changes or removes one, whatever its outcome, and
  neither does an update of a version's fields, whatever fields it is asked to set.
\<close>

theorem version_snapshots_are_immutable:
  "stays_in keeps_snapshots (create_agent sha platform now hs tenant na) \<and>
   stays_in keeps_snapshots (clone_agent sha platform now hs tenant src nm who) \<and>
   stays_in keeps_snapshots (update_agent sha now tenant agent cfg who change iu) \<and>
   stays_in keeps_snapshots (rollback_agent sha now tenant agent target reason who) \<and>
   stays_in keeps_snapshots (record_derived_fields agent n fs) \<and>
   stays_in keeps_snapshots (record_iac_artifact tenant agent n x y ms rep) \<and>
   stays_in keeps_snapshots (record_evaluation_result tenant agent n res) \<and>
   stays_in keeps_snapshots (record_deployment_trigger now tenant agent n d who) \<and>
   stays_in keeps_snapshots (mark_deployment_blocked now tenant agent who) \<and>
   stays_in keeps_snapshots (mark_deployment_active now tenant agent n who) \<and>
   stays_in keeps_snapshots (mark_deployment_failed now tenant agent who) \<and>
   stays_in keeps_snapshots (provision_api_key now tenant agent arn who) \<and>
   stays_in keeps_snapshots (rotate_api_key now tenant agent arn expires who) \<and>
   stays_in keeps_snapshots (revoke_api_key now tenant agent who) \<and>
   stays_in keeps_snapshots (set_jwt_config now tenant agent issuer audience jwks claim who) \<and>
   stays_in keeps_snapshots (set_project_draft_after_edit now tenant agent who) \<and>
   stays_in keeps_snapshots (publish_agent now tenant agent who) \<and>
   stays_in keeps_snapshots (archive_agent now tenant agent who) \<and>
   stays_in keeps_snapshots (rollback_project_agent now tenant agent target who) \<and>
   stays_in keeps_snapshots (soft_delete_agent now tenant agent who)"
  by (intro conjI operations_keep create_keeps record_derived_keeps)

text \<open>
  C20. A successful update creates exactly one new version, the next number, with the given
  configuration and its hash; the agent's record points at it as a draft and keeps its live version.
\<close>

theorem update_creates_next_version:
  assumes "update_agent sha now tenant agent cfg who change iu s = (Inr (r', v), t)" and "keyed s"
  shows "\<exists>r. readable s tenant agent r \<and>
     vr_version v = ag_current_version r + 1 \<and> vr_config v = cfg \<and>
     vr_hash v = Some (compute_config_hash sha cfg) \<and>
     map_of (rg_versions s) (agent, vr_version v) = None \<and>
     map_of (rg_versions t) = (map_of (rg_versions s))((agent, vr_version v) \<mapsto> FullVersion v) \<and>
     map_of (rg_agents t) = (map_of (rg_agents s))((tenant, agent) \<mapsto> Whole r') \<and>
     ag_current_version r' = vr_version v \<and> ag_status r' = ''DRAFT'' \<and> ag_live_version r' = ag_live_version r"
  using assms by (rule update_agent_effect)

theorem update_creates_next_version_witness:
  "\<exists>v (t :: registry). vr_version v = 3 \<and> map_of (rg_versions t) (''a'', 3) = Some (FullVersion v)"
proof -
  obtain r v t where u: "update_agent (\<lambda>_. ''h'') (At 1) ''t'' ''a''
     (PDict [(''orchestration'', PDict [(''sub_agents'', PList [PDict [(''agent_id'', PStr ''b'')]])])])
     ''me'' ''second'' no_identity_updates sample_registry = (Inr (r, v), t)"
    using sample_updated by blast
  have "vr_version v = 3 \<and> map_of (rg_versions t) (''a'', 3) = Some (FullVersion v)"
    using update_creates_next_version [OF u sample_registry_keyed]
    by (auto simp: readable_def sample_registry_def sample_record_def)
  then show ?thesis by blast
qed

text \<open>
  A blocked or failed deployment never takes the live version away: the record keeps its
  live and current version, and an agent that has a live version stays active.
\<close>

theorem failed_deployment_keeps_live_version:
  assumes "mark_deployment_blocked now tenant agent who s = (Inr r', t) \<or>
           mark_deployment_failed now tenant agent who s = (Inr r', t)" and "keyed s"
  shows "\<exists>r. readable s tenant agent r \<and> ag_live_version r' = ag_live_version r \<and>
     ag_current_version r' = ag_current_version r \<and> rg_versions t = rg_versions s \<and>
     map_of (rg_agents t) = (map_of (rg_agents s))((tenant, agent) \<mapsto> Whole r') \<and>
     (ag_live_version r \<noteq> None \<longrightarrow> ag_status r' = ''ACTIVE'') \<and>
     (ag_live_version r = None \<longrightarrow> ag_status r' \<in> {''BLOCKED'', ''FAILED''})"
  using assms by (rule mark_blocked_or_failed_keeps_live)

theorem failed_deployment_keeps_live_version_witness:
  "\<exists>r t. mark_deployment_failed (At 1) ''t'' ''a'' ''me'' sample_registry = (Inr r, t) \<and> ag_live_version r = Some 1"
proof -
  have "(case fst (mark_deployment_failed (At 1) ''t'' ''a'' ''me'' sample_registry) of Inr _ \<Rightarrow> True | Inl _ \<Rightarrow> False)"
    by code_simp
  then obtain r t where m: "mark_deployment_failed (At 1) ''t'' ''a'' ''me'' sample_registry = (Inr r, t)"
    by (auto simp: prod_eq_iff split: sum.splits)
  then have "mark_deployment_blocked (At 1) ''t'' ''a'' ''me'' sample_registry = (Inr r, t) \<or>
      mark_deployment_failed (At 1) ''t'' ''a'' ''me'' sample_registry = (Inr r, t)" ..
  from failed_deployment_keeps_live_version [OF this sample_registry_keyed] m show ?thesis
    by (auto simp: readable_def sample_registry_def sample_record_def sample_agent_def)
qed

text \<open>
  C21. After a project agent is rolled back to an older version, every update of it fails: the
  rollback moves the current version back, and the next number is already taken.
\<close>

theorem rolled_back_agent_cannot_be_updated:
  assumes "rollback_project_agent now tenant agent target who s = (Inr r', t)" and "keyed s"
    and "map_of (rg_versions s) (agent, target + 1) \<noteq> None"
  shows "\<exists>e. update_agent sha now' tenant agent cfg who' change iu t = (Inl e, t)"
  using assms by (rule rollback_blocks_updates)

theorem rolled_back_agent_cannot_be_updated_witness:
  "\<exists>t e. update_agent (\<lambda>_. ''h'') (At 2) ''t'' ''a'' (PDict []) ''me'' ''again'' no_identity_updates t = (Inl e, t)"
proof -
  have "(case fst (rollback_project_agent (At 1) ''t'' ''a'' 1 ''me'' sample_registry) of Inr _ \<Rightarrow> True | Inl _ \<Rightarrow> False)"
    by code_simp
  then obtain r t where m: "rollback_project_agent (At 1) ''t'' ''a'' 1 ''me'' sample_registry = (Inr r, t)"
    by (auto simp: prod_eq_iff split: sum.splits)
  have "map_of (rg_versions sample_registry) (''a'', 1 + 1) \<noteq> None"
    by (simp add: sample_registry_def)
  from rolled_back_agent_cannot_be_updated [OF m sample_registry_keyed this] show ?thesis by blast
qed

section \<open>What a change needs\<close>

text \<open>
  C22. The diff of two configurations is empty exactly when Python's \<open>==\<close> holds between them.
\<close>

theorem diff_empty_iff_equal:
  assumes "json_ok a" and "json_ok b"
  shows "compute_config_diff (Some a) b = [] \<longleftrightarrow> py_eq a b"
  using assms by (rule config_diff_empty)

theorem diff_empty_iff_equal_witness:
  "compute_config_diff (Some (PDict [(''x'', PInt 1)])) (PDict [(''x'', PFloat ''1.0'')]) = [] \<longleftrightarrow>
     py_eq (PDict [(''x'', PInt 1)]) (PDict [(''x'', PFloat ''1.0'')])"
  by (rule diff_empty_iff_equal) code_simp+

text \<open>
  C23. A changed top-level field with a rule of its own always raises the impact to the rule's
  level at least and adds all its validations, whatever else changed.
\<close>

theorem ruled_change_is_never_missed:
  assumes "map_of fa k = Some v" and "map_of fb k = Some w" and "is_scalar v" and "\<not> py_eq v w"
    and "map_of impact_rules k = Some (l, vs)"
  shows "impact_level_order l \<le> impact_level_order (ia_level (analyze (Some (PDict fa)) (PDict fb)))
       \<and> set vs \<subseteq> set (ia_validations (analyze (Some (PDict fa)) (PDict fb)))"
  using assms by (rule analyze_changed_scalar)

theorem ruled_change_is_never_missed_witness:
  "\<exists>l vs. map_of impact_rules ''model_id'' = Some (l, vs) \<and>
     set vs \<subseteq> set (ia_validations (analyze (Some (PDict [(''model_id'', PStr ''m'')])) (PDict [(''model_id'', PStr ''n'')])))"
proof -
  obtain l vs where r: "map_of impact_rules ''model_id'' = Some (l, vs)"
    by (auto simp: impact_rules_def)
  have "set vs \<subseteq> set (ia_validations (analyze (Some (PDict [(''model_id'', PStr ''m'')])) (PDict [(''model_id'', PStr ''n'')])))"
  proof (rule ruled_change_is_never_missed [where k = "''model_id''" and l = l, THEN conjunct2])
    show "is_scalar (PStr ''m'')" by code_simp
    show "\<not> py_eq (PStr ''m'') (PStr ''n'')" by code_simp
  qed (simp_all add: r)
  with r show ?thesis by blast
qed

text \<open>
  The summary of the matched rules is exact: its level is the highest of theirs, and its
  validations are theirs, each once.
\<close>

theorem impact_summary_is_exact:
  "list_all (\<lambda>r. impact_level_order (rule_level r) \<le> impact_level_order (ia_level (summarise rules))) rules \<and>
   (rules = [] \<or> list_ex (\<lambda>r. ia_level (summarise rules) = rule_level r) rules) \<and>
   set (ia_validations (summarise rules)) = (\<Union>r \<in> set rules. set (rule_validations r)) \<and>
   distinct (ia_validations (summarise rules))"
  using summarise_level summarise_level_member summarise_validations by (auto simp: list_all_iff list_ex_iff)

section \<open>The security log\<close>



section \<open>Deployments\<close>



text \<open>
  C26. When the policy check blocks, the execution has merged no pull request and changed no
  agent's live version, at the decision and at every later moment.
\<close>

theorem blocked_deployment_changes_nothing:
  assumes "executes cl st ev (execution_start s) x" and "ex_decision x = Some (''BLOCK'', reason)"
  shows "merges (ex_tables x) = merges s \<and> (keyed (fc_registry s) \<longrightarrow> lives (ex_tables x) = lives s)"
  using blocked_execution_undeployed [OF assms] by (simp add: undeployed_def)

theorem blocked_deployment_changes_nothing_witness:
  "\<exists>x. sample_run 9 failed_scan = Some x \<and> ex_state x = MarkBlocked \<and> merges (ex_tables x) = []"
proof -
  obtain x where x: "sample_run 9 failed_scan = Some x" "ex_state x = MarkBlocked"
    "ex_decision x = Some (''BLOCK'', ''Critical finding: hardcoded_secret_found'')"
    using sample_block by (cases "sample_run 9 failed_scan") auto
  have "merges (sample_factory failed_scan) = []" by (simp add: merges_def sample_factory_def)
  with blocked_deployment_changes_nothing [OF sample_run_executes [OF x(1)] x(3)] x show ?thesis by simp
qed

text \<open>
  C27. An execution of the deployment workflow never gets stuck and never runs on: after at most
  fifteen steps it is in a final state, and before that some step is always possible.
\<close>

theorem workflow_terminates:
  assumes "steps_from cl st ev n (execution_start s) x"
  shows "n \<le> 15 \<and> (ex_state x \<in> {Succeeded, Stopped} \<or> (\<exists>y. wf_step cl st ev x y))"
  using execution_bound [OF assms] execution_goes_on [OF steps_executes [OF assms]] by blast

theorem workflow_terminates_witness:
  "\<exists>x. sample_run 13 clean_scan = Some x \<and>
     (ex_state x \<in> {Succeeded, Stopped} \<or> (\<exists>y. wf_step sample_cloud sample_settings sample_event x y))"
proof -
  obtain x where x: "sample_run 13 clean_scan = Some x"
    using sample_pass by (cases "sample_run 13 clean_scan") auto
  with workflow_terminates [OF smooth_run_sound [OF x [unfolded sample_run_def]]] show ?thesis by blast
qed

text \<open>
  The simulated pipeline deploys (merges, or makes a version live) only a deployment that is
  not in manual mode and whose scan, where one is configured, did not end in BLOCK.
\<close>

theorem simulation_deploys_only_passed:
  assumes "\<not> undeployed s (snd (simulate cl st scan tenant agent did s))"
    and "\<And>sc. scan = Some sc \<Longrightarrow> stays_in undeployed sc"
  shows "\<exists>d. map_of (fc_deployments s) (agent, did) = Some d \<and> dp_mode d \<noteq> ''manual'' \<and>
     (\<forall>sc. scan = Some sc \<longrightarrow> (\<exists>u v res. sc u = (Inr res, v) \<and> sc_decision res \<noteq> ''BLOCK''))"
  using assms by (rule simulate_deploys)

theorem simulation_deploys_only_passed_witness:
  "\<exists>d. map_of (fc_deployments (sample_factory clean_scan)) (''a'', ''d'') = Some d \<and> dp_mode d \<noteq> ''manual''"
proof -
  let ?s = "sample_factory clean_scan"
  let ?t = "snd (simulate sample_cloud sample_settings (Some (ret clean_result)) ''t'' ''a'' ''d'' ?s)"
  have "merges ?t \<noteq> [] \<and> merges ?s = []" by code_simp
  then have "\<not> undeployed ?s ?t" by (auto simp: undeployed_def)
  then show ?thesis
    using simulation_deploys_only_passed [of ?s sample_cloud sample_settings "Some (ret clean_result)" "''t''" "''a''" "''d''"]
    by (auto intro: undeployed_frame.stays_ret)
qed



section \<open>The platform's API\<close>







text \<open>
  C32. A session of Build with AI is approved once: whatever the outcome of an approval, a second
  one by anyone of the tenant is answered with 409 and changes nothing.
\<close>

theorem session_is_approved_once:
  assumes "sessions_keyed s" and "session_row (us_tenant u) i s \<noteq> None"
  shows "\<exists>d. approve_build ps' u i skip' edited' (snd (approve_build ps u i skip edited s))
     = (Inl (HttpError 409 d), snd (approve_build ps u i skip edited s))"
proof -
  obtain b where b: "session_row (us_tenant u) i s = Some b" using assms(2) by auto
  with assms(1) have "bs_tenant b = us_tenant u" "bs_id b = i" by (simp_all add: sessions_keyed_def)
  with b show ?thesis by (intro approve_once) (simp_all add: prod_eq_iff)
qed

theorem session_is_approved_once_witness:
  "\<exists>d. fst (approve_build sample_platform_services sample_user ''n'' [] []
     (snd (approve_build sample_platform_services sample_user ''n'' [] [] sample_platform))) = Inl (HttpError 409 d)"
proof -
  have "session_row (us_tenant sample_user) ''n'' sample_platform \<noteq> None" by (simp add: sample_session_found del: sample_user_tenant)
  from session_is_approved_once [OF sample_sessions_keyed this, of sample_platform_services "[]" "[]"
      sample_platform_services "[]" "[]"] show ?thesis by auto
qed

section \<open>Generated infrastructure\<close>





section \<open>The agents API\<close>



text \<open>
  C36. No run of requests to the agents API, whoever makes them, moves an agent's live version,
  restores a revoked key (a rotation included), removes an agent or takes its version number back.
  (Creating and cloning are left out: the check that a drawn agent id is new looks at one row.)
\<close>

theorem revoked_keys_stay_revoked:
  assumes "list_all (\<lambda>(token, rq). \<not> creates rq) rqs" and "keyed (registry_of s)"
    and "map_of (rg_agents (registry_of s)) (tenant, agent) = Some (Whole x)"
  shows "\<exists>y. map_of (rg_agents (registry_of (serve_run av rqs s))) (tenant, agent) = Some (Whole y) \<and>
     ag_live_version y = ag_live_version x \<and> ag_current_version x \<le> ag_current_version y \<and>
     (ag_key_revoked x \<longrightarrow> ag_key_revoked y) \<and> ag_created_by y = ag_created_by x \<and> ag_created_at y = ag_created_at x"
  using serve_run_rows_succeed [of rqs s av] assms unfolding rows_succeed_def successor_def list_all_iff by blast

theorem revoked_keys_stay_revoked_witness:
  "\<exists>y. map_of (rg_agents (registry_of (serve_run sample_agent_services
      [(Some ''good'', RevokeKey ''a''), (Some ''good'', RotateKey ''a''), (None, DeployAgent ''a'')] sample_backend))) (''t'', ''a'')
      = Some (Whole y) \<and> ag_live_version y = Some 1"
proof -
  have row: "map_of (rg_agents (registry_of sample_backend)) (''t'', ''a'') = Some (Whole sample_record)" by (simp add: sample_agents_rows)
  have "list_all (\<lambda>(token, rq). \<not> creates rq) [(Some ''good'', RevokeKey ''a''), (Some ''good'', RotateKey ''a''), (None, DeployAgent ''a'')]"
    by simp
  from revoked_keys_stay_revoked [OF this sample_backend_keyed row, of sample_agent_services]
  show ?thesis by (auto simp del: serve_run.simps simp: sample_record_def sample_agent_def)
qed



text \<open>
  C38. The administrator's API keeps secrets to itself: two requests that differ only in the text of
  a given secret, served on states that differ only in the values of stored secrets, have the same
  answer and lead to states that again differ only in those values. So no answer and no stored row
  depends on a secret's text.
\<close>

theorem admin_answers_hide_secrets:
  assumes "same_request rq rq'" and "blind s t"
  shows "fst (serve_admin ad token rq s) = fst (serve_admin ad token rq' t) \<and>
    blind (snd (serve_admin ad token rq s)) (snd (serve_admin ad token rq' t))"
  using alike_serve [OF assms(1)] assms(2) by (rule alikeD)

theorem admin_answers_hide_secrets_witness:
  "fst (serve_admin sample_admin_services (Some ''good'') (SaveNewRelic True (Some ''one'')) sample_backend) =
   fst (serve_admin sample_admin_services (Some ''good'') (SaveNewRelic True (Some ''two''))
     (sample_backend\<lparr>bk_secrets := [(''arn'', ''sk-new'')]\<rparr>))"
  by (rule conjunct1 [OF admin_answers_hide_secrets]) (simp_all add: blind_def sample_backend_def truthy_def)

section \<open>The playground\<close>



section \<open>The platform upgrade\<close>

text \<open>
  C40. An execution of the upgrade machine, alone on its tables, ends within six steps. It ends as
  upgraded with the service on a new revision that was registered from the old one with the target's
  image, and only after the health endpoint reported the target version; or as reverted with the
  service on the revision it started from and the failure recorded; or, when a call that moves the
  service back failed, in a failed execution. (A failure is always recorded under the stage
  UNKNOWN, since the machine never says which stage failed.)
\<close>

theorem upgrade_ends_on_new_or_old_revision:
  assumes "map_of (ug_table s) (ue_id ev) = Some u" and "gu_id u = ue_id ev" and "gu_previous u = None"
    and "ue_id ev \<noteq> []" and "ug_service s \<noteq> []" and "6 \<le> n"
    and "upgrade_steps uv ev n upgrade_start s = (x, t)"
  shows "case ux_state x of
      Upgraded \<Rightarrow> revision_of ev (ug_service s) (ug_service t) t \<and> version_confirmed uv (ue_target ev) \<and>
        (\<exists>v. map_of (ug_table t) (ue_id ev) = Some v \<and> gu_status v = ''ACTIVE'')
    | Reverted \<Rightarrow> ug_service t = ug_service s \<and>
        (\<exists>v. map_of (ug_table t) (ue_id ev) = Some v \<and> gu_status v \<in> {''FAILED'', ''ROLLED_BACK''} \<and> gu_failed v = Some ''UNKNOWN'')
    | Broken \<Rightarrow> (\<exists>w e w'. uv_call uv (UpdateService (ug_service s)) w = (Some e, w'))
    | _ \<Rightarrow> False"
proof -
  have "upgrade_invariant uv ev (ug_service s) upgrade_start s"
    using assms(1-3) by (simp add: upgrade_invariant_def upgrade_start_def recorded_previous_def row_def)
  then have inv: "upgrade_invariant uv ev (ug_service s) x t"
    by (rule upgrade_steps_invariant [OF _ assms(4,5,7)])
  have "upgrade_rank (ux_state x) = 0"
    using upgrade_steps_rank [OF assms(7)] assms(6) by (simp add: upgrade_start_def upgrade_rank_def)
  with inv show ?thesis
    by (auto dest!: upgrade_ended simp: upgrade_invariant_def on_new_revision_def row_def)
qed

theorem upgrade_ends_on_new_or_old_revision_witness:
  "\<exists>x t. upgrade_steps (sample_upgrade_services ''2.0'') (sample_upgrade_event ''one'' ''2.0'') 6 upgrade_start sample_upgrades = (x, t) \<and>
     revision_of (sample_upgrade_event ''one'' ''2.0'') ''revision-0'' (ug_service t) t"
proof -
  obtain x t where run: "upgrade_steps (sample_upgrade_services ''2.0'') (sample_upgrade_event ''one'' ''2.0'') 6 upgrade_start
      sample_upgrades = (x, t)" by fastforce
  have row: "map_of (ug_table sample_upgrades) (ue_id (sample_upgrade_event ''one'' ''2.0''))
      = Some (new_upgrade 0 (sample_upgrade_event ''one'' ''2.0'') ''me'')"
    by (simp add: sample_upgrades_def sample_upgrade_event_def)
  have "ux_state x = Upgraded" using sample_upgrade_ends run by simp
  with upgrade_ends_on_new_or_old_revision [OF row _ _ _ _ _ run]
  have "revision_of (sample_upgrade_event ''one'' ''2.0'') (ug_service sample_upgrades) (ug_service t) t"
    by (simp add: new_upgrade_def) (simp add: sample_upgrade_event_def sample_upgrades_def)
  with run show ?thesis by (auto simp: sample_upgrades_def)
qed

end
